(* ===== verification/Prelude.thy ===== *)
theory Prelude imports Main begin

text \<open>
  Shared foundations of the development: Python exceptions and results, the two
  shapes a database operation can have, the timestamps and durations of the code,
  and the tables the Django models are stored in, with the lemmas about lookups,
  inserts, updates and aggregates that every component uses.
  The interface locales (a keyed store, an invariant of a transition system, a
  replayable command) are stated here and interpreted by the components that
  provide them.
\<close>

named_theorems tbl_simps \<open>rewriting of table operations\<close>
named_theorems wf_intros \<open>well-formedness of tables after an operation\<close>

section \<open>Exceptions and results\<close>

text \<open>
  The exceptions the modelled code raises or lets pass. The classes with a parent
  in the source keep it through \<open>is_subclass\<close>, so that the order of except
  clauses can be modelled.
\<close>

datatype exn =
    IntegrityError
  | ObjectDoesNotExist
  | OperationalError string
  | TypeError
  | ValueError
  | KeyError
  | IndexError
  | AttributeError
  | RuntimeError
  | ValidationError
  | PermissionDenied
  | TransferUnavailable
  | IdempotencyConflict
  | AccountNotEmpty
  | CommandError
  | TradeError
  | TradeConflict
  | ReviewAuthorityError
  | NotificationAuthorizationError
  | ReportSubmissionError
  | DuplicateReportError
  | ModerationPolicyError
  | ManagementError
  | ManagementDenied
  | ManagementNotFound
  | ManagementConflict
  | ManagementUnavailable
  | ChatAuthorizationError
  | ChatReplayConflict
  | ChatRateLimited nat
  | ChatPolicyError
  | WithdrawalBlocked
  | WithdrawalUnavailable
  | RevocationPreparationError
  | ImproperlyConfigured
  | ConnectionError

fun exn_parent :: "exn \<Rightarrow> exn option" where
  "exn_parent AccountNotEmpty = Some ValueError"
| "exn_parent TradeConflict = Some TradeError"
| "exn_parent ReviewAuthorityError = Some ValueError"
| "exn_parent ReportSubmissionError = Some ValueError"
| "exn_parent DuplicateReportError = Some ReportSubmissionError"
| "exn_parent ModerationPolicyError = Some ValueError"
| "exn_parent ManagementDenied = Some ManagementError"
| "exn_parent ManagementNotFound = Some ManagementError"
| "exn_parent ManagementConflict = Some ManagementError"
| "exn_parent ManagementUnavailable = Some ManagementError"
| "exn_parent ChatPolicyError = Some ValueError"
| "exn_parent WithdrawalBlocked = Some ValueError"
| "exn_parent WithdrawalUnavailable = Some RuntimeError"
| "exn_parent ManagementError = Some RuntimeError"
| "exn_parent RevocationPreparationError = Some ValueError"
| "exn_parent _ = None"

definition is_subclass :: "exn \<Rightarrow> exn \<Rightarrow> bool" where
  "is_subclass e c \<longleftrightarrow>
     e = c \<or> exn_parent e = Some c \<or>
     (case exn_parent e of Some p \<Rightarrow> exn_parent p = Some c | None \<Rightarrow> False)"

text \<open>
  A pure computation that may raise is an \<open>exn + 'a\<close>. A transaction
  (\<open>transaction.atomic\<close>) returns either the exception that rolled it back or its
  result with the new database; \<open>atomic\<close> runs it, so that a raise leaves the
  database as it was. An operation whose effects can survive a raise (several
  transactions in a row) has the type of \<open>atomic\<close>'s result.
\<close>

type_synonym 'a result = "exn + 'a"
type_synonym ('a, 's) tx = "'s \<Rightarrow> exn + ('a \<times> 's)"
type_synonym ('a, 's) action = "'s \<Rightarrow> (exn + 'a) \<times> 's"

definition atomic :: "('a, 's) tx \<Rightarrow> ('a, 's) action" where
  "atomic t s = (case t s of Inl e \<Rightarrow> (Inl e, s) | Inr (a, s') \<Rightarrow> (Inr a, s'))"

lemma atomic_Inl [simp]: "t s = Inl e \<Longrightarrow> atomic t s = (Inl e, s)"
  by (simp add: atomic_def)

lemma atomic_Inr [simp]: "t s = Inr (a, s') \<Longrightarrow> atomic t s = (Inr a, s')"
  by (simp add: atomic_def)

lemma atomic_rollback: "atomic t s = (Inl e, s') \<Longrightarrow> s' = s"
  by (auto simp: atomic_def split: sum.splits prod.splits)

lemma atomic_preserves:
  "(\<And>a s'. t s = Inr (a, s') \<Longrightarrow> P s') \<Longrightarrow> P s \<Longrightarrow> P (snd (atomic t s))"
  by (auto simp: atomic_def split: sum.splits prod.splits)

section \<open>Time\<close>

text \<open>Instants and durations are microseconds, as Python's datetime counts them.\<close>

type_synonym instant = int

definition seconds :: "int \<Rightarrow> int" where "seconds n = n * 1000000"
definition minutes :: "int \<Rightarrow> int" where "minutes n = n * 60000000"
definition hours :: "int \<Rightarrow> int" where "hours n = n * 3600000000"
definition days :: "int \<Rightarrow> int" where "days n = n * 86400000000"

lemmas duration_defs = seconds_def minutes_def hours_def days_def

section \<open>Tables\<close>

text \<open>
  A table holds its rows with their primary keys in insertion order and the next
  value of its key sequence, which deletes do not rewind.
\<close>

record 'a table =
  rows :: "(nat \<times> 'a) list"
  next_pk :: nat

definition empty_table :: "'a table" where
  "empty_table = \<lparr>rows = [], next_pk = 1\<rparr>"

definition wf_table :: "'a table \<Rightarrow> bool" where
  "wf_table t \<longleftrightarrow> distinct (map fst (rows t)) \<and> (\<forall>k \<in> set (map fst (rows t)). k < next_pk t)"

definition tget :: "'a table \<Rightarrow> nat \<Rightarrow> 'a option" where
  "tget t k = map_of (rows t) k"

definition tinsert :: "nat \<Rightarrow> 'a \<Rightarrow> 'a table \<Rightarrow> 'a table" where
  "tinsert k r t = \<lparr>rows = rows t @ [(k, r)], next_pk = max (next_pk t) (Suc k)\<rparr>"

definition tcreate :: "'a \<Rightarrow> 'a table \<Rightarrow> nat \<times> 'a table" where
  "tcreate r t = (next_pk t, tinsert (next_pk t) r t)"

definition tupdate :: "(nat \<Rightarrow> 'a \<Rightarrow> bool) \<Rightarrow> ('a \<Rightarrow> 'a) \<Rightarrow> 'a table \<Rightarrow> 'a table" where
  "tupdate P f t = t\<lparr>rows := map (\<lambda>(k, r). (k, if P k r then f r else r)) (rows t)\<rparr>"

definition tmodify :: "nat \<Rightarrow> ('a \<Rightarrow> 'a) \<Rightarrow> 'a table \<Rightarrow> 'a table" where
  "tmodify k f t = tupdate (\<lambda>i _. i = k) f t"

definition tdelete :: "(nat \<Rightarrow> 'a \<Rightarrow> bool) \<Rightarrow> 'a table \<Rightarrow> 'a table" where
  "tdelete P t = t\<lparr>rows := filter (\<lambda>(k, r). \<not> P k r) (rows t)\<rparr>"

definition tselect :: "(nat \<Rightarrow> 'a \<Rightarrow> bool) \<Rightarrow> 'a table \<Rightarrow> (nat \<times> 'a) list" where
  "tselect P t = filter (\<lambda>(k, r). P k r) (rows t)"

definition tfirst :: "(nat \<Rightarrow> 'a \<Rightarrow> bool) \<Rightarrow> 'a table \<Rightarrow> (nat \<times> 'a) option" where
  "tfirst P t = find (\<lambda>(k, r). P k r) (rows t)"

definition texists :: "(nat \<Rightarrow> 'a \<Rightarrow> bool) \<Rightarrow> 'a table \<Rightarrow> bool" where
  "texists P t = list_ex (\<lambda>(k, r). P k r) (rows t)"

definition tcount :: "(nat \<Rightarrow> 'a \<Rightarrow> bool) \<Rightarrow> 'a table \<Rightarrow> nat" where
  "tcount P t = length (tselect P t)"

definition tall :: "(nat \<Rightarrow> 'a \<Rightarrow> bool) \<Rightarrow> 'a table \<Rightarrow> bool" where
  "tall P t = list_all (\<lambda>(k, r). P k r) (rows t)"

definition tsum :: "(nat \<Rightarrow> 'a \<Rightarrow> int) \<Rightarrow> 'a table \<Rightarrow> int" where
  "tsum g t = sum_list (map (\<lambda>(k, r). g k r) (rows t))"

lemmas table_defs = tget_def tinsert_def tcreate_def tupdate_def tmodify_def tdelete_def
  tselect_def tfirst_def texists_def tcount_def tall_def tsum_def

subsection \<open>Lookups\<close>

lemma tget_iff: "wf_table t \<Longrightarrow> tget t k = Some r \<longleftrightarrow> (k, r) \<in> set (rows t)"
  by (auto simp: wf_table_def tget_def)

lemma tget_in_rows: "tget t k = Some r \<Longrightarrow> (k, r) \<in> set (rows t)"
  by (auto simp: tget_def dest: map_of_SomeD)

lemma tget_lt: "wf_table t \<Longrightarrow> tget t k = Some r \<Longrightarrow> k < next_pk t"
  by (force simp: wf_table_def dest: tget_in_rows)

lemma tget_next_pk [tbl_simps]: "wf_table t \<Longrightarrow> tget t (next_pk t) = None"
  by (metis not_Some_eq order_less_irrefl tget_lt)

lemma tget_tinsert:
  "tget (tinsert k r t) i = (case tget t i of None \<Rightarrow> if i = k then Some r else None | Some w \<Rightarrow> Some w)"
  by (auto simp: tget_def tinsert_def map_add_def split: option.splits)

lemma tget_tinsert_fresh [tbl_simps]:
  "tget t k = None \<Longrightarrow> tget (tinsert k r t) i = (if i = k then Some r else tget t i)"
  by (auto simp: tget_tinsert split: option.splits)

lemma tget_tcreate [tbl_simps]:
  "wf_table t \<Longrightarrow> tget (snd (tcreate r t)) i = (if i = next_pk t then Some r else tget t i)"
  by (simp add: tcreate_def tbl_simps)

lemma fst_tcreate [simp]: "fst (tcreate r t) = next_pk t"
  by (simp add: tcreate_def)

lemma map_of_map_upd: "map_of (map (\<lambda>(k, r). (k, if P k r then f r else r)) xs) i =
    map_option (\<lambda>r. if P i r then f r else r) (map_of xs i)"
  by (induction xs) auto

lemma tget_tupdate [tbl_simps]:
  "tget (tupdate P f t) i = map_option (\<lambda>r. if P i r then f r else r) (tget t i)"
  by (simp add: tget_def tupdate_def map_of_map_upd)

lemma tget_tmodify [tbl_simps]:
  "tget (tmodify k f t) i = (if i = k then map_option f (tget t i) else tget t i)"
  by (cases "tget t i") (auto simp: tmodify_def tbl_simps)

lemma map_of_filter_keys: "distinct (map fst xs) \<Longrightarrow>
    map_of (filter (\<lambda>(k, r). Q k r) xs) i =
    (case map_of xs i of None \<Rightarrow> None | Some r \<Rightarrow> if Q i r then Some r else None)"
  by (induction xs) (auto split: option.splits dest: map_of_SomeD simp: rev_image_eqI)

lemma tget_tdelete [tbl_simps]:
  "wf_table t \<Longrightarrow> tget (tdelete P t) i =
     (case tget t i of None \<Rightarrow> None | Some r \<Rightarrow> if P i r then None else Some r)"
  by (auto simp: tget_def tdelete_def wf_table_def map_of_filter_keys split: option.splits)

subsection \<open>Well-formedness\<close>

lemma wf_empty_table [wf_intros]: "wf_table empty_table"
  by (simp add: wf_table_def empty_table_def)

lemma wf_tinsert [wf_intros]: "wf_table t \<Longrightarrow> tget t k = None \<Longrightarrow> wf_table (tinsert k r t)"
  by (auto simp: wf_table_def tinsert_def tget_def map_of_eq_None_iff)

lemma wf_tcreate [wf_intros]: "wf_table t \<Longrightarrow> wf_table (snd (tcreate r t))"
  by (simp add: tcreate_def wf_tinsert tget_next_pk)

lemma map_fst_tupdate [simp]: "map fst (rows (tupdate P f t)) = map fst (rows t)"
  by (simp add: tupdate_def comp_def case_prod_beta)

lemma next_pk_tupdate [simp]: "next_pk (tupdate P f t) = next_pk t"
  by (simp add: tupdate_def)

lemma wf_tupdate [wf_intros]: "wf_table t \<Longrightarrow> wf_table (tupdate P f t)"
  by (metis wf_table_def map_fst_tupdate next_pk_tupdate)

lemma wf_tmodify [wf_intros]: "wf_table t \<Longrightarrow> wf_table (tmodify k f t)"
  by (simp add: tmodify_def wf_tupdate)

lemma wf_tdelete [wf_intros]: "wf_table t \<Longrightarrow> wf_table (tdelete P t)"
  by (auto simp: wf_table_def tdelete_def distinct_map_filter)


lemma rows_tcreate [simp]: "rows (snd (tcreate r t)) = rows t @ [(next_pk t, r)]"
  by (simp add: tcreate_def tinsert_def)

lemma rows_tinsert [simp]: "rows (tinsert k r t) = rows t @ [(k, r)]"
  by (simp add: tinsert_def)

subsection \<open>Quantified and first-match queries\<close>

lemma texists_iff: "wf_table t \<Longrightarrow> texists P t \<longleftrightarrow> (\<exists>k r. tget t k = Some r \<and> P k r)"
  by (auto simp: texists_def list_ex_iff tget_iff)

lemma tall_iff: "wf_table t \<Longrightarrow> tall P t \<longleftrightarrow> (\<forall>k r. tget t k = Some r \<longrightarrow> P k r)"
  by (auto simp: tall_def list_all_iff tget_iff)

lemma tallD: "tall P t \<Longrightarrow> tget t k = Some r \<Longrightarrow> P k r"
  by (auto simp: tall_def list_all_iff dest: tget_in_rows)

lemma tall_mono: "tall P t \<Longrightarrow> (\<And>k r. P k r \<Longrightarrow> Q k r) \<Longrightarrow> tall Q t"
  by (auto simp: tall_def list_all_iff)

lemma tall_tcreate [tbl_simps]: "tall P (snd (tcreate r t)) \<longleftrightarrow> tall P t \<and> P (next_pk t) r"
  by (simp add: tall_def)

lemma tall_tupdate_same: "(\<And>i r. P i (f r) = P i r) \<Longrightarrow> tall P (tupdate Q f t) = tall P t"
  by (auto simp: tall_def tupdate_def list_all_iff split: prod.splits)

lemma tall_tmodify_same: "(\<And>i r. P i (f r) = P i r) \<Longrightarrow> tall P (tmodify k f t) = tall P t"
  by (simp add: tmodify_def tall_tupdate_same)

lemma tall_tinsert [tbl_simps]: "tall P (tinsert k r t) \<longleftrightarrow> tall P t \<and> P k r"
  by (simp add: tall_def)

lemma texists_tget: "tget t k = Some r \<Longrightarrow> P k r \<Longrightarrow> texists P t"
  by (auto simp: texists_def list_ex_iff dest: tget_in_rows)

text \<open>A nullable foreign key: null, or the key of a row.\<close>

fun fk_ok :: "'a table \<Rightarrow> nat option \<Rightarrow> bool" where
  "fk_ok t None = True"
| "fk_ok t (Some k) \<longleftrightarrow> tget t k \<noteq> None"

lemma texists_empty [tbl_simps]: "texists P empty_table = False"
  by (simp add: texists_def empty_table_def)

lemma texists_tinsert [tbl_simps]: "texists P (tinsert k r t) \<longleftrightarrow> texists P t \<or> P k r"
  by (simp add: texists_def)

lemma texists_tcreate [tbl_simps]:
  "texists P (snd (tcreate r t)) \<longleftrightarrow> texists P t \<or> P (next_pk t) r"
  by (simp add: texists_def)

lemma texists_tupdate [tbl_simps]:
  "texists P (tupdate Q f t) \<longleftrightarrow> texists (\<lambda>k r. P k (if Q k r then f r else r)) t"
  by (auto simp: texists_def tupdate_def list_ex_iff split: prod.splits)

lemma texists_tdelete [tbl_simps]:
  "texists P (tdelete Q t) \<longleftrightarrow> texists (\<lambda>k r. P k r \<and> \<not> Q k r) t"
  by (auto simp: texists_def tdelete_def list_ex_iff)

lemma tfirst_None: "tfirst P t = None \<longleftrightarrow> \<not> texists P t"
  by (auto simp: tfirst_def texists_def find_None_iff list_ex_iff)

lemma find_SomeD: "find P xs = Some x \<Longrightarrow> P x \<and> x \<in> set xs"
  by (induction xs) (auto split: if_splits)

lemma tfirst_SomeD: "tfirst P t = Some (k, r) \<Longrightarrow> P k r \<and> (k, r) \<in> set (rows t)"
  unfolding tfirst_def using find_SomeD [of "\<lambda>(k, r). P k r" "rows t" "(k, r)"] by simp

lemma tfirst_tget: "wf_table t \<Longrightarrow> tfirst P t = Some (k, r) \<Longrightarrow> tget t k = Some r"
  using tfirst_SomeD [of P t k r] by (simp add: tget_iff)

lemma tfirst_unique:
  assumes "wf_table t" "tget t k = Some r" "P k r"
    and "\<And>k' r'. tget t k' = Some r' \<Longrightarrow> P k' r' \<Longrightarrow> k' = k"
  shows "tfirst P t = Some (k, r)"
proof (cases "tfirst P t")
  case None
  with assms(1-3) have False by (simp add: tfirst_None texists_iff)
  then show ?thesis ..
next
  case (Some kr)
  obtain k' r' where kr: "kr = (k', r')" by force
  with Some assms(1) have r': "tget t k' = Some r'" "P k' r'"
    using tfirst_tget [of t P k' r'] tfirst_SomeD [of P t k' r'] by simp_all
  with assms(4) have "k' = k" by blast
  with r' assms(2) kr Some show ?thesis by simp
qed

lemma find_snoc: "find P (xs @ [x]) = (case find P xs of None \<Rightarrow> if P x then Some x else None | Some y \<Rightarrow> Some y)"
  by (induction xs) auto

lemma tfirst_tcreate: "tfirst P (snd (tcreate r t)) =
    (case tfirst P t of None \<Rightarrow> if P (next_pk t) r then Some (next_pk t, r) else None | Some x \<Rightarrow> Some x)"
  by (simp add: tfirst_def find_snoc)

subsection \<open>Append-only tables\<close>

text \<open>\<open>BEFORE UPDATE OR DELETE ... RAISE EXCEPTION\<close>: from one state to the next, no row is changed or gone.\<close>

definition append_only :: "'r table \<Rightarrow> 'r table \<Rightarrow> bool" where
  "append_only t t' \<longleftrightarrow> (\<forall>k r. tget t k = Some r \<longrightarrow> tget t' k = Some r)"

lemma append_only_refl [intro, simp]: "append_only t t"
  by (simp add: append_only_def)

lemma append_only_trans: "append_only t t' \<Longrightarrow> append_only t' t'' \<Longrightarrow> append_only t t''"
  by (simp add: append_only_def)

lemma append_only_tcreate: "append_only t t' \<Longrightarrow> append_only t (snd (tcreate r t'))"
  by (auto simp: append_only_def tcreate_def tget_tinsert)

lemma append_only_tinsert: "append_only t t' \<Longrightarrow> append_only t (tinsert k r t')"
  by (auto simp: append_only_def tget_tinsert)

lemma find_map_upd:
  "(\<And>i r. P i (f r) = P i r) \<Longrightarrow>
   find (\<lambda>(i, r). P i r) (map (\<lambda>(i, r). (i, if Q i r then f r else r)) xs) =
   map_option (\<lambda>(i, r). (i, if Q i r then f r else r)) (find (\<lambda>(i, r). P i r) xs)"
  by (induction xs) (auto split: prod.splits)

lemma tfirst_tmodify:
  "(\<And>i r. P i (f r) = P i r) \<Longrightarrow>
   tfirst P (tmodify k f t) = map_option (\<lambda>(i, r). (i, if i = k then f r else r)) (tfirst P t)"
  by (simp add: tfirst_def tmodify_def tupdate_def find_map_upd)

lemma tdelete_tdelete: "tdelete P (tdelete Q t) = tdelete (\<lambda>k r. P k r \<or> Q k r) t"
  by (simp add: tdelete_def split_def conj_commute)

lemma tdelete_cong: "(\<And>k r. (k, r) \<in> set (rows t) \<Longrightarrow> P k r = Q k r) \<Longrightarrow> tdelete P t = tdelete Q t"
  unfolding tdelete_def by (intro arg_cong [where f = "\<lambda>xs. t\<lparr>rows := xs\<rparr>"] filter_cong) auto

lemma tcount_tdelete: "tcount P (tdelete Q t) = tcount (\<lambda>k r. P k r \<and> \<not> Q k r) t"
  by (simp add: tcount_def tselect_def tdelete_def split_def conj_commute)

lemma tcount_split: "tcount P t = tcount (\<lambda>k r. P k r \<and> \<not> Q k r) t + tcount (\<lambda>k r. P k r \<and> Q k r) t"
proof -
  have "length (filter f xs) = length (filter (\<lambda>x. f x \<and> \<not> g x) xs) + length (filter (\<lambda>x. f x \<and> g x) xs)"
    for f g :: "nat \<times> 'a \<Rightarrow> bool" and xs
    by (induction xs) auto
  from this [of "\<lambda>(k, r). P k r" "rows t" "\<lambda>(k, r). Q k r"] show ?thesis
    by (simp add: tcount_def tselect_def split_def)
qed

lemma tcount_cong: "(\<And>k r. (k, r) \<in> set (rows t) \<Longrightarrow> P k r = Q k r) \<Longrightarrow> tcount P t = tcount Q t"
  by (auto simp: tcount_def tselect_def intro!: arg_cong [of _ _ length] filter_cong)

lemma tselect_set: "(k, r) \<in> set (tselect P t) \<longleftrightarrow> (k, r) \<in> set (rows t) \<and> P k r"
  by (auto simp: tselect_def)

lemma tselect_tinsert [tbl_simps]:
  "tselect P (tinsert k r t) = tselect P t @ (if P k r then [(k, r)] else [])"
  by (simp add: tselect_def)

lemma tselect_tcreate [tbl_simps]:
  "tselect P (snd (tcreate r t)) = tselect P t @ (if P (next_pk t) r then [(next_pk t, r)] else [])"
  by (simp add: tselect_def)

lemma tcount_tinsert [tbl_simps]: "tcount P (tinsert k r t) = tcount P t + (if P k r then 1 else 0)"
  by (simp add: tcount_def tbl_simps)

lemma tcount_tcreate [tbl_simps]:
  "tcount P (snd (tcreate r t)) = tcount P t + (if P (next_pk t) r then 1 else 0)"
  by (simp add: tcount_def tbl_simps)

lemma tcount_zero: "tcount P t = 0 \<longleftrightarrow> \<not> texists P t"
  by (auto simp: tcount_def tselect_def texists_def filter_empty_conv list_ex_iff)

lemma filter_map_upd_same:
  "(\<And>k r. (k, r) \<in> set xs \<Longrightarrow> P k r \<Longrightarrow> \<not> Q k r) \<Longrightarrow>
   (\<And>k r. (k, r) \<in> set xs \<Longrightarrow> Q k r \<Longrightarrow> \<not> P k (f r)) \<Longrightarrow>
   filter (\<lambda>(k, r). P k r) (map (\<lambda>(k, r). (k, if Q k r then f r else r)) xs)
     = filter (\<lambda>(k, r). P k r) xs"
proof (induction xs)
  case (Cons a xs)
  then show ?case by (cases a) auto
qed simp

lemma tselect_tupdate_same:
  "(\<And>k r. (k, r) \<in> set (rows t) \<Longrightarrow> P k r \<Longrightarrow> \<not> Q k r) \<Longrightarrow>
   (\<And>k r. (k, r) \<in> set (rows t) \<Longrightarrow> Q k r \<Longrightarrow> \<not> P k (f r)) \<Longrightarrow>
   tselect P (tupdate Q f t) = tselect P t"
  unfolding tselect_def tupdate_def by (auto intro: filter_map_upd_same)

subsection \<open>Sums over a table\<close>

lemma tsum_empty [tbl_simps]: "tsum g empty_table = 0"
  by (simp add: tsum_def empty_table_def)

lemma tsum_tinsert [tbl_simps]: "tsum g (tinsert k r t) = tsum g t + g k r"
  by (simp add: tsum_def)

lemma tsum_tcreate [tbl_simps]: "tsum g (snd (tcreate r t)) = tsum g t + g (next_pk t) r"
  by (simp add: tsum_def)

lemma tsum_tupdate: "tsum g (tupdate P f t) = tsum (\<lambda>k r. g k (if P k r then f r else r)) t"
  by (simp add: tsum_def tupdate_def comp_def case_prod_unfold)

lemma tsum_cong: "(\<And>k r. (k, r) \<in> set (rows t) \<Longrightarrow> g k r = h k r) \<Longrightarrow> tsum g t = tsum h t"
  unfolding tsum_def by (rule arg_cong[where f = sum_list]) auto

lemma tsum_zero: "(\<And>k r. (k, r) \<in> set (rows t) \<Longrightarrow> g k r = 0) \<Longrightarrow> tsum g t = 0"
  by (subst tsum_cong [of t g "\<lambda>_ _. 0"]) (simp_all add: tsum_def case_prod_unfold)

lemma sum_list_other_keys:
  "k \<notin> fst ` set xs \<Longrightarrow> (\<Sum>(i, x)\<leftarrow>xs. g i (if i = k then f x else x)) = (\<Sum>(i, x)\<leftarrow>xs. g i x)"
  by (induction xs) auto

lemma sum_list_single_key:
  fixes g :: "nat \<Rightarrow> 'a \<Rightarrow> int"
  assumes "distinct (map fst xs)" "map_of xs k = Some r"
  shows "(\<Sum>(i, x)\<leftarrow>xs. g i (if i = k then f x else x)) = (\<Sum>(i, x)\<leftarrow>xs. g i x) - g k r + g k (f r)"
  using assms
proof (induction xs)
  case (Cons a xs)
  obtain i x where a: "a = (i, x)" by force
  show ?case
  proof (cases "i = k")
    case True
    with Cons.prems a have "x = r" and "k \<notin> fst ` set xs" by auto
    with True a show ?thesis by (simp add: sum_list_other_keys)
  next
    case False
    with Cons a show ?thesis by simp
  qed
qed simp

lemma tsum_tmodify:
  "wf_table t \<Longrightarrow> tget t k = Some r \<Longrightarrow> tsum g (tmodify k f t) = tsum g t - g k r + g k (f r)"
  unfolding tmodify_def tsum_tupdate
  by (simp add: tsum_def wf_table_def tget_def sum_list_single_key)

lemma tsum_nonneg: "(\<And>k r. (k, r) \<in> set (rows t) \<Longrightarrow> 0 \<le> g k r) \<Longrightarrow> 0 \<le> tsum g t"
  unfolding tsum_def by (rule sum_list_nonneg) auto

lemma tupdate_cong:
  "(\<And>k r. (k, r) \<in> set (rows t) \<Longrightarrow> P k r \<Longrightarrow> f r = g r) \<Longrightarrow> tupdate P f t = tupdate P g t"
  unfolding tupdate_def by (auto intro!: arg_cong [where f = "\<lambda>x. t\<lparr>rows := x\<rparr>"])

text \<open>Overwriting one row is an update of that row's value.\<close>

lemma tmodify_overwrite:
  assumes "wf_table t" "tget t k = Some r"
  shows "tmodify k (\<lambda>_. r') t = tmodify k (\<lambda>x. if x = r then r' else x) t"
  unfolding tmodify_def
proof (rule tupdate_cong)
  fix i x
  assume "(i, x) \<in> set (rows t)" "i = k"
  with assms have "x = r" using tget_iff [OF assms(1), of k x] by simp
  then show "r' = (if x = r then r' else x)" by simp
qed

section \<open>Uniqueness of a column\<close>

text \<open>
  A unique constraint on the values \<open>g\<close> gives the rows; rows where it is \<open>None\<close> are outside
  the constraint (a conditional constraint, or a nullable column).
\<close>

definition unique_on :: "('a \<Rightarrow> 'b option) \<Rightarrow> 'a table \<Rightarrow> bool" where
  "unique_on g t \<longleftrightarrow> distinct (List.map_filter (\<lambda>(_, r). g r) (rows t))"

lemma set_map_filter: "set (List.map_filter f xs) = {y. \<exists>x \<in> set xs. f x = Some y}"
  by (induction xs) (auto split: option.splits)

lemma map_filter_append: "List.map_filter f (xs @ ys) = List.map_filter f xs @ List.map_filter f ys"
  by (induction xs) (auto split: option.splits)

lemma unique_empty [tbl_simps]: "unique_on g empty_table"
  by (simp add: unique_on_def empty_table_def)

lemma unique_tinsert [tbl_simps]:
  "unique_on g (tinsert k r t) \<longleftrightarrow>
     unique_on g t \<and> (g r = None \<or> \<not> texists (\<lambda>_ r'. g r' = g r) t)"
  by (cases "g r") (auto simp: unique_on_def map_filter_append set_map_filter texists_def
      list_ex_iff split: prod.splits)

lemma unique_tcreate [tbl_simps]:
  "unique_on g (snd (tcreate r t)) \<longleftrightarrow>
     unique_on g t \<and> (g r = None \<or> \<not> texists (\<lambda>_ r'. g r' = g r) t)"
  by (simp add: tcreate_def unique_tinsert)

lemma map_filter_update:
  "(\<And>r. g (f r) = g r) \<Longrightarrow>
   List.map_filter (\<lambda>(_, r). g r) (map (\<lambda>(k, r). (k, if P k r then f r else r)) xs) =
   List.map_filter (\<lambda>(_, r). g r) xs"
  by (induction xs) (auto split: option.splits if_splits)

lemma unique_tupdate: "(\<And>r. g (f r) = g r) \<Longrightarrow> unique_on g (tupdate P f t) = unique_on g t"
  by (simp add: unique_on_def tupdate_def map_filter_update)

lemma unique_tmodify: "(\<And>r. g (f r) = g r) \<Longrightarrow> unique_on g (tmodify k f t) = unique_on g t"
  by (simp add: tmodify_def unique_tupdate)

lemma map_filter_weaken:
  "(\<And>r. g (f r) = g r \<or> g (f r) = None) \<Longrightarrow>
   set (List.map_filter (\<lambda>(_, r). g r) (map (\<lambda>(k, r). (k, if P k r then f r else r)) xs))
     \<subseteq> set (List.map_filter (\<lambda>(_, r). g r) xs)"
proof (induction xs)
  case (Cons a xs)
  obtain k r where a: "a = (k, r)" by force
  from Cons.prems [of r] Cons.IH [OF Cons.prems] show ?case by (auto simp: a split: option.splits)
qed simp

lemma unique_tupdate_weaken:
  assumes g: "\<And>r. g (f r) = g r \<or> g (f r) = None" and "unique_on g t"
  shows "unique_on g (tupdate P f t)"
proof -
  have "distinct (List.map_filter (\<lambda>(_, r). g r) (map (\<lambda>(k, r). (k, if P k r then f r else r)) xs))"
    if "distinct (List.map_filter (\<lambda>(_, r). g r) xs)" for xs
    using that
  proof (induction xs)
    case (Cons a xs)
    obtain k r where a: "a = (k, r)" by force
    from map_filter_weaken [of g f P xs] g have
      sub: "set (List.map_filter (\<lambda>(_, r). g r) (map (\<lambda>(k, r). (k, if P k r then f r else r)) xs))
        \<subseteq> set (List.map_filter (\<lambda>(_, r). g r) xs)" by simp
    from Cons have ih: "distinct (List.map_filter (\<lambda>(_, r). g r) (map (\<lambda>(k, r). (k, if P k r then f r else r)) xs))"
      by (auto split: option.splits)
    have "\<forall>v. g r = Some v \<longrightarrow> v \<notin> set (List.map_filter (\<lambda>(_, r). g r) xs)"
      using Cons.prems by (auto simp: a)
    from g [of r] this sub ih show ?case by (auto simp: a split: option.splits)
  qed simp
  with assms(2) show ?thesis by (simp add: unique_on_def tupdate_def)
qed

lemma distinct_map_filter_in:
  "distinct (List.map_filter h xs) \<Longrightarrow> x \<in> set xs \<Longrightarrow> y \<in> set xs \<Longrightarrow> h x = Some v \<Longrightarrow> h y = Some v \<Longrightarrow> x = y"
proof (induction xs)
  case (Cons a xs)
  have "h a = Some w \<Longrightarrow> w \<notin> set (List.map_filter h xs)" for w
    using Cons.prems(1) by simp
  with Cons show ?case by (auto simp: set_map_filter split: option.splits)
qed simp

lemma unique_onD:
  assumes "unique_on g t" "tget t k = Some r" "tget t k' = Some r'" "g r = Some v" "g r' = Some v"
  shows "k = k'"
proof -
  have "(k, r) = (k', r')"
    by (rule distinct_map_filter_in [of "\<lambda>(_, r). g r" "rows t"])
       (use assms in \<open>auto simp: unique_on_def dest: tget_in_rows\<close>)
  then show ?thesis by simp
qed

lemma tfirst_unique_on:
  assumes "wf_table t" "unique_on g t" "tget t k = Some r" "g r = Some v"
  shows "tfirst (\<lambda>_ r. g r = Some v) t = Some (k, r)"
  by (rule tfirst_unique) (use assms in \<open>auto dest: unique_onD [OF assms(2)]\<close>)

section \<open>Interfaces\<close>

text \<open>
  A keyed store as the services use it: they create rows under keys the store picks,
  look them up and change single rows. The laws are what a Django manager promises
  for \<open>create\<close>, \<open>get\<close> and \<open>save\<close> on one table; the facts about rows in general are
  proved from them once.
\<close>

locale row_store =
  fixes lookup :: "'t \<Rightarrow> nat \<Rightarrow> 'a option"
    and create :: "'a \<Rightarrow> 't \<Rightarrow> nat \<times> 't"
    and modify :: "nat \<Rightarrow> ('a \<Rightarrow> 'a) \<Rightarrow> 't \<Rightarrow> 't"
    and invar :: "'t \<Rightarrow> bool"
  assumes create_fresh: "invar t \<Longrightarrow> lookup t (fst (create v t)) = None"
    and lookup_create: "invar t \<Longrightarrow> lookup (snd (create v t)) = (lookup t)(fst (create v t) \<mapsto> v)"
    and lookup_modify: "lookup (modify k f t) = (lookup t)(k := map_option f (lookup t k))"
    and invar_create: "invar t \<Longrightarrow> invar (snd (create v t))"
    and invar_modify: "invar t \<Longrightarrow> invar (modify k f t)"
begin

definition every :: "(nat \<Rightarrow> 'a \<Rightarrow> bool) \<Rightarrow> 't \<Rightarrow> bool" where
  "every P t \<longleftrightarrow> (\<forall>k v. lookup t k = Some v \<longrightarrow> P k v)"

lemma everyD: "every P t \<Longrightarrow> lookup t k = Some v \<Longrightarrow> P k v"
  by (simp add: every_def)

lemma every_create: "invar t \<Longrightarrow> every P t \<Longrightarrow> P (fst (create v t)) v \<Longrightarrow> every P (snd (create v t))"
  by (auto simp: every_def lookup_create)

lemma every_modify:
  "every P t \<Longrightarrow> (\<And>v. lookup t k = Some v \<Longrightarrow> P k (f v)) \<Longrightarrow> every P (modify k f t)"
  by (auto simp: every_def lookup_modify)

lemma create_keeps: "invar t \<Longrightarrow> lookup t k = Some v \<Longrightarrow> lookup (snd (create w t)) k = Some v"
  using create_fresh [of t w] by (auto simp: lookup_create)

lemma modify_other: "i \<noteq> k \<Longrightarrow> lookup (modify k f t) i = lookup t i"
  by (simp add: lookup_modify)

end

interpretation tbl: row_store tget tcreate tmodify wf_table
  by unfold_locales (auto simp: tbl_simps wf_intros fun_eq_iff)

text \<open>
  A component seen from outside: labelled steps between its states and an invariant
  every step keeps. A run is a sequence of steps; the invariant holds after every run.
\<close>

locale invariant_system =
  fixes step :: "'s \<Rightarrow> 'l \<Rightarrow> 's \<Rightarrow> bool"
    and inv :: "'s \<Rightarrow> bool"
  assumes step_inv: "step s l s' \<Longrightarrow> inv s \<Longrightarrow> inv s'"
begin

inductive run :: "'s \<Rightarrow> 'l list \<Rightarrow> 's \<Rightarrow> bool" where
  run_nil: "run s [] s"
| run_cons: "step s l s' \<Longrightarrow> run s' ls s'' \<Longrightarrow> run s (l # ls) s''"

lemma run_inv: "run s ls s' \<Longrightarrow> inv s \<Longrightarrow> inv s'"
  by (induction rule: run.induct) (auto intro: step_inv)

lemma run_append: "run s ls s' \<Longrightarrow> run s' ms s'' \<Longrightarrow> run s (ls @ ms) s''"
  by (induction rule: run.induct) (auto intro: run_cons)

lemma run_monotone:
  assumes "\<And>s l s'. step s l s' \<Longrightarrow> inv s \<Longrightarrow> R s s'" and "\<And>s. R s s"
    and "\<And>a b c. R a b \<Longrightarrow> R b c \<Longrightarrow> R a c"
  shows "run s ls s' \<Longrightarrow> inv s \<Longrightarrow> R s s'"
  by (induction rule: run.induct) (auto intro: assms step_inv)

end

text \<open>
  A command that may be delivered again, each time in another environment (other drawn keys,
  another time, other transient faults): once it has succeeded, a later delivery that
  succeeds gives the same answer and changes nothing. Then any sequence of deliveries has
  the effect of at most one.
\<close>

locale replayable =
  fixes exec :: "'e \<Rightarrow> 'c \<Rightarrow> 's \<Rightarrow> exn + ('r \<times> 's)"
    and same :: "'r \<Rightarrow> 'r \<Rightarrow> bool"
    and good :: "'s \<Rightarrow> bool"
  assumes replay: "good s \<Longrightarrow> exec e c s = Inr (r, s') \<Longrightarrow> exec e' c s' = Inr (r', s'') \<Longrightarrow>
      s'' = s' \<and> same r r'"
begin

fun deliver :: "'e list \<Rightarrow> 'c \<Rightarrow> 's \<Rightarrow> 's" where
  "deliver [] c s = s"
| "deliver (e # es) c s = deliver es c (snd (atomic (exec e c) s))"

lemma deliver_settled: "good s \<Longrightarrow> exec e c s = Inr (r, s') \<Longrightarrow> deliver es c s' = s'"
proof (induction es)
  case (Cons e' es)
  have "snd (atomic (exec e' c) s') = s'"
  proof (cases "exec e' c s'")
    case (Inr p)
    obtain r' s'' where p: "p = (r', s'')" by force
    from replay [OF Cons.prems, of e' r' s''] Inr p show ?thesis by (simp add: atomic_def)
  qed (simp add: atomic_def)
  with Cons show ?case by simp
qed simp

theorem deliver_at_most_once:
  "good s \<Longrightarrow> deliver es c s = s \<or> (\<exists>e \<in> set es. \<exists>r. exec e c s = Inr (r, deliver es c s))"
proof (induction es)
  case (Cons e es)
  show ?case
  proof (cases "exec e c s")
    case (Inl x)
    with Cons show ?thesis by auto
  next
    case (Inr p)
    obtain r s' where p: "p = (r, s')" by force
    from deliver_settled [OF Cons.prems, of e c r s' es] Inr p show ?thesis by auto
  qed
qed simp

end

end
