(* ===== verification/Py_Text.thy ===== *)
theory Py_Text imports Prelude begin

text \<open>
  Python text as the services use it: strings are lists of code points, with the
  string methods, number formats, JSON string literals and UUID spellings of the
  standard library that the code relies on. Full Unicode case mapping and NFC
  normalisation need the Unicode tables; the operations that call them take them
  as arguments.
\<close>

type_synonym pystr = "nat list"

definition lit :: "string \<Rightarrow> pystr" where
  "lit s = map of_char s"

lemma lit_inject: "lit a = lit b \<longleftrightarrow> a = b"
  by (simp add: lit_def inj_map_eq_map inj_def)


lemma length_lit [simp]: "length (lit s) = length s"
  by (simp add: lit_def)

section \<open>Characters and strip\<close>

text \<open>\<open>str.isspace\<close> of one character, the set \<open>str.strip()\<close> removes.\<close>

definition py_isspace :: "nat \<Rightarrow> bool" where
  "py_isspace c \<longleftrightarrow>
     9 \<le> c \<and> c \<le> 13 \<or> 28 \<le> c \<and> c \<le> 32 \<or> c = 133 \<or> c = 160 \<or> c = 5760 \<or>
     8192 \<le> c \<and> c \<le> 8202 \<or> c = 8232 \<or> c = 8233 \<or> c = 8239 \<or> c = 8287 \<or> c = 12288"

definition py_strip :: "pystr \<Rightarrow> pystr" where
  "py_strip s = rev (dropWhile py_isspace (rev (dropWhile py_isspace s)))"

lemma dropWhile_hd: "dropWhile P xs \<noteq> [] \<Longrightarrow> \<not> P (hd (dropWhile P xs))"
  by (rule hd_dropWhile)

lemma dropWhile_id: "xs = [] \<or> \<not> P (hd xs) \<Longrightarrow> dropWhile P xs = xs"
  by (cases xs) auto

lemma py_strip_Nil [simp]: "py_strip [] = []"
  by (simp add: py_strip_def)

lemma py_strip_clean: "(\<And>c. c \<in> set s \<Longrightarrow> \<not> py_isspace c) \<Longrightarrow> py_strip s = s"
proof -
  assume clean: "\<And>c. c \<in> set s \<Longrightarrow> \<not> py_isspace c"
  then have "dropWhile py_isspace s = s" by (intro dropWhile_id) (cases s, auto)
  moreover have "dropWhile py_isspace (rev s) = rev s"
    using clean by (intro dropWhile_id) (metis hd_in_set set_rev)
  ultimately show ?thesis by (simp add: py_strip_def)
qed

lemma py_strip_ends:
  assumes "py_strip s \<noteq> []"
  shows "\<not> py_isspace (hd (py_strip s))" "\<not> py_isspace (last (py_strip s))"
proof -
  define t where "t = dropWhile py_isspace s"
  define u where "u = dropWhile py_isspace (rev t)"
  have p: "py_strip s = rev u" by (simp add: py_strip_def t_def u_def)
  with assms have u: "u \<noteq> []" by simp
  then have "\<not> py_isspace (hd u)" unfolding u_def by (rule hd_dropWhile)
  with u p show "\<not> py_isspace (last (py_strip s))" by (simp add: last_rev)
  have tu: "rev t = takeWhile py_isspace (rev t) @ u" by (simp add: u_def)
  then have "t = rev u @ rev (takeWhile py_isspace (rev t))"
    by (metis rev_append rev_rev_ident)
  with u have "hd t = hd (rev u)" "t \<noteq> []" by (metis hd_append2 rev_is_Nil_conv, auto)
  moreover from \<open>t \<noteq> []\<close> have "\<not> py_isspace (hd t)" unfolding t_def by (rule hd_dropWhile)
  ultimately show "\<not> py_isspace (hd (py_strip s))" using p by simp
qed

lemma py_strip_fixed:
  "s = [] \<or> \<not> py_isspace (hd s) \<and> \<not> py_isspace (last s) \<Longrightarrow> py_strip s = s"
proof -
  assume a: "s = [] \<or> \<not> py_isspace (hd s) \<and> \<not> py_isspace (last s)"
  then have "dropWhile py_isspace s = s" by (intro dropWhile_id) auto
  moreover from a have "dropWhile py_isspace (rev s) = rev s"
    by (intro dropWhile_id) (auto simp: hd_rev)
  ultimately show ?thesis by (simp add: py_strip_def)
qed

lemma py_strip_idem [simp]: "py_strip (py_strip s) = py_strip s"
  using py_strip_ends [of s] by (intro py_strip_fixed) auto

lemma set_py_strip: "set (py_strip s) \<subseteq> set s"
  unfolding py_strip_def by (auto dest!: set_dropWhileD)

lemma length_py_strip: "length (py_strip s) \<le> length s"
  unfolding py_strip_def by (metis length_dropWhile_le length_rev order_trans)

section \<open>Decimal numbers\<close>

definition is_digit :: "nat \<Rightarrow> bool" where
  "is_digit c \<longleftrightarrow> 48 \<le> c \<and> c \<le> 57"

fun dec :: "nat \<Rightarrow> pystr" where
  "dec n = (if n < 10 then [48 + n] else dec (n div 10) @ [48 + n mod 10])"

declare dec.simps [simp del]

definition undec :: "pystr \<Rightarrow> nat" where
  "undec s = foldl (\<lambda>a c. 10 * a + (c - 48)) 0 s"

lemma undec_snoc: "undec (s @ [c]) = 10 * undec s + (c - 48)"
  by (simp add: undec_def)

lemma undec_dec [simp]: "undec (dec n) = n"
proof (induction n rule: dec.induct)
  case (1 n)
  show ?case
  proof (cases "n < 10")
    case True
    then show ?thesis by (subst dec.simps) (simp add: undec_def)
  next
    case False
    with "1" show ?thesis by (subst dec.simps) (simp add: undec_snoc)
  qed
qed

lemma dec_inject [simp]: "dec m = dec n \<longleftrightarrow> m = n"
  by (metis undec_dec)

lemma dec_digits: "c \<in> set (dec n) \<Longrightarrow> is_digit c"
proof (induction n rule: dec.induct)
  case (1 n)
  show ?case
  proof (cases "n < 10")
    case True
    with "1.prems" show ?thesis by (subst (asm) dec.simps) (simp add: is_digit_def)
  next
    case False
    with "1.prems" have "c \<in> set (dec (n div 10)) \<or> c = 48 + n mod 10"
      by (subst (asm) dec.simps) auto
    with "1.IH" False show ?thesis by (auto simp: is_digit_def)
  qed
qed

lemma dec_nonempty [simp]: "dec n \<noteq> []"
  by (subst dec.simps) simp

lemma hd_dec_not_zero: "0 < n \<Longrightarrow> hd (dec n) \<noteq> 48"
proof (induction n rule: dec.induct)
  case (1 n)
  show ?case
  proof (cases "n < 10")
    case True
    with "1.prems" show ?thesis by (subst dec.simps) simp
  next
    case False
    with "1.IH" have "hd (dec (n div 10)) \<noteq> 48" by simp
    with False show ?thesis by (subst dec.simps) (simp add: hd_append)
  qed
qed

lemma dec_undec:
  assumes "list_all is_digit s" "s \<noteq> []" "hd s \<noteq> 48"
  shows "dec (undec s) = s \<and> 0 < undec s"
  using assms
proof (induction s rule: rev_induct)
  case (snoc c s)
  have c: "48 \<le> c" "c - 48 < 10" using snoc.prems(1) by (auto simp: is_digit_def)
  show ?case
  proof (cases "s = []")
    case True
    with snoc.prems c show ?thesis by (subst dec.simps) (simp add: undec_def)
  next
    case False
    with snoc have s: "dec (undec s) = s" "0 < undec s" by simp_all
    obtain v x where v: "undec s = v" "c = 48 + x" "x < 10" using c by (metis le_add_diff_inverse)
    with s show ?thesis unfolding undec_snoc by (subst dec.simps) simp
  qed
qed simp

lemma dec_length: "0 < k \<Longrightarrow> length (dec n) \<le> k \<longleftrightarrow> n < 10 ^ k"
proof (induction n arbitrary: k rule: dec.induct)
  case (1 n)
  show ?case
  proof (cases "n < 10")
    case True
    with "1.prems" have "n < 10 ^ k" by (metis One_nat_def Suc_leI numeral_One one_le_numeral order_less_le_trans power_increasing power_one_right)
    with True "1.prems" show ?thesis by (subst dec.simps) simp
  next
    case False
    show ?thesis
    proof (cases k)
      case (Suc j)
      show ?thesis
      proof (cases j)
        case 0
        with False Suc show ?thesis by (subst dec.simps) (simp add: Suc_le_eq)
      next
        case (Suc i)
        with "1.IH" [OF False, of j] have "length (dec (n div 10)) \<le> j \<longleftrightarrow> n div 10 < 10 ^ j" by simp
        moreover have "n div 10 < 10 ^ j \<longleftrightarrow> n < 10 ^ k" using \<open>k = Suc j\<close> by (simp add: div_less_iff_less_mult mult.commute)
        ultimately show ?thesis using False \<open>k = Suc j\<close> by (subst dec.simps) simp
      qed
    qed (use "1.prems" in simp)
  qed
qed

text \<open>
  Money is kept in hundredths, as a \<open>Decimal\<close> with two places. \<open>fmt_2f\<close> is
  \<open>f"{x:.2f}"\<close>, \<open>fmt_0f\<close> is \<open>f"{x:.0f}"\<close>, which rounds half to even.
\<close>

definition two_digits :: "nat \<Rightarrow> pystr" where
  "two_digits n = [48 + n div 10, 48 + n mod 10]"

definition fmt_2f :: "nat \<Rightarrow> pystr" where
  "fmt_2f cents = dec (cents div 100) @ [46] @ two_digits (cents mod 100)"

definition round_half_even :: "nat \<Rightarrow> nat" where
  "round_half_even cents =
     (let q = cents div 100; r = cents mod 100
      in if r < 50 \<or> r = 50 \<and> even q then q else q + 1)"

definition fmt_0f :: "nat \<Rightarrow> pystr" where
  "fmt_0f cents = dec (round_half_even cents)"

lemma fmt_0f_whole [simp]: "fmt_0f (100 * n) = dec n"
  by (simp add: fmt_0f_def round_half_even_def)

lemma two_digits_inject: "m < 100 \<Longrightarrow> n < 100 \<Longrightarrow> two_digits m = two_digits n \<Longrightarrow> m = n"
  unfolding two_digits_def
  by (metis add_left_cancel div_mult_mod_eq list.inject)

lemma fmt_2f_inject [simp]: "fmt_2f m = fmt_2f n \<longleftrightarrow> m = n"
proof
  assume eq: "fmt_2f m = fmt_2f n"
  have "length (two_digits (m mod 100)) = length (two_digits (n mod 100))"
    by (simp add: two_digits_def)
  with eq have "dec (m div 100) @ [46] = dec (n div 100) @ [46] \<and>
      two_digits (m mod 100) = two_digits (n mod 100)"
    unfolding fmt_2f_def append_assoc [symmetric]
    using append_eq_append_conv [of "dec (m div 100) @ [46]" "dec (n div 100) @ [46]"] by blast
  then have "m div 100 = n div 100" "m mod 100 = n mod 100"
    using two_digits_inject [of "m mod 100" "n mod 100"] by simp_all
  then show "m = n" by (metis div_mult_mod_eq)
qed simp

lemma fmt_2f_no_quote: "34 \<notin> set (fmt_2f n)"
  using dec_digits [of 34 "n div 100"] by (auto simp: fmt_2f_def two_digits_def is_digit_def)

section \<open>JSON string literals\<close>

text \<open>\<open>json.dumps\<close> of a string with \<open>ensure_ascii=False\<close>.\<close>

definition hex_digit :: "nat \<Rightarrow> nat" where
  "hex_digit d = (if d < 10 then 48 + d else 87 + d)"

definition json_escape_char :: "nat \<Rightarrow> pystr" where
  "json_escape_char c =
     (if c = 34 then [92, 34]
      else if c = 92 then [92, 92]
      else if c = 10 then [92, 110]
      else if c = 13 then [92, 114]
      else if c = 9 then [92, 116]
      else if c = 8 then [92, 98]
      else if c = 12 then [92, 102]
      else if c < 32 then [92, 117, 48, 48, hex_digit (c div 16), hex_digit (c mod 16)]
      else [c])"

definition json_string :: "pystr \<Rightarrow> pystr" where
  "json_string s = [34] @ concat (map json_escape_char s) @ [34]"

definition hex_value :: "nat \<Rightarrow> nat" where
  "hex_value c = (if c < 58 then c - 48 else c - 87)"

lemma hex_value_digit: "d < 16 \<Longrightarrow> hex_value (hex_digit d) = d"
  by (auto simp: hex_value_def hex_digit_def)

text \<open>Reading one escaped character back, which makes the escapes a prefix code.\<close>

definition json_unescape :: "pystr \<Rightarrow> nat \<times> pystr" where
  "json_unescape s =
     (if hd s \<noteq> 92 then (hd s, tl s)
      else if s ! 1 = 117 then (16 * hex_value (s ! 4) + hex_value (s ! 5), drop 6 s)
      else ((if s ! 1 = 110 then 10 else if s ! 1 = 114 then 13 else if s ! 1 = 116 then 9
             else if s ! 1 = 98 then 8 else if s ! 1 = 102 then 12 else s ! 1), drop 2 s))"

lemma json_unescape_escape: "json_unescape (json_escape_char c @ u) = (c, u)"
proof (cases "c < 32")
  case True
  then have "c div 16 < 16" by simp
  with True show ?thesis
    by (simp add: json_escape_char_def json_unescape_def hex_value_digit)
next
  case False
  then show ?thesis by (simp add: json_escape_char_def json_unescape_def)
qed

lemma json_escape_prefix:
  "json_escape_char a @ u = json_escape_char b @ v \<Longrightarrow> a = b \<and> u = v"
  by (metis json_unescape_escape prod.inject)

lemma json_escape_hd: "hd (json_escape_char c @ u) \<noteq> 34" "json_escape_char c \<noteq> []"
  by (simp_all add: json_escape_char_def)

lemma json_body_prefix:
  "concat (map json_escape_char s) @ 34 # u = concat (map json_escape_char t) @ 34 # v
    \<Longrightarrow> s = t \<and> u = v"
proof (induction s arbitrary: t)
  case Nil
  show ?case
  proof (cases t)
    case (Cons c t')
    with Nil show ?thesis
      using json_escape_hd(1) [of c "concat (map json_escape_char t') @ 34 # v"]
      by (metis append_assoc append_Nil concat.simps(1,2) list.sel(1) list.simps(8,9))
  qed (use Nil in simp)
next
  case (Cons c s')
  show ?case
  proof (cases t)
    case Nil
    with Cons.prems show ?thesis
      using json_escape_hd(1) [of c "concat (map json_escape_char s') @ 34 # u"]
      by (metis append_assoc append_Nil concat.simps(1,2) list.sel(1) list.simps(8,9))
  next
    case (Cons d t')
    with Cons.prems have "json_escape_char c @ concat (map json_escape_char s') @ 34 # u =
        json_escape_char d @ concat (map json_escape_char t') @ 34 # v" by simp
    with json_escape_prefix Cons Cons.IH show ?thesis by blast
  qed
qed

lemma json_string_prefix: "json_string s @ u = json_string t @ v \<Longrightarrow> s = t \<and> u = v"
  using json_body_prefix [of s u t v] by (simp add: json_string_def)

section \<open>UUIDs\<close>

text \<open>\<open>str(uuid)\<close> of a 128-bit value, and the value a canonical spelling stands for.\<close>

fun hex_fixed :: "nat \<Rightarrow> nat \<Rightarrow> pystr" where
  "hex_fixed 0 n = []"
| "hex_fixed (Suc w) n = hex_fixed w (n div 16) @ [hex_digit (n mod 16)]"

definition is_lower_hex :: "nat \<Rightarrow> bool" where
  "is_lower_hex c \<longleftrightarrow> is_digit c \<or> 97 \<le> c \<and> c \<le> 102"

definition unhex :: "pystr \<Rightarrow> nat" where
  "unhex s = foldl (\<lambda>a c. 16 * a + hex_value c) 0 s"

definition uuid_str :: "nat \<Rightarrow> pystr" where
  "uuid_str n = (let h = hex_fixed 32 n in
     take 8 h @ [45] @ take 4 (drop 8 h) @ [45] @ take 4 (drop 12 h) @ [45] @
     take 4 (drop 16 h) @ [45] @ drop 20 h)"

definition uuid_digits :: "pystr \<Rightarrow> pystr" where
  "uuid_digits s = filter (\<lambda>c. c \<noteq> 45) s"

text \<open>
  The services accept a UUID field only when \<open>str(UUID(raw)) == raw\<close>; the spellings
  that pass are exactly the canonical ones.
\<close>

definition uuid_parse :: "pystr \<Rightarrow> nat option" where
  "uuid_parse s =
     (let h = uuid_digits s in
      if length h = 32 \<and> list_all is_lower_hex h \<and> uuid_str (unhex h) = s then Some (unhex h) else None)"

lemma length_hex_fixed [simp]: "length (hex_fixed w n) = w"
  by (induction w arbitrary: n) auto

lemma hex_digit_lower: "d < 16 \<Longrightarrow> is_lower_hex (hex_digit d)"
  by (auto simp: is_lower_hex_def is_digit_def hex_digit_def)

lemma hex_fixed_lower: "c \<in> set (hex_fixed w n) \<Longrightarrow> is_lower_hex c"
  by (induction w arbitrary: n) (auto simp: hex_digit_lower)

lemma unhex_hex_fixed: "unhex (hex_fixed w n) = n mod 16 ^ w"
proof (induction w arbitrary: n)
  case (Suc w)
  have "unhex (hex_fixed (Suc w) n) = 16 * unhex (hex_fixed w (n div 16)) + n mod 16"
    by (simp add: unhex_def hex_value_digit)
  also have "\<dots> = n mod 16 ^ Suc w"
    using Suc by (simp add: mod_mult2_eq)
  finally show ?case .
qed (simp add: unhex_def)

lemma uuid_digits_str: "uuid_digits (uuid_str n) = hex_fixed 32 n"
proof -
  define h where "h = hex_fixed 32 n"
  have no: "c \<noteq> 45" if "c \<in> set h" for c
    using hex_fixed_lower that by (fastforce simp: h_def is_lower_hex_def is_digit_def)
  then have keep: "filter (\<lambda>c. c \<noteq> 45) xs = xs" if "set xs \<subseteq> set h" for xs
    using that by (auto intro: filter_True)
  have sub: "set (take i (drop j h)) \<subseteq> set h" "set (take i h) \<subseteq> set h" "set (drop j h) \<subseteq> set h" for i j
    by (meson order_trans set_drop_subset set_take_subset)+
  have seg: "take 4 (drop i h) @ drop (i + 4) h = drop i h" for i
    by (metis add.commute append_take_drop_id drop_drop)
  have "take 8 h @ take 4 (drop 8 h) @ take 4 (drop 12 h) @ take 4 (drop 16 h) @ drop 20 h = h"
    using seg [of 16] seg [of 12] seg [of 8] by simp
  then show ?thesis
    unfolding uuid_digits_def uuid_str_def h_def [symmetric] Let_def
    by (simp add: keep sub)
qed

lemma uuid_parse_str: "n < 2 ^ 128 \<Longrightarrow> uuid_parse (uuid_str n) = Some n"
  by (simp add: uuid_parse_def uuid_digits_str unhex_hex_fixed list_all_iff hex_fixed_lower)

lemma uuid_str_parse: "uuid_parse s = Some n \<Longrightarrow> uuid_str n = s"
  by (auto simp: uuid_parse_def Let_def split: if_splits)

lemma length_uuid_str [simp]: "length (uuid_str n) = 36"
  by (simp add: uuid_str_def Let_def)

lemma uuid_str_inject: "m < 2 ^ 128 \<Longrightarrow> n < 2 ^ 128 \<Longrightarrow> uuid_str m = uuid_str n \<Longrightarrow> m = n"
  by (metis option.inject uuid_parse_str)

lemma unhex_bound: "list_all is_lower_hex s \<Longrightarrow> unhex s < 16 ^ length s"
proof (induction s rule: rev_induct)
  case (snoc c s)
  have "hex_value c < 16" using snoc.prems by (auto simp: is_lower_hex_def is_digit_def hex_value_def)
  with snoc show ?case by (simp add: unhex_def)
qed (simp add: unhex_def)

lemma uuid_parse_iff: "uuid_parse s = Some k \<longleftrightarrow> s = uuid_str k \<and> k < 2 ^ 128"
proof
  assume p: "uuid_parse s = Some k"
  then have "length (uuid_digits s) = 32" "list_all is_lower_hex (uuid_digits s)" "unhex (uuid_digits s) = k"
    by (auto simp: uuid_parse_def Let_def split: if_splits)
  with unhex_bound [of "uuid_digits s"] have "k < 2 ^ 128" by simp
  with uuid_str_parse [OF p] show "s = uuid_str k \<and> k < 2 ^ 128" by simp
qed (auto simp: uuid_parse_str)

end
