(* ===== verification/Schema.thy ===== *)
theory Schema imports Py_Text begin

text \<open>
  The data model: one record per Django model, in the order of the applications
  (accounts, catalog, trades, transfers, notifications, moderation, chat), the check
  constraints the database enforces on a row, and the database as one record of
  tables. Foreign keys are primary keys (\<open>nat\<close>), nullable columns are options,
  instants are microseconds, money is an integer number of hundredths. Columns that
  only record when a row was written and that no modelled code reads are kept where a
  query orders by them and left out otherwise.
\<close>

section \<open>accounts\<close>

record user =
  user_username :: pystr
  user_password :: "nat option"  \<comment> \<open>an opaque hash; \<open>None\<close> is an unusable password\<close>
  user_is_active :: bool
  user_is_staff :: bool
  user_is_superuser :: bool
  user_meta_permission :: bool  \<comment> \<open>holds \<open>moderation.manage_admin_scope\<close> directly\<close>
  user_bio :: pystr
  user_auth_epoch :: nat
  user_withdrawn_at :: "instant option"
  user_date_joined :: instant

record user_session_index =
  sidx_user_id :: nat
  sidx_session_key :: nat
  sidx_auth_epoch :: nat
  sidx_last_seen_at :: instant
  sidx_revoked_at :: "instant option"

datatype task_status = PENDING | PROCESSING | RETRY | COMPLETED_TASK

record revocation_task =
  task_user_id :: nat
  task_event_key :: pystr
  task_auth_epoch :: nat
  task_state :: task_status
  task_attempt_count :: nat
  task_available_at :: instant
  task_lease_expires_at :: "instant option"
  task_heartbeat_at :: "instant option"
  task_completed_at :: "instant option"
  task_last_error :: pystr

text \<open>\<open>accounts_revocation_epoch_positive\<close>, \<open>_status_state_consistent\<close> and \<open>_lease_after_heartbeat\<close>.\<close>

definition revocation_task_check :: "revocation_task \<Rightarrow> bool" where
  "revocation_task_check t \<longleftrightarrow>
     0 < task_auth_epoch t \<and>
     (task_state t = PROCESSING \<and> task_lease_expires_at t \<noteq> None \<and> task_heartbeat_at t \<noteq> None \<and>
        task_completed_at t = None \<or>
      task_state t \<in> {PENDING, RETRY} \<and> task_lease_expires_at t = None \<and> task_heartbeat_at t = None \<and>
        task_completed_at t = None \<or>
      task_state t = COMPLETED_TASK \<and> task_lease_expires_at t = None \<and> task_heartbeat_at t = None \<and>
        task_completed_at t \<noteq> None) \<and>
     (task_lease_expires_at t = None \<and> task_heartbeat_at t = None \<or>
      (case (task_lease_expires_at t, task_heartbeat_at t) of
         (Some l, Some h) \<Rightarrow> h \<le> l | _ \<Rightarrow> False))"

datatype throttle_scope = ACCOUNT | IP

record login_throttle =
  throttle_scope :: throttle_scope
  throttle_identifier :: nat  \<comment> \<open>the keyed digest\<close>
  throttle_window_started_at :: instant
  throttle_failure_count :: nat
  throttle_blocked_until :: "instant option"
  throttle_updated_at :: instant

section \<open>catalog\<close>

datatype region_source = LEGACY_UNSET | SELECTED | INHERITED

record product =
  product_owner_id :: nat
  product_title :: pystr
  product_description :: pystr
  product_price :: int
  product_legacy_image :: pystr  \<comment> \<open>the name in the old single-image column, possibly empty\<close>
  product_category_id :: pystr
  product_region_id :: "pystr option"
  product_region_source :: region_source
  product_archived_at :: "instant option"
  product_version :: nat
  product_created_at :: instant
  product_demo_key :: "pystr option"  \<comment> \<open>set for the products of the demo catalogue only\<close>

definition product_check :: "product \<Rightarrow> bool" where
  "product_check p \<longleftrightarrow>
     1 \<le> product_price p \<and>
     (product_region_source p = LEGACY_UNSET \<longleftrightarrow> product_region_id p = None)"

datatype promotion_state = IMAGE_PENDING | IMAGE_PROMOTED

record product_image =
  image_product_id :: nat
  image_name :: pystr
  image_position :: nat
  image_sha256 :: nat
  image_byte_size :: nat
  image_width :: nat
  image_height :: nat
  image_owned_key :: pystr
  image_promotion_state :: promotion_state

definition product_image_check :: "product_image \<Rightarrow> bool" where
  "product_image_check i \<longleftrightarrow>
     image_position i \<le> 3 \<and>
     0 < image_byte_size i \<and> image_byte_size i \<le> 5 * 1024 * 1024 \<and>
     0 < image_width i \<and> image_width i \<le> 4096 \<and> 0 < image_height i \<and> image_height i \<le> 4096"

record deletion_intent =
  intent_storage_key :: pystr
  intent_last_attempt_at :: "instant option"
  intent_attempts :: nat

record favorite =
  favorite_user_id :: nat
  favorite_product_id :: nat
  favorite_created_at :: instant

record product_view =
  view_product_id :: nat
  view_viewed_on :: int
  view_viewer_digest :: nat

record product_metric =
  metric_product_id :: nat
  metric_favorite_count :: nat
  metric_view_count :: nat
  metric_product_chat_count :: nat
  metric_completed_trade_count :: nat

section \<open>trades\<close>

datatype trade_kind = STANDARD | LEGACY_SOLD

datatype trade_status = RESERVED | CANCELLED | COMPLETED

record trade =
  trade_product_id :: nat
  trade_seller_id :: nat
  trade_buyer_id :: "nat option"
  trade_kind :: trade_kind
  trade_status :: trade_status
  trade_completed_at :: "instant option"
  trade_created_at :: instant
  trade_version :: nat

text \<open>\<open>trades_buyer_kind_typed\<close> and \<open>trades_completed_at_typed\<close>.\<close>

definition trade_check :: "trade \<Rightarrow> bool" where
  "trade_check t \<longleftrightarrow>
     (trade_kind t = LEGACY_SOLD \<and> trade_status t = COMPLETED \<and> trade_buyer_id t = None \<and>
        trade_completed_at t \<noteq> None \<or>
      trade_kind t = STANDARD \<and> trade_buyer_id t \<noteq> None) \<and>
     (trade_status t = COMPLETED \<and> trade_completed_at t \<noteq> None \<or>
      trade_status t \<in> {RESERVED, CANCELLED} \<and> trade_completed_at t = None)"

record trade_status_history =
  history_trade_id :: nat
  history_from_status :: "trade_status option"  \<comment> \<open>\<open>None\<close> is the empty string\<close>
  history_to_status :: trade_status
  history_actor_id :: nat
  history_version :: nat

record review =
  review_trade_id :: nat
  review_author_id :: nat
  review_subject_id :: nat
  review_rating :: int
  review_body :: pystr

definition review_check :: "review \<Rightarrow> bool" where
  "review_check r \<longleftrightarrow>
     review_author_id r \<noteq> review_subject_id r \<and> 1 \<le> review_rating r \<and> review_rating r \<le> 5 \<and>
     review_body r \<noteq> []"

datatype visibility_kind = HIDE | RESTORE

record review_visibility_action =
  visibility_review_id :: nat
  visibility_actor_id :: nat
  visibility_kind :: visibility_kind
  visibility_reason :: pystr
  visibility_idempotency_key :: nat
  visibility_created_at :: instant

section \<open>transfers\<close>

record mock_account =
  account_user_id :: nat
  account_balance :: int
  account_is_open :: bool
  account_closed_at :: "instant option"

text \<open>\<open>transfers_balance_range\<close>, in hundredths.\<close>

definition mock_account_check :: "mock_account \<Rightarrow> bool" where
  "mock_account_check a \<longleftrightarrow> 0 \<le> account_balance a \<and> account_balance a \<le> 1000000000 * 100"

datatype ledger_kind = USER_LEDGER | SYSTEM_ISSUANCE

record ledger_account =
  ledger_kind :: ledger_kind
  ledger_mock_account_id :: "nat option"
  ledger_code :: pystr

definition ledger_account_check :: "ledger_account \<Rightarrow> bool" where
  "ledger_account_check l \<longleftrightarrow>
     ledger_kind l = USER_LEDGER \<and> ledger_mock_account_id l \<noteq> None \<or>
     ledger_kind l = SYSTEM_ISSUANCE \<and> ledger_mock_account_id l = None"

datatype journal_kind = SEED_ISSUE | TRANSFER | COMPENSATION

record ledger_journal =
  journal_kind :: journal_kind
  journal_target_mock_account_id :: "nat option"

record ledger_entry =
  entry_journal_id :: nat
  entry_account_id :: nat
  entry_amount :: int

record transfer =
  transfer_sender_id :: nat
  transfer_recipient_id :: nat
  transfer_journal_id :: nat
  transfer_amount :: int

text \<open>The JSON bodies the transfer service stores and returns.\<close>

datatype transfer_body =
    Error_Body string
  | Completed_Body (body_transfer_id: pystr) (body_recipient: pystr) (body_amount: pystr)
      (body_sender_balance: pystr)

record transfer_request =
  request_sender_id :: nat
  request_idempotency_key :: nat
  request_canonical_payload :: pystr
  request_response_status :: nat
  request_response_body :: transfer_body
  request_transfer_id :: "nat option"

datatype safety_kind = OPEN | BLOCKED

record transfer_safety_state =
  safety_state :: safety_kind
  safety_incident_id :: "nat option"
  safety_blocked_at :: "instant option"

definition safety_check :: "transfer_safety_state \<Rightarrow> bool" where
  "safety_check s \<longleftrightarrow>
     safety_state s = OPEN \<and> safety_incident_id s = None \<and> safety_blocked_at s = None \<or>
     safety_state s = BLOCKED \<and> safety_incident_id s \<noteq> None \<and> safety_blocked_at s \<noteq> None"

datatype audit_kind = TRANSFER_COMPLETED | ACCOUNT_CLOSED

record transfer_audit =
  taudit_actor_id :: nat
  taudit_event_type :: audit_kind
  taudit_transfer_id :: "nat option"

section \<open>notifications\<close>

datatype notification_kind = TRANSFER_SENT | TRANSFER_RECEIVED | PRODUCT_MESSAGE

text \<open>The payloads the code writes.\<close>

datatype notification_payload =
    Transfer_Payload (np_transfer_id: pystr) (np_amount: pystr) (np_counterparty: pystr)
  | Message_Payload (np_room_id: nat) (np_product_id: nat) (np_message_id: nat)

record notification =
  notification_recipient_id :: nat
  notification_event_key :: pystr
  notification_kind :: notification_kind
  notification_payload :: notification_payload
  notification_read_at :: "instant option"
  notification_created_at :: instant
  notification_expires_at :: instant

record notification_purge_state =
  purge_last_success_at :: "instant option"
  purge_last_deleted_count :: nat

section \<open>moderation\<close>

datatype action_kind = USER_DORMANCY | PRODUCT_HIDE

record moderation_action =
  action_kind :: action_kind
  action_target_user_id :: "nat option"
  action_target_product_id :: "nat option"
  action_starts_at :: instant
  action_expires_at :: instant

text \<open>\<open>moderation_action_target_matches_kind\<close> and \<open>moderation_action_seven_day_window\<close>.\<close>

definition moderation_action_check :: "moderation_action \<Rightarrow> bool" where
  "moderation_action_check a \<longleftrightarrow>
     (action_kind a = USER_DORMANCY \<and> action_target_user_id a \<noteq> None \<and> action_target_product_id a = None \<or>
      action_kind a = PRODUCT_HIDE \<and> action_target_user_id a = None \<and> action_target_product_id a \<noteq> None) \<and>
     action_expires_at a = action_starts_at a + days 7"

datatype target_type = USER | PRODUCT | REVIEW

datatype report_context =
  PROFILE | PRODUCT_CONTEXT | PRODUCT_INTERACTION | GLOBAL_CHAT | DIRECT_CHAT | REVIEW_CONTEXT

record abuse_report =
  report_reporter_id :: nat
  report_target_type :: target_type
  report_target_user_id :: "nat option"
  report_target_product_id :: "nat option"
  report_target_review_id :: "nat option"
  report_context :: report_context
  report_reason :: pystr
  report_created_at :: instant
  report_consumed_by :: "nat option"

definition abuse_report_check :: "abuse_report \<Rightarrow> bool" where
  "abuse_report_check r \<longleftrightarrow>
     (report_target_type r = USER \<and> report_target_user_id r \<noteq> None \<and>
        report_target_product_id r = None \<and> report_target_review_id r = None \<or>
      report_target_type r = PRODUCT \<and> report_target_user_id r = None \<and>
        report_target_product_id r \<noteq> None \<and> report_target_review_id r = None \<or>
      report_target_type r = REVIEW \<and> report_target_user_id r = None \<and>
        report_target_product_id r = None \<and> report_target_review_id r \<noteq> None) \<and>
     (report_target_type r = PRODUCT \<and> report_context r = PRODUCT_CONTEXT \<or>
      report_target_type r = REVIEW \<and> report_context r = REVIEW_CONTEXT \<or>
      report_target_type r = USER \<and> report_context r \<notin> {PRODUCT_CONTEXT, REVIEW_CONTEXT}) \<and>
     report_reason r \<noteq> [] \<and>
     report_target_user_id r \<noteq> Some (report_reporter_id r)"

text \<open>The three conditional unique constraints: one report per reporter and target.\<close>

definition same_report_target :: "abuse_report \<Rightarrow> abuse_report \<Rightarrow> bool" where
  "same_report_target r r' \<longleftrightarrow>
     report_reporter_id r = report_reporter_id r' \<and>
     (report_target_user_id r \<noteq> None \<and> report_target_user_id r = report_target_user_id r' \<or>
      report_target_product_id r \<noteq> None \<and> report_target_product_id r = report_target_product_id r' \<or>
      report_target_review_id r \<noteq> None \<and> report_target_review_id r = report_target_review_id r')"

record audit_event =
  event_actor_id :: "nat option"
  event_action_id :: "nat option"
  event_target_type :: target_type
  event_target_id :: nat
  event_consumed_report_count :: nat

datatype scope_codename =
  VIEW_REPORT | APPLY_SANCTION | RELEASE_SANCTION | VIEW_ADMIN_AUDIT | HIDE_REVIEW | RESTORE_REVIEW

record admin_scope_grant =
  grant_staff_id :: nat
  grant_codename :: scope_codename
  grant_target_user_id :: "nat option"
  grant_target_product_id :: "nat option"
  grant_target_review_id :: "nat option"
  grant_version :: nat
  grant_granted_by :: nat
  grant_revoked_by :: "nat option"
  grant_revoked_at :: "instant option"

record sanction_release =
  release_action_id :: nat
  release_actor_id :: nat
  release_reason :: pystr

datatype audit_result = SUCCESS | CONFLICT | DENIED

datatype audit_action = APPLY | RELEASE | GRANT | REVOKE | HIDE_ACTION | RESTORE_ACTION

datatype audit_target = USER_TARGET | PRODUCT_TARGET | REVIEW_TARGET | SANCTION_TARGET | SCOPE_TARGET

text \<open>The before/after JSON of a management audit row, by its shape.\<close>

datatype audit_snapshot =
    Empty_Snapshot
  | Sanction_Version bool nat
  | Sanction_Active bool nat
  | Version_Only nat
  | Sanction_Request nat nat
  | Staff_Version nat nat
  | Staff_Active nat bool
  | Staff_Granted nat nat
  | Grant_Version nat nat
  | Grant_Active nat bool
  | Visibility "visibility_kind option"
  | Visibility_Action visibility_kind nat

record admin_audit =
  audit_actor_id :: nat
  audit_action :: audit_action
  audit_target_type :: audit_target
  audit_target_id :: nat
  audit_reason :: pystr
  audit_before :: audit_snapshot
  audit_after :: audit_snapshot
  audit_result :: audit_result
  audit_created_at :: instant

section \<open>chat\<close>

datatype room_kind = GLOBAL | DIRECT | PRODUCT_ROOM

record room =
  room_kind :: room_kind
  room_direct_user_low :: "nat option"
  room_direct_user_high :: "nat option"

text \<open>\<open>chat_room_participant_shape\<close>.\<close>

definition room_check :: "room \<Rightarrow> bool" where
  "room_check r \<longleftrightarrow>
     room_kind r \<in> {GLOBAL, PRODUCT_ROOM} \<and> room_direct_user_low r = None \<and> room_direct_user_high r = None \<or>
     room_kind r = DIRECT \<and>
       (case (room_direct_user_low r, room_direct_user_high r) of
          (Some l, Some h) \<Rightarrow> l < h | _ \<Rightarrow> False)"

record room_participant =
  participant_room_id :: nat
  participant_user_id :: nat

record product_conversation =
  conversation_room_id :: nat
  conversation_product_id :: nat
  conversation_seller_id :: nat
  conversation_buyer_id :: nat

datatype delivery = LIVE | DEGRADED

record chat_message =
  message_room_id :: nat
  message_sender_id :: nat
  message_connection_id :: nat
  message_client_message_id :: nat
  message_body :: pystr
  message_payload_sha256 :: nat
  message_delivery :: delivery
  message_accepted_at :: instant

section \<open>The database\<close>

record db =
  users :: "user table"
  session_indexes :: "user_session_index table"
  sessions :: "nat list"  \<comment> \<open>the keys of the stored Django sessions\<close>
  revocation_tasks :: "revocation_task table"
  login_throttles :: "login_throttle table"
  products :: "product table"
  product_images :: "product_image table"
  deletion_intents :: "deletion_intent table"
  favorites :: "favorite table"
  product_views :: "product_view table"
  product_metrics :: "product_metric table"
  categories :: "pystr list"  \<comment> \<open>the codes of the reference rows\<close>
  regions :: "pystr list"
  trades :: "trade table"
  trade_histories :: "trade_status_history table"
  reviews :: "review table"
  visibility_actions :: "review_visibility_action table"
  mock_accounts :: "mock_account table"
  ledger_accounts :: "ledger_account table"
  ledger_journals :: "ledger_journal table"
  ledger_entries :: "ledger_entry table"
  transfers :: "transfer table"
  transfer_requests :: "transfer_request table"
  transfer_safety :: "transfer_safety_state option"
  transfer_audits :: "transfer_audit table"
  notifications :: "notification table"
  notification_purge :: "notification_purge_state option"
  moderation_actions :: "moderation_action table"
  abuse_reports :: "abuse_report table"
  audit_events :: "audit_event table"
  admin_scope_grants :: "admin_scope_grant table"
  sanction_releases :: "sanction_release table"
  admin_audits :: "admin_audit table"
  rooms :: "room table"
  room_participants :: "room_participant table"
  product_conversations :: "product_conversation table"
  chat_messages :: "chat_message table"

definition empty_db :: db where
  "empty_db = \<lparr>users = empty_table, session_indexes = empty_table, sessions = [],
     revocation_tasks = empty_table, login_throttles = empty_table,
     products = empty_table, product_images = empty_table, deletion_intents = empty_table,
     favorites = empty_table, product_views = empty_table, product_metrics = empty_table,
     categories = [], regions = [],
     trades = empty_table, trade_histories = empty_table, reviews = empty_table,
     visibility_actions = empty_table, mock_accounts = empty_table, ledger_accounts = empty_table,
     ledger_journals = empty_table, ledger_entries = empty_table, transfers = empty_table,
     transfer_requests = empty_table, transfer_safety = None, transfer_audits = empty_table,
     notifications = empty_table, notification_purge = None, moderation_actions = empty_table,
     abuse_reports = empty_table, audit_events = empty_table, admin_scope_grants = empty_table,
     sanction_releases = empty_table, admin_audits = empty_table, rooms = empty_table,
     room_participants = empty_table, product_conversations = empty_table,
     chat_messages = empty_table\<rparr>"

end
