(* ===== verification/Identity.thy ===== *)
theory Identity imports Schema begin

text \<open>
  Account identity: the username and password rules of \<open>accounts/validators.py\<close> and the
  read-side identity projection of \<open>accounts/services.py\<close> that every other application
  uses to name a user.
\<close>

section \<open>Usernames and password bounds\<close>

definition username_char :: "nat \<Rightarrow> bool" where
  "username_char c \<longleftrightarrow> 97 \<le> c \<and> c \<le> 122 \<or> is_digit c \<or> c = 95"

text \<open>\<open>_CANONICAL_USERNAME.fullmatch\<close> of \<open>^[a-z0-9_]{4,30}$\<close>.\<close>

definition canonical_username :: "pystr \<Rightarrow> bool" where
  "canonical_username s \<longleftrightarrow> 4 \<le> length s \<and> length s \<le> 30 \<and> list_all username_char s"

text \<open>\<open>lower\<close> is \<open>str.lower\<close>, whose table covers all of Unicode.\<close>

definition canonicalize_username :: "(pystr \<Rightarrow> pystr) \<Rightarrow> pystr \<Rightarrow> pystr result" where
  "canonicalize_username lower value =
     (let canonical = lower (py_strip value)
      in if canonical_username canonical then Inr canonical else Inl ValidationError)"

text \<open>What the code relies on of \<open>str.lower\<close>: it leaves lowercase ASCII names alone.\<close>

definition lower_law :: "(pystr \<Rightarrow> pystr) \<Rightarrow> bool" where
  "lower_law lower \<longleftrightarrow> (\<forall>s. list_all username_char s \<longrightarrow> lower s = s)"

definition ascii_lower :: "pystr \<Rightarrow> pystr" where
  "ascii_lower s = map (\<lambda>c. if 65 \<le> c \<and> c \<le> 90 then c + 32 else c) s"

lemma ascii_lower_law: "lower_law ascii_lower"
  unfolding lower_law_def ascii_lower_def
  by (intro allI impI map_idI) (auto simp: list_all_iff username_char_def is_digit_def)

lemma username_char_not_space: "username_char c \<Longrightarrow> \<not> py_isspace c"
  by (auto simp: username_char_def is_digit_def py_isspace_def)

lemma canonical_strip: "canonical_username s \<Longrightarrow> py_strip s = s"
  by (rule py_strip_clean) (auto simp: canonical_username_def list_all_iff username_char_not_space)

lemma canonicalize_fixed:
  "lower_law lower \<Longrightarrow> canonical_username s \<Longrightarrow> canonicalize_username lower s = Inr s"
  by (simp add: canonicalize_username_def canonical_strip lower_law_def canonical_username_def Let_def)

lemma canonicalize_canonical: "canonicalize_username lower s = Inr u \<Longrightarrow> canonical_username u"
  by (auto simp: canonicalize_username_def Let_def split: if_splits)

definition password_min_length :: nat where "password_min_length = 12"
definition password_max_length :: nat where "password_max_length = 128"

definition password_validate :: "pystr \<Rightarrow> unit result" where
  "password_validate p =
     (if 0 \<in> set p then Inl ValidationError
      else if length p < password_min_length then Inl ValidationError
      else if length p > password_max_length then Inl ValidationError
      else Inr ())"

section \<open>The public identity of a user\<close>

datatype account_status = ACTIVE | WITHDRAWN

text \<open>A user as the services see one: absent, unsaved (no key), or a stored row.\<close>

type_synonym user_ref = "(nat option \<times> user) option"

definition effective_account_status :: "user_ref \<Rightarrow> account_status" where
  "effective_account_status u =
     (case u of None \<Rightarrow> WITHDRAWN
      | Some (pk, row) \<Rightarrow> if pk = None \<or> user_withdrawn_at row \<noteq> None then WITHDRAWN else ACTIVE)"

record identity_projection =
  identity_user_id :: "nat option"
  identity_display_name :: pystr
  identity_status :: account_status

definition WITHDRAWN_ACCOUNT_LABEL :: pystr where
  "WITHDRAWN_ACCOUNT_LABEL = [53448, 53748, 54620, 32, 54924, 50896]"

definition is_tombstone :: "identity_projection \<Rightarrow> bool" where
  "is_tombstone i \<longleftrightarrow> identity_status i = WITHDRAWN"

definition project_account_identity :: "user_ref \<Rightarrow> identity_projection" where
  "project_account_identity u =
     (let status = effective_account_status u in
      if u = None \<or> status = WITHDRAWN \<or> user_username (snd (the u)) = []
      then \<lparr>identity_user_id = (case u of None \<Rightarrow> None | Some (pk, _) \<Rightarrow> pk),
            identity_display_name = WITHDRAWN_ACCOUNT_LABEL, identity_status = WITHDRAWN\<rparr>
      else \<lparr>identity_user_id = fst (the u), identity_display_name = user_username (snd (the u)),
            identity_status = ACTIVE\<rparr>)"

definition withdrawal_event_key :: "nat \<Rightarrow> nat \<Rightarrow> pystr" where
  "withdrawal_event_key user_id auth_epoch =
     lit ''withdrawal:'' @ dec user_id @ lit '':auth-epoch:'' @ dec auth_epoch"

lemma label_not_canonical: "\<not> canonical_username WITHDRAWN_ACCOUNT_LABEL"
  by (simp add: WITHDRAWN_ACCOUNT_LABEL_def canonical_username_def username_char_def is_digit_def)

lemma digits_then_sep:
  "list_all is_digit a \<Longrightarrow> list_all is_digit b \<Longrightarrow> \<not> is_digit s \<Longrightarrow>
   a @ s # u = b @ s # v \<Longrightarrow> a = b \<and> u = v"
proof (induction a arbitrary: b)
  case Nil
  then show ?case by (cases b) auto
next
  case (Cons x a)
  then show ?case by (cases b) auto
qed

lemma list_all_dec: "list_all is_digit (dec n)"
  by (simp add: list_all_iff dec_digits)

lemma dec_then_sep: "\<not> is_digit s \<Longrightarrow> dec m @ s # u = dec n @ s # v \<Longrightarrow> m = n \<and> u = v"
  using digits_then_sep [of "dec m" "dec n" s u v] by (simp add: list_all_dec)

lemma withdrawal_event_key_inject:
  "withdrawal_event_key u e = withdrawal_event_key u' e' \<Longrightarrow> u = u' \<and> e = e'"
proof -
  assume "withdrawal_event_key u e = withdrawal_event_key u' e'"
  then have "dec u @ 58 # lit ''auth-epoch:'' @ dec e = dec u' @ 58 # lit ''auth-epoch:'' @ dec e'"
    by (simp add: withdrawal_event_key_def lit_def)
  from dec_then_sep [OF _ this] show ?thesis by (simp add: is_digit_def)
qed

text \<open>A stored user as a \<open>user_ref\<close>.\<close>

definition user_ref :: "db \<Rightarrow> nat \<Rightarrow> user_ref" where
  "user_ref d i = map_option (\<lambda>u. (Some i, u)) (tget (users d) i)"

lemma effective_active_iff:
  "effective_account_status (user_ref d i) = ACTIVE \<longleftrightarrow>
     (\<exists>u. tget (users d) i = Some u \<and> user_withdrawn_at u = None)"
  by (auto simp: effective_account_status_def user_ref_def split: option.splits)

end
