(* ===== verification/Notifications.thy ===== *)
theory Notifications imports Identity begin

text \<open>
  The durable events of \<open>notifications/services.py\<close> and \<open>context_processors.py\<close>: creating an
  event once per recipient, the pair of events of a transfer, marking read, the unread count and the
  batched purge. The inbox itself is in the theory \<open>Inbox\<close>. \<open>tnow\<close> is the
  database's \<open>Now()\<close>, \<open>app_now\<close> is \<open>timezone.now()\<close>.
\<close>

definition PURGE_BATCH_SIZE :: nat where "PURGE_BATCH_SIZE = 500"

section \<open>Creating events\<close>

definition notification_key :: "nat \<Rightarrow> pystr \<Rightarrow> nat \<Rightarrow> notification \<Rightarrow> bool" where
  "notification_key recipient event_key k n \<longleftrightarrow>
     notification_recipient_id n = recipient \<and> notification_event_key n = event_key"

definition active_recipient :: "db \<Rightarrow> nat \<Rightarrow> bool" where
  "active_recipient d i \<longleftrightarrow>
     texists (\<lambda>k u. k = i \<and> user_is_active u \<and> user_withdrawn_at u = None) (users d)"

definition create_notification ::
    "instant \<Rightarrow> nat \<Rightarrow> pystr \<Rightarrow> notification_kind \<Rightarrow> notification_payload \<Rightarrow> db \<Rightarrow>
     exn + ((nat \<times> bool) \<times> db)" where
  "create_notification tnow recipient_id event_key kind payload d =
     (if event_key = [] \<or> length event_key > 160 then Inl ValueError
      else if \<not> active_recipient d recipient_id then Inl NotificationAuthorizationError
      else
        case tfirst (notification_key recipient_id event_key) (notifications d) of
          Some (k, _) \<Rightarrow> Inr ((k, False), d)
        | None \<Rightarrow>
            let (k, t) = tcreate
                  \<lparr>notification_recipient_id = recipient_id, notification_event_key = event_key,
                   notification_kind = kind, notification_payload = payload,
                   notification_read_at = None, notification_created_at = tnow,
                   notification_expires_at = tnow + days 90\<rparr> (notifications d)
            in Inr ((k, True), d\<lparr>notifications := t\<rparr>))"

definition username_of :: "db \<Rightarrow> nat \<Rightarrow> pystr" where
  "username_of d i = (case tget (users d) i of None \<Rightarrow> [] | Some u \<Rightarrow> user_username u)"

text \<open>\<open>create_transfer_notifications\<close>: the sender's event, then the recipient's.\<close>

definition create_transfer_notifications ::
    "instant \<Rightarrow> nat \<Rightarrow> nat \<Rightarrow> nat \<Rightarrow> nat \<Rightarrow> db \<Rightarrow> exn + ((nat \<times> nat) \<times> db)" where
  "create_transfer_notifications tnow sender_id recipient_id transfer_uuid cents d =
     (let transfer_id = uuid_str transfer_uuid; amount = fmt_0f cents in
      case create_notification tnow sender_id (lit ''transfer.sender:'' @ transfer_id) TRANSFER_SENT
             (Transfer_Payload transfer_id amount (username_of d recipient_id)) d of
        Inl e \<Rightarrow> Inl e
      | Inr ((sender_notice, _), d1) \<Rightarrow>
          (case create_notification tnow recipient_id (lit ''transfer.recipient:'' @ transfer_id)
                  TRANSFER_RECEIVED
                  (Transfer_Payload transfer_id amount (username_of d sender_id)) d1 of
             Inl e \<Rightarrow> Inl e
           | Inr ((recipient_notice, _), d2) \<Rightarrow> Inr ((sender_notice, recipient_notice), d2)))"

section \<open>Reading\<close>

definition unexpired :: "instant \<Rightarrow> nat \<Rightarrow> nat \<Rightarrow> notification \<Rightarrow> bool" where
  "unexpired tnow user_id k n \<longleftrightarrow>
     notification_recipient_id n = user_id \<and> notification_expires_at n \<ge> tnow"

definition mark_notification_read ::
    "instant \<Rightarrow> instant \<Rightarrow> nat \<Rightarrow> nat \<Rightarrow> db \<Rightarrow> exn + (nat \<times> db)" where
  "mark_notification_read tnow app_now notification_id recipient_id d =
     (case tget (notifications d) notification_id of
        None \<Rightarrow> Inl NotificationAuthorizationError
      | Some n \<Rightarrow>
          if \<not> unexpired tnow recipient_id notification_id n then Inl NotificationAuthorizationError
          else if notification_read_at n = None
          then Inr (notification_id, d\<lparr>notifications := tmodify notification_id
                 (\<lambda>n. n\<lparr>notification_read_at := Some app_now\<rparr>) (notifications d)\<rparr>)
          else Inr (notification_id, d))"

definition unread_notification_count :: "instant \<Rightarrow> nat option \<Rightarrow> db \<Rightarrow> nat" where
  "unread_notification_count tnow user_id d =
     (case user_id of None \<Rightarrow> 0
      | Some u \<Rightarrow> tcount (\<lambda>k n. unexpired tnow u k n \<and> notification_read_at n = None) (notifications d))"

section \<open>The purge\<close>

text \<open>
  The loop deletes batches of at most \<open>batch\<close> expired rows until none is left. It stops
  because a non-empty batch shrinks the number of expired rows.
\<close>

definition expired :: "instant \<Rightarrow> nat \<Rightarrow> notification \<Rightarrow> bool" where
  "expired tnow k n \<longleftrightarrow> notification_expires_at n < tnow"

definition expired_batch :: "instant \<Rightarrow> nat \<Rightarrow> notification table \<Rightarrow> nat list" where
  "expired_batch tnow batch t = take batch (sort (map fst (tselect (expired tnow) t)))"

definition delete_batch :: "nat list \<Rightarrow> notification table \<Rightarrow> notification table" where
  "delete_batch ids t = tdelete (\<lambda>k _. k \<in> set ids) t"

function purge_loop :: "instant \<Rightarrow> nat \<Rightarrow> nat \<Rightarrow> notification table \<Rightarrow> nat \<times> notification table" where
  "purge_loop tnow batch deleted t =
     (let ids = expired_batch tnow batch t in
      if ids = [] then (deleted, t)
      else purge_loop tnow batch (deleted + tcount (\<lambda>k _. k \<in> set ids) t) (delete_batch ids t))"
  by pat_completeness auto
termination
proof (relation "measure (\<lambda>(tnow, batch, deleted, t). length (rows t))", goal_cases)
  case (2 tnow batch deleted t ids)
  then have "hd ids \<in> set (map fst (tselect (expired tnow) t))"
    unfolding expired_batch_def by (metis hd_in_set in_set_takeD set_sort)
  then obtain n where n: "(hd ids, n) \<in> set (rows t)"
    by (auto simp: tselect_def)
  have "length (filter (\<lambda>(k, _). k \<notin> set ids) (rows t)) < length (rows t)"
    using n 2(2) by (intro length_filter_less [of "(hd ids, n)"]) auto
  then show ?case by (simp add: delete_batch_def tdelete_def)
qed simp

declare purge_loop.simps [simp del]

record purge_result =
  deleted_count :: nat
  lock_acquired :: bool

text \<open>\<open>locked\<close> is what \<open>pg_try_advisory_xact_lock\<close> answers.\<close>

definition purge_expired_notifications :: "instant \<Rightarrow> bool \<Rightarrow> db \<Rightarrow> exn + (purge_result \<times> db)" where
  "purge_expired_notifications tnow locked d =
     (if \<not> locked then Inr (\<lparr>deleted_count = 0, lock_acquired = False\<rparr>, d)
      else
        let (deleted, t) = purge_loop tnow PURGE_BATCH_SIZE 0 (notifications d) in
        Inr (\<lparr>deleted_count = deleted, lock_acquired = True\<rparr>,
             d\<lparr>notifications := t,
               notification_purge := Some \<lparr>purge_last_success_at = Some tnow,
                                           purge_last_deleted_count = deleted\<rparr>\<rparr>))"

end
