(* ===== verification/Moderation_Policies.thy ===== *)
theory Moderation_Policies imports Schema begin

text \<open>
  The pure moderation rules of \<open>moderation/policies.py\<close>: which report contexts fit a
  target, who may contribute a report, and when the independent reports about a target
  are enough for a sanction, with the closed form of that decision.
\<close>

definition MIN_REPORTER_AGE :: int where "MIN_REPORTER_AGE = days 7"
definition ACTION_DURATION :: int where "ACTION_DURATION = days 7"
definition PRODUCT_REPORTER_THRESHOLD :: nat where "PRODUCT_REPORTER_THRESHOLD = 5"
definition USER_CONTEXT_THRESHOLD :: nat where "USER_CONTEXT_THRESHOLD = 2"
definition INDEPENDENT_REPORTER_THRESHOLD :: nat where "INDEPENDENT_REPORTER_THRESHOLD = 5"

definition USER_CONTEXTS :: "report_context list" where
  "USER_CONTEXTS = [PROFILE, PRODUCT_INTERACTION, GLOBAL_CHAT, DIRECT_CHAT]"

fun allowed_contexts :: "target_type \<Rightarrow> report_context list" where
  "allowed_contexts PRODUCT = [PRODUCT_CONTEXT]"
| "allowed_contexts USER = USER_CONTEXTS"
| "allowed_contexts REVIEW = [REVIEW_CONTEXT]"

definition validate_report_context :: "target_type \<Rightarrow> report_context \<Rightarrow> unit result" where
  "validate_report_context tt ctx =
     (if ctx \<notin> set (allowed_contexts tt) then Inl ModerationPolicyError else Inr ())"

definition is_reporter_eligible :: "instant \<Rightarrow> bool \<Rightarrow> instant \<Rightarrow> bool" where
  "is_reporter_eligible joined_at is_active database_now \<longleftrightarrow>
     is_active \<and> database_now - joined_at \<ge> MIN_REPORTER_AGE"

text \<open>
  \<open>independent_reporters_by_context\<close> is a dict from contexts to sets of reporters; here
  its items in insertion order. The loop validates each context and refuses a reporter
  that a former context already counted.
\<close>

type_synonym reporters_by_context = "(report_context \<times> nat list) list"

fun collect_reporters :: "target_type \<Rightarrow> nat list \<Rightarrow> reporters_by_context \<Rightarrow> nat list result" where
  "collect_reporters tt seen [] = Inr seen"
| "collect_reporters tt seen ((ctx, ids) # rest) =
     (case validate_report_context tt ctx of
        Inl e \<Rightarrow> Inl e
      | Inr _ \<Rightarrow>
          if list_ex (\<lambda>i. i \<in> set seen) ids then Inl ModerationPolicyError
          else collect_reporters tt (seen @ remdups ids) rest)"

definition qualifies_for_action :: "target_type \<Rightarrow> reporters_by_context \<Rightarrow> bool result" where
  "qualifies_for_action tt by_ctx =
     (case collect_reporters tt [] by_ctx of
        Inl e \<Rightarrow> Inl e
      | Inr seen \<Rightarrow>
          if tt = REVIEW then Inr False
          else if tt = PRODUCT then
            Inr (length (remdups (case map_of by_ctx PRODUCT_CONTEXT of None \<Rightarrow> [] | Some ids \<Rightarrow> ids))
                 \<ge> INDEPENDENT_REPORTER_THRESHOLD)
          else
            Inr (length (remdups seen) \<ge> INDEPENDENT_REPORTER_THRESHOLD \<and>
                 length (remdups (map fst (filter (\<lambda>(ctx, ids). ctx \<in> set USER_CONTEXTS \<and> ids \<noteq> []) by_ctx)))
                 \<ge> USER_CONTEXT_THRESHOLD))"

definition action_expiry :: "instant \<Rightarrow> instant" where
  "action_expiry database_now = database_now + ACTION_DURATION"

lemmas policy_defs = MIN_REPORTER_AGE_def ACTION_DURATION_def PRODUCT_REPORTER_THRESHOLD_def
  USER_CONTEXT_THRESHOLD_def INDEPENDENT_REPORTER_THRESHOLD_def

section \<open>The decision in closed form\<close>

definition all_reporters :: "reporters_by_context \<Rightarrow> nat set" where
  "all_reporters m = (\<Union>(ctx, ids) \<in> set m. set ids)"

definition used_contexts :: "reporters_by_context \<Rightarrow> report_context set" where
  "used_contexts m = {ctx. \<exists>ids. (ctx, ids) \<in> set m \<and> ids \<noteq> []}"

text \<open>Each reporter counted in one context only, and every context fits the target.\<close>

fun independent :: "reporters_by_context \<Rightarrow> bool" where
  "independent [] = True"
| "independent ((ctx, ids) # rest) \<longleftrightarrow> set ids \<inter> all_reporters rest = {} \<and> independent rest"

definition contexts_allowed :: "target_type \<Rightarrow> reporters_by_context \<Rightarrow> bool" where
  "contexts_allowed tt m \<longleftrightarrow> fst ` set m \<subseteq> set (allowed_contexts tt)"

lemma all_reporters_Cons [simp]: "all_reporters ((c, ids) # m) = set ids \<union> all_reporters m"
  by (simp add: all_reporters_def)

lemma all_reporters_Nil [simp]: "all_reporters [] = {}"
  by (simp add: all_reporters_def)

lemma collect_reporters_ok:
  "contexts_allowed tt m \<Longrightarrow> independent m \<Longrightarrow> set seen \<inter> all_reporters m = {} \<Longrightarrow>
   \<exists>ids. collect_reporters tt seen m = Inr ids \<and> set ids = set seen \<union> all_reporters m"
proof (induction m arbitrary: seen)
  case (Cons a m)
  obtain c ids where a: "a = (c, ids)" by force
  from Cons.prems a have "set (seen @ remdups ids) \<inter> all_reporters m = {}"
    and "contexts_allowed tt m" "independent m"
    by (auto simp: contexts_allowed_def)
  from Cons.IH [OF this(2,3,1)] obtain r where
    r: "collect_reporters tt (seen @ remdups ids) m = Inr r" "set r = set seen \<union> set ids \<union> all_reporters m"
    by auto
  from Cons.prems a have "\<not> list_ex (\<lambda>i. i \<in> set seen) ids"
    by (auto simp: list_ex_iff)
  moreover from Cons.prems a have "validate_report_context tt c = Inr ()"
    by (simp add: contexts_allowed_def validate_report_context_def)
  ultimately show ?case using a r by auto
qed simp

lemma collect_reporters_err: "collect_reporters tt seen m = Inl e \<Longrightarrow> e = ModerationPolicyError"
  by (induction tt seen m rule: collect_reporters.induct)
     (auto simp: validate_report_context_def split: if_splits)

lemma length_remdups_card: "length (remdups xs) = card (set xs)"
  by (simp add: length_remdups_card_conv)

lemma qualifies_user:
  assumes "contexts_allowed USER m" "independent m"
  shows "qualifies_for_action USER m =
     Inr (5 \<le> card (all_reporters m) \<and> 2 \<le> card (used_contexts m))"
proof -
  from collect_reporters_ok [OF assms, of "[]"] obtain ids where
    ids: "collect_reporters USER [] m = Inr ids" "set ids = all_reporters m" by auto
  have "set (map fst (filter (\<lambda>(ctx, ids). ctx \<in> set USER_CONTEXTS \<and> ids \<noteq> []) m)) = used_contexts m"
    using assms(1) by (force simp: used_contexts_def contexts_allowed_def)
  with ids show ?thesis
    by (simp add: qualifies_for_action_def policy_defs length_remdups_card)
qed

lemma qualifies_product:
  assumes "contexts_allowed PRODUCT m" "independent m" "distinct (map fst m)"
  shows "qualifies_for_action PRODUCT m = Inr (5 \<le> card (all_reporters m))"
proof -
  from collect_reporters_ok [OF assms(1,2), of "[]"] obtain ids where
    ids: "collect_reporters PRODUCT [] m = Inr ids" by auto
  from assms(1,3) have "m = [] \<or> (\<exists>ids. m = [(PRODUCT_CONTEXT, ids)])"
    by (cases m; cases "tl m") (auto simp: contexts_allowed_def)
  then have "set (case map_of m PRODUCT_CONTEXT of None \<Rightarrow> [] | Some ids \<Rightarrow> ids) = all_reporters m"
    by auto
  with ids show ?thesis
    by (simp add: qualifies_for_action_def policy_defs length_remdups_card)
qed

lemma qualifies_review: "qualifies_for_action REVIEW m \<noteq> Inr True"
  by (simp add: qualifies_for_action_def split: sum.splits)

end
