(* ===== verification/Moderation_Services.thy ===== *)
theory Moderation_Services imports Moderation_Policies begin

text \<open>
  \<open>moderation/services.py\<close>: the effective status of users and products, report
  submission and the automatic sanction. Database time appears twice, as in the code:
  \<open>tnow\<close> is the statement time of \<open>Now()\<close>, \<open>cnow\<close> the \<open>clock_timestamp()\<close> that
  \<open>_database_now\<close> reads after the locks are held.
\<close>

section \<open>Effective status\<close>

datatype effective_user_status = USER_ACTIVE | USER_DORMANT
datatype effective_visibility = VISIBLE | HIDDEN

definition released :: "db \<Rightarrow> nat \<Rightarrow> bool" where
  "released d action_id \<longleftrightarrow> texists (\<lambda>_ r. release_action_id r = action_id) (sanction_releases d)"

definition in_window :: "instant \<Rightarrow> moderation_action \<Rightarrow> bool" where
  "in_window tnow a \<longleftrightarrow> action_starts_at a \<le> tnow \<and> action_expires_at a > tnow"

definition active_actions :: "instant \<Rightarrow> db \<Rightarrow> nat \<Rightarrow> moderation_action \<Rightarrow> bool" where
  "active_actions tnow d k a \<longleftrightarrow> in_window tnow a \<and> \<not> released d k"

definition effective_user_status :: "instant \<Rightarrow> db \<Rightarrow> nat \<Rightarrow> effective_user_status" where
  "effective_user_status tnow d user_id =
     (if texists (\<lambda>k a. active_actions tnow d k a \<and> action_kind a = USER_DORMANCY \<and>
                        action_target_user_id a = Some user_id) (moderation_actions d)
      then USER_DORMANT else USER_ACTIVE)"

definition effective_product_visibility :: "instant \<Rightarrow> db \<Rightarrow> nat \<Rightarrow> effective_visibility" where
  "effective_product_visibility tnow d product_id =
     (let visible = texists (\<lambda>k p. k = product_id \<and> product_archived_at p = None) (products d);
          hidden = texists (\<lambda>k a. active_actions tnow d k a \<and> action_kind a = PRODUCT_HIDE \<and>
                        action_target_product_id a = Some product_id) (moderation_actions d)
      in if hidden \<or> \<not> visible then HIDDEN else VISIBLE)"

text \<open>
  The queryset filter behind product lists. It does not look at releases, unlike
  \<open>active_actions\<close>.
\<close>

definition moderation_hidden :: "instant \<Rightarrow> db \<Rightarrow> nat \<Rightarrow> bool" where
  "moderation_hidden tnow d product_id \<longleftrightarrow>
     texists (\<lambda>k a. action_kind a = PRODUCT_HIDE \<and> action_target_product_id a = Some product_id \<and>
                    in_window tnow a) (moderation_actions d)"

definition visible_products :: "instant \<Rightarrow> db \<Rightarrow> (nat \<times> product) list \<Rightarrow> (nat \<times> product) list" where
  "visible_products tnow d queryset =
     filter (\<lambda>(k, p). product_archived_at p = None \<and> \<not> moderation_hidden tnow d k) queryset"

section \<open>Report submission\<close>

definition normalize_reason :: "pystr \<Rightarrow> pystr result" where
  "normalize_reason reason =
     (let normalized = py_strip reason in
      if normalized = [] \<or> length normalized > 1000 \<or> 0 \<in> set normalized then Inl ReportSubmissionError
      else if list_ex (\<lambda>c. c < 32 \<and> c \<noteq> 10) normalized then Inl ReportSubmissionError
      else Inr normalized)"

record parties =
  party_reporter :: "nat \<times> user"
  party_user :: "(nat \<times> user) option"
  party_product :: "(nat \<times> product) option"

definition lock_submission_parties :: "nat \<Rightarrow> target_type \<Rightarrow> nat \<Rightarrow> db \<Rightarrow> parties result" where
  "lock_submission_parties reporter_id tt target_id d =
     (if tt = USER then
        (case (tget (users d) reporter_id, tget (users d) target_id) of
           (Some r, Some t) \<Rightarrow> Inr \<lparr>party_reporter = (reporter_id, r),
                                   party_user = Some (target_id, t), party_product = None\<rparr>
         | _ \<Rightarrow> Inl ReportSubmissionError)
      else
        (case tget (products d) target_id of
           None \<Rightarrow> Inl ReportSubmissionError
         | Some p \<Rightarrow>
             if product_archived_at p \<noteq> None then Inl ReportSubmissionError
             else (case tget (users d) reporter_id of
                     None \<Rightarrow> Inl ReportSubmissionError
                   | Some r \<Rightarrow> Inr \<lparr>party_reporter = (reporter_id, r), party_user = None,
                                   party_product = Some (target_id, p)\<rparr>)))"

definition reporter_can_contribute :: "instant \<Rightarrow> instant \<Rightarrow> db \<Rightarrow> nat \<Rightarrow> user \<Rightarrow> bool" where
  "reporter_can_contribute tnow cnow d k u \<longleftrightarrow>
     is_reporter_eligible (user_date_joined u) (user_is_active u) cnow \<and>
     effective_user_status tnow d k = USER_ACTIVE"

definition targets :: "target_type \<Rightarrow> nat \<Rightarrow> moderation_action \<Rightarrow> bool" where
  "targets tt target_id a \<longleftrightarrow>
     (if tt = USER then action_target_user_id a = Some target_id
      else action_target_product_id a = Some target_id)"

definition active_action_for_target ::
    "instant \<Rightarrow> db \<Rightarrow> target_type \<Rightarrow> nat \<Rightarrow> (nat \<times> moderation_action) option" where
  "active_action_for_target tnow d tt target_id =
     tfirst (\<lambda>k a. active_actions tnow d k a \<and> targets tt target_id a) (moderation_actions d)"

text \<open>The unconsumed reports of the last seven days, in the order \<open>created_at, pk\<close>.\<close>

definition recent_report :: "instant \<Rightarrow> target_type \<Rightarrow> nat \<Rightarrow> nat \<Rightarrow> abuse_report \<Rightarrow> bool" where
  "recent_report cnow tt target_id k r \<longleftrightarrow>
     report_target_type r = tt \<and> report_consumed_by r = None \<and>
     report_created_at r \<ge> cnow - days 7 \<and> report_created_at r \<le> cnow \<and>
     (if tt = USER then report_target_user_id r = Some target_id
      else report_target_product_id r = Some target_id)"

fun add_reporter :: "report_context \<Rightarrow> nat \<Rightarrow> reporters_by_context \<Rightarrow> reporters_by_context" where
  "add_reporter ctx i [] = [(ctx, [i])]"
| "add_reporter ctx i ((c, ids) # rest) =
     (if c = ctx then (c, List.insert i ids) # rest else (c, ids) # add_reporter ctx i rest)"

definition contributes :: "instant \<Rightarrow> instant \<Rightarrow> db \<Rightarrow> abuse_report \<Rightarrow> bool" where
  "contributes tnow cnow d r =
     (case tget (users d) (report_reporter_id r) of
        None \<Rightarrow> False
      | Some u \<Rightarrow> reporter_can_contribute tnow cnow d (report_reporter_id r) u)"

fun group_reports :: "(nat \<times> abuse_report) list \<Rightarrow> reporters_by_context \<Rightarrow> reporters_by_context" where
  "group_reports [] m = m"
| "group_reports ((k, r) # rest) m =
     group_reports rest (add_reporter (report_context r) (report_reporter_id r) m)"

definition qualifying_reports ::
    "instant \<Rightarrow> instant \<Rightarrow> db \<Rightarrow> target_type \<Rightarrow> nat \<Rightarrow> (nat \<times> abuse_report) list \<times> reporters_by_context" where
  "qualifying_reports tnow cnow d tt target_id =
     (let reports = sort_key (\<lambda>(k, r). report_created_at r)
            (tselect (recent_report cnow tt target_id) (abuse_reports d));
          eligible = filter (\<lambda>(k, r). contributes tnow cnow d r) reports
      in (eligible, group_reports eligible []))"

definition create_moderation_action :: "moderation_action \<Rightarrow> db \<Rightarrow> exn + (nat \<times> db)" where
  "create_moderation_action a d =
     (if \<not> moderation_action_check a then Inl IntegrityError
      else let (k, t) = tcreate a (moderation_actions d) in Inr (k, d\<lparr>moderation_actions := t\<rparr>))"

definition bump_auth_epoch :: "user \<Rightarrow> user" where
  "bump_auth_epoch u = u\<lparr>user_auth_epoch := user_auth_epoch u + 1\<rparr>"

definition evaluate_locked ::
    "instant \<Rightarrow> instant \<Rightarrow> target_type \<Rightarrow> nat \<Rightarrow> nat option \<Rightarrow> db \<Rightarrow> exn + (nat option \<times> db)" where
  "evaluate_locked tnow cnow tt target_id actor_id d =
     (if active_action_for_target tnow d tt target_id \<noteq> None then Inr (None, d)
      else
        let (reports, by_context) = qualifying_reports tnow cnow d tt target_id in
        case qualifies_for_action tt by_context of
          Inl e \<Rightarrow> Inl e
        | Inr False \<Rightarrow> Inr (None, d)
        | Inr True \<Rightarrow>
            (case create_moderation_action
               \<lparr>action_kind = (if tt = USER then USER_DORMANCY else PRODUCT_HIDE),
                action_target_user_id = (if tt = USER then Some target_id else None),
                action_target_product_id = (if tt = USER then None else Some target_id),
                action_starts_at = cnow, action_expires_at = cnow + ACTION_DURATION\<rparr> d of
               Inl e \<Rightarrow> Inl e
             | Inr (action, d1) \<Rightarrow>
                 let d2 = d1\<lparr>abuse_reports := tupdate (\<lambda>k _. k \<in> set (map fst reports))
                              (\<lambda>r. r\<lparr>report_consumed_by := Some action\<rparr>) (abuse_reports d1)\<rparr>;
                     d3 = (if tt = USER
                           then d2\<lparr>users := tmodify target_id bump_auth_epoch (users d2)\<rparr> else d2);
                     d4 = d3\<lparr>audit_events := snd (tcreate
                              \<lparr>event_actor_id = actor_id, event_action_id = Some action,
                               event_target_type = tt, event_target_id = target_id,
                               event_consumed_report_count = length reports\<rparr> (audit_events d3))\<rparr>
                 in Inr (Some action, d4)))"

definition create_report :: "abuse_report \<Rightarrow> db \<Rightarrow> exn + (nat \<times> db)" where
  "create_report r d =
     (if \<not> abuse_report_check r \<or> texists (\<lambda>_ r'. same_report_target r r') (abuse_reports d)
      then Inl IntegrityError
      else let (k, t) = tcreate r (abuse_reports d) in Inr (k, d\<lparr>abuse_reports := t\<rparr>))"

text \<open>The body of the transaction of \<open>submit_report\<close>.\<close>

definition submit_report_tx ::
    "instant \<Rightarrow> instant \<Rightarrow> nat \<Rightarrow> target_type \<Rightarrow> nat \<Rightarrow> report_context \<Rightarrow> pystr \<Rightarrow> db \<Rightarrow>
     exn + ((nat \<times> nat option) \<times> db)" where
  "submit_report_tx tnow cnow reporter tt target_id ctx reason d =
     (case lock_submission_parties reporter tt target_id d of
        Inl e \<Rightarrow> Inl e
      | Inr p \<Rightarrow>
          if \<not> reporter_can_contribute tnow cnow d reporter (snd (party_reporter p))
          then Inl ReportSubmissionError
          else if tt = USER \<and>
                  (target_id = reporter \<or> \<not> user_is_active (snd (the (party_user p))) \<or>
                   effective_user_status tnow d target_id \<noteq> USER_ACTIVE)
          then Inl ReportSubmissionError
          else if tt \<noteq> USER \<and>
                  (product_owner_id (snd (the (party_product p))) = reporter \<or>
                   effective_product_visibility tnow d target_id \<noteq> VISIBLE)
          then Inl ReportSubmissionError
          else
            case create_report
              \<lparr>report_reporter_id = reporter, report_target_type = tt,
               report_target_user_id = map_option fst (party_user p),
               report_target_product_id = map_option fst (party_product p),
               report_target_review_id = None, report_context = ctx, report_reason = reason,
               report_created_at = cnow, report_consumed_by = None\<rparr> d of
              Inl e \<Rightarrow> Inl e
            | Inr (report, d1) \<Rightarrow>
                (case evaluate_locked tnow cnow tt target_id (Some reporter) d1 of
                   Inl e \<Rightarrow> Inl e
                 | Inr (action, d2) \<Rightarrow> Inr ((report, action), d2)))"

text \<open>
  \<open>submit_report\<close>: the target type and the context arrive as text, \<open>None\<close> standing for a
  value outside the enumeration. An \<open>IntegrityError\<close> of the transaction is reported as a
  duplicate.
\<close>

definition submit_report ::
    "instant \<Rightarrow> instant \<Rightarrow> nat \<Rightarrow> target_type option \<Rightarrow> nat \<Rightarrow> report_context option \<Rightarrow> pystr \<Rightarrow> db \<Rightarrow>
     exn + ((nat \<times> nat option) \<times> db)" where
  "submit_report tnow cnow reporter tt target_id ctx reason d =
     (case (tt, ctx) of
        (Some t, Some c) \<Rightarrow>
          (case validate_report_context t c of
             Inl _ \<Rightarrow> Inl ReportSubmissionError
           | Inr _ \<Rightarrow>
               (case normalize_reason reason of
                  Inl e \<Rightarrow> Inl e
                | Inr normalized \<Rightarrow>
                    (case submit_report_tx tnow cnow reporter t target_id c normalized d of
                       Inl IntegrityError \<Rightarrow> Inl DuplicateReportError
                     | r \<Rightarrow> r)))
      | _ \<Rightarrow> Inl ReportSubmissionError)"

definition submit_review_report ::
    "instant \<Rightarrow> instant \<Rightarrow> nat \<Rightarrow> bool \<Rightarrow> int \<Rightarrow> pystr \<Rightarrow> db \<Rightarrow> exn + (nat \<times> db)" where
  "submit_review_report tnow cnow reporter is_authenticated review_id reason d =
     (case normalize_reason reason of
        Inl e \<Rightarrow> Inl e
      | Inr normalized \<Rightarrow>
          if review_id \<le> 0 \<or> \<not> is_authenticated then Inl ReportSubmissionError
          else
            (case (tget (users d) reporter, tget (reviews d) (nat review_id)) of
               (Some u, Some rvw) \<Rightarrow>
                 if review_author_id rvw = reporter \<or> \<not> reporter_can_contribute tnow cnow d reporter u
                 then Inl ReportSubmissionError
                 else
                   (case create_report
                      \<lparr>report_reporter_id = reporter, report_target_type = REVIEW,
                       report_target_user_id = None, report_target_product_id = None,
                       report_target_review_id = Some (nat review_id),
                       report_context = REVIEW_CONTEXT, report_reason = normalized,
                       report_created_at = cnow, report_consumed_by = None\<rparr> d of
                      Inl _ \<Rightarrow> Inl ReportSubmissionError
                    | r \<Rightarrow> r)
             | _ \<Rightarrow> Inl ReportSubmissionError))"

definition evaluate_threshold ::
    "instant \<Rightarrow> instant \<Rightarrow> target_type option \<Rightarrow> nat \<Rightarrow> db \<Rightarrow> exn + (nat option \<times> db)" where
  "evaluate_threshold tnow cnow tt target_id d =
     (case tt of
        None \<Rightarrow> Inl ReportSubmissionError
      | Some t \<Rightarrow>
          if t = USER then
            (case tget (users d) target_id of
               None \<Rightarrow> Inl ReportSubmissionError
             | Some u \<Rightarrow>
                 if \<not> user_is_active u \<or> effective_user_status tnow d target_id \<noteq> USER_ACTIVE
                 then Inr (None, d)
                 else evaluate_locked tnow cnow t target_id None d)
          else
            (case tget (products d) target_id of
               None \<Rightarrow> Inl ReportSubmissionError
             | Some p \<Rightarrow>
                 if product_archived_at p \<noteq> None then Inl ReportSubmissionError
                 else if t = PRODUCT \<and> effective_product_visibility tnow d target_id \<noteq> VISIBLE
                 then Inr (None, d)
                 else evaluate_locked tnow cnow t target_id None d))"

end
