(* ===== verification/Transfers.thy ===== *)
theory Transfers imports Notifications Moderation_Services begin

text \<open>
  The mock-money ledger of \<open>transfers/services.py\<close>: opening an account with its seed
  journal, the idempotent transfer with its retry loop, the transfer inside a product
  room, closing an account and the list of ledger mismatches. Amounts are hundredths.
  The keys \<open>uuid4\<close> draws are arguments; the advisory and row locks make each transaction
  run alone, so a transaction is a function on the database.
\<close>

named_theorems ledger_simps \<open>effect of the ledger primitives on the database\<close>

definition SEED_AMOUNT :: int where "SEED_AMOUNT = 100000 * 100"
definition MAX_BALANCE :: int where "MAX_BALANCE = 1000000000 * 100"

section \<open>Canonical payloads\<close>

text \<open>\<open>json.dumps\<close> with sorted keys and compact separators, on the two dictionaries used.\<close>

definition canonical_payload :: "pystr \<Rightarrow> nat \<Rightarrow> pystr" where
  "canonical_payload recipient cents =
     lit ''{'' @ json_string (lit ''amount'') @ lit '':'' @ json_string (fmt_2f cents) @ lit '','' @
     json_string (lit ''recipient'') @ lit '':'' @ json_string recipient @ lit '','' @
     json_string (lit ''version'') @ lit '':'' @ dec 1 @ lit ''}''"

definition canonical_room_payload :: "nat \<Rightarrow> nat \<Rightarrow> pystr" where
  "canonical_room_payload room_id cents =
     lit ''{'' @ json_string (lit ''amount'') @ lit '':'' @ json_string (fmt_2f cents) @ lit '','' @
     json_string (lit ''room_id'') @ lit '':'' @ dec room_id @ lit '','' @
     json_string (lit ''version'') @ lit '':'' @ dec 2 @ lit ''}''"

lemma canonical_payload_same:
  "canonical_payload r a = canonical_payload r' a' \<Longrightarrow> r = r' \<and> a = a'"
proof -
  assume h: "canonical_payload r a = canonical_payload r' a'"
  then have "json_string (fmt_2f a) @ lit '','' @ json_string (lit ''recipient'') @ lit '':'' @
      json_string r @ lit '','' @ json_string (lit ''version'') @ lit '':'' @ dec 1 @ lit ''}'' =
    json_string (fmt_2f a') @ lit '','' @ json_string (lit ''recipient'') @ lit '':'' @
      json_string r' @ lit '','' @ json_string (lit ''version'') @ lit '':'' @ dec 1 @ lit ''}''"
    by (simp add: canonical_payload_def)
  from json_string_prefix [OF this] have "fmt_2f a = fmt_2f a'"
    and "json_string r @ lit '','' @ json_string (lit ''version'') @ lit '':'' @ dec 1 @ lit ''}'' =
      json_string r' @ lit '','' @ json_string (lit ''version'') @ lit '':'' @ dec 1 @ lit ''}''"
    by simp_all
  with json_string_prefix [OF this(2)] show ?thesis by simp
qed

lemma canonical_room_payload_same:
  "canonical_room_payload r a = canonical_room_payload r' a' \<Longrightarrow> r = r' \<and> a = a'"
proof -
  assume h: "canonical_room_payload r a = canonical_room_payload r' a'"
  then have "json_string (fmt_2f a) @ lit '','' @ json_string (lit ''room_id'') @ lit '':'' @
      dec r @ lit '','' @ json_string (lit ''version'') @ lit '':'' @ dec 2 @ lit ''}'' =
    json_string (fmt_2f a') @ lit '','' @ json_string (lit ''room_id'') @ lit '':'' @
      dec r' @ lit '','' @ json_string (lit ''version'') @ lit '':'' @ dec 2 @ lit ''}''"
    by (simp add: canonical_room_payload_def)
  from json_string_prefix [OF this] have "fmt_2f a = fmt_2f a'"
    and "dec r @ 44 # json_string (lit ''version'') @ lit '':'' @ dec 2 @ lit ''}'' =
      dec r' @ 44 # json_string (lit ''version'') @ lit '':'' @ dec 2 @ lit ''}''"
    by (simp_all add: lit_def)
  with dec_then_sep [OF _ this(2)] show ?thesis by (simp add: is_digit_def)
qed

lemma lit_fields_differ: "json_string (lit ''recipient'') @ u \<noteq> json_string (lit ''room_id'') @ v"
proof
  assume "json_string (lit ''recipient'') @ u = json_string (lit ''room_id'') @ v"
  from json_string_prefix [OF this] show False by (simp add: lit_def)
qed

lemma canonical_payloads_disjoint: "canonical_payload r a \<noteq> canonical_room_payload n b"
proof
  assume h: "canonical_payload r a = canonical_room_payload n b"
  then have "json_string (fmt_2f a) @ lit '','' @ json_string (lit ''recipient'') @ lit '':'' @
      json_string r @ lit '','' @ json_string (lit ''version'') @ lit '':'' @ dec 1 @ lit ''}'' =
    json_string (fmt_2f b) @ lit '','' @ json_string (lit ''room_id'') @ lit '':'' @
      dec n @ lit '','' @ json_string (lit ''version'') @ lit '':'' @ dec 2 @ lit ''}''"
    by (simp add: canonical_payload_def canonical_room_payload_def)
  from json_string_prefix [OF this] show False by (simp add: lit_fields_differ)
qed

section \<open>Rows of the ledger\<close>

definition account_of :: "db \<Rightarrow> nat \<Rightarrow> (nat \<times> mock_account) option" where
  "account_of d user_id = tfirst (\<lambda>_ a. account_user_id a = user_id) (mock_accounts d)"

definition ledger_of :: "db \<Rightarrow> nat \<Rightarrow> (nat \<times> ledger_account) option" where
  "ledger_of d account_id = tfirst (\<lambda>_ l. ledger_mock_account_id l = Some account_id) (ledger_accounts d)"

definition reserve_of :: "db \<Rightarrow> (nat \<times> ledger_account) option" where
  "reserve_of d = tfirst (\<lambda>_ l. ledger_code l = lit ''SEED_RESERVE'') (ledger_accounts d)"

definition previous_request :: "db \<Rightarrow> nat \<Rightarrow> nat \<Rightarrow> (nat \<times> transfer_request) option" where
  "previous_request d sender key =
     tfirst (\<lambda>_ r. request_sender_id r = sender \<and> request_idempotency_key r = key) (transfer_requests d)"

definition create_account :: "mock_account \<Rightarrow> db \<Rightarrow> exn + (nat \<times> db)" where
  "create_account a d =
     (if \<not> mock_account_check a \<or> account_of d (account_user_id a) \<noteq> None then Inl IntegrityError
      else Inr (next_pk (mock_accounts d), d\<lparr>mock_accounts := snd (tcreate a (mock_accounts d))\<rparr>))"

definition create_ledger_account :: "ledger_account \<Rightarrow> db \<Rightarrow> exn + (nat \<times> db)" where
  "create_ledger_account l d =
     (if \<not> ledger_account_check l \<or>
         texists (\<lambda>_ l'. ledger_code l' = ledger_code l \<or>
                         ledger_mock_account_id l \<noteq> None \<and>
                         ledger_mock_account_id l' = ledger_mock_account_id l) (ledger_accounts d)
      then Inl IntegrityError
      else Inr (next_pk (ledger_accounts d), d\<lparr>ledger_accounts := snd (tcreate l (ledger_accounts d))\<rparr>))"

definition create_journal :: "nat \<Rightarrow> ledger_journal \<Rightarrow> db \<Rightarrow> exn + (nat \<times> db)" where
  "create_journal jid j d =
     (if tget (ledger_journals d) jid \<noteq> None \<or>
         journal_kind j = SEED_ISSUE \<and> journal_target_mock_account_id j \<noteq> None \<and>
         texists (\<lambda>_ j'. journal_kind j' = SEED_ISSUE \<and>
                         journal_target_mock_account_id j' = journal_target_mock_account_id j)
                 (ledger_journals d)
      then Inl IntegrityError
      else Inr (jid, d\<lparr>ledger_journals := tinsert jid j (ledger_journals d)\<rparr>))"

definition add_entry :: "nat \<Rightarrow> nat \<Rightarrow> int \<Rightarrow> db \<Rightarrow> db" where
  "add_entry jid ledger amount d =
     d\<lparr>ledger_entries := snd (tcreate \<lparr>entry_journal_id = jid, entry_account_id = ledger,
                                        entry_amount = amount\<rparr> (ledger_entries d))\<rparr>"

definition create_transfer_row :: "nat \<Rightarrow> transfer \<Rightarrow> db \<Rightarrow> exn + (nat \<times> db)" where
  "create_transfer_row tid t d =
     (if tget (transfers d) tid \<noteq> None \<or>
         texists (\<lambda>_ t'. transfer_journal_id t' = transfer_journal_id t) (transfers d)
      then Inl IntegrityError
      else Inr (tid, d\<lparr>transfers := tinsert tid t (transfers d)\<rparr>))"

definition create_request :: "transfer_request \<Rightarrow> db \<Rightarrow> exn + (nat \<times> db)" where
  "create_request r d =
     (if previous_request d (request_sender_id r) (request_idempotency_key r) \<noteq> None \<or>
         request_transfer_id r \<noteq> None \<and>
         texists (\<lambda>_ r'. request_transfer_id r' = request_transfer_id r) (transfer_requests d)
      then Inl IntegrityError
      else Inr (next_pk (transfer_requests d),
                d\<lparr>transfer_requests := snd (tcreate r (transfer_requests d))\<rparr>))"

definition audit_transfer :: "nat \<Rightarrow> audit_kind \<Rightarrow> nat option \<Rightarrow> db \<Rightarrow> db" where
  "audit_transfer actor kind transfer_id d =
     d\<lparr>transfer_audits := snd (tcreate \<lparr>taudit_actor_id = actor, taudit_event_type = kind,
                                         taudit_transfer_id = transfer_id\<rparr> (transfer_audits d))\<rparr>"

text \<open>\<open>save(update_fields=("balance",))\<close>, with the check constraint on the new balance.\<close>

definition save_balance :: "nat \<Rightarrow> int \<Rightarrow> db \<Rightarrow> exn + db" where
  "save_balance account_id balance d =
     (if 0 \<le> balance \<and> balance \<le> MAX_BALANCE
      then Inr (d\<lparr>mock_accounts := tmodify account_id (\<lambda>a. a\<lparr>account_balance := balance\<rparr>) (mock_accounts d)\<rparr>)
      else Inl IntegrityError)"

definition open_safety :: "transfer_safety_state" where
  "open_safety = \<lparr>safety_state = OPEN, safety_incident_id = None, safety_blocked_at = None\<rparr>"

definition get_or_create_safety :: "db \<Rightarrow> transfer_safety_state \<times> db" where
  "get_or_create_safety d =
     (case transfer_safety d of
        Some s \<Rightarrow> (s, d)
      | None \<Rightarrow> (open_safety, d\<lparr>transfer_safety := Some open_safety\<rparr>))"

section \<open>Opening an account\<close>

definition get_or_create_reserve :: "db \<Rightarrow> exn + (nat \<times> db)" where
  "get_or_create_reserve d =
     (case reserve_of d of
        Some (k, _) \<Rightarrow> Inr (k, d)
      | None \<Rightarrow> create_ledger_account
          \<lparr>ledger_kind = SYSTEM_ISSUANCE, ledger_mock_account_id = None,
           ledger_code = lit ''SEED_RESERVE''\<rparr> d)"

definition ensure_account :: "nat \<Rightarrow> nat \<Rightarrow> db \<Rightarrow> exn + (nat \<times> db)" where
  "ensure_account journal_uuid user_id d =
     (case account_of d user_id of
        Some (k, _) \<Rightarrow> Inr (k, d)
      | None \<Rightarrow>
     (case get_or_create_reserve d of
        Inl e \<Rightarrow> Inl e
      | Inr (reserve, d1) \<Rightarrow>
     (case create_account \<lparr>account_user_id = user_id, account_balance = SEED_AMOUNT,
                           account_is_open = True, account_closed_at = None\<rparr> d1 of
        Inl e \<Rightarrow> Inl e
      | Inr (account, d2) \<Rightarrow>
     (case create_ledger_account \<lparr>ledger_kind = USER_LEDGER, ledger_mock_account_id = Some account,
                                  ledger_code = lit ''USER:'' @ dec user_id\<rparr> d2 of
        Inl e \<Rightarrow> Inl e
      | Inr (ledger, d3) \<Rightarrow>
     (case create_journal journal_uuid \<lparr>journal_kind = SEED_ISSUE,
                                        journal_target_mock_account_id = Some account\<rparr> d3 of
        Inl e \<Rightarrow> Inl e
      | Inr (journal, d4) \<Rightarrow>
          let d5 = add_entry journal reserve (- SEED_AMOUNT) (add_entry journal ledger SEED_AMOUNT d4);
              (_, d6) = get_or_create_safety d5
          in Inr (account, d6))))))"

section \<open>One transfer\<close>

record transfer_result =
  res_status :: nat
  res_body :: transfer_body
  res_replayed :: bool

text \<open>
  \<open>_is_active_user\<close> of this module: no dormancy in its window, released or not (unlike
  \<open>effective_user_status\<close>).
\<close>

definition is_active_user :: "instant \<Rightarrow> db \<Rightarrow> nat \<Rightarrow> bool" where
  "is_active_user tnow d user_id \<longleftrightarrow>
     texists (\<lambda>k u. k = user_id \<and> user_is_active u \<and> user_withdrawn_at u = None) (users d) \<and>
     \<not> texists (\<lambda>_ a. action_kind a = USER_DORMANCY \<and> action_target_user_id a = Some user_id \<and>
                      in_window tnow a) (moderation_actions d)"

definition store_denial :: "nat \<Rightarrow> nat \<Rightarrow> pystr \<Rightarrow> db \<Rightarrow> exn + (transfer_result \<times> db)" where
  "store_denial sender key payload d =
     (case create_request \<lparr>request_sender_id = sender, request_idempotency_key = key,
             request_canonical_payload = payload, request_response_status = 422,
             request_response_body = Error_Body ''TRANSFER_NOT_ALLOWED'', request_transfer_id = None\<rparr> d of
        Inl e \<Rightarrow> Inl e
      | Inr (_, d') \<Rightarrow> Inr (\<lparr>res_status = 422, res_body = Error_Body ''TRANSFER_NOT_ALLOWED'',
                              res_replayed = False\<rparr>, d'))"

text \<open>A transfer command as the views give it, and the keys one attempt draws.\<close>

record transfer_command =
  cmd_sender_user :: nat
  cmd_recipient_name :: pystr
  cmd_amount :: nat
  cmd_key :: nat
  cmd_request_payload :: "pystr option"

record attempt =
  attempt_abort :: "string option"  \<comment> \<open>the SQLSTATE of an \<open>OperationalError\<close>, if it aborts\<close>
  attempt_now :: instant
  attempt_journal :: nat
  attempt_transfer :: nat

definition command_payload :: "transfer_command \<Rightarrow> pystr" where
  "command_payload c =
     (case cmd_request_payload c of
        None \<Rightarrow> canonical_payload (cmd_recipient_name c) (cmd_amount c)
      | Some [] \<Rightarrow> canonical_payload (cmd_recipient_name c) (cmd_amount c)
      | Some p \<Rightarrow> p)"

text \<open>The debit, the credit, the journal with its two entries and the stored answer.\<close>

definition post_transfer ::
    "attempt \<Rightarrow> transfer_command \<Rightarrow> nat \<Rightarrow> mock_account \<Rightarrow> nat \<Rightarrow> mock_account \<Rightarrow> db \<Rightarrow>
     exn + (transfer_result \<times> db)" where
  "post_transfer att c sender sacc recipient racc d =
     (let amount = int (cmd_amount c);
          sender_balance = account_balance sacc - amount;
          recipient_balance = account_balance racc + amount
      in
      case save_balance sender sender_balance d of Inl e \<Rightarrow> Inl e | Inr d1 \<Rightarrow>
     (case save_balance recipient recipient_balance d1 of Inl e \<Rightarrow> Inl e | Inr d2 \<Rightarrow>
     (case create_journal (attempt_journal att)
             \<lparr>journal_kind = TRANSFER, journal_target_mock_account_id = None\<rparr> d2 of
        Inl e \<Rightarrow> Inl e
      | Inr (journal, d3) \<Rightarrow>
     (case (ledger_of d3 sender, ledger_of d3 recipient) of
        (Some (sender_ledger, _), Some (recipient_ledger, _)) \<Rightarrow>
     (case create_transfer_row (attempt_transfer att)
             \<lparr>transfer_sender_id = sender, transfer_recipient_id = recipient,
              transfer_journal_id = journal, transfer_amount = amount\<rparr>
             (add_entry journal recipient_ledger amount (add_entry journal sender_ledger (- amount) d3)) of
        Inl e \<Rightarrow> Inl e
      | Inr (transfer, d4) \<Rightarrow>
          let body = Completed_Body (uuid_str transfer) (cmd_recipient_name c) (fmt_0f (cmd_amount c))
                       (fmt_0f (nat sender_balance)) in
     (case create_request \<lparr>request_sender_id = sender, request_idempotency_key = cmd_key c,
             request_canonical_payload = command_payload c, request_response_status = 201,
             request_response_body = body, request_transfer_id = Some transfer\<rparr> d4 of
        Inl e \<Rightarrow> Inl e
      | Inr (_, d5) \<Rightarrow>
          Inr (\<lparr>res_status = 201, res_body = body, res_replayed = False\<rparr>,
               audit_transfer (cmd_sender_user c) TRANSFER_COMPLETED (Some transfer) d5)))
      | _ \<Rightarrow> Inl ObjectDoesNotExist))))"

text \<open>The condition under which the locked accounts may not settle.\<close>

definition settlement_denied ::
    "instant \<Rightarrow> db \<Rightarrow> mock_account \<Rightarrow> mock_account \<Rightarrow> int \<Rightarrow> bool" where
  "settlement_denied tnow d sacc racc amount \<longleftrightarrow>
     \<not> account_is_open sacc \<or> \<not> account_is_open racc \<or>
     \<not> is_active_user tnow d (account_user_id sacc) \<or>
     \<not> is_active_user tnow d (account_user_id racc) \<or>
     account_balance sacc < amount \<or> account_balance racc + amount > MAX_BALANCE"

definition execute_once ::
    "attempt \<Rightarrow> transfer_command \<Rightarrow> db \<Rightarrow> exn + (transfer_result \<times> db)" where
  "execute_once att c d =
     (case account_of d (cmd_sender_user c) of
        None \<Rightarrow> Inl ObjectDoesNotExist
      | Some (sender, sacc) \<Rightarrow>
     (case previous_request d sender (cmd_key c) of
        Some (_, previous) \<Rightarrow>
          if request_canonical_payload previous \<noteq> command_payload c then Inl IdempotencyConflict
          else Inr (\<lparr>res_status = request_response_status previous,
                     res_body = request_response_body previous, res_replayed = True\<rparr>, d)
      | None \<Rightarrow>
     (case transfer_safety d of
        None \<Rightarrow> Inl ObjectDoesNotExist
      | Some safety \<Rightarrow>
          if safety_state safety \<noteq> OPEN then Inl TransferUnavailable
          else
     (case tfirst (\<lambda>_ u. user_username u = cmd_recipient_name c) (users d) of
        None \<Rightarrow> store_denial sender (cmd_key c) (command_payload c) d
      | Some (recipient_user, _) \<Rightarrow>
          if recipient_user = cmd_sender_user c
          then store_denial sender (cmd_key c) (command_payload c) d
          else
     (case account_of d recipient_user of
        None \<Rightarrow> store_denial sender (cmd_key c) (command_payload c) d
      | Some (recipient, racc) \<Rightarrow>
          if settlement_denied (attempt_now att) d sacc racc (int (cmd_amount c))
          then store_denial sender (cmd_key c) (command_payload c) d
          else post_transfer att c sender sacc recipient racc d)))))"

section \<open>The retry loop\<close>

definition retryable :: "string list" where "retryable = [''40001'', ''40P01'']"

definition run_attempt :: "attempt \<Rightarrow> transfer_command \<Rightarrow> db \<Rightarrow> exn + (transfer_result \<times> db)" where
  "run_attempt att c d =
     (case attempt_abort att of
        Some sqlstate \<Rightarrow> Inl (OperationalError sqlstate)
      | None \<Rightarrow> execute_once att c d)"

fun transfer_from ::
    "(nat \<Rightarrow> attempt) \<Rightarrow> transfer_command \<Rightarrow> nat list \<Rightarrow> db \<Rightarrow> exn + (transfer_result \<times> db)" where
  "transfer_from env c [] d = Inl TransferUnavailable"
| "transfer_from env c (n # ns) d =
     (case run_attempt (env n) c d of
        Inl (OperationalError sqlstate) \<Rightarrow>
          if sqlstate \<notin> set retryable \<or> n = 3
          then (if sqlstate \<in> set retryable then Inl TransferUnavailable else Inl (OperationalError sqlstate))
          else transfer_from env c ns d
      | r \<Rightarrow> r)"

definition transfer_service ::
    "(nat \<Rightarrow> attempt) \<Rightarrow> transfer_command \<Rightarrow> db \<Rightarrow> exn + (transfer_result \<times> db)" where
  "transfer_service env c d = transfer_from env c [0..<4] d"

section \<open>A transfer inside a product room\<close>

text \<open>
  \<open>UUID(result.body["transfer_id"])\<close> raises \<open>ValueError\<close> on text that is not a UUID; a
  body without the field would be a \<open>KeyError\<close>, here \<open>ObjectDoesNotExist\<close>.
\<close>

definition body_transfer_uuid :: "transfer_body \<Rightarrow> nat result" where
  "body_transfer_uuid b =
     (case b of
        Completed_Body t _ _ _ \<Rightarrow> (case uuid_parse t of None \<Rightarrow> Inl ValueError | Some u \<Rightarrow> Inr u)
      | Error_Body _ \<Rightarrow> Inl ObjectDoesNotExist)"

definition conversation_of_room :: "db \<Rightarrow> nat \<Rightarrow> (nat \<times> product_conversation) option" where
  "conversation_of_room d room_id =
     tfirst (\<lambda>_ v. conversation_room_id v = room_id) (product_conversations d)"

definition transfer_for_product_room ::
    "(nat \<Rightarrow> attempt) \<Rightarrow> instant \<Rightarrow> nat \<Rightarrow> nat \<Rightarrow> nat \<Rightarrow> nat \<Rightarrow> db \<Rightarrow> exn + (transfer_result \<times> db)" where
  "transfer_for_product_room env tnow sender_user room_id amount key d =
     (case account_of d sender_user of
        None \<Rightarrow> Inl ObjectDoesNotExist
      | Some (sender, _) \<Rightarrow>
          let payload = canonical_room_payload room_id amount in
     (case previous_request d sender key of
        Some (_, previous) \<Rightarrow>
          if request_canonical_payload previous \<noteq> payload then Inl IdempotencyConflict
          else Inr (\<lparr>res_status = request_response_status previous,
                     res_body = request_response_body previous, res_replayed = True\<rparr>, d)
      | None \<Rightarrow>
     (case conversation_of_room d room_id of
        None \<Rightarrow> store_denial sender key payload d
      | Some (_, conversation) \<Rightarrow>
          if map_option room_kind (tget (rooms d) room_id) \<noteq> Some PRODUCT_ROOM
          then store_denial sender key payload d
          else if sender_user \<noteq> conversation_seller_id conversation \<and>
                  sender_user \<noteq> conversation_buyer_id conversation
          then store_denial sender key payload d
          else
            let recipient = (if sender_user = conversation_seller_id conversation
                             then conversation_buyer_id conversation
                             else conversation_seller_id conversation) in
     (case transfer_service env \<lparr>cmd_sender_user = sender_user,
             cmd_recipient_name = username_of d recipient, cmd_amount = amount, cmd_key = key,
             cmd_request_payload = Some payload\<rparr> d of
        Inl e \<Rightarrow> Inl e
      | Inr (result, d1) \<Rightarrow>
          if res_status result = 201 \<and> \<not> res_replayed result then
            (case body_transfer_uuid (res_body result) of
               Inl e \<Rightarrow> Inl e
             | Inr transfer_uuid \<Rightarrow>
                 (case create_transfer_notifications tnow sender_user recipient transfer_uuid amount d1 of
                    Inl e \<Rightarrow> Inl e
                  | Inr (_, d2) \<Rightarrow> Inr (result, d2)))
          else Inr (result, d1)))))"

section \<open>Closing an account and the ledger check\<close>

definition close_account :: "nat \<Rightarrow> instant \<Rightarrow> nat \<Rightarrow> db \<Rightarrow> exn + (bool \<times> db)" where
  "close_account journal_uuid app_now user_id d =
     (let (safety, d1) = get_or_create_safety d in
      if safety_state safety \<noteq> OPEN then Inl TransferUnavailable
      else
     (case ensure_account journal_uuid user_id d1 of
        Inl e \<Rightarrow> Inl e
      | Inr (account, d2) \<Rightarrow>
     (case tget (mock_accounts d2) account of
        None \<Rightarrow> Inl ObjectDoesNotExist
      | Some a \<Rightarrow>
          if \<not> account_is_open a then Inr (False, d2)
          else if account_balance a \<noteq> 0 then Inl ValueError
          else
            Inr (True, audit_transfer user_id ACCOUNT_CLOSED None
              (d2\<lparr>mock_accounts := tmodify account
                  (\<lambda>a. a\<lparr>account_is_open := False, account_closed_at := Some app_now\<rparr>)
                  (mock_accounts d2)\<rparr>)))))"

definition journal_total :: "db \<Rightarrow> nat \<Rightarrow> int" where
  "journal_total d jid = tsum (\<lambda>_ e. if entry_journal_id e = jid then entry_amount e else 0) (ledger_entries d)"

definition journal_count :: "db \<Rightarrow> nat \<Rightarrow> nat" where
  "journal_count d jid = tcount (\<lambda>_ e. entry_journal_id e = jid) (ledger_entries d)"

definition ledger_total :: "db \<Rightarrow> nat \<Rightarrow> int" where
  "ledger_total d ledger = tsum (\<lambda>_ e. if entry_account_id e = ledger then entry_amount e else 0) (ledger_entries d)"

fun account_mismatches :: "db \<Rightarrow> (nat \<times> mock_account) list \<Rightarrow> pystr list result" where
  "account_mismatches d [] = Inr []"
| "account_mismatches d ((k, a) # rest) =
     (case ledger_of d k of
        None \<Rightarrow> Inl ObjectDoesNotExist
      | Some (l, _) \<Rightarrow>
          (case account_mismatches d rest of
             Inl e \<Rightarrow> Inl e
           | Inr ms \<Rightarrow> Inr (if ledger_total d l \<noteq> account_balance a
                             then (lit ''account:'' @ dec k) # ms else ms)))"

definition ledger_mismatches :: "db \<Rightarrow> pystr list result" where
  "ledger_mismatches d =
     (case account_mismatches d (rows (mock_accounts d)) of
        Inl e \<Rightarrow> Inl e
      | Inr ms \<Rightarrow>
          Inr (map (\<lambda>(k, _). uuid_str k)
                 (tselect (\<lambda>k _. journal_count d k \<noteq> 2 \<or> journal_total d k \<noteq> 0) (ledger_journals d)) @ ms))"

text \<open>
  The deferred trigger of the first migration: at commit, a journal that got rows must have
  exactly two entries adding up to zero.
\<close>

definition validate_balanced_journal :: "db \<Rightarrow> nat \<Rightarrow> unit result" where
  "validate_balanced_journal d jid =
     (if journal_count d jid \<noteq> 2 \<or> journal_total d jid \<noteq> 0 then Inl RuntimeError else Inr ())"

end
