(* ===== verification/Ledger.thy ===== *)
theory Ledger imports Transfers begin

text \<open>
  The ledger invariant of \<open>transfers/services.py\<close>: unique accounts and ledger accounts,
  balanced journals of two entries, and every balance equal to the sum of its ledger
  entries. Every operation keeps it, so that \<open>ledger_mismatches\<close> stays empty, no journal
  trigger ever fires, and no money appears beyond the seeds.
\<close>

section \<open>The invariant\<close>

definition request_key :: "transfer_request \<Rightarrow> (nat \<times> nat) option" where
  "request_key r = Some (request_sender_id r, request_idempotency_key r)"

definition ledger_tables_wf :: "db \<Rightarrow> bool" where
  "ledger_tables_wf d \<longleftrightarrow>
     wf_table (mock_accounts d) \<and> wf_table (ledger_accounts d) \<and> wf_table (ledger_journals d) \<and>
     wf_table (ledger_entries d) \<and> wf_table (transfers d) \<and> wf_table (transfer_requests d) \<and>
     unique_on (\<lambda>a. Some (account_user_id a)) (mock_accounts d) \<and>
     unique_on ledger_mock_account_id (ledger_accounts d) \<and>
     unique_on request_key (transfer_requests d)"

text \<open>A ledger account is the reserve, or the one of a user under the code \<open>USER:<pk>\<close>.\<close>

definition ledger_row_ok :: "mock_account table \<Rightarrow> ledger_account \<Rightarrow> bool" where
  "ledger_row_ok accounts l \<longleftrightarrow>
     (case ledger_mock_account_id l of
        None \<Rightarrow> ledger_code l = lit ''SEED_RESERVE''
      | Some k \<Rightarrow> (case tget accounts k of None \<Rightarrow> False
                  | Some a \<Rightarrow> ledger_code l = lit ''USER:'' @ dec (account_user_id a)))"

definition ledger_links :: "db \<Rightarrow> bool" where
  "ledger_links d \<longleftrightarrow>
     tall (\<lambda>_ l. ledger_row_ok (mock_accounts d) l) (ledger_accounts d) \<and>
     tall (\<lambda>_ j. fk_ok (mock_accounts d) (journal_target_mock_account_id j)) (ledger_journals d) \<and>
     tall (\<lambda>_ e. tget (ledger_journals d) (entry_journal_id e) \<noteq> None \<and>
                 tget (ledger_accounts d) (entry_account_id e) \<noteq> None) (ledger_entries d) \<and>
     (rows (mock_accounts d) \<noteq> [] \<longrightarrow> transfer_safety d \<noteq> None)"

definition balances_bounded :: "db \<Rightarrow> bool" where
  "balances_bounded d \<longleftrightarrow> tall (\<lambda>_ a. mock_account_check a) (mock_accounts d)"

definition journals_balanced :: "db \<Rightarrow> bool" where
  "journals_balanced d \<longleftrightarrow>
     tall (\<lambda>jid _. validate_balanced_journal d jid = Inr ()) (ledger_journals d)"

definition balances_reconciled :: "db \<Rightarrow> bool" where
  "balances_reconciled d \<longleftrightarrow>
     tall (\<lambda>k a. case ledger_of d k of None \<Rightarrow> False
                  | Some (l, _) \<Rightarrow> ledger_total d l = account_balance a) (mock_accounts d)"

definition ledger_inv :: "db \<Rightarrow> bool" where
  "ledger_inv d \<longleftrightarrow> ledger_tables_wf d \<and> ledger_links d \<and> balances_bounded d \<and>
     journals_balanced d \<and> balances_reconciled d"

lemma ledger_inv_wf:
  "ledger_inv d \<Longrightarrow> wf_table (mock_accounts d)" "ledger_inv d \<Longrightarrow> wf_table (ledger_accounts d)"
  "ledger_inv d \<Longrightarrow> wf_table (ledger_journals d)" "ledger_inv d \<Longrightarrow> wf_table (ledger_entries d)"
  "ledger_inv d \<Longrightarrow> wf_table (transfers d)" "ledger_inv d \<Longrightarrow> wf_table (transfer_requests d)"
  "ledger_inv d \<Longrightarrow> unique_on (\<lambda>a. Some (account_user_id a)) (mock_accounts d)"
  "ledger_inv d \<Longrightarrow> unique_on ledger_mock_account_id (ledger_accounts d)"
  "ledger_inv d \<Longrightarrow> unique_on request_key (transfer_requests d)"
  by (simp_all add: ledger_inv_def ledger_tables_wf_def)

lemma ledger_inv_empty: "ledger_inv empty_db"
  by (simp add: ledger_inv_def ledger_tables_wf_def ledger_links_def balances_bounded_def
      journals_balanced_def balances_reconciled_def empty_db_def wf_intros unique_empty tall_def)
     (simp add: empty_table_def)

section \<open>Lookups under the invariant\<close>

lemma account_of_iff:
  assumes "ledger_inv d"
  shows "account_of d u = Some (k, a) \<longleftrightarrow> tget (mock_accounts d) k = Some a \<and> account_user_id a = u"
proof
  assume "account_of d u = Some (k, a)"
  then show "tget (mock_accounts d) k = Some a \<and> account_user_id a = u"
    using assms unfolding account_of_def
    by (auto dest: tfirst_SomeD intro: tfirst_tget ledger_inv_wf)
next
  assume "tget (mock_accounts d) k = Some a \<and> account_user_id a = u"
  then show "account_of d u = Some (k, a)"
    using tfirst_unique_on [OF ledger_inv_wf(1,7) [OF assms], of k a u] by (simp add: account_of_def)
qed

lemma ledger_of_iff:
  assumes "ledger_inv d"
  shows "ledger_of d k = Some (l, r) \<longleftrightarrow>
    tget (ledger_accounts d) l = Some r \<and> ledger_mock_account_id r = Some k"
proof
  assume "ledger_of d k = Some (l, r)"
  then show "tget (ledger_accounts d) l = Some r \<and> ledger_mock_account_id r = Some k"
    using assms unfolding ledger_of_def
    by (auto dest: tfirst_SomeD intro: tfirst_tget ledger_inv_wf)
next
  assume "tget (ledger_accounts d) l = Some r \<and> ledger_mock_account_id r = Some k"
  then show "ledger_of d k = Some (l, r)"
    using tfirst_unique_on [OF ledger_inv_wf(2,8) [OF assms]] by (simp add: ledger_of_def)
qed

lemma inv_account:
  assumes "ledger_inv d" "tget (mock_accounts d) k = Some a"
  obtains l r where "ledger_of d k = Some (l, r)" "ledger_total d l = account_balance a"
    "0 \<le> account_balance a" "account_balance a \<le> MAX_BALANCE"
proof -
  have all: "tall (\<lambda>k a. case ledger_of d k of None \<Rightarrow> False
        | Some (l, _) \<Rightarrow> ledger_total d l = account_balance a) (mock_accounts d)"
    "tall (\<lambda>_ a. mock_account_check a) (mock_accounts d)"
    using assms(1) by (simp_all add: ledger_inv_def balances_reconciled_def balances_bounded_def)
  from assms(2) all have "case ledger_of d k of None \<Rightarrow> False
      | Some (l, _) \<Rightarrow> ledger_total d l = account_balance a" and "mock_account_check a"
    unfolding tall_iff [OF ledger_inv_wf(1) [OF assms(1)]] by blast+
  then show thesis using that
    by (auto simp: mock_account_check_def MAX_BALANCE_def split: option.splits)
qed

lemma inv_safety:
  "ledger_inv d \<Longrightarrow> tget (mock_accounts d) k = Some a \<Longrightarrow> transfer_safety d \<noteq> None"
  by (auto simp: ledger_inv_def ledger_links_def dest: tget_in_rows)

lemma inv_journal:
  "ledger_inv d \<Longrightarrow> tget (ledger_journals d) j = Some r \<Longrightarrow> journal_count d j = 2 \<and> journal_total d j = 0"
  by (auto simp: ledger_inv_def journals_balanced_def validate_balanced_journal_def
      dest!: tallD [where t = "ledger_journals d" and k = j] split: if_splits)

lemma inv_entry:
  "ledger_inv d \<Longrightarrow> (i, e) \<in> set (rows (ledger_entries d)) \<Longrightarrow>
   tget (ledger_journals d) (entry_journal_id e) \<noteq> None \<and> tget (ledger_accounts d) (entry_account_id e) \<noteq> None"
  by (auto simp: ledger_inv_def ledger_links_def tall_def list_all_iff)

text \<open>No mismatch is reported in a state of the invariant.\<close>

lemma account_mismatches_none:
  "list_all (\<lambda>(k, a). case ledger_of d k of None \<Rightarrow> False
                      | Some (l, _) \<Rightarrow> ledger_total d l = account_balance a) as \<Longrightarrow>
   account_mismatches d as = Inr []"
  by (induction d as rule: account_mismatches.induct) (auto split: option.splits)

lemma inv_no_mismatch:
  assumes "ledger_inv d"
  shows "ledger_mismatches d = Inr []"
proof -
  have "account_mismatches d (rows (mock_accounts d)) = Inr []"
    using assms by (intro account_mismatches_none) (simp add: ledger_inv_def balances_reconciled_def tall_def)
  moreover have "tselect (\<lambda>k _. journal_count d k \<noteq> 2 \<or> journal_total d k \<noteq> 0) (ledger_journals d) = []"
    using inv_journal [OF assms] assms
    by (auto simp: tselect_def filter_empty_conv tget_iff ledger_inv_wf)
  ultimately show ?thesis by (simp add: ledger_mismatches_def)
qed

section \<open>A journal with two entries\<close>

text \<open>The database after a journal and its two entries, on whatever accounts.\<close>

definition post_journal :: "nat \<Rightarrow> ledger_journal \<Rightarrow> nat \<Rightarrow> nat \<Rightarrow> int \<Rightarrow> db \<Rightarrow> db" where
  "post_journal jid j l1 l2 amount d =
     add_entry jid l2 amount (add_entry jid l1 (- amount)
       (d\<lparr>ledger_journals := tinsert jid j (ledger_journals d)\<rparr>))"

lemma add_entry_fields [ledger_simps]:
  "mock_accounts (add_entry j l x d) = mock_accounts d"
  "ledger_accounts (add_entry j l x d) = ledger_accounts d"
  "ledger_journals (add_entry j l x d) = ledger_journals d"
  "ledger_entries (add_entry j l x d) =
     snd (tcreate \<lparr>entry_journal_id = j, entry_account_id = l, entry_amount = x\<rparr> (ledger_entries d))"
  "transfers (add_entry j l x d) = transfers d"
  "transfer_requests (add_entry j l x d) = transfer_requests d"
  "transfer_safety (add_entry j l x d) = transfer_safety d"
  "users (add_entry j l x d) = users d"
  "moderation_actions (add_entry j l x d) = moderation_actions d"
  "ledger_of (add_entry j l x d) = ledger_of d"
  "previous_request (add_entry j l x d) = previous_request d"
  by (simp_all add: add_entry_def ledger_of_def previous_request_def fun_eq_iff)

lemma journal_total_add_entry [ledger_simps]:
  "journal_total (add_entry j l x d) i = journal_total d i + (if i = j then x else 0)"
  "journal_count (add_entry j l x d) i = journal_count d i + (if i = j then 1 else 0)"
  "ledger_total (add_entry j l x d) i = ledger_total d i + (if i = l then x else 0)"
  by (simp_all add: journal_total_def journal_count_def ledger_total_def ledger_simps tbl_simps)

lemma journal_fresh:
  assumes "ledger_inv d" "tget (ledger_journals d) j = None"
  shows "journal_count d j = 0" "journal_total d j = 0"
proof -
  from assms have none: "entry_journal_id e \<noteq> j" if "(i, e) \<in> set (rows (ledger_entries d))" for i e
    using inv_entry [OF assms(1) that] by auto
  then show "journal_count d j = 0"
    by (auto simp: journal_count_def tcount_zero texists_def list_ex_iff)
  show "journal_total d j = 0"
    unfolding journal_total_def by (rule tsum_zero) (use none in auto)
qed

lemma ledger_fresh:
  assumes "ledger_inv d" "tget (ledger_accounts d) l = None"
  shows "ledger_total d l = 0"
proof -
  from assms have none: "entry_account_id e \<noteq> l" if "(i, e) \<in> set (rows (ledger_entries d))" for i e
    using inv_entry [OF assms(1) that] by auto
  show ?thesis
    unfolding ledger_total_def by (rule tsum_zero) (use none in auto)
qed


section \<open>What keeps the invariant\<close>

text \<open>The invariant as conditions on the tables it reads.\<close>

lemma ledger_inv_cong:
  assumes "mock_accounts d' = mock_accounts d" "ledger_accounts d' = ledger_accounts d"
    "ledger_journals d' = ledger_journals d" "ledger_entries d' = ledger_entries d"
    and safety: "transfer_safety d \<noteq> None \<Longrightarrow> transfer_safety d' \<noteq> None"
    and "ledger_inv d"
    and "wf_table (transfers d')" "wf_table (transfer_requests d')"
    and "unique_on request_key (transfer_requests d')"
  shows "ledger_inv d'"
proof -
  have of_eq: "ledger_of d' = ledger_of d" "ledger_total d' = ledger_total d"
    "validate_balanced_journal d' = validate_balanced_journal d"
    using assms(1-4) by (simp_all add: fun_eq_iff ledger_of_def ledger_total_def
        validate_balanced_journal_def journal_total_def journal_count_def)
  have "ledger_links d'"
    using assms(6) safety unfolding ledger_inv_def ledger_links_def assms(1-4) by blast
  moreover have "balances_bounded d' = balances_bounded d"
    "journals_balanced d' = journals_balanced d" "balances_reconciled d' = balances_reconciled d"
    unfolding balances_bounded_def journals_balanced_def balances_reconciled_def
      of_eq assms(1-4) by (rule refl)+
  ultimately show ?thesis using assms by (simp add: ledger_inv_def ledger_tables_wf_def)
qed

lemma ledger_inv_audit: "ledger_inv d \<Longrightarrow> ledger_inv (audit_transfer u e t d)"
  by (rule ledger_inv_cong [of _ d]) (simp_all add: audit_transfer_def ledger_inv_wf)

lemma ledger_inv_notifications: "ledger_inv d \<Longrightarrow> ledger_inv (d\<lparr>notifications := ns\<rparr>)"
  by (rule ledger_inv_cong [of _ d]) (simp_all add: ledger_inv_wf)

lemma ledger_inv_requests:
  "ledger_inv d \<Longrightarrow> wf_table t \<Longrightarrow> unique_on request_key t \<Longrightarrow> ledger_inv (d\<lparr>transfer_requests := t\<rparr>)"
  by (rule ledger_inv_cong [of _ d]) (simp_all add: ledger_inv_wf)

lemma ledger_inv_transfers:
  "ledger_inv d \<Longrightarrow> wf_table t \<Longrightarrow> ledger_inv (d\<lparr>transfers := t\<rparr>)"
  by (rule ledger_inv_cong [of _ d]) (simp_all add: ledger_inv_wf)

lemma ledger_inv_safety: "ledger_inv d \<Longrightarrow> ledger_inv (d\<lparr>transfer_safety := Some s\<rparr>)"
  by (rule ledger_inv_cong [of _ d]) (simp_all add: ledger_inv_wf)

text \<open>Creating a request row, when the constraint lets it through.\<close>

lemma previous_request_None:
  "previous_request d s key = None \<longleftrightarrow> \<not> texists (\<lambda>_ r. request_key r = Some (s, key)) (transfer_requests d)"
  by (simp add: previous_request_def tfirst_None request_key_def)

lemma create_request_inv:
  assumes "ledger_inv d" "create_request r d = Inr (k, d')"
  shows "ledger_inv d' \<and> d' = d\<lparr>transfer_requests := snd (tcreate r (transfer_requests d))\<rparr>"
proof -
  from assms(2) have d': "d' = d\<lparr>transfer_requests := snd (tcreate r (transfer_requests d))\<rparr>"
    and new: "previous_request d (request_sender_id r) (request_idempotency_key r) = None"
    by (auto simp: create_request_def simp del: not_None_eq split: if_splits)
  from new have "\<not> texists (\<lambda>_ r'. request_key r' = request_key r) (transfer_requests d)"
    by (simp add: previous_request_None request_key_def)
  with assms(1) d' show ?thesis
    by (auto intro!: ledger_inv_requests wf_tcreate simp: ledger_inv_wf unique_tcreate)
qed

lemma store_denial_inv:
  assumes "ledger_inv d" "store_denial s key p d = Inr (res, d')"
  shows "ledger_inv d' \<and> mock_accounts d' = mock_accounts d \<and> res_status res = 422 \<and> \<not> res_replayed res"
  using assms by (auto simp: store_denial_def split: sum.splits prod.splits dest: create_request_inv)


section \<open>Moving money between two accounts\<close>

definition move_balances :: "nat \<Rightarrow> int \<Rightarrow> nat \<Rightarrow> int \<Rightarrow> mock_account table \<Rightarrow> mock_account table" where
  "move_balances k1 b1 k2 b2 t =
     tmodify k2 (\<lambda>a. a\<lparr>account_balance := b2\<rparr>) (tmodify k1 (\<lambda>a. a\<lparr>account_balance := b1\<rparr>) t)"

lemma tget_move_balances:
  "tget (move_balances k1 b1 k2 b2 t) k =
     (if k = k2 then map_option (\<lambda>a. a\<lparr>account_balance := b2\<rparr>) (tget t k)
      else if k = k1 then map_option (\<lambda>a. a\<lparr>account_balance := b1\<rparr>) (tget t k) else tget t k)"
  by (cases "tget t k") (auto simp: move_balances_def tbl_simps)

lemma move_balances_wf: "wf_table t \<Longrightarrow> wf_table (move_balances k1 b1 k2 b2 t)"
  by (simp add: move_balances_def wf_tmodify)

lemma move_balances_unique:
  "unique_on (\<lambda>a. Some (account_user_id a)) (move_balances k1 b1 k2 b2 t) \<longleftrightarrow>
   unique_on (\<lambda>a. Some (account_user_id a)) t"
  by (simp add: move_balances_def unique_tmodify)

lemma move_balances_rows: "rows (move_balances k1 b1 k2 b2 t) = [] \<longleftrightarrow> rows t = []"
  by (simp add: move_balances_def tmodify_def tupdate_def)

definition settle :: "nat \<Rightarrow> nat \<Rightarrow> nat \<Rightarrow> nat \<Rightarrow> nat \<Rightarrow> int \<Rightarrow> int \<Rightarrow> int \<Rightarrow> db \<Rightarrow> db" where
  "settle jid k1 l1 k2 l2 b1 b2 amount d =
     post_journal jid \<lparr>journal_kind = TRANSFER, journal_target_mock_account_id = None\<rparr> l1 l2 amount
       (d\<lparr>mock_accounts := move_balances k1 (b1 - amount) k2 (b2 + amount) (mock_accounts d)\<rparr>)"

lemma settle_fields [ledger_simps]:
  "mock_accounts (settle jid k1 l1 k2 l2 b1 b2 amount d) =
     move_balances k1 (b1 - amount) k2 (b2 + amount) (mock_accounts d)"
  "ledger_accounts (settle jid k1 l1 k2 l2 b1 b2 amount d) = ledger_accounts d"
  "ledger_journals (settle jid k1 l1 k2 l2 b1 b2 amount d) =
     tinsert jid \<lparr>journal_kind = TRANSFER, journal_target_mock_account_id = None\<rparr> (ledger_journals d)"
  "ledger_entries (settle jid k1 l1 k2 l2 b1 b2 amount d) =
     snd (tcreate \<lparr>entry_journal_id = jid, entry_account_id = l2, entry_amount = amount\<rparr>
       (snd (tcreate \<lparr>entry_journal_id = jid, entry_account_id = l1, entry_amount = - amount\<rparr>
         (ledger_entries d))))"
  "transfers (settle jid k1 l1 k2 l2 b1 b2 amount d) = transfers d"
  "transfer_requests (settle jid k1 l1 k2 l2 b1 b2 amount d) = transfer_requests d"
  "transfer_safety (settle jid k1 l1 k2 l2 b1 b2 amount d) = transfer_safety d"
  "users (settle jid k1 l1 k2 l2 b1 b2 amount d) = users d"
  "ledger_of (settle jid k1 l1 k2 l2 b1 b2 amount d) = ledger_of d"
  by (simp_all add: settle_def post_journal_def ledger_simps ledger_of_def fun_eq_iff)

lemma settle_totals [ledger_simps]:
  "journal_total (settle jid k1 l1 k2 l2 b1 b2 amount d) = journal_total d"
  "ledger_total (settle jid k1 l1 k2 l2 b1 b2 amount d) l =
     ledger_total d l - (if l = l1 then amount else 0) + (if l = l2 then amount else 0)"
  "journal_count (settle jid k1 l1 k2 l2 b1 b2 amount d) j = journal_count d j + (if j = jid then 2 else 0)"
  by (simp_all add: settle_def post_journal_def ledger_simps fun_eq_iff)
     (simp_all add: ledger_total_def journal_total_def journal_count_def)

lemma settle_inv:
  assumes inv: "ledger_inv d" and fresh: "tget (ledger_journals d) jid = None" and diff: "k1 \<noteq> k2"
    and a1: "tget (mock_accounts d) k1 = Some a1" and a2: "tget (mock_accounts d) k2 = Some a2"
    and l1: "ledger_of d k1 = Some (l1, r1)" and l2: "ledger_of d k2 = Some (l2, r2)"
    and b1: "0 \<le> account_balance a1 - amount" "account_balance a1 - amount \<le> MAX_BALANCE"
    and b2: "0 \<le> account_balance a2 + amount" "account_balance a2 + amount \<le> MAX_BALANCE"
  shows "ledger_inv (settle jid k1 l1 k2 l2 (account_balance a1) (account_balance a2) amount d)"
    (is "ledger_inv ?d")
proof -
  let ?A = "move_balances k1 (account_balance a1 - amount) k2 (account_balance a2 + amount) (mock_accounts d)"
  note wf = ledger_inv_wf [OF inv]
  have wfA: "wf_table ?A" by (simp add: move_balances_wf wf)
  have look: "tget ?A k = Some a \<longleftrightarrow> (if k = k2 then a = a2\<lparr>account_balance := account_balance a2 + amount\<rparr>
      else if k = k1 then a = a1\<lparr>account_balance := account_balance a1 - amount\<rparr>
      else tget (mock_accounts d) k = Some a)" for k a
    using a1 a2 by (auto simp: tget_move_balances)
  have L: "ledger_of d k = Some (l, r) \<longleftrightarrow> tget (ledger_accounts d) l = Some r \<and> ledger_mock_account_id r = Some k"
    for k l r by (rule ledger_of_iff [OF inv])
  have l12: "l1 \<noteq> l2" using l1 l2 diff by (auto simp: L)
  have "ledger_tables_wf ?d"
    using wf wfA fresh by (simp add: ledger_tables_wf_def ledger_simps move_balances_unique wf_tinsert wf_tcreate)
  moreover have "balances_bounded ?d"
  proof -
    have "mock_account_check a" if "tget ?A k = Some a" for k a
    proof (cases "k = k1 \<or> k = k2")
      case True
      with that b1 b2 diff show ?thesis by (auto simp: look mock_account_check_def MAX_BALANCE_def)
    next
      case False
      with that have "tget (mock_accounts d) k = Some a" by (simp add: look)
      from inv_account [OF inv this] show ?thesis by (auto simp: mock_account_check_def MAX_BALANCE_def)
    qed
    then show ?thesis by (simp add: balances_bounded_def ledger_simps tall_iff [OF wfA])
  qed
  moreover have "journals_balanced ?d"
  proof -
    have "validate_balanced_journal ?d k = Inr ()" if "tget (tinsert jid j (ledger_journals d)) k = Some r" for j k r
    proof (cases "k = jid")
      case True
      with journal_fresh [OF inv fresh] show ?thesis
        by (simp add: validate_balanced_journal_def ledger_simps)
    next
      case False
      with that fresh have "tget (ledger_journals d) k = Some r" by (simp add: tget_tinsert_fresh)
      from inv_journal [OF inv this] False show ?thesis
        by (simp add: validate_balanced_journal_def ledger_simps)
    qed
    then show ?thesis
      using fresh by (simp add: journals_balanced_def ledger_simps tall_iff wf wf_tinsert)
  qed
  moreover have "balances_reconciled ?d"
  proof -
    have "case ledger_of d k of None \<Rightarrow> False | Some (l, _) \<Rightarrow> ledger_total ?d l = account_balance a"
      if k: "tget ?A k = Some a" for k a
    proof -
      from k a1 a2 obtain a0 where a0: "tget (mock_accounts d) k = Some a0" by (auto simp: look split: if_splits)
      from inv_account [OF inv a0] obtain l r where
        lr: "ledger_of d k = Some (l, r)" "ledger_total d l = account_balance a0" by blast
      have "l = l1 \<Longrightarrow> k = k1" "l = l2 \<Longrightarrow> k = k2"
        using lr(1) l1 l2 by (simp_all add: L)
      moreover have "k = k1 \<Longrightarrow> l = l1" "k = k2 \<Longrightarrow> l = l2"
        using lr(1) l1 l2 by simp_all
      ultimately have "l = l1 \<longleftrightarrow> k = k1" "l = l2 \<longleftrightarrow> k = k2" by blast+
      with lr k a0 a1 a2 diff l12 show ?thesis by (auto simp: ledger_simps look)
    qed
    then show ?thesis by (simp add: balances_reconciled_def ledger_simps tall_iff [OF wfA])
  qed
  moreover have "ledger_links ?d"
  proof -
    have "fk_ok ?A k" if "fk_ok (mock_accounts d) k" for k
      using that by (cases k) (auto simp: tget_move_balances)
    moreover have "tall (\<lambda>_ j. fk_ok (mock_accounts d) (journal_target_mock_account_id j)) (ledger_journals d)"
      using inv by (simp add: ledger_inv_def ledger_links_def)
    ultimately have targets: "tall (\<lambda>_ j. fk_ok ?A (journal_target_mock_account_id j))
        (tinsert jid \<lparr>journal_kind = TRANSFER, journal_target_mock_account_id = None\<rparr> (ledger_journals d))"
      by (auto simp: tall_def list_all_iff)
    have "ledger_row_ok ?A l" if "ledger_row_ok (mock_accounts d) l" for l
      using that by (auto simp: ledger_row_ok_def tget_move_balances split: option.splits)
    then have "tall (\<lambda>_ l. ledger_row_ok ?A l) (ledger_accounts d)"
      using inv by (simp add: ledger_inv_def ledger_links_def tall_iff wf)
    moreover have "tget (tinsert jid j (ledger_journals d)) i \<noteq> None"
      if "tget (ledger_journals d) i \<noteq> None" for i j
      using that fresh by (auto simp: tget_tinsert_fresh)
    with inv_entry [OF inv] l1 l2 fresh have
      "tall (\<lambda>_ e. tget (tinsert jid j (ledger_journals d)) (entry_journal_id e) \<noteq> None \<and>
                   tget (ledger_accounts d) (entry_account_id e) \<noteq> None) (ledger_entries ?d)" for j
      by (auto simp: tall_def list_all_iff ledger_simps tget_tinsert_fresh L)
    ultimately show ?thesis
      using inv targets by (simp add: ledger_links_def ledger_simps move_balances_rows ledger_inv_def)
  qed
  ultimately show ?thesis by (simp add: ledger_inv_def)
qed


section \<open>Opening an account\<close>

definition open_account :: "nat \<Rightarrow> nat \<Rightarrow> nat \<Rightarrow> db \<Rightarrow> db" where
  "open_account jid reserve u d =
     (let k = next_pk (mock_accounts d); l = next_pk (ledger_accounts d) in
      post_journal jid \<lparr>journal_kind = SEED_ISSUE, journal_target_mock_account_id = Some k\<rparr>
        l reserve (- SEED_AMOUNT)
        (d\<lparr>mock_accounts := snd (tcreate \<lparr>account_user_id = u, account_balance = SEED_AMOUNT,
              account_is_open = True, account_closed_at = None\<rparr> (mock_accounts d)),
            ledger_accounts := snd (tcreate \<lparr>ledger_kind = USER_LEDGER, ledger_mock_account_id = Some k,
              ledger_code = lit ''USER:'' @ dec u\<rparr> (ledger_accounts d))\<rparr>))"

lemma open_account_fields [ledger_simps]:
  "mock_accounts (open_account jid rv u d) =
     snd (tcreate \<lparr>account_user_id = u, account_balance = SEED_AMOUNT, account_is_open = True,
                   account_closed_at = None\<rparr> (mock_accounts d))"
  "ledger_accounts (open_account jid rv u d) =
     snd (tcreate \<lparr>ledger_kind = USER_LEDGER, ledger_mock_account_id = Some (next_pk (mock_accounts d)),
                   ledger_code = lit ''USER:'' @ dec u\<rparr> (ledger_accounts d))"
  "ledger_journals (open_account jid rv u d) =
     tinsert jid \<lparr>journal_kind = SEED_ISSUE, journal_target_mock_account_id = Some (next_pk (mock_accounts d))\<rparr>
       (ledger_journals d)"
  "ledger_entries (open_account jid rv u d) =
     snd (tcreate \<lparr>entry_journal_id = jid, entry_account_id = rv, entry_amount = - SEED_AMOUNT\<rparr>
       (snd (tcreate \<lparr>entry_journal_id = jid, entry_account_id = next_pk (ledger_accounts d),
                      entry_amount = SEED_AMOUNT\<rparr> (ledger_entries d))))"
  "transfers (open_account jid rv u d) = transfers d"
  "transfer_requests (open_account jid rv u d) = transfer_requests d"
  "transfer_safety (open_account jid rv u d) = transfer_safety d"
  "users (open_account jid rv u d) = users d"
  by (simp_all add: open_account_def post_journal_def ledger_simps Let_def)

lemma open_account_totals [ledger_simps]:
  "journal_total (open_account jid rv u d) = journal_total d"
  "ledger_total (open_account jid rv u d) l = ledger_total d l
     + (if l = next_pk (ledger_accounts d) then SEED_AMOUNT else 0) - (if l = rv then SEED_AMOUNT else 0)"
  "journal_count (open_account jid rv u d) j = journal_count d j + (if j = jid then 2 else 0)"
  by (simp_all add: open_account_def post_journal_def ledger_simps Let_def fun_eq_iff)
     (simp_all add: ledger_total_def journal_total_def journal_count_def)

lemma open_account_inv:
  assumes inv: "ledger_inv d" and fresh: "tget (ledger_journals d) jid = None"
    and none: "account_of d u = None" and rv: "tget (ledger_accounts d) rv = Some r" "ledger_mock_account_id r = None"
    and safe: "transfer_safety d \<noteq> None"
  shows "ledger_inv (open_account jid rv u d)" (is "ledger_inv ?d")
proof -
  note wf = ledger_inv_wf [OF inv]
  let ?k = "next_pk (mock_accounts d)" and ?l = "next_pk (ledger_accounts d)"
  have wfs: "wf_table (mock_accounts ?d)" "wf_table (ledger_accounts ?d)" "wf_table (ledger_journals ?d)"
      "wf_table (ledger_entries ?d)"
    using wf fresh by (simp_all add: ledger_simps wf_tcreate wf_tinsert)
  have links: "tall (\<lambda>_ l. ledger_row_ok (mock_accounts d) l) (ledger_accounts d)"
    "tall (\<lambda>_ j. fk_ok (mock_accounts d) (journal_target_mock_account_id j)) (ledger_journals d)"
    using inv by (simp_all add: ledger_inv_def ledger_links_def)
  have new: "ledger_mock_account_id l' \<noteq> Some ?k" if "tget (ledger_accounts d) i = Some l'" for i l'
    using tallD [OF links(1) that] by (auto simp: ledger_row_ok_def tget_next_pk wf split: option.splits)
  have L: "ledger_of ?d i = (if i = ?k then Some (?l, \<lparr>ledger_kind = USER_LEDGER,
        ledger_mock_account_id = Some ?k, ledger_code = lit ''USER:'' @ dec u\<rparr>) else ledger_of d i)" for i
  proof -
    have "ledger_of d ?k = None"
      using new by (auto simp: ledger_of_def tfirst_None texists_iff wf)
    then show ?thesis
      by (auto simp: ledger_of_def ledger_simps tfirst_tcreate split: option.splits)
  qed
  have code: "lit ''USER:'' @ x \<noteq> lit ''SEED_RESERVE''" for x by (simp add: lit_def)
  have "rv < ?l" using tget_lt [OF wf(2) rv(1)] .
  then have rvl: "rv \<noteq> ?l" by simp
  have "unique_on ledger_mock_account_id (ledger_accounts ?d)"
    "unique_on (\<lambda>a. Some (account_user_id a)) (mock_accounts ?d)"
    using wf new none
    by (auto simp: ledger_simps unique_tcreate texists_iff account_of_def tfirst_None)
  then have "ledger_tables_wf ?d"
    using wf wfs by (simp add: ledger_tables_wf_def ledger_simps)
  moreover have "balances_bounded ?d"
    using inv by (simp add: ledger_inv_def balances_bounded_def ledger_simps tall_def
        mock_account_check_def SEED_AMOUNT_def)
  moreover have "journals_balanced ?d"
  proof -
    have "validate_balanced_journal ?d k = Inr ()" if "tget (tinsert jid j (ledger_journals d)) k = Some s" for j k s
    proof (cases "k = jid")
      case True
      with journal_fresh [OF inv fresh] show ?thesis by (simp add: validate_balanced_journal_def ledger_simps)
    next
      case False
      with that fresh have "tget (ledger_journals d) k = Some s" by (simp add: tget_tinsert_fresh)
      from inv_journal [OF inv this] False show ?thesis by (simp add: validate_balanced_journal_def ledger_simps)
    qed
    then show ?thesis using wfs(3) by (simp add: journals_balanced_def ledger_simps tall_iff)
  qed
  moreover have "balances_reconciled ?d"
  proof -
    have "case ledger_of ?d k of None \<Rightarrow> False | Some (l, _) \<Rightarrow> ledger_total ?d l = account_balance a"
      if k: "tget (mock_accounts ?d) k = Some a" for k a
    proof (cases "k = ?k")
      case True
      with k have "account_balance a = SEED_AMOUNT" by (auto simp: ledger_simps tget_tcreate wf)
      with True rvl show ?thesis
        by (simp add: L ledger_simps ledger_fresh [OF inv] tget_next_pk wf)
    next
      case False
      with k have "tget (mock_accounts d) k = Some a" by (simp add: ledger_simps tget_tcreate wf)
      from inv_account [OF inv this] obtain l s where
        l: "ledger_of d k = Some (l, s)" "ledger_total d l = account_balance a" by blast
      then have "tget (ledger_accounts d) l = Some s" "ledger_mock_account_id s = Some k"
        by (simp_all add: ledger_of_iff [OF inv])
      with tget_lt [OF wf(2) this(1)] rv have "l \<noteq> ?l" "l \<noteq> rv" by auto
      with l False show ?thesis by (simp add: L ledger_simps)
    qed
    then show ?thesis by (simp add: balances_reconciled_def tall_iff wfs)
  qed
  moreover have "ledger_links ?d"
  proof -
    have fk: "fk_ok (mock_accounts ?d) i" if "fk_ok (mock_accounts d) i" for i
      using that by (cases i) (auto simp: ledger_simps tget_tcreate wf)
    have "ledger_row_ok (mock_accounts ?d) l" if "ledger_row_ok (mock_accounts d) l" for l
      using that wf(1) by (auto simp: ledger_row_ok_def ledger_simps tget_tcreate tget_next_pk split: option.splits)
    from tall_mono [OF links(1) this] have
      "tall (\<lambda>_ l. ledger_row_ok (mock_accounts ?d) l) (ledger_accounts d)" .
    moreover have "ledger_row_ok (mock_accounts ?d) \<lparr>ledger_kind = USER_LEDGER,
        ledger_mock_account_id = Some ?k, ledger_code = lit ''USER:'' @ dec u\<rparr>"
      using wf(1) by (simp add: ledger_row_ok_def ledger_simps tget_tcreate)
    ultimately have "tall (\<lambda>_ l. ledger_row_ok (mock_accounts ?d) l) (ledger_accounts ?d)"
      by (simp add: open_account_fields(2) tall_tcreate)
    moreover from tall_mono [OF links(2) fk] have
      "tall (\<lambda>_ j. fk_ok (mock_accounts ?d) (journal_target_mock_account_id j)) (ledger_journals d)" .
    then have "tall (\<lambda>_ j. fk_ok (mock_accounts ?d) (journal_target_mock_account_id j)) (ledger_journals ?d)"
      using wf(1) by (simp add: tall_tinsert open_account_fields(3)) (simp add: ledger_simps tget_tcreate)
    moreover have "tget (tinsert jid j (ledger_journals d)) i \<noteq> None"
      if "tget (ledger_journals d) i \<noteq> None" for i j
      using that fresh by (auto simp: tget_tinsert_fresh)
    with inv_entry [OF inv] rv fresh wf(2) have
      "tall (\<lambda>_ e. tget (ledger_journals ?d) (entry_journal_id e) \<noteq> None \<and>
                   tget (ledger_accounts ?d) (entry_account_id e) \<noteq> None) (ledger_entries ?d)"
      by (auto simp: tall_def list_all_iff ledger_simps tget_tinsert_fresh tget_tcreate)
    ultimately show ?thesis using safe by (simp add: ledger_links_def ledger_simps)
  qed
  ultimately show ?thesis by (simp add: ledger_inv_def)
qed

end
