(* ===== verification/Reconcile.thy ===== *)
theory Reconcile imports Transfers begin

text \<open>
  The operator command \<open>reconcile_mock_ledger\<close>: compare the ledger with the balances,
  block transfers on a mismatch, and open them again for a named incident. The command
  is one transaction that raises after it saved the block.
\<close>

section \<open>The UUID constructor\<close>

text \<open>
  \<open>int(text, 16)\<close> on ASCII text: white space around, a sign, an \<open>0x\<close> prefix and single
  underscores between digits are accepted. A negative value is out of a UUID's range.
\<close>

definition any_hex_value :: "nat \<Rightarrow> nat option" where
  "any_hex_value c =
     (if is_digit c then Some (c - 48)
      else if 97 \<le> c \<and> c \<le> 102 then Some (c - 87)
      else if 65 \<le> c \<and> c \<le> 70 then Some (c - 55) else None)"

fun hex_digits :: "nat \<Rightarrow> bool \<Rightarrow> pystr \<Rightarrow> nat option" where
  "hex_digits acc after_digit [] = (if after_digit then Some acc else None)"
| "hex_digits acc after_digit (c # cs) =
     (if c = 95 then (if after_digit then hex_digits acc False cs else None)
      else case any_hex_value c of
             None \<Rightarrow> None
           | Some v \<Rightarrow> hex_digits (16 * acc + v) True cs)"

definition unsigned_hex :: "pystr \<Rightarrow> nat option" where
  "unsigned_hex s =
     (if 2 \<le> length s \<and> s ! 0 = 48 \<and> (s ! 1 = 120 \<or> s ! 1 = 88) then
        (if 2 < length s \<and> s ! 2 = 95 then hex_digits 0 False (drop 3 s) else hex_digits 0 False (drop 2 s))
      else hex_digits 0 False s)"

definition int_base16 :: "pystr \<Rightarrow> int option" where
  "int_base16 s =
     (if s \<noteq> [] \<and> hd s = 43 then map_option int (unsigned_hex (tl s))
      else if s \<noteq> [] \<and> hd s = 45 then map_option (\<lambda>n. - int n) (unsigned_hex (tl s))
      else map_option int (unsigned_hex s))"

function py_remove :: "pystr \<Rightarrow> pystr \<Rightarrow> pystr" where
  "py_remove p [] = []"
| "py_remove p (c # cs) =
     (if p \<noteq> [] \<and> take (length p) (c # cs) = p then py_remove p (drop (length p) (c # cs))
      else c # py_remove p cs)"
  by pat_completeness auto
termination
  by (relation "measure (\<lambda>(p, s). length s)") auto

definition strip_braces :: "pystr \<Rightarrow> pystr" where
  "strip_braces s =
     rev (dropWhile (\<lambda>c. c = 123 \<or> c = 125) (rev (dropWhile (\<lambda>c. c = 123 \<or> c = 125) s)))"

definition py_uuid :: "pystr \<Rightarrow> nat result" where
  "py_uuid raw =
     (let hex = filter (\<lambda>c. c \<noteq> 45)
                  (strip_braces (py_remove (lit ''uuid:'') (py_remove (lit ''urn:'') raw))) in
      if length hex \<noteq> 32 then Inl ValueError
      else case int_base16 (py_strip hex) of
             None \<Rightarrow> Inl ValueError
           | Some i \<Rightarrow> if 0 \<le> i then Inr (nat i) else Inl ValueError)"

section \<open>The command\<close>

record reconcile_call =
  call_resume :: "pystr option"        \<comment> \<open>\<open>--resume\<close>\<close>
  call_postgres :: bool                \<comment> \<open>\<open>connection.vendor == "postgresql"\<close>\<close>
  call_current_role :: pystr           \<comment> \<open>\<open>SELECT current_user\<close>\<close>
  call_expected_role :: pystr          \<comment> \<open>\<open>LEDGER_MAINTAINER_DB_ROLE\<close>\<close>
  call_incident :: nat                 \<comment> \<open>the \<open>uuid4\<close> of a new block\<close>
  call_now :: instant

datatype reconcile_output = Printed_Open | Printed_State safety_kind

definition resume_transfers ::
    "reconcile_call \<Rightarrow> pystr \<Rightarrow> pystr list \<Rightarrow> transfer_safety_state \<Rightarrow> db \<Rightarrow> exn + (reconcile_output \<times> db)" where
  "resume_transfers c raw mismatches state d =
     (case py_uuid raw of
        Inl _ \<Rightarrow> Inl CommandError
      | Inr incident \<Rightarrow>
          if call_postgres c \<and> call_current_role c \<noteq> call_expected_role c then Inl CommandError
          else if safety_state state \<noteq> BLOCKED \<or> safety_incident_id state \<noteq> Some incident
          then Inl CommandError
          else if mismatches \<noteq> [] then Inl CommandError
          else Inr (Printed_Open, d\<lparr>transfer_safety := Some
                 (state\<lparr>safety_state := OPEN, safety_incident_id := None, safety_blocked_at := None\<rparr>)\<rparr>))"

text \<open>
  The two branches behind a mismatch: the saved block is part of the transaction state when
  \<open>CommandError\<close> is raised, and is rolled back with it. \<open>handle_body\<close> keeps that state in its
  result, \<open>reconcile\<close> is what \<open>transaction.atomic\<close> makes of it.
\<close>

definition handle_body :: "reconcile_call \<Rightarrow> db \<Rightarrow> (exn + reconcile_output) \<times> db" where
  "handle_body c d =
     (let (state, d1) = get_or_create_safety d in
      case ledger_mismatches d1 of
        Inl e \<Rightarrow> (Inl e, d1)
      | Inr mismatches \<Rightarrow>
          (case call_resume c of
             Some (r # raw) \<Rightarrow>
               (case resume_transfers c (r # raw) mismatches state d1 of
                  Inl e \<Rightarrow> (Inl e, d1)
                | Inr (out, d2) \<Rightarrow> (Inr out, d2))
           | _ \<Rightarrow>
               if mismatches \<noteq> [] then
                 (if safety_state state = OPEN
                  then (Inl CommandError, d1\<lparr>transfer_safety := Some
                          (state\<lparr>safety_state := BLOCKED, safety_incident_id := Some (call_incident c),
                             safety_blocked_at := Some (call_now c)\<rparr>)\<rparr>)
                  else (Inl CommandError, d1))
               else (Inr (Printed_State (safety_state state)), d1)))"

definition reconcile :: "reconcile_call \<Rightarrow> (reconcile_output, db) action" where
  "reconcile c d = (case handle_body c d of (Inl e, _) \<Rightarrow> (Inl e, d) | (Inr out, d') \<Rightarrow> (Inr out, d'))"

end
