(* ===== verification/Ledger_Ops.thy ===== *)
theory Ledger_Ops imports Ledger Reconcile begin

text \<open>
  Every operation of the transfer service against the ledger invariant, with its exact
  effect on balances, and the transition system of the ledger.
\<close>

section \<open>The effect of a settled transfer\<close>

text \<open>The database after a transfer that went through.\<close>

definition settled ::
    "attempt \<Rightarrow> transfer_command \<Rightarrow> nat \<Rightarrow> mock_account \<Rightarrow> nat \<Rightarrow> mock_account \<Rightarrow> nat \<Rightarrow> nat \<Rightarrow> db \<Rightarrow> db" where
  "settled att c s sa r ra ls lr d =
     (let d1 = settle (attempt_journal att) s ls r lr (account_balance sa) (account_balance ra)
                 (int (cmd_amount c)) d;
          body = Completed_Body (uuid_str (attempt_transfer att)) (cmd_recipient_name c)
                   (fmt_0f (cmd_amount c)) (fmt_0f (nat (account_balance sa - int (cmd_amount c))))
      in audit_transfer (cmd_sender_user c) TRANSFER_COMPLETED (Some (attempt_transfer att))
        (d1\<lparr>transfers := tinsert (attempt_transfer att)
              \<lparr>transfer_sender_id = s, transfer_recipient_id = r,
               transfer_journal_id = attempt_journal att, transfer_amount = int (cmd_amount c)\<rparr> (transfers d),
            transfer_requests := snd (tcreate \<lparr>request_sender_id = s, request_idempotency_key = cmd_key c,
               request_canonical_payload = command_payload c, request_response_status = 201,
               request_response_body = body, request_transfer_id = Some (attempt_transfer att)\<rparr>
               (transfer_requests d))\<rparr>))"

definition settled_result :: "attempt \<Rightarrow> transfer_command \<Rightarrow> mock_account \<Rightarrow> transfer_result" where
  "settled_result att c sa =
     \<lparr>res_status = 201,
      res_body = Completed_Body (uuid_str (attempt_transfer att)) (cmd_recipient_name c)
        (fmt_0f (cmd_amount c)) (fmt_0f (nat (account_balance sa - int (cmd_amount c)))),
      res_replayed = False\<rparr>"

lemma audit_transfer_fields [ledger_simps]:
  "mock_accounts (audit_transfer u e t d) = mock_accounts d"
  "ledger_accounts (audit_transfer u e t d) = ledger_accounts d"
  "ledger_journals (audit_transfer u e t d) = ledger_journals d"
  "ledger_entries (audit_transfer u e t d) = ledger_entries d"
  "transfers (audit_transfer u e t d) = transfers d"
  "transfer_requests (audit_transfer u e t d) = transfer_requests d"
  "transfer_safety (audit_transfer u e t d) = transfer_safety d"
  "users (audit_transfer u e t d) = users d"
  "notifications (audit_transfer u e t d) = notifications d"
  by (simp_all add: audit_transfer_def)

lemma settled_fields [ledger_simps]:
  "mock_accounts (settled att c s sa r ra ls lr d) =
     move_balances s (account_balance sa - int (cmd_amount c)) r (account_balance ra + int (cmd_amount c))
       (mock_accounts d)"
  "users (settled att c s sa r ra ls lr d) = users d"
  "transfer_safety (settled att c s sa r ra ls lr d) = transfer_safety d"
  by (simp_all add: settled_def Let_def ledger_simps)

lemma posted_states:
  "create_journal jid j (d\<lparr>mock_accounts := A\<rparr>) =
     (if tget (ledger_journals d) jid \<noteq> None \<or>
         journal_kind j = SEED_ISSUE \<and> journal_target_mock_account_id j \<noteq> None \<and>
         texists (\<lambda>_ j'. journal_kind j' = SEED_ISSUE \<and>
                         journal_target_mock_account_id j' = journal_target_mock_account_id j)
                 (ledger_journals d)
      then Inl IntegrityError
      else Inr (jid, d\<lparr>mock_accounts := A, ledger_journals := tinsert jid j (ledger_journals d)\<rparr>))"
  by (simp add: create_journal_def)

lemma ledger_of_frame [ledger_simps]:
  "ledger_of (d\<lparr>mock_accounts := A\<rparr>) = ledger_of d"
  "ledger_of (d\<lparr>ledger_journals := J\<rparr>) = ledger_of d"
  "ledger_of (d\<lparr>transfers := T\<rparr>) = ledger_of d"
  by (simp_all add: ledger_of_def fun_eq_iff)

text \<open>What \<open>post_transfer\<close> does when the locked accounts may settle.\<close>

lemma post_transfer_closed:
  assumes inv: "ledger_inv d"
    and sa: "tget (mock_accounts d) s = Some sa" and ra: "tget (mock_accounts d) r = Some ra"
    and diff: "s \<noteq> r"
    and bal: "int (cmd_amount c) \<le> account_balance sa" "account_balance ra + int (cmd_amount c) \<le> MAX_BALANCE"
  obtains ls x lr y where "ledger_of d s = Some (ls, x)" "ledger_of d r = Some (lr, y)"
    "post_transfer att c s sa r ra d =
       (if tget (ledger_journals d) (attempt_journal att) \<noteq> None \<or>
           tget (transfers d) (attempt_transfer att) \<noteq> None \<or>
           texists (\<lambda>_ t. transfer_journal_id t = attempt_journal att) (transfers d) \<or>
           previous_request d s (cmd_key c) \<noteq> None \<or>
           texists (\<lambda>_ q. request_transfer_id q = Some (attempt_transfer att)) (transfer_requests d)
        then Inl IntegrityError
        else Inr (settled_result att c sa, settled att c s sa r ra ls lr d))"
proof -
  from inv_account [OF inv sa] obtain ls x where ls: "ledger_of d s = Some (ls, x)" 
    and s0: "account_balance sa \<le> MAX_BALANCE" by blast
  from inv_account [OF inv ra] obtain lr y where lr: "ledger_of d r = Some (lr, y)"
    and r0: "0 \<le> account_balance ra" by blast
  show thesis
    by (rule that [OF ls lr])
       (use bal s0 r0 ls lr in \<open>simp add: post_transfer_def save_balance_def posted_states
          create_transfer_row_def create_request_def ledger_simps previous_request_def
          settled_def settled_result_def settle_def post_journal_def move_balances_def
          add_entry_def audit_transfer_def Let_def del: not_None_eq\<close>)
qed


lemma execute_once_elim:
  assumes "execute_once att c d = Inr (res, d')"
  obtains (replayed) s sa k p where "account_of d (cmd_sender_user c) = Some (s, sa)"
      "previous_request d s (cmd_key c) = Some (k, p)" "request_canonical_payload p = command_payload c"
      "res = \<lparr>res_status = request_response_status p, res_body = request_response_body p, res_replayed = True\<rparr>"
      "d' = d"
  | (denied) s sa where "account_of d (cmd_sender_user c) = Some (s, sa)"
      "previous_request d s (cmd_key c) = None"
      "store_denial s (cmd_key c) (command_payload c) d = Inr (res, d')"
  | (completed) s sa ru u r ra where "account_of d (cmd_sender_user c) = Some (s, sa)"
      "previous_request d s (cmd_key c) = None"
      "tfirst (\<lambda>_ u. user_username u = cmd_recipient_name c) (users d) = Some (ru, u)"
      "ru \<noteq> cmd_sender_user c" "account_of d ru = Some (r, ra)"
      "\<not> settlement_denied (attempt_now att) d sa ra (int (cmd_amount c))"
      "post_transfer att c s sa r ra d = Inr (res, d')"
proof (cases "account_of d (cmd_sender_user c)")
  case None
  with assms show ?thesis by (simp add: execute_once_def)
next
  case (Some p)
  obtain s sa where acc: "account_of d (cmd_sender_user c) = Some (s, sa)" using Some by (cases p) simp
  note ex = assms [unfolded execute_once_def acc option.case prod.case]
  show ?thesis
  proof (cases "previous_request d s (cmd_key c)")
    case (Some q)
    then show ?thesis using ex by (cases q) (auto intro!: replayed [OF acc] split: if_splits)
  next
    case none: None
    note ex = ex [unfolded none option.case]
    show ?thesis
    proof (cases "store_denial s (cmd_key c) (command_payload c) d = Inr (res, d')")
      case True
      then show ?thesis by (rule denied [OF acc none])
    next
      case False
      with ex obtain ru u r ra where
        "tfirst (\<lambda>_ u. user_username u = cmd_recipient_name c) (users d) = Some (ru, u)"
        "ru \<noteq> cmd_sender_user c" "account_of d ru = Some (r, ra)"
        "\<not> settlement_denied (attempt_now att) d sa ra (int (cmd_amount c))"
        "post_transfer att c s sa r ra d = Inr (res, d')"
        by (simp split: option.splits if_splits prod.splits)
      then show ?thesis by (rule completed [OF acc none])
    qed
  qed
qed

text \<open>A completed transfer, with the rows it touched.\<close>

lemma completed_transfer:
  assumes inv: "ledger_inv d"
    and s: "account_of d (cmd_sender_user c) = Some (s, sa)" and r: "account_of d ru = Some (r, ra)"
    and "ru \<noteq> cmd_sender_user c"
    and ok: "\<not> settlement_denied now d sa ra (int (cmd_amount c))"
    and post: "post_transfer att c s sa r ra d = Inr (res, d')"
  obtains ls x lr y where "ledger_of d s = Some (ls, x)" "ledger_of d r = Some (lr, y)" "s \<noteq> r"
    "tget (ledger_journals d) (attempt_journal att) = None"
    "tget (transfers d) (attempt_transfer att) = None"
    "previous_request d s (cmd_key c) = None"
    "int (cmd_amount c) \<le> account_balance sa" "account_balance ra + int (cmd_amount c) \<le> MAX_BALANCE"
    "res = settled_result att c sa" "d' = settled att c s sa r ra ls lr d"
proof -
  from s r have a: "tget (mock_accounts d) s = Some sa" "tget (mock_accounts d) r = Some ra"
    "account_user_id sa = cmd_sender_user c" "account_user_id ra = ru"
    by (simp_all add: account_of_iff [OF inv])
  with assms(4) have diff: "s \<noteq> r" by auto
  from ok have bal: "int (cmd_amount c) \<le> account_balance sa"
    "account_balance ra + int (cmd_amount c) \<le> MAX_BALANCE" by (simp_all add: settlement_denied_def)
  from post_transfer_closed [OF inv a(1,2) diff bal, of att] obtain ls x lr y where
    l: "ledger_of d s = Some (ls, x)" "ledger_of d r = Some (lr, y)" and
    p: "post_transfer att c s sa r ra d =
       (if tget (ledger_journals d) (attempt_journal att) \<noteq> None \<or>
           tget (transfers d) (attempt_transfer att) \<noteq> None \<or>
           texists (\<lambda>_ t. transfer_journal_id t = attempt_journal att) (transfers d) \<or>
           previous_request d s (cmd_key c) \<noteq> None \<or>
           texists (\<lambda>_ q. request_transfer_id q = Some (attempt_transfer att)) (transfer_requests d)
        then Inl IntegrityError
        else Inr (settled_result att c sa, settled att c s sa r ra ls lr d))" .
  from post p have "tget (ledger_journals d) (attempt_journal att) = None"
    "tget (transfers d) (attempt_transfer att) = None" "previous_request d s (cmd_key c) = None"
    "res = settled_result att c sa" "d' = settled att c s sa r ra ls lr d"
    by (simp_all del: not_None_eq split: if_splits)
  with that l diff bal show thesis by blast
qed

lemma settled_inv:
  assumes inv: "ledger_inv d"
    and a: "tget (mock_accounts d) s = Some sa" "tget (mock_accounts d) r = Some ra" "s \<noteq> r"
    and l: "ledger_of d s = Some (ls, x)" "ledger_of d r = Some (lr, y)"
    and fresh: "tget (ledger_journals d) (attempt_journal att) = None"
      "tget (transfers d) (attempt_transfer att) = None" "previous_request d s (cmd_key c) = None"
    and bal: "int (cmd_amount c) \<le> account_balance sa" "account_balance ra + int (cmd_amount c) \<le> MAX_BALANCE"
  shows "ledger_inv (settled att c s sa r ra ls lr d)"
proof -
  from inv_account [OF inv a(1)] inv_account [OF inv a(2)] have
    "account_balance sa \<le> MAX_BALANCE" "0 \<le> account_balance ra" by blast+
  with bal have "ledger_inv (settle (attempt_journal att) s ls r lr (account_balance sa)
      (account_balance ra) (int (cmd_amount c)) d)"
    by (intro settle_inv [OF inv fresh(1) a(3,1,2) l]) simp_all
  moreover have "\<not> texists (\<lambda>_ q. request_key q = Some (s, cmd_key c)) (transfer_requests d)"
    using fresh(3) by (simp add: previous_request_None)
  ultimately show ?thesis
    using ledger_inv_wf [OF inv] fresh unfolding settled_def Let_def
    by (intro ledger_inv_audit)
       (rule ledger_inv_cong, simp_all add: ledger_simps wf_tcreate wf_tinsert unique_tcreate request_key_def)
qed

lemma execute_once_inv:
  assumes inv: "ledger_inv d" and e: "execute_once att c d = Inr (res, d')"
  shows "ledger_inv d'"
  using e
proof (cases rule: execute_once_elim)
  case replayed
  with inv show ?thesis by simp
next
  case denied
  with inv show ?thesis by (blast dest: store_denial_inv)
next
  case (completed s sa ru u r ra)
  from completed_transfer [OF inv completed(1,5,4,6,7)] show ?thesis
    using completed(1,5) by (metis account_of_iff [OF inv] settled_inv [OF inv])
qed

lemma run_attempt_inv: "ledger_inv d \<Longrightarrow> run_attempt att c d = Inr (res, d') \<Longrightarrow> ledger_inv d'"
  by (auto simp: run_attempt_def intro: execute_once_inv split: option.splits)

text \<open>The retry loop ends in the error or in the result of one attempt on the unchanged database.\<close>

lemma transfer_from_one:
  "transfer_from env c ns d = Inr (res, d') \<Longrightarrow> \<exists>n \<in> set ns. run_attempt (env n) c d = Inr (res, d')"
  by (induction env c ns d rule: transfer_from.induct) (auto split: sum.splits exn.splits if_splits)

lemma transfer_service_one:
  assumes "transfer_service env c d = Inr (res, d')"
  obtains n where "n < 4" "attempt_abort (env n) = None" "execute_once (env n) c d = Inr (res, d')"
proof -
  from transfer_from_one [of env c "[0..<4]" d res d'] assms obtain n where
    n: "n \<in> set [0..<4]" "run_attempt (env n) c d = Inr (res, d')" by (auto simp: transfer_service_def)
  with that show thesis by (auto simp: run_attempt_def split: option.splits)
qed

lemma transfer_service_inv:
  "ledger_inv d \<Longrightarrow> transfer_service env c d = Inr (res, d') \<Longrightarrow> ledger_inv d'"
  by (auto elim!: transfer_service_one intro: execute_once_inv)


section \<open>Opening and closing\<close>

lemma get_or_create_safety_inv:
  assumes "ledger_inv d" "get_or_create_safety d = (s, d')"
  shows "ledger_inv d' \<and> transfer_safety d' = Some s \<and> mock_accounts d' = mock_accounts d \<and>
    ledger_journals d' = ledger_journals d \<and> users d' = users d"
  using assms by (auto simp: get_or_create_safety_def ledger_inv_safety split: option.splits)

text \<open>The reserve as \<open>get_or_create\<close> leaves it.\<close>

definition reserve_row :: ledger_account where
  "reserve_row = \<lparr>ledger_kind = SYSTEM_ISSUANCE, ledger_mock_account_id = None, ledger_code = lit ''SEED_RESERVE''\<rparr>"

lemma reserve_created_inv:
  assumes inv: "ledger_inv d"
  shows "ledger_inv (d\<lparr>ledger_accounts := snd (tcreate reserve_row (ledger_accounts d))\<rparr>)" (is "ledger_inv ?d")
proof -
  note wf = ledger_inv_wf [OF inv]
  have L: "ledger_of ?d = ledger_of d"
    by (auto simp: fun_eq_iff ledger_of_def tfirst_tcreate reserve_row_def split: option.splits)
  have T: "ledger_total ?d = ledger_total d" "validate_balanced_journal ?d = validate_balanced_journal d"
    by (simp_all add: fun_eq_iff ledger_total_def validate_balanced_journal_def journal_total_def journal_count_def)
  have "ledger_tables_wf ?d"
    using wf by (simp add: ledger_tables_wf_def wf_tcreate unique_tcreate reserve_row_def)
  moreover have "balances_bounded ?d" "journals_balanced ?d"
    using inv by (simp_all add: ledger_inv_def balances_bounded_def journals_balanced_def T)
  moreover have "balances_reconciled ?d"
    using inv unfolding ledger_inv_def balances_reconciled_def L T by simp
  moreover have "ledger_links ?d"
  proof -
    have "tall (\<lambda>_ e. tget (ledger_journals d) (entry_journal_id e) \<noteq> None \<and>
        tget (ledger_accounts ?d) (entry_account_id e) \<noteq> None) (ledger_entries d)"
      by (rule tall_mono [where P = "\<lambda>_ e. tget (ledger_journals d) (entry_journal_id e) \<noteq> None \<and>
        tget (ledger_accounts d) (entry_account_id e) \<noteq> None"])
         (use inv wf in \<open>auto simp: ledger_inv_def ledger_links_def tget_tcreate\<close>)
    moreover have "ledger_row_ok A reserve_row" for A by (simp add: ledger_row_ok_def reserve_row_def)
    ultimately show ?thesis
      using inv by (simp add: ledger_links_def ledger_inv_def tall_tcreate)
  qed
  ultimately show ?thesis by (simp add: ledger_inv_def)
qed

lemma reserve_row_found:
  assumes inv: "ledger_inv d" and "reserve_of d = Some (k, r)"
  shows "tget (ledger_accounts d) k = Some r" "ledger_mock_account_id r = None"
proof -
  show t: "tget (ledger_accounts d) k = Some r"
    using assms ledger_inv_wf(2) [OF inv] unfolding reserve_of_def by (blast intro: tfirst_tget)
  have "ledger_code r = lit ''SEED_RESERVE''"
    using assms(2) unfolding reserve_of_def by (auto dest: tfirst_SomeD)
  moreover have "tall (\<lambda>_ l. ledger_row_ok (mock_accounts d) l) (ledger_accounts d)"
    using inv by (simp add: ledger_inv_def ledger_links_def)
  from tallD [OF this t] have "ledger_row_ok (mock_accounts d) r" .
  ultimately show "ledger_mock_account_id r = None"
    by (auto simp: ledger_row_ok_def lit_def split: option.splits)
qed

lemma get_or_create_reserve_ok:
  assumes inv: "ledger_inv d"
  obtains k r d1 where "get_or_create_reserve d = Inr (k, d1)" "ledger_inv d1"
    "tget (ledger_accounts d1) k = Some r" "ledger_mock_account_id r = None"
    "mock_accounts d1 = mock_accounts d" "ledger_journals d1 = ledger_journals d"
    "transfer_safety d1 = transfer_safety d" "account_of d1 = account_of d"
    "transfer_requests d1 = transfer_requests d" "transfers d1 = transfers d" "users d1 = users d"
proof (cases "reserve_of d")
  case (Some p)
  obtain k r where p: "p = (k, r)" by force
  from Some p show ?thesis
    by (intro that [of k d r]) (simp_all add: get_or_create_reserve_def inv reserve_row_found [OF inv])
next
  case None
  let ?d = "d\<lparr>ledger_accounts := snd (tcreate reserve_row (ledger_accounts d))\<rparr>"
  from None have "\<not> texists (\<lambda>_ l. ledger_code l = lit ''SEED_RESERVE'') (ledger_accounts d)"
    by (simp add: reserve_of_def tfirst_None)
  then have "create_ledger_account reserve_row d = Inr (next_pk (ledger_accounts d), ?d)"
    by (simp add: create_ledger_account_def reserve_row_def ledger_account_check_def)
  with None have "get_or_create_reserve d = Inr (next_pk (ledger_accounts d), ?d)"
    by (simp add: get_or_create_reserve_def reserve_row_def)
  then show ?thesis
    by (rule that [where r = reserve_row])
       (simp_all add: reserve_created_inv inv ledger_inv_wf [OF inv] tget_tcreate account_of_def fun_eq_iff
          reserve_row_def [THEN arg_cong [where f = ledger_mock_account_id]])
qed


definition seed_account :: "nat \<Rightarrow> mock_account" where
  "seed_account u = \<lparr>account_user_id = u, account_balance = SEED_AMOUNT, account_is_open = True,
     account_closed_at = None\<rparr>"

definition user_ledger_row :: "nat \<Rightarrow> nat \<Rightarrow> ledger_account" where
  "user_ledger_row k u = \<lparr>ledger_kind = USER_LEDGER, ledger_mock_account_id = Some k,
     ledger_code = lit ''USER:'' @ dec u\<rparr>"

lemma user_code_free:
  assumes inv: "ledger_inv d" and none: "account_of d u = None"
  shows "\<not> texists (\<lambda>_ l. ledger_code l = lit ''USER:'' @ dec u \<or>
      ledger_mock_account_id l = Some (next_pk (mock_accounts d))) (ledger_accounts d)"
proof
  note wf = ledger_inv_wf [OF inv]
  assume "texists (\<lambda>_ l. ledger_code l = lit ''USER:'' @ dec u \<or>
      ledger_mock_account_id l = Some (next_pk (mock_accounts d))) (ledger_accounts d)"
  then obtain i l where l: "tget (ledger_accounts d) i = Some l"
    "ledger_code l = lit ''USER:'' @ dec u \<or> ledger_mock_account_id l = Some (next_pk (mock_accounts d))"
    by (auto simp: texists_iff wf)
  have "tall (\<lambda>_ l. ledger_row_ok (mock_accounts d) l) (ledger_accounts d)"
    using inv by (simp add: ledger_inv_def ledger_links_def)
  from tallD [OF this l(1)] have "ledger_row_ok (mock_accounts d) l" .
  with l(2) obtain k a where "tget (mock_accounts d) k = Some a" "account_user_id a = u"
    by (auto simp: ledger_row_ok_def lit_def tget_next_pk wf split: option.splits)
  with none account_of_iff [OF inv, of u k a] show False by simp
qed

lemma seed_target_free:
  assumes inv: "ledger_inv d"
  shows "\<not> texists (\<lambda>_ j. journal_kind j = SEED_ISSUE \<and>
      journal_target_mock_account_id j = Some (next_pk (mock_accounts d))) (ledger_journals d)"
proof
  note wf = ledger_inv_wf [OF inv]
  assume "texists (\<lambda>_ j. journal_kind j = SEED_ISSUE \<and>
      journal_target_mock_account_id j = Some (next_pk (mock_accounts d))) (ledger_journals d)"
  then obtain i j where j: "tget (ledger_journals d) i = Some j"
    "journal_target_mock_account_id j = Some (next_pk (mock_accounts d))"
    by (auto simp: texists_iff wf)
  have "tall (\<lambda>_ j. fk_ok (mock_accounts d) (journal_target_mock_account_id j)) (ledger_journals d)"
    using inv by (simp add: ledger_inv_def ledger_links_def)
  from tallD [OF this j(1)] j(2) show False by (simp add: tget_next_pk wf)
qed

lemma ensure_account_new:
  assumes inv: "ledger_inv d" and fresh: "tget (ledger_journals d) jid = None" and none: "account_of d u = None"
  obtains d' where "ensure_account jid u d = Inr (next_pk (mock_accounts d), d')" "ledger_inv d'"
    "mock_accounts d' = snd (tcreate (seed_account u) (mock_accounts d))"
    "transfer_requests d' = transfer_requests d" "transfers d' = transfers d" "users d' = users d"
    "transfer_safety d' = Some (fst (get_or_create_safety d))"
proof -
  from get_or_create_reserve_ok [OF inv] obtain rv r d1 where
    g: "get_or_create_reserve d = Inr (rv, d1)" and inv1: "ledger_inv d1"
    and rv: "tget (ledger_accounts d1) rv = Some r" "ledger_mock_account_id r = None"
    and same: "mock_accounts d1 = mock_accounts d" "ledger_journals d1 = ledger_journals d"
      "transfer_safety d1 = transfer_safety d" "account_of d1 = account_of d"
      "transfer_requests d1 = transfer_requests d" "transfers d1 = transfers d" "users d1 = users d" .
  let ?k = "next_pk (mock_accounts d)"
  let ?d2 = "d1\<lparr>mock_accounts := snd (tcreate (seed_account u) (mock_accounts d))\<rparr>"
  let ?d3 = "?d2\<lparr>ledger_accounts := snd (tcreate (user_ledger_row ?k u) (ledger_accounts d1))\<rparr>"
  let ?d0 = "d1\<lparr>transfer_safety := Some (fst (get_or_create_safety d))\<rparr>"
  have c1: "create_account (seed_account u) d1 = Inr (?k, ?d2)"
    using none by (simp add: create_account_def seed_account_def mock_account_check_def SEED_AMOUNT_def same)
  have c2: "create_ledger_account (user_ledger_row ?k u) ?d2 = Inr (next_pk (ledger_accounts d1), ?d3)"
    using user_code_free [OF inv1, of u] none
    by (simp add: create_ledger_account_def user_ledger_row_def ledger_account_check_def same)
  have c3: "create_journal jid \<lparr>journal_kind = SEED_ISSUE, journal_target_mock_account_id = Some ?k\<rparr> ?d3 =
      Inr (jid, ?d3\<lparr>ledger_journals := tinsert jid \<lparr>journal_kind = SEED_ISSUE,
        journal_target_mock_account_id = Some ?k\<rparr> (ledger_journals d)\<rparr>)"
    using seed_target_free [OF inv] fresh by (simp add: create_journal_def same)
  have e: "ensure_account jid u d = Inr (?k, open_account jid rv u ?d0)"
    using none c1 c2 c3 unfolding ensure_account_def g
    by (simp add: seed_account_def user_ledger_row_def get_or_create_safety_def open_account_def
        post_journal_def add_entry_def Let_def same split: option.splits)
  have "ledger_inv ?d0" using inv1 by (rule ledger_inv_safety)
  then have "ledger_inv (open_account jid rv u ?d0)"
    by (rule open_account_inv)
       (use fresh none rv in \<open>simp_all add: same account_of_def [abs_def]\<close>)
  with e show thesis
    by (rule that) (simp_all add: ledger_simps seed_account_def same)
qed

lemma ensure_account_ok:
  assumes inv: "ledger_inv d" and fresh: "tget (ledger_journals d) jid = None"
  obtains k a d' where "ensure_account jid u d = Inr (k, d')" "ledger_inv d'"
    "tget (mock_accounts d') k = Some a" "account_user_id a = u"
    "(account_of d u = Some (k, a) \<and> d' = d) \<or>
     (account_of d u = None \<and> k = next_pk (mock_accounts d) \<and> a = seed_account u \<and>
      mock_accounts d' = snd (tcreate a (mock_accounts d)))"
proof (cases "account_of d u")
  case None
  from ensure_account_new [OF inv fresh None] obtain d' where
    "ensure_account jid u d = Inr (next_pk (mock_accounts d), d')" "ledger_inv d'"
    "mock_accounts d' = snd (tcreate (seed_account u) (mock_accounts d))" .
  then show ?thesis
    by (intro that [of "next_pk (mock_accounts d)" d' "seed_account u"])
       (simp_all add: None tget_tcreate ledger_inv_wf [OF inv] seed_account_def)
next
  case (Some p)
  obtain k a where p: "p = (k, a)" by force
  with Some account_of_iff [OF inv] have "tget (mock_accounts d) k = Some a" "account_user_id a = u" by simp_all
  with Some p inv show ?thesis
    by (intro that [of k d a]) (simp_all add: ensure_account_def)
qed


lemma ensure_account_fresh:
  assumes "ensure_account jid u d = Inr (k, d')" "account_of d u = None"
  shows "tget (ledger_journals d) jid = None"
  using assms
  by (auto simp: ensure_account_def create_journal_def create_account_def create_ledger_account_def
      get_or_create_reserve_def simp del: not_None_eq split: option.splits sum.splits if_splits prod.splits)

lemma ensure_account_elim:
  assumes inv: "ledger_inv d" and e: "ensure_account jid u d = Inr (k, d')"
  obtains (existing) a where "account_of d u = Some (k, a)" "d' = d"
  | (opened) "account_of d u = None" "k = next_pk (mock_accounts d)" "ledger_inv d'"
      "mock_accounts d' = snd (tcreate (seed_account u) (mock_accounts d))"
      "transfer_requests d' = transfer_requests d" "transfers d' = transfers d" "users d' = users d"
      "transfer_safety d' = Some (fst (get_or_create_safety d))"
proof (cases "account_of d u")
  case None
  from ensure_account_new [OF inv ensure_account_fresh [OF e None] None] obtain d'' where
    n: "ensure_account jid u d = Inr (next_pk (mock_accounts d), d'')" "ledger_inv d''"
    "mock_accounts d'' = snd (tcreate (seed_account u) (mock_accounts d))"
    "transfer_requests d'' = transfer_requests d" "transfers d'' = transfers d" "users d'' = users d"
    "transfer_safety d'' = Some (fst (get_or_create_safety d))" .
  with e have "k = next_pk (mock_accounts d)" "d'' = d'" by simp_all
  with n None show ?thesis by (intro opened) simp_all
next
  case (Some p)
  with e show ?thesis by (cases p) (auto simp: ensure_account_def intro: existing)
qed

lemma ensure_account_inv:
  assumes "ledger_inv d" "ensure_account jid u d = Inr (k, d')"
  shows "ledger_inv d'"
  using assms by (cases rule: ensure_account_elim [OF assms]) simp_all

lemma ensure_account_found:
  assumes inv: "ledger_inv d" and e: "ensure_account jid u d = Inr (k, d')"
  obtains a where "tget (mock_accounts d') k = Some a" "account_user_id a = u"
  using e
proof (cases rule: ensure_account_elim [OF inv e])
  case (1 a)
  with that account_of_iff [OF inv] show ?thesis by simp
next
  case 2
  with that show ?thesis
    by (simp add: tget_tcreate ledger_inv_wf [OF inv] seed_account_def)
qed

text \<open>Flags of an account that the ledger does not add up.\<close>

lemma ledger_inv_flags:
  assumes inv: "ledger_inv d"
    and f: "\<And>a. account_user_id (f a) = account_user_id a" "\<And>a. account_balance (f a) = account_balance a"
  shows "ledger_inv (d\<lparr>mock_accounts := tmodify k f (mock_accounts d)\<rparr>)" (is "ledger_inv ?d")
proof -
  note wf = ledger_inv_wf [OF inv]
  let ?A = "tmodify k f (mock_accounts d)"
  have same: "ledger_of ?d = ledger_of d" "ledger_total ?d = ledger_total d"
    "validate_balanced_journal ?d = validate_balanced_journal d"
    by (simp_all add: fun_eq_iff ledger_of_def ledger_total_def validate_balanced_journal_def
        journal_total_def journal_count_def)
  have "ledger_tables_wf ?d"
    using wf f by (simp add: ledger_tables_wf_def wf_tmodify unique_tmodify)
  moreover have "balances_bounded ?d"
    using inv f by (simp add: ledger_inv_def balances_bounded_def tall_tmodify_same mock_account_check_def)
  moreover have "journals_balanced ?d"
    using inv by (simp add: ledger_inv_def journals_balanced_def same)
  moreover have "balances_reconciled ?d"
  proof -
    have "tall (\<lambda>i a. case ledger_of d i of None \<Rightarrow> False | Some (l, _) \<Rightarrow> ledger_total d l = account_balance a) ?A =
      tall (\<lambda>i a. case ledger_of d i of None \<Rightarrow> False | Some (l, _) \<Rightarrow> ledger_total d l = account_balance a)
        (mock_accounts d)"
      by (rule tall_tmodify_same) (simp add: f split: option.split)
    with inv show ?thesis unfolding balances_reconciled_def ledger_inv_def same by simp
  qed
  moreover have "ledger_links ?d"
  proof -
    have "ledger_row_ok ?A l" if "ledger_row_ok (mock_accounts d) l" for l
      using that f by (auto simp: ledger_row_ok_def tget_tmodify split: option.splits)
    moreover have "fk_ok ?A i" if "fk_ok (mock_accounts d) i" for i
      using that by (cases i) (auto simp: tget_tmodify)
    ultimately show ?thesis
      using inv unfolding ledger_links_def ledger_inv_def
      by (simp add: tall_mono [where P = "\<lambda>_ l. ledger_row_ok (mock_accounts d) l"]
          tall_mono [where P = "\<lambda>_ j. fk_ok (mock_accounts d) (journal_target_mock_account_id j)"])
         (simp add: tmodify_def tupdate_def)
  qed
  ultimately show ?thesis by (simp add: ledger_inv_def)
qed


lemma close_account_elim:
  assumes inv: "ledger_inv d" and e: "close_account jid now u d = Inr (closed, d')"
  obtains d1 d2 k a where "get_or_create_safety d = (open_safety, d1) \<or> (\<exists>s. transfer_safety d = Some s \<and> safety_state s = OPEN \<and> d1 = d)"
    "ensure_account jid u d1 = Inr (k, d2)" "ledger_inv d2" "tget (mock_accounts d2) k = Some a"
    "account_user_id a = u"
    "\<not> closed \<and> \<not> account_is_open a \<and> d' = d2 \<or>
     closed \<and> account_is_open a \<and> account_balance a = 0 \<and>
     d' = audit_transfer u ACCOUNT_CLOSED None (d2\<lparr>mock_accounts := tmodify k
            (\<lambda>a. a\<lparr>account_is_open := False, account_closed_at := Some now\<rparr>) (mock_accounts d2)\<rparr>)"
proof -
  obtain s d1 where g: "get_or_create_safety d = (s, d1)" by force
  with get_or_create_safety_inv [OF inv] have inv1: "ledger_inv d1" by blast
  from e g obtain k d2 where en: "ensure_account jid u d1 = Inr (k, d2)" and op: "safety_state s = OPEN"
    by (auto simp: close_account_def Let_def split: if_splits sum.splits)
  from ensure_account_found [OF inv1 en] obtain a where
    a: "tget (mock_accounts d2) k = Some a" "account_user_id a = u" .
  have "get_or_create_safety d = (open_safety, d1) \<or> (\<exists>s. transfer_safety d = Some s \<and> safety_state s = OPEN \<and> d1 = d)"
    using g op by (auto simp: get_or_create_safety_def split: option.splits)
  then show thesis
    using e g op en a ensure_account_inv [OF inv1 en]
    by (intro that [of d1 k d2 a]) (auto simp: close_account_def Let_def split: if_splits)
qed

lemma close_account_inv:
  assumes "ledger_inv d" "close_account jid now u d = Inr (closed, d')"
  shows "ledger_inv d'"
  by (rule close_account_elim [OF assms]) (auto intro!: ledger_inv_audit ledger_inv_flags)

section \<open>Transfers inside a room\<close>

lemma create_notification_frame:
  "create_notification tnow r key kind p d = Inr (x, d') \<Longrightarrow> \<exists>ns. d' = d\<lparr>notifications := ns\<rparr>"
  by (auto simp: create_notification_def Let_def case_prod_beta split: if_splits option.splits
      intro: exI [of _ "notifications d"])

lemma create_transfer_notifications_frame:
  assumes "create_transfer_notifications tnow s r t a d = Inr (x, d')"
  shows "\<exists>ns. d' = d\<lparr>notifications := ns\<rparr>"
proof -
  from assms obtain x1 d1 x2 where
    "create_notification tnow s (lit ''transfer.sender:'' @ uuid_str t) TRANSFER_SENT
       (Transfer_Payload (uuid_str t) (fmt_0f a) (username_of d r)) d = Inr (x1, d1)"
    "create_notification tnow r (lit ''transfer.recipient:'' @ uuid_str t) TRANSFER_RECEIVED
       (Transfer_Payload (uuid_str t) (fmt_0f a) (username_of d s)) d1 = Inr (x2, d')"
    by (auto simp: create_transfer_notifications_def Let_def split: sum.splits prod.splits)
  from create_notification_frame [OF this(1)] create_notification_frame [OF this(2)] show ?thesis by auto
qed

lemma room_transfer_elim:
  assumes "transfer_for_product_room env tnow u room amount key d = Inr (res, d')"
  obtains (replayed) s sa k p where "account_of d u = Some (s, sa)"
      "previous_request d s key = Some (k, p)" "request_canonical_payload p = canonical_room_payload room amount"
      "res = \<lparr>res_status = request_response_status p, res_body = request_response_body p, res_replayed = True\<rparr>"
      "d' = d"
  | (denied) s sa where "account_of d u = Some (s, sa)" "previous_request d s key = None"
      "store_denial s key (canonical_room_payload room amount) d = Inr (res, d')"
  | (sent) s sa v recipient d1 ns where "account_of d u = Some (s, sa)" "previous_request d s key = None"
      "conversation_of_room d room = Some v"
      "u = conversation_seller_id (snd v) \<and> recipient = conversation_buyer_id (snd v) \<or>
       u = conversation_buyer_id (snd v) \<and> recipient = conversation_seller_id (snd v)"
      "transfer_service env \<lparr>cmd_sender_user = u, cmd_recipient_name = username_of d recipient,
         cmd_amount = amount, cmd_key = key,
         cmd_request_payload = Some (canonical_room_payload room amount)\<rparr> d = Inr (res, d1)"
      "d' = d1\<lparr>notifications := ns\<rparr>"
proof (cases "account_of d u")
  case None
  with assms show ?thesis by (simp add: transfer_for_product_room_def)
next
  case (Some q)
  obtain s sa where acc: "account_of d u = Some (s, sa)" using Some by (cases q) simp
  note ex = assms [unfolded transfer_for_product_room_def acc Let_def option.case prod.case]
  show ?thesis
  proof (cases "previous_request d s key")
    case (Some r)
    then show ?thesis using ex by (cases r) (auto intro!: replayed [OF acc] split: if_splits)
  next
    case none: None
    note ex = ex [unfolded none option.case]
    show ?thesis
    proof (cases "store_denial s key (canonical_room_payload room amount) d = Inr (res, d')")
      case True
      then show ?thesis by (rule denied [OF acc none])
    next
      case False
      with ex obtain v where v: "conversation_of_room d room = Some v"
        by (auto split: option.splits)
      obtain i w where vw: "v = (i, w)" by force
      define rcp where "rcp = (if u = conversation_seller_id w then conversation_buyer_id w else conversation_seller_id w)"
      note ex = ex [unfolded v vw option.case prod.case, folded rcp_def]
      from ex False have party: "u = conversation_seller_id w \<or> u = conversation_buyer_id w"
        by (auto split: if_splits)
      from ex False obtain d1 where
        t: "transfer_service env \<lparr>cmd_sender_user = u, cmd_recipient_name = username_of d rcp,
         cmd_amount = amount, cmd_key = key,
         cmd_request_payload = Some (canonical_room_payload room amount)\<rparr> d = Inr (res, d1)"
        and d1: "d' = d1 \<or> (\<exists>t x. create_transfer_notifications tnow u rcp t amount d1 = Inr x \<and> snd x = d')"
        by (simp split: if_splits sum.splits prod.splits del: split_paired_Ex) (metis snd_conv)+
      from d1 have "\<exists>ns. d' = d1\<lparr>notifications := ns\<rparr>"
        by (auto intro: exI [of _ "notifications d1"] dest: create_transfer_notifications_frame)
      with t show ?thesis
        using sent [OF acc none v, of rcp d1] party rcp_def vw by (cases "u = conversation_seller_id w") auto
    qed
  qed
qed

lemma room_transfer_inv:
  assumes "ledger_inv d" "transfer_for_product_room env tnow u room amount key d = Inr (res, d')"
  shows "ledger_inv d'"
  using assms(2)
proof (cases rule: room_transfer_elim)
  case replayed
  with assms(1) show ?thesis by simp
next
  case denied
  with assms(1) show ?thesis by (blast dest: store_denial_inv)
next
  case sent
  with transfer_service_inv [OF assms(1)] show ?thesis by (auto intro: ledger_inv_notifications)
qed

end
