(* ===== verification/Ledger_System.thy ===== *)
theory Ledger_System imports Ledger_Ops begin

text \<open>
  The transfer service as a transition system: its calls as the views, the sign-up signal
  and the operator command issue them, in any order and interleaved with steps of the rest
  of the program, which leaves the ledger tables alone.
\<close>

section \<open>Idempotency\<close>

text \<open>After an answer, the request row that will replay it is there.\<close>

lemma execute_once_recorded:
  assumes inv: "ledger_inv d" and e: "execute_once att c d = Inr (res, d')"
  obtains s sa k p where "account_of d' (cmd_sender_user c) = Some (s, sa)"
    "previous_request d' s (cmd_key c) = Some (k, p)" "request_canonical_payload p = command_payload c"
    "request_response_status p = res_status res" "request_response_body p = res_body res"
  using e
proof (cases rule: execute_once_elim)
  case (replayed s sa k p)
  then show ?thesis by (intro that) simp_all
next
  case (denied s sa)
  then have acc: "account_of d' (cmd_sender_user c) = Some (s, sa)"
    by (auto simp: store_denial_def create_request_def account_of_def split: if_splits)
  from denied have prev: "previous_request d' s (cmd_key c) = Some (next_pk (transfer_requests d),
      \<lparr>request_sender_id = s, request_idempotency_key = cmd_key c,
       request_canonical_payload = command_payload c, request_response_status = 422,
       request_response_body = Error_Body ''TRANSFER_NOT_ALLOWED'', request_transfer_id = None\<rparr>)"
    and res: "res = \<lparr>res_status = 422, res_body = Error_Body ''TRANSFER_NOT_ALLOWED'', res_replayed = False\<rparr>"
    by (auto simp: store_denial_def create_request_def previous_request_def tfirst_tcreate split: if_splits)
  from acc prev show ?thesis by (rule that) (simp_all add: res)
next
  case (completed s sa ru u r ra)
  from completed_transfer [OF inv completed(1,5,4,6,7)] obtain ls x lr y where
    c: "s \<noteq> r" "res = settled_result att c sa" "d' = settled att c s sa r ra ls lr d"
    "previous_request d s (cmd_key c) = None" "ledger_inv d'"
    using execute_once_inv [OF inv e] by blast
  from completed(1) have "tget (mock_accounts d) s = Some sa" "account_user_id sa = cmd_sender_user c"
    by (simp_all add: account_of_iff [OF inv])
  with c(1) have "account_of d' (cmd_sender_user c) =
      Some (s, sa\<lparr>account_balance := account_balance sa - int (cmd_amount c)\<rparr>)"
    unfolding account_of_iff [OF c(5)] by (simp add: c(3) ledger_simps tget_move_balances)
  moreover have "previous_request d' s (cmd_key c) = Some (next_pk (transfer_requests d),
      \<lparr>request_sender_id = s, request_idempotency_key = cmd_key c,
       request_canonical_payload = command_payload c, request_response_status = 201,
       request_response_body = res_body res, request_transfer_id = Some (attempt_transfer att)\<rparr>)"
    using c by (simp add: settled_def settled_result_def Let_def previous_request_def tfirst_tcreate audit_transfer_def)
  ultimately show ?thesis
    by (rule that) (simp_all add: c settled_result_def)
qed

definition same_answer :: "transfer_result \<Rightarrow> transfer_result \<Rightarrow> bool" where
  "same_answer r r' \<longleftrightarrow> res_status r = res_status r' \<and> res_body r = res_body r'"

lemma execute_once_replays:
  assumes "account_of d (cmd_sender_user c) = Some (s, sa)"
    and "previous_request d s (cmd_key c) = Some (k, p)"
  shows "execute_once att c d =
    (if request_canonical_payload p = command_payload c
     then Inr (\<lparr>res_status = request_response_status p, res_body = request_response_body p, res_replayed = True\<rparr>, d)
     else Inl IdempotencyConflict)"
  using assms by (simp add: execute_once_def)

lemma transfer_service_replay:
  assumes inv: "ledger_inv d" and first: "transfer_service env c d = Inr (r, d')"
    and again: "transfer_service env' c d' = Inr (r', d'')"
  shows "d'' = d' \<and> same_answer r r' \<and> res_replayed r'"
proof -
  from transfer_service_one [OF first] obtain n where n: "execute_once (env n) c d = Inr (r, d')" by blast
  from execute_once_recorded [OF inv n] obtain s sa k p where
    p: "account_of d' (cmd_sender_user c) = Some (s, sa)" "previous_request d' s (cmd_key c) = Some (k, p)"
    "request_canonical_payload p = command_payload c"
    "request_response_status p = res_status r" "request_response_body p = res_body r" .
  from transfer_service_one [OF again] obtain m where "execute_once (env' m) c d' = Inr (r', d'')" by blast
  with execute_once_replays [OF p(1,2), of "env' m"] p(3-5) show ?thesis
    by (auto simp: same_answer_def)
qed

interpretation direct: replayable transfer_service same_answer ledger_inv
  by unfold_locales (blast dest: transfer_service_replay)


lemma room_transfer_recorded:
  assumes inv: "ledger_inv d" and e: "transfer_for_product_room env tnow u room amount key d = Inr (res, d')"
  obtains s sa k p where "account_of d' u = Some (s, sa)" "previous_request d' s key = Some (k, p)"
    "request_canonical_payload p = canonical_room_payload room amount"
    "request_response_status p = res_status res" "request_response_body p = res_body res"
  using e
proof (cases rule: room_transfer_elim)
  case (replayed s sa k p)
  then show ?thesis by (intro that) simp_all
next
  case (denied s sa)
  then have acc: "account_of d' u = Some (s, sa)"
    by (auto simp: store_denial_def create_request_def account_of_def split: if_splits)
  from denied have prev: "previous_request d' s key = Some (next_pk (transfer_requests d),
      \<lparr>request_sender_id = s, request_idempotency_key = key,
       request_canonical_payload = canonical_room_payload room amount, request_response_status = 422,
       request_response_body = Error_Body ''TRANSFER_NOT_ALLOWED'', request_transfer_id = None\<rparr>)"
    and res: "res = \<lparr>res_status = 422, res_body = Error_Body ''TRANSFER_NOT_ALLOWED'', res_replayed = False\<rparr>"
    by (auto simp: store_denial_def create_request_def previous_request_def tfirst_tcreate split: if_splits)
  from acc prev show ?thesis by (rule that) (simp_all add: res)
next
  case (sent s sa v recipient d1 ns)
  from transfer_service_one [OF sent(5)] obtain n where
    n: "execute_once (env n) \<lparr>cmd_sender_user = u, cmd_recipient_name = username_of d recipient,
         cmd_amount = amount, cmd_key = key,
         cmd_request_payload = Some (canonical_room_payload room amount)\<rparr> d = Inr (res, d1)" by blast
  have payload: "command_payload \<lparr>cmd_sender_user = u, cmd_recipient_name = nm, cmd_amount = amount,
      cmd_key = key, cmd_request_payload = Some (canonical_room_payload room amount)\<rparr> =
      canonical_room_payload room amount" for nm
    by (simp add: command_payload_def canonical_room_payload_def lit_def)
  obtain s sa k p where
    p: "account_of d1 u = Some (s, sa)" "previous_request d1 s key = Some (k, p)"
    "request_canonical_payload p = canonical_room_payload room amount"
    "request_response_status p = res_status res" "request_response_body p = res_body res"
    using execute_once_recorded [OF inv n, unfolded payload transfer_command.simps] .
  moreover have "account_of d' = account_of d1" "previous_request d' = previous_request d1"
    by (simp_all add: sent(6) fun_eq_iff account_of_def previous_request_def)
  ultimately show ?thesis by (intro that) simp_all
qed

record room_environment =
  env_attempts :: "nat \<Rightarrow> attempt"
  env_now :: instant

record room_command =
  rc_sender :: nat
  rc_room :: nat
  rc_amount :: nat
  rc_key :: nat

definition send_in_room :: "room_environment \<Rightarrow> room_command \<Rightarrow> db \<Rightarrow> exn + (transfer_result \<times> db)" where
  "send_in_room e c = transfer_for_product_room (env_attempts e) (env_now e) (rc_sender c) (rc_room c)
     (rc_amount c) (rc_key c)"

lemma room_transfer_replay:
  assumes inv: "ledger_inv d" and first: "send_in_room e c d = Inr (r, d')"
    and again: "send_in_room e' c d' = Inr (r', d'')"
  shows "d'' = d' \<and> same_answer r r' \<and> res_replayed r'"
proof -
  from room_transfer_recorded [OF inv first [unfolded send_in_room_def]] obtain s sa k p where
    p: "account_of d' (rc_sender c) = Some (s, sa)" "previous_request d' s (rc_key c) = Some (k, p)"
    "request_canonical_payload p = canonical_room_payload (rc_room c) (rc_amount c)"
    "request_response_status p = res_status r" "request_response_body p = res_body r" .
  then show ?thesis
    using again by (auto simp: send_in_room_def transfer_for_product_room_def Let_def same_answer_def)
qed

interpretation in_room: replayable send_in_room same_answer ledger_inv
  by unfold_locales (blast dest: room_transfer_replay)


section \<open>Money\<close>

definition total_balance :: "db \<Rightarrow> int" where
  "total_balance d = tsum (\<lambda>_ a. account_balance a) (mock_accounts d)"

definition account_count :: "db \<Rightarrow> nat" where
  "account_count d = tcount (\<lambda>_ _. True) (mock_accounts d)"

text \<open>What is in the accounts is what was seeded.\<close>

definition seeded :: "db \<Rightarrow> bool" where
  "seeded d \<longleftrightarrow> total_balance d = SEED_AMOUNT * int (account_count d)"

lemma tcount_tmodify_True: "tcount (\<lambda>_ _. True) (tmodify k f t) = tcount (\<lambda>_ _. True) t"
  by (simp add: tcount_def tselect_def tmodify_def tupdate_def split_def)

lemma seeded_same: "mock_accounts d' = mock_accounts d \<Longrightarrow> seeded d \<Longrightarrow> seeded d'"
  by (simp add: seeded_def total_balance_def account_count_def)

lemma total_after_move:
  assumes "wf_table t" "tget t s = Some sa" "tget t r = Some ra" "s \<noteq> r"
  shows "tsum (\<lambda>_ a. account_balance a) (move_balances s (account_balance sa - x) r (account_balance ra + x) t)
    = tsum (\<lambda>_ a. account_balance a) t"
  using assms unfolding move_balances_def
  by (subst tsum_tmodify [where r = ra]) (auto simp: wf_tmodify tget_tmodify tsum_tmodify [where r = sa])

lemma execute_once_seeded:
  assumes inv: "ledger_inv d" and "seeded d" and e: "execute_once att c d = Inr (res, d')"
  shows "seeded d'"
  using e
proof (cases rule: execute_once_elim)
  case replayed
  with assms(2) show ?thesis by simp
next
  case denied
  with assms show ?thesis by (blast dest: store_denial_inv intro: seeded_same)
next
  case (completed s sa ru u r ra)
  from completed_transfer [OF inv completed(1,5,4,6,7)] obtain ls x lr y where
    c: "s \<noteq> r" "d' = settled att c s sa r ra ls lr d" by blast
  from completed(1,5) have "tget (mock_accounts d) s = Some sa" "tget (mock_accounts d) r = Some ra"
    by (simp_all add: account_of_iff [OF inv])
  with total_after_move [OF ledger_inv_wf(1) [OF inv] this c(1)] assms(2) show ?thesis
    by (simp add: seeded_def total_balance_def account_count_def c(2) ledger_simps)
       (simp add: move_balances_def tcount_tmodify_True)
qed

lemma ensure_account_seeded:
  assumes inv: "ledger_inv d" and "seeded d" and e: "ensure_account jid u d = Inr (k, d')"
  shows "seeded d'"
  using e
proof (cases rule: ensure_account_elim [OF inv e])
  case 1
  with assms(2) show ?thesis by simp
next
  case 2
  with assms(2) show ?thesis
    by (simp add: seeded_def total_balance_def account_count_def tsum_tcreate tcount_tcreate
        seed_account_def algebra_simps)
qed

lemma close_account_seeded:
  assumes inv: "ledger_inv d" and "seeded d" and e: "close_account jid now u d = Inr (b, d')"
  shows "seeded d'"
proof (rule close_account_elim [OF inv e])
  fix d1 d2 k a
  assume g: "get_or_create_safety d = (open_safety, d1) \<or>
      (\<exists>s. transfer_safety d = Some s \<and> safety_state s = OPEN \<and> d1 = d)"
    and en: "ensure_account jid u d1 = Inr (k, d2)" and a: "tget (mock_accounts d2) k = Some a"
    and inv2: "ledger_inv d2"
    and r: "\<not> b \<and> \<not> account_is_open a \<and> d' = d2 \<or>
     b \<and> account_is_open a \<and> account_balance a = 0 \<and>
     d' = audit_transfer u ACCOUNT_CLOSED None (d2\<lparr>mock_accounts := tmodify k
            (\<lambda>a. a\<lparr>account_is_open := False, account_closed_at := Some now\<rparr>) (mock_accounts d2)\<rparr>)"
  have "ledger_inv d1 \<and> mock_accounts d1 = mock_accounts d"
    using g get_or_create_safety_inv [OF inv] inv by auto
  with assms(2) have "seeded d2"
    by (blast intro: ensure_account_seeded [OF _ _ en] seeded_same)
  with r show ?thesis
    by (auto simp: seeded_def total_balance_def account_count_def ledger_simps tcount_tmodify_True
        tsum_tmodify [OF ledger_inv_wf(1) [OF inv2] a])
qed

lemma room_transfer_seeded:
  assumes inv: "ledger_inv d" and "seeded d"
    and e: "transfer_for_product_room env tnow u room amount key d = Inr (res, d')"
  shows "seeded d'"
  using e
proof (cases rule: room_transfer_elim)
  case replayed
  with assms(2) show ?thesis by simp
next
  case denied
  with assms show ?thesis by (blast dest: store_denial_inv intro: seeded_same)
next
  case (sent s sa v recipient d1 ns)
  from transfer_service_one [OF sent(5)] have "seeded d1"
    by (metis execute_once_seeded [OF assms(1,2)])
  with sent(6) show ?thesis by (intro seeded_same [of d' d1]) simp_all
qed

section \<open>The transition system\<close>

datatype ledger_call =
    Ensure nat nat
  | Send "nat \<Rightarrow> attempt" transfer_command
  | Send_In_Room room_environment room_command
  | Close nat instant nat
  | Reconcile_Command reconcile_call

fun apply_ledger :: "ledger_call \<Rightarrow> db \<Rightarrow> db" where
  "apply_ledger (Ensure jid u) d = snd (atomic (ensure_account jid u) d)"
| "apply_ledger (Send env c) d = snd (atomic (transfer_service env c) d)"
| "apply_ledger (Send_In_Room e c) d = snd (atomic (send_in_room e c) d)"
| "apply_ledger (Close jid now u) d = snd (atomic (close_account jid now u) d)"
| "apply_ledger (Reconcile_Command c) d = snd (reconcile c d)"

definition same_ledger :: "db \<Rightarrow> db \<Rightarrow> bool" where
  "same_ledger d d' \<longleftrightarrow>
     mock_accounts d' = mock_accounts d \<and> ledger_accounts d' = ledger_accounts d \<and>
     ledger_journals d' = ledger_journals d \<and> ledger_entries d' = ledger_entries d \<and>
     transfers d' = transfers d \<and> transfer_requests d' = transfer_requests d \<and>
     transfer_safety d' = transfer_safety d"

inductive ledger_step :: "db \<Rightarrow> ledger_call option \<Rightarrow> db \<Rightarrow> bool" where
  ledger_call: "ledger_step d (Some call) (apply_ledger call d)"
| elsewhere: "same_ledger d d' \<Longrightarrow> ledger_step d None d'"

inductive_cases ledger_stepE: "ledger_step d l d'"

lemma same_ledger_inv: "same_ledger d d' \<Longrightarrow> ledger_inv d \<Longrightarrow> ledger_inv d'"
  by (rule ledger_inv_cong [of d' d]) (simp_all add: same_ledger_def ledger_inv_wf)

lemma get_or_create_safety_only:
  "get_or_create_safety d = (s, d') \<Longrightarrow> d' = d\<lparr>transfer_safety := Some s\<rparr>"
  by (auto simp: get_or_create_safety_def split: option.splits)

lemma resume_transfers_only:
  "resume_transfers c raw ms s d = Inr (out, d') \<Longrightarrow> \<exists>s'. d' = d\<lparr>transfer_safety := Some s'\<rparr>"
  by (auto simp: resume_transfers_def split: sum.splits if_splits)

lemma handle_body_only: "\<exists>s. snd (handle_body c d) = d\<lparr>transfer_safety := Some s\<rparr>"
proof -
  obtain s d1 where g: "get_or_create_safety d = (s, d1)" by force
  from get_or_create_safety_only [OF g] have d1: "d1 = d\<lparr>transfer_safety := Some s\<rparr>" .
  have res: "\<exists>s'. d2 = d\<lparr>transfer_safety := Some s'\<rparr>"
    if "resume_transfers c raw ms s d1 = Inr (out, d2)" for raw ms out d2
    using resume_transfers_only [OF that] by (auto simp: d1)
  show ?thesis
  proof (cases "ledger_mismatches d1")
    case (Inl e)
    then show ?thesis unfolding handle_body_def g Let_def prod.case d1 by (auto simp: d1)
  next
    case (Inr ms)
    note h = handle_body_def [of c d, unfolded g Let_def prod.case Inr sum.case]
    show ?thesis
    proof (cases "\<exists>r raw. call_resume c = Some (r # raw)")
      case True
      then obtain r raw where c: "call_resume c = Some (r # raw)" by blast
      show ?thesis
      proof (cases "resume_transfers c (r # raw) ms s d1")
        case (Inl e)
        with c show ?thesis unfolding h by (auto simp: d1)
      next
        case (Inr p)
        obtain out d2 where p: "p = (out, d2)" by force
        from res Inr p obtain s' where "d2 = d\<lparr>transfer_safety := Some s'\<rparr>" by blast
        with c Inr p show ?thesis unfolding h by auto
      qed
    next
      case False
      then consider "call_resume c = None" | "call_resume c = Some []"
        by (cases "call_resume c"; cases "the (call_resume c)") auto
      then show ?thesis unfolding h by cases (auto simp: d1)
    qed
  qed
qed

lemma reconcile_only: "snd (reconcile c d) = d \<or> (\<exists>s. snd (reconcile c d) = d\<lparr>transfer_safety := Some s\<rparr>)"
  using handle_body_only [of c d] by (cases "handle_body c d") (auto simp: reconcile_def split: sum.splits)

lemma reconcile_inv: "ledger_inv d \<Longrightarrow> ledger_inv (snd (reconcile c d))"
  using reconcile_only [of c d] by (auto intro: ledger_inv_safety)

lemma reconcile_accounts: "mock_accounts (snd (reconcile c d)) = mock_accounts d"
  using reconcile_only [of c d] by auto

lemma apply_ledger_inv:
  assumes "ledger_inv d"
  shows "ledger_inv (apply_ledger call d)"
proof (cases call)
  case (Ensure jid u)
  show ?thesis unfolding Ensure apply_ledger.simps
    by (rule atomic_preserves) (rule ensure_account_inv [OF assms], assumption, rule assms)
next
  case (Send env c)
  show ?thesis unfolding Send apply_ledger.simps
    by (rule atomic_preserves) (rule transfer_service_inv [OF assms], assumption, rule assms)
next
  case (Send_In_Room e c)
  show ?thesis unfolding Send_In_Room apply_ledger.simps send_in_room_def
    by (rule atomic_preserves) (rule room_transfer_inv [OF assms], assumption, rule assms)
next
  case (Close jid now u)
  show ?thesis unfolding Close apply_ledger.simps
    by (rule atomic_preserves) (rule close_account_inv [OF assms], assumption, rule assms)
next
  case (Reconcile_Command c)
  show ?thesis unfolding Reconcile_Command apply_ledger.simps by (rule reconcile_inv [OF assms])
qed

lemma transfer_service_seeded:
  "ledger_inv d \<Longrightarrow> seeded d \<Longrightarrow> transfer_service env c d = Inr (res, d') \<Longrightarrow> seeded d'"
  by (erule transfer_service_one) (rule execute_once_seeded)

lemma apply_ledger_seeded:
  assumes "ledger_inv d" "seeded d"
  shows "seeded (apply_ledger call d)"
proof (cases call)
  case (Ensure jid u)
  show ?thesis unfolding Ensure apply_ledger.simps
    by (rule atomic_preserves) (rule ensure_account_seeded [OF assms], assumption, rule assms)
next
  case (Send env c)
  show ?thesis unfolding Send apply_ledger.simps
    by (rule atomic_preserves) (rule transfer_service_seeded [OF assms], assumption, rule assms)
next
  case (Send_In_Room e c)
  show ?thesis unfolding Send_In_Room apply_ledger.simps send_in_room_def
    by (rule atomic_preserves) (rule room_transfer_seeded [OF assms], assumption, rule assms)
next
  case (Close jid now u)
  show ?thesis unfolding Close apply_ledger.simps
    by (rule atomic_preserves) (rule close_account_seeded [OF assms], assumption, rule assms)
next
  case (Reconcile_Command c)
  show ?thesis unfolding Reconcile_Command apply_ledger.simps
    by (rule seeded_same [OF reconcile_accounts assms(2)])
qed

lemma same_ledger_seeded: "same_ledger d d' \<Longrightarrow> seeded d \<Longrightarrow> seeded d'"
  by (rule seeded_same [of d' d]) (simp_all add: same_ledger_def)

interpretation ledger: invariant_system ledger_step "\<lambda>d. ledger_inv d \<and> seeded d"
  by unfold_locales
     (auto elim!: ledger_stepE intro: apply_ledger_inv apply_ledger_seeded same_ledger_inv same_ledger_seeded)

lemma seeded_empty: "seeded empty_db"
  by (simp add: seeded_def total_balance_def account_count_def empty_db_def tsum_empty)
     (simp add: tcount_def tselect_def empty_table_def)

lemma ledger_run_from_empty:
  "ledger.run empty_db ls d \<Longrightarrow> ledger_inv d \<and> seeded d"
  using ledger_inv_empty seeded_empty by (blast dest: ledger.run_inv)

end
