(* ===== verification/Ledger_Properties.thy ===== *)
theory Ledger_Properties imports Ledger_System begin

text \<open>
  The properties of the transfer service, proved from the ledger invariant, the
  elimination rules of its operations and the interface locales.
\<close>

section \<open>Example states for the witnesses\<close>

definition sample_user :: "string \<Rightarrow> user" where
  "sample_user name = \<lparr>user_username = lit name, user_password = Some 1, user_is_active = True,
     user_is_staff = False, user_is_superuser = False, user_meta_permission = False, user_bio = [],
     user_auth_epoch = 0, user_withdrawn_at = None, user_date_joined = 0\<rparr>"

definition two_users :: db where
  "two_users = empty_db\<lparr>users := \<lparr>rows = [(1, sample_user ''anna''), (2, sample_user ''bert'')], next_pk = 3\<rparr>\<rparr>"

definition two_accounts :: db where
  "two_accounts = apply_ledger (Ensure 12 2) (apply_ledger (Ensure 11 1) two_users)"

definition sample_attempt :: attempt where
  "sample_attempt = \<lparr>attempt_abort = None, attempt_now = 1000, attempt_journal = 21, attempt_transfer = 22\<rparr>"

definition sample_command :: transfer_command where
  "sample_command = \<lparr>cmd_sender_user = 1, cmd_recipient_name = lit ''bert'', cmd_amount = 500000,
     cmd_key = 77, cmd_request_payload = None\<rparr>"

lemma two_users_run: "ledger.run empty_db [None] two_users"
  by (rule ledger.run_cons [OF elsewhere ledger.run_nil])
     (simp add: same_ledger_def two_users_def empty_db_def)

lemma two_accounts_run: "ledger.run empty_db [None, Some (Ensure 11 1), Some (Ensure 12 2)] two_accounts"
  unfolding two_accounts_def
  using ledger.run_append [OF two_users_run
      ledger.run_cons [OF ledger_call ledger.run_cons [OF ledger_call ledger.run_nil]]]
  by (simp del: apply_ledger.simps)

lemma two_accounts_inv: "ledger_inv two_accounts"
  using ledger_run_from_empty [OF two_accounts_run] by simp

lemmas sample_defs = two_accounts_def two_users_def sample_user_def sample_attempt_def sample_command_def
  empty_db_def empty_table_def

lemma two_accounts_eq: "two_accounts = two_users\<lparr>
    mock_accounts := \<lparr>rows = [(1, seed_account 1), (2, seed_account 2)], next_pk = 3\<rparr>,
    ledger_accounts := \<lparr>rows = [(1, reserve_row), (2, user_ledger_row 1 1), (3, user_ledger_row 2 2)], next_pk = 4\<rparr>,
    ledger_journals := \<lparr>rows = [(11, \<lparr>journal_kind = SEED_ISSUE, journal_target_mock_account_id = Some 1\<rparr>),
      (12, \<lparr>journal_kind = SEED_ISSUE, journal_target_mock_account_id = Some 2\<rparr>)], next_pk = 13\<rparr>,
    ledger_entries := \<lparr>rows = [
      (1, \<lparr>entry_journal_id = 11, entry_account_id = 2, entry_amount = SEED_AMOUNT\<rparr>),
      (2, \<lparr>entry_journal_id = 11, entry_account_id = 1, entry_amount = - SEED_AMOUNT\<rparr>),
      (3, \<lparr>entry_journal_id = 12, entry_account_id = 3, entry_amount = SEED_AMOUNT\<rparr>),
      (4, \<lparr>entry_journal_id = 12, entry_account_id = 1, entry_amount = - SEED_AMOUNT\<rparr>)], next_pk = 5\<rparr>,
    transfer_safety := Some open_safety\<rparr>"
  by code_simp


lemma two_accounts_lookups:
  "account_of two_accounts 1 = Some (1, seed_account 1)"
  "account_of two_accounts 2 = Some (2, seed_account 2)"
  "previous_request two_accounts s key = None"
  "transfer_safety two_accounts = Some open_safety"
  "tfirst (\<lambda>_ u. user_username u = lit ''bert'') (users two_accounts) = Some (2, sample_user ''bert'')"
  "is_active_user now two_accounts 1" "is_active_user now two_accounts 2"
  "tget (mock_accounts two_accounts) 1 = Some (seed_account 1)"
  "tget (mock_accounts two_accounts) 2 = Some (seed_account 2)"
  "ledger_journals two_accounts = \<lparr>rows = [(11, \<lparr>journal_kind = SEED_ISSUE, journal_target_mock_account_id = Some 1\<rparr>),
      (12, \<lparr>journal_kind = SEED_ISSUE, journal_target_mock_account_id = Some 2\<rparr>)], next_pk = 13\<rparr>"
  "transfers two_accounts = empty_table" "transfer_requests two_accounts = empty_table"
  "moderation_actions two_accounts = empty_table"
  by (simp_all add: two_accounts_eq two_users_def empty_db_def account_of_def seed_account_def
      previous_request_def empty_table_def tfirst_def is_active_user_def texists_def tget_def
      sample_user_def lit_def)

lemma sample_transfer: "\<exists>d'. execute_once sample_attempt sample_command two_accounts =
    Inr (settled_result sample_attempt sample_command (seed_account 1), d')"
proof -
  have e: "execute_once sample_attempt sample_command two_accounts =
      post_transfer sample_attempt sample_command 1 (seed_account 1) 2 (seed_account 2) two_accounts"
    by (simp add: execute_once_def two_accounts_lookups sample_command_def open_safety_def
        settlement_denied_def seed_account_def SEED_AMOUNT_def MAX_BALANCE_def del: One_nat_def)
  have fresh: "tget (ledger_journals two_accounts) (attempt_journal sample_attempt) = None"
    "tget (transfers two_accounts) (attempt_transfer sample_attempt) = None"
    "\<not> texists (\<lambda>_ t. transfer_journal_id t = attempt_journal sample_attempt) (transfers two_accounts)"
    "\<not> texists (\<lambda>_ q. request_transfer_id q = Some (attempt_transfer sample_attempt)) (transfer_requests two_accounts)"
    by (simp_all add: two_accounts_lookups sample_attempt_def tget_def texists_def empty_table_def)
  show ?thesis unfolding e
    by (rule post_transfer_closed [OF two_accounts_inv two_accounts_lookups(8,9),
          of sample_command sample_attempt])
       (simp_all add: fresh two_accounts_lookups(3),
        simp_all add: sample_command_def seed_account_def SEED_AMOUNT_def MAX_BALANCE_def)
qed

section \<open>Every reachable ledger reconciles\<close>

text \<open>
  C1: after any sequence of sign-ups, transfers (direct or in a room, with any faults and
  retries), account closures and operator commands, interleaved with any steps of the rest of
  the program, \<open>ledger_mismatches\<close> reports nothing.
\<close>

theorem reachable_ledger_reconciles:
  "ledger.run empty_db calls d \<Longrightarrow> ledger_mismatches d = Inr []"
  by (simp add: inv_no_mismatch ledger_run_from_empty)

theorem reachable_ledger_reconciles_witness: "ledger_mismatches two_accounts = Inr []"
  by (rule reachable_ledger_reconciles [OF two_accounts_run])

text \<open>
  C2: no money appears or vanishes: in every reachable state the balances add up to one
  seed per account, and every balance lies between zero and \<open>MAX_BALANCE\<close>.
\<close>

theorem reachable_money_conserved:
  assumes "ledger.run empty_db calls d"
  shows "total_balance d = SEED_AMOUNT * int (account_count d) \<and>
    tall (\<lambda>_ a. 0 \<le> account_balance a \<and> account_balance a \<le> MAX_BALANCE) (mock_accounts d)"
  using ledger_run_from_empty [OF assms]
  by (auto simp: seeded_def ledger_inv_def balances_bounded_def mock_account_check_def MAX_BALANCE_def
      elim: tall_mono)

theorem reachable_money_conserved_witness: "total_balance two_accounts = SEED_AMOUNT * int (account_count two_accounts)"
  using reachable_money_conserved [OF two_accounts_run] by simp

section \<open>One transfer\<close>

text \<open>
  C3: a transfer answered 201 for the first time debits the sender and credits the recipient
  by exactly the amount, touches no other account, and appends exactly two entries, on the
  ledger accounts of the two, under a journal that did not exist.
\<close>

theorem completed_transfer_exact:
  assumes "ledger_inv d" "execute_once att c d = Inr (res, d')" "res_status res = 201" "\<not> res_replayed res"
  shows "\<exists>s sa r ra ru ls lr. account_of d (cmd_sender_user c) = Some (s, sa) \<and> account_of d ru = Some (r, ra) \<and>
    map_option fst (tfirst (\<lambda>_ u. user_username u = cmd_recipient_name c) (users d)) = Some ru \<and> s \<noteq> r \<and>
    tget (mock_accounts d') s = Some (sa\<lparr>account_balance := account_balance sa - int (cmd_amount c)\<rparr>) \<and>
    tget (mock_accounts d') r = Some (ra\<lparr>account_balance := account_balance ra + int (cmd_amount c)\<rparr>) \<and>
    (\<forall>k. k \<noteq> s \<and> k \<noteq> r \<longrightarrow> tget (mock_accounts d') k = tget (mock_accounts d) k) \<and>
    map_option fst (ledger_of d s) = Some ls \<and> map_option fst (ledger_of d r) = Some lr \<and>
    tget (ledger_journals d) (attempt_journal att) = None \<and>
    map snd (rows (ledger_entries d')) = map snd (rows (ledger_entries d)) @
      [\<lparr>entry_journal_id = attempt_journal att, entry_account_id = ls, entry_amount = - int (cmd_amount c)\<rparr>,
       \<lparr>entry_journal_id = attempt_journal att, entry_account_id = lr, entry_amount = int (cmd_amount c)\<rparr>]"
  using assms(2)
proof (cases rule: execute_once_elim)
  case replayed
  with assms(4) show ?thesis by simp
next
  case denied
  with assms(1,3) show ?thesis by (auto dest: store_denial_inv)
next
  case (completed s sa ru u r ra)
  obtain ls x lr y where
    c: "ledger_of d s = Some (ls, x)" "ledger_of d r = Some (lr, y)" "s \<noteq> r"
    "tget (ledger_journals d) (attempt_journal att) = None" "d' = settled att c s sa r ra ls lr d"
    by (rule completed_transfer [OF assms(1) completed(1,5,4,6,7)]) (rule that)
  from completed(1,5) have "tget (mock_accounts d) s = Some sa" "tget (mock_accounts d) r = Some ra"
    by (simp_all add: account_of_iff [OF assms(1)])
  then have p: "tget (mock_accounts d') s = Some (sa\<lparr>account_balance := account_balance sa - int (cmd_amount c)\<rparr>)"
    "tget (mock_accounts d') r = Some (ra\<lparr>account_balance := account_balance ra + int (cmd_amount c)\<rparr>)"
    "\<forall>k. k \<noteq> s \<and> k \<noteq> r \<longrightarrow> tget (mock_accounts d') k = tget (mock_accounts d) k"
    using c(3) unfolding c(5) settled_fields by (simp_all add: tget_move_balances)
  have e: "map snd (rows (ledger_entries d')) = map snd (rows (ledger_entries d)) @
      [\<lparr>entry_journal_id = attempt_journal att, entry_account_id = ls, entry_amount = - int (cmd_amount c)\<rparr>,
       \<lparr>entry_journal_id = attempt_journal att, entry_account_id = lr, entry_amount = int (cmd_amount c)\<rparr>]"
    unfolding c(5) by (simp add: settled_def Let_def audit_transfer_def settle_fields tcreate_def tinsert_def)
  have u: "map_option fst (tfirst (\<lambda>_ u. user_username u = cmd_recipient_name c) (users d)) = Some ru"
    by (simp only: completed(3) option.map fst_conv)
  have l: "map_option fst (ledger_of d s) = Some ls" "map_option fst (ledger_of d r) = Some lr"
    by (simp_all only: c(1,2) option.map fst_conv)
  show ?thesis
    by (intro exI [of _ s] exI [of _ sa] exI [of _ r] exI [of _ ra] exI [of _ ru] exI [of _ ls] exI [of _ lr] conjI
        completed(1,5) u c(3,4) p l e)
qed

theorem completed_transfer_exact_witness:
  "\<exists>d' s sa. execute_once sample_attempt sample_command two_accounts =
      Inr (settled_result sample_attempt sample_command (seed_account 1), d') \<and>
    account_of two_accounts (cmd_sender_user sample_command) = Some (s, sa) \<and>
    tget (mock_accounts d') s =
      Some (sa\<lparr>account_balance := account_balance sa - int (cmd_amount sample_command)\<rparr>)"
proof -
  from sample_transfer obtain d' where d': "execute_once sample_attempt sample_command two_accounts =
      Inr (settled_result sample_attempt sample_command (seed_account 1), d')" by blast
  have first: "res_status (settled_result a c sa) = 201" "\<not> res_replayed (settled_result a c sa)" for a c sa
    by (simp_all add: settled_result_def)
  from completed_transfer_exact [OF two_accounts_inv d' first] d' show ?thesis by blast
qed

text \<open>
  C4: every other answer of a transfer (a denial, a replay) leaves accounts, journals and
  entries as they were; an exception of any kind leaves the whole database as it was.
\<close>

theorem refused_transfer_moves_nothing:
  assumes "ledger_inv d"
  shows "case execute_once att c d of
      Inl _ \<Rightarrow> snd (atomic (execute_once att c) d) = d
    | Inr (res, d') \<Rightarrow> res_status res = 201 \<and> \<not> res_replayed res \<or>
        mock_accounts d' = mock_accounts d \<and> ledger_accounts d' = ledger_accounts d \<and>
        ledger_journals d' = ledger_journals d \<and> ledger_entries d' = ledger_entries d \<and>
        transfers d' = transfers d"
proof (cases "execute_once att c d")
  case (Inr p)
  obtain res d' where p: "p = (res, d')" by force
  from Inr p have e: "execute_once att c d = Inr (res, d')" by simp
  then show ?thesis
  proof (cases rule: execute_once_elim)
    case (completed s sa ru u r ra)
    have "res = settled_result att c sa"
      by (rule completed_transfer [OF assms completed(1,5,4,6,7)])
    with e show ?thesis by (simp add: settled_result_def)
  qed (use e in \<open>auto simp: store_denial_def create_request_def split: if_splits\<close>)
qed simp

theorem refused_transfer_moves_nothing_witness:
  "case execute_once sample_attempt (sample_command\<lparr>cmd_recipient_name := lit ''nobody''\<rparr>) two_accounts of
      Inl _ \<Rightarrow> snd (atomic (execute_once sample_attempt (sample_command\<lparr>cmd_recipient_name := lit ''nobody''\<rparr>)) two_accounts) = two_accounts
    | Inr (res, d') \<Rightarrow> res_status res = 201 \<and> \<not> res_replayed res \<or>
        mock_accounts d' = mock_accounts two_accounts \<and> ledger_accounts d' = ledger_accounts two_accounts \<and>
        ledger_journals d' = ledger_journals two_accounts \<and> ledger_entries d' = ledger_entries two_accounts \<and>
        transfers d' = transfers two_accounts"
  by (rule refused_transfer_moves_nothing [OF two_accounts_inv])

section \<open>Retries and replays\<close>

text \<open>
  C5: however often a transfer is sent, in whatever environments (other drawn keys, aborted
  attempts, other times), the database ends as after none of the deliveries or exactly one.
\<close>

theorem transfer_at_most_once:
  assumes "ledger_inv d"
  shows "direct.deliver envs c d = d \<or>
    (\<exists>env \<in> set envs. \<exists>r. transfer_service env c d = Inr (r, direct.deliver envs c d))"
  by (rule direct.deliver_at_most_once [OF assms])

theorem transfer_at_most_once_witness:
  "direct.deliver [\<lambda>_. sample_attempt, \<lambda>_. sample_attempt] sample_command two_accounts = two_accounts \<or>
    (\<exists>env \<in> set [\<lambda>_. sample_attempt, \<lambda>_. sample_attempt]. \<exists>r. transfer_service env sample_command two_accounts =
      Inr (r, direct.deliver [\<lambda>_. sample_attempt, \<lambda>_. sample_attempt] sample_command two_accounts))"
  by (rule transfer_at_most_once [OF two_accounts_inv])

text \<open>
  The same for a transfer inside a product room, whose effect includes the two
  notifications.
\<close>

theorem room_transfer_at_most_once:
  assumes "ledger_inv d"
  shows "in_room.deliver envs c d = d \<or>
    (\<exists>e \<in> set envs. \<exists>r. send_in_room e c d = Inr (r, in_room.deliver envs c d))"
  by (rule in_room.deliver_at_most_once [OF assms])

definition sample_room_environment :: room_environment where
  "sample_room_environment = \<lparr>env_attempts = (\<lambda>_. sample_attempt), env_now = 1000\<rparr>"

definition sample_room_command :: room_command where
  "sample_room_command = \<lparr>rc_sender = 1, rc_room = 5, rc_amount = 100, rc_key = 9\<rparr>"

theorem room_transfer_at_most_once_witness:
  "in_room.deliver [sample_room_environment, sample_room_environment] sample_room_command two_accounts = two_accounts \<or>
    (\<exists>e \<in> set [sample_room_environment, sample_room_environment]. \<exists>r. send_in_room e sample_room_command two_accounts =
      Inr (r, in_room.deliver [sample_room_environment, sample_room_environment] sample_room_command two_accounts))"
  by (rule room_transfer_at_most_once [OF two_accounts_inv])

text \<open>
  C6: a key that was answered once never serves another payload: the same sender using it for
  another recipient or another amount gets \<open>IdempotencyConflict\<close>, whatever the attempt.
\<close>

theorem reused_key_conflicts:
  assumes inv: "ledger_inv d" and first: "execute_once att c d = Inr (res, d')"
    and "cmd_sender_user c' = cmd_sender_user c" "cmd_key c' = cmd_key c"
    and "cmd_request_payload c = None" "cmd_request_payload c' = None"
    and "(cmd_recipient_name c', cmd_amount c') \<noteq> (cmd_recipient_name c, cmd_amount c)"
  shows "execute_once att' c' d' = Inl IdempotencyConflict"
proof -
  from execute_once_recorded [OF inv first] obtain s sa k p where
    "account_of d' (cmd_sender_user c) = Some (s, sa)" "previous_request d' s (cmd_key c) = Some (k, p)"
    "request_canonical_payload p = command_payload c" .
  with assms(3-6) execute_once_replays [of d' c' s sa k p att'] show ?thesis
    using assms(7) canonical_payload_same [of "cmd_recipient_name c" "cmd_amount c"]
    by (auto simp: command_payload_def)
qed

theorem reused_key_conflicts_witness:
  "\<exists>d'. execute_once sample_attempt (sample_command\<lparr>cmd_amount := 1\<rparr>) d' = Inl IdempotencyConflict \<and>
    execute_once sample_attempt sample_command two_accounts =
      Inr (settled_result sample_attempt sample_command (seed_account 1), d')"
proof -
  from sample_transfer obtain d' where d': "execute_once sample_attempt sample_command two_accounts =
      Inr (settled_result sample_attempt sample_command (seed_account 1), d')" by blast
  from reused_key_conflicts [OF two_accounts_inv d', of "sample_command\<lparr>cmd_amount := 1\<rparr>" sample_attempt] d'
  show ?thesis by (auto simp: sample_command_def)
qed

text \<open>
  C8: the retry loop survives up to three serialization failures or deadlocks: if the first
  \<open>k \<le> 3\<close> attempts abort with 40001 or 40P01 and the next one does not abort, the caller gets
  exactly that attempt's outcome. Four such aborts give \<open>TransferUnavailable\<close>, and any other
  operational error passes at once.
\<close>

lemma transfer_from_upt:
  "k \<le> m \<Longrightarrow> m < 4 \<Longrightarrow> (\<forall>n. k \<le> n \<and> n < m \<longrightarrow> (\<exists>s \<in> set retryable. attempt_abort (env n) = Some s)) \<Longrightarrow>
   transfer_from env c [k..<4] d = transfer_from env c [m..<4] d"
proof (induction "m - k" arbitrary: k)
  case (Suc x)
  then have "k < m" "k < 4" "k \<noteq> 3" by simp_all
  moreover from this Suc.prems obtain s where "s \<in> set retryable" "attempt_abort (env k) = Some s" by auto
  ultimately have "transfer_from env c [k..<4] d = transfer_from env c [Suc k..<4] d"
    by (subst upt_conv_Cons) (simp_all add: run_attempt_def)
  also have "\<dots> = transfer_from env c [m..<4] d"
    using Suc \<open>k < m\<close> by (intro Suc.hyps) simp_all
  finally show ?case .
qed simp

lemma execute_once_no_operational: "execute_once att c d \<noteq> Inl (OperationalError s)"
  by (auto simp: execute_once_def store_denial_def create_request_def post_transfer_def save_balance_def
      create_journal_def create_transfer_row_def Let_def
      split: option.splits prod.splits if_splits sum.splits)

theorem retry_loop_outcome:
  assumes "k < 4" "\<forall>n < k. \<exists>s \<in> set retryable. attempt_abort (env n) = Some s"
  shows "transfer_service env c d =
    (case attempt_abort (env k) of
       None \<Rightarrow> execute_once (env k) c d
     | Some s \<Rightarrow> if s \<notin> set retryable then Inl (OperationalError s)
                 else if k = 3 then Inl TransferUnavailable
                 else transfer_service env c d)"
proof -
  have "transfer_service env c d = transfer_from env c [k..<4] d"
    unfolding transfer_service_def by (rule transfer_from_upt) (use assms in auto)
  also have "\<dots> = transfer_from env c (k # [Suc k..<4]) d"
    using assms(1) by (simp add: upt_conv_Cons)
  finally have unfolded: "transfer_service env c d = transfer_from env c (k # [Suc k..<4]) d" .
  show ?thesis
  proof (cases "attempt_abort (env k)")
    case None
    with execute_once_no_operational [of "env k" c d] show ?thesis
      by (cases "execute_once (env k) c d") (auto simp: unfolded run_attempt_def split: exn.split)
  next
    case (Some s)
    have "transfer_from env c [Suc k..<4] d = transfer_service env c d" if "s \<in> set retryable" "k \<noteq> 3"
    proof -
      have "\<forall>n < Suc k. \<exists>s \<in> set retryable. attempt_abort (env n) = Some s" using assms(2) Some that(1) by (auto simp: less_Suc_eq)
      then show ?thesis unfolding transfer_service_def
        by (intro transfer_from_upt [symmetric]) (use assms(1) that(2) in auto)
    qed
    then show ?thesis unfolding unfolded by (simp add: run_attempt_def Some)
  qed
qed

definition flaky :: "nat \<Rightarrow> nat \<Rightarrow> attempt" where
  "flaky k n = sample_attempt\<lparr>attempt_abort := (if n < k then Some ''40P01'' else None)\<rparr>"

theorem retry_loop_outcome_witness:
  "transfer_service (flaky 3) sample_command two_accounts = execute_once (flaky 3 3) sample_command two_accounts \<and>
   transfer_service (flaky 4) sample_command two_accounts = Inl TransferUnavailable"
  using retry_loop_outcome [of 3 "flaky 3" sample_command two_accounts]
    retry_loop_outcome [of 3 "flaky 4" sample_command two_accounts]
  by (simp add: flaky_def retryable_def sample_attempt_def)


section \<open>After the settlement\<close>

definition has_notification :: "db \<Rightarrow> nat \<Rightarrow> pystr \<Rightarrow> bool" where
  "has_notification d r key \<longleftrightarrow> texists (notification_key r key) (notifications d)"

lemma create_notification_active:
  assumes "active_recipient d r" "key \<noteq> []" "length key \<le> 160"
  obtains k b d' where "create_notification tnow r key kind p d = Inr ((k, b), d')"
    "has_notification d' r key" "users d' = users d"
    "\<And>r' key'. has_notification d r' key' \<Longrightarrow> has_notification d' r' key'"
proof (cases "tfirst (notification_key r key) (notifications d)")
  case (Some q)
  then show ?thesis using assms
    by (cases q; intro that [of "fst q" False d])
       (auto simp: create_notification_def has_notification_def texists_def list_ex_iff dest!: tfirst_SomeD)
next
  case None
  let ?n = "\<lparr>notification_recipient_id = r, notification_event_key = key, notification_kind = kind,
    notification_payload = p, notification_read_at = None, notification_created_at = tnow,
    notification_expires_at = tnow + days 90\<rparr>"
  from assms None have "create_notification tnow r key kind p d = Inr ((next_pk (notifications d), True),
      d\<lparr>notifications := snd (tcreate ?n (notifications d))\<rparr>)"
    by (simp add: create_notification_def Let_def tcreate_def)
  then show ?thesis
    by (rule that) (auto simp: has_notification_def texists_tcreate notification_key_def)
qed

lemma active_user_recipient: "is_active_user now d i \<Longrightarrow> active_recipient d i"
  by (simp add: is_active_user_def active_recipient_def)

lemma active_recipient_users: "users d' = users d \<Longrightarrow> active_recipient d' = active_recipient d"
  by (simp add: active_recipient_def fun_eq_iff)

lemma transfer_notifications_active:
  assumes "active_recipient d s" "active_recipient d r"
  obtains x d' where "create_transfer_notifications tnow s r t a d = Inr (x, d')"
    "has_notification d' s (lit ''transfer.sender:'' @ uuid_str t)"
    "has_notification d' r (lit ''transfer.recipient:'' @ uuid_str t)"
proof -
  let ?ks = "lit ''transfer.sender:'' @ uuid_str t" and ?kr = "lit ''transfer.recipient:'' @ uuid_str t"
  have keys: "?ks \<noteq> []" "length ?ks \<le> 160" "?kr \<noteq> []" "length ?kr \<le> 160" by (simp_all add: lit_def)
  obtain k1 b1 d1 where c1: "create_notification tnow s ?ks TRANSFER_SENT
      (Transfer_Payload (uuid_str t) (fmt_0f a) (username_of d r)) d = Inr ((k1, b1), d1)"
    and h1: "has_notification d1 s ?ks" and u1: "users d1 = users d"
    by (rule create_notification_active [OF assms(1) keys(1,2)]) (rule that)
  have "active_recipient d1 r" using assms(2) active_recipient_users [OF u1] by simp
  then obtain k2 b2 d2 where c2: "create_notification tnow r ?kr TRANSFER_RECEIVED
      (Transfer_Payload (uuid_str t) (fmt_0f a) (username_of d s)) d1 = Inr ((k2, b2), d2)"
    and h2: "has_notification d2 r ?kr" and keep: "\<And>r' key'. has_notification d1 r' key' \<Longrightarrow> has_notification d2 r' key'"
    by (rule create_notification_active [OF _ keys(3,4)]) (rule that)
  have "create_transfer_notifications tnow s r t a d = Inr ((k1, k2), d2)"
    using c1 c2 by (simp add: create_transfer_notifications_def Let_def)
  then show thesis using h2 keep [OF h1] by (intro that)
qed

text \<open>
  C6: once the inner transfer of a room transfer has settled (a fresh 201), nothing after it
  can fail: the room transfer returns that answer, and both parties have their notification.
  The key of the transfer is a 128-bit value and usernames are unique.
\<close>

theorem settled_room_transfer_notifies:
  assumes inv: "ledger_inv d" and users: "wf_table (users d)" "unique_on (\<lambda>u. Some (user_username u)) (users d)"
    and acc: "account_of d u = Some (s, sa)" and new: "previous_request d s key = None"
    and conv: "conversation_of_room d room = Some v" "map_option room_kind (tget (rooms d) room) = Some PRODUCT_ROOM"
    and party: "u = conversation_seller_id (snd v) \<and> recipient = conversation_buyer_id (snd v) \<or>
      u = conversation_buyer_id (snd v) \<and> recipient = conversation_seller_id (snd v)"
    and known: "tget (users d) recipient = Some ru"
    and inner: "transfer_service env \<lparr>cmd_sender_user = u, cmd_recipient_name = username_of d recipient,
      cmd_amount = amount, cmd_key = key,
      cmd_request_payload = Some (canonical_room_payload room amount)\<rparr> d = Inr (res, d1)"
    and fresh: "res_status res = 201" "\<not> res_replayed res" and keys: "\<forall>n. attempt_transfer (env n) < 2 ^ 128"
  shows "\<exists>d2 t. transfer_for_product_room env tnow u room amount key d = Inr (res, d2) \<and>
    body_transfer_uuid (res_body res) = Inr t \<and>
    has_notification d2 u (lit ''transfer.sender:'' @ uuid_str t) \<and>
    has_notification d2 recipient (lit ''transfer.recipient:'' @ uuid_str t)"
proof -
  let ?c = "\<lparr>cmd_sender_user = u, cmd_recipient_name = username_of d recipient, cmd_amount = amount,
      cmd_key = key, cmd_request_payload = Some (canonical_room_payload room amount)\<rparr>"
  obtain n where e: "execute_once (env n) ?c d = Inr (res, d1)"
    by (rule transfer_service_one [OF inner])
  obtain t where t: "body_transfer_uuid (res_body res) = Inr t"
    and active: "active_recipient d1 u" "active_recipient d1 recipient"
    using e
  proof (cases rule: execute_once_elim)
    case replayed
    with fresh(2) show ?thesis by simp
  next
    case denied
    with store_denial_inv [OF inv denied(3)] fresh(1) show ?thesis by simp
  next
    case (completed s' sa' i w r ra)
    have "tfirst (\<lambda>_ q. Some (user_username q) = Some (user_username ru)) (users d) = Some (recipient, ru)"
      by (rule tfirst_unique_on [OF users known]) simp
    with completed(3) known have i: "i = recipient" by (simp add: username_of_def)
    have user: "account_user_id sa' = u" "account_user_id ra = recipient"
      using completed(1,5) i by (simp_all add: account_of_iff [OF inv])
    have res: "res = settled_result (env n) ?c sa'" "users d1 = users d"
      by (rule completed_transfer [OF inv completed(1,5,4,6,7)]; simp add: ledger_simps)+
    have "active_recipient d u" "active_recipient d recipient"
      using completed(6) user by (auto simp: settlement_denied_def intro: active_user_recipient)
    then have "active_recipient d1 u" "active_recipient d1 recipient"
      by (simp_all add: active_recipient_users [OF res(2)])
    moreover have "body_transfer_uuid (res_body res) = Inr (attempt_transfer (env n))"
      using keys by (simp add: res(1) settled_result_def body_transfer_uuid_def uuid_parse_str)
    ultimately show ?thesis by (intro that)
  qed
  obtain x d2 where sent_notes: "create_transfer_notifications tnow u recipient t amount d1 = Inr (x, d2)"
    "has_notification d2 u (lit ''transfer.sender:'' @ uuid_str t)"
    "has_notification d2 recipient (lit ''transfer.recipient:'' @ uuid_str t)"
    by (rule transfer_notifications_active [OF active]) (rule that)
  have rcp: "(if u = conversation_seller_id (snd v) then conversation_buyer_id (snd v)
      else conversation_seller_id (snd v)) = recipient"
    using party by auto
  obtain i w where v: "v = (i, w)" by force
  have member: "\<not> (u \<noteq> conversation_seller_id w \<and> u \<noteq> conversation_buyer_id w)"
    using party by (auto simp: v)
  have "transfer_for_product_room env tnow u room amount key d = Inr (res, d2)"
    unfolding transfer_for_product_room_def acc new conv(1) conv(2) Let_def option.case prod.case v
      rcp [unfolded v snd_conv] inner sum.case
    using member fresh t sent_notes(1) by auto
  with t sent_notes show ?thesis by blast
qed


definition sample_room_db :: db where
  "sample_room_db = two_accounts\<lparr>
     rooms := \<lparr>rows = [(5, \<lparr>room_kind = PRODUCT_ROOM, room_direct_user_low = None, room_direct_user_high = None\<rparr>)], next_pk = 6\<rparr>,
     product_conversations := \<lparr>rows = [(1, \<lparr>conversation_room_id = 5, conversation_product_id = 1,
       conversation_seller_id = 2, conversation_buyer_id = 1\<rparr>)], next_pk = 2\<rparr>\<rparr>"

lemma sample_room_inv: "ledger_inv sample_room_db"
  by (rule same_ledger_inv [OF _ two_accounts_inv]) (simp add: same_ledger_def sample_room_db_def)

lemma sample_room_tables:
  "mock_accounts sample_room_db = mock_accounts two_accounts"
  "ledger_journals sample_room_db = ledger_journals two_accounts"
  "transfers sample_room_db = transfers two_accounts"
  "transfer_requests sample_room_db = transfer_requests two_accounts"
  "users sample_room_db = users two_accounts" "users two_accounts = users two_users"
  "account_of sample_room_db = account_of two_accounts"
  "previous_request sample_room_db = previous_request two_accounts"
  "transfer_safety sample_room_db = transfer_safety two_accounts"
  "is_active_user now sample_room_db = is_active_user now two_accounts"
  by (simp_all add: sample_room_db_def account_of_def previous_request_def is_active_user_def fun_eq_iff
      two_accounts_eq)

abbreviation room_sample :: transfer_command where
  "room_sample \<equiv> \<lparr>cmd_sender_user = 1, cmd_recipient_name = username_of sample_room_db 2, cmd_amount = 100,
     cmd_key = 9, cmd_request_payload = Some (canonical_room_payload 5 100)\<rparr>"

lemma username_of_sample: "username_of sample_room_db 2 = lit ''bert''"
  by (simp add: username_of_def sample_room_tables two_users_def tget_def sample_user_def)

lemma sample_room_transfer: "\<exists>d'. transfer_service (\<lambda>_. sample_attempt) room_sample sample_room_db =
    Inr (settled_result sample_attempt room_sample (seed_account 1), d')"
proof -
  have e: "execute_once sample_attempt room_sample sample_room_db =
      post_transfer sample_attempt room_sample 1 (seed_account 1) 2 (seed_account 2) sample_room_db"
    by (simp add: execute_once_def two_accounts_lookups sample_room_tables(5,7-10) username_of_sample open_safety_def
        settlement_denied_def seed_account_def SEED_AMOUNT_def MAX_BALANCE_def del: One_nat_def)
  have r: "transfer_service (\<lambda>_. sample_attempt) room_sample sample_room_db =
      execute_once sample_attempt room_sample sample_room_db"
    using retry_loop_outcome [of 0 "\<lambda>_. sample_attempt" room_sample sample_room_db] by (simp add: sample_attempt_def)
  have fresh: "tget (ledger_journals sample_room_db) (attempt_journal sample_attempt) = None"
    "tget (transfers sample_room_db) (attempt_transfer sample_attempt) = None"
    "\<not> texists (\<lambda>_ t. transfer_journal_id t = attempt_journal sample_attempt) (transfers sample_room_db)"
    "\<not> texists (\<lambda>_ q. request_transfer_id q = Some (attempt_transfer sample_attempt)) (transfer_requests sample_room_db)"
    by (simp_all add: sample_room_tables two_accounts_lookups sample_attempt_def tget_def texists_def empty_table_def)
  have acc: "tget (mock_accounts sample_room_db) 1 = Some (seed_account 1)"
    "tget (mock_accounts sample_room_db) 2 = Some (seed_account 2)"
    by (simp_all add: sample_room_tables(1) two_accounts_lookups del: One_nat_def)
  show ?thesis unfolding r e
    by (rule post_transfer_closed [OF sample_room_inv acc, of room_sample sample_attempt])
       (simp_all add: fresh sample_room_tables(8) two_accounts_lookups(3),
        simp_all add: seed_account_def SEED_AMOUNT_def MAX_BALANCE_def)
qed

theorem settled_room_transfer_notifies_witness:
  "\<exists>res d2 t. transfer_for_product_room (\<lambda>_. sample_attempt) 1000 1 5 100 9 sample_room_db = Inr (res, d2) \<and>
    has_notification d2 1 (lit ''transfer.sender:'' @ uuid_str t) \<and>
    has_notification d2 2 (lit ''transfer.recipient:'' @ uuid_str t)"
proof -
  from sample_room_transfer obtain d1 where d1: "transfer_service (\<lambda>_. sample_attempt) room_sample sample_room_db =
    Inr (settled_result sample_attempt room_sample (seed_account 1), d1)" by blast
  have "wf_table (users sample_room_db)" "unique_on (\<lambda>u. Some (user_username u)) (users sample_room_db)"
    by (simp_all add: sample_room_tables two_users_def wf_table_def unique_on_def sample_user_def lit_def
        List.map_filter_def)
  moreover have "account_of sample_room_db 1 = Some (1, seed_account 1)" "previous_request sample_room_db 1 9 = None"
    by (simp_all add: sample_room_tables two_accounts_lookups del: One_nat_def)
  moreover have "conversation_of_room sample_room_db 5 = Some (1, \<lparr>conversation_room_id = 5,
      conversation_product_id = 1, conversation_seller_id = 2, conversation_buyer_id = 1\<rparr>)"
    "map_option room_kind (tget (rooms sample_room_db) 5) = Some PRODUCT_ROOM"
    by (simp_all add: sample_room_db_def conversation_of_room_def tfirst_def tget_def)
  moreover have "tget (users sample_room_db) 2 = Some (sample_user ''bert'')"
    by (simp add: sample_room_tables two_users_def tget_def)
  moreover have "\<forall>n :: nat. attempt_transfer sample_attempt < 2 ^ 128" by (simp add: sample_attempt_def)
  ultimately show ?thesis
    using settled_room_transfer_notifies [OF sample_room_inv, of 1 1 "seed_account 1" 9 5
        "(1, \<lparr>conversation_room_id = 5, conversation_product_id = 1, conversation_seller_id = 2, conversation_buyer_id = 1\<rparr>)"
        2 "sample_user ''bert''" "\<lambda>_. sample_attempt" 100 _ d1 1000] d1
    by (force simp: settled_result_def)
qed


section \<open>Answers, closed accounts and the operator command\<close>

definition keys_fresh :: "attempt \<Rightarrow> db \<Rightarrow> bool" where
  "keys_fresh att d \<longleftrightarrow>
     tget (ledger_journals d) (attempt_journal att) = None \<and>
     tget (transfers d) (attempt_transfer att) = None \<and>
     \<not> texists (\<lambda>_ t. transfer_journal_id t = attempt_journal att) (transfers d) \<and>
     \<not> texists (\<lambda>_ q. request_transfer_id q = Some (attempt_transfer att)) (transfer_requests d)"

definition may_settle :: "instant \<Rightarrow> transfer_command \<Rightarrow> db \<Rightarrow> bool" where
  "may_settle now c d \<longleftrightarrow>
     (case (account_of d (cmd_sender_user c), tfirst (\<lambda>_ u. user_username u = cmd_recipient_name c) (users d)) of
        (Some (_, sa), Some (ru, _)) \<Rightarrow> ru \<noteq> cmd_sender_user c \<and>
          (case account_of d ru of None \<Rightarrow> False
           | Some (_, ra) \<Rightarrow> \<not> settlement_denied now d sa ra (int (cmd_amount c)))
      | _ \<Rightarrow> False)"

lemma store_denial_ok:
  assumes "previous_request d s key = None"
  shows "\<exists>d'. store_denial s key p d = Inr (\<lparr>res_status = 422, res_body = Error_Body ''TRANSFER_NOT_ALLOWED'', res_replayed = False\<rparr>, d')"
  using assms by (simp add: store_denial_def create_request_def)



definition closed_kept :: "db \<Rightarrow> db \<Rightarrow> bool" where
  "closed_kept d d' \<longleftrightarrow>
     (\<forall>k a. tget (mock_accounts d) k = Some a \<and> \<not> account_is_open a \<longrightarrow> tget (mock_accounts d') k = Some a)"

lemma closed_kept_same: "mock_accounts d' = mock_accounts d \<Longrightarrow> closed_kept d d'"
  by (simp add: closed_kept_def)

lemma closed_kept_trans: "closed_kept a b \<Longrightarrow> closed_kept b c \<Longrightarrow> closed_kept a c"
  unfolding closed_kept_def by blast

lemma execute_once_closed:
  assumes inv: "ledger_inv d" and e: "execute_once att c d = Inr (res, d')"
  shows "closed_kept d d'"
  using e
proof (cases rule: execute_once_elim)
  case denied
  with inv show ?thesis by (blast dest: store_denial_inv intro: closed_kept_same)
next
  case (completed s sa ru u r ra)
  from completed(6) have o: "account_is_open sa" "account_is_open ra" by (simp_all add: settlement_denied_def)
  from completed(1,5) have a: "tget (mock_accounts d) s = Some sa" "tget (mock_accounts d) r = Some ra"
    by (simp_all add: account_of_iff [OF inv])
  obtain ls lr where "d' = settled att c s sa r ra ls lr d"
    by (rule completed_transfer [OF inv completed(1,5,4,6,7)]) (rule that)
  with o a show ?thesis by (auto simp: closed_kept_def ledger_simps tget_move_balances)
qed (simp add: closed_kept_same)

lemma ensure_account_closed:
  assumes inv: "ledger_inv d" and e: "ensure_account jid u d = Inr (k, d')"
  shows "closed_kept d d'"
  by (cases rule: ensure_account_elim [OF inv e])
     (auto simp: closed_kept_def tbl.create_keeps ledger_inv_wf [OF inv])

lemma close_account_closed:
  assumes inv: "ledger_inv d" and e: "close_account jid now u d = Inr (b, d')"
  shows "closed_kept d d'"
proof (rule close_account_elim [OF inv e])
  fix d1 d2 k a
  assume g: "get_or_create_safety d = (open_safety, d1) \<or>
      (\<exists>s. transfer_safety d = Some s \<and> safety_state s = OPEN \<and> d1 = d)"
    and en: "ensure_account jid u d1 = Inr (k, d2)" and a: "tget (mock_accounts d2) k = Some a"
    and r: "\<not> b \<and> \<not> account_is_open a \<and> d' = d2 \<or>
     b \<and> account_is_open a \<and> account_balance a = 0 \<and>
     d' = audit_transfer u ACCOUNT_CLOSED None (d2\<lparr>mock_accounts := tmodify k
            (\<lambda>a. a\<lparr>account_is_open := False, account_closed_at := Some now\<rparr>) (mock_accounts d2)\<rparr>)"
  have "ledger_inv d1 \<and> mock_accounts d1 = mock_accounts d"
    using g get_or_create_safety_inv [OF inv] inv by auto
  then have "closed_kept d d2"
    using ensure_account_closed [OF _ en] by (auto intro: closed_kept_trans closed_kept_same)
  moreover have "closed_kept d2 d'"
    using r a by (auto simp: closed_kept_def ledger_simps tget_tmodify)
  ultimately show ?thesis by (rule closed_kept_trans)
qed

lemma apply_ledger_closed:
  assumes inv: "ledger_inv d"
  shows "closed_kept d (apply_ledger call d)"
proof (cases call)
  case (Ensure jid u)
  show ?thesis unfolding Ensure apply_ledger.simps
    by (rule atomic_preserves) (auto intro: ensure_account_closed [OF inv] closed_kept_same)
next
  case (Send env c)
  show ?thesis unfolding Send apply_ledger.simps
    by (rule atomic_preserves) (auto elim!: transfer_service_one intro: execute_once_closed [OF inv] closed_kept_same)
next
  case (Send_In_Room e c)
  have "closed_kept d d'" if "send_in_room e c d = Inr (res, d')" for res d'
    using that unfolding send_in_room_def
  proof (cases rule: room_transfer_elim)
    case denied
    with inv show ?thesis by (blast dest: store_denial_inv intro: closed_kept_same)
  next
    case (sent s sa v recipient d1 ns)
    from transfer_service_one [OF sent(5)] have "closed_kept d d1" by (metis execute_once_closed [OF inv])
    moreover have "closed_kept d1 d'" by (rule closed_kept_same) (simp add: sent(6))
    ultimately show ?thesis by (rule closed_kept_trans)
  qed (simp add: closed_kept_same)
  then show ?thesis unfolding Send_In_Room apply_ledger.simps
    by (rule atomic_preserves) (auto intro: closed_kept_same)
next
  case (Close jid now u)
  show ?thesis unfolding Close apply_ledger.simps
    by (rule atomic_preserves) (auto intro: close_account_closed [OF inv] closed_kept_same)
next
  case (Reconcile_Command c)
  then show ?thesis by (simp add: closed_kept_same reconcile_accounts)
qed

text \<open>
  A closed account is never written again: in every continuation of a run it keeps its
  row (closed, at balance zero, with its closing time).
\<close>

theorem closed_account_frozen:
  assumes "ledger.run empty_db before d" "ledger.run d after d'"
    and "tget (mock_accounts d) k = Some a" "\<not> account_is_open a"
  shows "tget (mock_accounts d') k = Some a"
proof -
  have "ledger_inv d \<and> seeded d" by (rule ledger_run_from_empty [OF assms(1)])
  have step: "closed_kept s s'" if "ledger_step s l s'" "ledger_inv s \<and> seeded s" for s l s'
    using that by (auto elim!: ledger_stepE intro: apply_ledger_closed closed_kept_same simp: same_ledger_def)
  have "closed_kept d d'"
    by (rule ledger.run_monotone [OF step _ _ assms(2)])
       (use \<open>ledger_inv d \<and> seeded d\<close> in \<open>auto intro: closed_kept_same closed_kept_trans\<close>)
  with assms(3,4) show ?thesis unfolding closed_kept_def by blast
qed


abbreviation everything :: transfer_command where
  "everything \<equiv> sample_command\<lparr>cmd_amount := 10000000\<rparr>"

lemma everything_sent:
  "\<exists>ls lr. transfer_service (\<lambda>_. sample_attempt) everything two_accounts =
    Inr (settled_result sample_attempt everything (seed_account 1),
         settled sample_attempt everything 1 (seed_account 1) 2 (seed_account 2) ls lr two_accounts)"
proof -
  have e: "execute_once sample_attempt everything two_accounts =
      post_transfer sample_attempt everything 1 (seed_account 1) 2 (seed_account 2) two_accounts"
    by (simp add: execute_once_def two_accounts_lookups sample_command_def open_safety_def
        settlement_denied_def seed_account_def SEED_AMOUNT_def MAX_BALANCE_def del: One_nat_def)
  have r: "transfer_service (\<lambda>_. sample_attempt) everything two_accounts =
      execute_once sample_attempt everything two_accounts"
    using retry_loop_outcome [of 0 "\<lambda>_. sample_attempt" everything two_accounts] by (simp add: sample_attempt_def)
  have fresh: "tget (ledger_journals two_accounts) (attempt_journal sample_attempt) = None"
    "tget (transfers two_accounts) (attempt_transfer sample_attempt) = None"
    "\<not> texists (\<lambda>_ t. transfer_journal_id t = attempt_journal sample_attempt) (transfers two_accounts)"
    "\<not> texists (\<lambda>_ q. request_transfer_id q = Some (attempt_transfer sample_attempt)) (transfer_requests two_accounts)"
    by (simp_all add: two_accounts_lookups sample_attempt_def tget_def texists_def empty_table_def)
  show ?thesis unfolding r e
    by (rule post_transfer_closed [OF two_accounts_inv two_accounts_lookups(8,9), of everything sample_attempt])
       (simp_all add: fresh two_accounts_lookups(3),
        simp_all add: sample_command_def seed_account_def SEED_AMOUNT_def MAX_BALANCE_def, blast)
qed

definition emptied :: db where
  "emptied = apply_ledger (Send (\<lambda>_. sample_attempt) everything) two_accounts"

lemma emptied_run: "ledger.run empty_db [None, Some (Ensure 11 1), Some (Ensure 12 2),
    Some (Send (\<lambda>_. sample_attempt) everything), Some (Close 31 99 1)] (apply_ledger (Close 31 99 1) emptied)"
  unfolding emptied_def
  using ledger.run_append [OF two_accounts_run
      ledger.run_cons [OF ledger_call ledger.run_cons [OF ledger_call ledger.run_nil]]]
  by (simp del: apply_ledger.simps)

lemma emptied_closed:
  "tget (mock_accounts (apply_ledger (Close 31 99 1) emptied)) 1 =
    Some \<lparr>account_user_id = 1, account_balance = 0, account_is_open = False, account_closed_at = Some 99\<rparr>"
proof -
  from everything_sent obtain ls lr where
    e: "emptied = settled sample_attempt everything 1 (seed_account 1) 2 (seed_account 2) ls lr two_accounts"
    by (auto simp: emptied_def atomic_def)
  have inv: "ledger_inv emptied"
    unfolding emptied_def by (rule apply_ledger_inv [OF two_accounts_inv])
  let ?a = "\<lparr>account_user_id = 1, account_balance = 0, account_is_open = True, account_closed_at = None\<rparr>"
  have g: "tget (mock_accounts emptied) 1 = Some ?a"
    unfolding e by (simp add: settled_fields tget_move_balances two_accounts_lookups seed_account_def
        SEED_AMOUNT_def sample_command_def del: One_nat_def)
  have a: "account_of emptied 1 = Some (1, ?a)"
    unfolding account_of_iff [OF inv] using g by simp
  have "transfer_safety emptied = Some open_safety"
    unfolding e by (simp add: settled_fields two_accounts_lookups)
  then show ?thesis
    using g a by (simp add: close_account_def get_or_create_safety_def open_safety_def ensure_account_def
        atomic_def ledger_simps tget_tmodify del: One_nat_def)
qed

theorem closed_account_frozen_witness:
  "tget (mock_accounts (apply_ledger (Ensure 41 1) (apply_ledger (Close 31 99 1) emptied))) 1 =
    Some \<lparr>account_user_id = 1, account_balance = 0, account_is_open = False, account_closed_at = Some 99\<rparr>"
  by (rule closed_account_frozen [OF emptied_run ledger.run_cons [OF ledger_call ledger.run_nil] emptied_closed])
     simp

text \<open>
  C9: the block of a mismatch never reaches the database. The command saves \<open>BLOCKED\<close> with a
  new incident and then raises \<open>CommandError\<close> inside its own transaction, so a ledger with
  mismatches stays open for transfers.
\<close>

theorem reconcile_block_is_rolled_back:
  assumes "transfer_safety d = Some s" "safety_state s = OPEN"
    and "ledger_mismatches d = Inr (m # ms)" "call_resume c = None"
  shows "map_option safety_state (transfer_safety (snd (handle_body c d))) = Some BLOCKED \<and>
    reconcile c d = (Inl CommandError, d)"
  using assms by (simp add: reconcile_def handle_body_def get_or_create_safety_def)

definition cooked_books :: db where
  "cooked_books = two_accounts\<lparr>mock_accounts :=
     tmodify 1 (\<lambda>a. a\<lparr>account_balance := 7\<rparr>) (mock_accounts two_accounts)\<rparr>"

definition sample_reconcile :: reconcile_call where
  "sample_reconcile = \<lparr>call_resume = None, call_postgres = True, call_current_role = lit ''ledger_maintainer'',
     call_expected_role = lit ''ledger_maintainer'', call_incident = 5, call_now = 3\<rparr>"

theorem reconcile_block_is_rolled_back_witness:
  "ledger_mismatches cooked_books = Inr [lit ''account:1''] \<and>
   reconcile sample_reconcile cooked_books = (Inl CommandError, cooked_books)"
proof -
  have m: "ledger_mismatches cooked_books = Inr [lit ''account:1'']"
    unfolding cooked_books_def two_accounts_eq
    by (simp add: ledger_mismatches_def ledger_of_def tfirst_def ledger_total_def tsum_def journal_count_def
        journal_total_def tcount_def tselect_def reserve_row_def user_ledger_row_def seed_account_def
        tmodify_def tupdate_def SEED_AMOUNT_def lit_def dec.simps [of "Suc 0"])
  have "transfer_safety cooked_books = Some open_safety"
    by (simp add: cooked_books_def two_accounts_lookups)
  from reconcile_block_is_rolled_back [OF this _ m, of sample_reconcile] m show ?thesis
    by (simp add: open_safety_def sample_reconcile_def)
qed

text \<open>
  C11: only the right incident opens transfers again: the command prints \<open>OPEN\<close> for a resume
  exactly on a blocked state with that incident, under the maintainer role, on a ledger
  without mismatches, and then changes nothing but the safety row.
\<close>

theorem resume_needs_incident:
  assumes "reconcile c d = (Inr Printed_Open, d')"
  shows "\<exists>s raw incident. transfer_safety d = Some s \<and> safety_state s = BLOCKED \<and>
    safety_incident_id s = Some incident \<and> call_resume c = Some raw \<and> py_uuid raw = Inr incident \<and>
    (call_postgres c \<longrightarrow> call_current_role c = call_expected_role c) \<and>
    ledger_mismatches d = Inr [] \<and> d' = d\<lparr>transfer_safety := Some open_safety\<rparr>"
proof -
  obtain s d1 where g: "get_or_create_safety d = (s, d1)" by force
  from assms have h: "handle_body c d = (Inr Printed_Open, d')"
    by (auto simp: reconcile_def split: prod.splits sum.splits)
  then obtain ms where ms: "ledger_mismatches d1 = Inr ms"
    by (auto simp: handle_body_def g split: sum.splits)
  from h ms obtain r raw where raw: "call_resume c = Some (r # raw)"
    by (auto simp: handle_body_def g split: option.splits list.splits if_splits)
  from h ms raw have "resume_transfers c (r # raw) ms s d1 = Inr (Printed_Open, d')"
    by (auto simp: handle_body_def g split: sum.splits)
  then obtain i where i: "py_uuid (r # raw) = Inr i" "call_postgres c \<longrightarrow> call_current_role c = call_expected_role c"
    "safety_state s = BLOCKED" "safety_incident_id s = Some i" "ms = []" and
    d': "d' = d1\<lparr>transfer_safety := Some (s\<lparr>safety_state := OPEN, safety_incident_id := None, safety_blocked_at := None\<rparr>)\<rparr>"
    by (auto simp: resume_transfers_def split: sum.splits if_splits)
  have "transfer_safety d = Some s \<and> d1 = d"
    using g i(3) by (auto simp: get_or_create_safety_def open_safety_def split: option.splits)
  with i d' ms raw show ?thesis by (auto simp: open_safety_def)
qed

definition blocked_books :: db where
  "blocked_books = two_accounts\<lparr>transfer_safety := Some
     \<lparr>safety_state = BLOCKED, safety_incident_id = Some 5, safety_blocked_at = Some 3\<rparr>\<rparr>"

theorem resume_needs_incident_witness:
  "\<exists>d'. reconcile (sample_reconcile\<lparr>call_resume := Some (uuid_str 5)\<rparr>) blocked_books = (Inr Printed_Open, d') \<and>
    d' = blocked_books\<lparr>transfer_safety := Some open_safety\<rparr>"
proof -
  have "ledger_inv blocked_books"
    unfolding blocked_books_def by (rule ledger_inv_safety [OF two_accounts_inv])
  then have m: "ledger_mismatches blocked_books = Inr []" by (rule inv_no_mismatch)
  have u: "uuid_str 5 = 48 # replicate 7 48 @ 45 # replicate 4 48 @ 45 # replicate 4 48 @ 45 # replicate 4 48 @ 45 # replicate 11 48 @ [53]"
    by code_simp
  have p: "py_uuid (uuid_str 5) = Inr 5" unfolding u by code_simp
  obtain d' where "reconcile (sample_reconcile\<lparr>call_resume := Some (uuid_str 5)\<rparr>) blocked_books = (Inr Printed_Open, d')"
    using m p by (simp add: reconcile_def handle_body_def resume_transfers_def get_or_create_safety_def
        blocked_books_def sample_reconcile_def u)
  with resume_needs_incident [OF this] show ?thesis by blast
qed

text \<open>
  The stored payload identifies the command: direct payloads are equal only for equal
  recipient and amount, room payloads only for equal room and amount, and no direct payload
  is a room payload.
\<close>

theorem canonical_payloads_identify:
  "(canonical_payload r a = canonical_payload r' a' \<longleftrightarrow> r = r' \<and> a = a') \<and>
   (canonical_room_payload n b = canonical_room_payload n' b' \<longleftrightarrow> n = n' \<and> b = b') \<and>
   canonical_payload r a \<noteq> canonical_room_payload n b"
  using canonical_payload_same canonical_room_payload_same canonical_payloads_disjoint by blast

end
