(* ===== verification/Bank.thy ===== *)
theory Bank imports Ledger_Properties begin

text \<open>
  What the transfer service promises, without journals, ledger accounts, requests or retries: a bank
  that maps a user to a balance and an open flag and knows three moves. Every run of the service,
  interleaved with anything that leaves its tables alone, is a run of this bank.
\<close>

section \<open>The abstract bank\<close>

type_synonym bank = "nat \<Rightarrow> (int \<times> bool) option"

inductive bank_step :: "bank \<Rightarrow> bank \<Rightarrow> bool" where
  bank_open: "b u = None \<Longrightarrow> bank_step b (b(u \<mapsto> (SEED_AMOUNT, True)))"
| bank_send: "b s = Some (x, True) \<Longrightarrow> b r = Some (y, True) \<Longrightarrow> s \<noteq> r \<Longrightarrow> 0 \<le> a \<Longrightarrow> a \<le> x \<Longrightarrow> y + a \<le> MAX_BALANCE \<Longrightarrow>
     bank_step b (b(s \<mapsto> (x - a, True), r \<mapsto> (y + a, True)))"
| bank_close: "b u = Some (0, True) \<Longrightarrow> bank_step b (b(u \<mapsto> (0, False)))"

definition bank_of :: "db \<Rightarrow> bank" where
  "bank_of d u = map_option (\<lambda>(_, a). (account_balance a, account_is_open a)) (account_of d u)"

section \<open>The simulation\<close>

lemma bank_of_same: "mock_accounts d' = mock_accounts d \<Longrightarrow> bank_of d' = bank_of d"
  by (simp add: bank_of_def account_of_def fun_eq_iff)

lemma bank_of_row:
  assumes "ledger_inv d" "tget (mock_accounts d) k = Some a"
  shows "bank_of d (account_user_id a) = Some (account_balance a, account_is_open a)"
  using account_of_iff [OF assms(1), of "account_user_id a" k a] assms(2) by (simp add: bank_of_def)

text \<open>A bank that agrees with every row and has no further customer is the bank of the database.\<close>

lemma bank_of_eq:
  assumes inv: "ledger_inv d" and rows: "\<And>k a. tget (mock_accounts d) k = Some a \<Longrightarrow>
      b (account_user_id a) = Some (account_balance a, account_is_open a)"
    and users: "\<And>u. b u \<noteq> None \<Longrightarrow> \<exists>k a. tget (mock_accounts d) k = Some a \<and> account_user_id a = u"
  shows "bank_of d = b"
proof
  fix u
  show "bank_of d u = b u"
  proof (cases "account_of d u")
    case None
    have "b u = None"
    proof (rule ccontr)
      assume "b u \<noteq> None"
      from users [OF this] obtain k a where "tget (mock_accounts d) k = Some a" "account_user_id a = u" by blast
      with account_of_iff [OF inv, of u k a] None show False by simp
    qed
    with None show ?thesis by (simp add: bank_of_def)
  next
    case (Some p)
    obtain k a where p: "p = (k, a)" by force
    with Some account_of_iff [OF inv, of u k a] rows [of k a] show ?thesis by (simp add: bank_of_def)
  qed
qed

lemma execute_once_bank:
  assumes inv: "ledger_inv d" and e: "execute_once att c d = Inr (res, d')"
  shows "bank_of d' = bank_of d \<or> bank_step (bank_of d) (bank_of d')"
  using e
proof (cases rule: execute_once_elim)
  case replayed
  then show ?thesis by simp
next
  case (denied s sa)
  with store_denial_inv [OF inv denied(3)] show ?thesis by (auto intro: bank_of_same)
next
  case (completed s sa ru u r ra)
  let ?u = "cmd_sender_user c" and ?x = "int (cmd_amount c)"
  from completed_transfer [OF inv completed(1,5,4,6,7)] obtain ls lr where
    c: "s \<noteq> r" "?x \<le> account_balance sa" "account_balance ra + ?x \<le> MAX_BALANCE"
      "d' = settled att c s sa r ra ls lr d" by blast
  from completed(6) have op: "account_is_open sa" "account_is_open ra" by (simp_all add: settlement_denied_def)
  from completed(1,5) have g: "tget (mock_accounts d) s = Some sa" "account_user_id sa = ?u"
    "tget (mock_accounts d) r = Some ra" "account_user_id ra = ru"
    by (simp_all add: account_of_iff [OF inv])
  have b: "bank_of d ?u = Some (account_balance sa, True)" "bank_of d ru = Some (account_balance ra, True)"
    using bank_of_row [OF inv g(1)] bank_of_row [OF inv g(3)] g(2,4) op by simp_all
  let ?b = "(bank_of d)(?u \<mapsto> (account_balance sa - ?x, True), ru \<mapsto> (account_balance ra + ?x, True))"
  have look: "tget (mock_accounts d') k =
     (if k = r then Some (ra\<lparr>account_balance := account_balance ra + ?x\<rparr>)
      else if k = s then Some (sa\<lparr>account_balance := account_balance sa - ?x\<rparr>) else tget (mock_accounts d) k)" for k
    using g c(1) by (simp add: c(4) ledger_simps tget_move_balances)
  have "bank_of d' = ?b"
  proof (rule bank_of_eq)
    show "ledger_inv d'" by (rule execute_once_inv [OF inv e])
  next
    fix k a assume k: "tget (mock_accounts d') k = Some a"
    consider "k = r" | "k = s" "k \<noteq> r" | "k \<noteq> r" "k \<noteq> s" by blast
    then show "?b (account_user_id a) = Some (account_balance a, account_is_open a)"
    proof cases
      case 3
      with k look have ka: "tget (mock_accounts d) k = Some a" by simp
      have "account_user_id a \<noteq> ?u \<and> account_user_id a \<noteq> ru"
        using ka 3 g account_of_iff [OF inv] by (metis option.inject prod.inject)
      with bank_of_row [OF inv ka] show ?thesis by simp
    qed (use k look g op completed(4) in auto)
  next
    fix v assume v: "?b v \<noteq> None"
    consider "v = ?u" | "v = ru" | "v \<noteq> ?u" "v \<noteq> ru" by blast
    then show "\<exists>k a. tget (mock_accounts d') k = Some a \<and> account_user_id a = v"
    proof cases
      case 1
      with look [of s] c(1) g(2) show ?thesis by (intro exI [of _ s]) simp
    next
      case 2
      with look [of r] g(4) show ?thesis by (intro exI [of _ r]) simp
    next
      case 3
      with v obtain k a where ka: "account_of d v = Some (k, a)" by (auto simp: bank_of_def)
      with 3 account_of_iff [OF inv, of v k a] g look [of k] show ?thesis by (intro exI [of _ k] exI [of _ a]) auto
    qed
  qed
  moreover have "bank_step (bank_of d) ?b"
    by (rule bank_send [OF b]) (use completed(4) c in auto)
  ultimately show ?thesis by simp
qed

lemma ensure_account_bank:
  assumes inv: "ledger_inv d" and e: "ensure_account jid u d = Inr (k, d')"
  shows "bank_of d' = bank_of d \<or> bank_step (bank_of d) (bank_of d')"
  using e
proof (cases rule: ensure_account_elim [OF inv e])
  case (1 a)
  then show ?thesis by simp
next
  case 2
  from ledger_inv_wf(1) [OF inv] have look: "tget (mock_accounts d') i =
      (if i = k then Some (seed_account u) else tget (mock_accounts d) i)" for i
    by (simp add: 2 tbl_simps)
  have none: "bank_of d u = None" using 2(1) by (simp add: bank_of_def)
  have "bank_of d' = (bank_of d)(u \<mapsto> (SEED_AMOUNT, True))"
  proof (rule bank_of_eq [OF 2(3)])
    fix i a assume i: "tget (mock_accounts d') i = Some a"
    show "((bank_of d)(u \<mapsto> (SEED_AMOUNT, True))) (account_user_id a) = Some (account_balance a, account_is_open a)"
    proof (cases "i = k")
      case True
      with i look [of k] have "a = seed_account u" by simp
      then show ?thesis by (simp only: seed_account_def mock_account.simps fun_upd_same)
    next
      case False
      with i look have "tget (mock_accounts d) i = Some a" by simp
      from bank_of_row [OF inv this] none show ?thesis by auto
    qed
  next
    fix v assume v: "((bank_of d)(u \<mapsto> (SEED_AMOUNT, True))) v \<noteq> None"
    show "\<exists>i a. tget (mock_accounts d') i = Some a \<and> account_user_id a = v"
    proof (cases "v = u")
      case True
      with look [of k] show ?thesis by (intro exI [of _ k]) (simp add: seed_account_def)
    next
      case False
      with v obtain i a where ia: "account_of d v = Some (i, a)" by (auto simp: bank_of_def)
      then have "tget (mock_accounts d) i = Some a" "account_user_id a = v" by (simp_all add: account_of_iff [OF inv])
      moreover have "i \<noteq> k" using calculation ledger_inv_wf(1) [OF inv] 2(2) by (auto simp: tbl_simps)
      ultimately show ?thesis using look [of i] by auto
    qed
  qed
  with bank_open [of "bank_of d" u] none show ?thesis by simp
qed

lemma close_account_bank:
  assumes inv: "ledger_inv d" and e: "close_account jid now u d = Inr (closed, d')"
  shows "bank_step\<^sup>*\<^sup>* (bank_of d) (bank_of d')"
proof (rule close_account_elim [OF inv e])
  fix d1 d2 k a
  assume g: "get_or_create_safety d = (open_safety, d1) \<or>
      (\<exists>s. transfer_safety d = Some s \<and> safety_state s = OPEN \<and> d1 = d)"
    and en: "ensure_account jid u d1 = Inr (k, d2)" and inv2: "ledger_inv d2"
    and a: "tget (mock_accounts d2) k = Some a" "account_user_id a = u"
    and r: "\<not> closed \<and> \<not> account_is_open a \<and> d' = d2 \<or>
     closed \<and> account_is_open a \<and> account_balance a = 0 \<and>
     d' = audit_transfer u ACCOUNT_CLOSED None (d2\<lparr>mock_accounts := tmodify k
            (\<lambda>a. a\<lparr>account_is_open := False, account_closed_at := Some now\<rparr>) (mock_accounts d2)\<rparr>)"
  have d1: "ledger_inv d1" "mock_accounts d1 = mock_accounts d"
    using g get_or_create_safety_inv [OF inv] inv by auto
  have "bank_step\<^sup>*\<^sup>* (bank_of d) (bank_of d2)"
    using ensure_account_bank [OF d1(1) en] bank_of_same [OF d1(2)] by auto
  moreover have "bank_of d' = bank_of d2 \<or> bank_step (bank_of d2) (bank_of d')"
  proof (cases closed)
    case False
    with r show ?thesis by simp
  next
    case True
    with r have op: "account_is_open a" "account_balance a = 0"
      and look: "tget (mock_accounts d') i = (if i = k then
        Some (a\<lparr>account_is_open := False, account_closed_at := Some now\<rparr>) else tget (mock_accounts d2) i)" for i
      using a by (auto simp: ledger_simps tget_tmodify)
    have "bank_of d' = (bank_of d2)(u \<mapsto> (0, False))"
    proof (rule bank_of_eq [OF close_account_inv [OF inv e]])
      fix i b assume i: "tget (mock_accounts d') i = Some b"
      show "((bank_of d2)(u \<mapsto> (0, False))) (account_user_id b) = Some (account_balance b, account_is_open b)"
      proof (cases "i = k")
        case True
        with i look [of k] have "b = a\<lparr>account_is_open := False, account_closed_at := Some now\<rparr>" by simp
        with op a(2) show ?thesis by simp
      next
        case False
        with i look have ib: "tget (mock_accounts d2) i = Some b" by simp
        have "account_user_id b \<noteq> u"
          using ib False a account_of_iff [OF inv2] by (metis option.inject prod.inject)
        with bank_of_row [OF inv2 ib] show ?thesis by simp
      qed
    next
      fix v assume v: "((bank_of d2)(u \<mapsto> (0, False))) v \<noteq> None"
      show "\<exists>i b. tget (mock_accounts d') i = Some b \<and> account_user_id b = v"
      proof (cases "v = u")
        case True
        with look [of k] a(2) show ?thesis by (intro exI [of _ k]) simp
      next
        case False
        with v obtain i b where "account_of d2 v = Some (i, b)" by (auto simp: bank_of_def)
        then have ib: "tget (mock_accounts d2) i = Some b" "account_user_id b = v"
          by (simp_all add: account_of_iff [OF inv2])
        moreover have "i \<noteq> k" using ib a False by auto
        ultimately show ?thesis using look [of i] by auto
      qed
    qed
    moreover have "bank_of d2 u = Some (0, True)" using bank_of_row [OF inv2 a(1)] a(2) op by simp
    ultimately show ?thesis using bank_close by simp
  qed
  ultimately show ?thesis by (auto intro: rtranclp.rtrancl_into_rtrancl)
qed

lemma room_transfer_bank:
  assumes inv: "ledger_inv d" and e: "transfer_for_product_room env tnow u room amount key d = Inr (res, d')"
  shows "bank_of d' = bank_of d \<or> bank_step (bank_of d) (bank_of d')"
  using e
proof (cases rule: room_transfer_elim)
  case replayed
  then show ?thesis by simp
next
  case denied
  with inv show ?thesis by (blast dest: store_denial_inv intro: bank_of_same)
next
  case (sent s sa v recipient d1 ns)
  have "bank_of d' = bank_of d1" by (rule bank_of_same) (simp add: sent(6))
  with transfer_service_one [OF sent(5)] show ?thesis by (metis execute_once_bank [OF inv])
qed

text \<open>One call moves the bank by at most two steps (closing opens a missing account first).\<close>

lemma apply_ledger_bank:
  assumes inv: "ledger_inv d"
  shows "bank_step\<^sup>*\<^sup>* (bank_of d) (bank_of (apply_ledger call d))"
proof (cases call)
  case (Ensure jid u)
  show ?thesis unfolding Ensure apply_ledger.simps
    by (rule atomic_preserves) (auto dest: ensure_account_bank [OF inv])
next
  case (Send env c)
  have "bank_step\<^sup>*\<^sup>* (bank_of d) (bank_of d')" if "transfer_service env c d = Inr (res, d')" for res d'
    using transfer_service_one [OF that] execute_once_bank [OF inv] by (metis r_into_rtranclp rtranclp.rtrancl_refl)
  then show ?thesis unfolding Send apply_ledger.simps by (rule atomic_preserves) simp_all
next
  case (Send_In_Room e c)
  have "bank_step\<^sup>*\<^sup>* (bank_of d) (bank_of d')" if "send_in_room e c d = Inr (res, d')" for res d'
    using room_transfer_bank [OF inv that [unfolded send_in_room_def]] by auto
  then show ?thesis unfolding Send_In_Room apply_ledger.simps by (rule atomic_preserves) simp_all
next
  case (Close jid now u)
  show ?thesis unfolding Close apply_ledger.simps
    by (rule atomic_preserves) (erule close_account_bank [OF inv], simp)
next
  case (Reconcile_Command c)
  then show ?thesis by (simp add: bank_of_same [OF reconcile_accounts])
qed

section \<open>The refinement\<close>

text \<open>
  C28: the transfer service refines a bank without journals: along every run from the empty
  database, of any calls of the service in any order (retried, replayed, refused or failed halfway) and any
  other change of the database, the balances and open flags of the users move only by the three moves of
  the abstract bank: an account opens with the seed amount, money moves between two open accounts within
  both bounds, an empty open account closes.
\<close>

theorem ledger_refines_bank:
  assumes "ledger.run empty_db before d" "ledger.run d after d'"
  shows "bank_step\<^sup>*\<^sup>* (bank_of d) (bank_of d')"
proof -
  have inv: "ledger_inv d \<and> seeded d" by (rule ledger_run_from_empty [OF assms(1)])
  have step: "bank_step\<^sup>*\<^sup>* (bank_of s) (bank_of s')" if "ledger_step s l s'" "ledger_inv s \<and> seeded s" for s l s'
    using that(1)
  proof (cases rule: ledger_step.cases)
    case ledger_call
    with that(2) show ?thesis by (simp add: apply_ledger_bank)
  next
    case elsewhere
    then have "bank_of s' = bank_of s" by (intro bank_of_same) (simp add: same_ledger_def)
    then show ?thesis by simp
  qed
  let ?R = "\<lambda>s s'. bank_step\<^sup>*\<^sup>* (bank_of s) (bank_of s')"
  have refl: "?R s s" for s by simp
  have trans: "?R a c" if "?R a b" "?R b c" for a b c using that by (rule rtranclp_trans)
  show ?thesis by (rule ledger.run_monotone [of ?R, OF step refl trans assms(2) inv])
qed

theorem ledger_refines_bank_witness:
  "bank_step\<^sup>*\<^sup>* (bank_of two_accounts) (bank_of (apply_ledger (Close 31 99 1) emptied)) \<and>
   bank_of two_accounts 1 = Some (SEED_AMOUNT, True) \<and>
   bank_of (apply_ledger (Close 31 99 1) emptied) 1 = Some (0, False)"
proof -
  have "ledger.run two_accounts [Some (Send (\<lambda>_. sample_attempt) everything), Some (Close 31 99 1)]
      (apply_ledger (Close 31 99 1) emptied)"
    unfolding emptied_def by (rule ledger.run_cons [OF ledger_call ledger.run_cons [OF ledger_call ledger.run_nil]])
  note moves = ledger_refines_bank [OF two_accounts_run this]
  have "ledger_inv (apply_ledger (Close 31 99 1) emptied)" using ledger_run_from_empty [OF emptied_run] by blast
  from bank_of_row [OF this emptied_closed]
  have "bank_of (apply_ledger (Close 31 99 1) emptied) 1 = Some (0, False)" by simp
  moreover have "bank_of two_accounts 1 = Some (SEED_AMOUNT, True)"
    by (simp add: bank_of_def two_accounts_lookups seed_account_def del: One_nat_def)
  ultimately show ?thesis using moves by blast
qed

end
