(* ===== verification/Trades.thy ===== *)
theory Trades imports Moderation_Services Identity begin

text \<open>
  The product lifecycle of \<open>trades/services.py\<close>: reserving, cancelling and completing a
  trade with its append-only history, directional reviews and their public visibility, and
  the JSON boundary of \<open>trades/views.py\<close>. \<open>tnow\<close> is the database's \<open>Now()\<close>, \<open>app_now\<close> is
  \<open>timezone.now()\<close>.
\<close>

section \<open>Guards\<close>

text \<open>
  \<open>_lock_active_users\<close>: a missing buyer (\<open>None\<close>) makes \<open>sorted(set(user_ids))\<close> compare
  \<open>None\<close> with an integer.
\<close>

definition lock_active_users :: "instant \<Rightarrow> nat \<Rightarrow> nat option \<Rightarrow> db \<Rightarrow> unit result" where
  "lock_active_users tnow a b d =
     (case b of
        None \<Rightarrow> Inl TypeError
      | Some b' \<Rightarrow>
          (case (tget (users d) a, tget (users d) b') of
             (Some ua, Some ub) \<Rightarrow>
               if \<not> user_is_active ua \<or> user_withdrawn_at ua \<noteq> None \<or>
                  \<not> user_is_active ub \<or> user_withdrawn_at ub \<noteq> None
               then Inl TradeError
               else if texists (\<lambda>k m. active_actions tnow d k m \<and> action_kind m = USER_DORMANCY \<and>
                                 (action_target_user_id m = Some a \<or> action_target_user_id m = Some b'))
                        (moderation_actions d)
               then Inl TradeError
               else Inr ()
           | _ \<Rightarrow> Inl TradeError))"

definition product_is_hidden :: "instant \<Rightarrow> db \<Rightarrow> nat \<Rightarrow> bool" where
  "product_is_hidden tnow d product_id \<longleftrightarrow>
     texists (\<lambda>k a. active_actions tnow d k a \<and> action_kind a = PRODUCT_HIDE \<and>
                    action_target_product_id a = Some product_id) (moderation_actions d)"

section \<open>Rows\<close>

text \<open>The product a trade blocks: \<open>trades_one_noncancelled_per_product\<close>.\<close>

definition blocking :: "trade \<Rightarrow> nat option" where
  "blocking t = (if trade_status t = CANCELLED then None else Some (trade_product_id t))"

definition create_trade :: "trade \<Rightarrow> db \<Rightarrow> exn + (nat \<times> db)" where
  "create_trade t d =
     (if \<not> trade_check t \<or> blocking t \<noteq> None \<and> texists (\<lambda>_ t'. blocking t' = blocking t) (trades d)
      then Inl IntegrityError
      else Inr (next_pk (trades d), d\<lparr>trades := snd (tcreate t (trades d))\<rparr>))"

definition record_history ::
    "nat \<Rightarrow> trade \<Rightarrow> trade_status option \<Rightarrow> nat \<Rightarrow> db \<Rightarrow> exn + db" where
  "record_history trade_id t old_status actor d =
     (if texists (\<lambda>_ h. history_trade_id h = trade_id \<and> history_version h = trade_version t) (trade_histories d)
      then Inl IntegrityError
      else Inr (d\<lparr>trade_histories := snd (tcreate
             \<lparr>history_trade_id = trade_id, history_from_status = old_status,
              history_to_status = trade_status t, history_actor_id = actor,
              history_version = trade_version t\<rparr> (trade_histories d))\<rparr>))"

definition save_trade :: "nat \<Rightarrow> trade \<Rightarrow> db \<Rightarrow> exn + db" where
  "save_trade trade_id t d =
     (if \<not> trade_check t then Inl IntegrityError
      else Inr (d\<lparr>trades := tmodify trade_id (\<lambda>_. t) (trades d)\<rparr>))"

section \<open>The lifecycle\<close>

record trade_result =
  tres_id :: nat
  tres_trade :: trade
  tres_created :: bool

definition reserve :: "instant \<Rightarrow> nat \<Rightarrow> nat \<Rightarrow> db \<Rightarrow> exn + (trade_result \<times> db)" where
  "reserve tnow actor product_id d =
     (case tget (products d) product_id of
        None \<Rightarrow> Inl TradeError
      | Some p \<Rightarrow>
          if actor = product_owner_id p \<or> product_is_hidden tnow d product_id then Inl TradeError
          else
     (case lock_active_users tnow actor (Some (product_owner_id p)) d of
        Inl e \<Rightarrow> Inl e
      | Inr _ \<Rightarrow>
     (case tfirst (\<lambda>_ t. trade_product_id t = product_id \<and> trade_status t \<in> {RESERVED, COMPLETED}) (trades d) of
        Some (k, existing) \<Rightarrow>
          if trade_status existing = RESERVED \<and> trade_buyer_id existing = Some actor
          then Inr (\<lparr>tres_id = k, tres_trade = existing, tres_created = False\<rparr>, d)
          else Inl TradeConflict
      | None \<Rightarrow>
          let t = \<lparr>trade_product_id = product_id, trade_seller_id = product_owner_id p,
                   trade_buyer_id = Some actor, trade_kind = STANDARD, trade_status = RESERVED,
                   trade_completed_at = None, trade_created_at = tnow, trade_version = 1\<rparr> in
          (case create_trade t d of
             Inl _ \<Rightarrow> Inl TradeConflict
           | Inr (k, d1) \<Rightarrow>
               (case record_history k t None actor d1 of
                  Inl _ \<Rightarrow> Inl TradeConflict
                | Inr d2 \<Rightarrow> Inr (\<lparr>tres_id = k, tres_trade = t, tres_created = True\<rparr>, d2))))))"

text \<open>The part \<open>cancel\<close> and \<open>complete\<close> share: the new row, saved with its history.\<close>

definition advance ::
    "nat \<Rightarrow> nat \<Rightarrow> trade \<Rightarrow> trade_status \<Rightarrow> instant option \<Rightarrow> db \<Rightarrow> exn + (trade_result \<times> db)" where
  "advance actor trade_id t status completed d =
     (let t' = t\<lparr>trade_status := status, trade_completed_at := completed,
                 trade_version := trade_version t + 1\<rparr> in
      case save_trade trade_id t' d of
        Inl e \<Rightarrow> Inl e
      | Inr d1 \<Rightarrow>
          (case record_history trade_id t' (Some (trade_status t)) actor d1 of
             Inl e \<Rightarrow> Inl e
           | Inr d2 \<Rightarrow> Inr (\<lparr>tres_id = trade_id, tres_trade = t', tres_created = False\<rparr>, d2)))"

definition cancel :: "instant \<Rightarrow> nat \<Rightarrow> nat \<Rightarrow> nat option \<Rightarrow> db \<Rightarrow> exn + (trade_result \<times> db)" where
  "cancel tnow actor trade_id expected d =
     (case tget (trades d) trade_id of
        None \<Rightarrow> Inl TradeError
      | Some t \<Rightarrow>
          if actor \<noteq> trade_seller_id t \<and> Some actor \<noteq> trade_buyer_id t then Inl TradeError
          else
     (case lock_active_users tnow (trade_seller_id t) (trade_buyer_id t) d of
        Inl e \<Rightarrow> Inl e
      | Inr _ \<Rightarrow>
          if tget (products d) (trade_product_id t) = None then Inl ObjectDoesNotExist
          else if trade_status t = CANCELLED
          then Inr (\<lparr>tres_id = trade_id, tres_trade = t, tres_created = False\<rparr>, d)
          else if trade_status t \<noteq> RESERVED then Inl TradeConflict
          else if expected \<noteq> None \<and> Some (trade_version t) \<noteq> expected then Inl TradeConflict
          else advance actor trade_id t CANCELLED (trade_completed_at t) d))"

definition complete :: "instant \<Rightarrow> instant \<Rightarrow> nat \<Rightarrow> nat \<Rightarrow> nat option \<Rightarrow> db \<Rightarrow> exn + (trade_result \<times> db)" where
  "complete tnow app_now actor trade_id expected d =
     (case tget (trades d) trade_id of
        None \<Rightarrow> Inl TradeError
      | Some t \<Rightarrow>
          if actor \<noteq> trade_seller_id t then Inl TradeError
          else
     (case lock_active_users tnow (trade_seller_id t) (trade_buyer_id t) d of
        Inl e \<Rightarrow> Inl e
      | Inr _ \<Rightarrow>
          if tget (products d) (trade_product_id t) = None then Inl ObjectDoesNotExist
          else if trade_status t = COMPLETED
          then Inr (\<lparr>tres_id = trade_id, tres_trade = t, tres_created = False\<rparr>, d)
          else if trade_status t \<noteq> RESERVED then Inl TradeConflict
          else if expected \<noteq> None \<and> Some (trade_version t) \<noteq> expected then Inl TradeConflict
          else advance actor trade_id t COMPLETED (Some app_now) d))"

section \<open>Reviews\<close>

text \<open>\<open>nfc\<close> is \<open>unicodedata.normalize("NFC", _)\<close>; its tables cover all of Unicode.\<close>

definition review_char_ok :: "nat \<Rightarrow> bool" where
  "review_char_ok c \<longleftrightarrow> \<not> (c < 32 \<or> 127 \<le> c \<and> c \<le> 159)"

definition normalize_review_body :: "(pystr \<Rightarrow> pystr) \<Rightarrow> pystr option \<Rightarrow> pystr result" where
  "normalize_review_body nfc body =
     (case body of
        None \<Rightarrow> Inl ReviewAuthorityError
      | Some b \<Rightarrow>
          let normalized = nfc (py_strip b) in
          if \<not> (1 \<le> length normalized \<and> length normalized \<le> 1000) then Inl ReviewAuthorityError
          else if \<not> list_all review_char_ok normalized then Inl ReviewAuthorityError
          else Inr normalized)"

record review_actor =
  ractor_id :: nat
  ractor_authenticated :: bool
  ractor_active :: bool

text \<open>
  \<open>trade_id\<close> and \<open>rating\<close> are \<open>None\<close> when the argument is not an \<open>int\<close> (or is a \<open>bool\<close>).
  The result is the review's key and row, and whether it was created.
\<close>

definition create_review ::
    "(pystr \<Rightarrow> pystr) \<Rightarrow> review_actor \<Rightarrow> int option \<Rightarrow> int option \<Rightarrow> pystr option \<Rightarrow> db \<Rightarrow>
     exn + ((nat \<times> review \<times> bool) \<times> db)" where
  "create_review nfc actor trade_id rating body d =
     (case (trade_id, rating) of
        (Some i, Some r) \<Rightarrow>
          if i \<le> 0 \<or> \<not> (1 \<le> r \<and> r \<le> 5) \<or> \<not> ractor_authenticated actor \<or> \<not> ractor_active actor
          then Inl ReviewAuthorityError
          else
     (case normalize_review_body nfc body of
        Inl e \<Rightarrow> Inl e
      | Inr text \<Rightarrow>
     (case tget (trades d) (nat i) of
        None \<Rightarrow> Inl ReviewAuthorityError
      | Some t \<Rightarrow>
     (case trade_buyer_id t of
        None \<Rightarrow> Inl ReviewAuthorityError
      | Some buyer \<Rightarrow>
          if trade_kind t \<noteq> STANDARD \<or> trade_status t \<noteq> COMPLETED \<or>
             ractor_id actor \<notin> {trade_seller_id t, buyer}
          then Inl ReviewAuthorityError
          else
            let subject = (if ractor_id actor = trade_seller_id t then buyer else trade_seller_id t) in
     (case tfirst (\<lambda>_ v. review_trade_id v = nat i \<and> review_author_id v = ractor_id actor) (reviews d) of
        Some (k, v) \<Rightarrow>
          if review_subject_id v \<noteq> subject \<or> review_rating v \<noteq> r \<or> review_body v \<noteq> text
          then Inl ReviewAuthorityError
          else Inr ((k, v, False), d)
      | None \<Rightarrow>
          let v = \<lparr>review_trade_id = nat i, review_author_id = ractor_id actor,
                   review_subject_id = subject, review_rating = r, review_body = text\<rparr> in
          if \<not> review_check v then Inl ReviewAuthorityError
          else Inr ((next_pk (reviews d), v, True), d\<lparr>reviews := snd (tcreate v (reviews d))\<rparr>)))))
      | _ \<Rightarrow> Inl ReviewAuthorityError)"

text \<open>The latest decision in the order \<open>-created_at, -pk\<close>.\<close>

definition later_decision :: "nat \<times> review_visibility_action \<Rightarrow> nat \<times> review_visibility_action \<Rightarrow> bool" where
  "later_decision x y \<longleftrightarrow>
     visibility_created_at (snd x) > visibility_created_at (snd y) \<or>
     visibility_created_at (snd x) = visibility_created_at (snd y) \<and> fst x > fst y"

fun latest :: "(nat \<times> review_visibility_action) list \<Rightarrow> (nat \<times> review_visibility_action) option" where
  "latest [] = None"
| "latest (x # xs) =
     (case latest xs of None \<Rightarrow> Some x | Some y \<Rightarrow> if later_decision x y then Some x else Some y)"

definition latest_kind :: "db \<Rightarrow> nat \<Rightarrow> visibility_kind option" where
  "latest_kind d review_id =
     map_option (\<lambda>(_, a). visibility_kind a)
       (latest (tselect (\<lambda>_ a. visibility_review_id a = review_id) (visibility_actions d)))"

definition public_reviews :: "db \<Rightarrow> (nat \<times> review) list \<Rightarrow> (nat \<times> review) list" where
  "public_reviews d queryset = filter (\<lambda>(k, _). latest_kind d k \<noteq> Some HIDE) queryset"

section \<open>The HTTP boundary\<close>

text \<open>A JSON document as the views see it after decoding; objects keep their pairs.\<close>

datatype json =
    J_Null
  | J_Bool bool
  | J_Int int
  | J_Float
  | J_Str pystr
  | J_List "json list"
  | J_Object "(pystr \<times> json) list"

record http_request =
  req_user :: "nat option"       \<comment> \<open>the authenticated user\<close>
  req_content_type :: pystr
  req_has_body :: bool
  req_json :: "json option"      \<comment> \<open>the decoded body; \<open>None\<close> when decoding raises \<open>ValueError\<close>\<close>

datatype 'a response = Json_Error string nat | Json_Ok 'a nat | Server_Error exn

definition json_type :: pystr where "json_type = lit ''application/json''"

text \<open>\<open>_version\<close>: \<open>dict\<close> semantics, so the last of duplicate keys counts.\<close>

definition parse_version :: "http_request \<Rightarrow> nat option result" where
  "parse_version r =
     (if req_content_type r \<noteq> json_type then Inl ValueError
      else case (if req_has_body r then req_json r else Some (J_Object [])) of
        Some (J_Object pairs) \<Rightarrow>
          if \<not> list_all (\<lambda>(k, _). k = lit ''version'') pairs then Inl ValueError
          else (case map_of (rev pairs) (lit ''version'') of
                  None \<Rightarrow> Inr None
                | Some J_Null \<Rightarrow> Inr None
                | Some (J_Int v) \<Rightarrow> if v < 1 then Inl ValueError else Inr (Some (nat v))
                | Some _ \<Rightarrow> Inl ValueError)
      | _ \<Rightarrow> Inl ValueError)"

definition trade_error_response :: "exn \<Rightarrow> 'a response" where
  "trade_error_response e =
     (if is_subclass e ValueError then Json_Error ''INVALID_REQUEST'' 400
      else if is_subclass e TradeConflict then Json_Error ''TRADE_CONFLICT'' 409
      else if is_subclass e TradeError then Json_Error ''TRADE_NOT_ALLOWED'' 422
      else Server_Error e)"

definition reserve_view :: "instant \<Rightarrow> nat \<Rightarrow> http_request \<Rightarrow> db \<Rightarrow> trade_result response \<times> db" where
  "reserve_view tnow product_id r d =
     (case req_user r of
        None \<Rightarrow> (Json_Error ''AUTH_REQUIRED'' 401, d)
      | Some actor \<Rightarrow>
          if req_has_body r then (Json_Error ''INVALID_REQUEST'' 400, d)
          else (case atomic (reserve tnow actor product_id) d of
                  (Inl e, d') \<Rightarrow>
                    ((if is_subclass e TradeConflict then Json_Error ''TRADE_CONFLICT'' 409
                      else if is_subclass e TradeError then Json_Error ''TRADE_NOT_ALLOWED'' 422
                      else Server_Error e), d')
                | (Inr result, d') \<Rightarrow> (Json_Ok result (if tres_created result then 201 else 200), d')))"

definition cancel_view :: "instant \<Rightarrow> nat \<Rightarrow> http_request \<Rightarrow> db \<Rightarrow> trade_result response \<times> db" where
  "cancel_view tnow trade_id r d =
     (case req_user r of
        None \<Rightarrow> (Json_Error ''AUTH_REQUIRED'' 401, d)
      | Some actor \<Rightarrow>
          (case parse_version r of
             Inl e \<Rightarrow> (trade_error_response e, d)
           | Inr version \<Rightarrow>
               (case atomic (cancel tnow actor trade_id version) d of
                  (Inl e, d') \<Rightarrow> (trade_error_response e, d')
                | (Inr result, d') \<Rightarrow> (Json_Ok result 200, d'))))"

definition complete_view :: "instant \<Rightarrow> instant \<Rightarrow> nat \<Rightarrow> http_request \<Rightarrow> db \<Rightarrow> trade_result response \<times> db" where
  "complete_view tnow app_now trade_id r d =
     (case req_user r of
        None \<Rightarrow> (Json_Error ''AUTH_REQUIRED'' 401, d)
      | Some actor \<Rightarrow>
          (case parse_version r of
             Inl e \<Rightarrow> (trade_error_response e, d)
           | Inr version \<Rightarrow>
               (case atomic (complete tnow app_now actor trade_id version) d of
                  (Inl e, d') \<Rightarrow> (trade_error_response e, d')
                | (Inr result, d') \<Rightarrow> (Json_Ok result 200, d'))))"

end
