(* ===== verification/Transfers_Http.thy ===== *)
theory Transfers_Http imports Transfers Trades begin

text \<open>
  The transfer pages (\<open>transfers/views.py\<close>): decoding a request body without duplicate fields, its one
  accepted spelling, and the answer to every outcome of the service.
\<close>

section \<open>Decoding\<close>

text \<open>
  \<open>object_pairs_hook=_pairs_no_duplicates\<close> runs on every object of the document, so a duplicate
  field anywhere raises.
\<close>

fun no_duplicates :: "json \<Rightarrow> bool" where
  "no_duplicates (J_List xs) \<longleftrightarrow> (\<forall>x \<in> set xs. no_duplicates x)"
| "no_duplicates (J_Object pairs) \<longleftrightarrow> distinct (map fst pairs) \<and> (\<forall>p \<in> set pairs. no_duplicates (snd p))"
| "no_duplicates _ \<longleftrightarrow> True"

text \<open>\<open>_AMOUNT.fullmatch\<close> of \<open>^[1-9][0-9]{0,7}$\<close>; \<open>Decimal\<close> of the text is the number of won.\<close>

definition amount_text :: "pystr \<Rightarrow> bool" where
  "amount_text s \<longleftrightarrow> s \<noteq> [] \<and> length s \<le> 8 \<and> list_all is_digit s \<and> hd s \<noteq> 48"

definition decode_amount :: "json option \<Rightarrow> nat result" where
  "decode_amount v =
     (case v of
        Some (J_Str s) \<Rightarrow>
          if \<not> amount_text s then Inl ValueError
          else if \<not> (1 \<le> undec s \<and> undec s \<le> 99999999) then Inl ValueError
          else Inr (100 * undec s)
      | _ \<Rightarrow> Inl ValueError)"

definition decode_key :: "json option \<Rightarrow> nat result" where
  "decode_key v =
     (case v of
        Some (J_Str s) \<Rightarrow> (case uuid_parse s of None \<Rightarrow> Inl ValueError | Some k \<Rightarrow> Inr k)
      | _ \<Rightarrow> Inl ValueError)"

definition decode_recipient :: "json option \<Rightarrow> pystr result" where
  "decode_recipient v =
     (case v of
        Some (J_Str s) \<Rightarrow> if 1 \<le> length s \<and> length s \<le> 150 then Inr s else Inl ValueError
      | _ \<Rightarrow> Inl ValueError)"

text \<open>The fields of a body that is an object with exactly these fields; \<open>None\<close> when decoding raises.\<close>

definition body_fields :: "string list \<Rightarrow> json option \<Rightarrow> (pystr \<times> json) list result" where
  "body_fields names body =
     (case body of
        Some (J_Object pairs) \<Rightarrow>
          if no_duplicates (J_Object pairs) \<and> set (map fst pairs) = set (map lit names) then Inr pairs
          else Inl ValueError
      | _ \<Rightarrow> Inl ValueError)"

definition parse_transfer :: "json option \<Rightarrow> (pystr \<times> nat \<times> nat) result" where
  "parse_transfer body =
     (case body_fields [''recipient'', ''amount'', ''idempotency_key''] body of Inl e \<Rightarrow> Inl e | Inr pairs \<Rightarrow>
     (case decode_recipient (map_of pairs (lit ''recipient'')) of Inl e \<Rightarrow> Inl e | Inr recipient \<Rightarrow>
     (case decode_amount (map_of pairs (lit ''amount'')) of Inl e \<Rightarrow> Inl e | Inr cents \<Rightarrow>
     (case decode_key (map_of pairs (lit ''idempotency_key'')) of Inl e \<Rightarrow> Inl e | Inr key \<Rightarrow>
      Inr (recipient, cents, key)))))"

definition parse_room_transfer :: "json option \<Rightarrow> (nat \<times> nat) result" where
  "parse_room_transfer body =
     (case body_fields [''amount'', ''idempotency_key''] body of Inl e \<Rightarrow> Inl e | Inr pairs \<Rightarrow>
     (case decode_amount (map_of pairs (lit ''amount'')) of Inl e \<Rightarrow> Inl e | Inr cents \<Rightarrow>
     (case decode_key (map_of pairs (lit ''idempotency_key'')) of Inl e \<Rightarrow> Inl e | Inr key \<Rightarrow>
      Inr (cents, key))))"

section \<open>The pages\<close>

text \<open>
  \<open>req_json\<close> is the decoded body with its pairs, \<open>None\<close> when the text is no JSON; \<open>Method_405\<close> is the
  answer of \<open>require_POST\<close>.
\<close>

definition service_answer :: "exn + (transfer_result \<times> db) \<Rightarrow> db \<Rightarrow> transfer_body response \<times> db" where
  "service_answer out d =
     (case out of
        Inl e \<Rightarrow>
          ((if e = IdempotencyConflict then Json_Error ''IDEMPOTENCY_CONFLICT'' 409
            else if e = TransferUnavailable then Json_Error ''TRANSFER_UNAVAILABLE'' 503
            else Server_Error e), d)
      | Inr (r, d1) \<Rightarrow> (Json_Ok (res_body r) (res_status r), d1))"

definition create_transfer ::
    "(nat \<Rightarrow> attempt) \<Rightarrow> http_request \<Rightarrow> db \<Rightarrow> transfer_body response \<times> db" where
  "create_transfer env r d =
     (case req_user r of
        None \<Rightarrow> (Json_Error ''AUTH_REQUIRED'' 401, d)
      | Some user \<Rightarrow>
          if req_content_type r \<noteq> json_type then (Json_Error ''INVALID_REQUEST'' 400, d)
          else case parse_transfer (req_json r) of
            Inl _ \<Rightarrow> (Json_Error ''INVALID_REQUEST'' 400, d)
          | Inr (recipient, cents, key) \<Rightarrow>
              service_answer (transfer_service env \<lparr>cmd_sender_user = user, cmd_recipient_name = recipient,
                cmd_amount = cents, cmd_key = key, cmd_request_payload = None\<rparr> d) d)"

definition create_room_transfer ::
    "(nat \<Rightarrow> attempt) \<Rightarrow> instant \<Rightarrow> nat \<Rightarrow> http_request \<Rightarrow> db \<Rightarrow> transfer_body response \<times> db" where
  "create_room_transfer env tnow room_id r d =
     (case req_user r of
        None \<Rightarrow> (Json_Error ''AUTH_REQUIRED'' 401, d)
      | Some user \<Rightarrow>
          if req_content_type r \<noteq> json_type then (Json_Error ''INVALID_REQUEST'' 400, d)
          else case parse_room_transfer (req_json r) of
            Inl _ \<Rightarrow> (Json_Error ''INVALID_REQUEST'' 400, d)
          | Inr (cents, key) \<Rightarrow> service_answer (transfer_for_product_room env tnow user room_id cents key d) d)"

definition close_mock_account_page :: "nat \<Rightarrow> instant \<Rightarrow> http_request \<Rightarrow> db \<Rightarrow> unit response \<times> db" where
  "close_mock_account_page journal_uuid app_now r d =
     (case req_user r of
        None \<Rightarrow> (Json_Error ''AUTH_REQUIRED'' 401, d)
      | Some user \<Rightarrow>
          if req_has_body r then (Json_Error ''INVALID_REQUEST'' 400, d)
          else case close_account journal_uuid app_now user d of
            Inl e \<Rightarrow>
              ((if is_subclass e ValueError then Json_Error ''ACCOUNT_NOT_EMPTY'' 409
                else if e = TransferUnavailable then Json_Error ''TRANSFER_UNAVAILABLE'' 503
                else Server_Error e), d)
          | Inr (_, d1) \<Rightarrow> (Json_Ok () 204, d1))"

text \<open>\<open>csrf_failure\<close>: JSON for the two APIs, Django's page (\<open>None\<close>) elsewhere.\<close>

definition csrf_failure :: "pystr \<Rightarrow> unit response option" where
  "csrf_failure path =
     (if take 11 path = lit ''/transfers/'' \<or> take 8 path = lit ''/trades/''
      then Some (Json_Error ''CSRF_FAILED'' 403) else None)"

section \<open>What the decoders accept\<close>

lemma amount_text_iff: "amount_text s \<and> 1 \<le> undec s \<and> undec s \<le> 99999999 \<and> undec s = n \<longleftrightarrow>
    s = dec n \<and> 1 \<le> n \<and> n \<le> 99999999"
proof
  assume "amount_text s \<and> 1 \<le> undec s \<and> undec s \<le> 99999999 \<and> undec s = n"
  with dec_undec [of s] show "s = dec n \<and> 1 \<le> n \<and> n \<le> 99999999" by (auto simp: amount_text_def)
next
  assume s: "s = dec n \<and> 1 \<le> n \<and> n \<le> 99999999"
  then have "amount_text s"
    using dec_length [of 8 n] hd_dec_not_zero [of n] by (auto simp: amount_text_def list_all_iff dec_digits)
  with s show "amount_text s \<and> 1 \<le> undec s \<and> undec s \<le> 99999999 \<and> undec s = n" by simp
qed

lemma decode_amount_iff: "decode_amount v = Inr c \<longleftrightarrow>
    (\<exists>n. v = Some (J_Str (dec n)) \<and> c = 100 * n \<and> 1 \<le> n \<and> n \<le> 99999999)"
proof -
  have "decode_amount v = Inr c \<longleftrightarrow>
      (\<exists>s n. v = Some (J_Str s) \<and> c = 100 * n \<and> amount_text s \<and> 1 \<le> undec s \<and> undec s \<le> 99999999 \<and> undec s = n)"
    by (auto simp: decode_amount_def split: option.splits json.splits if_splits)
  also have "\<dots> \<longleftrightarrow> (\<exists>s n. v = Some (J_Str s) \<and> c = 100 * n \<and> s = dec n \<and> 1 \<le> n \<and> n \<le> 99999999)"
    by (simp only: amount_text_iff)
  finally show ?thesis by blast
qed

lemma decode_key_iff: "decode_key v = Inr k \<longleftrightarrow> v = Some (J_Str (uuid_str k)) \<and> k < 2 ^ 128"
proof -
  have "decode_key v = Inr k \<longleftrightarrow> (\<exists>s. v = Some (J_Str s) \<and> uuid_parse s = Some k)"
    by (auto simp: decode_key_def split: option.splits json.splits)
  then show ?thesis by (auto simp: uuid_parse_iff)
qed

lemma decode_recipient_iff: "decode_recipient v = Inr r \<longleftrightarrow> v = Some (J_Str r) \<and> 1 \<le> length r \<and> length r \<le> 150"
  by (auto simp: decode_recipient_def split: option.splits json.splits)

lemma parse_transfer_cases:
  "parse_transfer body = Inr (r, c, k) \<longleftrightarrow>
     (\<exists>pairs. body_fields [''recipient'', ''amount'', ''idempotency_key''] body = Inr pairs \<and>
        decode_recipient (map_of pairs (lit ''recipient'')) = Inr r \<and>
        decode_amount (map_of pairs (lit ''amount'')) = Inr c \<and>
        decode_key (map_of pairs (lit ''idempotency_key'')) = Inr k)"
  by (auto simp: parse_transfer_def split: sum.splits)

lemma body_fields_iff: "body_fields names body = Inr pairs \<longleftrightarrow>
    body = Some (J_Object pairs) \<and> no_duplicates (J_Object pairs) \<and> set (map fst pairs) = set (map lit names)"
  by (auto simp: body_fields_def split: option.splits json.splits if_splits)

text \<open>
  C29: the transfer page reads back what a client printed, and nothing else: a body is accepted with
  recipient, amount and key exactly when it is an object with the three fields, each once and in any order,
  that spell the recipient (1 to 150 characters), a whole number of won from 1 to 99999999 in decimal without
  leading zeros, and the key in its canonical form. No two bodies that differ in more than the order of
  fields mean the same transfer.
\<close>

theorem transfer_page_roundtrip:
  "parse_transfer body = Inr (recipient, cents, key) \<longleftrightarrow>
     (\<exists>pairs won. body = Some (J_Object pairs) \<and> distinct (map fst pairs) \<and>
        map_of pairs = [lit ''recipient'' \<mapsto> J_Str recipient, lit ''amount'' \<mapsto> J_Str (dec won),
          lit ''idempotency_key'' \<mapsto> J_Str (uuid_str key)] \<and>
        1 \<le> length recipient \<and> length recipient \<le> 150 \<and> cents = 100 * won \<and> 1 \<le> won \<and> won \<le> 99999999 \<and>
        key < 2 ^ 128)" (is "?parsed \<longleftrightarrow> ?printed")
proof
  assume ?parsed
  then obtain pairs won where p: "body = Some (J_Object pairs)" "no_duplicates (J_Object pairs)"
      "set (map fst pairs) = {lit ''recipient'', lit ''amount'', lit ''idempotency_key''}"
    and v: "map_of pairs (lit ''recipient'') = Some (J_Str recipient)" "1 \<le> length recipient" "length recipient \<le> 150"
      "map_of pairs (lit ''amount'') = Some (J_Str (dec won))" "cents = 100 * won" "1 \<le> won" "won \<le> 99999999"
      "map_of pairs (lit ''idempotency_key'') = Some (J_Str (uuid_str key))" "key < 2 ^ 128"
    unfolding parse_transfer_cases body_fields_iff decode_recipient_iff decode_amount_iff decode_key_iff by auto
  have none: "map_of pairs x = None" if "x \<notin> {lit ''recipient'', lit ''amount'', lit ''idempotency_key''}" for x
    using that p(3) by (simp add: map_of_eq_None_iff)
  have "map_of pairs = [lit ''recipient'' \<mapsto> J_Str recipient, lit ''amount'' \<mapsto> J_Str (dec won),
      lit ''idempotency_key'' \<mapsto> J_Str (uuid_str key)]"
    using v(1,4,8) none by (intro ext) (simp add: lit_inject)
  with p v show ?printed by (intro exI [of _ pairs] exI [of _ won]) simp
next
  assume ?printed
  then obtain pairs won where p: "body = Some (J_Object pairs)" "distinct (map fst pairs)"
      "map_of pairs = [lit ''recipient'' \<mapsto> J_Str recipient, lit ''amount'' \<mapsto> J_Str (dec won),
          lit ''idempotency_key'' \<mapsto> J_Str (uuid_str key)]"
    and v: "1 \<le> length recipient" "length recipient \<le> 150" "cents = 100 * won" "1 \<le> won" "won \<le> 99999999"
      "key < 2 ^ 128" by blast
  have dom: "set (map fst pairs) = {lit ''recipient'', lit ''amount'', lit ''idempotency_key''}"
    using arg_cong [OF p(3), of dom] by (auto simp: dom_map_of_conv_image_fst)
  have "no_duplicates j" if "(x, j) \<in> set pairs" for x j
    using map_of_is_SomeI [OF p(2) that] by (auto simp: p(3) split: if_splits)
  with p(2) have "no_duplicates (J_Object pairs)" by auto
  with p(1) dom have f: "body_fields [''recipient'', ''amount'', ''idempotency_key''] body = Inr pairs"
    by (simp add: body_fields_iff)
  show ?parsed unfolding parse_transfer_cases
    by (rule exI [of _ pairs]) (use f v in \<open>simp add: p(3) lit_inject decode_recipient_iff decode_amount_iff decode_key_iff\<close>)
qed

end
