(* ===== verification/Ledger_History.thy ===== *)
theory Ledger_History imports Ledger_Properties begin

text \<open>
  The history of the ledger: the triggers of the first migration of transfers that refuse every change of a
  journal or an entry, against what the service does, and the migration step that opens the accounts of
  the users that were there before.
\<close>

section \<open>The triggers\<close>

text \<open>The ledger triggers and the rows the service keeps beside them.\<close>

definition ledger_triggers_pass :: "db \<Rightarrow> db \<Rightarrow> bool" where
  "ledger_triggers_pass d d' \<longleftrightarrow>
     append_only (ledger_journals d) (ledger_journals d') \<and> append_only (ledger_entries d) (ledger_entries d')"

definition history_kept :: "db \<Rightarrow> db \<Rightarrow> bool" where
  "history_kept d d' \<longleftrightarrow> ledger_triggers_pass d d' \<and> append_only (transfers d) (transfers d') \<and>
     append_only (transfer_requests d) (transfer_requests d')"

lemma history_kept_refl [intro, simp]: "history_kept d d"
  by (simp add: history_kept_def ledger_triggers_pass_def)

lemma history_kept_trans: "history_kept d d' \<Longrightarrow> history_kept d' d'' \<Longrightarrow> history_kept d d''"
  by (auto simp: history_kept_def ledger_triggers_pass_def intro: append_only_trans)

lemma history_kept_frame:
  "ledger_journals d' = ledger_journals d1 \<Longrightarrow> ledger_entries d' = ledger_entries d1 \<Longrightarrow> transfers d' = transfers d1 \<Longrightarrow>
   transfer_requests d' = transfer_requests d1 \<Longrightarrow> history_kept d d1 \<Longrightarrow> history_kept d d'"
  by (simp add: history_kept_def ledger_triggers_pass_def)

lemmas history_grow = history_kept_def ledger_triggers_pass_def append_only_tcreate append_only_tinsert

section \<open>Every call appends\<close>

lemma reserve_history: "get_or_create_reserve d = Inr (k, d') \<Longrightarrow> history_kept d d'"
  by (auto simp: get_or_create_reserve_def create_ledger_account_def history_kept_def ledger_triggers_pass_def
      split: option.splits if_splits)

lemma safety_history: "get_or_create_safety d = (s, d') \<Longrightarrow> history_kept d d'"
  by (auto simp: get_or_create_safety_def history_kept_def ledger_triggers_pass_def split: option.splits)

lemma ensure_account_parts:
  assumes "ensure_account jid u d = Inr (k, d')" "account_of d u = None"
  obtains rv d1 d2 l d3 j d4 where "get_or_create_reserve d = Inr (rv, d1)"
    "create_account \<lparr>account_user_id = u, account_balance = SEED_AMOUNT, account_is_open = True,
       account_closed_at = None\<rparr> d1 = Inr (k, d2)"
    "create_ledger_account \<lparr>ledger_kind = USER_LEDGER, ledger_mock_account_id = Some k,
       ledger_code = lit ''USER:'' @ dec u\<rparr> d2 = Inr (l, d3)"
    "create_journal jid \<lparr>journal_kind = SEED_ISSUE, journal_target_mock_account_id = Some k\<rparr> d3 = Inr (j, d4)"
    "d' = snd (get_or_create_safety (add_entry j rv (- SEED_AMOUNT) (add_entry j l SEED_AMOUNT d4)))"
  using assms by (auto simp: ensure_account_def Let_def case_prod_beta split: sum.splits)

lemma ensure_account_history:
  assumes "ensure_account jid u d = Inr (k, d')"
  shows "history_kept d d'"
proof (cases "account_of d u")
  case (Some p)
  with assms show ?thesis by (cases p) (simp add: ensure_account_def)
next
  case None
  from ensure_account_parts [OF assms None] obtain rv d1 d2 l d3 j d4 where
    r: "get_or_create_reserve d = Inr (rv, d1)" and
    c: "create_account \<lparr>account_user_id = u, account_balance = SEED_AMOUNT, account_is_open = True,
          account_closed_at = None\<rparr> d1 = Inr (k, d2)"
       "create_ledger_account \<lparr>ledger_kind = USER_LEDGER, ledger_mock_account_id = Some k,
          ledger_code = lit ''USER:'' @ dec u\<rparr> d2 = Inr (l, d3)"
       "create_journal jid \<lparr>journal_kind = SEED_ISSUE, journal_target_mock_account_id = Some k\<rparr> d3 = Inr (j, d4)"
    and d': "d' = snd (get_or_create_safety (add_entry j rv (- SEED_AMOUNT) (add_entry j l SEED_AMOUNT d4)))" .
  have "history_kept d1 d4"
    using c by (auto simp: create_account_def create_ledger_account_def create_journal_def history_grow split: if_splits)
  then have "history_kept d1 (add_entry j rv (- SEED_AMOUNT) (add_entry j l SEED_AMOUNT d4))"
    by (simp add: history_grow add_entry_def)
  from this safety_history [OF prod.collapse [symmetric]] have "history_kept d1 d'"
    unfolding d' by (rule history_kept_trans)
  with reserve_history [OF r] show ?thesis by (rule history_kept_trans)
qed

lemma ensure_account_journals:
  assumes "ensure_account jid u d = Inr (k, d')" "i \<noteq> jid"
  shows "tget (ledger_journals d') i = tget (ledger_journals d) i"
proof (cases "account_of d u")
  case (Some p)
  with assms show ?thesis by (cases p) (simp add: ensure_account_def)
next
  case None
  show ?thesis
    by (rule ensure_account_parts [OF assms(1) None])
       (use assms(2) in \<open>auto simp: get_or_create_safety_def get_or_create_reserve_def create_account_def
          create_ledger_account_def create_journal_def add_entry_def tget_tinsert split: option.splits if_splits\<close>)
qed

lemma denial_history: "store_denial s key payload d = Inr (res, d') \<Longrightarrow> history_kept d d'"
  by (auto simp: store_denial_def create_request_def history_grow split: if_splits)

lemma settled_history: "history_kept d (settled att c s sa r ra ls lr d)"
  by (simp add: settled_def Let_def audit_transfer_def settle_fields history_grow)

lemma execute_once_history:
  assumes inv: "ledger_inv d" and e: "execute_once att c d = Inr (res, d')"
  shows "history_kept d d'"
  using e
proof (cases rule: execute_once_elim)
  case (completed s sa ru u r ra)
  from completed_transfer [OF inv completed(1,5,4,6,7)] show ?thesis using settled_history by metis
qed (auto intro: denial_history)

lemma transfer_service_history:
  "ledger_inv d \<Longrightarrow> transfer_service env c d = Inr (res, d') \<Longrightarrow> history_kept d d'"
  by (erule transfer_service_one) (rule execute_once_history)

lemma room_transfer_history:
  assumes inv: "ledger_inv d" and e: "transfer_for_product_room env tnow u room amount key d = Inr (res, d')"
  shows "history_kept d d'"
  using e
proof (cases rule: room_transfer_elim)
  case (sent s sa v recipient d1 ns)
  from transfer_service_history [OF inv sent(5)] show ?thesis
    by (rule history_kept_frame [rotated 4]) (simp_all add: sent(6))
qed (auto intro: denial_history)

lemma close_account_history:
  assumes inv: "ledger_inv d" and e: "close_account jid now u d = Inr (b, d')"
  shows "history_kept d d'"
proof (rule close_account_elim [OF inv e])
  fix d1 d2 k a
  assume g: "get_or_create_safety d = (open_safety, d1) \<or> (\<exists>s. transfer_safety d = Some s \<and> safety_state s = OPEN \<and> d1 = d)"
    and en: "ensure_account jid u d1 = Inr (k, d2)"
    and r: "\<not> b \<and> \<not> account_is_open a \<and> d' = d2 \<or>
     b \<and> account_is_open a \<and> account_balance a = 0 \<and>
     d' = audit_transfer u ACCOUNT_CLOSED None (d2\<lparr>mock_accounts := tmodify k
            (\<lambda>a. a\<lparr>account_is_open := False, account_closed_at := Some now\<rparr>) (mock_accounts d2)\<rparr>)"
  from g have "history_kept d d1" by (auto intro: safety_history)
  from this ensure_account_history [OF en] have "history_kept d d2" by (rule history_kept_trans)
  then show ?thesis by (rule history_kept_frame [rotated 4]) (use r in \<open>auto simp: ledger_simps\<close>)
qed

lemma apply_ledger_history:
  assumes inv: "ledger_inv d"
  shows "history_kept d (apply_ledger call d)"
proof (cases call)
  case (Ensure jid u)
  show ?thesis unfolding Ensure apply_ledger.simps by (rule atomic_preserves) (auto intro: ensure_account_history)
next
  case (Send env c)
  show ?thesis unfolding Send apply_ledger.simps
    by (rule atomic_preserves) (auto intro: transfer_service_history [OF inv])
next
  case (Send_In_Room e c)
  show ?thesis unfolding Send_In_Room apply_ledger.simps send_in_room_def
    by (rule atomic_preserves) (auto intro: room_transfer_history [OF inv])
next
  case (Close jid now u)
  show ?thesis unfolding Close apply_ledger.simps
    by (rule atomic_preserves) (auto intro: close_account_history [OF inv])
next
  case (Reconcile_Command c)
  show ?thesis unfolding Reconcile_Command apply_ledger.simps using reconcile_only [of c d] by (auto simp: history_grow)
qed

lemma ledger_step_history: "ledger_step d l d' \<Longrightarrow> ledger_inv d \<Longrightarrow> history_kept d d'"
  by (erule ledger_stepE) (auto intro: apply_ledger_history history_kept_frame [OF _ _ _ _ history_kept_refl] simp: same_ledger_def)

text \<open>
  C37: The ledger is append-only, and its triggers never refuse the service: between any two states of a run, no
  journal, entry, transfer or stored answer is changed or removed, and every journal of the later state
  passes the deferred check of exactly two entries that add up to zero.
\<close>

theorem ledger_history_immutable:
  assumes "ledger.run empty_db before d" "ledger.run d calls d'"
  shows "history_kept d d' \<and> tall (\<lambda>jid _. validate_balanced_journal d' jid = Inr ()) (ledger_journals d')"
proof -
  from ledger_run_from_empty [OF assms(1)] have inv: "ledger_inv d \<and> seeded d" by blast
  have "history_kept d d'"
    by (rule ledger.run_monotone [OF _ _ _ assms(2) inv]) (blast intro: ledger_step_history history_kept_trans)+
  moreover from ledger.run_inv [OF assms(2) inv] have "journals_balanced d'" by (simp add: ledger_inv_def)
  ultimately show ?thesis by (simp add: journals_balanced_def)
qed

lemma ledger_history_immutable_witness:
  "history_kept two_accounts (apply_ledger (Send (\<lambda>_. sample_attempt) sample_command) two_accounts)"
  using ledger_history_immutable [OF two_accounts_run ledger.run_cons [OF ledger_call ledger.run_nil]] by blast

section \<open>The accounts of the users that were there before\<close>

text \<open>
  The body of the loop of \<open>bootstrap_existing_accounts\<close> for one user; \<open>jid\<close> is the identifier the
  journal draws.
\<close>

definition bootstrap_account :: "nat \<Rightarrow> nat \<Rightarrow> nat \<Rightarrow> db \<Rightarrow> exn + db" where
  "bootstrap_account reserve jid user_id d =
     (case account_of d user_id of
        Some _ \<Rightarrow> Inr d
      | None \<Rightarrow>
     (case create_account \<lparr>account_user_id = user_id, account_balance = 10000000,
                           account_is_open = True, account_closed_at = None\<rparr> d of
        Inl e \<Rightarrow> Inl e
      | Inr (account, d1) \<Rightarrow>
     (case create_ledger_account \<lparr>ledger_kind = USER_LEDGER, ledger_mock_account_id = Some account,
                                  ledger_code = lit ''USER:'' @ dec user_id\<rparr> d1 of
        Inl e \<Rightarrow> Inl e
      | Inr (ledger, d2) \<Rightarrow>
     (case create_journal jid \<lparr>journal_kind = SEED_ISSUE, journal_target_mock_account_id = Some account\<rparr> d2 of
        Inl e \<Rightarrow> Inl e
      | Inr (journal, d3) \<Rightarrow>
          Inr (add_entry journal reserve (- 10000000) (add_entry journal ledger 10000000 d3))))))"

fun bootstrap_accounts :: "nat \<Rightarrow> (nat \<Rightarrow> nat) \<Rightarrow> nat list \<Rightarrow> db \<Rightarrow> exn + db" where
  "bootstrap_accounts reserve jids [] d = Inr d"
| "bootstrap_accounts reserve jids (u # us) d =
     (case bootstrap_account reserve (jids u) u d of
        Inl e \<Rightarrow> Inl e
      | Inr d1 \<Rightarrow> bootstrap_accounts reserve jids us d1)"

definition bootstrap_existing_accounts :: "(nat \<Rightarrow> nat) \<Rightarrow> db \<Rightarrow> exn + db" where
  "bootstrap_existing_accounts jids d =
     (case get_or_create_reserve d of
        Inl e \<Rightarrow> Inl e
      | Inr (reserve, d1) \<Rightarrow>
     (case bootstrap_accounts reserve jids (sort (map fst (rows (users d)))) d1 of
        Inl e \<Rightarrow> Inl e
      | Inr d2 \<Rightarrow> Inr (snd (get_or_create_safety d2))))"

text \<open>
  The sign-up signal for each user in turn. The migration is that, after the reserve and the safety row,
  although it looks for neither of them again.
\<close>

fun sign_up_all :: "(nat \<Rightarrow> nat) \<Rightarrow> nat list \<Rightarrow> db \<Rightarrow> exn + db" where
  "sign_up_all jids [] d = Inr d"
| "sign_up_all jids (u # us) d =
     (case ensure_account (jids u) u d of
        Inl e \<Rightarrow> Inl e
      | Inr (_, d1) \<Rightarrow> sign_up_all jids us d1)"

abbreviation with_safety :: "transfer_safety_state \<Rightarrow> db \<Rightarrow> db" where
  "with_safety s d \<equiv> d\<lparr>transfer_safety := Some s\<rparr>"

lemma account_of_with_safety [simp]: "account_of (with_safety s d) = account_of d"
  by (simp add: account_of_def fun_eq_iff)

lemma bootstrap_account_safety:
  "bootstrap_account rv jid u (with_safety s d) = map_sum id (with_safety s) (bootstrap_account rv jid u d)"
  by (simp add: bootstrap_account_def create_account_def create_ledger_account_def create_journal_def add_entry_def
      account_of_def split: option.split)

lemma bootstrap_accounts_safety:
  "bootstrap_accounts rv jids us (with_safety s d) = map_sum id (with_safety s) (bootstrap_accounts rv jids us d)"
  by (induction us arbitrary: d) (simp_all add: bootstrap_account_safety split: sum.split)

lemma bootstrap_account_keeps:
  assumes "bootstrap_account rv jid u d = Inr d'"
  shows "transfer_safety d' = transfer_safety d" "reserve_of d = Some x \<Longrightarrow> reserve_of d' = Some x"
  using assms by (auto simp: bootstrap_account_def create_account_def create_ledger_account_def create_journal_def
      add_entry_def reserve_of_def tfirst_tcreate split: option.splits if_splits)

lemma bootstrap_accounts_keep:
  "bootstrap_accounts rv jids us d = Inr d' \<Longrightarrow> transfer_safety d' = transfer_safety d"
  by (induction us arbitrary: d) (auto simp: bootstrap_account_keeps split: sum.splits)

lemma bootstrap_account_is_sign_up:
  assumes "reserve_of d = Some (rv, r)" "transfer_safety d = Some s"
  shows "bootstrap_account rv jid u d = map_sum id snd (ensure_account jid u d)"
proof -
  have "reserve_of (d\<lparr>mock_accounts := t\<rparr>) = reserve_of d" for t by (simp add: reserve_of_def)
  then show ?thesis
    using assms
    by (simp add: bootstrap_account_def ensure_account_def get_or_create_reserve_def get_or_create_safety_def
        create_account_def create_ledger_account_def create_journal_def add_entry_def SEED_AMOUNT_def Let_def
        split: option.split)
qed

lemma bootstrap_accounts_are_sign_ups:
  assumes "reserve_of d = Some (rv, r)" "transfer_safety d = Some s"
  shows "bootstrap_accounts rv jids us d = sign_up_all jids us d"
  using assms
proof (induction us arbitrary: d)
  case (Cons u us)
  note eq = bootstrap_account_is_sign_up [OF Cons.prems, of "jids u" u]
  show ?case
  proof (cases "ensure_account (jids u) u d")
    case (Inr x)
    obtain k d1 where x: "x = (k, d1)" by force
    with Inr eq have b: "bootstrap_account rv (jids u) u d = Inr d1" by simp
    from bootstrap_account_keeps [OF b] Cons.prems have "reserve_of d1 = Some (rv, r)" "transfer_safety d1 = Some s" by simp_all
    from Cons.IH [OF this] show ?thesis by (simp add: b Inr x)
  qed (simp add: eq)
qed simp

lemma reserve_after_create:
  assumes "get_or_create_reserve d = Inr (rv, d1)"
  shows "\<exists>r. reserve_of d1 = Some (rv, r)" "transfer_safety d1 = transfer_safety d"
  using assms by (auto simp: get_or_create_reserve_def create_ledger_account_def reserve_of_def tfirst_tcreate
      split: option.splits if_splits)

text \<open>
  The migration that opens the accounts of existing users, which writes the rows itself, is
  exactly one sign-up signal per user in the order of the keys, run after the reserve and the safety row
  have been made: same rows, same failures.
\<close>

theorem bootstrap_is_sign_up:
  "bootstrap_existing_accounts jids d =
     (case get_or_create_reserve (snd (get_or_create_safety d)) of
        Inl e \<Rightarrow> Inl e
      | Inr (_, d1) \<Rightarrow> sign_up_all jids (sort (map fst (rows (users d)))) d1)"
proof -
  define s where "s = fst (get_or_create_safety d)"
  have safe: "snd (get_or_create_safety d) = with_safety s d"
    by (cases "transfer_safety d") (simp_all add: s_def get_or_create_safety_def)
  have res: "get_or_create_reserve (with_safety s d) = map_sum id (map_prod id (with_safety s)) (get_or_create_reserve d)"
    by (simp add: get_or_create_reserve_def reserve_of_def create_ledger_account_def split: option.split)
  show ?thesis
  proof (cases "get_or_create_reserve d")
    case (Inr x)
    obtain rv d1 where x: "x = (rv, d1)" by force
    let ?us = "sort (map fst (rows (users d)))"
    from reserve_after_create [OF Inr [unfolded x]] obtain r where
      r: "reserve_of d1 = Some (rv, r)" "transfer_safety d1 = transfer_safety d" by blast
    have "reserve_of (with_safety s d1) = Some (rv, r)" using r(1) by (simp add: reserve_of_def)
    then have "sign_up_all jids ?us (with_safety s d1) = map_sum id (with_safety s) (bootstrap_accounts rv jids ?us d1)"
      by (subst bootstrap_accounts_are_sign_ups [symmetric]) (simp_all add: bootstrap_accounts_safety)
    moreover have "snd (get_or_create_safety d2) = with_safety s d2" if "bootstrap_accounts rv jids ?us d1 = Inr d2" for d2
    proof -
      have "transfer_safety d2 = transfer_safety d"
        using bootstrap_accounts_keep [OF that] r(2) by simp
      then show ?thesis by (cases "transfer_safety d") (simp_all add: s_def get_or_create_safety_def)
    qed
    ultimately show ?thesis
      by (simp add: bootstrap_existing_accounts_def safe res Inr x split: sum.split)
  qed (simp add: bootstrap_existing_accounts_def safe res)
qed

text \<open>What the signals leave, user by user.\<close>

definition seeded_for :: "db \<Rightarrow> db \<Rightarrow> nat \<Rightarrow> bool" where
  "seeded_for d d' u \<longleftrightarrow>
     (case account_of d u of
        Some ka \<Rightarrow> account_of d' u = Some ka
      | None \<Rightarrow> map_option snd (account_of d' u) = Some (seed_account u))"

lemma ensure_account_others:
  assumes inv: "ledger_inv d" and e: "ensure_account jid u d = Inr (k, d')"
  shows "account_of d' v = (if v = u \<and> account_of d u = None then Some (k, seed_account u) else account_of d v)"
  using e
proof (cases rule: ensure_account_elim [OF inv e])
  case 2
  then show ?thesis
    by (auto simp: account_of_def tfirst_tcreate seed_account_def split: option.splits)
qed simp

lemma sign_up_all_seeds:
  assumes "ledger_inv d" "seeded d" "distinct us" "inj_on jids (set us)"
    and "\<And>u. u \<in> set us \<Longrightarrow> tget (ledger_journals d) (jids u) = None"
  shows "\<exists>d'. sign_up_all jids us d = Inr d' \<and> ledger_inv d' \<and> seeded d' \<and> users d' = users d \<and>
    (\<forall>u. if u \<in> set us then seeded_for d d' u else account_of d' u = account_of d u)"
  using assms
proof (induction us arbitrary: d)
  case (Cons u us)
  have "tget (ledger_journals d) (jids u) = None" using Cons.prems(5) by simp
  from ensure_account_ok [OF Cons.prems(1) this, of u] obtain k d1 where
    e: "ensure_account (jids u) u d = Inr (k, d1)" by blast
  from ensure_account_inv [OF Cons.prems(1) e] have inv1: "ledger_inv d1" .
  have users: "users d1 = users d" using ensure_account_elim [OF Cons.prems(1) e] by metis
  have "tget (ledger_journals d1) (jids v) = None" if "v \<in> set us" for v
  proof -
    from that Cons.prems(3,4) have "jids v \<noteq> jids u" by (auto simp: inj_on_def)
    from ensure_account_journals [OF e this] Cons.prems(5) that show ?thesis by simp
  qed
  from Cons.IH [OF inv1 ensure_account_seeded [OF Cons.prems(1,2) e] _ _ this] Cons.prems(3,4) obtain d' where
    d': "sign_up_all jids us d1 = Inr d'" "ledger_inv d'" "seeded d'" "users d' = users d1"
    and at: "\<And>v. if v \<in> set us then seeded_for d1 d' v else account_of d' v = account_of d1 v" by auto
  have "if v \<in> set (u # us) then seeded_for d d' v else account_of d' v = account_of d v" for v
    using at [of v] Cons.prems(3)
    by (auto simp: seeded_for_def ensure_account_others [OF Cons.prems(1) e] split: if_splits option.splits)
  with d' e users show ?case by simp
qed simp

text \<open>
  C38: The first migration of transfers succeeds on any sound ledger when the journals draw fresh
  identifiers, and then every user has an account: the one he had, untouched, or an open one with the
  seed amount; the ledger reconciles and holds one seed per account.
\<close>

theorem bootstrap_seeds_everyone:
  assumes "ledger_inv d" "seeded d" "wf_table (users d)" "inj_on jids (fst ` set (rows (users d)))"
    and "\<And>u. u \<in> fst ` set (rows (users d)) \<Longrightarrow> tget (ledger_journals d) (jids u) = None"
  shows "\<exists>d'. bootstrap_existing_accounts jids d = Inr d' \<and> users d' = users d \<and> ledger_mismatches d' = Inr [] \<and>
    seeded d' \<and> (\<forall>u. if tget (users d) u \<noteq> None then seeded_for d d' u else account_of d' u = account_of d u)"
proof -
  obtain s d0 where g: "get_or_create_safety d = (s, d0)" by force
  from get_or_create_safety_inv [OF assms(1) g] have d0: "ledger_inv d0" "mock_accounts d0 = mock_accounts d"
    "ledger_journals d0 = ledger_journals d" "users d0 = users d" by simp_all
  from get_or_create_reserve_ok [OF d0(1)] obtain rv d1 where r: "get_or_create_reserve d0 = Inr (rv, d1)"
    and d1: "ledger_inv d1" "mock_accounts d1 = mock_accounts d0" "ledger_journals d1 = ledger_journals d0"
      "account_of d1 = account_of d0" "users d1 = users d0" .
  let ?us = "sort (map fst (rows (users d)))"
  have us: "distinct ?us" "set ?us = fst ` set (rows (users d))"
    using assms(3) by (simp_all add: wf_table_def)
  have "seeded d1" using seeded_same assms(2) d0 d1 by metis
  from sign_up_all_seeds [OF d1(1) this us(1), of jids] assms(4,5) obtain d' where
    d': "sign_up_all jids ?us d1 = Inr d'" "ledger_inv d'" "seeded d'" "users d' = users d1"
    "\<forall>u. if u \<in> set ?us then seeded_for d1 d' u else account_of d' u = account_of d1 u"
    unfolding us(2) using d0(3) d1(3) by auto
  have acc: "account_of d1 = account_of d"
    using d0(2) d1(4) by (simp add: account_of_def fun_eq_iff)
  have "tget (users d) u \<noteq> None \<longleftrightarrow> u \<in> set ?us" for u
    unfolding us(2) by (simp add: tget_def map_of_eq_None_iff)
  moreover have "seeded_for d1 d' u = seeded_for d d' u" for u by (simp add: seeded_for_def acc)
  ultimately have all: "\<forall>u. if tget (users d) u \<noteq> None then seeded_for d d' u else account_of d' u = account_of d u"
    using d'(5) by (simp only: acc)
  have "bootstrap_existing_accounts jids d = Inr d'" by (simp add: bootstrap_is_sign_up g r d'(1))
  moreover have "users d' = users d" by (simp only: d'(4) d1 d0)
  ultimately show ?thesis using all d'(2,3) by (auto simp: inv_no_mismatch)
qed

lemma bootstrap_seeds_everyone_witness:
  "\<exists>d'. bootstrap_existing_accounts (\<lambda>u. u + 10) two_users = Inr d' \<and>
     map_option snd (account_of d' 1) = Some (seed_account 1)"
proof -
  have inv: "ledger_inv two_users \<and> seeded two_users" by (rule ledger_run_from_empty [OF two_users_run])
  have keys: "fst ` set (rows (users two_users)) = {1, 2}" "wf_table (users two_users)"
    "ledger_journals two_users = empty_table" "mock_accounts two_users = empty_table"
    by (simp_all add: two_users_def wf_table_def empty_db_def)
  have "inj_on (\<lambda>u. u + 10) {1, 2 :: nat}" by (simp add: inj_on_def)
  moreover have "tget (ledger_journals two_users) k = None" for k by (simp add: keys tget_def empty_table_def)
  ultimately obtain d' where d': "bootstrap_existing_accounts (\<lambda>u. u + 10) two_users = Inr d'"
    and all: "\<And>u. if tget (users two_users) u \<noteq> None then seeded_for two_users d' u
      else account_of d' u = account_of two_users u"
    using bootstrap_seeds_everyone [of two_users "\<lambda>u. u + 10"] inv keys(1,2) by metis
  have "tget (users two_users) 1 \<noteq> None" by (simp add: two_users_def tget_def)
  with all [of 1] d' have "bootstrap_existing_accounts (\<lambda>u. u + 10) two_users = Inr d' \<and> seeded_for two_users d' 1" by simp
  moreover have "account_of two_users 1 = None" by (simp add: account_of_def keys tfirst_def empty_table_def)
  ultimately show ?thesis by (auto simp: seeded_for_def)
qed

end
