(* ===== verification/Trade_Lifecycle.thy ===== *)
theory Trade_Lifecycle imports Trades begin

text \<open>
  The invariant of the trade tables: at most one trade of a product is not cancelled, and
  the history of every trade spells out exactly the transitions that led to its row. Every
  operation keeps it; a cancelled or completed trade is final; sending an operation again
  changes nothing.
\<close>

section \<open>The invariant\<close>

definition trade_log :: "db \<Rightarrow> nat \<Rightarrow> trade_status_history list" where
  "trade_log d k = map snd (tselect (\<lambda>_ h. history_trade_id h = k) (trade_histories d))"

definition logged :: "nat \<Rightarrow> trade_status option \<Rightarrow> trade_status \<Rightarrow> nat \<Rightarrow> nat \<Rightarrow> trade_status_history" where
  "logged k old new actor version = \<lparr>history_trade_id = k, history_from_status = old,
     history_to_status = new, history_actor_id = actor, history_version = version\<rparr>"

definition lifecycle_ok :: "nat \<Rightarrow> trade \<Rightarrow> trade_status_history list \<Rightarrow> bool" where
  "lifecycle_ok k t log \<longleftrightarrow> trade_check t \<and>
     (case trade_buyer_id t of
        None \<Rightarrow> log = []
      | Some buyer \<Rightarrow>
          let created = logged k None RESERVED buyer 1 in
          (case trade_status t of
             RESERVED \<Rightarrow> trade_version t = 1 \<and> log = [created]
           | CANCELLED \<Rightarrow> trade_version t = 2 \<and>
               (log = [created, logged k (Some RESERVED) CANCELLED buyer 2] \<or>
                log = [created, logged k (Some RESERVED) CANCELLED (trade_seller_id t) 2])
           | COMPLETED \<Rightarrow> trade_version t = 2 \<and>
               log = [created, logged k (Some RESERVED) COMPLETED (trade_seller_id t) 2]))"

definition trades_inv :: "db \<Rightarrow> bool" where
  "trades_inv d \<longleftrightarrow>
     wf_table (trades d) \<and> wf_table (trade_histories d) \<and> unique_on blocking (trades d) \<and>
     tall (\<lambda>k t. lifecycle_ok k t (trade_log d k)) (trades d) \<and>
     tall (\<lambda>_ h. tget (trades d) (history_trade_id h) \<noteq> None) (trade_histories d)"

lemma trades_inv_wf:
  "trades_inv d \<Longrightarrow> wf_table (trades d)" "trades_inv d \<Longrightarrow> wf_table (trade_histories d)"
  "trades_inv d \<Longrightarrow> unique_on blocking (trades d)"
  by (simp_all add: trades_inv_def)

lemma trades_inv_row:
  "trades_inv d \<Longrightarrow> tget (trades d) k = Some t \<Longrightarrow> lifecycle_ok k t (trade_log d k)"
  unfolding trades_inv_def using tallD [where P = "\<lambda>k t. lifecycle_ok k t (trade_log d k)"] by blast

lemma trades_inv_empty: "trades_inv empty_db"
  by (simp add: trades_inv_def empty_db_def wf_empty_table unique_empty tall_def)
     (simp add: empty_table_def)

lemma log_of_unknown:
  assumes "trades_inv d" "tget (trades d) k = None"
  shows "trade_log d k = []" "\<not> texists (\<lambda>_ h. history_trade_id h = k \<and> P h) (trade_histories d)"
proof -
  have "history_trade_id h \<noteq> k" if "(i, h) \<in> set (rows (trade_histories d))" for i h
    using assms that by (auto simp: trades_inv_def tall_def list_all_iff)
  then show "trade_log d k = []" "\<not> texists (\<lambda>_ h. history_trade_id h = k \<and> P h) (trade_histories d)"
    by (auto simp: trade_log_def tselect_def filter_empty_conv texists_def list_ex_iff)
qed

lemma log_texists:
  "texists (\<lambda>_ h. history_trade_id h = k \<and> P h) (trade_histories d) \<longleftrightarrow> (\<exists>h \<in> set (trade_log d k). P h)"
  by (force simp: trade_log_def tselect_def texists_def list_ex_iff)

lemma log_create:
  "trade_log (d\<lparr>trades := T, trade_histories := snd (tcreate h (trade_histories d))\<rparr>) k =
     trade_log d k @ (if history_trade_id h = k then [h] else [])"
  by (simp add: trade_log_def tselect_tcreate)

section \<open>Each operation\<close>

definition new_trade :: "instant \<Rightarrow> nat \<Rightarrow> nat \<Rightarrow> nat \<Rightarrow> trade" where
  "new_trade tnow product_id seller buyer = \<lparr>trade_product_id = product_id, trade_seller_id = seller,
     trade_buyer_id = Some buyer, trade_kind = STANDARD, trade_status = RESERVED,
     trade_completed_at = None, trade_created_at = tnow, trade_version = 1\<rparr>"

definition reserved_db :: "trade \<Rightarrow> nat \<Rightarrow> db \<Rightarrow> db" where
  "reserved_db t actor d = d\<lparr>trades := snd (tcreate t (trades d)),
     trade_histories := snd (tcreate (logged (next_pk (trades d)) None RESERVED actor 1) (trade_histories d))\<rparr>"

definition active_trade :: "db \<Rightarrow> nat \<Rightarrow> (nat \<times> trade) option" where
  "active_trade d product_id =
     tfirst (\<lambda>_ t. trade_product_id t = product_id \<and> trade_status t \<in> {RESERVED, COMPLETED}) (trades d)"

lemma blocking_iff:
  "blocking t = Some p \<longleftrightarrow> trade_product_id t = p \<and> trade_status t \<in> {RESERVED, COMPLETED}"
  by (cases "trade_status t") (auto simp: blocking_def)

lemma active_trade_blocking:
  "active_trade d p = None \<Longrightarrow> \<not> texists (\<lambda>_ t. blocking t = Some p) (trades d)"
  by (simp add: active_trade_def tfirst_None blocking_iff)

text \<open>\<open>reserve\<close> in closed form: under the invariant its writes never fail.\<close>

lemma reserve_closed:
  assumes inv: "trades_inv d"
  shows "reserve tnow actor product_id d =
    (case tget (products d) product_id of
       None \<Rightarrow> Inl TradeError
     | Some p \<Rightarrow>
         if actor = product_owner_id p \<or> product_is_hidden tnow d product_id then Inl TradeError
         else case lock_active_users tnow actor (Some (product_owner_id p)) d of
           Inl e \<Rightarrow> Inl e
         | Inr _ \<Rightarrow>
             (case active_trade d product_id of
                Some (k, t) \<Rightarrow>
                  if trade_status t = RESERVED \<and> trade_buyer_id t = Some actor
                  then Inr (\<lparr>tres_id = k, tres_trade = t, tres_created = False\<rparr>, d)
                  else Inl TradeConflict
              | None \<Rightarrow>
                  let t = new_trade tnow product_id (product_owner_id p) actor in
                  Inr (\<lparr>tres_id = next_pk (trades d), tres_trade = t, tres_created = True\<rparr>,
                       reserved_db t actor d)))"
proof -
  have new: "create_trade (new_trade tnow product_id owner actor) d =
      Inr (next_pk (trades d), d\<lparr>trades := snd (tcreate (new_trade tnow product_id owner actor) (trades d))\<rparr>)"
    if "active_trade d product_id = None" for owner
    using active_trade_blocking [OF that]
    by (simp add: create_trade_def new_trade_def trade_check_def blocking_def)
  have "tget (trades d) (next_pk (trades d)) = None" by (simp add: tget_next_pk trades_inv_wf [OF inv])
  note fresh = log_of_unknown(2) [OF inv this, of "\<lambda>h. history_version h = 1"]
  have rec: "record_history (next_pk (trades d)) (new_trade tnow product_id owner actor) None actor
      (d\<lparr>trades := snd (tcreate (new_trade tnow product_id owner actor) (trades d))\<rparr>) =
      Inr (reserved_db (new_trade tnow product_id owner actor) actor d)" for owner
    using fresh by (simp add: record_history_def new_trade_def reserved_db_def logged_def)
  show ?thesis
    unfolding reserve_def active_trade_def [symmetric] new_trade_def [symmetric]
    by (auto simp: Let_def new rec split: option.splits sum.splits)
qed

lemma reserved_inv:
  assumes inv: "trades_inv d" and none: "active_trade d (trade_product_id t) = None"
    and t: "t = new_trade tnow p s actor"
  shows "trades_inv (reserved_db t actor d)"
proof -
  note wf = trades_inv_wf [OF inv]
  let ?k = "next_pk (trades d)" and ?d = "reserved_db t actor d"
  have free: "tget (trades d) ?k = None" by (simp add: tget_next_pk wf)
  have "unique_on blocking (trades ?d)"
    using active_trade_blocking [OF none] wf(3)
    by (simp add: reserved_db_def unique_tcreate blocking_def t new_trade_def)
  moreover have "lifecycle_ok k r (trade_log ?d k)" if "tget (trades ?d) k = Some r" for k r
  proof (cases "k = ?k")
    case True
    with that have "r = t" by (simp add: reserved_db_def tget_tcreate wf)
    with True log_of_unknown(1) [OF inv free] show ?thesis
      by (simp add: reserved_db_def log_create logged_def lifecycle_ok_def trade_check_def t new_trade_def)
  next
    case False
    with that have "tget (trades d) k = Some r" by (simp add: reserved_db_def tget_tcreate wf)
    with trades_inv_row [OF inv] False show ?thesis by (simp add: reserved_db_def log_create logged_def)
  qed
  moreover have "tall (\<lambda>_ h. tget (trades ?d) (history_trade_id h) \<noteq> None) (trade_histories ?d)"
  proof -
    have "tall (\<lambda>_ h. tget (trades ?d) (history_trade_id h) \<noteq> None) (trade_histories d)"
      by (rule tall_mono [where P = "\<lambda>_ h. tget (trades d) (history_trade_id h) \<noteq> None"])
         (use inv in \<open>auto simp: trades_inv_def reserved_db_def tget_tcreate\<close>)
    then show ?thesis
      by (simp add: reserved_db_def tall_tcreate logged_def tget_tcreate wf)
  qed
  ultimately show ?thesis
    using wf by (simp add: trades_inv_def tall_iff wf_tcreate reserved_db_def)
qed

definition advanced :: "trade \<Rightarrow> trade_status \<Rightarrow> instant option \<Rightarrow> trade" where
  "advanced t s c = t\<lparr>trade_status := s, trade_completed_at := c, trade_version := 2\<rparr>"

definition advanced_db :: "nat \<Rightarrow> trade \<Rightarrow> trade_status \<Rightarrow> instant option \<Rightarrow> nat \<Rightarrow> db \<Rightarrow> db" where
  "advanced_db k t s c actor d = d\<lparr>trades := tmodify k (\<lambda>_. advanced t s c) (trades d),
     trade_histories := snd (tcreate (logged k (Some RESERVED) s actor 2) (trade_histories d))\<rparr>"

definition legal_step :: "trade \<Rightarrow> trade_status \<Rightarrow> instant option \<Rightarrow> nat \<Rightarrow> bool" where
  "legal_step t s c actor \<longleftrightarrow>
     s = CANCELLED \<and> c = None \<and> (actor = trade_seller_id t \<or> Some actor = trade_buyer_id t) \<or>
     s = COMPLETED \<and> c \<noteq> None \<and> actor = trade_seller_id t"

lemma reserved_row:
  assumes "trades_inv d" "tget (trades d) k = Some t" "trade_status t = RESERVED"
  obtains buyer where "trade_buyer_id t = Some buyer" "trade_kind t = STANDARD" "trade_version t = 1"
    "trade_completed_at t = None" "trade_log d k = [logged k None RESERVED buyer 1]"
  using trades_inv_row [OF assms(1,2)] assms(3)
  by (auto simp: lifecycle_ok_def trade_check_def Let_def split: option.splits)

lemma advance_closed:
  assumes inv: "trades_inv d" and t: "tget (trades d) k = Some t" "trade_status t = RESERVED"
    and s: "legal_step t s c actor"
  shows "advance actor k t s c d =
    Inr (\<lparr>tres_id = k, tres_trade = advanced t s c, tres_created = False\<rparr>, advanced_db k t s c actor d)"
proof -
  obtain buyer where b: "trade_buyer_id t = Some buyer" "trade_kind t = STANDARD" "trade_version t = 1"
    "trade_completed_at t = None" "trade_log d k = [logged k None RESERVED buyer 1]"
    by (rule reserved_row [OF inv t])
  have "\<not> texists (\<lambda>_ h. history_trade_id h = k \<and> history_version h = 2) (trade_histories d)"
    unfolding log_texists by (simp add: b logged_def)
  then show ?thesis
    using b s t by (auto simp: advance_def Let_def save_trade_def trade_check_def legal_step_def
        record_history_def advanced_def advanced_db_def logged_def numeral_2_eq_2)
qed

lemma advanced_inv:
  assumes inv: "trades_inv d" and t: "tget (trades d) k = Some t" "trade_status t = RESERVED"
    and s: "legal_step t s c actor"
  shows "trades_inv (advanced_db k t s c actor d)"
proof -
  note wf = trades_inv_wf [OF inv]
  let ?d = "advanced_db k t s c actor d" and ?t = "advanced t s c"
  obtain buyer where b: "trade_buyer_id t = Some buyer" "trade_kind t = STANDARD" "trade_version t = 1"
    "trade_completed_at t = None" "trade_log d k = [logged k None RESERVED buyer 1]"
    by (rule reserved_row [OF inv t])
  have "unique_on blocking (trades ?d)"
  proof -
    have "trades ?d = tmodify k (\<lambda>r. if r = t then ?t else r) (trades d)"
      using tmodify_overwrite [OF wf(1) t(1)] by (simp add: advanced_db_def)
    moreover have "blocking (if r = t then ?t else r) = blocking r \<or> blocking (if r = t then ?t else r) = None" for r
      using t(2) s by (auto simp: blocking_def advanced_def legal_step_def)
    ultimately show ?thesis using wf(3) by (simp add: tmodify_def unique_tupdate_weaken)
  qed
  moreover have "lifecycle_ok i r (trade_log ?d i)" if "tget (trades ?d) i = Some r" for i r
  proof (cases "i = k")
    case True
    with that t(1) have "r = ?t" by (simp add: advanced_db_def tget_tmodify)
    with True b s show ?thesis
      by (auto simp: advanced_db_def log_create logged_def lifecycle_ok_def trade_check_def advanced_def
          legal_step_def)
  next
    case False
    with that have "tget (trades d) i = Some r" by (simp add: advanced_db_def tget_tmodify)
    with trades_inv_row [OF inv] False show ?thesis by (simp add: advanced_db_def log_create logged_def)
  qed
  moreover have "tall (\<lambda>_ h. tget (trades ?d) (history_trade_id h) \<noteq> None) (trade_histories ?d)"
  proof -
    have "tall (\<lambda>_ h. tget (trades ?d) (history_trade_id h) \<noteq> None) (trade_histories d)"
      by (rule tall_mono [where P = "\<lambda>_ h. tget (trades d) (history_trade_id h) \<noteq> None"])
         (use inv in \<open>auto simp: trades_inv_def advanced_db_def tget_tmodify\<close>)
    then show ?thesis using t(1)
      by (simp add: advanced_db_def tall_tcreate logged_def tget_tmodify)
  qed
  ultimately show ?thesis
    using wf by (simp add: trades_inv_def tall_iff wf_tcreate wf_tmodify advanced_db_def)
qed


section \<open>Commands\<close>

datatype trade_command =
    Reserve nat nat
  | Cancel nat nat "nat option"
  | Complete nat nat "nat option"

record trade_environment =
  te_now :: instant
  te_app_now :: instant

fun trade_exec :: "trade_environment \<Rightarrow> trade_command \<Rightarrow> db \<Rightarrow> exn + (trade_result \<times> db)" where
  "trade_exec e (Reserve actor product_id) d = reserve (te_now e) actor product_id d"
| "trade_exec e (Cancel actor trade_id v) d = cancel (te_now e) actor trade_id v d"
| "trade_exec e (Complete actor trade_id v) d = complete (te_now e) (te_app_now e) actor trade_id v d"

lemma reserve_elim:
  assumes inv: "trades_inv d" and e: "reserve tnow actor product_id d = Inr (r, d')"
  obtains (replayed) k t where "active_trade d product_id = Some (k, t)" "trade_status t = RESERVED"
      "trade_buyer_id t = Some actor" "r = \<lparr>tres_id = k, tres_trade = t, tres_created = False\<rparr>" "d' = d"
  | (created) p t where "tget (products d) product_id = Some p" "actor \<noteq> product_owner_id p"
      "\<not> product_is_hidden tnow d product_id"
      "lock_active_users tnow actor (Some (product_owner_id p)) d = Inr ()"
      "active_trade d product_id = None" "t = new_trade tnow product_id (product_owner_id p) actor"
      "r = \<lparr>tres_id = next_pk (trades d), tres_trade = t, tres_created = True\<rparr>" "d' = reserved_db t actor d"
  using e unfolding reserve_closed [OF inv]
  by (auto simp: Let_def split: option.splits if_splits sum.splits prod.splits)

lemma cancel_elim:
  assumes inv: "trades_inv d" and e: "cancel tnow actor k v d = Inr (r, d')"
  obtains (replayed) t where "tget (trades d) k = Some t" "trade_status t = CANCELLED"
      "r = \<lparr>tres_id = k, tres_trade = t, tres_created = False\<rparr>" "d' = d"
  | (cancelled) t where "tget (trades d) k = Some t" "trade_status t = RESERVED"
      "actor = trade_seller_id t \<or> Some actor = trade_buyer_id t" "v = None \<or> v = Some (trade_version t)"
      "r = \<lparr>tres_id = k, tres_trade = advanced t CANCELLED None, tres_created = False\<rparr>"
      "d' = advanced_db k t CANCELLED None actor d"
proof -
  from e obtain t where t: "tget (trades d) k = Some t" by (auto simp: cancel_def split: option.splits)
  from e have actor: "actor = trade_seller_id t \<or> Some actor = trade_buyer_id t"
    by (auto simp: cancel_def t split: if_splits)
  have "trade_status t = CANCELLED \<and> r = \<lparr>tres_id = k, tres_trade = t, tres_created = False\<rparr> \<and> d' = d \<or>
    trade_status t = RESERVED \<and> (v = None \<or> v = Some (trade_version t)) \<and>
      advance actor k t CANCELLED (trade_completed_at t) d = Inr (r, d')"
    using e by (auto simp: cancel_def t split: if_splits sum.splits)
  then show thesis
  proof
    assume h: "trade_status t = RESERVED \<and> (v = None \<or> v = Some (trade_version t)) \<and>
      advance actor k t CANCELLED (trade_completed_at t) d = Inr (r, d')"
    then have st: "trade_status t = RESERVED" and v: "v = None \<or> v = Some (trade_version t)"
      and a: "advance actor k t CANCELLED (trade_completed_at t) d = Inr (r, d')" by blast+
    have c: "trade_completed_at t = None" by (rule reserved_row [OF inv t st])
    from advance_closed [OF inv t st, of CANCELLED None actor] actor a c st show thesis
      by (intro cancelled [OF t st actor]) (use v in \<open>auto simp: legal_step_def\<close>)
  qed (use replayed [OF t] in blast)
qed

lemma complete_elim:
  assumes inv: "trades_inv d" and e: "complete tnow app_now actor k v d = Inr (r, d')"
  obtains (replayed) t where "tget (trades d) k = Some t" "trade_status t = COMPLETED"
      "actor = trade_seller_id t"
      "r = \<lparr>tres_id = k, tres_trade = t, tres_created = False\<rparr>" "d' = d"
  | (completed) t where "tget (trades d) k = Some t" "trade_status t = RESERVED"
      "actor = trade_seller_id t" "v = None \<or> v = Some (trade_version t)"
      "r = \<lparr>tres_id = k, tres_trade = advanced t COMPLETED (Some app_now), tres_created = False\<rparr>"
      "d' = advanced_db k t COMPLETED (Some app_now) actor d"
proof -
  from e obtain t where t: "tget (trades d) k = Some t" by (auto simp: complete_def split: option.splits)
  from e have actor: "actor = trade_seller_id t"
    by (auto simp: complete_def t split: if_splits)
  have "trade_status t = COMPLETED \<and> r = \<lparr>tres_id = k, tres_trade = t, tres_created = False\<rparr> \<and> d' = d \<or>
    trade_status t = RESERVED \<and> (v = None \<or> v = Some (trade_version t)) \<and>
      advance actor k t COMPLETED (Some app_now) d = Inr (r, d')"
    using e by (auto simp: complete_def t split: if_splits sum.splits)
  then show thesis
  proof
    assume h: "trade_status t = RESERVED \<and> (v = None \<or> v = Some (trade_version t)) \<and>
      advance actor k t COMPLETED (Some app_now) d = Inr (r, d')"
    then have st: "trade_status t = RESERVED" and v: "v = None \<or> v = Some (trade_version t)"
      and a: "advance actor k t COMPLETED (Some app_now) d = Inr (r, d')" by blast+
    from advance_closed [OF inv t st, of COMPLETED "Some app_now" actor] actor a st show thesis
      by (intro completed [OF t st actor]) (use v in \<open>auto simp: legal_step_def\<close>)
  qed (use replayed [OF t _ actor] in blast)
qed

lemma trade_exec_inv:
  assumes inv: "trades_inv d" and e: "trade_exec e c d = Inr (r, d')"
  shows "trades_inv d'"
proof (cases c)
  case (Reserve actor p)
  with e have "reserve (te_now e) actor p d = Inr (r, d')" by simp
  then show ?thesis
  proof (cases rule: reserve_elim [OF inv, consumes 1])
    case (2 q t)
    then show ?thesis using reserved_inv [OF inv, of t] by (simp add: new_trade_def)
  qed (use inv in simp)
next
  case (Cancel actor k v)
  with e have "cancel (te_now e) actor k v d = Inr (r, d')" by simp
  then show ?thesis
  proof (cases rule: cancel_elim [OF inv, consumes 1])
    case (2 t)
    then show ?thesis using advanced_inv [OF inv, of k t CANCELLED None actor] by (simp add: legal_step_def)
  qed (use inv in simp)
next
  case (Complete actor k v)
  with e have "complete (te_now e) (te_app_now e) actor k v d = Inr (r, d')" by simp
  then show ?thesis
  proof (cases rule: complete_elim [OF inv, consumes 1])
    case (2 t)
    then show ?thesis using advanced_inv [OF inv, of k t COMPLETED "Some (te_app_now e)" actor]
      by (simp add: legal_step_def)
  qed (use inv in simp)
qed

definition same_trade :: "trade_result \<Rightarrow> trade_result \<Rightarrow> bool" where
  "same_trade r r' \<longleftrightarrow> tres_id r = tres_id r' \<and> tres_trade r = tres_trade r' \<and> \<not> tres_created r'"

lemma active_after_reserve:
  assumes "trades_inv d" "active_trade d p = None" "t = new_trade tnow p s actor"
  shows "active_trade (reserved_db t actor d) p = Some (next_pk (trades d), t)"
  using assms by (simp add: active_trade_def reserved_db_def tfirst_tcreate new_trade_def)

lemma trade_exec_replay:
  assumes inv: "trades_inv d" and first: "trade_exec e c d = Inr (r, d')"
    and again: "trade_exec e' c d' = Inr (r', d'')"
  shows "d'' = d' \<and> same_trade r r'"
proof -
  have inv': "trades_inv d'" by (rule trade_exec_inv [OF inv first])
  show ?thesis
  proof (cases c)
    case (Reserve actor p)
    from first Reserve have "reserve (te_now e) actor p d = Inr (r, d')" by simp
    then have "\<exists>k t. active_trade d' p = Some (k, t) \<and> tres_id r = k \<and> tres_trade r = t"
      by (cases rule: reserve_elim [OF inv, consumes 1]) (auto simp: active_after_reserve [OF inv])
    note state = this
    from again Reserve have "reserve (te_now e') actor p d' = Inr (r', d'')" by simp
    then show ?thesis using state
      by (cases rule: reserve_elim [OF inv', consumes 1]) (auto simp: same_trade_def)
  next
    case (Cancel actor k v)
    from first Cancel have "cancel (te_now e) actor k v d = Inr (r, d')" by simp
    then have "tget (trades d') k = Some (tres_trade r) \<and> trade_status (tres_trade r) = CANCELLED \<and> tres_id r = k"
      by (cases rule: cancel_elim [OF inv, consumes 1]) (auto simp: advanced_db_def tget_tmodify advanced_def)
    note state = this
    from again Cancel have "cancel (te_now e') actor k v d' = Inr (r', d'')" by simp
    then show ?thesis using state
      by (cases rule: cancel_elim [OF inv', consumes 1]) (auto simp: same_trade_def)
  next
    case (Complete actor k v)
    from first Complete have "complete (te_now e) (te_app_now e) actor k v d = Inr (r, d')" by simp
    then have "tget (trades d') k = Some (tres_trade r) \<and> trade_status (tres_trade r) = COMPLETED \<and> tres_id r = k"
      by (cases rule: complete_elim [OF inv, consumes 1]) (auto simp: advanced_db_def tget_tmodify advanced_def)
    note state = this
    from again Complete have "complete (te_now e') (te_app_now e') actor k v d' = Inr (r', d'')" by simp
    then show ?thesis using state
      by (cases rule: complete_elim [OF inv', consumes 1]) (auto simp: same_trade_def)
  qed
qed

interpretation lifecycle: replayable trade_exec same_trade trades_inv
  by unfold_locales (blast dest: trade_exec_replay)


section \<open>The transition system\<close>

definition same_trades :: "db \<Rightarrow> db \<Rightarrow> bool" where
  "same_trades d d' \<longleftrightarrow> trades d' = trades d \<and> trade_histories d' = trade_histories d"

inductive trade_step :: "db \<Rightarrow> (trade_environment \<times> trade_command) option \<Rightarrow> db \<Rightarrow> bool" where
  trade_call: "trade_step d (Some (e, c)) (snd (atomic (trade_exec e c) d))"
| trade_elsewhere: "same_trades d d' \<Longrightarrow> trade_step d None d'"

inductive_cases trade_stepE: "trade_step d l d'"

lemma same_trades_inv: "same_trades d d' \<Longrightarrow> trades_inv d \<Longrightarrow> trades_inv d'"
  by (simp add: same_trades_def trades_inv_def trade_log_def)

lemma trade_call_inv: "trades_inv d \<Longrightarrow> trades_inv (snd (atomic (trade_exec e c) d))"
  by (rule atomic_preserves) (rule trade_exec_inv)

interpretation trading: invariant_system trade_step trades_inv
  by unfold_locales (auto elim!: trade_stepE intro: trade_call_inv same_trades_inv)

definition final_kept :: "db \<Rightarrow> db \<Rightarrow> bool" where
  "final_kept d d' \<longleftrightarrow>
     (\<forall>k t. tget (trades d) k = Some t \<and> trade_status t \<noteq> RESERVED \<longrightarrow> tget (trades d') k = Some t)"

lemma advanced_final:
  "tget (trades d) k = Some t \<Longrightarrow> trade_status t = RESERVED \<Longrightarrow> final_kept d (advanced_db k t s c actor d)"
  by (auto simp: final_kept_def advanced_db_def tget_tmodify)

lemma trade_exec_final:
  assumes inv: "trades_inv d" and e: "trade_exec e c d = Inr (r, d')"
  shows "final_kept d d'"
proof (cases c)
  case (Reserve actor p)
  with e have "reserve (te_now e) actor p d = Inr (r, d')" by simp
  then show ?thesis
    by (cases rule: reserve_elim [OF inv, consumes 1])
       (auto simp: final_kept_def reserved_db_def tbl.create_keeps trades_inv_wf [OF inv])
next
  case (Cancel actor k v)
  with e have "cancel (te_now e) actor k v d = Inr (r, d')" by simp
  then show ?thesis
    by (cases rule: cancel_elim [OF inv, consumes 1]) (auto simp: advanced_final, simp add: final_kept_def)
next
  case (Complete actor k v)
  with e have "complete (te_now e) (te_app_now e) actor k v d = Inr (r, d')" by simp
  then show ?thesis
    by (cases rule: complete_elim [OF inv, consumes 1]) (auto simp: advanced_final, simp add: final_kept_def)
qed

lemma trade_call_final:
  assumes "trades_inv d"
  shows "final_kept d (snd (atomic (trade_exec e c) d))"
  by (rule atomic_preserves) (rule trade_exec_final [OF assms], assumption, simp add: final_kept_def)

lemma same_trades_final: "same_trades d d' \<Longrightarrow> final_kept d d'"
  by (simp add: same_trades_def final_kept_def)

section \<open>Example states\<close>

definition trade_user :: "string \<Rightarrow> user" where
  "trade_user name = \<lparr>user_username = lit name, user_password = Some 1, user_is_active = True,
     user_is_staff = False, user_is_superuser = False, user_meta_permission = False, user_bio = [],
     user_auth_epoch = 0, user_withdrawn_at = None, user_date_joined = 0\<rparr>"

definition sample_product :: product where
  "sample_product = \<lparr>product_owner_id = 1, product_title = lit ''lamp'', product_description = lit ''old'',
     product_price = 5, product_legacy_image = [], product_category_id = lit ''home'', product_region_id = None,
     product_region_source = LEGACY_UNSET, product_archived_at = None, product_version = 1,
     product_created_at = 0, product_demo_key = None\<rparr>"

definition shop :: db where
  "shop = empty_db\<lparr>users := \<lparr>rows = [(1, trade_user ''anna''), (2, trade_user ''bert'')], next_pk = 3\<rparr>,
     products := \<lparr>rows = [(7, sample_product)], next_pk = 8\<rparr>\<rparr>"

definition te0 :: trade_environment where "te0 = \<lparr>te_now = 100, te_app_now = 200\<rparr>"

lemma shop_run: "trading.run empty_db [None] shop"
  by (rule trading.run_cons [OF trade_elsewhere trading.run_nil])
     (simp add: same_trades_def shop_def empty_db_def)

lemma shop_inv: "trades_inv shop"
  by (rule same_trades_inv [OF _ trades_inv_empty]) (simp add: same_trades_def shop_def)

abbreviation reserved_shop :: db where
  "reserved_shop \<equiv> snd (atomic (trade_exec te0 (Reserve 2 7)) shop)"

abbreviation completed_shop :: db where
  "completed_shop \<equiv> snd (atomic (trade_exec te0 (Complete 1 1 None)) reserved_shop)"

definition completed_trade :: trade where
  "completed_trade = advanced (new_trade 100 7 1 2) COMPLETED (Some 200)"

lemma reserved_shop_eq: "reserved_shop = shop\<lparr>
    trades := \<lparr>rows = [(1, new_trade 100 7 1 2)], next_pk = 2\<rparr>,
    trade_histories := \<lparr>rows = [(1, logged 1 None RESERVED 2 1)], next_pk = 2\<rparr>\<rparr>"
  by code_simp

lemma completed_shop_eq: "completed_shop = shop\<lparr>
    trades := \<lparr>rows = [(1, completed_trade)], next_pk = 2\<rparr>,
    trade_histories := \<lparr>rows = [(1, logged 1 None RESERVED 2 1),
      (2, logged 1 (Some RESERVED) COMPLETED 1 2)], next_pk = 3\<rparr>\<rparr>"
  by code_simp

lemma completed_shop_run: "trading.run empty_db [None, Some (te0, Reserve 2 7), Some (te0, Complete 1 1 None)] completed_shop"
  using trading.run_append [OF shop_run
      trading.run_cons [OF trade_call trading.run_cons [OF trade_call trading.run_nil]]]
  by simp

section \<open>Properties\<close>

text \<open>
  C8: in every reachable state at most one trade of a product is reserved or completed, and
  the history of each trade is exactly the chain of transitions to its row: reserved by the
  buyer at version 1, then cancelled by a party or completed by the seller at version 2.
\<close>

theorem reachable_trades_consistent:
  assumes "trading.run empty_db calls d"
  shows "unique_on blocking (trades d) \<and> tall (\<lambda>k t. lifecycle_ok k t (trade_log d k)) (trades d)"
  using trading.run_inv [OF assms trades_inv_empty] by (simp add: trades_inv_def)

theorem reachable_trades_consistent_witness:
  "unique_on blocking (trades completed_shop) \<and>
   tall (\<lambda>k t. lifecycle_ok k t (trade_log completed_shop k)) (trades completed_shop)"
  by (rule reachable_trades_consistent [OF completed_shop_run])

text \<open>
  C9: cancelled and completed are final: whatever is called afterwards, the row of such a
  trade never changes.
\<close>

theorem final_trade_frozen:
  assumes "trades_inv d" "trading.run d calls d'" "tget (trades d) k = Some t" "trade_status t \<noteq> RESERVED"
  shows "tget (trades d') k = Some t"
proof -
  have step: "final_kept s s'" if "trade_step s l s'" "trades_inv s" for s l s'
    using that by (auto elim!: trade_stepE intro: trade_call_final same_trades_final)
  have "final_kept d d'"
    by (rule trading.run_monotone [OF step _ _ assms(2,1)]) (auto simp: final_kept_def)
  with assms(3,4) show ?thesis by (simp add: final_kept_def)
qed

theorem final_trade_frozen_witness:
  "tget (trades (snd (atomic (trade_exec te0 (Cancel 2 1 None)) completed_shop))) 1 = Some completed_trade"
proof (rule final_trade_frozen [OF _ trading.run_cons [OF trade_call trading.run_nil]])
  show "trades_inv completed_shop" by (rule trading.run_inv [OF completed_shop_run trades_inv_empty])
  show "tget (trades completed_shop) 1 = Some completed_trade"
    unfolding completed_shop_eq by (simp add: tget_def)
qed (simp add: completed_trade_def advanced_def)

text \<open>
  Sending a lifecycle command again, at any times, has the effect of sending it at most
  once: the database ends unchanged or as after one successful execution.
\<close>

theorem trade_command_at_most_once:
  assumes "trades_inv d"
  shows "lifecycle.deliver es c d = d \<or> (\<exists>e \<in> set es. \<exists>r. trade_exec e c d = Inr (r, lifecycle.deliver es c d))"
  by (rule lifecycle.deliver_at_most_once [OF assms])

theorem trade_command_at_most_once_witness:
  "lifecycle.deliver [te0, te0] (Reserve 2 7) shop = shop \<or>
    (\<exists>e \<in> set [te0, te0]. \<exists>r. trade_exec e (Reserve 2 7) shop = Inr (r, lifecycle.deliver [te0, te0] (Reserve 2 7) shop))"
  by (rule trade_command_at_most_once [OF shop_inv])

text \<open>
  Exactly who gets a reservation: another active user, on a product that exists and is not
  hidden, with an active owner, when no other reservation or sale of it stands.
\<close>

theorem reserve_granted_iff:
  assumes "trades_inv d"
  shows "(\<exists>r d'. reserve tnow actor product_id d = Inr (r, d')) \<longleftrightarrow>
    (\<exists>p. tget (products d) product_id = Some p \<and> actor \<noteq> product_owner_id p \<and>
       \<not> product_is_hidden tnow d product_id \<and>
       lock_active_users tnow actor (Some (product_owner_id p)) d = Inr () \<and>
       (\<forall>k t. active_trade d product_id = Some (k, t) \<longrightarrow>
          trade_status t = RESERVED \<and> trade_buyer_id t = Some actor))"
  unfolding reserve_closed [OF assms]
  by (auto simp: Let_def split: option.splits sum.splits prod.splits)

theorem reserve_granted_iff_witness:
  "(\<exists>r d'. reserve 100 2 7 shop = Inr (r, d')) \<longleftrightarrow>
    (\<exists>p. tget (products shop) 7 = Some p \<and> 2 \<noteq> product_owner_id p \<and>
       \<not> product_is_hidden 100 shop 7 \<and>
       lock_active_users 100 2 (Some (product_owner_id p)) shop = Inr () \<and>
       (\<forall>k t. active_trade shop 7 = Some (k, t) \<longrightarrow> trade_status t = RESERVED \<and> trade_buyer_id t = Some 2))"
  by (rule reserve_granted_iff [OF shop_inv])

text \<open>
  C19: a sale migrated as \<open>LEGACY_SOLD\<close> has no buyer, and the seller's cancel or complete of it
  ends in a \<open>TypeError\<close> of the lock helper (an HTTP 500), not in a lifecycle answer.
\<close>

theorem legacy_trade_crashes:
  assumes "tget (trades d) k = Some t" "trade_kind t = LEGACY_SOLD" "trade_check t"
    and "req_user r = Some (trade_seller_id t)" "req_content_type r = json_type" "\<not> req_has_body r"
  shows "complete_view tnow app_now k r d = (Server_Error TypeError, d) \<and>
    cancel_view tnow k r d = (Server_Error TypeError, d)"
proof -
  have b: "trade_buyer_id t = None" using assms(2,3) by (auto simp: trade_check_def)
  have v: "parse_version r = Inr None" using assms(5,6) by (simp add: parse_version_def)
  have "complete tnow app_now (trade_seller_id t) k None d = Inl TypeError"
    "cancel tnow (trade_seller_id t) k None d = Inl TypeError"
    using assms(1) by (simp_all add: complete_def cancel_def lock_active_users_def b)
  then show ?thesis
    using assms(4) v by (simp add: complete_view_def cancel_view_def trade_error_response_def is_subclass_def)
qed

definition legacy_trade :: trade where
  "legacy_trade = \<lparr>trade_product_id = 7, trade_seller_id = 1, trade_buyer_id = None,
     trade_kind = LEGACY_SOLD, trade_status = COMPLETED, trade_completed_at = Some 0,
     trade_created_at = 0, trade_version = 1\<rparr>"

theorem legacy_trade_crashes_witness:
  "fst (complete_view 100 200 3 \<lparr>req_user = Some 1, req_content_type = json_type, req_has_body = False, req_json = None\<rparr>
    (shop\<lparr>trades := \<lparr>rows = [(3, legacy_trade)], next_pk = 4\<rparr>\<rparr>)) = Server_Error TypeError"
  using legacy_trade_crashes [of "shop\<lparr>trades := \<lparr>rows = [(3, legacy_trade)], next_pk = 4\<rparr>\<rparr>" 3 legacy_trade
      "\<lparr>req_user = Some 1, req_content_type = json_type, req_has_body = False, req_json = None\<rparr>" 100 200]
  by (simp add: tget_def legacy_trade_def trade_check_def)

text \<open>
  A review is only ever written about the other party of a completed standard trade: the
  author is one of the two, the subject the other, the rating lies in 1..5, the text is the
  normalized input within its bounds, and what is stored passes the table's constraints.
\<close>

theorem review_only_between_parties:
  assumes "create_review nfc actor tid rating body d = Inr ((k, v, True), d')"
  shows "\<exists>t buyer b. tget (trades d) (review_trade_id v) = Some t \<and> trade_kind t = STANDARD \<and>
    trade_status t = COMPLETED \<and> trade_buyer_id t = Some buyer \<and> review_author_id v = ractor_id actor \<and>
    {review_author_id v, review_subject_id v} = {trade_seller_id t, buyer} \<and>
    body = Some b \<and> review_body v = nfc (py_strip b) \<and> length (review_body v) \<le> 1000 \<and>
    review_check v \<and> d' = d\<lparr>reviews := snd (tcreate v (reviews d))\<rparr>"
  using assms unfolding create_review_def normalize_review_body_def
  by (auto simp: Let_def split: option.splits if_splits sum.splits prod.splits)

theorem review_only_between_parties_witness:
  "\<exists>v. {review_author_id v, review_subject_id v} = {1, 2} \<and>
    (\<exists>k d'. create_review (\<lambda>s. s) \<lparr>ractor_id = 2, ractor_authenticated = True, ractor_active = True\<rparr>
      (Some 1) (Some 5) (Some (lit '' fine '')) completed_shop = Inr ((k, v, True), d'))"
proof -
  have t: "tget (trades completed_shop) (Suc 0) = Some completed_trade" and r: "rows (reviews completed_shop) = []"
    unfolding completed_shop_eq by (simp_all add: tget_def shop_def empty_db_def empty_table_def)
  have f: "trade_buyer_id completed_trade = Some 2" "trade_seller_id completed_trade = Suc 0"
    "trade_kind completed_trade = STANDARD" "trade_status completed_trade = COMPLETED"
    by (simp_all add: completed_trade_def advanced_def new_trade_def)
  have n: "normalize_review_body (\<lambda>s. s) (Some (lit '' fine '')) = Inr (lit ''fine'')"
    by (simp add: normalize_review_body_def py_strip_def py_isspace_def lit_def review_char_ok_def)
  have len: "lit ''fine'' \<noteq> []" by (simp add: lit_def)
  obtain k v d' where e: "create_review (\<lambda>s. s) \<lparr>ractor_id = 2, ractor_authenticated = True, ractor_active = True\<rparr>
      (Some 1) (Some 5) (Some (lit '' fine '')) completed_shop = Inr ((k, v, True), d')" and v: "review_trade_id v = Suc 0"
    using t r f n len by (auto simp: create_review_def tfirst_def review_check_def Let_def)
  from review_only_between_parties [OF e] t v f show ?thesis using e by auto
qed

end
