(* ===== verification/Gallery.thy ===== *)
theory Gallery imports Moderation_Services begin

text \<open>
  The product gallery of \<open>catalog/services.py\<close>: bounds and containers of an uploaded image,
  staging a replacement inside the caller's transaction, promoting staged bytes to their
  owned key after commit, and the durable outbox of storage deletions. The file storage is
  a parameter: its four operations and its own state \<open>'s\<close>, which no database rollback undoes.
  Pillow's decoder and encoder are parameters too.
\<close>

type_synonym content = "nat list"

section \<open>Accepting an upload\<close>

definition MAX_IMAGE_BYTES :: nat where "MAX_IMAGE_BYTES = 5 * 1024 * 1024"
definition MAX_IMAGE_DIMENSION :: nat where "MAX_IMAGE_DIMENSION = 4096"

datatype image_format = JPEG | PNG | WEBP

fun format_type :: "image_format \<Rightarrow> pystr" where
  "format_type JPEG = lit ''image/jpeg''"
| "format_type PNG = lit ''image/png''"
| "format_type WEBP = lit ''image/webp''"

fun format_extension :: "image_format \<Rightarrow> pystr" where
  "format_extension JPEG = lit ''jpg''"
| "format_extension PNG = lit ''png''"
| "format_extension WEBP = lit ''webp''"

text \<open>
  A name without separators is its own \<open>PurePosixPath(name).name\<close> unless it is \<open>.\<close>; the
  other conditions of the check are spelled out.
\<close>

definition validate_name :: "pystr \<Rightarrow> unit result" where
  "validate_name name =
     (if name = [] \<or> 0 \<in> set name \<or> 92 \<in> set name \<or> 47 \<in> set name \<or>
         name \<in> {lit ''.'', lit ''..''}
      then Inl ValidationError else Inr ())"

fun read_chunks :: "nat \<Rightarrow> content \<Rightarrow> content list \<Rightarrow> content result" where
  "read_chunks count acc [] = (if count = 0 then Inl ValidationError else Inr acc)"
| "read_chunks count acc (c # cs) =
     (if count + length c > MAX_IMAGE_BYTES then Inl ValidationError
      else read_chunks (count + length c) (acc @ c) cs)"

definition read_bounded :: "content list \<Rightarrow> content result" where
  "read_bounded chunks = read_chunks 0 [] chunks"

definition starts_with :: "content \<Rightarrow> content \<Rightarrow> bool" where
  "starts_with p raw \<longleftrightarrow> take (length p) raw = p"

definition ends_with :: "content \<Rightarrow> content \<Rightarrow> bool" where
  "ends_with p raw \<longleftrightarrow> length p \<le> length raw \<and> drop (length raw - length p) raw = p"

fun little_endian :: "content \<Rightarrow> nat" where
  "little_endian [] = 0"
| "little_endian (b # bs) = b + 256 * little_endian bs"

definition validate_container :: "content \<Rightarrow> unit result" where
  "validate_container raw =
     (let is_jpeg = starts_with [255, 216] raw \<and> ends_with [255, 217] raw;
          is_png = starts_with [137, 80, 78, 71, 13, 10, 26, 10] raw \<and>
                   ends_with [0, 0, 0, 0, 73, 69, 78, 68, 174, 66, 96, 130] raw;
          is_webp = length raw \<ge> 12 \<and> starts_with [82, 73, 70, 70] raw \<and>
                    take 4 (drop 8 raw) = [87, 69, 66, 80] \<and>
                    little_endian (take 4 (drop 4 raw)) + 8 = length raw
      in if is_jpeg \<or> is_png \<or> is_webp then Inr () else Inl ValidationError)"

definition validate_dimensions :: "nat \<Rightarrow> nat \<Rightarrow> unit result" where
  "validate_dimensions width height =
     (if 0 < width \<and> width \<le> MAX_IMAGE_DIMENSION \<and> 0 < height \<and> height \<le> MAX_IMAGE_DIMENSION
      then Inr () else Inl ValidationError)"

text \<open>What Pillow reports of the bytes, and what it makes of them.\<close>

record probe =
  probe_format :: "image_format option"  \<comment> \<open>\<open>None\<close> for a format outside the three\<close>
  probe_frames :: nat
  probe_width :: nat
  probe_height :: nat

record codec =
  codec_open :: "content \<Rightarrow> probe option"       \<comment> \<open>\<open>None\<close> when opening or verifying raises\<close>
  codec_load :: "content \<Rightarrow> (nat \<times> nat) option" \<comment> \<open>the size of the decoded image\<close>
  codec_encode :: "image_format \<Rightarrow> content \<Rightarrow> content option"

record sanitized_image =
  si_extension :: pystr
  si_content_type :: pystr
  si_width :: nat
  si_height :: nat
  si_byte_size :: nat
  si_content :: content

definition sanitize :: "codec \<Rightarrow> pystr \<Rightarrow> pystr \<Rightarrow> content list \<Rightarrow> sanitized_image result" where
  "sanitize codec name declared chunks =
     (case validate_name name of Inl e \<Rightarrow> Inl e | Inr _ \<Rightarrow>
      if declared \<notin> set (map format_type [JPEG, PNG, WEBP]) then Inl ValidationError
      else
     (case read_bounded chunks of Inl e \<Rightarrow> Inl e | Inr raw \<Rightarrow>
     (case validate_container raw of Inl e \<Rightarrow> Inl e | Inr _ \<Rightarrow>
     (case codec_open codec raw of None \<Rightarrow> Inl ValidationError | Some probe \<Rightarrow>
     (case probe_format probe of
        None \<Rightarrow> Inl ValidationError
      | Some fmt \<Rightarrow>
          if declared \<noteq> format_type fmt \<or> probe_frames probe \<noteq> 1 then Inl ValidationError
          else
     (case validate_dimensions (probe_width probe) (probe_height probe) of Inl e \<Rightarrow> Inl e | Inr _ \<Rightarrow>
     (case codec_load codec raw of None \<Rightarrow> Inl ValidationError | Some (w, h) \<Rightarrow>
     (case validate_dimensions w h of Inl e \<Rightarrow> Inl e | Inr _ \<Rightarrow>
     (case codec_encode codec fmt raw of None \<Rightarrow> Inl ValidationError | Some encoded \<Rightarrow>
        if length encoded > MAX_IMAGE_BYTES then Inl ValidationError
        else Inr \<lparr>si_extension = format_extension fmt, si_content_type = format_type fmt,
                  si_width = probe_width probe, si_height = probe_height probe,
                  si_byte_size = length encoded, si_content = encoded\<rparr>)))))))))"

definition MAX_PRODUCT_IMAGES :: nat where "MAX_PRODUCT_IMAGES = 4"

fun sanitize_all :: "codec \<Rightarrow> (pystr \<times> pystr \<times> content list) list \<Rightarrow> sanitized_image list result" where
  "sanitize_all codec [] = Inr []"
| "sanitize_all codec ((name, declared, chunks) # us) =
     (case sanitize codec name declared chunks of
        Inl e \<Rightarrow> Inl e
      | Inr i \<Rightarrow> (case sanitize_all codec us of Inl e \<Rightarrow> Inl e | Inr is \<Rightarrow> Inr (i # is)))"

definition clean_images :: "codec \<Rightarrow> (pystr \<times> pystr \<times> content list) list \<Rightarrow> sanitized_image list result" where
  "clean_images codec uploads =
     (if length uploads > MAX_PRODUCT_IMAGES then Inl ValidationError else sanitize_all codec uploads)"

section \<open>Storage and the outbox\<close>

record 's storage =
  st_save :: "pystr \<Rightarrow> content \<Rightarrow> 's \<Rightarrow> (exn + pystr) \<times> 's"
  st_read :: "pystr \<Rightarrow> 's \<Rightarrow> exn + content"
  st_exists :: "pystr \<Rightarrow> 's \<Rightarrow> exn + bool"
  st_delete :: "pystr \<Rightarrow> 's \<Rightarrow> (exn + unit) \<times> 's"

text \<open>\<open>_persist_deletion_intents\<close>: non-empty keys once each, existing rows left alone.\<close>

fun add_intents :: "pystr list \<Rightarrow> db \<Rightarrow> db" where
  "add_intents [] d = d"
| "add_intents (k # ks) d =
     add_intents ks
       (if k = [] \<or> texists (\<lambda>_ i. intent_storage_key i = k) (deletion_intents d) then d
        else d\<lparr>deletion_intents := snd (tcreate \<lparr>intent_storage_key = k, intent_last_attempt_at = None,
                                                intent_attempts = 0\<rparr> (deletion_intents d))\<rparr>)"

text \<open>\<open>GalleryStaging.cleanup\<close>: the keys whose deletion failed.\<close>

fun cleanup :: "'s storage \<Rightarrow> pystr list \<Rightarrow> 's \<Rightarrow> pystr list \<times> 's" where
  "cleanup st [] s = ([], s)"
| "cleanup st (n # ns) s =
     (case st_delete st n s of
        (Inl _, s1) \<Rightarrow> (let (fs, s2) = cleanup st ns s1 in (n # fs, s2))
      | (Inr _, s1) \<Rightarrow> cleanup st ns s1)"

section \<open>Staging a replacement\<close>

record staged_upload =
  up_image :: sanitized_image
  up_temp_uuid :: nat
  up_owned_uuid :: nat

definition temp_name :: "staged_upload \<Rightarrow> pystr" where
  "temp_name u = lit ''product-images/tmp/'' @ uuid_str (up_temp_uuid u) @ lit ''.'' @ si_extension (up_image u)"

definition owned_name :: "nat \<Rightarrow> staged_upload \<Rightarrow> pystr" where
  "owned_name product_id u =
     lit ''product-images/owned/'' @ dec product_id @ lit ''/'' @ uuid_str (up_owned_uuid u) @ lit ''.'' @
     si_extension (up_image u)"

text \<open>
  The loop over the new images. \<open>files\<close> are the names saved so far; they are returned on an
  error too, because the exception handler deletes them.
\<close>

fun stage_images ::
    "'s storage \<Rightarrow> (content \<Rightarrow> nat) \<Rightarrow> nat \<Rightarrow> nat \<Rightarrow> pystr list \<Rightarrow> staged_upload list \<Rightarrow> pystr list \<Rightarrow> 's \<Rightarrow>
     (exn + product_image list) \<times> pystr list \<times> 's" where
  "stage_images st sha pid pos protected [] files s = (Inr [], files, s)"
| "stage_images st sha pid pos protected (u # us) files s =
     (if temp_name u \<in> set protected \<or> owned_name pid u \<in> set protected then (Inl RuntimeError, files, s)
      else case st_save st (temp_name u) (si_content (up_image u)) s of
        (Inl e, s1) \<Rightarrow> (Inl e, files, s1)
      | (Inr saved, s1) \<Rightarrow>
          if saved \<noteq> temp_name u then (Inl RuntimeError, files @ [saved], s1)
          else
            let row = \<lparr>image_product_id = pid, image_name = saved, image_position = pos,
                       image_sha256 = sha (si_content (up_image u)), image_byte_size = si_byte_size (up_image u),
                       image_width = si_width (up_image u), image_height = si_height (up_image u),
                       image_owned_key = owned_name pid u, image_promotion_state = IMAGE_PENDING\<rparr> in
            (case stage_images st sha pid (Suc pos) (saved # owned_name pid u # protected) us (files @ [saved]) s1 of
               (Inl e, fs, s2) \<Rightarrow> (Inl e, fs, s2)
             | (Inr rs, fs, s2) \<Rightarrow> (Inr (row # rs), fs, s2)))"

definition images_of :: "nat \<Rightarrow> db \<Rightarrow> product_image list" where
  "images_of pid d = map snd (tselect (\<lambda>_ i. image_product_id i = pid) (product_images d))"

definition superseded_keys :: "product \<Rightarrow> product_image list \<Rightarrow> pystr list" where
  "superseded_keys p existing =
     filter (\<lambda>k. k \<noteq> product_legacy_image p)
       (remdups (map image_name (filter (\<lambda>i. image_promotion_state i = IMAGE_PROMOTED) existing) @
        concat (map (\<lambda>i. [image_name i, image_owned_key i])
          (filter (\<lambda>i. image_promotion_state i = IMAGE_PENDING) existing))))"

fun create_images :: "product_image list \<Rightarrow> db \<Rightarrow> exn + db" where
  "create_images [] d = Inr d"
| "create_images (i # is) d =
     (if \<not> product_image_check i \<or>
         texists (\<lambda>_ j. image_product_id j = image_product_id i \<and> image_position j = image_position i)
           (product_images d)
      then Inl IntegrityError
      else create_images is (d\<lparr>product_images := snd (tcreate i (product_images d))\<rparr>))"

text \<open>
  The result is the error with the keys its handler could not delete, or the staged names and
  the database of the still open transaction.
\<close>

definition replace_product_images ::
    "'s storage \<Rightarrow> (content \<Rightarrow> nat) \<Rightarrow> bool \<Rightarrow> nat \<Rightarrow> staged_upload list \<Rightarrow> db \<Rightarrow> 's \<Rightarrow>
     ((exn \<times> pystr list) + (pystr list \<times> db)) \<times> 's" where
  "replace_product_images st sha in_atomic pid ups d s =
     (if \<not> in_atomic then (Inl (RuntimeError, []), s)
      else if length ups > 4 then (Inl (ValidationError, []), s)
      else case tget (products d) pid of
        None \<Rightarrow> (Inl (ObjectDoesNotExist, []), s)
      | Some p \<Rightarrow>
          let existing = images_of pid d;
              protected = filter (\<lambda>n. n \<noteq> [])
                (product_legacy_image p # map image_name existing @ map image_owned_key existing) in
          (case stage_images st sha pid 0 protected ups [] s of
             (Inl e, files, s1) \<Rightarrow> (let (failed, s2) = cleanup st files s1 in (Inl (e, failed), s2))
           | (Inr new_rows, files, s1) \<Rightarrow>
               let d1 = add_intents (superseded_keys p existing) d;
                   d2 = d1\<lparr>product_images := tdelete (\<lambda>_ i. image_product_id i = pid) (product_images d1)\<rparr> in
               (case create_images new_rows d2 of
                  Inl e \<Rightarrow> (let (failed, s2) = cleanup st files s1 in (Inl (e, failed), s2))
                | Inr d3 \<Rightarrow> (Inr (files, d3), s1))))"

section \<open>Promotion\<close>

definition storage_checksum :: "'s storage \<Rightarrow> (content \<Rightarrow> nat) \<Rightarrow> pystr \<Rightarrow> 's \<Rightarrow> nat result" where
  "storage_checksum st sha name s = (case st_read st name s of Inl e \<Rightarrow> Inl e | Inr c \<Rightarrow> Inr (sha c))"

text \<open>
  Bringing the staged bytes to the owned key: \<open>Inl (e, keys)\<close> is the error with the keys it
  recorded as not cleaned up.
\<close>

definition place_owned ::
    "'s storage \<Rightarrow> (content \<Rightarrow> nat) \<Rightarrow> product_image \<Rightarrow> 's \<Rightarrow> ((exn \<times> pystr list) + unit) \<times> 's" where
  "place_owned st sha i s =
     (case st_exists st (image_owned_key i) s of
        Inl e \<Rightarrow> (Inl (e, []), s)
      | Inr True \<Rightarrow>
          (case storage_checksum st sha (image_owned_key i) s of
             Inl e \<Rightarrow> (Inl (e, []), s)
           | Inr h \<Rightarrow> if h \<noteq> image_sha256 i then (Inl (RuntimeError, []), s) else (Inr (), s))
      | Inr False \<Rightarrow>
          (case st_read st (image_name i) s of
             Inl e \<Rightarrow> (Inl (e, []), s)
           | Inr c \<Rightarrow>
               (case st_save st (image_owned_key i) c s of
                  (Inl e, s1) \<Rightarrow> (Inl (e, []), s1)
                | (Inr saved, s1) \<Rightarrow>
                    if saved \<noteq> image_owned_key i then
                      (case st_delete st saved s1 of
                         (Inl _, s2) \<Rightarrow> (Inl (RuntimeError, [saved]), s2)
                       | (Inr _, s2) \<Rightarrow> (Inl (RuntimeError, []), s2))
                    else
                      (case storage_checksum st sha (image_owned_key i) s1 of
                         Inl e \<Rightarrow> (Inl (e, []), s1)
                       | Inr h \<Rightarrow> if h \<noteq> image_sha256 i then (Inl (RuntimeError, []), s1) else (Inr (), s1)))))"

definition promote_one ::
    "'s storage \<Rightarrow> (content \<Rightarrow> nat) \<Rightarrow> nat \<Rightarrow> db \<Rightarrow> 's \<Rightarrow> exn option \<times> db \<times> 's" where
  "promote_one st sha image_id d s =
     (case tget (product_images d) image_id of
        None \<Rightarrow> (Some ObjectDoesNotExist, d, s)
      | Some i \<Rightarrow>
          if image_promotion_state i \<noteq> IMAGE_PENDING then (None, d, s)
          else
            (case place_owned st sha i s of
               (Inl (e, keys), s1) \<Rightarrow> (Some e, add_intents keys d, s1)
             | (Inr _, s1) \<Rightarrow>
                 (case st_delete st (image_name i) s1 of
                    (Inl e, s2) \<Rightarrow> (Some e, d, s2)
                  | (Inr _, s2) \<Rightarrow>
                      (None, d\<lparr>product_images := tmodify image_id
                         (\<lambda>i. i\<lparr>image_name := image_owned_key i, image_promotion_state := IMAGE_PROMOTED\<rparr>)
                         (product_images d)\<rparr>, s2))))"

fun promote_each ::
    "'s storage \<Rightarrow> (content \<Rightarrow> nat) \<Rightarrow> nat list \<Rightarrow> db \<Rightarrow> 's \<Rightarrow> exn list \<times> db \<times> 's" where
  "promote_each st sha [] d s = ([], d, s)"
| "promote_each st sha (i # is) d s =
     (case promote_one st sha i d s of
        (f, d1, s1) \<Rightarrow>
          (case promote_each st sha is d1 s1 of
             (fs, d2, s2) \<Rightarrow> ((case f of None \<Rightarrow> fs | Some e \<Rightarrow> e # fs), d2, s2)))"

definition promote_product_images ::
    "'s storage \<Rightarrow> (content \<Rightarrow> nat) \<Rightarrow> nat list option \<Rightarrow> nat option \<Rightarrow> db \<Rightarrow> 's \<Rightarrow> exn option \<times> db \<times> 's" where
  "promote_product_images st sha image_ids product_id d s =
     (let ids = map fst (tselect (\<lambda>k i. image_promotion_state i = IMAGE_PENDING \<and>
                  (case image_ids of None \<Rightarrow> True | Some ks \<Rightarrow> k \<in> set ks) \<and>
                  (case product_id of None \<Rightarrow> True | Some p \<Rightarrow> image_product_id i = p)) (product_images d)) in
      case promote_each st sha ids d s of
        ([], d1, s1) \<Rightarrow> (None, d1, s1)
      | (e # _, d1, s1) \<Rightarrow> (Some e, d1, s1))"

section \<open>Deletions\<close>

definition repair_deletion ::
    "'s storage \<Rightarrow> instant \<Rightarrow> nat \<Rightarrow> db \<Rightarrow> 's \<Rightarrow> exn option \<times> db \<times> 's" where
  "repair_deletion st app_now intent_id d s =
     (case tget (deletion_intents d) intent_id of
        None \<Rightarrow> (Some ObjectDoesNotExist, d, s)
      | Some i \<Rightarrow>
          let d1 = d\<lparr>deletion_intents := tmodify intent_id
                (\<lambda>i. i\<lparr>intent_attempts := intent_attempts i + 1, intent_last_attempt_at := Some app_now\<rparr>)
                (deletion_intents d)\<rparr> in
          (case st_delete st (intent_storage_key i) s of
             (Inl e, s1) \<Rightarrow> (Some e, d1, s1)
           | (Inr _, s1) \<Rightarrow>
               (None, d1\<lparr>deletion_intents := tdelete (\<lambda>k _. k = intent_id) (deletion_intents d1)\<rparr>, s1)))"

fun repair_each :: "'s storage \<Rightarrow> instant \<Rightarrow> nat list \<Rightarrow> db \<Rightarrow> 's \<Rightarrow> exn list \<times> db \<times> 's" where
  "repair_each st now [] d s = ([], d, s)"
| "repair_each st now (i # is) d s =
     (case repair_deletion st now i d s of
        (f, d1, s1) \<Rightarrow>
          (case repair_each st now is d1 s1 of
             (fs, d2, s2) \<Rightarrow> ((case f of None \<Rightarrow> fs | Some e \<Rightarrow> e # fs), d2, s2)))"

definition repair_product_image_deletions ::
    "'s storage \<Rightarrow> instant \<Rightarrow> db \<Rightarrow> 's \<Rightarrow> exn option \<times> db \<times> 's" where
  "repair_product_image_deletions st now d s =
     (case repair_each st now (map fst (rows (deletion_intents d))) d s of
        ([], d1, s1) \<Rightarrow> (None, d1, s1)
      | (e # _, d1, s1) \<Rightarrow> (Some e, d1, s1))"

definition repair_product_image_lifecycle ::
    "'s storage \<Rightarrow> (content \<Rightarrow> nat) \<Rightarrow> instant \<Rightarrow> db \<Rightarrow> 's \<Rightarrow> exn option \<times> db \<times> 's" where
  "repair_product_image_lifecycle st sha now d s =
     (case promote_product_images st sha None None d s of
        (Some e, d1, s1) \<Rightarrow> (Some e, d1, s1)
      | (None, d1, s1) \<Rightarrow> repair_product_image_deletions st now d1 s1)"

text \<open>The commit hook swallows the errors of both phases.\<close>

definition repair_after_commit ::
    "'s storage \<Rightarrow> (content \<Rightarrow> nat) \<Rightarrow> instant \<Rightarrow> nat \<Rightarrow> db \<Rightarrow> 's \<Rightarrow> db \<times> 's" where
  "repair_after_commit st sha now product_id d s =
     (case promote_product_images st sha None (Some product_id) d s of
        (_, d1, s1) \<Rightarrow> (case repair_product_image_deletions st now d1 s1 of (_, d2, s2) \<Rightarrow> (d2, s2)))"

end
