(* ===== verification/Catalog.thy ===== *)
theory Catalog imports Trades "HOL-Library.Product_Lexorder" begin

text \<open>
  The read side of the catalog (\<open>catalog/projectors.py\<close>, \<open>engagement.py\<close>, \<open>search.py\<close>): the
  lifecycle projection of a product, favorites, view counting and the rebuildable metrics,
  and the product search with its parameter check, ordering and pages of 20.
\<close>

section \<open>The lifecycle projection\<close>

datatype product_state = AVAILABLE | PRODUCT_RESERVED | SOLD

text \<open>
  \<open>.first()\<close> of the non-cancelled trades; the unique constraint leaves at most one, so the
  ordering does not matter. \<open>aware\<close> says whether \<open>db_now\<close> carries a time zone.
\<close>

definition lifecycle_status :: "db \<Rightarrow> nat \<Rightarrow> trade_status option" where
  "lifecycle_status d product_id =
     map_option (\<lambda>(_, t). trade_status t)
       (tfirst (\<lambda>_ t. trade_product_id t = product_id \<and> trade_status t \<in> {RESERVED, COMPLETED}) (trades d))"

definition effective_product_state :: "nat \<Rightarrow> bool \<Rightarrow> db \<Rightarrow> product_state result" where
  "effective_product_state product_id aware d =
     (if \<not> aware then Inl ValueError
      else Inr (case lifecycle_status d product_id of
                  Some COMPLETED \<Rightarrow> SOLD
                | Some RESERVED \<Rightarrow> PRODUCT_RESERVED
                | _ \<Rightarrow> AVAILABLE))"

definition legacy_trade_is_review_eligible :: "trade \<Rightarrow> bool" where
  "legacy_trade_is_review_eligible t \<longleftrightarrow> trade_kind t \<noteq> LEGACY_SOLD \<and> trade_buyer_id t \<noteq> None"

section \<open>Engagement\<close>

definition product_chat_count :: "nat \<Rightarrow> db \<Rightarrow> nat" where
  "product_chat_count product_id d =
     length (remdups (map (\<lambda>(_, v). conversation_buyer_id v)
       (tselect (\<lambda>_ v. conversation_product_id v = product_id) (product_conversations d))))"

definition product_counts :: "nat \<Rightarrow> db \<Rightarrow> product_metric" where
  "product_counts product_id d =
     \<lparr>metric_product_id = product_id,
      metric_favorite_count = tcount (\<lambda>_ f. favorite_product_id f = product_id) (favorites d),
      metric_view_count = tcount (\<lambda>_ v. view_product_id v = product_id) (product_views d),
      metric_product_chat_count = product_chat_count product_id d,
      metric_completed_trade_count =
        tcount (\<lambda>_ t. trade_product_id t = product_id \<and> trade_status t = COMPLETED) (trades d)\<rparr>"

definition metric_of :: "db \<Rightarrow> nat \<Rightarrow> (nat \<times> product_metric) option" where
  "metric_of d product_id = tfirst (\<lambda>_ m. metric_product_id m = product_id) (product_metrics d)"

definition recompute_product_metric :: "nat \<Rightarrow> db \<Rightarrow> exn + (product_metric \<times> db)" where
  "recompute_product_metric product_id d =
     (if tget (products d) product_id = None then Inl ObjectDoesNotExist
      else
        let counts = product_counts product_id d in
        (case metric_of d product_id of
           Some (k, _) \<Rightarrow> Inr (counts, d\<lparr>product_metrics := tmodify k (\<lambda>_. counts) (product_metrics d)\<rparr>)
         | None \<Rightarrow> Inr (counts, d\<lparr>product_metrics := snd (tcreate counts (product_metrics d))\<rparr>)))"

record metric_delta =
  delta_favorite :: int
  delta_view :: int
  delta_chat :: int
  delta_completed :: int

definition metric_recompute_delta :: "nat \<Rightarrow> db \<Rightarrow> exn + (metric_delta \<times> db)" where
  "metric_recompute_delta product_id d =
     (let old = (case metric_of d product_id of
                   Some (_, m) \<Rightarrow> m
                 | None \<Rightarrow> \<lparr>metric_product_id = product_id, metric_favorite_count = 0, metric_view_count = 0,
                            metric_product_chat_count = 0, metric_completed_trade_count = 0\<rparr>) in
      case recompute_product_metric product_id d of
        Inl e \<Rightarrow> Inl e
      | Inr (m, d') \<Rightarrow> Inr (\<lparr>delta_favorite = int (metric_favorite_count m) - int (metric_favorite_count old),
                             delta_view = int (metric_view_count m) - int (metric_view_count old),
                             delta_chat = int (metric_product_chat_count m) - int (metric_product_chat_count old),
                             delta_completed = int (metric_completed_trade_count m)
                                                 - int (metric_completed_trade_count old)\<rparr>, d'))"

definition is_favorite :: "nat \<Rightarrow> nat \<Rightarrow> nat \<Rightarrow> favorite \<Rightarrow> bool" where
  "is_favorite user_id product_id k f \<longleftrightarrow> favorite_user_id f = user_id \<and> favorite_product_id f = product_id"

definition set_favorite :: "instant \<Rightarrow> nat \<Rightarrow> nat \<Rightarrow> bool \<Rightarrow> db \<Rightarrow> exn + (product_metric \<times> db)" where
  "set_favorite app_now user_id product_id active d =
     (if \<not> texists (\<lambda>k u. k = user_id \<and> user_is_active u \<and> user_withdrawn_at u = None) (users d)
      then Inl PermissionDenied
      else if tget (products d) product_id = None then Inl ObjectDoesNotExist
      else
        let d1 = (if active then
                    (if texists (is_favorite user_id product_id) (favorites d) then d
                     else d\<lparr>favorites := snd (tcreate \<lparr>favorite_user_id = user_id,
                             favorite_product_id = product_id, favorite_created_at = app_now\<rparr> (favorites d))\<rparr>)
                  else d\<lparr>favorites := tdelete (is_favorite user_id product_id) (favorites d)\<rparr>)
        in recompute_product_metric product_id d1)"

text \<open>
  \<open>digest\<close> is the keyed digest of the viewer's session for a product and a UTC day (two
  nested HMACs); \<open>session\<close> is the session key, freshly created when the request had none.
\<close>

definition utc_day :: "instant \<Rightarrow> int" where
  "utc_day t = t div days 1"

definition record_product_view ::
    "(nat \<Rightarrow> int \<Rightarrow> nat \<Rightarrow> nat) \<Rightarrow> instant \<Rightarrow> nat option \<Rightarrow> nat \<Rightarrow> nat \<Rightarrow> nat \<Rightarrow> db \<Rightarrow>
     exn + (product_metric \<times> db)" where
  "record_product_view digest app_now viewer session product_id owner d =
     (if viewer = Some owner then recompute_product_metric product_id d
      else
        let day = utc_day app_now; dg = digest product_id day session;
            seen = texists (\<lambda>_ v. view_product_id v = product_id \<and> view_viewed_on v = day \<and>
                                  view_viewer_digest v = dg) (product_views d);
            d1 = (if seen then d
                  else d\<lparr>product_views := snd (tcreate \<lparr>view_product_id = product_id,
                         view_viewed_on = day, view_viewer_digest = dg\<rparr> (product_views d))\<rparr>)
        in recompute_product_metric product_id d1)"

section \<open>Search parameters\<close>

datatype sort_order = NEWEST | PRICE_ASC | PRICE_DESC
datatype status_filter = ANY_STATUS | ONLY_AVAILABLE | ONLY_SOLD

record product_search =
  search_q :: pystr
  search_status :: status_filter
  search_min_price :: "nat option"
  search_max_price :: "nat option"
  search_sort :: sort_order
  search_page :: nat
  search_category :: pystr
  search_region :: pystr

text \<open>
  A query string as Django decodes it: its pairs in order. \<open>get\<close> takes the last value of a
  key. \<open>InvalidProductSearch\<close> is a \<open>ValueError\<close>.
\<close>

type_synonym query = "(pystr \<times> pystr) list"

definition qget :: "query \<Rightarrow> string \<Rightarrow> pystr \<Rightarrow> pystr" where
  "qget q key dflt = (case map_of (rev q) (lit key) of None \<Rightarrow> dflt | Some v \<Rightarrow> v)"

definition allowed_keys :: "pystr list" where
  "allowed_keys = map lit [''q'', ''status'', ''min_price'', ''max_price'', ''sort'', ''page'', ''category'', ''region'']"

definition bounded_integer :: "pystr \<Rightarrow> nat \<Rightarrow> nat \<Rightarrow> nat result" where
  "bounded_integer raw minimum maximum =
     (if raw = [] \<or> \<not> list_all is_digit raw then Inl ValueError
      else if \<not> (minimum \<le> undec raw \<and> undec raw \<le> maximum) then Inl ValueError
      else Inr (undec raw))"

definition optional_price :: "pystr \<Rightarrow> nat option result" where
  "optional_price raw =
     (if raw = [] then Inr None
      else case bounded_integer raw 1 999999999999 of Inl e \<Rightarrow> Inl e | Inr n \<Rightarrow> Inr (Some n))"

definition parse_status :: "pystr \<Rightarrow> status_filter result" where
  "parse_status s =
     (if s = [] then Inr ANY_STATUS else if s = lit ''available'' then Inr ONLY_AVAILABLE
      else if s = lit ''sold'' then Inr ONLY_SOLD else Inl ValueError)"

definition parse_sort :: "pystr \<Rightarrow> sort_order result" where
  "parse_sort s =
     (if s = [] \<or> s = lit ''newest'' then Inr NEWEST else if s = lit ''price_asc'' then Inr PRICE_ASC
      else if s = lit ''price_desc'' then Inr PRICE_DESC else Inl ValueError)"

text \<open>\<open>nfc\<close> is NFC normalization, \<open>control\<close> the Unicode categories Cc and Cf.\<close>

definition parse_product_search ::
    "(pystr \<Rightarrow> pystr) \<Rightarrow> (nat \<Rightarrow> bool) \<Rightarrow> db \<Rightarrow> query \<Rightarrow> product_search result" where
  "parse_product_search nfc control d params =
     (if \<not> list_all (\<lambda>(k, _). k \<in> set allowed_keys) params \<or> \<not> distinct (map fst params) then Inl ValueError
      else
        let q = nfc (py_strip (qget params ''q'' [])) in
        if length q > 100 \<or> list_ex control q then Inl ValueError
        else
     (case parse_status (qget params ''status'' []) of Inl e \<Rightarrow> Inl e | Inr status \<Rightarrow>
     (case parse_sort (qget params ''sort'' (lit ''newest'')) of Inl e \<Rightarrow> Inl e | Inr sort_by \<Rightarrow>
     (case (let p = qget params ''page'' (lit ''1'') in
            bounded_integer (if p = [] then lit ''1'' else p) 1 500) of Inl e \<Rightarrow> Inl e | Inr page \<Rightarrow>
     (case optional_price (qget params ''min_price'' []) of Inl e \<Rightarrow> Inl e | Inr minimum \<Rightarrow>
     (case optional_price (qget params ''max_price'' []) of Inl e \<Rightarrow> Inl e | Inr maximum \<Rightarrow>
        if (case (minimum, maximum) of (Some a, Some b) \<Rightarrow> a > b | _ \<Rightarrow> False) then Inl ValueError
        else
          let category = qget params ''category'' []; region = qget params ''region'' [] in
          if category \<noteq> [] \<and> category \<notin> set (categories d) then Inl ValueError
          else if region \<noteq> [] \<and> region \<notin> set (regions d) then Inl ValueError
          else Inr \<lparr>search_q = q, search_status = status, search_min_price = minimum,
                    search_max_price = maximum, search_sort = sort_by, search_page = page,
                    search_category = category, search_region = region\<rparr>))))))"

section \<open>The search\<close>

definition has_completed_trade :: "db \<Rightarrow> nat \<Rightarrow> bool" where
  "has_completed_trade d product_id \<longleftrightarrow>
     texists (\<lambda>_ t. trade_product_id t = product_id \<and> trade_status t = COMPLETED) (trades d)"

text \<open>\<open>icontains needle text\<close> is the database's case-insensitive containment.\<close>

definition search_matches :: "(pystr \<Rightarrow> pystr \<Rightarrow> bool) \<Rightarrow> db \<Rightarrow> product_search \<Rightarrow> nat \<Rightarrow> product \<Rightarrow> bool" where
  "search_matches icontains d s k p \<longleftrightarrow>
     (search_q s = [] \<or> icontains (search_q s) (product_title p) \<or> icontains (search_q s) (product_description p)) \<and>
     (case search_status s of ANY_STATUS \<Rightarrow> True
      | ONLY_AVAILABLE \<Rightarrow> \<not> has_completed_trade d k | ONLY_SOLD \<Rightarrow> has_completed_trade d k) \<and>
     (case search_min_price s of None \<Rightarrow> True | Some m \<Rightarrow> int m \<le> product_price p) \<and>
     (case search_max_price s of None \<Rightarrow> True | Some m \<Rightarrow> product_price p \<le> int m) \<and>
     (search_category s = [] \<or> product_category_id p = search_category s) \<and>
     (search_region s = [] \<or> product_region_id p = Some (search_region s))"

fun sort_rows :: "sort_order \<Rightarrow> (nat \<times> product) list \<Rightarrow> (nat \<times> product) list" where
  "sort_rows NEWEST ps = sort_key (\<lambda>(k, p). (- product_created_at p, - int k)) ps"
| "sort_rows PRICE_ASC ps = sort_key (\<lambda>(k, p). (product_price p, - int k)) ps"
| "sort_rows PRICE_DESC ps = sort_key (\<lambda>(k, p). (- product_price p, - int k)) ps"

definition primary_image :: "db \<Rightarrow> nat \<Rightarrow> pystr option" where
  "primary_image d product_id =
     (case sort_key (\<lambda>(k, i). (image_position i, k))
             (tselect (\<lambda>_ i. image_product_id i = product_id \<and> image_promotion_state i = IMAGE_PROMOTED)
                (product_images d)) of
        [] \<Rightarrow> None | (_, i) # _ \<Rightarrow> Some (image_name i))"

definition search_hits :: "(pystr \<Rightarrow> pystr \<Rightarrow> bool) \<Rightarrow> instant \<Rightarrow> db \<Rightarrow> product_search \<Rightarrow> (nat \<times> product) list" where
  "search_hits icontains tnow d s =
     sort_rows (search_sort s)
       (filter (\<lambda>(k, p). search_matches icontains d s k p)
          (visible_products tnow d (tselect (\<lambda>_ p. product_archived_at p = None) (products d))))"

definition search_products ::
    "(pystr \<Rightarrow> pystr \<Rightarrow> bool) \<Rightarrow> instant \<Rightarrow> db \<Rightarrow> product_search \<Rightarrow> ((nat \<times> product \<times> pystr option) list \<times> nat)" where
  "search_products icontains tnow d s =
     (let hits = search_hits icontains tnow d s; start = (search_page s - 1) * 20 in
      (map (\<lambda>(k, p). (k, p, primary_image d k)) (take 20 (drop start hits)), length hits))"

end
