(* ===== verification/Listings.thy ===== *)
theory Listings imports Gallery Catalog begin

text \<open>
  The product pages of \<open>catalog/views.py\<close> with the forms of \<open>catalog/forms.py\<close>: creating,
  editing and archiving an own product, the favorite command, and the list and detail pages.
  A page that changes images runs one transaction, the clean-up of its staged files when the
  transaction fails, and the gallery repair after it committed. Rendering is not modelled: a
  page is its status and what it shows.
\<close>

section \<open>The product form\<close>

text \<open>
  The submitted fields. \<open>raw_price\<close> is the whole number the price field parses to (\<open>None\<close> when
  it is no number or has decimals), \<open>raw_version\<close> the hidden version field of the update form.
\<close>

type_synonym upload = "pystr \<times> pystr \<times> content list"

record product_form =
  raw_title :: pystr
  raw_description :: pystr
  raw_price :: "int option"
  raw_category :: pystr
  raw_region :: pystr
  raw_images :: "upload list"
  raw_version :: "int option"
  raw_clear_images :: bool

record cleaned_product =
  cleaned_title :: pystr
  cleaned_description :: pystr
  cleaned_price :: int
  cleaned_category :: pystr
  cleaned_region :: "pystr option"
  cleaned_images :: "sanitized_image list"

definition CATEGORY_CHOICES :: "pystr list" where
  "CATEGORY_CHOICES = map lit [''DIGITAL_APPLIANCES'', ''LIVING_KITCHEN'', ''FURNITURE_INTERIOR'',
     ''FASHION_GOODS'', ''SPORTS_HOBBIES'', ''BOOKS'', ''OTHER'']"

text \<open>The category field only offers the fixed choices; an empty one becomes \<open>OTHER\<close>.\<close>

definition clean_category :: "db \<Rightarrow> pystr \<Rightarrow> pystr result" where
  "clean_category d raw =
     (if raw \<noteq> [] then
        (if raw \<in> set CATEGORY_CHOICES \<and> raw \<in> set (categories d) then Inr raw else Inl ValidationError)
      else if lit ''OTHER'' \<in> set (categories d) then Inr (lit ''OTHER'')
      else Inl ValidationError)"

definition clean_text :: "nat \<Rightarrow> pystr \<Rightarrow> pystr result" where
  "clean_text limit raw =
     (let s = py_strip raw in
      if s = [] \<or> length s > limit \<or> 0 \<in> set s then Inl ValidationError else Inr s)"

definition clean_product :: "codec \<Rightarrow> db \<Rightarrow> product_form \<Rightarrow> cleaned_product result" where
  "clean_product codec d f =
     (case clean_text 120 (raw_title f) of Inl e \<Rightarrow> Inl e | Inr title \<Rightarrow>
     (case clean_text 2000 (raw_description f) of Inl e \<Rightarrow> Inl e | Inr description \<Rightarrow>
     (case raw_price f of None \<Rightarrow> Inl ValidationError | Some price \<Rightarrow>
        if price < 1 \<or> price > 999999999999 then Inl ValidationError
        else
     (case clean_category d (raw_category f) of Inl e \<Rightarrow> Inl e | Inr category \<Rightarrow>
        if raw_region f \<noteq> [] \<and> raw_region f \<notin> set (regions d) then Inl ValidationError
        else
     (case clean_images codec (raw_images f) of Inl e \<Rightarrow> Inl e | Inr images \<Rightarrow>
        Inr \<lparr>cleaned_title = title, cleaned_description = description, cleaned_price = price,
             cleaned_category = category,
             cleaned_region = (if raw_region f = [] then None else Some (raw_region f)),
             cleaned_images = images\<rparr>)))))"

text \<open>The update form: the version must be a positive integer, clearing excludes new images.\<close>

definition clean_update :: "codec \<Rightarrow> db \<Rightarrow> product_form \<Rightarrow> (cleaned_product \<times> int) result" where
  "clean_update codec d f =
     (case clean_product codec d f of Inl e \<Rightarrow> Inl e | Inr c \<Rightarrow>
     (case raw_version f of
        None \<Rightarrow> Inl ValidationError
      | Some v \<Rightarrow>
          if v < 1 \<or> raw_clear_images f \<and> cleaned_images c \<noteq> [] then Inl ValidationError
          else Inr (c, v)))"

section \<open>Environment and answers\<close>

text \<open>
  What a request draws from its surroundings: the image codec, the storage, the digest, the NFC
  normalisation \<open>Product.save\<close> applies, the clock, two fresh UUIDs per image position, and
  whether the database refuses the commit.
\<close>

record 's page_env =
  env_codec :: codec
  env_storage :: "'s storage"
  env_sha :: "content \<Rightarrow> nat"
  env_nfc :: "pystr \<Rightarrow> pystr"
  env_now :: instant
  env_uuids :: "nat \<Rightarrow> nat \<times> nat"
  env_commit :: "exn option"

datatype page =
    Page nat                 \<comment> \<open>a rendered page or text with this status\<close>
  | To_Detail nat            \<comment> \<open>a redirect to a product\<close>
  | To_List
  | Raised exn               \<comment> \<open>an exception that leaves the view\<close>

definition staged :: "'s page_env \<Rightarrow> sanitized_image list \<Rightarrow> staged_upload list" where
  "staged e images =
     map (\<lambda>(n, i). \<lparr>up_image = i, up_temp_uuid = fst (env_uuids e n), up_owned_uuid = snd (env_uuids e n)\<rparr>)
       (zip [0..<length images] images)"

text \<open>
  The end of \<open>product_create\<close> and \<open>product_update\<close>. An error inside the transaction leaves the
  database as it was, apart from intents for the staged keys its handler could not delete; a
  failing commit is handled the same way, with the clean-up done by the view. After a commit
  the hook of \<open>replace_product_images\<close> runs.
\<close>

definition finish_page ::
    "'s page_env \<Rightarrow> db \<Rightarrow> nat \<Rightarrow> ((exn \<times> pystr list) + (pystr list \<times> db)) \<times> 's \<Rightarrow> page \<times> db \<times> 's" where
  "finish_page e d pid r =
     (case r of
        (Inl (x, failed), s1) \<Rightarrow> (Raised x, add_intents failed d, s1)
      | (Inr (files, d1), s1) \<Rightarrow>
          (case env_commit e of
             Some x \<Rightarrow> (let (failed, s2) = cleanup (env_storage e) files s1 in (Raised x, add_intents failed d, s2))
           | None \<Rightarrow> (let (d2, s2) = repair_after_commit (env_storage e) (env_sha e) (env_now e) pid d1 s1 in
                      (To_Detail pid, d2, s2))))"

section \<open>Creating\<close>

definition region_source_of :: "pystr option \<Rightarrow> region_source" where
  "region_source_of r = (if r = None then LEGACY_UNSET else SELECTED)"

definition new_product :: "'s page_env \<Rightarrow> nat \<Rightarrow> cleaned_product \<Rightarrow> product" where
  "new_product e owner c =
     \<lparr>product_owner_id = owner, product_title = env_nfc e (cleaned_title c),
      product_description = env_nfc e (cleaned_description c), product_price = cleaned_price c,
      product_legacy_image = [], product_category_id = cleaned_category c,
      product_region_id = cleaned_region c, product_region_source = region_source_of (cleaned_region c),
      product_archived_at = None, product_version = 1, product_created_at = env_now e,
      product_demo_key = None\<rparr>"

definition product_create ::
    "'s page_env \<Rightarrow> nat \<Rightarrow> product_form option \<Rightarrow> db \<Rightarrow> 's \<Rightarrow> page \<times> db \<times> 's" where
  "product_create e user_id post d s =
     (case post of None \<Rightarrow> (Page 200, d, s) | Some form \<Rightarrow>
     (case clean_product (env_codec e) d form of Inl _ \<Rightarrow> (Page 200, d, s) | Inr c \<Rightarrow>
        let (pid, t) = tcreate (new_product e user_id c) (products d) in
        finish_page e d pid
          (replace_product_images (env_storage e) (env_sha e) True pid (staged e (cleaned_images c))
             (d\<lparr>products := t\<rparr>) s)))"

section \<open>Editing\<close>

definition owned_product :: "nat \<Rightarrow> nat \<Rightarrow> db \<Rightarrow> product option" where
  "owned_product user_id pk d =
     (case tget (products d) pk of
        None \<Rightarrow> None
      | Some p \<Rightarrow> if product_owner_id p = user_id \<and> product_archived_at p = None then Some p else None)"

definition edited :: "'s page_env \<Rightarrow> cleaned_product \<Rightarrow> product \<Rightarrow> product" where
  "edited e c p =
     p\<lparr>product_title := env_nfc e (cleaned_title c),
       product_description := env_nfc e (cleaned_description c), product_price := cleaned_price c,
       product_category_id := cleaned_category c, product_region_id := cleaned_region c,
       product_region_source := region_source_of (cleaned_region c),
       product_version := product_version p + 1\<rparr>"

text \<open>The writes of an accepted edit: the row, then the gallery when images came or are to go.\<close>

definition save_edit ::
    "'s page_env \<Rightarrow> nat \<Rightarrow> cleaned_product \<Rightarrow> bool \<Rightarrow> db \<Rightarrow> 's \<Rightarrow> page \<times> db \<times> 's" where
  "save_edit e pk c clear d s =
     (let d1 = d\<lparr>products := tmodify pk (edited e c) (products d)\<rparr> in
      if cleaned_images c \<noteq> [] \<or> clear then
        finish_page e d pk
          (replace_product_images (env_storage e) (env_sha e) True pk (staged e (cleaned_images c)) d1 s)
      else (case env_commit e of Some x \<Rightarrow> (Raised x, d, s) | None \<Rightarrow> (To_Detail pk, d1, s)))"

text \<open>
  \<open>seen\<close> is the database the view read before it waited for the row lock, \<open>d\<close> the database
  under the lock; without a concurrent request they are the same.
\<close>

definition product_update ::
    "'s page_env \<Rightarrow> nat \<Rightarrow> nat \<Rightarrow> product_form option \<Rightarrow> db \<Rightarrow> db \<Rightarrow> 's \<Rightarrow> page \<times> db \<times> 's" where
  "product_update e user_id pk post seen d s =
     (case owned_product user_id pk seen of None \<Rightarrow> (Page 404, d, s) | Some _ \<Rightarrow>
     (case post of None \<Rightarrow> (Page 200, d, s) | Some form \<Rightarrow>
     (case clean_update (env_codec e) seen form of Inl _ \<Rightarrow> (Page 200, d, s) | Inr (c, version) \<Rightarrow>
     (case owned_product user_id pk d of None \<Rightarrow> (Page 404, d, s) | Some p \<Rightarrow>
        if version \<noteq> int (product_version p) then (Page 409, d, s)
        else save_edit e pk c (raw_clear_images form) d s))))"

text \<open>Archiving: \<open>post\<close> is the parsed version of a POST, \<open>-1\<close> when it is no integer.\<close>

definition product_delete ::
    "instant \<Rightarrow> nat \<Rightarrow> nat \<Rightarrow> int option \<Rightarrow> db \<Rightarrow> db \<Rightarrow> page \<times> db" where
  "product_delete cnow user_id pk post seen d =
     (case owned_product user_id pk seen of None \<Rightarrow> (Page 404, d) | Some _ \<Rightarrow>
     (case post of None \<Rightarrow> (Page 200, d) | Some submitted_version \<Rightarrow>
     (case owned_product user_id pk d of None \<Rightarrow> (Page 404, d) | Some p \<Rightarrow>
        if submitted_version \<noteq> int (product_version p) then (Page 409, d)
        else (To_List, d\<lparr>products := tmodify pk
                 (\<lambda>p. p\<lparr>product_archived_at := Some cnow, product_version := product_version p + 1\<rparr>)
                 (products d)\<rparr>))))"

section \<open>Favorites and the read pages\<close>

definition unarchived :: "nat \<Rightarrow> db \<Rightarrow> bool" where
  "unarchived pk d \<longleftrightarrow> texists (\<lambda>k p. k = pk \<and> product_archived_at p = None) (products d)"

definition is_product_public :: "instant \<Rightarrow> nat \<Rightarrow> db \<Rightarrow> bool" where
  "is_product_public tnow product_id d \<longleftrightarrow> effective_product_visibility tnow d product_id = VISIBLE"

definition product_favorite :: "instant \<Rightarrow> instant \<Rightarrow> nat \<Rightarrow> nat \<Rightarrow> query \<Rightarrow> db \<Rightarrow> page \<times> db" where
  "product_favorite tnow app_now user_id pk post d =
     (if \<not> unarchived pk d \<or> \<not> is_product_public tnow pk d then (Page 404, d)
      else
        let action = qget post ''action'' [] in
        if set (map fst post) \<noteq> {lit ''action''} \<or> action \<notin> {lit ''add'', lit ''remove''} then (Page 400, d)
        else (case atomic (set_favorite app_now user_id pk (action = lit ''add'')) d of
                (Inl x, d1) \<Rightarrow> (Raised x, d1)
              | (Inr _, d1) \<Rightarrow> (To_Detail pk, d1)))"

record detail =
  detail_state :: product_state
  detail_seller :: identity_projection
  detail_metric :: product_metric
  detail_is_favorite :: bool

definition attach_effective_state :: "nat \<Rightarrow> db \<Rightarrow> product_state" where
  "attach_effective_state product_id d =
     (case effective_product_state product_id True d of Inr st \<Rightarrow> st | Inl _ \<Rightarrow> AVAILABLE)"

definition product_detail ::
    "(nat \<Rightarrow> int \<Rightarrow> nat \<Rightarrow> nat) \<Rightarrow> instant \<Rightarrow> instant \<Rightarrow> nat option \<Rightarrow> nat \<Rightarrow> nat \<Rightarrow> db \<Rightarrow>
     (page + detail) \<times> db" where
  "product_detail digest tnow app_now viewer session pk d =
     (case tget (products d) pk of
        None \<Rightarrow> (Inl (Page 404), d)
      | Some p \<Rightarrow>
          if product_archived_at p \<noteq> None \<or> \<not> is_product_public tnow pk d then (Inl (Page 404), d)
          else (case atomic (record_product_view digest app_now viewer session pk (product_owner_id p)) d of
                  (Inl x, d1) \<Rightarrow> (Inl (Raised x), d1)
                | (Inr metric, d1) \<Rightarrow>
                    (Inr \<lparr>detail_state = attach_effective_state pk d,
                          detail_seller = project_account_identity (user_ref d (product_owner_id p)),
                          detail_metric = metric,
                          detail_is_favorite = (case viewer of None \<Rightarrow> False
                            | Some u \<Rightarrow> texists (is_favorite u pk) (favorites d1))\<rparr>, d1)))"

record list_page =
  list_products :: "(nat \<times> product_state) list"
  list_total_count :: nat
  list_has_previous :: bool
  list_has_next :: bool

definition product_list ::
    "(pystr \<Rightarrow> pystr) \<Rightarrow> (nat \<Rightarrow> bool) \<Rightarrow> (pystr \<Rightarrow> pystr \<Rightarrow> bool) \<Rightarrow> instant \<Rightarrow> query \<Rightarrow> db \<Rightarrow> page + list_page" where
  "product_list nfc control icontains tnow params d =
     (case parse_product_search nfc control d params of
        Inl _ \<Rightarrow> Inl (Page 400)
      | Inr search \<Rightarrow>
          (let (found, total) = search_products icontains tnow d search in
           Inr \<lparr>list_products = map (\<lambda>(k, _, _). (k, attach_effective_state k d)) found,
                list_total_count = total, list_has_previous = search_page search > 1,
                list_has_next = search_page search * 20 < total\<rparr>))"

definition favorite_list :: "instant \<Rightarrow> nat \<Rightarrow> db \<Rightarrow> (nat \<times> product_state) list" where
  "favorite_list tnow user_id d =
     (let favs = tselect (\<lambda>_ f. favorite_user_id f = user_id) (favorites d);
          mine = concat (map (\<lambda>(_, f). map (\<lambda>(k, p). (k, p, favorite_created_at f))
            (tselect (\<lambda>k p. k = favorite_product_id f \<and> product_archived_at p = None) (products d))) favs);
          shown = filter (\<lambda>(k, p, _). visible_products tnow d [(k, p)] \<noteq> []) mine
      in map (\<lambda>(k, _, _). (k, attach_effective_state k d))
           (sort_key (\<lambda>(k, _, at). (- at, - int k)) shown))"

end
