(* ===== verification/Gallery_System.thy ===== *)
theory Gallery_System imports Listings begin

text \<open>
  The gallery as a whole: what the code relies on of the file storage, the invariant that the
  bytes of every stored image are in the storage under a key nothing is going to delete, and
  its preservation by staging, promotion, the outbox and the pages that use them, whatever
  storage call fails on the way.
\<close>

section \<open>The storage the code relies on\<close>

text \<open>
  \<open>look s k\<close> is the content stored under \<open>k\<close>. The laws are those Django documents for a
  storage: \<open>save\<close> never overwrites, it picks another free name with an underscore suffix when
  the wanted one is taken; \<open>delete\<close> concerns only its key. A call that raises may have done
  part of its work.
\<close>

type_synonym 's lookup = "'s \<Rightarrow> pystr \<Rightarrow> content option"

definition touches :: "'s lookup \<Rightarrow> pystr set \<Rightarrow> 's \<Rightarrow> 's \<Rightarrow> bool" where
  "touches look X s s' \<longleftrightarrow> (\<forall>k c. k \<notin> X \<longrightarrow> look s k = Some c \<longrightarrow> look s' k = Some c)"

definition storage_ok :: "'s lookup \<Rightarrow> 's storage \<Rightarrow> bool" where
  "storage_ok look st \<longleftrightarrow>
     (\<forall>n c s r s'. st_save st n c s = (r, s') \<longrightarrow>
        touches look {} s s' \<and>
        (\<forall>saved. r = Inr saved \<longrightarrow> look s saved = None \<and> look s' saved = Some c \<and> (saved = n \<or> 95 \<in> set saved))) \<and>
     (\<forall>n s c. st_read st n s = Inr c \<longrightarrow> look s n = Some c) \<and>
     (\<forall>n s r s'. st_delete st n s = (r, s') \<longrightarrow> touches look {n} s s' \<and> (r = Inr () \<longrightarrow> look s' n = None))"

lemma touches_refl [simp]: "touches look X s s"
  by (simp add: touches_def)

lemma touches_trans: "touches look X s s' \<Longrightarrow> touches look Y s' s'' \<Longrightarrow> X \<union> Y \<subseteq> Z \<Longrightarrow> touches look Z s s''"
  unfolding touches_def by (meson Un_subset_iff subset_iff)

text \<open>A key that was free before can be written and deleted without touching anything.\<close>

lemma touches_fresh: "touches look X s s' \<Longrightarrow> (\<And>k. k \<in> X \<Longrightarrow> look s k = None) \<Longrightarrow> touches look {} s s'"
  unfolding touches_def by (metis empty_iff option.distinct(1))

lemma touchesD: "touches look X s s' \<Longrightarrow> k \<notin> X \<Longrightarrow> look s k = Some c \<Longrightarrow> look s' k = Some c"
  by (simp add: touches_def)

lemma touches_none: "touches look {} s s' \<Longrightarrow> look s' k = None \<Longrightarrow> look s k = None"
  unfolding touches_def by (metis empty_iff option.distinct(1) option.exhaust)

lemma save_ok:
  assumes "storage_ok look st" "st_save st n c s = (r, s')"
  shows "touches look {} s s'"
    and "r = Inr saved \<Longrightarrow> look s saved = None \<and> look s' saved = Some c \<and> (saved = n \<or> 95 \<in> set saved)"
  using assms unfolding storage_ok_def by blast+

lemma read_ok: "storage_ok look st \<Longrightarrow> st_read st n s = Inr c \<Longrightarrow> look s n = Some c"
  unfolding storage_ok_def by blast

lemma delete_ok:
  assumes "storage_ok look st" "st_delete st n s = (r, s')"
  shows "touches look {n} s s'" and "r = Inr u \<Longrightarrow> look s' n = None"
  using assms unfolding storage_ok_def by (blast, metis old.unit.exhaust)

lemma cleanup_ok:
  "storage_ok look st \<Longrightarrow> cleanup st ns s = (failed, s') \<Longrightarrow>
   touches look (set ns) s s' \<and> set failed \<subseteq> set ns"
proof (induction ns arbitrary: s s' failed)
  case (Cons n ns)
  obtain r s1 where d: "st_delete st n s = (r, s1)" by force
  obtain fs s2 where c: "cleanup st ns s1 = (fs, s2)" by force
  from Cons.IH [OF Cons.prems(1) c] have ih: "touches look (set ns) s1 s2" "set fs \<subseteq> set ns" by auto
  have "touches look (set (n # ns)) s s2"
    by (rule touches_trans [OF delete_ok(1) [OF Cons.prems(1) d] ih(1)]) simp
  with Cons.prems(2) d c ih(2) show ?case by (cases r) auto
qed simp

section \<open>The invariant\<close>

definition row_keys :: "product_image \<Rightarrow> pystr set" where
  "row_keys i = (if image_promotion_state i = IMAGE_PROMOTED then {image_name i} else {image_name i, image_owned_key i})"

definition holds :: "'s lookup \<Rightarrow> (content \<Rightarrow> nat) \<Rightarrow> 's \<Rightarrow> pystr \<Rightarrow> nat \<Rightarrow> bool" where
  "holds look sha s k h \<longleftrightarrow> (\<exists>c. look s k = Some c \<and> sha c = h)"

text \<open>The bytes of a row are stored: under its name, or for a pending row already under its owned key.\<close>

definition image_safe :: "'s lookup \<Rightarrow> (content \<Rightarrow> nat) \<Rightarrow> 's \<Rightarrow> product_image \<Rightarrow> bool" where
  "image_safe look sha s i \<longleftrightarrow>
     holds look sha s (image_name i) (image_sha256 i) \<or>
     image_promotion_state i = IMAGE_PENDING \<and> holds look sha s (image_owned_key i) (image_sha256 i)"

definition intent_keys :: "db \<Rightarrow> pystr set" where
  "intent_keys d = (\<lambda>(_, i). intent_storage_key i) ` set (rows (deletion_intents d))"

definition pending_names_ok :: "product_image \<Rightarrow> bool" where
  "pending_names_ok i \<longleftrightarrow> image_promotion_state i = IMAGE_PENDING \<longrightarrow>
     image_name i \<noteq> image_owned_key i \<and> 95 \<notin> set (image_name i) \<and> 95 \<notin> set (image_owned_key i)"

definition rows_apart :: "product_image table \<Rightarrow> bool" where
  "rows_apart t \<longleftrightarrow>
     (\<forall>k k' i i'. tget t k = Some i \<longrightarrow> tget t k' = Some i' \<longrightarrow> k \<noteq> k' \<longrightarrow> row_keys i \<inter> row_keys i' = {})"

definition gallery_inv :: "'s lookup \<Rightarrow> (content \<Rightarrow> nat) \<Rightarrow> db \<Rightarrow> 's \<Rightarrow> bool" where
  "gallery_inv look sha d s \<longleftrightarrow>
     wf_table (product_images d) \<and> rows_apart (product_images d) \<and>
     (\<forall>k i. tget (product_images d) k = Some i \<longrightarrow>
        image_safe look sha s i \<and> pending_names_ok i \<and> row_keys i \<inter> intent_keys d = {})"

lemma gallery_rowD:
  assumes "gallery_inv look sha d s" "tget (product_images d) k = Some i"
  shows "image_safe look sha s i" "pending_names_ok i" "row_keys i \<inter> intent_keys d = {}"
  using assms unfolding gallery_inv_def by blast+

lemma holds_touch: "holds look sha s k h \<Longrightarrow> touches look X s s' \<Longrightarrow> k \<notin> X \<Longrightarrow> holds look sha s' k h"
  by (auto simp: holds_def touches_def)

lemma image_safe_touch:
  "image_safe look sha s i \<Longrightarrow> touches look X s s' \<Longrightarrow> row_keys i \<inter> X = {} \<Longrightarrow> image_safe look sha s' i"
  using holds_touch [of look sha s "image_name i" "image_sha256 i" X s']
    holds_touch [of look sha s "image_owned_key i" "image_sha256 i" X s']
  by (auto simp: image_safe_def row_keys_def split: if_splits)

text \<open>The keys of a row that are free are those of a pending row.\<close>

lemma fresh_key_not_row:
  assumes "gallery_inv look sha d s" "tget (product_images d) k = Some i" "look s n = None" "95 \<in> set n"
  shows "n \<notin> row_keys i"
proof (cases "image_promotion_state i")
  case IMAGE_PENDING
  with gallery_rowD(2) [OF assms(1,2)] assms(4) show ?thesis
    by (auto simp: row_keys_def pending_names_ok_def)
next
  case IMAGE_PROMOTED
  with gallery_rowD(1) [OF assms(1,2)] assms(3) show ?thesis
    by (auto simp: row_keys_def image_safe_def holds_def)
qed

lemma gallery_touch:
  assumes "gallery_inv look sha d s" "touches look X s s'"
    and "\<And>k i. tget (product_images d) k = Some i \<Longrightarrow> row_keys i \<inter> X = {}"
  shows "gallery_inv look sha d s'"
  using assms(1,3) image_safe_touch [OF _ assms(2)] unfolding gallery_inv_def by blast

section \<open>The outbox\<close>

lemma add_intents_same: "product_images (add_intents ks d) = product_images d" "products (add_intents ks d) = products d"
  by (induction ks arbitrary: d) simp_all

lemma intent_keys_add: "intent_keys (add_intents ks d) \<subseteq> intent_keys d \<union> set ks"
proof (induction ks arbitrary: d)
  case (Cons k ks)
  let ?d = "if k = [] \<or> texists (\<lambda>_ i. intent_storage_key i = k) (deletion_intents d) then d
        else d\<lparr>deletion_intents := snd (tcreate \<lparr>intent_storage_key = k, intent_last_attempt_at = None,
                                                intent_attempts = 0\<rparr> (deletion_intents d))\<rparr>"
  have "intent_keys ?d \<subseteq> insert k (intent_keys d)" by (auto simp: intent_keys_def)
  moreover have "intent_keys (add_intents (k # ks) d) \<subseteq> intent_keys ?d \<union> set ks"
    unfolding add_intents.simps by (rule Cons.IH)
  ultimately show ?case by auto
qed simp

lemma gallery_intents:
  assumes "gallery_inv look sha d s"
    and "\<And>k i. tget (product_images d) k = Some i \<Longrightarrow> row_keys i \<inter> set ks = {}"
  shows "gallery_inv look sha (add_intents ks d) s"
  using assms intent_keys_add [of ks d] unfolding gallery_inv_def add_intents_same by blast

lemma gallery_fewer_intents:
  assumes "gallery_inv look sha d s" "product_images d' = product_images d" "intent_keys d' \<subseteq> intent_keys d"
  shows "gallery_inv look sha d' s"
  using assms unfolding gallery_inv_def by (auto; blast)

lemma repair_deletion_inv:
  assumes "storage_ok look st" "gallery_inv look sha d s" "repair_deletion st now n d s = (r, d', s')"
  shows "gallery_inv look sha d' s'"
proof (cases "tget (deletion_intents d) n")
  case None
  with assms show ?thesis by (simp add: repair_deletion_def)
next
  case (Some i)
  let ?d1 = "d\<lparr>deletion_intents := tmodify n
      (\<lambda>i. i\<lparr>intent_attempts := intent_attempts i + 1, intent_last_attempt_at := Some now\<rparr>) (deletion_intents d)\<rparr>"
  obtain q s1 where del: "st_delete st (intent_storage_key i) s = (q, s1)" by force
  from Some have key: "intent_storage_key i \<in> intent_keys d"
    by (force simp: intent_keys_def dest: tget_in_rows)
  have g: "gallery_inv look sha d s1"
    by (rule gallery_touch [OF assms(2) delete_ok(1) [OF assms(1) del]])
      (use gallery_rowD(3) [OF assms(2)] key in blast)
  have "intent_keys ?d1 \<subseteq> intent_keys d"
    by (force simp: intent_keys_def tmodify_def tupdate_def)
  moreover have "intent_keys (?d1\<lparr>deletion_intents := tdelete (\<lambda>k _. k = n) (deletion_intents ?d1)\<rparr>) \<subseteq> intent_keys ?d1"
    by (force simp: intent_keys_def tdelete_def)
  ultimately show ?thesis
    using assms(3) Some del gallery_fewer_intents [OF g, of ?d1]
      gallery_fewer_intents [OF g, of "?d1\<lparr>deletion_intents := tdelete (\<lambda>k _. k = n) (deletion_intents ?d1)\<rparr>"]
    by (cases q) (auto simp: repair_deletion_def Let_def)
qed

lemma repair_each_inv:
  "storage_ok look st \<Longrightarrow> gallery_inv look sha d s \<Longrightarrow> repair_each st now ns d s = (r, d', s') \<Longrightarrow>
   gallery_inv look sha d' s'"
proof (induction ns arbitrary: d s r d' s')
  case (Cons n ns)
  obtain f d1 s1 where one: "repair_deletion st now n d s = (f, d1, s1)" by (metis prod_cases3)
  obtain fs d2 s2 where rest: "repair_each st now ns d1 s1 = (fs, d2, s2)" by (metis prod_cases3)
  from Cons.IH [OF Cons.prems(1) repair_deletion_inv [OF Cons.prems(1,2) one] rest] Cons.prems(3) one rest
  show ?case by simp
qed simp

lemma repair_deletions_inv:
  assumes "storage_ok look st" "gallery_inv look sha d s" "repair_product_image_deletions st now d s = (r, d', s')"
  shows "gallery_inv look sha d' s'"
proof -
  obtain fs d2 s2 where rest: "repair_each st now (map fst (rows (deletion_intents d))) d s = (fs, d2, s2)"
    by (metis prod_cases3)
  from repair_each_inv [OF assms(1,2) rest] assms(3) rest show ?thesis
    by (cases fs) (simp_all add: repair_product_image_deletions_def)
qed

section \<open>Promotion\<close>

lemma checksum_ok: "storage_ok look st \<Longrightarrow> storage_checksum st sha n s = Inr h \<Longrightarrow> holds look sha s n h"
  by (auto simp: storage_checksum_def holds_def split: sum.splits dest: read_ok)

text \<open>Placing the bytes touches no existing key; what it could not clean up is a new key of its own.\<close>

lemma place_owned_ok:
  assumes "storage_ok look st" "place_owned st sha i s = (r, s')"
  shows "touches look {} s s' \<and>
    (\<forall>e ks. r = Inl (e, ks) \<longrightarrow> (\<forall>k \<in> set ks. look s k = None \<and> 95 \<in> set k)) \<and>
    (\<forall>u. r = Inr u \<longrightarrow> holds look sha s' (image_owned_key i) (image_sha256 i))"
proof (cases "st_exists st (image_owned_key i) s")
  case (Inl e)
  with assms(2) show ?thesis by (auto simp: place_owned_def)
next
  case (Inr b)
  show ?thesis
  proof (cases b)
    case True
    with Inr assms(2) checksum_ok [OF assms(1), of sha "image_owned_key i" s] show ?thesis
      by (auto simp: place_owned_def split: sum.splits if_splits)
  next
    case False
    show ?thesis
    proof (cases "st_read st (image_name i) s")
      case (Inl e)
      with Inr False assms(2) show ?thesis by (auto simp: place_owned_def)
    next
      case c: (Inr c)
      obtain q s1 where save: "st_save st (image_owned_key i) c s = (q, s1)" by force
      note t = save_ok(1) [OF assms(1) save]
      show ?thesis
      proof (cases q)
        case (Inl e)
        with Inr False c save assms(2) t show ?thesis by (auto simp: place_owned_def)
      next
        case saved: (Inr saved)
        note fresh = save_ok(2) [OF assms(1) save saved]
        show ?thesis
        proof (cases "saved = image_owned_key i")
          case True
          with Inr False c save saved assms(2) t checksum_ok [OF assms(1), of sha "image_owned_key i" s1]
          show ?thesis by (auto simp: place_owned_def split: sum.splits if_splits)
        next
          case other: False
          obtain u s2 where del: "st_delete st saved s1 = (u, s2)" by force
          have "touches look {saved} s s2"
            by (rule touches_trans [OF t delete_ok(1) [OF assms(1) del]]) simp
          from touches_fresh [OF this] fresh have "touches look {} s s2" by simp
          with Inr False c save saved assms(2) fresh other del show ?thesis
            by (cases u) (auto simp: place_owned_def)
        qed
      qed
    qed
  qed
qed

lemma promote_row_inv:
  assumes "gallery_inv look sha d s" "tget (product_images d) n = Some i" "image_promotion_state i = IMAGE_PENDING"
    and "holds look sha s (image_owned_key i) (image_sha256 i)"
  shows "gallery_inv look sha (d\<lparr>product_images := tmodify n
      (\<lambda>i. i\<lparr>image_name := image_owned_key i, image_promotion_state := IMAGE_PROMOTED\<rparr>) (product_images d)\<rparr>) s"
proof -
  let ?i = "i\<lparr>image_name := image_owned_key i, image_promotion_state := IMAGE_PROMOTED\<rparr>"
  let ?t = "tmodify n (\<lambda>i. i\<lparr>image_name := image_owned_key i, image_promotion_state := IMAGE_PROMOTED\<rparr>) (product_images d)"
  have get: "tget ?t k = (if k = n then Some ?i else tget (product_images d) k)" for k
    using assms(2) by (simp add: tbl_simps)
  have sub: "row_keys ?i \<subseteq> row_keys i" and safe: "image_safe look sha s ?i" and names: "pending_names_ok ?i"
    using assms(3,4) by (auto simp: row_keys_def image_safe_def pending_names_ok_def)
  have apart: "row_keys a \<inter> row_keys b = {}"
    if "tget (product_images d) k = Some a" "tget (product_images d) k' = Some b" "k \<noteq> k'" for k k' a b
    using assms(1) that unfolding gallery_inv_def rows_apart_def by blast
  have "rows_apart ?t"
    unfolding rows_apart_def get using apart [OF assms(2)] apart apart [OF _ assms(2)] sub
    by (auto split: if_splits; blast)
  moreover have "row_keys ?i \<inter> intent_keys d = {}" using sub gallery_rowD(3) [OF assms(1,2)] by blast
  moreover have "wf_table ?t" using assms(1) by (simp add: gallery_inv_def wf_intros)
  ultimately show ?thesis
    using assms(1) safe names by (auto simp: gallery_inv_def intent_keys_def get)
qed

lemma promote_one_inv:
  assumes "storage_ok look st" "gallery_inv look sha d s" "promote_one st sha n d s = (r, d', s')"
  shows "gallery_inv look sha d' s'"
proof (cases "tget (product_images d) n")
  case None
  with assms show ?thesis by (simp add: promote_one_def)
next
  case (Some i)
  show ?thesis
  proof (cases "image_promotion_state i = IMAGE_PENDING")
    case False
    with Some assms show ?thesis by (simp add: promote_one_def)
  next
    case pend: True
    obtain q s1 where place: "place_owned st sha i s = (q, s1)" by force
    note ok = place_owned_ok [OF assms(1) place]
    from gallery_touch [OF assms(2), of "{}" s1] ok have g1: "gallery_inv look sha d s1" by simp
    show ?thesis
    proof (cases q)
      case (Inl p)
      obtain e ks where p: "p = (e, ks)" by force
      with ok Inl have "\<forall>k \<in> set ks. look s k = None \<and> 95 \<in> set k" by blast
      with fresh_key_not_row [OF assms(2)] have "row_keys j \<inter> set ks = {}"
        if "tget (product_images d) k = Some j" for k j using that by blast
      from gallery_intents [OF g1, of ks, OF this] show ?thesis
        using assms(3) Some pend place Inl p by (simp add: promote_one_def)
    next
      case (Inr u)
      with ok have own: "holds look sha s1 (image_owned_key i) (image_sha256 i)" by blast
      obtain v s2 where del: "st_delete st (image_name i) s1 = (v, s2)" by force
      note t = delete_ok(1) [OF assms(1) del]
      from gallery_rowD(2) [OF assms(2) Some] pend have ne: "image_owned_key i \<noteq> image_name i"
        by (auto simp: pending_names_ok_def)
      from holds_touch [OF own t] ne have own2: "holds look sha s2 (image_owned_key i) (image_sha256 i)" by simp
      have safe: "image_safe look sha s2 j" if j: "tget (product_images d) k = Some j" for k j
      proof (cases "k = n")
        case True
        with j Some own2 pend show ?thesis by (simp add: image_safe_def)
      next
        case False
        with g1 j Some have "row_keys j \<inter> row_keys i = {}" unfolding gallery_inv_def rows_apart_def by blast
        then have "row_keys j \<inter> {image_name i} = {}" by (auto simp: row_keys_def split: if_splits)
        from image_safe_touch [OF gallery_rowD(1) [OF g1 j] t this] show ?thesis .
      qed
      with g1 have g2: "gallery_inv look sha d s2" unfolding gallery_inv_def by blast
      from promote_row_inv [OF g2 Some pend own2] g2 show ?thesis
        using assms(3) Some pend place Inr del by (cases v) (auto simp: promote_one_def)
    qed
  qed
qed

lemma promote_each_inv:
  "storage_ok look st \<Longrightarrow> gallery_inv look sha d s \<Longrightarrow> promote_each st sha ns d s = (r, d', s') \<Longrightarrow>
   gallery_inv look sha d' s'"
proof (induction ns arbitrary: d s r d' s')
  case (Cons n ns)
  obtain f d1 s1 where one: "promote_one st sha n d s = (f, d1, s1)" by (metis prod_cases3)
  obtain fs d2 s2 where rest: "promote_each st sha ns d1 s1 = (fs, d2, s2)" by (metis prod_cases3)
  from Cons.IH [OF Cons.prems(1) promote_one_inv [OF Cons.prems(1,2) one] rest] Cons.prems(3) one rest
  show ?case by simp
qed simp

lemma promote_inv:
  assumes "storage_ok look st" "gallery_inv look sha d s" "promote_product_images st sha ids pid d s = (r, d', s')"
  shows "gallery_inv look sha d' s'"
proof -
  obtain ns where ns: "promote_product_images st sha ids pid d s =
      (case promote_each st sha ns d s of ([], d1, s1) \<Rightarrow> (None, d1, s1) | (e # _, d1, s1) \<Rightarrow> (Some e, d1, s1))"
    unfolding promote_product_images_def Let_def by blast
  obtain fs d2 s2 where rest: "promote_each st sha ns d s = (fs, d2, s2)" by (metis prod_cases3)
  from promote_each_inv [OF assms(1,2) rest] assms(3) rest show ?thesis
    by (cases fs) (simp_all add: ns)
qed

lemma repair_lifecycle_inv:
  assumes "storage_ok look st" "gallery_inv look sha d s"
    "repair_product_image_lifecycle st sha now d s = (r, d', s')"
  shows "gallery_inv look sha d' s'"
proof -
  obtain f d1 s1 where one: "promote_product_images st sha None None d s = (f, d1, s1)" by (metis prod_cases3)
  note g = promote_inv [OF assms(1,2) one]
  show ?thesis
  proof (cases f)
    case None
    with assms(3) one repair_deletions_inv [OF assms(1) g] show ?thesis
      by (simp add: repair_product_image_lifecycle_def)
  next
    case (Some e)
    with assms(3) one g show ?thesis by (simp add: repair_product_image_lifecycle_def)
  qed
qed

lemma repair_after_commit_inv:
  assumes "storage_ok look st" "gallery_inv look sha d s" "repair_after_commit st sha now pid d s = (d', s')"
  shows "gallery_inv look sha d' s'"
proof -
  obtain f d1 s1 where one: "promote_product_images st sha None (Some pid) d s = (f, d1, s1)" by (metis prod_cases3)
  obtain q d2 s2 where two: "repair_product_image_deletions st now d1 s1 = (q, d2, s2)" by (metis prod_cases3)
  from repair_deletions_inv [OF assms(1) promote_inv [OF assms(1,2) one] two] assms(3) one two
  show ?thesis by (simp add: repair_after_commit_def)
qed

section \<open>Staging\<close>

definition upload_keys :: "nat \<Rightarrow> staged_upload \<Rightarrow> pystr list" where
  "upload_keys pid u = [temp_name u, owned_name pid u]"

definition stored_keys :: "db \<Rightarrow> pystr set" where
  "stored_keys d = (\<Union>(_, i) \<in> set (rows (product_images d)). row_keys i)"

text \<open>What fresh UUIDs give: the keys of the uploads differ from each other and from every key in use.\<close>

definition fresh_uploads :: "nat \<Rightarrow> staged_upload list \<Rightarrow> db \<Rightarrow> bool" where
  "fresh_uploads pid ups d \<longleftrightarrow>
     distinct (concat (map (upload_keys pid) ups)) \<and>
     set (concat (map (upload_keys pid) ups)) \<inter> (stored_keys d \<union> intent_keys d) = {}"

definition plain_uploads :: "nat \<Rightarrow> staged_upload list \<Rightarrow> bool" where
  "plain_uploads pid ups \<longleftrightarrow> (\<forall>u \<in> set ups. \<forall>k \<in> set (upload_keys pid u). 95 \<notin> set k)"

definition staged_row :: "'s lookup \<Rightarrow> (content \<Rightarrow> nat) \<Rightarrow> 's \<Rightarrow> nat \<Rightarrow> product_image \<Rightarrow> staged_upload \<Rightarrow> bool" where
  "staged_row look sha s pid i u \<longleftrightarrow>
     image_name i = temp_name u \<and> image_owned_key i = owned_name pid u \<and> image_promotion_state i = IMAGE_PENDING \<and>
     holds look sha s (image_name i) (image_sha256 i)"

lemma staged_row_keys: "staged_row look sha s pid i u \<Longrightarrow> row_keys i = set (upload_keys pid u)"
  by (simp add: staged_row_def row_keys_def upload_keys_def)

lemma staged_row_touch: "staged_row look sha s pid i u \<Longrightarrow> touches look {} s s' \<Longrightarrow> staged_row look sha s' pid i u"
  using holds_touch [of look sha s "image_name i" "image_sha256 i" "{}" s'] by (auto simp: staged_row_def)

definition new_key :: "'s lookup \<Rightarrow> 's \<Rightarrow> staged_upload list \<Rightarrow> pystr \<Rightarrow> bool" where
  "new_key look s ups n \<longleftrightarrow> look s n = None \<and> (n \<in> temp_name ` set ups \<or> 95 \<in> set n)"

lemma stage_images_ok:
  "storage_ok look st \<Longrightarrow> stage_images st sha pid pos prot ups files s = (r, fs, s') \<Longrightarrow>
   touches look {} s s' \<and> (\<exists>new. fs = files @ new \<and> (\<forall>n \<in> set new. new_key look s ups n)) \<and>
   (\<forall>rs. r = Inr rs \<longrightarrow> list_all2 (staged_row look sha s' pid) rs ups)"
proof (induction ups arbitrary: pos prot files s r fs s')
  case (Cons u us)
  show ?case
  proof (cases "temp_name u \<in> set prot \<or> owned_name pid u \<in> set prot")
    case True
    with Cons.prems(2) show ?thesis by auto
  next
    case free: False
    obtain q s1 where save: "st_save st (temp_name u) (si_content (up_image u)) s = (q, s1)" by force
    note t = save_ok(1) [OF Cons.prems(1) save]
    show ?thesis
    proof (cases q)
      case (Inl e)
      with free Cons.prems(2) save t show ?thesis by auto
    next
      case (Inr saved)
      note fresh = save_ok(2) [OF Cons.prems(1) save Inr]
      then have nk: "new_key look s (u # us) saved" by (auto simp: new_key_def)
      show ?thesis
      proof (cases "saved = temp_name u")
        case False
        with free Cons.prems(2) save Inr t nk show ?thesis by auto
      next
        case True
        let ?row = "\<lparr>image_product_id = pid, image_name = saved, image_position = pos,
                       image_sha256 = sha (si_content (up_image u)), image_byte_size = si_byte_size (up_image u),
                       image_width = si_width (up_image u), image_height = si_height (up_image u),
                       image_owned_key = owned_name pid u, image_promotion_state = IMAGE_PENDING\<rparr>"
        obtain q2 fs2 s2 where rest:
          "stage_images st sha pid (Suc pos) (saved # owned_name pid u # prot) us (files @ [saved]) s1 = (q2, fs2, s2)"
          by (metis prod_cases3)
        note ih = Cons.IH [OF Cons.prems(1) rest]
        then obtain new where new: "fs2 = (files @ [saved]) @ new" "\<forall>n \<in> set new. new_key look s1 us n" by blast
        have old: "new_key look s (u # us) n" if "n \<in> set new" for n
          using new(2) that touches_none [OF t, of n] by (auto simp: new_key_def)
        have "staged_row look sha s1 pid ?row u"
          using fresh True by (simp add: staged_row_def holds_def)
        from staged_row_touch [OF this] ih have row: "staged_row look sha s2 pid ?row u" by blast
        from ih have t2: "touches look {} s1 s2" by blast
        have tt: "touches look {} s s2" by (rule touches_trans [OF t t2]) simp
        have res: "stage_images st sha pid pos prot (u # us) files s =
            ((case q2 of Inl e \<Rightarrow> Inl e | Inr rs \<Rightarrow> Inr (?row # rs)), fs2, s2)"
          using free save Inr True rest by (auto simp: Let_def split: sum.splits)
        have "\<exists>new. fs2 = files @ new \<and> (\<forall>n \<in> set new. new_key look s (u # us) n)"
          by (rule exI [of _ "saved # new"]) (use new(1) nk old in auto)
        moreover have "list_all2 (staged_row look sha s2 pid) rs (u # us)"
          if "(case q2 of Inl e \<Rightarrow> Inl e | Inr rs \<Rightarrow> Inr (?row # rs)) = Inr rs" for rs
          using that row ih by (cases q2) auto
        ultimately show ?thesis using res Cons.prems(2) tt by simp
      qed
    qed
  qed
qed auto

fun apart_list :: "product_image list \<Rightarrow> bool" where
  "apart_list [] = True"
| "apart_list (i # is) \<longleftrightarrow> (\<forall>j \<in> set is. row_keys i \<inter> row_keys j = {}) \<and> apart_list is"

lemma create_images_inv:
  "create_images is d = Inr d' \<Longrightarrow> gallery_inv look sha d s \<Longrightarrow> apart_list is \<Longrightarrow>
   (\<forall>i \<in> set is. image_safe look sha s i \<and> pending_names_ok i \<and> row_keys i \<inter> (stored_keys d \<union> intent_keys d) = {}) \<Longrightarrow>
   gallery_inv look sha d' s"
proof (induction "is" arbitrary: d)
  case (Cons i js)
  let ?t = "product_images d" and ?d = "d\<lparr>product_images := snd (tcreate i (product_images d))\<rparr>"
  from Cons.prems(1) have rest: "create_images js ?d = Inr d'" by (auto split: if_splits)
  from Cons.prems(2) have wf: "wf_table ?t" by (simp add: gallery_inv_def)
  have get: "tget (product_images ?d) k = (if k = next_pk ?t then Some i else tget ?t k)" for k
    using wf by (simp add: tbl_simps)
  have disj: "row_keys i \<inter> row_keys j = {}" if "tget ?t k = Some j" for k j
    using Cons.prems(4) that by (force simp: stored_keys_def dest: tget_in_rows)
  have ik: "intent_keys ?d = intent_keys d" by (simp add: intent_keys_def)
  have "rows_apart (product_images ?d)"
    using Cons.prems(2) disj unfolding rows_apart_def get gallery_inv_def by (auto split: if_splits; blast)
  then have g: "gallery_inv look sha ?d s"
    using Cons.prems(2,4) wf unfolding gallery_inv_def get ik by (auto simp: wf_intros; blast)
  have sk: "stored_keys ?d = stored_keys d \<union> row_keys i" by (auto simp: stored_keys_def)
  show ?case
    by (rule Cons.IH [OF rest g]) (use Cons.prems(3,4) in \<open>auto simp: sk ik\<close>)
qed simp

end
