(* ===== verification/Gallery_Properties.thy ===== *)
theory Gallery_Properties imports Gallery_System begin

text \<open>
  The pages that change a gallery keep its invariant in every run, and the properties of the
  gallery and of editing a product.
\<close>

section \<open>Replacing a gallery\<close>

lemma gallery_inv_tables:
  assumes "gallery_inv look sha d s" "product_images d' = product_images d" "deletion_intents d' = deletion_intents d"
  shows "gallery_inv look sha d' s"
  by (rule gallery_fewer_intents [OF assms(1,2)]) (simp add: intent_keys_def assms(3))

lemma row_in_stored: "tget (product_images d) k = Some i \<Longrightarrow> row_keys i \<subseteq> stored_keys d"
  by (force simp: stored_keys_def dest: tget_in_rows)

text \<open>Staged keys are not keys of the rows: they were free, and are fresh or have an underscore.\<close>

lemma new_key_not_row:
  assumes "gallery_inv look sha d s" "fresh_uploads pid ups d" "new_key look s ups n"
    and "tget (product_images d) k = Some i"
  shows "n \<notin> row_keys i"
proof (cases "95 \<in> set n")
  case True
  with fresh_key_not_row [OF assms(1,4)] assms(3) show ?thesis by (simp add: new_key_def)
next
  case False
  with assms(3) obtain u where "u \<in> set ups" "n = temp_name u" by (auto simp: new_key_def)
  then have "n \<in> set (concat (map (upload_keys pid) ups))" by (auto simp: upload_keys_def)
  with assms(2) row_in_stored [OF assms(4)] show ?thesis by (auto simp: fresh_uploads_def)
qed

lemma staged_rows_apart:
  "list_all2 (staged_row look sha s pid) rs ups \<Longrightarrow> distinct (concat (map (upload_keys pid) ups)) \<Longrightarrow> apart_list rs"
proof (induction rule: list_all2_induct)
  case (Cons i "is" u us)
  have "row_keys j \<subseteq> set (concat (map (upload_keys pid) us))" if "j \<in> set is" for j
  proof -
    from that obtain n where n: "n < length is" "j = is ! n" by (auto simp: in_set_conv_nth)
    with Cons(2) have "staged_row look sha s pid j (us ! n)" "us ! n \<in> set us"
      by (auto simp: list_all2_conv_all_nth)
    with staged_row_keys show ?thesis by fastforce
  qed
  with Cons staged_row_keys [OF Cons(1)] show ?case by fastforce
qed simp

lemma staged_row_ok:
  assumes "list_all2 (staged_row look sha s pid) rs ups" "plain_uploads pid ups" "i \<in> set rs"
    and "distinct (concat (map (upload_keys pid) ups))"
  shows "image_safe look sha s i \<and> pending_names_ok i \<and> row_keys i \<subseteq> set (concat (map (upload_keys pid) ups))"
proof -
  from assms(3) obtain n where "n < length rs" "i = rs ! n" by (auto simp: in_set_conv_nth)
  with assms(1) have "ups ! n \<in> set ups" "staged_row look sha s pid i (ups ! n)"
    by (auto simp: list_all2_conv_all_nth)
  then obtain u where u: "u \<in> set ups" "staged_row look sha s pid i u" by blast
  with assms(2,4) have "distinct (upload_keys pid u)" "\<forall>k \<in> set (upload_keys pid u). 95 \<notin> set k"
    by (auto simp: plain_uploads_def distinct_concat_iff dest: split_list)
  with u staged_row_keys [OF u(2)] show ?thesis
    by (auto simp: staged_row_def image_safe_def pending_names_ok_def upload_keys_def)
qed

lemma superseded_in_rows: "set (superseded_keys p (images_of pid d)) \<subseteq>
    \<Union> (row_keys ` {i. \<exists>k. (k, i) \<in> set (rows (product_images d)) \<and> image_product_id i = pid})"
  by (auto simp: superseded_keys_def images_of_def tselect_def row_keys_def)

text \<open>The old rows go to the outbox and leave.\<close>

definition supersede :: "product \<Rightarrow> nat \<Rightarrow> db \<Rightarrow> db" where
  "supersede p pid d =
     (let d1 = add_intents (superseded_keys p (images_of pid d)) d in
      d1\<lparr>product_images := tdelete (\<lambda>_ i. image_product_id i = pid) (product_images d1)\<rparr>)"

lemma supersede_inv:
  assumes "gallery_inv look sha d s" and d2: "d2 = supersede p pid d"
  shows "gallery_inv look sha d2 s \<and> stored_keys d2 \<subseteq> stored_keys d \<and> intent_keys d2 \<subseteq> intent_keys d \<union> stored_keys d"
proof -
  let ?K = "superseded_keys p (images_of pid d)"
  define d1 where "d1 = add_intents ?K d"
  have d2_def: "d2 = d1\<lparr>product_images := tdelete (\<lambda>_ i. image_product_id i = pid) (product_images d1)\<rparr>"
    by (simp add: d2 supersede_def d1_def Let_def)
  from assms(1) have wf: "wf_table (product_images d)" by (simp add: gallery_inv_def)
  have t: "product_images d2 = tdelete (\<lambda>_ i. image_product_id i = pid) (product_images d)"
    by (simp add: d2_def d1_def add_intents_same)
  have ik: "intent_keys d2 = intent_keys d1" by (simp add: d2_def intent_keys_def)
  from intent_keys_add have sub: "intent_keys d1 \<subseteq> intent_keys d \<union> set ?K" by (simp add: d1_def)
  have get: "tget (product_images d2) k = Some i \<longleftrightarrow> tget (product_images d) k = Some i \<and> image_product_id i \<noteq> pid" for k i
    using wf by (auto simp: t tbl_simps split: option.splits)
  have "row_keys i \<inter> set ?K = {}" if i: "tget (product_images d) k = Some i" "image_product_id i \<noteq> pid" for k i
  proof -
    have "row_keys i \<inter> row_keys j = {}" if "(k', j) \<in> set (rows (product_images d))" "image_product_id j = pid" for k' j
    proof -
      from that wf have "tget (product_images d) k' = Some j" by (simp add: tget_iff)
      moreover have "k \<noteq> k'" using i that(2) calculation by auto
      ultimately show ?thesis using assms(1) i(1) unfolding gallery_inv_def rows_apart_def by blast
    qed
    with superseded_in_rows [of p pid d] show ?thesis by blast
  qed
  with sub assms(1) have "gallery_inv look sha d2 s"
    unfolding gallery_inv_def ik rows_apart_def get by (auto simp: t wf_intros; blast)
  moreover have "stored_keys d2 \<subseteq> stored_keys d" by (auto simp: stored_keys_def t tdelete_def)
  moreover have "set ?K \<subseteq> stored_keys d" using superseded_in_rows [of p pid d] by (fastforce simp: stored_keys_def)
  ultimately show ?thesis using sub ik by blast
qed

text \<open>
  The replacement inside its transaction: on an error the keys it could not delete are new ones,
  on success the new rows are safe, and in both cases the staged files are no row's.
\<close>

lemma replace_ok:
  assumes st: "storage_ok look st" and inv: "gallery_inv look sha d s"
    and fresh: "fresh_uploads pid ups d" and plain: "plain_uploads pid ups"
    and run: "replace_product_images st sha True pid ups d s = (r, s')"
  shows "touches look {} s s' \<and>
    (\<forall>e failed. r = Inl (e, failed) \<longrightarrow> (\<forall>n \<in> set failed. new_key look s ups n)) \<and>
    (\<forall>files d'. r = Inr (files, d') \<longrightarrow> gallery_inv look sha d' s' \<and> (\<forall>n \<in> set files. new_key look s ups n))"
proof (cases "4 < length ups \<or> tget (products d) pid = None")
  case True
  then have "\<exists>e. replace_product_images st sha True pid ups d s = (Inl (e, []), s)"
    by (cases "4 < length ups") (auto simp: replace_product_images_def)
  with run show ?thesis by auto
next
  case False
  then obtain p where p: "tget (products d) pid = Some p" "\<not> 4 < length ups" by auto
  define prot where "prot = filter (\<lambda>n. n \<noteq> [])
      (product_legacy_image p # map image_name (images_of pid d) @ map image_owned_key (images_of pid d))"
  obtain q files s1 where stage: "stage_images st sha pid 0 prot ups [] s = (q, files, s1)" by (metis prod_cases3)
  from stage_images_ok [OF st stage] have t1: "touches look {} s s1"
    and nk: "\<forall>n \<in> set files. new_key look s ups n"
    and rows: "\<And>rs. q = Inr rs \<Longrightarrow> list_all2 (staged_row look sha s1 pid) rs ups" by auto
  obtain failed s2 where clean: "cleanup st files s1 = (failed, s2)" by force
  note cl = cleanup_ok [OF st clean]
  have "touches look (set files) s s2" by (rule touches_trans [OF t1]) (use cl in auto)
  then have t2: "touches look {} s s2" by (rule touches_fresh) (use nk in \<open>simp add: new_key_def\<close>)
  have nkf: "\<forall>n \<in> set failed. new_key look s ups n" using nk cl by blast
  have unfold: "replace_product_images st sha True pid ups d s =
      (case q of Inl e \<Rightarrow> (Inl (e, failed), s2)
       | Inr rs \<Rightarrow> (case create_images rs (supersede p pid d) of
           Inl e \<Rightarrow> (Inl (e, failed), s2) | Inr d3 \<Rightarrow> (Inr (files, d3), s1)))"
    unfolding replace_product_images_def Let_def
    by (simp only: p prot_def [symmetric] not_True_eq_False if_False option.case stage prod.case)
      (unfold clean supersede_def Let_def prod.case, rule refl)
  show ?thesis
  proof (cases "\<exists>rs d3. q = Inr rs \<and> create_images rs (supersede p pid d) = Inr d3")
    case False
    then have "\<exists>e. replace_product_images st sha True pid ups d s = (Inl (e, failed), s2)"
      by (auto simp: unfold split: sum.splits)
    with run t2 nkf show ?thesis by auto
  next
    case True
    then obtain rs d3 where q: "q = Inr rs" "create_images rs (supersede p pid d) = Inr d3" by blast
    from gallery_touch [OF inv t1] have inv1: "gallery_inv look sha d s1" by simp
    note sup = supersede_inv [OF inv1 refl, of p pid]
    have dist: "distinct (concat (map (upload_keys pid) ups))" using fresh by (simp add: fresh_uploads_def)
    have "gallery_inv look sha d3 s1"
    proof (rule create_images_inv [OF q(2)])
      show "\<forall>i \<in> set rs. image_safe look sha s1 i \<and> pending_names_ok i \<and>
          row_keys i \<inter> (stored_keys (supersede p pid d) \<union> intent_keys (supersede p pid d)) = {}"
        using staged_row_ok [OF rows [OF q(1)] plain _ dist] sup fresh unfolding fresh_uploads_def by blast
    qed (use sup staged_rows_apart [OF rows [OF q(1)] dist] in blast)+
    with run q t1 nk show ?thesis by (auto simp: unfold)
  qed
qed

section \<open>The pages\<close>

lemma gallery_failed:
  assumes "gallery_inv look sha d s" "fresh_uploads pid ups d" "\<forall>n \<in> set ks. new_key look s ups n"
    and "touches look {} s s'"
  shows "gallery_inv look sha (add_intents ks d) s'"
proof (rule gallery_intents)
  show "gallery_inv look sha d s'" by (rule gallery_touch [OF assms(1,4)]) simp
  show "row_keys i \<inter> set ks = {}" if "tget (product_images d) k = Some i" for k i
    using new_key_not_row [OF assms(1,2) _ that] assms(3) by blast
qed

text \<open>\<open>d0\<close> differs from \<open>d\<close> by the product row the page is about to write.\<close>

lemma finish_page_inv:
  assumes st: "storage_ok look (env_storage e)" and inv: "gallery_inv look (env_sha e) d s"
    and fresh: "fresh_uploads pid ups d" and plain: "plain_uploads pid ups"
    and same: "product_images d0 = product_images d" "deletion_intents d0 = deletion_intents d"
    and run: "finish_page e d pid (replace_product_images (env_storage e) (env_sha e) True pid ups d0 s) = (pg, d', s')"
  shows "gallery_inv look (env_sha e) d' s'"
proof -
  obtain r s1 where rep: "replace_product_images (env_storage e) (env_sha e) True pid ups d0 s = (r, s1)" by force
  have fresh0: "fresh_uploads pid ups d0"
    using fresh by (simp add: fresh_uploads_def stored_keys_def intent_keys_def same)
  note ok = replace_ok [OF st gallery_inv_tables [OF inv same] fresh0 plain rep]
  show ?thesis
  proof (cases r)
    case (Inl x)
    obtain err failed where x: "x = (err, failed)" by force
    with Inl ok have "gallery_inv look (env_sha e) (add_intents failed d) s1"
      by (intro gallery_failed [OF inv fresh]) auto
    with run rep Inl x show ?thesis by (simp add: finish_page_def)
  next
    case (Inr y)
    obtain files d1 where y: "y = (files, d1)" by force
    from ok Inr y have g1: "gallery_inv look (env_sha e) d1 s1" and nk: "\<forall>n \<in> set files. new_key look s ups n"
      and t: "touches look {} s s1" by auto
    show ?thesis
    proof (cases "env_commit e")
      case None
      obtain d2 s2 where rep2: "repair_after_commit (env_storage e) (env_sha e) (env_now e) pid d1 s1 = (d2, s2)" by force
      from repair_after_commit_inv [OF st g1 rep2] run rep Inr y None rep2 show ?thesis
        by (simp add: finish_page_def)
    next
      case (Some x)
      obtain failed s2 where clean: "cleanup (env_storage e) files s1 = (failed, s2)" by force
      note cl = cleanup_ok [OF st clean]
      have "touches look (set files) s s2" by (rule touches_trans [OF t]) (use cl in auto)
      then have "touches look {} s s2" by (rule touches_fresh) (use nk in \<open>simp add: new_key_def\<close>)
      from gallery_failed [OF inv fresh _ this, of failed] cl nk have "gallery_inv look (env_sha e) (add_intents failed d) s2"
        by blast
      with run rep Inr y Some clean show ?thesis by (simp add: finish_page_def)
    qed
  qed
qed

section \<open>What the gallery leaves alone\<close>

definition images_only :: "db \<Rightarrow> db \<Rightarrow> bool" where
  "images_only d d' \<longleftrightarrow> d'\<lparr>product_images := product_images d, deletion_intents := deletion_intents d\<rparr> = d"

named_theorems frame_intros \<open>operations that change only images and the outbox\<close>

lemma images_only_refl [frame_intros]: "images_only d d"
  by (simp add: images_only_def)

lemma images_only_trans:
  assumes "images_only d d'" "images_only d' d''"
  shows "images_only d d''"
proof -
  have "(d''\<lparr>product_images := product_images d', deletion_intents := deletion_intents d'\<rparr>)
      \<lparr>product_images := product_images d, deletion_intents := deletion_intents d\<rparr> = d"
    using assms by (simp only: images_only_def)
  then show ?thesis by (simp add: images_only_def)
qed

lemma images_only_products:
  assumes "images_only d d'" shows "products d' = products d"
  using arg_cong [OF assms [unfolded images_only_def], of products] by simp

lemma images_only_images [frame_intros]: "images_only d d' \<Longrightarrow> images_only d (d'\<lparr>product_images := t\<rparr>)"
  by (simp add: images_only_def)

lemma images_only_outbox [frame_intros]: "images_only d d' \<Longrightarrow> images_only d (d'\<lparr>deletion_intents := t\<rparr>)"
  by (simp add: images_only_def)

lemma images_only_add_intents [frame_intros]: "images_only d d' \<Longrightarrow> images_only d (add_intents ks d')"
  by (induction ks arbitrary: d') (simp_all add: frame_intros)

lemma create_images_frame: "create_images is d = Inr d' \<Longrightarrow> images_only d d'"
proof (induction "is" arbitrary: d)
  case (Cons i js)
  then have "images_only (d\<lparr>product_images := snd (tcreate i (product_images d))\<rparr>) d'" by (auto split: if_splits)
  then show ?case by (rule images_only_trans [rotated]) (simp add: frame_intros)
qed (simp add: frame_intros)

lemma repair_deletion_frame: "repair_deletion st now n d s = (r, d', s') \<Longrightarrow> images_only d d'"
  by (auto simp: repair_deletion_def Let_def intro!: frame_intros split: option.splits sum.splits prod.splits)

lemma promote_one_frame: "promote_one st sha n d s = (r, d', s') \<Longrightarrow> images_only d d'"
  by (auto simp: promote_one_def intro!: frame_intros split: option.splits sum.splits prod.splits if_splits)

lemma repair_each_frame: "repair_each st now ns d s = (r, d', s') \<Longrightarrow> images_only d d'"
  by (induction ns arbitrary: d s r)
    (auto intro: frame_intros images_only_trans dest: repair_deletion_frame split: prod.splits)

lemma promote_each_frame: "promote_each st sha ns d s = (r, d', s') \<Longrightarrow> images_only d d'"
  by (induction ns arbitrary: d s r)
    (auto intro: frame_intros images_only_trans dest: promote_one_frame split: prod.splits)

lemma promote_frame: "promote_product_images st sha ids pid d s = (r, d', s') \<Longrightarrow> images_only d d'"
  by (auto simp: promote_product_images_def Let_def dest: promote_each_frame split: prod.splits list.splits)

lemma repair_deletions_frame: "repair_product_image_deletions st now d s = (r, d', s') \<Longrightarrow> images_only d d'"
  by (auto simp: repair_product_image_deletions_def dest: repair_each_frame split: prod.splits list.splits)

lemma repair_after_commit_frame: "repair_after_commit st sha now pid d s = (d', s') \<Longrightarrow> images_only d d'"
  by (auto simp: repair_after_commit_def intro: images_only_trans dest!: promote_frame repair_deletions_frame
      split: prod.splits)

lemma repair_lifecycle_frame: "repair_product_image_lifecycle st sha now d s = (r, d', s') \<Longrightarrow> images_only d d'"
  by (auto simp: repair_product_image_lifecycle_def intro: images_only_trans
      dest!: promote_frame repair_deletions_frame split: prod.splits option.splits)

lemma superseded_frame: "images_only (add_intents ks d\<lparr>product_images := t\<rparr>) d' \<Longrightarrow> images_only d d'"
  by (rule images_only_trans [OF images_only_images [OF images_only_add_intents [OF images_only_refl]]])

lemma replace_frame:
  "replace_product_images st sha b pid ups d s = (Inr (files, d'), s') \<Longrightarrow> images_only d d'"
  by (auto simp: replace_product_images_def Let_def dest!: create_images_frame intro: superseded_frame
      split: if_splits option.splits sum.splits prod.splits)

lemma finish_page_frame:
  assumes "finish_page e d pid (replace_product_images st sha b pid ups d0 s) = (pg, d', s')"
  shows "(\<exists>x. pg = Raised x) \<and> images_only d d' \<or> pg = To_Detail pid \<and> images_only d0 d'"
  using assms by (auto simp: finish_page_def intro: frame_intros images_only_trans
      dest!: replace_frame repair_after_commit_frame split: sum.splits prod.splits option.splits)

section \<open>Runs\<close>

lemma format_extension_plain: "95 \<notin> set (format_extension f)"
  by (cases f) (simp_all add: lit_def)

lemma sanitize_extension: "sanitize codec name declared chunks = Inr i \<Longrightarrow> \<exists>f. si_extension i = format_extension f"
  by (auto simp: sanitize_def split: sum.splits option.splits if_splits prod.splits)

lemma sanitize_all_extension:
  "sanitize_all codec us = Inr is \<Longrightarrow> i \<in> set is \<Longrightarrow> \<exists>f. si_extension i = format_extension f"
  by (induction us arbitrary: "is" rule: sanitize_all.induct)
    (auto dest: sanitize_extension split: sum.splits)

lemma cleaned_extension:
  "clean_product codec d form = Inr c \<Longrightarrow> i \<in> set (cleaned_images c) \<Longrightarrow> \<exists>f. si_extension i = format_extension f"
  by (auto simp: clean_product_def clean_images_def split: sum.splits option.splits if_splits
      dest: sanitize_all_extension)

lemma uuid_str_plain: "95 \<notin> set (uuid_str n)"
proof
  assume "95 \<in> set (uuid_str n)"
  then have "95 \<in> set (hex_fixed 32 n)"
    by (auto simp: uuid_str_def Let_def dest: in_set_takeD in_set_dropD)
  from hex_fixed_lower [OF this] show False by (simp add: is_lower_hex_def is_digit_def)
qed

lemma dec_plain: "95 \<notin> set (dec n)"
  using dec_digits [of 95 n] by (auto simp: is_digit_def)

lemma staged_plain:
  assumes "\<And>i. i \<in> set images \<Longrightarrow> \<exists>f. si_extension i = format_extension f"
  shows "plain_uploads pid (staged e images)"
  unfolding plain_uploads_def staged_def
  using assms by (fastforce simp: upload_keys_def temp_name_def owned_name_def lit_def uuid_str_plain dec_plain
      format_extension_plain dest: set_zip_rightD)

lemmas cleaned_plain = staged_plain [OF cleaned_extension]

lemma clean_update_product: "clean_update codec d form = Inr (c, v) \<Longrightarrow> clean_product codec d form = Inr c"
  by (auto simp: clean_update_def split: sum.splits option.splits if_splits)

datatype listing_event = Create page | Update page | Delete page | Repair "exn option" | Elsewhere

text \<open>
  The pages and the repair command over database and storage, each with its own environment.
  \<open>Elsewhere\<close> is any other code: it leaves image rows, outbox and product versions alone and may
  add files.
\<close>

definition versions_grow :: "db \<Rightarrow> db \<Rightarrow> bool" where
  "versions_grow d d' \<longleftrightarrow> (\<forall>k p. tget (products d) k = Some p \<longrightarrow>
     (\<exists>p'. tget (products d') k = Some p' \<and> product_owner_id p' = product_owner_id p \<and>
           product_version p \<le> product_version p'))"

inductive listing_step ::
    "'s lookup \<Rightarrow> (content \<Rightarrow> nat) \<Rightarrow> db \<times> 's \<Rightarrow> listing_event \<Rightarrow> db \<times> 's \<Rightarrow> bool"
  for look :: "'s lookup" and sha :: "content \<Rightarrow> nat" where
  step_create:
    "storage_ok look (env_storage e) \<Longrightarrow> env_sha e = sha \<Longrightarrow>
     (\<forall>c. clean_product (env_codec e) d form = Inr c \<longrightarrow>
        fresh_uploads (next_pk (products d)) (staged e (cleaned_images c)) d) \<Longrightarrow>
     product_create e user_id (Some form) d s = (pg, d', s') \<Longrightarrow>
     listing_step look sha (d, s) (Create pg) (d', s')"
| step_update:
    "storage_ok look (env_storage e) \<Longrightarrow> env_sha e = sha \<Longrightarrow>
     (\<forall>c v. clean_update (env_codec e) seen form = Inr (c, v) \<longrightarrow>
        fresh_uploads pk (staged e (cleaned_images c)) d) \<Longrightarrow>
     product_update e user_id pk (Some form) seen d s = (pg, d', s') \<Longrightarrow>
     listing_step look sha (d, s) (Update pg) (d', s')"
| step_delete:
    "product_delete now user_id pk post seen d = (pg, d') \<Longrightarrow>
     listing_step look sha (d, s) (Delete pg) (d', s)"
| step_repair:
    "storage_ok look st \<Longrightarrow> repair_product_image_lifecycle st sha now d s = (r, d', s') \<Longrightarrow>
     listing_step look sha (d, s) (Repair r) (d', s')"
| step_elsewhere:
    "product_images d' = product_images d \<Longrightarrow> deletion_intents d' = deletion_intents d \<Longrightarrow>
     versions_grow d d' \<Longrightarrow> wf_table (products d') \<Longrightarrow> touches look {} s s' \<Longrightarrow>
     listing_step look sha (d, s) Elsewhere (d', s')"

inductive_cases listing_stepE: "listing_step look sha s l s'"

lemma product_create_inv:
  assumes "storage_ok look (env_storage e)" "gallery_inv look (env_sha e) d s"
    and "\<And>c. clean_product (env_codec e) d form = Inr c \<Longrightarrow>
        fresh_uploads (next_pk (products d)) (staged e (cleaned_images c)) d"
    and "product_create e user_id (Some form) d s = (pg, d', s')"
  shows "gallery_inv look (env_sha e) d' s'"
proof (cases "clean_product (env_codec e) d form")
  case (Inl x)
  with assms show ?thesis by (simp add: product_create_def)
next
  case (Inr c)
  show ?thesis
    by (rule finish_page_inv [OF assms(1,2) assms(3) [OF Inr] cleaned_plain [OF Inr],
          of "d\<lparr>products := snd (tcreate (new_product e user_id c) (products d))\<rparr>" pg d' s'])
      (use assms(4) Inr in \<open>simp_all add: product_create_def tcreate_def\<close>)
qed

lemma product_update_cases:
  assumes "product_update e user_id pk post seen d s = (pg, d', s')"
  obtains (kept) "d' = d" "s' = s" "pg \<noteq> To_Detail pk"
    | (edit) form c v p where "post = Some form" "clean_update (env_codec e) seen form = Inr (c, v)"
        "owned_product user_id pk d = Some p" "v = int (product_version p)"
        "save_edit e pk c (raw_clear_images form) d s = (pg, d', s')"
  using assms by (auto simp: product_update_def split: option.splits sum.splits if_splits)

lemma save_edit_inv:
  assumes "storage_ok look (env_storage e)" "gallery_inv look (env_sha e) d s"
    and "fresh_uploads pk (staged e (cleaned_images c)) d" "plain_uploads pk (staged e (cleaned_images c))"
    and run: "save_edit e pk c clear d s = (pg, d', s')"
  shows "gallery_inv look (env_sha e) d' s'"
proof (cases "cleaned_images c \<noteq> [] \<or> clear")
  case True
  show ?thesis
    by (rule finish_page_inv [OF assms(1-4), of "d\<lparr>products := tmodify pk (edited e c) (products d)\<rparr>" pg])
      (use run True in \<open>auto simp: save_edit_def\<close>)
next
  case False
  with run assms(2) gallery_inv_tables [OF assms(2), of "d\<lparr>products := tmodify pk (edited e c) (products d)\<rparr>"]
  show ?thesis by (auto simp: save_edit_def split: option.splits)
qed

lemma product_update_inv:
  assumes "storage_ok look (env_storage e)" "gallery_inv look (env_sha e) d s"
    and fresh: "\<And>c v. clean_update (env_codec e) seen form = Inr (c, v) \<Longrightarrow> fresh_uploads pk (staged e (cleaned_images c)) d"
    and run: "product_update e user_id pk (Some form) seen d s = (pg, d', s')"
  shows "gallery_inv look (env_sha e) d' s'"
  using run
proof (cases rule: product_update_cases)
  case kept
  with assms(2) show ?thesis by simp
next
  case (edit form' c v p)
  then have c: "clean_update (env_codec e) seen form = Inr (c, v)" by simp
  from save_edit_inv [OF assms(1,2) fresh [OF c] cleaned_plain [OF clean_update_product [OF c]] edit(5)]
  show ?thesis .
qed

lemma versions_grow_refl: "versions_grow d d"
  by (auto simp: versions_grow_def)

lemma versions_growD:
  assumes "versions_grow d d'" "tget (products d) k = Some p"
  obtains p' where "tget (products d') k = Some p'" "product_owner_id p' = product_owner_id p"
    "product_version p \<le> product_version p'"
  using assms unfolding versions_grow_def by blast

lemma versions_grow_trans:
  assumes "versions_grow d d'" "versions_grow d' d''" shows "versions_grow d d''"
  unfolding versions_grow_def
proof (intro allI impI)
  fix k p assume "tget (products d) k = Some p"
  from versions_growD [OF assms(1) this] obtain p' where 1: "tget (products d') k = Some p'"
    "product_owner_id p' = product_owner_id p" "product_version p \<le> product_version p'" .
  from versions_growD [OF assms(2) 1(1)] obtain p'' where "tget (products d'') k = Some p''"
    "product_owner_id p'' = product_owner_id p'" "product_version p' \<le> product_version p''" .
  with 1 show "\<exists>p''. tget (products d'') k = Some p'' \<and> product_owner_id p'' = product_owner_id p \<and>
      product_version p \<le> product_version p''" by auto
qed

lemma versions_grow_same: "products d' = products d \<Longrightarrow> versions_grow d d'"
  by (auto simp: versions_grow_def)

lemma versions_grow_tmodify:
  "products d' = tmodify k f (products d) \<Longrightarrow>
   (\<And>p. product_owner_id (f p) = product_owner_id p \<and> product_version p \<le> product_version (f p)) \<Longrightarrow> versions_grow d d'"
  by (auto simp: versions_grow_def tbl_simps)

lemma product_create_versions:
  assumes "wf_table (products d)" "product_create e user_id post d s = (pg, d', s')"
  shows "versions_grow d d' \<and> wf_table (products d')"
proof (cases "products d' = products d")
  case True
  with assms(1) versions_grow_same show ?thesis by auto
next
  case False
  with assms(2) have "\<exists>p. products d' = snd (tcreate p (products d))"
    by (auto simp: product_create_def tcreate_def split: option.splits sum.splits
        dest!: finish_page_frame images_only_products)
  with assms(1) show ?thesis by (auto simp: versions_grow_def tbl_simps wf_intros dest: tget_lt)
qed

lemma save_edit_products:
  assumes "save_edit e pk c clear d s = (pg, d', s')"
  shows "products d' = products d \<and> pg \<noteq> To_Detail pk \<or>
    pg = To_Detail pk \<and> products d' = tmodify pk (edited e c) (products d)"
proof (cases "cleaned_images c \<noteq> [] \<or> clear")
  case True
  let ?d1 = "d\<lparr>products := tmodify pk (edited e c) (products d)\<rparr>"
  from assms True have "finish_page e d pk
      (replace_product_images (env_storage e) (env_sha e) True pk (staged e (cleaned_images c)) ?d1 s) = (pg, d', s')"
    by (auto simp: save_edit_def)
  from finish_page_frame [OF this] show ?thesis by (auto dest: images_only_products)
next
  case False
  with assms show ?thesis by (auto simp: save_edit_def split: option.splits)
qed

lemma product_update_versions:
  assumes "wf_table (products d)" "product_update e user_id pk post seen d s = (pg, d', s')"
  shows "versions_grow d d' \<and> wf_table (products d')"
  using assms(2)
proof (cases rule: product_update_cases)
  case (edit form c v p)
  from save_edit_products [OF edit(5)] assms(1) show ?thesis
    by (auto simp: wf_intros edited_def intro: versions_grow_same versions_grow_tmodify)
qed (use assms(1) versions_grow_refl in auto)

lemma product_delete_versions:
  assumes "wf_table (products d)" "product_delete now user_id pk post seen d = (pg, d')"
  shows "versions_grow d d' \<and> wf_table (products d')"
  using assms
  by (auto simp: product_delete_def wf_intros split: option.splits if_splits
      intro: versions_grow_same versions_grow_refl versions_grow_tmodify)

lemma repair_lifecycle_products:
  "repair_product_image_lifecycle st sha now d s = (r, d', s') \<Longrightarrow> products d' = products d"
  by (rule images_only_products [OF repair_lifecycle_frame])

lemma listing_step_versions:
  assumes "listing_step look sha (d, s) l (d', s')" "wf_table (products d)"
  shows "versions_grow d d' \<and> wf_table (products d')"
  using assms
  by (cases rule: listing_step.cases)
    (auto dest: product_create_versions product_update_versions product_delete_versions
      repair_lifecycle_products intro: versions_grow_same)

lemma product_delete_frame: "product_delete now user_id pk post seen d = (pg, d') \<Longrightarrow>
    product_images d' = product_images d \<and> deletion_intents d' = deletion_intents d"
  by (auto simp: product_delete_def split: option.splits if_splits)

lemma listing_step_gallery:
  assumes "listing_step look sha (d, s) l (d', s')" "gallery_inv look sha d s"
  shows "gallery_inv look sha d' s'"
  using assms
proof (cases rule: listing_step.cases)
  case (step_create e form user_id pg)
  with product_create_inv [of look e d s form user_id pg d' s'] assms(2) show ?thesis by auto
next
  case (step_update e seen form pk user_id pg)
  with product_update_inv [of look e d s seen form pk user_id pg d' s'] assms(2) show ?thesis by auto
next
  case (step_delete now user_id pk post seen pg)
  with product_delete_frame [of now user_id pk post seen d pg d'] gallery_inv_tables [OF assms(2), of d'] show ?thesis by simp
next
  case (step_repair st now r)
  with repair_lifecycle_inv [of look st sha d s now r d' s'] assms(2) show ?thesis by simp
next
  case step_elsewhere
  with gallery_inv_tables [OF gallery_touch [OF assms(2)], of "{}" s' d'] show ?thesis by simp
qed

definition listing_inv :: "'s lookup \<Rightarrow> (content \<Rightarrow> nat) \<Rightarrow> db \<times> 's \<Rightarrow> bool" where
  "listing_inv look sha x \<longleftrightarrow> gallery_inv look sha (fst x) (snd x) \<and> wf_table (products (fst x))"

interpretation listing: invariant_system "listing_step look sha" "listing_inv look sha" for look sha
proof unfold_locales
  fix look :: "'a lookup" and sha :: "content \<Rightarrow> nat" and x l y
  assume "listing_step look sha x l y" "listing_inv look sha x"
  then show "listing_inv look sha y"
    by (cases x, cases y) (simp add: listing_inv_def listing_step_gallery listing_step_versions)
qed

section \<open>Properties\<close>

text \<open>
  C10: whatever pages, repairs and storage failures a run contains, every image row that is left
  has its bytes, with the recorded checksum, in the storage under its own key, and no key of a
  row is in the deletion outbox.
\<close>

theorem stored_images_keep_their_bytes:
  assumes "listing.run look sha (d, s) ls (d', s')" "gallery_inv look sha d s" "wf_table (products d)"
    and "tget (product_images d') k = Some i"
  shows "image_safe look sha s' i \<and> row_keys i \<inter> intent_keys d' = {}"
proof -
  from listing.run_inv [OF assms(1)] assms(2,3) have "gallery_inv look sha d' s'" by (simp add: listing_inv_def)
  from gallery_rowD [OF this assms(4)] show ?thesis by blast
qed

text \<open>A storage in memory and a staged image, for the examples.\<close>

definition memory_storage :: "(pystr \<Rightarrow> content option) storage" where
  "memory_storage = \<lparr>st_save = (\<lambda>n c s. if s n = None then (Inr n, s(n := Some c)) else (Inl RuntimeError, s)),
     st_read = (\<lambda>n s. case s n of None \<Rightarrow> Inl ObjectDoesNotExist | Some c \<Rightarrow> Inr c),
     st_exists = (\<lambda>n s. Inr (s n \<noteq> None)), st_delete = (\<lambda>n s. (Inr (), s(n := None)))\<rparr>"

lemma memory_storage_ok: "storage_ok (\<lambda>s. s) memory_storage"
  by (auto simp: storage_ok_def memory_storage_def touches_def split: if_splits option.splits)

definition staged_image :: product_image where
  "staged_image = \<lparr>image_product_id = 7, image_name = [1], image_position = 0, image_sha256 = 3, image_byte_size = 3,
     image_width = 2, image_height = 2, image_owned_key = [2], image_promotion_state = IMAGE_PENDING\<rparr>"

definition gallery_db :: db where
  "gallery_db = empty_db\<lparr>product_images := \<lparr>rows = [(1, staged_image)], next_pk = 2\<rparr>\<rparr>"

definition gallery_files :: "pystr \<Rightarrow> content option" where
  "gallery_files = Map.empty([1] \<mapsto> [9, 9, 9])"

lemma gallery_db_ok: "gallery_inv (\<lambda>s. s) length gallery_db gallery_files" "wf_table (products gallery_db)"
  by (auto simp: gallery_inv_def gallery_db_def staged_image_def gallery_files_def rows_apart_def wf_table_def tget_def
      image_safe_def holds_def pending_names_ok_def intent_keys_def empty_db_def empty_table_def split: if_splits)

lemma gallery_db_repaired:
  "repair_product_image_lifecycle memory_storage length 5 gallery_db gallery_files =
    (None, gallery_db\<lparr>product_images := \<lparr>rows = [(1, staged_image\<lparr>image_name := [2],
        image_promotion_state := IMAGE_PROMOTED\<rparr>)], next_pk = 2\<rparr>\<rparr>, Map.empty([2] \<mapsto> [9, 9, 9]))"
proof -
  have "(Map.empty([1::nat] \<mapsto> [9::nat, 9, 9], [2] \<mapsto> [9, 9, 9]))([1] := None) = Map.empty([2] \<mapsto> [9, 9, 9])"
    by (rule ext) simp
  then show ?thesis
    by (simp add: repair_product_image_lifecycle_def promote_product_images_def promote_one_def place_owned_def
        storage_checksum_def memory_storage_def gallery_db_def gallery_files_def staged_image_def tselect_def tget_def
        tmodify_def tupdate_def repair_product_image_deletions_def empty_db_def empty_table_def Let_def)
qed

theorem stored_images_keep_their_bytes_witness:
  "image_safe (\<lambda>s. s) length (Map.empty([2] \<mapsto> [9, 9, 9]))
     (staged_image\<lparr>image_name := [2], image_promotion_state := IMAGE_PROMOTED\<rparr>)"
proof -
  from listing.run_cons [OF step_repair [OF memory_storage_ok gallery_db_repaired] listing.run_nil]
  have run: "listing.run (\<lambda>s. s) length (gallery_db, gallery_files) [Repair None]
      (gallery_db\<lparr>product_images := \<lparr>rows = [(1, staged_image\<lparr>image_name := [2],
        image_promotion_state := IMAGE_PROMOTED\<rparr>)], next_pk = 2\<rparr>\<rparr>, Map.empty([2] \<mapsto> [9, 9, 9]))" .
  from stored_images_keep_their_bytes [OF run gallery_db_ok, of 1] show ?thesis by (simp add: tget_def)
qed

text \<open>
  C13: once an edit that showed version \<open>v\<close> has been saved, no later request that still carries
  \<open>v\<close> or an older version, whoever sends it and whatever ran in between, changes or archives the
  product: it gets 409 or 404 and leaves database and files alone.
\<close>

theorem stale_edit_refused:
  assumes "wf_table (products d)"
    and "product_update e u pk (Some form) seen d s = (To_Detail pk, d1, s1)"
    and "clean_update (env_codec e) seen form = Inr (c, v)"
    and "gallery_inv look sha d1 s1" "listing.run look sha (d1, s1) ls (d2, s2)"
    and "clean_update (env_codec e') seen' form' = Inr (c', v')" "v' \<le> v"
  shows "(\<exists>n \<in> {404, 409}. product_update e' u' pk (Some form') seen' d2 s2 = (Page n, d2, s2)) \<and>
    (\<exists>n \<in> {404, 409}. product_delete now u' pk (Some v') seen' d2 = (Page n, d2))"
proof -
  from assms(2) obtain p where p: "owned_product u pk d = Some p" "v = int (product_version p)"
    and d1: "products d1 = tmodify pk (edited e c) (products d)"
  proof (cases rule: product_update_cases)
    case (edit form2 c2 v2 p)
    with save_edit_products [OF edit(5)] assms(3) that [of p] show ?thesis by auto
  qed simp
  from p(1) have "tget (products d) pk = Some p" by (auto simp: owned_product_def split: option.splits if_splits)
  then have 1: "tget (products d1) pk = Some (edited e c p)" by (simp add: d1 tbl_simps)
  from assms(1) d1 have "wf_table (products d1)" by (simp add: wf_intros)
  with assms(4) have inv: "listing_inv look sha (d1, s1)" by (simp add: listing_inv_def)
  have "versions_grow (fst (d1, s1)) (fst (d2, s2))"
  proof (rule listing.run_monotone [OF _ _ _ assms(5) inv])
    fix a l b assume "listing_step look sha a l b" "listing_inv look sha a"
    then show "versions_grow (fst a) (fst b)"
      by (cases a, cases b) (simp add: listing_inv_def listing_step_versions)
  qed (auto intro: versions_grow_refl versions_grow_trans)
  then have "versions_grow d1 d2" by simp
  from versions_growD [OF this 1] obtain q where q: "tget (products d2) pk = Some q"
    "product_version (edited e c p) \<le> product_version q" by metis
  with p(2) assms(7) have newer: "v' \<noteq> int (product_version q)" by (simp add: edited_def)
  from q newer assms(6) show ?thesis
    by (auto simp: product_update_def product_delete_def owned_product_def split: option.splits)
qed

definition desk :: product where
  "desk = \<lparr>product_owner_id = 2, product_title = [65], product_description = [66], product_price = 90,
     product_legacy_image = [], product_category_id = lit ''OTHER'', product_region_id = None,
     product_region_source = LEGACY_UNSET, product_archived_at = None, product_version = 4, product_created_at = 0,
     product_demo_key = None\<rparr>"

definition desk_db :: db where
  "desk_db = empty_db\<lparr>products := \<lparr>rows = [(7, desk)], next_pk = 8\<rparr>, categories := [lit ''OTHER'']\<rparr>"

definition desk_env :: "(pystr \<Rightarrow> content option) page_env" where
  "desk_env = \<lparr>env_codec = \<lparr>codec_open = (\<lambda>_. None), codec_load = (\<lambda>_. None), codec_encode = (\<lambda>_ _. None)\<rparr>,
     env_storage = memory_storage, env_sha = length, env_nfc = (\<lambda>s. s), env_now = 5,
     env_uuids = (\<lambda>n. (n, n + 10)), env_commit = None\<rparr>"

definition desk_form :: product_form where
  "desk_form = \<lparr>raw_title = [67], raw_description = [68], raw_price = Some 80, raw_category = [],
     raw_region = [], raw_images = [], raw_version = Some 4, raw_clear_images = False\<rparr>"

definition desk_clean :: cleaned_product where
  "desk_clean = \<lparr>cleaned_title = [67], cleaned_description = [68], cleaned_price = 80,
     cleaned_category = lit ''OTHER'', cleaned_region = None, cleaned_images = []\<rparr>"

lemma desk_cleaned: "clean_update (env_codec desk_env) desk_db desk_form = Inr (desk_clean, 4)"
  by (simp add: clean_update_def clean_product_def clean_text_def clean_category_def clean_images_def desk_form_def
      desk_db_def desk_clean_def py_strip_def py_isspace_def empty_db_def lit_def)

definition desk_saved :: db where
  "desk_saved = desk_db\<lparr>products := tmodify 7 (edited desk_env desk_clean) (products desk_db)\<rparr>"

lemma desk_updated:
  "product_update desk_env 2 7 (Some desk_form) desk_db desk_db Map.empty = (To_Detail 7, desk_saved, Map.empty)"
proof -
  have "owned_product 2 7 desk_db = Some desk" by (simp add: owned_product_def desk_db_def desk_def tget_def)
  then show ?thesis
    by (simp add: product_update_def desk_cleaned save_edit_def desk_saved_def)
      (simp add: desk_def desk_clean_def desk_form_def desk_env_def)
qed

lemma desk_ok: "wf_table (products desk_db)" "gallery_inv (\<lambda>s. s) length desk_saved Map.empty"
  by (auto simp: desk_db_def desk_saved_def wf_table_def gallery_inv_def rows_apart_def empty_db_def empty_table_def tget_def)

theorem stale_edit_refused_witness:
  "\<exists>n \<in> {404, 409}. product_update desk_env 2 7 (Some desk_form) desk_db desk_saved Map.empty =
     (Page n, desk_saved, Map.empty)"
  using stale_edit_refused [OF desk_ok(1) desk_updated desk_cleaned desk_ok(2) listing.run_nil desk_cleaned]
  by blast

end
