(* ===== verification/Gallery_Recovery.thy ===== *)
theory Gallery_Recovery imports Gallery_Properties begin

text \<open>
  What becomes of a gallery operation that failed half way: a page that raised leaves no file
  without an outbox entry, and one run of the repair command on a working storage promotes every
  pending image and empties the outbox.
\<close>

section \<open>Files of a page that failed\<close>

text \<open>A storage whose failing calls do nothing, and whose succeeding ones do nothing else.\<close>

definition exact_storage :: "'s lookup \<Rightarrow> 's storage \<Rightarrow> bool" where
  "exact_storage look st \<longleftrightarrow> storage_ok look st \<and>
     (\<forall>n c s r s'. st_save st n c s = (r, s') \<longrightarrow>
        look s' = (case r of Inl _ \<Rightarrow> look s | Inr saved \<Rightarrow> (look s)(saved \<mapsto> c))) \<and>
     (\<forall>n s r s'. st_delete st n s = (r, s') \<longrightarrow>
        look s' = (case r of Inl _ \<Rightarrow> look s | Inr _ \<Rightarrow> (look s)(n := None)))"

lemma exact_save: "exact_storage look st \<Longrightarrow> st_save st n c s = (r, s') \<Longrightarrow>
    look s' = (case r of Inl _ \<Rightarrow> look s | Inr saved \<Rightarrow> (look s)(saved \<mapsto> c))"
  unfolding exact_storage_def by blast

lemma exact_delete: "exact_storage look st \<Longrightarrow> st_delete st n s = (r, s') \<Longrightarrow>
    look s' = (case r of Inl _ \<Rightarrow> look s | Inr _ \<Rightarrow> (look s)(n := None))"
  unfolding exact_storage_def by blast

lemma exact_ok: "exact_storage look st \<Longrightarrow> storage_ok look st"
  by (simp add: exact_storage_def)

lemma stage_images_files:
  "exact_storage look st \<Longrightarrow> stage_images st sha pid pos prot ups files s = (r, fs, s') \<Longrightarrow>
   look s k = None \<Longrightarrow> look s' k \<noteq> None \<Longrightarrow> k \<in> set fs"
proof (induction ups arbitrary: pos prot files s r fs s')
  case (Cons u us)
  obtain q s1 where save: "st_save st (temp_name u) (si_content (up_image u)) s = (q, s1)" by force
  note e = exact_save [OF Cons.prems(1) save]
  show ?case
  proof (cases "(temp_name u \<in> set prot \<or> owned_name pid u \<in> set prot) \<or> q \<noteq> Inr (temp_name u)")
    case True
    with Cons.prems save e show ?thesis by (auto split: if_splits sum.splits)
  next
    case False
    obtain q2 fs2 s2 where rest: "stage_images st sha pid (Suc pos) (temp_name u # owned_name pid u # prot) us
        (files @ [temp_name u]) s1 = (q2, fs2, s2)" by (metis prod_cases3)
    with False save Cons.prems(2) have res: "fs = fs2" "s' = s2" by (auto simp: Let_def split: sum.splits)
    from stage_images_ok [OF exact_ok [OF Cons.prems(1)] rest] have "temp_name u \<in> set fs2" by auto
    with Cons.IH [OF Cons.prems(1) rest] e False Cons.prems(3,4) res show ?thesis by (cases "k = temp_name u") auto
  qed
qed simp

lemma cleanup_files:
  "exact_storage look st \<Longrightarrow> cleanup st ns s = (failed, s') \<Longrightarrow> look s' k \<noteq> None \<Longrightarrow>
   look s k \<noteq> None \<and> (k \<in> set ns \<longrightarrow> k \<in> set failed)"
proof (induction ns arbitrary: s s' failed)
  case (Cons n ns)
  obtain r s1 where d: "st_delete st n s = (r, s1)" by force
  obtain fs s2 where c: "cleanup st ns s1 = (fs, s2)" by force
  from Cons.prems(2) d c have res: "s' = s2" "failed = (case r of Inl _ \<Rightarrow> n # fs | Inr _ \<Rightarrow> fs)"
    by (auto split: sum.splits)
  from Cons.IH [OF Cons.prems(1) c] Cons.prems(3) res exact_delete [OF Cons.prems(1) d] show ?case
    by (cases r) (auto split: if_splits)
qed simp

lemma intent_keys_mono: "intent_keys d \<subseteq> intent_keys (add_intents ks d)"
proof (induction ks arbitrary: d)
  case (Cons z zs)
  have "intent_keys d \<subseteq> intent_keys (d\<lparr>deletion_intents := snd (tcreate r (deletion_intents d))\<rparr>)" for r
    by (auto simp: intent_keys_def)
  with Cons.IH show ?case by (auto; blast)
qed simp

lemma add_intents_keys: "k \<in> set ks \<Longrightarrow> k \<noteq> [] \<Longrightarrow> k \<in> intent_keys (add_intents ks d)"
proof (induction ks arbitrary: d)
  case (Cons x xs)
  let ?d = "if x = [] \<or> texists (\<lambda>_ i. intent_storage_key i = x) (deletion_intents d) then d
        else d\<lparr>deletion_intents := snd (tcreate \<lparr>intent_storage_key = x, intent_last_attempt_at = None,
                                                intent_attempts = 0\<rparr> (deletion_intents d))\<rparr>"
  have step: "add_intents (x # xs) d = add_intents xs ?d" by (rule add_intents.simps)
  show ?case
  proof (cases "k \<in> set xs")
    case True
    from Cons.IH [OF True Cons.prems(2)] show ?thesis unfolding step .
  next
    case False
    with Cons.prems have "k \<in> intent_keys ?d"
      by (auto simp: intent_keys_def texists_def list_ex_iff)
    then show ?thesis unfolding step by (rule subsetD [OF intent_keys_mono])
  qed
qed simp

text \<open>New keys are not empty, so every one the clean-up left behind enters the outbox.\<close>

lemma new_key_nonempty: "new_key look s ups n \<Longrightarrow> n \<noteq> []"
  by (auto simp: new_key_def temp_name_def lit_def)

lemma replace_files:
  assumes st: "exact_storage look st"
    and run: "replace_product_images st sha True pid ups d s = (r, s')"
  shows "(\<forall>e failed. r = Inl (e, failed) \<longrightarrow>
      (\<forall>k. look s k = None \<longrightarrow> look s' k \<noteq> None \<longrightarrow> k \<in> set failed \<and> k \<noteq> [])) \<and>
    (\<forall>files d'. r = Inr (files, d') \<longrightarrow>
      (\<forall>k. look s k = None \<longrightarrow> look s' k \<noteq> None \<longrightarrow> k \<in> set files \<and> k \<noteq> []))"
proof -
  have files: "k \<in> set fs \<and> k \<noteq> []" if "stage_images st sha pid 0 prot ups [] s = (q, fs, s1)"
    "look s k = None" "look s1 k \<noteq> None" for prot q fs s1 k
    using stage_images_files [OF st that] stage_images_ok [OF exact_ok [OF st] that(1)] new_key_nonempty by fastforce
  have failed: "k \<in> set failed \<and> k \<noteq> []" if "stage_images st sha pid 0 prot ups [] s = (q, fs, s1)"
    "cleanup st fs s1 = (failed, s2)" "look s k = None" "look s2 k \<noteq> None" for prot q fs s1 failed s2 k
    using files [OF that(1,3)] cleanup_files [OF st that(2,4)] by blast
  from run show ?thesis
    unfolding replace_product_images_def Let_def
    by (auto split: if_splits option.splits sum.splits prod.splits dest: files failed)
qed

lemma raised_page_files:
  assumes "exact_storage look (env_storage e)"
    and run: "finish_page e d pid
      (replace_product_images (env_storage e) (env_sha e) True pid ups d0 s) = (Raised x, d', s')"
  shows "(\<exists>ks. d' = add_intents ks d) \<and> (\<forall>k. look s k = None \<longrightarrow> look s' k \<noteq> None \<longrightarrow> k \<in> intent_keys d')"
proof -
  obtain r s1 where rep: "replace_product_images (env_storage e) (env_sha e) True pid ups d0 s = (r, s1)" by force
  note ok = replace_files [OF assms(1) rep]
  show ?thesis
  proof (cases r)
    case (Inl y)
    obtain err failed where y: "y = (err, failed)" by force
    from run rep Inl y have res: "d' = add_intents failed d" "s' = s1" by (auto simp: finish_page_def)
    have "k \<in> intent_keys d'" if "look s k = None" "look s' k \<noteq> None" for k
      using that ok Inl y res(2) unfolding res(1) by (blast intro: add_intents_keys)
    with res(1) show ?thesis by blast
  next
    case (Inr y)
    obtain files d1 where y: "y = (files, d1)" by force
    obtain failed s2 where clean: "cleanup (env_storage e) files s1 = (failed, s2)" by force
    from run rep Inr y clean have res: "d' = add_intents failed d" "s' = s2"
      by (auto simp: finish_page_def split: option.splits prod.splits)
    have "k \<in> intent_keys d'" if k: "look s k = None" "look s' k \<noteq> None" for k
    proof -
      from cleanup_files [OF assms(1) clean, of k] k res(2) have "look s1 k \<noteq> None" "k \<in> set files \<longrightarrow> k \<in> set failed"
        by auto
      with ok Inr y k(1) have "k \<in> set failed" "k \<noteq> []" by blast+
      then show ?thesis unfolding res(1) by (rule add_intents_keys)
    qed
    with res(1) show ?thesis by blast
  qed
qed


lemma memory_storage_exact: "exact_storage (\<lambda>s. s) memory_storage"
  by (simp add: exact_storage_def memory_storage_ok) (auto simp: memory_storage_def split: if_splits)


section \<open>One repair on a working storage\<close>

definition working_storage :: "'s lookup \<Rightarrow> 's storage \<Rightarrow> bool" where
  "working_storage look st \<longleftrightarrow>
     (\<forall>n c s. look s n = None \<longrightarrow> (\<exists>s'. st_save st n c s = (Inr n, s') \<and> look s' = (look s)(n \<mapsto> c))) \<and>
     (\<forall>n c s. look s n = Some c \<longrightarrow> st_read st n s = Inr c) \<and>
     (\<forall>n s. st_exists st n s = Inr (look s n \<noteq> None)) \<and>
     (\<forall>n s. \<exists>s'. st_delete st n s = (Inr (), s') \<and> look s' = (look s)(n := None))"

lemma working_save:
  assumes "working_storage look st" "look s n = None"
  obtains s' where "st_save st n c s = (Inr n, s')" "look s' = (look s)(n \<mapsto> c)"
  using assms unfolding working_storage_def by blast

lemma working_read: "working_storage look st \<Longrightarrow> look s n = Some c \<Longrightarrow> st_read st n s = Inr c"
  unfolding working_storage_def by blast

lemma working_exists: "working_storage look st \<Longrightarrow> st_exists st n s = Inr (look s n \<noteq> None)"
  unfolding working_storage_def by blast

lemma working_delete:
  assumes "working_storage look st"
  obtains s' where "st_delete st n s = (Inr (), s')" "look s' = (look s)(n := None)"
  using assms unfolding working_storage_def by blast

text \<open>A pending image can be promoted when its owned key is free or already has its bytes.\<close>

definition owned_free :: "'s lookup \<Rightarrow> (content \<Rightarrow> nat) \<Rightarrow> 's \<Rightarrow> product_image \<Rightarrow> bool" where
  "owned_free look sha s i \<longleftrightarrow> image_promotion_state i = IMAGE_PENDING \<longrightarrow>
     look s (image_owned_key i) = None \<or> holds look sha s (image_owned_key i) (image_sha256 i)"

definition ready :: "'s lookup \<Rightarrow> (content \<Rightarrow> nat) \<Rightarrow> db \<Rightarrow> 's \<Rightarrow> bool" where
  "ready look sha d s \<longleftrightarrow> gallery_inv look sha d s \<and>
     (\<forall>k i. tget (product_images d) k = Some i \<longrightarrow> owned_free look sha s i)"

lemma place_owned_works:
  assumes "working_storage look st" "image_safe look sha s i" "owned_free look sha s i"
    and "image_promotion_state i = IMAGE_PENDING"
  obtains s' c where "place_owned st sha i s = (Inr (), s')" "look s' = (look s)(image_owned_key i \<mapsto> c)"
    "sha c = image_sha256 i"
proof (cases "look s (image_owned_key i)")
  case (Some c)
  with assms(3,4) have "sha c = image_sha256 i" by (auto simp: owned_free_def holds_def)
  moreover from this Some have "place_owned st sha i s = (Inr (), s)"
    by (simp add: place_owned_def working_exists [OF assms(1)] storage_checksum_def working_read [OF assms(1) Some])
  moreover from Some have "look s = (look s)(image_owned_key i \<mapsto> c)" by (simp add: fun_upd_idem)
  ultimately show ?thesis using that by blast
next
  case None
  with assms(2) obtain c where c: "look s (image_name i) = Some c" "sha c = image_sha256 i"
    by (auto simp: image_safe_def holds_def)
  from working_save [OF assms(1) None] obtain s' where
    s': "st_save st (image_owned_key i) c s = (Inr (image_owned_key i), s')" "look s' = (look s)(image_owned_key i \<mapsto> c)" .
  then have "st_read st (image_owned_key i) s' = Inr c" by (intro working_read [OF assms(1)]) simp
  with s' c None have "place_owned st sha i s = (Inr (), s')"
    by (simp add: place_owned_def working_exists [OF assms(1)] storage_checksum_def working_read [OF assms(1) c(1)])
  with s'(2) c(2) that show ?thesis by blast
qed

lemma promote_one_works:
  assumes st: "storage_ok look st" "working_storage look st" and ready: "ready look sha d s"
    and i: "tget (product_images d) n = Some i"
  obtains d' s' where "promote_one st sha n d s = (None, d', s')" "ready look sha d' s'"
    "deletion_intents d' = deletion_intents d"
    "\<And>k. tget (product_images d') k = (if k = n then Some (i\<lparr>image_name := (if image_promotion_state i = IMAGE_PENDING
        then image_owned_key i else image_name i), image_promotion_state := IMAGE_PROMOTED\<rparr>) else tget (product_images d) k)"
proof (cases "image_promotion_state i = IMAGE_PENDING")
  case False
  then have "image_promotion_state i = IMAGE_PROMOTED" by (cases "image_promotion_state i") simp_all
  with i ready that [of d s] show ?thesis by (simp add: promote_one_def)
next
  case pend: True
  from ready i have safe: "image_safe look sha s i" "owned_free look sha s i" and inv: "gallery_inv look sha d s"
    by (auto simp: ready_def dest: gallery_rowD)
  from place_owned_works [OF st(2) safe pend] obtain s1 c where
    place: "place_owned st sha i s = (Inr (), s1)" "look s1 = (look s)(image_owned_key i \<mapsto> c)" "sha c = image_sha256 i" .
  from working_delete [OF st(2)] obtain s2 where
    del: "st_delete st (image_name i) s1 = (Inr (), s2)" "look s2 = (look s1)(image_name i := None)" .
  let ?d = "d\<lparr>product_images := tmodify n (\<lambda>i. i\<lparr>image_name := image_owned_key i,
      image_promotion_state := IMAGE_PROMOTED\<rparr>) (product_images d)\<rparr>"
  have run: "promote_one st sha n d s = (None, ?d, s2)"
    using i pend place(1) del(1) by (simp add: promote_one_def)
  from promote_one_inv [OF st(1) inv run] have inv': "gallery_inv look sha ?d s2" .
  have get: "tget (product_images ?d) k = (if k = n then Some (i\<lparr>image_name := image_owned_key i,
      image_promotion_state := IMAGE_PROMOTED\<rparr>) else tget (product_images d) k)" for k
    using i by (simp add: tbl_simps)
  have "owned_free look sha s2 j" if j: "tget (product_images ?d) k = Some j" for k j
  proof (cases "k = n \<or> image_promotion_state j = IMAGE_PROMOTED")
    case True
    with j get show ?thesis by (auto simp: owned_free_def split: if_splits)
  next
    case False
    with j get have old: "tget (product_images d) k = Some j" by simp
    with inv i False have "row_keys j \<inter> row_keys i = {}" unfolding gallery_inv_def rows_apart_def by blast
    with False pend have "image_owned_key j \<noteq> image_owned_key i" "image_owned_key j \<noteq> image_name i"
      by (auto simp: row_keys_def)
    then have "look s2 (image_owned_key j) = look s (image_owned_key j)" by (simp add: del(2) place(2))
    moreover from ready old have "owned_free look sha s j" by (simp add: ready_def)
    ultimately show ?thesis by (simp add: owned_free_def holds_def)
  qed
  with inv' have "ready look sha ?d s2" by (simp add: ready_def)
  from that [OF run this] get pend show ?thesis by simp
qed

definition all_promoted :: "nat set \<Rightarrow> db \<Rightarrow> bool" where
  "all_promoted K d \<longleftrightarrow> (\<forall>k i. tget (product_images d) k = Some i \<longrightarrow> image_promotion_state i = IMAGE_PENDING \<longrightarrow> k \<notin> K)"

lemma promote_each_works:
  assumes st: "storage_ok look st" "working_storage look st"
  shows "ready look sha d s \<Longrightarrow> (\<forall>n \<in> set ns. tget (product_images d) n \<noteq> None) \<Longrightarrow> all_promoted (- set ns) d \<Longrightarrow>
    \<exists>d' s'. promote_each st sha ns d s = ([], d', s') \<and> ready look sha d' s' \<and> all_promoted UNIV d' \<and>
      deletion_intents d' = deletion_intents d"
proof (induction ns arbitrary: d s)
  case (Cons n ns)
  then obtain i where i: "tget (product_images d) n = Some i" by auto
  from promote_one_works [OF st Cons.prems(1) i] obtain d1 s1 where
    one: "promote_one st sha n d s = (None, d1, s1)" "ready look sha d1 s1" "deletion_intents d1 = deletion_intents d"
    and get: "\<And>k. tget (product_images d1) k = (if k = n then Some (i\<lparr>image_name := (if image_promotion_state i = IMAGE_PENDING
        then image_owned_key i else image_name i), image_promotion_state := IMAGE_PROMOTED\<rparr>) else tget (product_images d) k)"
    by blast
  have "all_promoted (- set ns) d1"
    using Cons.prems(3) unfolding all_promoted_def get by (auto split: if_splits)
  moreover have "\<forall>n \<in> set ns. tget (product_images d1) n \<noteq> None" using Cons.prems(2) get by simp
  ultimately obtain d2 s2 where "promote_each st sha ns d1 s1 = ([], d2, s2)" "ready look sha d2 s2"
    "all_promoted UNIV d2" "deletion_intents d2 = deletion_intents d1"
    using Cons.IH [OF one(2)] by blast
  with one show ?case by simp
qed (simp add: all_promoted_def)

lemma repair_each_works:
  assumes st: "working_storage look st"
  shows "wf_table (deletion_intents d) \<Longrightarrow> distinct ns \<Longrightarrow> (\<forall>n \<in> set ns. tget (deletion_intents d) n \<noteq> None) \<Longrightarrow>
    \<exists>d' s'. repair_each st now ns d s = ([], d', s') \<and> product_images d' = product_images d \<and>
      rows (deletion_intents d') = filter (\<lambda>(k, _). k \<notin> set ns) (rows (deletion_intents d)) \<and>
      (\<forall>k. look s k = None \<longrightarrow> look s' k = None) \<and>
      (\<forall>n \<in> set ns. \<forall>i. tget (deletion_intents d) n = Some i \<longrightarrow> look s' (intent_storage_key i) = None)"
proof (induction ns arbitrary: d s)
  case (Cons n ns)
  then obtain i where i: "tget (deletion_intents d) n = Some i" by auto
  from working_delete [OF st] obtain s1 where
    del: "st_delete st (intent_storage_key i) s = (Inr (), s1)" "look s1 = (look s)(intent_storage_key i := None)" .
  define d1 where "d1 = d\<lparr>deletion_intents := tdelete (\<lambda>k _. k = n) (tmodify n
      (\<lambda>i. i\<lparr>intent_attempts := intent_attempts i + 1, intent_last_attempt_at := Some now\<rparr>) (deletion_intents d))\<rparr>"
  have one: "repair_deletion st now n d s = (None, d1, s1)"
    using i del(1) by (simp add: repair_deletion_def d1_def Let_def)
  have rows1: "rows (deletion_intents d1) = filter (\<lambda>(k, _). k \<noteq> n) (rows (deletion_intents d))"
    by (auto simp: d1_def tdelete_def tmodify_def tupdate_def filter_map comp_def case_prod_unfold intro!: map_idI)
  from Cons.prems(1) have wf1: "wf_table (deletion_intents d1)" by (simp add: d1_def wf_intros)
  have get: "tget (deletion_intents d1) k = (if k = n then None else tget (deletion_intents d) k)" for k
    using Cons.prems(1) by (auto simp: d1_def tbl_simps wf_intros split: option.splits)
  from Cons.prems(2,3) get have "\<forall>n \<in> set ns. tget (deletion_intents d1) n \<noteq> None" "distinct ns" by auto
  from Cons.IH [OF wf1 this(2,1), of s1] obtain d2 s2 where
    two: "repair_each st now ns d1 s1 = ([], d2, s2)" "product_images d2 = product_images d1"
    "rows (deletion_intents d2) = filter (\<lambda>(k, _). k \<notin> set ns) (rows (deletion_intents d1))"
    "\<forall>k. look s1 k = None \<longrightarrow> look s2 k = None"
    "\<forall>n \<in> set ns. \<forall>i. tget (deletion_intents d1) n = Some i \<longrightarrow> look s2 (intent_storage_key i) = None" by blast
  have "rows (deletion_intents d2) = filter (\<lambda>(k, _). k \<notin> set (n # ns)) (rows (deletion_intents d))"
    unfolding two(3) rows1 by (auto simp: filter_filter case_prod_unfold intro!: filter_cong)
  moreover have "look s2 (intent_storage_key i) = None" using two(4) del(2) by simp
  ultimately show ?case
    using one two i get del(2) Cons.prems(2) by (auto simp: d1_def split: if_splits)
qed simp


lemma memory_storage_works: "working_storage (\<lambda>s. s) memory_storage"
  by (simp add: working_storage_def memory_storage_def)


end
