(* ===== verification/Sessions.thy ===== *)
theory Sessions imports Moderation_Services Identity Transfers begin

text \<open>
  Authenticated sessions: \<open>AccountSessionService\<close>, the preparation of a revocation task and the
  HTTP status boundary of \<open>accounts/services.py\<close>, with the two middlewares of
  \<open>config/middleware.py\<close>. The browser's session is a value the request carries; the stored
  Django sessions are the keys in the database. No request-wide transaction is configured, so
  what a raising operation wrote before the raise stays.
\<close>

section \<open>The session of a request\<close>

text \<open>A Python value where the code checks types: an integer that is no boolean, or something else.\<close>

datatype pyval = Absent | Int_Value int | Other_Value

record web_session =
  ws_key :: "nat option"
  ws_epoch :: pyval      \<comment> \<open>\<open>SESSION_AUTH_EPOCH_KEY\<close>\<close>

definition SESSION_INDEX_TOUCH_INTERVAL :: int where "SESSION_INDEX_TOUCH_INTERVAL = minutes 5"

text \<open>\<open>_session_key\<close>: a session without a key is saved first; \<open>fresh\<close> is the key it would get.\<close>

definition save_session :: "nat \<Rightarrow> web_session \<Rightarrow> db \<Rightarrow> nat \<times> web_session \<times> db" where
  "save_session fresh ws d =
     (case ws_key ws of
        Some k \<Rightarrow> (k, ws, d)
      | None \<Rightarrow> (fresh, ws\<lparr>ws_key := Some fresh\<rparr>, d\<lparr>sessions := fresh # sessions d\<rparr>))"

text \<open>Django's \<open>logout\<close> flushes: the stored session goes, the request's session is empty.\<close>

definition logout_session :: "web_session \<Rightarrow> db \<Rightarrow> web_session \<times> db" where
  "logout_session ws d =
     (\<lparr>ws_key = None, ws_epoch = Absent\<rparr>,
      (case ws_key ws of None \<Rightarrow> d | Some k \<Rightarrow> d\<lparr>sessions := removeAll k (sessions d)\<rparr>))"

text \<open>Django's \<open>cycle_key\<close>, behind \<open>login\<close> and \<open>update_session_auth_hash\<close>: the same data under a new key.\<close>

definition cycle_key :: "nat \<Rightarrow> web_session \<Rightarrow> db \<Rightarrow> web_session \<times> db" where
  "cycle_key fresh ws d =
     (ws\<lparr>ws_key := Some fresh\<rparr>,
      d\<lparr>sessions := fresh # (case ws_key ws of None \<Rightarrow> sessions d | Some k \<Rightarrow> removeAll k (sessions d))\<rparr>)"

section \<open>AccountSessionService\<close>

definition index_of :: "db \<Rightarrow> nat \<Rightarrow> (nat \<times> user_session_index) option" where
  "index_of d key = tfirst (\<lambda>_ x. sidx_session_key x = key) (session_indexes d)"

text \<open>\<open>u\<close> is the user object of the request, which may be older than the row.\<close>

definition start_session ::
    "nat \<Rightarrow> instant \<Rightarrow> nat \<Rightarrow> user \<Rightarrow> web_session \<Rightarrow> db \<Rightarrow> (exn + unit) \<times> web_session \<times> db" where
  "start_session fresh now user_id u ws d =
     (let (key, ws1, d1) = save_session fresh ws d;
          ws2 = ws1\<lparr>ws_epoch := Int_Value (int (user_auth_epoch u))\<rparr> in
      case index_of d1 key of
        None \<Rightarrow>
          (Inr (), ws2, d1\<lparr>session_indexes := snd (tcreate
             \<lparr>sidx_user_id = user_id, sidx_session_key = key, sidx_auth_epoch = user_auth_epoch u,
              sidx_last_seen_at = now, sidx_revoked_at = None\<rparr> (session_indexes d1))\<rparr>)
      | Some (k, x) \<Rightarrow>
          if sidx_user_id x \<noteq> user_id then (Inl RuntimeError, ws2, d1)
          else if sidx_revoked_at x \<noteq> None then (Inl RuntimeError, ws2, d1)
          else if sidx_auth_epoch x \<noteq> user_auth_epoch u then
            (Inr (), ws2, d1\<lparr>session_indexes := tmodify k
               (\<lambda>x. x\<lparr>sidx_auth_epoch := user_auth_epoch u, sidx_last_seen_at := now\<rparr>) (session_indexes d1)\<rparr>)
          else (Inr (), ws2, d1))"

definition revoke_key :: "instant \<Rightarrow> nat \<Rightarrow> db \<Rightarrow> db" where
  "revoke_key now key d =
     d\<lparr>session_indexes := tupdate (\<lambda>_ x. sidx_session_key x = key \<and> sidx_revoked_at x = None)
        (\<lambda>x. x\<lparr>sidx_revoked_at := Some now\<rparr>) (session_indexes d)\<rparr>"

definition end_session :: "instant \<Rightarrow> bool \<Rightarrow> web_session \<Rightarrow> db \<Rightarrow> web_session \<times> db" where
  "end_session now flush ws d =
     (let d1 = (case ws_key ws of None \<Rightarrow> d | Some k \<Rightarrow> revoke_key now k d) in
      if flush then logout_session ws d1 else (ws, d1))"

definition rotate_after_password_change ::
    "nat \<Rightarrow> instant \<Rightarrow> nat \<Rightarrow> web_session \<Rightarrow> db \<Rightarrow> (exn + unit) \<times> web_session \<times> db" where
  "rotate_after_password_change fresh now user_id ws d =
     (let (ws1, d1) = end_session now False ws d;
          d2 = d1\<lparr>users := tmodify user_id (\<lambda>u. u\<lparr>user_auth_epoch := user_auth_epoch u + 1\<rparr>) (users d1)\<rparr> in
      case tget (users d2) user_id of
        None \<Rightarrow> (Inl ObjectDoesNotExist, ws1, d2)
      | Some u \<Rightarrow> (let (ws3, d3) = cycle_key fresh ws1 d2 in start_session fresh now user_id u ws3 d3))"

definition validate_request ::
    "nat \<Rightarrow> instant \<Rightarrow> nat \<Rightarrow> user \<Rightarrow> web_session \<Rightarrow> db \<Rightarrow> bool \<times> web_session \<times> db" where
  "validate_request fresh now user_id u ws d =
     (if ws_epoch ws \<noteq> Int_Value (int (user_auth_epoch u)) then (False, ws, d)
      else
        let (key, ws1, d1) = save_session fresh ws d in
        (case index_of d1 key of
           None \<Rightarrow>
             (case start_session fresh now user_id u ws1 d1 of
                (Inl _, ws2, d2) \<Rightarrow> (False, ws2, d2)
              | (Inr _, ws2, d2) \<Rightarrow> (True, ws2, d2))
         | Some (k, x) \<Rightarrow>
             if sidx_user_id x \<noteq> user_id \<or> sidx_auth_epoch x \<noteq> user_auth_epoch u \<or> sidx_revoked_at x \<noteq> None
             then (False, ws1, d1)
             else if sidx_last_seen_at x \<le> now - SESSION_INDEX_TOUCH_INTERVAL then
               (True, ws1, d1\<lparr>session_indexes := tmodify k (\<lambda>x. x\<lparr>sidx_last_seen_at := now\<rparr>) (session_indexes d1)\<rparr>)
             else (True, ws1, d1)))"

section \<open>Preparing a revocation\<close>

definition task_of :: "db \<Rightarrow> nat \<Rightarrow> nat \<Rightarrow> (nat \<times> revocation_task) option" where
  "task_of d user_id auth_epoch =
     tfirst (\<lambda>_ t. task_user_id t = user_id \<and> task_auth_epoch t = auth_epoch) (revocation_tasks d)"

definition new_task :: "instant \<Rightarrow> nat \<Rightarrow> nat \<Rightarrow> revocation_task" where
  "new_task now user_id auth_epoch =
     \<lparr>task_user_id = user_id, task_event_key = withdrawal_event_key user_id auth_epoch,
      task_auth_epoch = auth_epoch, task_state = PENDING, task_attempt_count = 0, task_available_at = now,
      task_lease_expires_at = None, task_heartbeat_at = None, task_completed_at = None, task_last_error = []\<rparr>"

text \<open>\<open>get_or_create\<close> on user and epoch; the event key is unique as well.\<close>

definition get_or_create_task :: "instant \<Rightarrow> nat \<Rightarrow> nat \<Rightarrow> db \<Rightarrow> exn + ((nat \<times> revocation_task \<times> bool) \<times> db)" where
  "get_or_create_task now user_id auth_epoch d =
     (case task_of d user_id auth_epoch of
        Some (k, t) \<Rightarrow> Inr ((k, t, False), d)
      | None \<Rightarrow>
          let t = new_task now user_id auth_epoch in
          if \<not> revocation_task_check t \<or>
             texists (\<lambda>_ t'. task_event_key t' = task_event_key t) (revocation_tasks d) then Inl IntegrityError
          else (let (k, tab) = tcreate t (revocation_tasks d) in Inr ((k, t, True), d\<lparr>revocation_tasks := tab\<rparr>)))"

definition prepare_withdrawal_revocation ::
    "instant \<Rightarrow> pyval \<Rightarrow> pyval \<Rightarrow> db \<Rightarrow> exn + ((nat \<times> bool) \<times> db)" where
  "prepare_withdrawal_revocation now user_arg epoch_arg d =
     (case (user_arg, epoch_arg) of
        (Int_Value user_id, Int_Value auth_epoch) \<Rightarrow>
          if user_id \<le> 0 \<or> auth_epoch \<le> 0 then Inl RevocationPreparationError
          else
            (case tget (users d) (nat user_id) of
               None \<Rightarrow> Inl RevocationPreparationError
             | Some u \<Rightarrow>
                 if user_withdrawn_at u = None \<or> user_is_active u \<or> user_password u \<noteq> None \<or>
                    int (user_auth_epoch u) \<noteq> auth_epoch
                 then Inl RevocationPreparationError
                 else
                   (case get_or_create_task now (nat user_id) (nat auth_epoch) d of
                      Inl e \<Rightarrow> Inl e
                    | Inr ((k, t, created), d1) \<Rightarrow>
                        if task_event_key t \<noteq> withdrawal_event_key (nat user_id) (nat auth_epoch)
                        then Inl RevocationPreparationError
                        else Inr ((k, created), d1)))
      | _ \<Rightarrow> Inl RevocationPreparationError)"

section \<open>The HTTP boundary\<close>

text \<open>
  \<open>enforce_http_user_status\<close> behind \<open>CanonicalUserStatusMiddleware\<close>: \<open>Some 403\<close> stops the request.
  \<open>viewer\<close> is the authenticated user with the row the authentication middleware loaded.
\<close>

definition enforce_http_user_status ::
    "instant \<Rightarrow> nat \<Rightarrow> instant \<Rightarrow> (nat \<times> user) option \<Rightarrow> web_session \<Rightarrow> db \<Rightarrow> nat option \<times> web_session \<times> db" where
  "enforce_http_user_status tnow fresh now viewer ws d =
     (case viewer of
        None \<Rightarrow> (None, ws, d)
      | Some (user_id, u) \<Rightarrow>
          (case validate_request fresh now user_id u ws d of
             (False, ws1, d1) \<Rightarrow> (let (ws2, d2) = end_session now True ws1 d1 in (Some 403, ws2, d2))
           | (True, ws1, d1) \<Rightarrow>
               if user_is_active u \<and> effective_account_status (Some (Some user_id, u)) = ACTIVE \<and>
                  effective_user_status tnow d1 user_id = USER_ACTIVE
               then (None, ws1, d1)
               else (let (ws2, d2) = end_session now True ws1 d1 in (Some 403, ws2, d2))))"

text \<open>
  \<open>TrustedProxyHeadersMiddleware\<close>: the headers are an association list; \<open>parse_ip\<close> is
  \<open>str(ip_address(...))\<close>, \<open>None\<close> when it raises. \<open>None\<close> is the answer 400.
\<close>

definition UNTRUSTED_FORWARDED_HEADERS :: "string list" where
  "UNTRUSTED_FORWARDED_HEADERS = [''HTTP_FORWARDED'', ''HTTP_X_FORWARDED_FOR'', ''HTTP_X_FORWARDED_HOST'',
     ''HTTP_X_FORWARDED_PORT'', ''HTTP_X_REAL_IP'']"

definition trusted_proxy_headers ::
    "(pystr \<Rightarrow> pystr option) \<Rightarrow> bool \<Rightarrow> pystr list \<Rightarrow> (string \<times> pystr) list \<Rightarrow> (string \<times> pystr) list option" where
  "trusted_proxy_headers parse_ip trust proxy_ips meta =
     (if \<not> trust then Some meta
      else
        let cleaned = filter (\<lambda>(h, _). h \<notin> set UNTRUSTED_FORWARDED_HEADERS) meta in
        (case map_of meta ''HTTP_X_FORWARDED_PROTO'' of
           None \<Rightarrow> Some cleaned
         | Some proto \<Rightarrow>
             (case parse_ip (case map_of meta ''REMOTE_ADDR'' of None \<Rightarrow> [] | Some a \<Rightarrow> a) of
                None \<Rightarrow> None
              | Some remote \<Rightarrow>
                  if remote \<notin> set proxy_ips \<or> proto \<noteq> lit ''https'' then None else Some cleaned)))"

end
