(* ===== verification/Login.thy ===== *)
theory Login imports Sessions begin

text \<open>
  Signing up and in: the login throttle and \<open>authenticate_login\<close> of \<open>accounts/services.py\<close>, and the
  account views and forms that use them (\<open>accounts/views.py\<close>, \<open>accounts/forms.py\<close>). The keyed
  digest, the password hash check and Django's other password validators are parameters.
\<close>

section \<open>The throttle\<close>

definition LOGIN_WINDOW :: int where "LOGIN_WINDOW = minutes 15"
definition ACCOUNT_THRESHOLD :: nat where "ACCOUNT_THRESHOLD = 5"
definition IP_THRESHOLD :: nat where "IP_THRESHOLD = 20"
definition ACCOUNT_COOLDOWN :: int where "ACCOUNT_COOLDOWN = minutes 15"
definition IP_COOLDOWN :: int where "IP_COOLDOWN = minutes 30"
definition THROTTLE_RETENTION :: int where "THROTTLE_RETENTION = hours 24"

definition throttle_row :: "throttle_scope \<Rightarrow> nat \<Rightarrow> nat \<Rightarrow> login_throttle \<Rightarrow> bool" where
  "throttle_row scope digest k t \<longleftrightarrow> throttle_scope t = scope \<and> throttle_identifier t = digest"

text \<open>\<open>_locked_throttle\<close>: with the table locked by the transaction the nested race cannot lose.\<close>

definition locked_throttle ::
    "throttle_scope \<Rightarrow> nat \<Rightarrow> instant \<Rightarrow> db \<Rightarrow> (nat \<times> login_throttle) \<times> db" where
  "locked_throttle scope digest now d =
     (case tfirst (throttle_row scope digest) (login_throttles d) of
        Some (k, t) \<Rightarrow> ((k, t), d)
      | None \<Rightarrow>
          let t = \<lparr>throttle_scope = scope, throttle_identifier = digest, throttle_window_started_at = now,
                   throttle_failure_count = 0, throttle_blocked_until = None, throttle_updated_at = now\<rparr>;
              (k, tab) = tcreate t (login_throttles d)
          in ((k, t), d\<lparr>login_throttles := tab\<rparr>))"

definition prune_expired_throttles :: "instant \<Rightarrow> db \<Rightarrow> db" where
  "prune_expired_throttles now d =
     d\<lparr>login_throttles := tdelete (\<lambda>_ t. throttle_updated_at t < now - THROTTLE_RETENTION) (login_throttles d)\<rparr>"

definition is_blocked :: "login_throttle \<Rightarrow> instant \<Rightarrow> bool" where
  "is_blocked t now \<longleftrightarrow> (case throttle_blocked_until t of None \<Rightarrow> False | Some b \<Rightarrow> b > now)"

definition after_failure :: "instant \<Rightarrow> nat \<Rightarrow> int \<Rightarrow> login_throttle \<Rightarrow> login_throttle" where
  "after_failure now threshold cooldown t =
     (let t1 = (if now - throttle_window_started_at t \<ge> LOGIN_WINDOW
                then t\<lparr>throttle_window_started_at := now, throttle_failure_count := 0, throttle_blocked_until := None\<rparr>
                else t);
          t2 = t1\<lparr>throttle_failure_count := throttle_failure_count t1 + 1\<rparr>;
          t3 = (if throttle_failure_count t2 \<ge> threshold
                then t2\<lparr>throttle_blocked_until := Some (now + cooldown)\<rparr> else t2)
      in t3\<lparr>throttle_updated_at := now\<rparr>)"

definition record_failure :: "nat \<Rightarrow> instant \<Rightarrow> nat \<Rightarrow> int \<Rightarrow> db \<Rightarrow> db" where
  "record_failure k now threshold cooldown d =
     d\<lparr>login_throttles := tmodify k (after_failure now threshold cooldown) (login_throttles d)\<rparr>"

definition after_success :: "instant \<Rightarrow> login_throttle \<Rightarrow> login_throttle" where
  "after_success now t =
     t\<lparr>throttle_window_started_at := now, throttle_failure_count := 0, throttle_blocked_until := None,
       throttle_updated_at := now\<rparr>"

section \<open>Authentication\<close>

text \<open>
  \<open>auth_digest\<close> is the keyed digest of a scope and a value, \<open>auth_lower\<close> is \<open>str.lower\<close>,
  \<open>auth_invalid\<close> the marker name \<open>invalid_<digest>\<close>, \<open>auth_check\<close> the hash check of a password.
\<close>

record auth_env =
  auth_digest :: "throttle_scope \<Rightarrow> pystr \<Rightarrow> nat"
  auth_lower :: "pystr \<Rightarrow> pystr"
  auth_invalid :: "nat \<Rightarrow> pystr"
  auth_check :: "nat \<Rightarrow> pystr \<Rightarrow> bool"

definition check_password :: "auth_env \<Rightarrow> user \<Rightarrow> pystr \<Rightarrow> bool" where
  "check_password env u password =
     (case user_password u of None \<Rightarrow> False | Some h \<Rightarrow> auth_check env h password)"

text \<open>Django's model backend: the active user of that name whose password matches.\<close>

definition authenticate :: "auth_env \<Rightarrow> pystr \<Rightarrow> pystr \<Rightarrow> db \<Rightarrow> (nat \<times> user) option" where
  "authenticate env username password d =
     tfirst (\<lambda>_ u. user_username u = username \<and> user_is_active u \<and> check_password env u password) (users d)"

definition account_login_identifier :: "auth_env \<Rightarrow> pystr \<Rightarrow> nat" where
  "account_login_identifier env username = auth_digest env ACCOUNT (auth_lower env (py_strip username))"

definition client_ip_identifier :: "auth_env \<Rightarrow> pystr \<Rightarrow> nat" where
  "client_ip_identifier env remote_addr = auth_digest env IP remote_addr"

text \<open>The name and password that are tried; a malformed input is replaced by one that matches nobody.\<close>

definition login_candidate :: "auth_env \<Rightarrow> pystr \<Rightarrow> pystr \<Rightarrow> pystr \<times> pystr" where
  "login_candidate env username password =
     (let account_digest = account_login_identifier env username;
          name = (case canonicalize_username (auth_lower env) username of
                    Inr u \<Rightarrow> u | Inl _ \<Rightarrow> auth_invalid env account_digest) in
      if 0 \<in> set password \<or> length password < 12 \<or> length password > 128
      then (auth_invalid env account_digest, lit ''invalid-password-input'')
      else (name, password))"

text \<open>The part after both throttle rows are locked and not blocked.\<close>

definition try_login ::
    "auth_env \<Rightarrow> instant \<Rightarrow> instant \<Rightarrow> nat \<Rightarrow> nat \<Rightarrow> pystr \<Rightarrow> pystr \<Rightarrow> db \<Rightarrow> (nat \<times> user) option \<times> db" where
  "try_login env tnow now account_key ip_key username password d =
     (let (name, candidate) = login_candidate env username password in
      case authenticate env name candidate d of
        None \<Rightarrow>
          (None, record_failure ip_key now IP_THRESHOLD IP_COOLDOWN
                   (record_failure account_key now ACCOUNT_THRESHOLD ACCOUNT_COOLDOWN d))
      | Some (user_id, u) \<Rightarrow>
          if effective_account_status (Some (Some user_id, u)) \<noteq> ACTIVE \<or>
             effective_user_status tnow d user_id \<noteq> USER_ACTIVE
          then (None, d)
          else (Some (user_id, u),
                d\<lparr>login_throttles := tmodify account_key (after_success now) (login_throttles d)\<rparr>))"

definition authenticate_login ::
    "auth_env \<Rightarrow> instant \<Rightarrow> instant \<Rightarrow> pystr \<Rightarrow> pystr \<Rightarrow> pystr \<Rightarrow> db \<Rightarrow> (nat \<times> user) option \<times> db" where
  "authenticate_login env tnow now remote_addr username password d =
     (let d0 = prune_expired_throttles now d;
          ((ip_key, ip), d1) = locked_throttle IP (client_ip_identifier env remote_addr) now d0 in
      if is_blocked ip now then (None, d1)
      else
        let ((account_key, account), d2) = locked_throttle ACCOUNT (account_login_identifier env username) now d1 in
        if is_blocked account now then (None, d2)
        else try_login env tnow now account_key ip_key username password d2)"

section \<open>The account views\<close>

datatype account_page =
    Account_Page nat          \<comment> \<open>a rendered form or text\<close>
  | To_Profile
  | To_Home
  | To_Url pystr
  | Account_Raised exn

text \<open>
  The sign-up form: a free canonical name (\<open>nfkc\<close> is Django's normalisation of the field) and two
  equal passwords that pass the bounds and Django's other validators (\<open>strong\<close>).
\<close>

definition clean_signup_username :: "auth_env \<Rightarrow> (pystr \<Rightarrow> pystr) \<Rightarrow> db \<Rightarrow> pystr \<Rightarrow> pystr result" where
  "clean_signup_username env nfkc d raw =
     (case canonicalize_username (auth_lower env) (nfkc (py_strip raw)) of
        Inl _ \<Rightarrow> Inl ValidationError
      | Inr u \<Rightarrow> if texists (\<lambda>_ x. user_username x = u) (users d) then Inl ValidationError else Inr u)"

definition clean_new_password ::
    "(pystr \<Rightarrow> pystr \<Rightarrow> bool) \<Rightarrow> pystr \<Rightarrow> pystr \<Rightarrow> pystr \<Rightarrow> pystr result" where
  "clean_new_password strong username password1 password2 =
     (if password1 \<noteq> password2 then Inl ValidationError
      else case password_validate password1 of
        Inl e \<Rightarrow> Inl e
      | Inr _ \<Rightarrow> if strong username password1 then Inr password1 else Inl ValidationError)"

text \<open>
  The saved user, then the sign-up signal outside its transaction, then the login: \<open>hash\<close> is the
  hash of the new password, \<open>journal\<close> the id of the seed journal.
\<close>

definition signup ::
    "auth_env \<Rightarrow> (pystr \<Rightarrow> pystr) \<Rightarrow> (pystr \<Rightarrow> pystr \<Rightarrow> bool) \<Rightarrow> (pystr \<Rightarrow> nat) \<Rightarrow> instant \<Rightarrow> nat \<Rightarrow> nat \<Rightarrow> nat option \<Rightarrow>
     (pystr \<times> pystr \<times> pystr) option \<Rightarrow> web_session \<Rightarrow> db \<Rightarrow> account_page \<times> web_session \<times> db" where
  "signup env nfkc strong hash now journal fresh viewer post ws d =
     (if viewer \<noteq> None then (To_Profile, ws, d)
      else case post of None \<Rightarrow> (Account_Page 200, ws, d) | Some (raw, password1, password2) \<Rightarrow>
     (case clean_signup_username env nfkc d raw of Inl _ \<Rightarrow> (Account_Page 200, ws, d) | Inr username \<Rightarrow>
     (case clean_new_password strong username password1 password2 of Inl _ \<Rightarrow> (Account_Page 200, ws, d) | Inr password \<Rightarrow>
        let u = \<lparr>user_username = username, user_password = Some (hash password), user_is_active = True,
                 user_is_staff = False, user_is_superuser = False, user_meta_permission = False, user_bio = [],
                 user_auth_epoch = 0, user_withdrawn_at = None, user_date_joined = now\<rparr>;
            (user_id, tab) = tcreate u (users d); d1 = d\<lparr>users := tab\<rparr> in
        (case atomic (ensure_account journal user_id) d1 of
           (Inl e, d2) \<Rightarrow> (Account_Raised e, ws, d2)
         | (Inr _, d2) \<Rightarrow>
             let (ws1, d3) = cycle_key fresh ws d2 in
             (case start_session fresh now user_id u ws1 d3 of
                (Inl e, ws2, d4) \<Rightarrow> (Account_Raised e, ws2, d4)
              | (Inr _, ws2, d4) \<Rightarrow> (To_Profile, ws2, d4))))))"

text \<open>\<open>safe_next\<close> is Django's check of the redirect target, \<open>home\<close> the fallback.\<close>

definition login_view ::
    "auth_env \<Rightarrow> instant \<Rightarrow> instant \<Rightarrow> nat \<Rightarrow> (pystr \<Rightarrow> bool) \<Rightarrow> pystr \<Rightarrow> nat option \<Rightarrow>
     (pystr \<times> pystr \<times> pystr) option \<Rightarrow> web_session \<Rightarrow> db \<Rightarrow> account_page \<times> web_session \<times> db" where
  "login_view env tnow now fresh safe_next remote_addr viewer post ws d =
     (if viewer \<noteq> None then (To_Profile, ws, d)
      else case post of None \<Rightarrow> (Account_Page 200, ws, d) | Some (raw_username, password, next_url) \<Rightarrow>
        let username = py_strip raw_username in
        if username = [] \<or> length username > 128 \<or> 0 \<in> set username \<or>
           password = [] \<or> length password > 128 \<or> 0 \<in> set password
        then (Account_Page 200, ws, d)
        else
          (case authenticate_login env tnow now remote_addr username password d of
             (None, d1) \<Rightarrow> (Account_Page 200, ws, d1)
           | (Some (user_id, u), d1) \<Rightarrow>
               let (ws1, d2) = cycle_key fresh ws d1 in
               (case start_session fresh now user_id u ws1 d2 of
                  (Inl e, ws2, d3) \<Rightarrow> (Account_Raised e, ws2, d3)
                | (Inr _, ws2, d3) \<Rightarrow>
                    ((if safe_next next_url then To_Url next_url else To_Home), ws2, d3))))"

definition logout_view :: "instant \<Rightarrow> web_session \<Rightarrow> db \<Rightarrow> account_page \<times> web_session \<times> db" where
  "logout_view now ws d = (let (ws1, d1) = end_session now True ws d in (To_Home, ws1, d1))"

text \<open>The bio form saves the whole user row it was given, which the view read at the start.\<close>

definition bio_edit :: "nat \<Rightarrow> user \<Rightarrow> pystr option \<Rightarrow> db \<Rightarrow> account_page \<times> db" where
  "bio_edit user_id u post d =
     (case post of
        None \<Rightarrow> (Account_Page 200, d)
      | Some raw \<Rightarrow>
          let bio = py_strip raw in
          if length bio > 500 \<or> 0 \<in> set bio then (Account_Page 200, d)
          else (To_Profile, d\<lparr>users := tmodify user_id (\<lambda>_. u\<lparr>user_bio := bio\<rparr>) (users d)\<rparr>))"

text \<open>
  Changing the own password: the form saves the request's user object with the new hash, then
  the sessions rotate.
\<close>

definition password_change ::
    "auth_env \<Rightarrow> (pystr \<Rightarrow> pystr \<Rightarrow> bool) \<Rightarrow> (pystr \<Rightarrow> nat) \<Rightarrow> instant \<Rightarrow> nat \<Rightarrow> nat \<Rightarrow> user \<Rightarrow>
     (pystr \<times> pystr \<times> pystr) option \<Rightarrow> web_session \<Rightarrow> db \<Rightarrow> account_page \<times> web_session \<times> db" where
  "password_change env strong hash now fresh user_id u post ws d =
     (case post of None \<Rightarrow> (Account_Page 200, ws, d) | Some (old, password1, password2) \<Rightarrow>
        if \<not> check_password env u old then (Account_Page 200, ws, d)
        else
     (case clean_new_password strong (user_username u) password1 password2 of Inl _ \<Rightarrow> (Account_Page 200, ws, d) | Inr password \<Rightarrow>
        let d1 = d\<lparr>users := tmodify user_id (\<lambda>_. u\<lparr>user_password := Some (hash password)\<rparr>) (users d)\<rparr> in
        (case rotate_after_password_change fresh now user_id ws d1 of
           (Inl e, ws1, d2) \<Rightarrow> (Account_Raised e, ws1, d2)
         | (Inr _, ws1, d2) \<Rightarrow> (To_Profile, ws1, d2))))"

end
