(* ===== verification/Withdrawal.thy ===== *)
theory Withdrawal imports Login Catalog begin

text \<open>
  Leaving the platform (\<open>accounts/withdrawal.py\<close>): the withdrawal transaction over every authority,
  the worker that revokes the sessions of a withdrawn account, and the command that runs it. The
  worker's three transactions are separate steps, since other workers may run between them.
\<close>

section \<open>The withdrawal transaction\<close>

text \<open>
  \<open>authorities\<close> is the error of \<open>_assert_retention_authorities_available\<close>, if a retained table
  cannot be read. A refusal or an unavailable authority is its own exception; other database
  errors become \<open>WithdrawalUnavailable\<close>.
\<close>

definition trade_of :: "nat \<Rightarrow> nat \<Rightarrow> trade \<Rightarrow> bool" where
  "trade_of user_id k t \<longleftrightarrow> trade_seller_id t = user_id \<or> trade_buyer_id t = Some user_id"

definition completed_product_ids :: "nat \<Rightarrow> db \<Rightarrow> nat list" where
  "completed_product_ids user_id d =
     map (\<lambda>(_, t). trade_product_id t)
       (tselect (\<lambda>k t. trade_of user_id k t \<and> trade_status t = COMPLETED) (trades d))"

definition withdrawable_product :: "nat \<Rightarrow> db \<Rightarrow> nat \<Rightarrow> product \<Rightarrow> bool" where
  "withdrawable_product user_id d k p \<longleftrightarrow>
     product_owner_id p = user_id \<and> product_archived_at p = None \<and> k \<notin> set (completed_product_ids user_id d)"

fun recompute_all :: "nat list \<Rightarrow> db \<Rightarrow> exn + db" where
  "recompute_all [] d = Inr d"
| "recompute_all (p # ps) d =
     (case recompute_product_metric p d of Inl e \<Rightarrow> Inl e | Inr (_, d1) \<Rightarrow> recompute_all ps d1)"

definition close_mock_account :: "instant \<Rightarrow> nat \<Rightarrow> nat \<Rightarrow> mock_account \<Rightarrow> db \<Rightarrow> db" where
  "close_mock_account now user_id k a d =
     (if account_is_open a then
        audit_transfer user_id ACCOUNT_CLOSED None
          (d\<lparr>mock_accounts := tmodify k (\<lambda>a. a\<lparr>account_is_open := False, account_closed_at := Some now\<rparr>)
              (mock_accounts d)\<rparr>)
      else d)"

text \<open>Archiving, favorites and notifications: the first half of the writes.\<close>

definition release_products :: "instant \<Rightarrow> nat \<Rightarrow> db \<Rightarrow> exn + db" where
  "release_products now user_id d =
     (let favorite_ids = sort (remdups (map (\<lambda>(_, f). favorite_product_id f)
            (tselect (\<lambda>_ f. favorite_user_id f = user_id) (favorites d))));
          d1 = d\<lparr>products := tupdate (withdrawable_product user_id d)
                  (\<lambda>p. p\<lparr>product_archived_at := Some now, product_version := product_version p + 1\<rparr>) (products d),
                 favorites := tdelete (\<lambda>_ f. favorite_user_id f = user_id) (favorites d)\<rparr> in
      case recompute_all favorite_ids d1 of
        Inl e \<Rightarrow> Inl e
      | Inr d2 \<Rightarrow> Inr (d2\<lparr>notifications := tdelete (\<lambda>_ n. notification_recipient_id n = user_id) (notifications d2)\<rparr>))"

definition deactivated :: "instant \<Rightarrow> user \<Rightarrow> user" where
  "deactivated now u =
     u\<lparr>user_is_active := False, user_withdrawn_at := Some now, user_auth_epoch := user_auth_epoch u + 1,
       user_password := None\<rparr>"

text \<open>The second half: the mock account, the user row and the revocation task.\<close>

definition finish_withdrawal ::
    "instant \<Rightarrow> instant \<Rightarrow> nat \<Rightarrow> user \<Rightarrow> nat \<Rightarrow> mock_account \<Rightarrow> db \<Rightarrow> exn + ((nat \<times> bool) \<times> db)" where
  "finish_withdrawal now app_now user_id u account_key account d1 =
     (let d2 = close_mock_account now user_id account_key account d1;
          d3 = d2\<lparr>users := tmodify user_id (deactivated now) (users d2)\<rparr> in
      case get_or_create_task app_now user_id (user_auth_epoch u + 1) d3 of
        Inl e \<Rightarrow> Inl WithdrawalUnavailable
      | Inr ((k, _, created), d4) \<Rightarrow> Inr ((k, created), d4))"

definition withdraw_account ::
    "auth_env \<Rightarrow> instant \<Rightarrow> instant \<Rightarrow> exn option \<Rightarrow> nat \<Rightarrow> pystr \<Rightarrow> db \<Rightarrow> exn + ((nat \<times> bool) \<times> db)" where
  "withdraw_account env now app_now authorities user_id password d =
     (case tget (users d) user_id of
        None \<Rightarrow> Inl WithdrawalUnavailable
      | Some u \<Rightarrow>
          if user_withdrawn_at u \<noteq> None then
            (case task_of d user_id (user_auth_epoch u) of
               None \<Rightarrow> Inl WithdrawalUnavailable
             | Some (k, _) \<Rightarrow> Inr ((k, False), d))
          else if \<not> user_is_active u \<or> password = [] \<or> \<not> check_password env u password
          then Inl WithdrawalBlocked
          else if texists (\<lambda>k t. trade_of user_id k t \<and> trade_status t = RESERVED) (trades d)
          then Inl WithdrawalBlocked
          else
            (case account_of d user_id of
               None \<Rightarrow> Inl WithdrawalUnavailable
             | Some (account_key, account) \<Rightarrow>
                 if ledger_of d account_key = None then Inl WithdrawalUnavailable
                 else if account_balance account \<noteq> 0 then Inl WithdrawalBlocked
                 else if authorities \<noteq> None then Inl WithdrawalUnavailable
                 else
                   (case release_products now user_id d of
                      Inl e \<Rightarrow> Inl e
                    | Inr d1 \<Rightarrow> finish_withdrawal now app_now user_id u account_key account d1)))"

text \<open>The page: a refusal is shown in the form, an unavailable authority is 503.\<close>

definition withdraw_page ::
    "auth_env \<Rightarrow> instant \<Rightarrow> instant \<Rightarrow> exn option \<Rightarrow> nat \<Rightarrow> (pystr \<times> pystr) list option \<Rightarrow> web_session \<Rightarrow> db \<Rightarrow>
     account_page \<times> web_session \<times> db" where
  "withdraw_page env now app_now authorities user_id post ws d =
     (case post of
        None \<Rightarrow> (Account_Page 200, ws, d)
      | Some fs \<Rightarrow>
          let password = (case map_of (rev fs) (lit ''password'') of None \<Rightarrow> [] | Some p \<Rightarrow> p) in
          if password = [] \<or> length password > 128 \<or> 0 \<in> set password \<or>
             \<not> list_all (\<lambda>(k, _). k \<in> {lit ''password'', lit ''csrfmiddlewaretoken''}) fs
          then (Account_Page 200, ws, d)
          else
            (case atomic (withdraw_account env now app_now authorities user_id password) d of
               (Inl e, d1) \<Rightarrow>
                 ((if is_subclass e WithdrawalBlocked then Account_Page 200
                   else if is_subclass e WithdrawalUnavailable then Account_Page 503
                   else Account_Raised e), ws, d1)
             | (Inr _, d1) \<Rightarrow> (let (ws1, d2) = end_session app_now True ws d1 in (To_Home, ws1, d2))))"

section \<open>The revocation worker\<close>

definition LEASE :: int where "LEASE = minutes 2"
definition RETRY_DELAY :: int where "RETRY_DELAY = minutes 1"

text \<open>The first transaction: \<open>Inl b\<close> ends the call with \<open>b\<close>, \<open>Inr user\<close> is a claim.\<close>

definition claim_task :: "instant \<Rightarrow> nat \<Rightarrow> db \<Rightarrow> exn + ((bool + nat) \<times> db)" where
  "claim_task now task_id d =
     (case tget (revocation_tasks d) task_id of
        None \<Rightarrow> Inl ObjectDoesNotExist
      | Some t \<Rightarrow>
          if task_state t = COMPLETED_TASK then Inr (Inl True, d)
          else if task_state t = PROCESSING \<and>
                  (case task_lease_expires_at t of None \<Rightarrow> False | Some l \<Rightarrow> l \<ge> now)
          then Inr (Inl False, d)
          else
            Inr (Inr (task_user_id t), d\<lparr>revocation_tasks := tmodify task_id
              (\<lambda>t. t\<lparr>task_state := PROCESSING, task_attempt_count := task_attempt_count t + 1,
                    task_heartbeat_at := Some now, task_lease_expires_at := Some (now + LEASE),
                    task_completed_at := None, task_last_error := []\<rparr>) (revocation_tasks d)\<rparr>))"

text \<open>The second: all indexed sessions of the user are deleted and marked revoked.\<close>

definition revoke_sessions :: "instant \<Rightarrow> nat \<Rightarrow> db \<Rightarrow> db" where
  "revoke_sessions now user_id d =
     (let keys = map (\<lambda>(_, x). sidx_session_key x)
            (tselect (\<lambda>_ x. sidx_user_id x = user_id) (session_indexes d)) in
      d\<lparr>sessions := filter (\<lambda>k. k \<notin> set keys) (sessions d),
        session_indexes := tupdate (\<lambda>_ x. sidx_user_id x = user_id)
          (\<lambda>x. x\<lparr>sidx_revoked_at := Some now\<rparr>) (session_indexes d)\<rparr>)"

definition retry_task :: "instant \<Rightarrow> pystr \<Rightarrow> nat \<Rightarrow> db \<Rightarrow> exn + (unit \<times> db)" where
  "retry_task now error task_id d =
     (if tget (revocation_tasks d) task_id = None then Inl ObjectDoesNotExist
      else Inr ((), d\<lparr>revocation_tasks := tmodify task_id
        (\<lambda>t. t\<lparr>task_state := RETRY, task_available_at := now + RETRY_DELAY, task_heartbeat_at := None,
              task_lease_expires_at := None, task_completed_at := None, task_last_error := take 200 error\<rparr>)
        (revocation_tasks d)\<rparr>))"

definition complete_task :: "instant \<Rightarrow> nat \<Rightarrow> db \<Rightarrow> exn + (unit \<times> db)" where
  "complete_task now task_id d =
     (if tget (revocation_tasks d) task_id = None then Inl ObjectDoesNotExist
      else Inr ((), d\<lparr>revocation_tasks := tmodify task_id
        (\<lambda>t. t\<lparr>task_state := COMPLETED_TASK, task_heartbeat_at := None, task_lease_expires_at := None,
              task_completed_at := Some now, task_last_error := []\<rparr>) (revocation_tasks d)\<rparr>))"

text \<open>
  What one call meets outside the database: the name of the error of its session transaction
  (\<open>wk_database\<close>), and of closing the sockets or clearing the presence keys (\<open>wk_close\<close>); and the
  clock before and after the work.
\<close>

record worker_env =
  wk_now :: instant
  wk_later :: instant
  wk_database :: "pystr option"
  wk_close :: "pystr option"

definition process_revocation_task :: "worker_env \<Rightarrow> nat \<Rightarrow> db \<Rightarrow> (exn + bool) \<times> db" where
  "process_revocation_task w task_id d =
     (case atomic (claim_task (wk_now w) task_id) d of
        (Inl e, d1) \<Rightarrow> (Inl e, d1)
      | (Inr (Inl b), d1) \<Rightarrow> (Inr b, d1)
      | (Inr (Inr user_id), d1) \<Rightarrow>
          let d2 = (if wk_database w = None then revoke_sessions (wk_later w) user_id d1 else d1) in
          (case (case wk_database w of Some e \<Rightarrow> Some e | None \<Rightarrow> wk_close w) of
             Some error \<Rightarrow>
               (case atomic (retry_task (wk_later w) error task_id) d2 of
                  (Inl e, d3) \<Rightarrow> (Inl e, d3)
                | (Inr _, d3) \<Rightarrow> (Inr False, d3))
           | None \<Rightarrow>
               (case atomic (complete_task (wk_later w) task_id) d2 of
                  (Inl e, d3) \<Rightarrow> (Inl e, d3)
                | (Inr _, d3) \<Rightarrow> (Inr True, d3))))"

section \<open>The command\<close>

definition ready_task :: "instant \<Rightarrow> nat \<Rightarrow> revocation_task \<Rightarrow> bool" where
  "ready_task now k t \<longleftrightarrow>
     task_state t \<in> {PENDING, RETRY} \<and> task_available_at t \<le> now \<or>
     task_state t = PROCESSING \<and> (case task_lease_expires_at t of None \<Rightarrow> False | Some l \<Rightarrow> l < now)"

definition ready_task_ids :: "instant \<Rightarrow> nat \<Rightarrow> db \<Rightarrow> nat list" where
  "ready_task_ids now limit d =
     take limit (map fst (sort_key (\<lambda>(k, t). (task_available_at t, k)) (tselect (ready_task now) (revocation_tasks d))))"

fun process_all :: "(nat \<Rightarrow> worker_env) \<Rightarrow> nat list \<Rightarrow> db \<Rightarrow> (exn + nat) \<times> db" where
  "process_all w [] d = (Inr 0, d)"
| "process_all w (i # is) d =
     (case process_revocation_task (w i) i d of
        (Inl e, d1) \<Rightarrow> (Inl e, d1)
      | (Inr b, d1) \<Rightarrow>
          (case process_all w is d1 of
             (Inl e, d2) \<Rightarrow> (Inl e, d2)
           | (Inr n, d2) \<Rightarrow> (Inr (n + (if b then 1 else 0)), d2)))"

text \<open>The answer is the number of tasks processed and of those completed.\<close>

definition process_withdrawal_revocations ::
    "(nat \<Rightarrow> worker_env) \<Rightarrow> instant \<Rightarrow> int \<Rightarrow> db \<Rightarrow> (exn + (nat \<times> nat)) \<times> db" where
  "process_withdrawal_revocations w now limit d =
     (if limit < 1 \<or> limit > 1000 then (Inl ValueError, d)
      else
        let task_ids = ready_task_ids now (nat limit) d in
        (case process_all w task_ids d of
           (Inl e, d1) \<Rightarrow> (Inl e, d1)
         | (Inr completed, d1) \<Rightarrow> (Inr (length task_ids, completed), d1)))"

end
