(* ===== verification/Login_Properties.thy ===== *)
theory Login_Properties imports Login begin

text \<open>
  The login throttle bounds guessing, a blocked login does not look at the password, a login is
  only granted to an active account, and a password change ends every other session.
\<close>

section \<open>Throttle rows\<close>

text \<open>
  Per scope the threshold and the cool-down, and what every row satisfies at a time \<open>now\<close>: its
  count is within the threshold, and when it reached it the row is blocked to the end of its
  window at least.
\<close>

fun threshold :: "throttle_scope \<Rightarrow> nat" where
  "threshold ACCOUNT = ACCOUNT_THRESHOLD"
| "threshold IP = IP_THRESHOLD"

definition throttle_ok :: "instant \<Rightarrow> login_throttle \<Rightarrow> bool" where
  "throttle_ok now t \<longleftrightarrow>
     throttle_window_started_at t \<le> now \<and>
     throttle_failure_count t \<le> threshold (throttle_scope t) \<and>
     (throttle_failure_count t = threshold (throttle_scope t) \<longrightarrow>
        (\<exists>b. throttle_blocked_until t = Some b \<and> throttle_window_started_at t + LOGIN_WINDOW \<le> b))"

definition throttles_ok :: "instant \<Rightarrow> db \<Rightarrow> bool" where
  "throttles_ok now d \<longleftrightarrow> wf_table (login_throttles d) \<and> tall (\<lambda>_. throttle_ok now) (login_throttles d)"

lemmas throttle_constants = ACCOUNT_THRESHOLD_def IP_THRESHOLD_def ACCOUNT_COOLDOWN_def IP_COOLDOWN_def
  LOGIN_WINDOW_def minutes_def

lemma throttle_ok_later: "throttle_ok now t \<Longrightarrow> now \<le> now' \<Longrightarrow> throttle_ok now' t"
  by (simp add: throttle_ok_def)

lemma throttles_ok_later: "throttles_ok now d \<Longrightarrow> now \<le> now' \<Longrightarrow> throttles_ok now' d"
  by (auto simp: throttles_ok_def elim: tall_mono throttle_ok_later)

lemma throttles_okD: "throttles_ok now d \<Longrightarrow> tget (login_throttles d) k = Some t \<Longrightarrow> throttle_ok now t"
  unfolding throttles_ok_def by (blast dest: tallD)

lemma after_failure_scope [simp]:
  "throttle_scope (after_failure now n c t) = throttle_scope t"
  "throttle_identifier (after_failure now n c t) = throttle_identifier t"
  by (simp_all add: after_failure_def Let_def)

text \<open>A failure is only recorded while the row is not blocked, so the count cannot pass the threshold.\<close>

lemma after_failure_ok:
  assumes "throttle_ok now t" "\<not> is_blocked t now"
    and "throttle_scope t = ACCOUNT \<and> n = ACCOUNT_THRESHOLD \<and> c = ACCOUNT_COOLDOWN \<or>
         throttle_scope t = IP \<and> n = IP_THRESHOLD \<and> c = IP_COOLDOWN"
  shows "throttle_ok now (after_failure now n c t)"
  using assms
  by (auto simp: throttle_ok_def after_failure_def is_blocked_def Let_def throttle_constants)

lemma after_success_ok: "throttle_ok now t \<Longrightarrow> throttle_ok now (after_success now t)"
  by (cases "throttle_scope t") (simp_all add: throttle_ok_def after_success_def throttle_constants)

lemma tall_tmodify:
  "tall P t \<Longrightarrow> (\<And>r. tget t k = Some r \<Longrightarrow> P k r \<Longrightarrow> P k (f r)) \<Longrightarrow> wf_table t \<Longrightarrow> tall P (tmodify k f t)"
  by (auto simp: tall_iff wf_intros tbl_simps)

lemma tall_tdelete: "tall P t \<Longrightarrow> tall P (tdelete Q t)"
  by (auto simp: tall_def tdelete_def list_all_iff)

lemma locked_throttle_elim:
  assumes "locked_throttle scope digest now d = ((k, t), d')" "throttles_ok now d"
  shows "throttles_ok now d' \<and> tget (login_throttles d') k = Some t \<and> throttle_scope t = scope \<and>
    throttle_identifier t = digest \<and>
    (\<forall>i r. tget (login_throttles d) i = Some r \<longrightarrow> tget (login_throttles d') i = Some r)"
proof (cases "tfirst (throttle_row scope digest) (login_throttles d)")
  case None
  from assms(2) have wf: "wf_table (login_throttles d)" by (simp add: throttles_ok_def)
  have "throttle_ok now \<lparr>throttle_scope = scope, throttle_identifier = digest, throttle_window_started_at = now,
        throttle_failure_count = 0, throttle_blocked_until = None, throttle_updated_at = now\<rparr>"
    by (cases scope) (simp_all add: throttle_ok_def throttle_constants)
  with None assms wf show ?thesis
    by (auto simp: locked_throttle_def Let_def throttles_ok_def tbl_simps tcreate_def wf_intros dest: tget_lt)
next
  case (Some p)
  then have "p = (k, t)" using assms(1) by (cases p) (simp add: locked_throttle_def)
  with Some have r: "(k, t) \<in> set (rows (login_throttles d))" "throttle_row scope digest k t"
    by (auto dest: tfirst_SomeD)
  moreover from this assms(2) have "tget (login_throttles d) k = Some t" by (simp add: throttles_ok_def tget_iff)
  ultimately show ?thesis
    using assms Some \<open>p = (k, t)\<close> by (auto simp: locked_throttle_def throttle_row_def)
qed

lemma prune_ok: "throttles_ok now d \<Longrightarrow> throttles_ok now (prune_expired_throttles now d)"
  by (simp add: throttles_ok_def prune_expired_throttles_def wf_intros tall_tdelete)

lemma record_failure_ok:
  assumes "throttles_ok now d" "tget (login_throttles d) k = Some t" "\<not> is_blocked t now"
    and "throttle_scope t = ACCOUNT \<and> n = ACCOUNT_THRESHOLD \<and> c = ACCOUNT_COOLDOWN \<or>
         throttle_scope t = IP \<and> n = IP_THRESHOLD \<and> c = IP_COOLDOWN"
  shows "throttles_ok now (record_failure k now n c d)"
  using assms after_failure_ok [OF _ assms(3,4)] unfolding throttles_ok_def record_failure_def
  by (auto simp: wf_intros intro: tall_tmodify)

text \<open>An attempt either stops at a blocked row or reaches the check with both rows locked.\<close>

lemma authenticate_login_cases:
  assumes "authenticate_login env tnow now ip name pw d = (r, d')" "throttles_ok now d"
  obtains (stopped) "r = None" "throttles_ok now d'"
    | (tried) account_key ip_key account ipt d2 where
        "try_login env tnow now account_key ip_key name pw d2 = (r, d')" "throttles_ok now d2"
        "tget (login_throttles d2) account_key = Some account" "\<not> is_blocked account now"
        "throttle_scope account = ACCOUNT" "throttle_identifier account = account_login_identifier env name"
        "tget (login_throttles d2) ip_key = Some ipt" "\<not> is_blocked ipt now" "throttle_scope ipt = IP"
        "users d2 = users d" "moderation_actions d2 = moderation_actions d" "sanction_releases d2 = sanction_releases d"
proof -
  let ?d0 = "prune_expired_throttles now d"
  have frame: "users d' = users d \<and> moderation_actions d' = moderation_actions d \<and> sanction_releases d' = sanction_releases d"
    if "locked_throttle scope digest now d = (x, d')" for scope digest x d d'
    using that by (auto simp: locked_throttle_def Let_def tcreate_def split: option.splits)
  obtain ip_key ipt d1 where l1: "locked_throttle IP (client_ip_identifier env ip) now ?d0 = ((ip_key, ipt), d1)"
    by (metis prod_cases3 surj_pair)
  note e1 = locked_throttle_elim [OF l1 prune_ok [OF assms(2)]]
  show ?thesis
  proof (cases "is_blocked ipt now")
    case True
    with assms(1) l1 e1 stopped show ?thesis by (simp add: authenticate_login_def)
  next
    case ip_free: False
    obtain account_key account d2 where l2:
      "locked_throttle ACCOUNT (account_login_identifier env name) now d1 = ((account_key, account), d2)"
      by (metis prod_cases3 surj_pair)
    from e1 have "throttles_ok now d1" by blast
    note e2 = locked_throttle_elim [OF l2 this]
    show ?thesis
    proof (cases "is_blocked account now")
      case True
      with assms(1) l1 l2 e2 ip_free stopped show ?thesis by (simp add: authenticate_login_def)
    next
      case False
      have "users d2 = users d \<and> moderation_actions d2 = moderation_actions d \<and> sanction_releases d2 = sanction_releases d"
        using frame [OF l1] frame [OF l2] by (simp add: prune_expired_throttles_def)
      with False ip_free l1 l2 e1 e2 assms(1) show ?thesis
        by (intro tried [of account_key ip_key d2 account ipt]) (auto simp: authenticate_login_def)
    qed
  qed
qed

lemma try_login_ok:
  assumes "try_login env tnow now account_key ip_key name pw d = (r, d')" "throttles_ok now d"
    and "tget (login_throttles d) account_key = Some account" "\<not> is_blocked account now" "throttle_scope account = ACCOUNT"
    and "tget (login_throttles d) ip_key = Some ipt" "\<not> is_blocked ipt now" "throttle_scope ipt = IP"
  shows "throttles_ok now d'"
proof -
  let ?d1 = "record_failure account_key now ACCOUNT_THRESHOLD ACCOUNT_COOLDOWN d"
  have ne: "ip_key \<noteq> account_key" using assms(3,5,6,8) by auto
  have "throttles_ok now ?d1" by (rule record_failure_ok [OF assms(2,3,4)]) (use assms(5) in simp)
  moreover have "tget (login_throttles ?d1) ip_key = Some ipt" using assms(6) ne by (simp add: record_failure_def tbl_simps)
  ultimately have fail: "throttles_ok now (record_failure ip_key now IP_THRESHOLD IP_COOLDOWN ?d1)"
    by (rule record_failure_ok) (use assms(7,8) in auto)
  have "throttles_ok now (d\<lparr>login_throttles := tmodify account_key (after_success now) (login_throttles d)\<rparr>)"
    using assms(2) by (auto simp: throttles_ok_def wf_intros intro: tall_tmodify after_success_ok)
  with fail assms(1,2) show ?thesis
    by (auto simp: try_login_def Let_def split: prod.splits option.splits if_splits)
qed

lemma authenticate_login_ok:
  assumes "authenticate_login env tnow now ip name pw d = (r, d')" "throttles_ok now d"
  shows "throttles_ok now d'"
  using assms
proof (cases rule: authenticate_login_cases)
  case (tried account_key ip_key account ipt d2)
  from try_login_ok [OF tried(1,2,3,4,5,7,8,9)] show ?thesis .
qed

section \<open>Runs of attempts\<close>

record login_attempt =
  la_time :: instant
  la_addr :: pystr
  la_name :: pystr
  la_password :: pystr

fun attempts :: "auth_env \<Rightarrow> login_attempt list \<Rightarrow> db \<Rightarrow> db" where
  "attempts env [] d = d"
| "attempts env (a # as) d =
     attempts env as (snd (authenticate_login env (la_time a) (la_time a) (la_addr a) (la_name a) (la_password a) d))"

lemma attempts_ok:
  "throttles_ok now d \<Longrightarrow> sorted (now # map la_time as) \<Longrightarrow>
   throttles_ok (last (now # map la_time as)) (attempts env as d)"
proof (induction as arbitrary: now d)
  case (Cons a as)
  obtain r d' where one: "authenticate_login env (la_time a) (la_time a) (la_addr a) (la_name a) (la_password a) d = (r, d')"
    by force
  from Cons.prems have "now \<le> la_time a" by simp
  from authenticate_login_ok [OF one throttles_ok_later [OF Cons.prems(1) this]]
  have "throttles_ok (la_time a) d'" .
  from Cons.IH [OF this] Cons.prems(2) one show ?case by simp
qed simp

section \<open>Properties\<close>


definition plain_env :: auth_env where
  "plain_env = \<lparr>auth_digest = (\<lambda>_ s. length s), auth_lower = ascii_lower, auth_invalid = (\<lambda>_. lit ''invalid_0''),
     auth_check = (\<lambda>h p. h = length p)\<rparr>"

definition mina :: user where
  "mina = \<lparr>user_username = lit ''mina'', user_password = Some 12, user_is_active = True, user_is_staff = False,
     user_is_superuser = False, user_meta_permission = False, user_bio = [], user_auth_epoch = 3,
     user_withdrawn_at = None, user_date_joined = 0\<rparr>"

definition mina_db :: db where
  "mina_db = empty_db\<lparr>users := \<lparr>rows = [(2, mina)], next_pk = 3\<rparr>\<rparr>"

definition wrong_guess :: login_attempt where
  "wrong_guess = \<lparr>la_time = 10, la_addr = [1], la_name = lit ''mina'', la_password = lit ''not-mina''\<rparr>"

lemma mina_throttles: "throttles_ok now mina_db"
  by (simp add: throttles_ok_def mina_db_def empty_db_def wf_intros tall_def) (simp add: empty_table_def)

definition fresh_throttle :: "throttle_scope \<Rightarrow> nat \<Rightarrow> login_throttle" where
  "fresh_throttle scope digest = \<lparr>throttle_scope = scope, throttle_identifier = digest, throttle_window_started_at = 10,
     throttle_failure_count = 0, throttle_blocked_until = None, throttle_updated_at = 10\<rparr>"

definition mina_tried :: db where
  "mina_tried = mina_db\<lparr>login_throttles := \<lparr>rows = [(1, fresh_throttle IP 1), (2, fresh_throttle ACCOUNT 4)], next_pk = 3\<rparr>\<rparr>"

lemma mina_digests: "account_login_identifier plain_env (lit ''mina'') = 4" "client_ip_identifier plain_env [1] = 1"
  by (simp_all add: account_login_identifier_def client_ip_identifier_def plain_env_def ascii_lower_def py_strip_def
      py_isspace_def lit_def)

text \<open>The first attempt on the empty throttle table reaches the password check.\<close>

lemma mina_login:
  "authenticate_login plain_env tnow 10 [1] (lit ''mina'') pw mina_db = try_login plain_env tnow 10 2 1 (lit ''mina'') pw mina_tried"
proof -
  let ?d = "mina_db\<lparr>login_throttles := \<lparr>rows = [(1, fresh_throttle IP 1)], next_pk = 2\<rparr>\<rparr>"
  have "locked_throttle IP 1 10 (prune_expired_throttles 10 mina_db) = ((1, fresh_throttle IP 1), ?d)"
    by (simp add: locked_throttle_def prune_expired_throttles_def mina_db_def empty_db_def empty_table_def tdelete_def
        tfirst_def tcreate_def tinsert_def fresh_throttle_def Let_def)
  moreover have "locked_throttle ACCOUNT 4 10 ?d = ((2, fresh_throttle ACCOUNT 4), mina_tried)"
    by (simp add: locked_throttle_def tfirst_def throttle_row_def tcreate_def tinsert_def fresh_throttle_def mina_tried_def
        Let_def)
  moreover have "\<not> is_blocked (fresh_throttle sc n) 10" for sc n by (simp add: is_blocked_def fresh_throttle_def)
  ultimately show ?thesis by (simp add: authenticate_login_def mina_digests del: One_nat_def)
qed

lemma mina_attempt:
  "tget (login_throttles (attempts plain_env [wrong_guess] mina_db)) 2 =
    Some \<lparr>throttle_scope = ACCOUNT, throttle_identifier = 4, throttle_window_started_at = 10,
     throttle_failure_count = 1, throttle_blocked_until = None, throttle_updated_at = 10\<rparr>"
proof -
  have "login_candidate plain_env (lit ''mina'') (lit ''not-mina'') = (lit ''invalid_0'', lit ''invalid-password-input'')"
    by (simp add: login_candidate_def) (simp add: plain_env_def)
  then have "try_login plain_env 10 10 2 1 (lit ''mina'') (lit ''not-mina'') mina_tried =
      (None, record_failure 1 10 IP_THRESHOLD IP_COOLDOWN (record_failure 2 10 ACCOUNT_THRESHOLD ACCOUNT_COOLDOWN mina_tried))"
    by (simp add: try_login_def authenticate_def mina_tried_def mina_db_def tfirst_def mina_def lit_def)
  then show ?thesis
    by (simp add: wrong_guess_def mina_login del: One_nat_def)
      (simp add: mina_tried_def fresh_throttle_def record_failure_def tget_def tmodify_def tupdate_def after_failure_def
        throttle_constants Let_def)
qed


lemma find_filter_some: "find P xs = Some x \<Longrightarrow> Q x \<Longrightarrow> find P (filter Q xs) = Some x"
  by (induction xs) (auto split: if_splits)

lemma prune_keeps_first:
  assumes "tfirst P (login_throttles d) = Some (k, t)" "\<not> throttle_updated_at t < now - THROTTLE_RETENTION"
  shows "tfirst P (login_throttles (prune_expired_throttles now d)) = Some (k, t)"
  using assms unfolding tfirst_def prune_expired_throttles_def tdelete_def
  by (auto intro!: find_filter_some)

lemma locked_throttle_other:
  assumes "tfirst (throttle_row scope digest) (login_throttles d) = Some (k, t)"
  shows "tfirst (throttle_row scope digest) (login_throttles (snd (locked_throttle scope' digest' now d))) = Some (k, t)"
  using assms by (auto simp: locked_throttle_def Let_def tcreate_def tfirst_tcreate [unfolded tcreate_def, simplified] split: option.splits)

text \<open>
  While an account is blocked a login attempt on it fails without looking at the password:
  the answer and the database are the same for every password and every way of checking it.
\<close>

theorem blocked_login_blind:
  assumes "tfirst (throttle_row ACCOUNT (account_login_identifier env name)) (login_throttles d) = Some (k, t)"
    and "is_blocked t now" "now - THROTTLE_RETENTION \<le> throttle_updated_at t"
  shows "fst (authenticate_login env tnow now ip name pw d) = None \<and>
    authenticate_login env tnow now ip name pw d =
      authenticate_login (env\<lparr>auth_check := chk\<rparr>) tnow' now ip name pw' d"
proof -
  obtain ip_key ipt d1 where l1:
    "locked_throttle IP (client_ip_identifier env ip) now (prune_expired_throttles now d) = ((ip_key, ipt), d1)"
    by (metis prod_cases3 surj_pair)
  from prune_keeps_first [OF assms(1)] assms(3) locked_throttle_other [of ACCOUNT _ "prune_expired_throttles now d" k t IP] l1
  have "tfirst (throttle_row ACCOUNT (account_login_identifier env name)) (login_throttles d1) = Some (k, t)"
    by (metis linorder_not_less snd_conv)
  then have l2: "locked_throttle ACCOUNT (account_login_identifier env name) now d1 = ((k, t), d1)"
    by (simp add: locked_throttle_def)
  have "authenticate_login env tnow now ip name pw d = (None, d1)"
    using l1 l2 assms(2) by (simp add: authenticate_login_def)
  moreover have "authenticate_login (env\<lparr>auth_check := chk\<rparr>) tnow' now ip name pw' d = (None, d1)"
    using l1 l2 assms(2) by (simp add: authenticate_login_def client_ip_identifier_def account_login_identifier_def)
  ultimately show ?thesis by simp
qed

definition blocked_db :: db where
  "blocked_db = mina_db\<lparr>login_throttles := \<lparr>rows = [(1, \<lparr>throttle_scope = ACCOUNT, throttle_identifier = 4,
     throttle_window_started_at = 0, throttle_failure_count = 5, throttle_blocked_until = Some (minutes 15),
     throttle_updated_at = 10\<rparr>)], next_pk = 2\<rparr>\<rparr>"

theorem blocked_login_blind_witness:
  "fst (authenticate_login plain_env 20 20 [1] (lit ''mina'') (lit ''right-passwd'') blocked_db) = None"
proof -
  have "tfirst (throttle_row ACCOUNT (account_login_identifier plain_env (lit ''mina''))) (login_throttles blocked_db) =
      Some (1, \<lparr>throttle_scope = ACCOUNT, throttle_identifier = 4, throttle_window_started_at = 0,
     throttle_failure_count = 5, throttle_blocked_until = Some (minutes 15), throttle_updated_at = 10\<rparr>)"
    by (simp add: tfirst_def blocked_db_def throttle_row_def account_login_identifier_def plain_env_def ascii_lower_def
        py_strip_def py_isspace_def lit_def)
  from blocked_login_blind [OF this, of 20 20 "[1]" "lit ''right-passwd''" "auth_check plain_env" 20 "lit ''right-passwd''"] show ?thesis
    by (simp add: is_blocked_def minutes_def THROTTLE_RETENTION_def hours_def)
qed

lemma locked_throttle_users:
  "locked_throttle scope digest now d = (x, d') \<Longrightarrow>
   users d' = users d \<and> moderation_actions d' = moderation_actions d \<and> sanction_releases d' = sanction_releases d"
  by (auto simp: locked_throttle_def Let_def tcreate_def split: option.splits)

text \<open>
  C14: a login is granted only to a stored account under the canonical form of the submitted
  name, with a password of 12 to 128 characters without NUL that matches, when the account is
  active, not withdrawn and not dormant; and it clears the account's failures.
\<close>

theorem login_grants_only_active:
  assumes "wf_table (users d)" "throttles_ok now d"
    and "authenticate_login env tnow now ip name pw d = (Some (i, u), d')"
    and "\<not> texists (\<lambda>_ u. user_username u = auth_invalid env (account_login_identifier env name)) (users d)"
  shows "tget (users d) i = Some u \<and> user_is_active u \<and> user_withdrawn_at u = None \<and>
    effective_user_status tnow d i = USER_ACTIVE \<and> check_password env u pw \<and>
    canonicalize_username (auth_lower env) name = Inr (user_username u) \<and> 0 \<notin> set pw \<and> length pw \<in> {12..128} \<and>
    (\<exists>k t. tget (login_throttles d') k = Some t \<and> throttle_scope t = ACCOUNT \<and>
       throttle_identifier t = account_login_identifier env name \<and> throttle_failure_count t = 0)"
  using assms(3,2)
proof (cases rule: authenticate_login_cases)
  case (tried account_key ip_key account ipt d2)
  obtain n c where cand: "login_candidate env name pw = (n, c)" by force
  with tried(1) have auth: "authenticate env n c d2 = Some (i, u)"
    and act: "effective_account_status (Some (Some i, u)) = ACTIVE" "effective_user_status tnow d2 i = USER_ACTIVE"
    and d': "d' = d2\<lparr>login_throttles := tmodify account_key (after_success now) (login_throttles d2)\<rparr>"
    by (auto simp: try_login_def split: option.splits if_splits)
  have same: "tfirst P (users d2) = tfirst P (users d)" for P by (simp add: tried(10))
  from auth have row: "(i, u) \<in> set (rows (users d))" "user_username u = n" "user_is_active u" "check_password env u c"
    unfolding authenticate_def same by (auto dest: tfirst_SomeD)
  with assms(1) have get: "tget (users d) i = Some u" by (simp add: tget_iff)
  with row(2) assms(4) have "n \<noteq> auth_invalid env (account_login_identifier env name)"
    by (auto dest: texists_tget [where P = "\<lambda>_ x. user_username x = n"])
  with cand have "canonicalize_username (auth_lower env) name = Inr n" "c = pw" "0 \<notin> set pw" "length pw \<in> {12..128}"
    by (auto simp: login_candidate_def Let_def split: if_splits sum.splits)
  moreover have "effective_user_status tnow d i = USER_ACTIVE"
    using act(2) tried(11,12) by (simp add: effective_user_status_def active_actions_def released_def)
  moreover have "user_withdrawn_at u = None"
    using act(1) by (simp add: effective_account_status_def split: if_splits)
  moreover have "\<exists>k t. tget (login_throttles d') k = Some t \<and> throttle_scope t = ACCOUNT \<and>
       throttle_identifier t = account_login_identifier env name \<and> throttle_failure_count t = 0"
    by (rule exI [of _ account_key], rule exI [of _ "after_success now account"])
      (use tried(3,5,6) in \<open>simp add: d' tbl_simps after_success_def\<close>)
  ultimately show ?thesis using get row by auto
qed simp

definition right_login :: "(nat \<times> user) option \<times> db" where
  "right_login = authenticate_login plain_env 10 10 [1] (lit ''mina'') (lit ''right-passwd'') mina_db"

theorem login_grants_only_active_witness:
  "\<exists>d'. right_login = (Some (2, mina), d') \<and> check_password plain_env mina (lit ''right-passwd'') \<and>
    (\<exists>k t. tget (login_throttles d') k = Some t \<and> throttle_failure_count t = 0)"
proof -
  have cand: "login_candidate plain_env (lit ''mina'') (lit ''right-passwd'') = (lit ''mina'', lit ''right-passwd'')"
    by (simp add: login_candidate_def canonicalize_username_def canonical_username_def username_char_def plain_env_def
        ascii_lower_def py_strip_def py_isspace_def lit_def is_digit_def account_login_identifier_def)
  have auth: "authenticate plain_env (lit ''mina'') (lit ''right-passwd'') mina_tried = Some (2, mina)"
    by (simp add: authenticate_def mina_tried_def mina_db_def tfirst_def mina_def check_password_def plain_env_def)
  have "\<exists>d'. right_login = (Some (2, mina), d')"
    unfolding right_login_def mina_login try_login_def cand prod.case auth Let_def option.case
    by (simp add: effective_account_status_def effective_user_status_def texists_def mina_tried_def mina_db_def
        empty_db_def empty_table_def mina_def)
  then obtain d' where run: "right_login = (Some (2, mina), d')" by blast
  have "wf_table (users mina_db)" "\<not> texists (\<lambda>_ u. user_username u = auth_invalid plain_env n) (users mina_db)" for n
    by (simp_all add: mina_db_def wf_table_def texists_def plain_env_def mina_def lit_def)
  from login_grants_only_active [OF this(1) mina_throttles run [unfolded right_login_def] this(2)] run show ?thesis by blast
qed

section \<open>Sessions\<close>

lemma validate_epoch: "fst (validate_request fresh now i u ws d) \<Longrightarrow> ws_epoch ws = Int_Value (int (user_auth_epoch u))"
  by (auto simp: validate_request_def split: if_splits)

lemma enforce_refuses:
  assumes "ws_epoch ws \<noteq> Int_Value (int (user_auth_epoch u)) \<or> \<not> user_is_active u \<or> user_withdrawn_at u \<noteq> None"
  shows "fst (enforce_http_user_status tnow fresh now (Some (i, u)) ws d) = Some 403 \<and>
    ws_key (fst (snd (enforce_http_user_status tnow fresh now (Some (i, u)) ws d))) = None"
proof -
  obtain b ws1 d1 where v: "validate_request fresh now i u ws d = (b, ws1, d1)" by (metis prod_cases3)
  with assms validate_epoch [of fresh now i u ws d]
  have "\<not> (b \<and> user_is_active u \<and> effective_account_status (Some (Some i, u)) = ACTIVE)"
    by (auto simp: effective_account_status_def)
  with v show ?thesis
    by (auto simp: enforce_http_user_status_def end_session_def logout_session_def Let_def split: prod.splits bool.splits)
qed

lemma start_session_fresh:
  assumes "ws_key ws = Some key" "index_of d key = None"
  shows "start_session fresh now i u ws d = (Inr (), ws\<lparr>ws_epoch := Int_Value (int (user_auth_epoch u))\<rparr>,
    d\<lparr>session_indexes := snd (tcreate \<lparr>sidx_user_id = i, sidx_session_key = key, sidx_auth_epoch = user_auth_epoch u,
              sidx_last_seen_at = now, sidx_revoked_at = None\<rparr> (session_indexes d))\<rparr>)"
  using assms by (simp add: start_session_def save_session_def)

lemma no_key_tupdate:
  "tfirst (\<lambda>_ x. sidx_session_key x = key) t = None \<Longrightarrow> (\<And>x. sidx_session_key (f x) = sidx_session_key x) \<Longrightarrow>
   tfirst (\<lambda>_ x. sidx_session_key x = key) (tupdate P f t) = None"
  by (auto simp: tfirst_None texists_def tupdate_def list_ex_iff split: if_splits)

text \<open>
  C15: after a password change the session that made it goes on under its new key, and every
  request with another session of the user, which still carries the old epoch, is refused with
  403 and its session is ended.
\<close>

theorem password_change_ends_other_sessions:
  assumes "wf_table (users d)" "tget (users d) i = Some u" "user_is_active u" "user_withdrawn_at u = None"
    and "check_password env u old" "clean_new_password strong (user_username u) new new' = Inr pw"
    and "index_of d fresh = None" "effective_user_status tnow d i = USER_ACTIVE"
    and "ws_epoch other = Int_Value (int (user_auth_epoch u))"
  shows "\<exists>u' ws' d'. password_change env strong hash now fresh i u (Some (old, new, new')) ws d = (To_Profile, ws', d') \<and>
    tget (users d') i = Some u' \<and> user_auth_epoch u' = user_auth_epoch u + 1 \<and> user_password u' = Some (hash pw) \<and>
    fst (enforce_http_user_status tnow fresh' now (Some (i, u')) ws' d') = None \<and>
    fst (enforce_http_user_status tnow fresh' now (Some (i, u')) other d'') = Some 403"
proof -
  let ?u = "u\<lparr>user_password := Some (hash pw), user_auth_epoch := user_auth_epoch u + 1\<rparr>"
  let ?d1 = "d\<lparr>users := tmodify i (\<lambda>_. u\<lparr>user_password := Some (hash pw)\<rparr>) (users d)\<rparr>"
  define d2 where "d2 = snd (end_session now False ws ?d1)"
  have i2: "index_of d2 fresh = None" and users2: "users d2 = users ?d1"
    using assms(7) unfolding d2_def
    by (auto simp: end_session_def revoke_key_def Let_def index_of_def no_key_tupdate split: option.splits)
  define d3 where "d3 = d2\<lparr>users := tmodify i (\<lambda>u. u\<lparr>user_auth_epoch := user_auth_epoch u + 1\<rparr>) (users d2)\<rparr>"
  have get3: "tget (users d3) i = Some ?u"
    using assms(2) by (simp add: d3_def users2 tbl_simps)
  let ?ws = "ws\<lparr>ws_key := Some fresh\<rparr>"
  define d4 where "d4 = snd (cycle_key fresh ws d3)"
  have i4: "index_of d4 fresh = None" "users d4 = users d3"
    using i2 by (auto simp: d4_def cycle_key_def d3_def index_of_def)
  let ?row = "\<lparr>sidx_user_id = i, sidx_session_key = fresh, sidx_auth_epoch = user_auth_epoch u + 1,
              sidx_last_seen_at = now, sidx_revoked_at = None\<rparr>"
  let ?d5 = "d4\<lparr>session_indexes := snd (tcreate ?row (session_indexes d4))\<rparr>"
  let ?ws5 = "?ws\<lparr>ws_epoch := Int_Value (int (user_auth_epoch u + 1))\<rparr>"
  have start: "start_session fresh now i ?u ?ws d4 = (Inr (), ?ws5, ?d5)"
    using start_session_fresh [of ?ws fresh d4 fresh now i ?u] i4(1) by simp
  have ended: "end_session now False ws ?d1 = (ws, d2)" by (simp add: d2_def end_session_def Let_def)
  have cycled: "cycle_key fresh ws d3 = (?ws, d4)" by (simp add: d4_def cycle_key_def)
  have "rotate_after_password_change fresh now i ws ?d1 = (Inr (), ?ws5, ?d5)"
    unfolding rotate_after_password_change_def ended Let_def prod.case d3_def [symmetric] get3 option.case cycled start ..
  then have run: "password_change env strong hash now fresh i u (Some (old, new, new')) ws d = (To_Profile, ?ws5, ?d5)"
    using assms(5,6) by (simp add: password_change_def)
  have "index_of ?d5 fresh = Some (next_pk (session_indexes d4), ?row)"
    using i4(1) by (simp add: index_of_def tfirst_tcreate)
  then have "validate_request fresh' now i ?u ?ws5 ?d5 = (True, ?ws5, ?d5)"
    by (simp add: validate_request_def save_session_def SESSION_INDEX_TOUCH_INTERVAL_def minutes_def)
  moreover have "effective_user_status tnow ?d5 i = USER_ACTIVE"
    using assms(8) by (auto simp: effective_user_status_def active_actions_def released_def d4_def cycle_key_def d3_def
        d2_def end_session_def revoke_key_def Let_def split: option.splits)
  ultimately have "fst (enforce_http_user_status tnow fresh' now (Some (i, ?u)) ?ws5 ?d5) = None"
    using assms(3,4) by (simp add: enforce_http_user_status_def effective_account_status_def)
  moreover have "fst (enforce_http_user_status tnow fresh' now (Some (i, ?u)) other d'') = Some 403"
    by (rule conjunct1 [OF enforce_refuses]) (use assms(9) in simp)
  moreover have "tget (users ?d5) i = Some ?u" using get3 i4(2) by simp
  ultimately show ?thesis using run by (intro exI conjI) auto
qed

theorem password_change_ends_other_sessions_witness:
  "\<exists>u' ws' d'. password_change plain_env (\<lambda>_ _. True) length 9 77 2 mina
      (Some (lit ''right-passwd'', lit ''other-passwd'', lit ''other-passwd'')) \<lparr>ws_key = Some 5, ws_epoch = Int_Value 3\<rparr> mina_db
      = (To_Profile, ws', d') \<and> tget (users d') 2 = Some u' \<and>
    fst (enforce_http_user_status 9 78 9 (Some (2, u')) \<lparr>ws_key = Some 6, ws_epoch = Int_Value 3\<rparr> mina_db) = Some 403"
proof -
  have "wf_table (users mina_db)" "tget (users mina_db) 2 = Some mina" "index_of mina_db 77 = None"
    "effective_user_status 9 mina_db 2 = USER_ACTIVE"
    by (simp_all add: mina_db_def wf_table_def tget_def index_of_def empty_db_def empty_table_def tfirst_def
        effective_user_status_def texists_def)
  moreover have "user_is_active mina" "user_withdrawn_at mina = None" "check_password plain_env mina (lit ''right-passwd'')"
    by (simp_all add: mina_def check_password_def plain_env_def)
  moreover have "clean_new_password (\<lambda>_ _. True) (user_username mina) (lit ''other-passwd'') (lit ''other-passwd'') =
      Inr (lit ''other-passwd'')"
    by (simp add: clean_new_password_def password_validate_def password_min_length_def password_max_length_def lit_def)
  ultimately obtain u' ws' d' where "password_change plain_env (\<lambda>_ _. True) length 9 77 2 mina
      (Some (lit ''right-passwd'', lit ''other-passwd'', lit ''other-passwd'')) \<lparr>ws_key = Some 5, ws_epoch = Int_Value 3\<rparr> mina_db
      = (To_Profile, ws', d')" "tget (users d') 2 = Some u'"
    "fst (enforce_http_user_status 9 78 9 (Some (2, u')) \<lparr>ws_key = Some 6, ws_epoch = Int_Value 3\<rparr> mina_db) = Some 403"
    using password_change_ends_other_sessions [of mina_db 2 mina plain_env "lit ''right-passwd''" "\<lambda>_ _. True"
        "lit ''other-passwd''" "lit ''other-passwd''" "lit ''other-passwd''" 77 9 "\<lparr>ws_key = Some 6, ws_epoch = Int_Value 3\<rparr>"
        length 9 "\<lparr>ws_key = Some 5, ws_epoch = Int_Value 3\<rparr>" 78 mina_db]
    by (auto simp: mina_def)
  then show ?thesis by blast
qed

end
