(* ===== verification/Catalog_Properties.thy ===== *)
theory Catalog_Properties imports Catalog "HOL-Library.Multiset" begin

text \<open>
  Properties of the catalog's read side: what a search may show, how its pages cover the
  hits, and that the metrics of a product are a function of the relation rows after every
  command, so that repeating a command changes nothing.
\<close>

section \<open>Search\<close>

lemma set_sort_rows [simp]: "set (sort_rows o' ps) = set ps"
  by (cases o') simp_all

lemma mset_sort_rows [simp]: "mset (sort_rows o' ps) = mset ps"
  by (cases o') simp_all

lemma sort_rows_sorted:
  "sorted (map (case o' of NEWEST \<Rightarrow> (\<lambda>(k, p). (- product_created_at p, - int k))
                | PRICE_ASC \<Rightarrow> (\<lambda>(k, p). (product_price p, - int k))
                | PRICE_DESC \<Rightarrow> (\<lambda>(k, p). (- product_price p, - int k))) (sort_rows o' ps))"
  by (cases o') simp_all

lemma pages_cover: "concat (map (\<lambda>i. take m (drop (i * m) xs)) [0..<n]) = take (n * m) xs"
proof (induction n)
  case (Suc n)
  have "take (Suc n * m) xs = take (n * m) xs @ take m (drop (n * m) xs)"
    by (simp only: mult_Suc add.commute [of m] take_add)
  with Suc show ?case by simp
qed simp

lemma search_hits_public:
  assumes "wf_table (products d)" "(k, p) \<in> set (search_hits icontains tnow d s)"
  shows "tget (products d) k = Some p" "effective_product_visibility tnow d k = VISIBLE"
    "search_matches icontains d s k p"
proof -
  from assms have m: "(k, p) \<in> set (rows (products d))" "product_archived_at p = None"
    "\<not> moderation_hidden tnow d k" "search_matches icontains d s k p"
    by (auto simp: search_hits_def visible_products_def tselect_def)
  then show t: "tget (products d) k = Some p" and "search_matches icontains d s k p"
    using assms(1) by (simp_all add: tget_iff)
  have "texists (\<lambda>i p. i = k \<and> product_archived_at p = None) (products d)"
    by (rule texists_tget [OF t]) (simp add: m)
  moreover have "\<not> texists (\<lambda>i a. active_actions tnow d i a \<and> action_kind a = PRODUCT_HIDE \<and>
      action_target_product_id a = Some k) (moderation_actions d)"
    using m(3) by (auto simp: moderation_hidden_def texists_def list_ex_iff active_actions_def)
  ultimately show "effective_product_visibility tnow d k = VISIBLE"
    by (simp add: effective_product_visibility_def)
qed

section \<open>Metrics\<close>

definition metrics_ok :: "db \<Rightarrow> bool" where
  "metrics_ok d \<longleftrightarrow> wf_table (product_metrics d) \<and>
     unique_on (\<lambda>m. Some (metric_product_id m)) (product_metrics d)"

text \<open>The stored metric of a product is the one its relation rows give.\<close>

definition metric_current :: "nat \<Rightarrow> db \<Rightarrow> bool" where
  "metric_current product_id d \<longleftrightarrow>
     map_option snd (metric_of d product_id) = Some (product_counts product_id d)"

lemma product_counts_metrics: "product_counts p (d\<lparr>product_metrics := m\<rparr>) = product_counts p d"
  by (simp add: product_counts_def product_chat_count_def)

lemma metric_id_counts [simp]: "metric_product_id (product_counts p d) = p"
  by (simp add: product_counts_def)

lemma recompute_current:
  assumes ok: "metrics_ok d" and e: "recompute_product_metric p d = Inr (m, d')"
  shows "m = product_counts p d \<and> metric_current p d' \<and> metrics_ok d' \<and>
    d' = d\<lparr>product_metrics := product_metrics d'\<rparr>"
proof (cases "metric_of d p")
  case None
  with e have "m = product_counts p d"
    and d': "d' = d\<lparr>product_metrics := snd (tcreate (product_counts p d) (product_metrics d))\<rparr>"
    by (auto simp: recompute_product_metric_def Let_def split: if_splits)
  moreover have "metric_current p d'"
    using None by (simp add: d' metric_current_def metric_of_def tfirst_tcreate product_counts_metrics)
  moreover have "metrics_ok d'"
    using ok None by (simp add: d' metrics_ok_def wf_tcreate unique_tcreate metric_of_def tfirst_None)
  ultimately show ?thesis by simp
next
  case (Some q)
  obtain k old where q: "q = (k, old)" by force
  have k: "tget (product_metrics d) k = Some old" "metric_product_id old = p"
    using ok Some q unfolding metric_of_def metrics_ok_def
    by (auto dest: tfirst_SomeD intro: tfirst_tget)
  let ?t = "tmodify k (\<lambda>_. product_counts p d) (product_metrics d)"
  have t: "?t = tmodify k (\<lambda>x. if x = old then product_counts p d else x) (product_metrics d)"
    by (rule tmodify_overwrite) (use ok k in \<open>simp_all add: metrics_ok_def\<close>)
  have u: "unique_on (\<lambda>m. Some (metric_product_id m)) ?t"
    unfolding t using ok k(2) by (subst unique_tmodify) (auto simp: metrics_ok_def)
  have w: "wf_table ?t" using ok by (simp add: metrics_ok_def wf_tmodify)
  have g: "tget ?t k = Some (product_counts p d)" using k by (simp add: tget_tmodify)
  have "tfirst (\<lambda>_ m. Some (metric_product_id m) = Some p) ?t = Some (k, product_counts p d)"
    by (rule tfirst_unique_on [OF w u g]) simp
  with e Some q w u show ?thesis
    by (auto simp: recompute_product_metric_def Let_def metric_current_def metric_of_def
        product_counts_metrics metrics_ok_def split: if_splits)
qed

text \<open>Recomputing a current metric changes nothing.\<close>

lemma recompute_idle:
  assumes ok: "metrics_ok d" and c: "metric_current p d" and e: "recompute_product_metric p d = Inr (m, d')"
  shows "d' = d"
proof -
  from c obtain k where k: "metric_of d p = Some (k, product_counts p d)"
    by (auto simp: metric_current_def)
  with ok have g: "tget (product_metrics d) k = Some (product_counts p d)"
    unfolding metric_of_def metrics_ok_def by (blast intro: tfirst_tget)
  have w: "wf_table (product_metrics d)" using ok by (simp add: metrics_ok_def)
  have "tmodify k (\<lambda>_. product_counts p d) (product_metrics d) =
      tmodify k (\<lambda>x. if x = product_counts p d then product_counts p d else x) (product_metrics d)"
    by (rule tmodify_overwrite [OF w g])
  also have "(\<lambda>x. if x = product_counts p d then product_counts p d else x) = (\<lambda>x. x)" by auto
  also have "tmodify k (\<lambda>x. x) (product_metrics d) = product_metrics d"
    by (simp add: tmodify_def tupdate_def case_prod_unfold)
  finally show ?thesis using e k by (auto simp: recompute_product_metric_def Let_def split: if_splits)
qed

record favorite_command =
  fc_user :: nat
  fc_product :: nat
  fc_active :: bool

definition favorite_exec :: "instant \<Rightarrow> favorite_command \<Rightarrow> db \<Rightarrow> exn + (product_metric \<times> db)" where
  "favorite_exec now c = set_favorite now (fc_user c) (fc_product c) (fc_active c)"

definition favorited :: "nat \<Rightarrow> nat \<Rightarrow> db \<Rightarrow> bool" where
  "favorited u p d \<longleftrightarrow> texists (is_favorite u p) (favorites d)"

definition with_favorite :: "instant \<Rightarrow> nat \<Rightarrow> nat \<Rightarrow> bool \<Rightarrow> db \<Rightarrow> db" where
  "with_favorite now u p active d =
     (if active then (if favorited u p d then d
        else d\<lparr>favorites := snd (tcreate \<lparr>favorite_user_id = u, favorite_product_id = p,
                favorite_created_at = now\<rparr> (favorites d))\<rparr>)
      else d\<lparr>favorites := tdelete (is_favorite u p) (favorites d)\<rparr>)"

lemma set_favorite_elim:
  assumes "set_favorite now u p active d = Inr (m, d')"
  shows "recompute_product_metric p (with_favorite now u p active d) = Inr (m, d')"
  using assms by (auto simp: set_favorite_def Let_def with_favorite_def favorited_def split: if_splits)

lemma with_favorite_metrics: "product_metrics (with_favorite now u p a d) = product_metrics d"
  "metrics_ok (with_favorite now u p a d) = metrics_ok d"
  by (simp_all add: with_favorite_def metrics_ok_def)

lemma with_favorite_state: "favorited u p (with_favorite now u p a d) = a"
proof (cases a)
  case True
  then show ?thesis
    by (cases "favorited u p d") (simp_all add: with_favorite_def favorited_def texists_tcreate is_favorite_def)
next
  case False
  then show ?thesis by (simp add: with_favorite_def favorited_def texists_tdelete) (simp add: texists_def list_ex_iff)
qed

lemma tdelete_none: "\<not> texists P t \<Longrightarrow> tdelete P t = t"
proof -
  assume "\<not> texists P t"
  then have "filter (\<lambda>(k, r). \<not> P k r) (rows t) = rows t"
    by (intro filter_True) (auto simp: texists_def list_ex_iff)
  then show ?thesis by (simp add: tdelete_def)
qed

lemma with_favorite_idle: "favorited u p d = a \<Longrightarrow> with_favorite now u p a d = d"
  by (auto simp: with_favorite_def favorited_def tdelete_none)

lemma favorite_exec_replay:
  assumes ok: "metrics_ok d" and first: "favorite_exec e c d = Inr (r, d')"
    and again: "favorite_exec e' c d' = Inr (r', d'')"
  shows "d'' = d' \<and> r = r'"
proof -
  let ?u = "fc_user c" and ?p = "fc_product c" and ?a = "fc_active c"
  from set_favorite_elim first have "recompute_product_metric ?p (with_favorite e ?u ?p ?a d) = Inr (r, d')"
    unfolding favorite_exec_def by blast
  from recompute_current [OF _ this] ok have
    r: "r = product_counts ?p (with_favorite e ?u ?p ?a d)" "metric_current ?p d'" "metrics_ok d'"
    and d': "d' = (with_favorite e ?u ?p ?a d)\<lparr>product_metrics := product_metrics d'\<rparr>"
    by (simp_all add: with_favorite_metrics)
  have counts: "product_counts ?p d' = r"
    using r(1) by (subst d') (simp add: product_counts_metrics)
  have "favorited ?u ?p d' = favorited ?u ?p (with_favorite e ?u ?p ?a d)"
    by (subst d') (simp add: favorited_def)
  then have fav: "with_favorite e' ?u ?p ?a d' = d'"
    by (intro with_favorite_idle) (simp add: with_favorite_state)
  from set_favorite_elim again have "recompute_product_metric ?p (with_favorite e' ?u ?p ?a d') = Inr (r', d'')"
    unfolding favorite_exec_def by blast
  with fav have e2: "recompute_product_metric ?p d' = Inr (r', d'')" by simp
  from recompute_idle [OF r(3,2) e2] recompute_current [OF r(3) e2] counts show ?thesis by simp
qed

interpretation favorite: replayable favorite_exec "(=)" metrics_ok
  by unfold_locales (blast dest: favorite_exec_replay)


section \<open>Example state\<close>

definition lamp :: "nat \<Rightarrow> product" where
  "lamp price = \<lparr>product_owner_id = 1, product_title = lit ''lamp'', product_description = lit ''old'',
     product_price = int price, product_legacy_image = [], product_category_id = lit ''HOME'',
     product_region_id = None, product_region_source = LEGACY_UNSET, product_archived_at = None,
     product_version = 1, product_created_at = 0, product_demo_key = None\<rparr>"

definition lamps :: db where
  "lamps = empty_db\<lparr>users := \<lparr>rows = [(2, \<lparr>user_username = lit ''bert'', user_password = Some 1,
       user_is_active = True, user_is_staff = False, user_is_superuser = False, user_meta_permission = False,
       user_bio = [], user_auth_epoch = 0, user_withdrawn_at = None, user_date_joined = 0\<rparr>)], next_pk = 3\<rparr>,
     products := \<lparr>rows = [(7, lamp 5), (8, lamp 3)], next_pk = 9\<rparr>\<rparr>"

definition hide_action :: moderation_action where
  "hide_action = \<lparr>action_kind = PRODUCT_HIDE, action_target_user_id = None, action_target_product_id = Some 7,
     action_starts_at = 0, action_expires_at = days 7\<rparr>"

definition released_lamps :: db where
  "released_lamps = lamps\<lparr>moderation_actions := \<lparr>rows = [(1, hide_action)], next_pk = 2\<rparr>,
     sanction_releases := \<lparr>rows = [(1, \<lparr>release_action_id = 1, release_actor_id = 9, release_reason = lit ''ok''\<rparr>)], next_pk = 2\<rparr>\<rparr>"

definition all_products :: product_search where
  "all_products = \<lparr>search_q = [], search_status = ANY_STATUS, search_min_price = None, search_max_price = None,
     search_sort = PRICE_ASC, search_page = 1, search_category = [], search_region = []\<rparr>"

lemma lamps_wf: "wf_table (products lamps)" "wf_table (products released_lamps)" "metrics_ok lamps"
  by (auto simp: lamps_def released_lamps_def wf_table_def metrics_ok_def empty_db_def empty_table_def unique_on_def)

section \<open>Properties\<close>

text \<open>
  The pages of a search, put together, are the ordered list of all hits, each product on
  exactly one page, and every page reports the same total.
\<close>

theorem search_pages_partition:
  assumes "wf_table (products d)" "length (search_hits icontains tnow d s) \<le> n * 20"
  shows "concat (map (\<lambda>i. map (\<lambda>(k, p, img). (k, p)) (fst (search_products icontains tnow d (s\<lparr>search_page := Suc i\<rparr>)))) [0..<n])
      = search_hits icontains tnow d s \<and>
    distinct (map fst (search_hits icontains tnow d s)) \<and>
    (\<forall>i. snd (search_products icontains tnow d (s\<lparr>search_page := i\<rparr>)) = length (search_hits icontains tnow d s))"
proof -
  have same: "search_hits icontains tnow d (s\<lparr>search_page := i\<rparr>) = search_hits icontains tnow d s" for i
    by (simp add: search_hits_def search_matches_def)
  have "distinct (map fst (filter (\<lambda>(k, p). search_matches icontains d s k p)
      (visible_products tnow d (tselect (\<lambda>_ p. product_archived_at p = None) (products d)))))"
    using assms(1) unfolding wf_table_def visible_products_def tselect_def by (intro distinct_map_filter) simp
  then have "distinct (map fst (search_hits icontains tnow d s))"
    unfolding search_hits_def by (metis mset_sort_rows mset_map mset_eq_imp_distinct_iff)
  moreover have "map (\<lambda>(k, p, img). (k, p)) (fst (search_products icontains tnow d (s\<lparr>search_page := Suc i\<rparr>)))
      = take 20 (drop (i * 20) (search_hits icontains tnow d s))" for i
    by (simp add: search_products_def Let_def same comp_def case_prod_unfold)
  ultimately show ?thesis
    using assms(2) by (simp add: pages_cover [of 20] search_products_def Let_def same)
qed

theorem search_pages_partition_witness:
  "concat (map (\<lambda>i. map (\<lambda>(k, p, img). (k, p)) (fst (search_products (\<lambda>_ _. True) 1 lamps
      (all_products\<lparr>search_page := Suc i\<rparr>)))) [0..<1]) = [(8, lamp 3), (7, lamp 5)]"
proof -
  have h: "search_hits (\<lambda>_ _. True) 1 lamps all_products = [(8, lamp 3), (7, lamp 5)]" by code_simp
  from search_pages_partition [OF lamps_wf(1), of "\<lambda>_ _. True" 1 all_products 1] h show ?thesis by simp
qed

text \<open>
  Whatever a search returns is a stored, unarchived product the detail page would show
  (no hiding action applies to it) that satisfies every filter of the request.
\<close>

theorem listed_products_public:
  assumes "wf_table (products d)" "(k, p, img) \<in> set (fst (search_products icontains tnow d s))"
  shows "tget (products d) k = Some p \<and> effective_product_visibility tnow d k = VISIBLE \<and>
    search_matches icontains d s k p"
proof -
  from assms(2) have "(k, p) \<in> set (search_hits icontains tnow d s)"
    by (auto simp: search_products_def Let_def dest!: in_set_takeD in_set_dropD)
  from search_hits_public [OF assms(1) this] show ?thesis by blast
qed

theorem listed_products_public_witness:
  "effective_product_visibility 1 lamps 8 = VISIBLE \<and> search_matches (\<lambda>_ _. True) lamps all_products 8 (lamp 3)"
proof -
  have "(8, lamp 3, None) \<in> set (fst (search_products (\<lambda>_ _. True) 1 lamps all_products))" by code_simp
  from listed_products_public [OF lamps_wf(1) this] show ?thesis by blast
qed

text \<open>
  A product whose hiding was released stays out of every search result until the hiding
  would have expired, although its detail page is visible again (the witness shows both).
\<close>

theorem released_product_stays_unlisted:
  assumes "tget (moderation_actions d) i = Some a" "action_kind a = PRODUCT_HIDE"
    and "action_target_product_id a = Some k" "in_window tnow a"
  shows "k \<notin> fst ` set (fst (search_products icontains tnow d s))"
proof -
  have "moderation_hidden tnow d k"
    unfolding moderation_hidden_def by (rule texists_tget [OF assms(1)]) (simp add: assms)
  then show ?thesis
    by (auto simp: search_products_def Let_def search_hits_def visible_products_def
        dest!: in_set_takeD in_set_dropD)
qed

theorem released_product_stays_unlisted_witness:
  "effective_product_visibility 1 released_lamps 7 = VISIBLE \<and>
   7 \<notin> fst ` set (fst (search_products (\<lambda>_ _. True) 1 released_lamps all_products))"
proof -
  have "effective_product_visibility 1 released_lamps 7 = VISIBLE"
    by (simp add: effective_product_visibility_def released_lamps_def lamps_def texists_def active_actions_def
        released_def lamp_def)
  moreover have "tget (moderation_actions released_lamps) 1 = Some hide_action"
    by (simp add: released_lamps_def tget_def)
  from released_product_stays_unlisted [OF this, of 7 1 "\<lambda>_ _. True" all_products] have
    "7 \<notin> fst ` set (fst (search_products (\<lambda>_ _. True) 1 released_lamps all_products))"
    by (simp add: hide_action_def in_window_def days_def)
  ultimately show ?thesis by blast
qed

text \<open>
  After a favorite command the product's metric is the recount of its relation rows, the
  command's favorite is as asked, and every other favorite is untouched.
\<close>

theorem favorite_command_exact:
  assumes "metrics_ok d" "set_favorite now u p active d = Inr (m, d')"
  shows "m = product_counts p d' \<and> metric_current p d' \<and> favorited u p d' = active \<and>
    (\<forall>u' p'. (u', p') \<noteq> (u, p) \<longrightarrow> favorited u' p' d' = favorited u' p' d)"
proof -
  let ?w = "with_favorite now u p active d"
  from recompute_current [OF _ set_favorite_elim [OF assms(2)]] assms(1) have
    r: "m = product_counts p ?w" "metric_current p d'" and d': "d' = ?w\<lparr>product_metrics := product_metrics d'\<rparr>"
    by (simp_all add: with_favorite_metrics)
  have "product_counts p d' = m" using r(1) by (subst d') (simp add: product_counts_metrics)
  moreover have fav: "favorited u' p' d' = favorited u' p' ?w" for u' p'
    by (subst d') (simp add: favorited_def)
  moreover have "favorited u' p' ?w = favorited u' p' d" if ne: "(u', p') \<noteq> (u, p)" for u' p'
  proof -
    from ne have q: "(is_favorite u' p' k f \<and> \<not> is_favorite u p k f) = is_favorite u' p' k f" for k f
      by (auto simp: is_favorite_def)
    have "texists (is_favorite u' p') (tdelete (is_favorite u p) (favorites d)) = texists (is_favorite u' p') (favorites d)"
      unfolding texists_tdelete by (simp add: q)
    moreover from ne have "\<not> is_favorite u' p' k \<lparr>favorite_user_id = u, favorite_product_id = p, favorite_created_at = now\<rparr>" for k
      by (auto simp: is_favorite_def)
    ultimately show ?thesis
      by (simp add: with_favorite_def favorited_def texists_tcreate)
  qed
  ultimately show ?thesis using r by (auto simp: with_favorite_state)
qed

theorem favorite_command_exact_witness:
  "\<exists>m d'. set_favorite 5 2 7 True lamps = Inr (m, d') \<and> metric_favorite_count m = 1 \<and> favorited 2 7 d'"
proof -
  have "\<exists>m d'. set_favorite 5 2 7 True lamps = Inr (m, d') \<and> metric_favorite_count m = 1"
    by (simp add: set_favorite_def lamps_def texists_def tget_def recompute_product_metric_def Let_def
        metric_of_def empty_db_def empty_table_def tfirst_def product_counts_def tcount_def tselect_def tcreate_def)
  then obtain m d' where "set_favorite 5 2 7 True lamps = Inr (m, d')" "metric_favorite_count m = 1" by blast
  with favorite_command_exact [OF lamps_wf(3) this(1)] show ?thesis by blast
qed

text \<open>
  Repeating a favorite command, at any times, has the effect of sending it at most once,
  metric included.
\<close>

theorem favorite_at_most_once:
  assumes "metrics_ok d"
  shows "favorite.deliver ts c d = d \<or> (\<exists>t \<in> set ts. \<exists>r. favorite_exec t c d = Inr (r, favorite.deliver ts c d))"
  by (rule favorite.deliver_at_most_once [OF assms])

theorem favorite_at_most_once_witness:
  "favorite.deliver [5, 6] \<lparr>fc_user = 2, fc_product = 7, fc_active = True\<rparr> lamps = lamps \<or>
    (\<exists>t \<in> set [5, 6]. \<exists>r. favorite_exec t \<lparr>fc_user = 2, fc_product = 7, fc_active = True\<rparr> lamps =
      Inr (r, favorite.deliver [5, 6] \<lparr>fc_user = 2, fc_product = 7, fc_active = True\<rparr> lamps))"
  by (rule favorite_at_most_once [OF lamps_wf(3)])



end
