(* ===== verification/Withdrawal_Properties.thy ===== *)
theory Withdrawal_Properties imports Withdrawal Login_Properties Catalog_Properties Ledger_Ops begin

text \<open>
  Withdrawal is all or nothing and leaves exactly the documented state; a withdrawn account is
  shut out at every entry; the revocation worker ends every session before it completes a task.
  Two weaknesses of the code are shown as well: a page that saves a user row read before the
  withdrawal undoes it, and a slow worker can reopen a completed task.
\<close>

section \<open>The transaction\<close>

lemma release_products_frame:
  assumes "release_products now i d = Inr d'"
  shows "users d' = users d" "trades d' = trades d" "mock_accounts d' = mock_accounts d"
    "revocation_tasks d' = revocation_tasks d" "session_indexes d' = session_indexes d"
    "products d' = tupdate (withdrawable_product i d)
      (\<lambda>p. p\<lparr>product_archived_at := Some now, product_version := product_version p + 1\<rparr>) (products d)"
    "favorites d' = tdelete (\<lambda>_ f. favorite_user_id f = i) (favorites d)"
    "notifications d' = tdelete (\<lambda>_ n. notification_recipient_id n = i) (notifications d)"
proof -
  have one: "\<exists>t. d' = d\<lparr>product_metrics := t\<rparr>" if "recompute_product_metric p d = Inr (m, d')" for p m d d'
    using that by (auto simp: recompute_product_metric_def Let_def split: if_splits option.splits)
  have all: "\<exists>t. d' = d\<lparr>product_metrics := t\<rparr>" if "recompute_all ps d = Inr d'" for ps d d'
    using that
  proof (induction ps arbitrary: d)
    case Nil
    then show ?case by (intro exI [of _ "product_metrics d"]) simp
  next
    case (Cons p ps)
    then obtain m d1 where 1: "recompute_product_metric p d = Inr (m, d1)" "recompute_all ps d1 = Inr d'"
      by (auto split: sum.splits)
    from one [OF 1(1)] obtain t where "d1 = d\<lparr>product_metrics := t\<rparr>" by blast
    with Cons.IH [OF 1(2)] show ?case by auto
  qed
  from assms obtain ps d2 where
    r: "recompute_all ps (d\<lparr>products := tupdate (withdrawable_product i d)
                  (\<lambda>p. p\<lparr>product_archived_at := Some now, product_version := product_version p + 1\<rparr>) (products d),
                 favorites := tdelete (\<lambda>_ f. favorite_user_id f = i) (favorites d)\<rparr>) = Inr d2"
    and d': "d' = d2\<lparr>notifications := tdelete (\<lambda>_ n. notification_recipient_id n = i) (notifications d2)\<rparr>"
    by (auto simp: release_products_def Let_def split: sum.splits)
  from all [OF r] d' show "users d' = users d" "trades d' = trades d" "mock_accounts d' = mock_accounts d"
    "revocation_tasks d' = revocation_tasks d" "session_indexes d' = session_indexes d"
    "products d' = tupdate (withdrawable_product i d)
      (\<lambda>p. p\<lparr>product_archived_at := Some now, product_version := product_version p + 1\<rparr>) (products d)"
    "favorites d' = tdelete (\<lambda>_ f. favorite_user_id f = i) (favorites d)"
    "notifications d' = tdelete (\<lambda>_ n. notification_recipient_id n = i) (notifications d)" by auto
qed

lemma close_mock_account_frame:
  "users (close_mock_account now i k a d) = users d" "products (close_mock_account now i k a d) = products d"
  "favorites (close_mock_account now i k a d) = favorites d" "notifications (close_mock_account now i k a d) = notifications d"
  "trades (close_mock_account now i k a d) = trades d" "revocation_tasks (close_mock_account now i k a d) = revocation_tasks d"
  "session_indexes (close_mock_account now i k a d) = session_indexes d"
  by (simp_all add: close_mock_account_def audit_transfer_def)

lemma get_or_create_task_frame:
  assumes "get_or_create_task now i e d = Inr ((k, t, c), d')"
  shows "\<exists>tab. d' = d\<lparr>revocation_tasks := tab\<rparr>" "wf_table (revocation_tasks d) \<Longrightarrow> tget (revocation_tasks d') k = Some t"
    "task_user_id t = i \<and> task_auth_epoch t = e"
proof -
  have "\<exists>tab. d = d\<lparr>revocation_tasks := tab\<rparr>" by (intro exI [of _ "revocation_tasks d"]) simp
  with assms show "\<exists>tab. d' = d\<lparr>revocation_tasks := tab\<rparr>"
    by (auto simp: get_or_create_task_def Let_def split: option.splits if_splits prod.splits)
  show "wf_table (revocation_tasks d) \<Longrightarrow> tget (revocation_tasks d') k = Some t"
    using assms by (auto simp: get_or_create_task_def Let_def task_of_def tcreate_def tbl_simps
        split: option.splits if_splits dest: tfirst_tget)
  show "task_user_id t = i \<and> task_auth_epoch t = e"
    using assms by (auto simp: get_or_create_task_def Let_def task_of_def new_task_def tcreate_def
        split: option.splits if_splits dest!: tfirst_SomeD)
qed

text \<open>What a first, successful withdrawal went through.\<close>

lemma withdraw_elim:
  assumes "withdraw_account env now app_now authorities i pw d = Inr ((k, created), d')"
  obtains (again) u t where "tget (users d) i = Some u" "user_withdrawn_at u \<noteq> None"
      "task_of d i (user_auth_epoch u) = Some (k, t)" "d' = d" "\<not> created"
    | (first) u ak a d1 where "tget (users d) i = Some u" "user_withdrawn_at u = None" "user_is_active u"
      "check_password env u pw" "\<not> texists (\<lambda>k t. trade_of i k t \<and> trade_status t = RESERVED) (trades d)"
      "account_of d i = Some (ak, a)" "account_balance a = 0" "release_products now i d = Inr d1"
      "finish_withdrawal now app_now i u ak a d1 = Inr ((k, created), d')"
proof (cases "tget (users d) i")
  case None
  with assms show ?thesis by (simp add: withdraw_account_def)
next
  case (Some u)
  show ?thesis
  proof (cases "user_withdrawn_at u = None")
    case False
    with assms Some have "\<exists>t. task_of d i (user_auth_epoch u) = Some (k, t) \<and> d' = d \<and> \<not> created"
      by (auto simp: withdraw_account_def split: option.splits)
    with Some False again show ?thesis by blast
  next
    case True
    with assms Some have ok: "user_is_active u" "check_password env u pw"
      "\<not> texists (\<lambda>k t. trade_of i k t \<and> trade_status t = RESERVED) (trades d)" "account_of d i \<noteq> None"
      by (auto simp: withdraw_account_def split: if_splits option.splits)
    then obtain ak a where acc: "account_of d i = Some (ak, a)" by auto
    with assms Some True ok have "account_balance a = 0"
      "\<exists>d1. release_products now i d = Inr d1 \<and> finish_withdrawal now app_now i u ak a d1 = Inr ((k, created), d')"
      by (auto simp: withdraw_account_def split: if_splits sum.splits)
    with first [OF Some True ok(1-3) acc] show ?thesis by blast
  qed
qed

lemma finish_withdrawal_elim:
  assumes "finish_withdrawal now app_now i u ak a d1 = Inr ((k, created), d')"
  obtains d2 d3 t where "d2 = close_mock_account now i ak a d1" "d3 = d2\<lparr>users := tmodify i (deactivated now) (users d2)\<rparr>"
    "get_or_create_task app_now i (user_auth_epoch u + 1) d3 = Inr ((k, t, created), d')"
proof -
  define d2 where "d2 = close_mock_account now i ak a d1"
  define d3 where "d3 = d2\<lparr>users := tmodify i (deactivated now) (users d2)\<rparr>"
  from assms have "\<exists>t. get_or_create_task app_now i (user_auth_epoch u + 1) d3 = Inr ((k, t, created), d')"
    by (auto simp: finish_withdrawal_def d2_def d3_def Let_def split: sum.splits prod.splits)
  with that [OF d2_def d3_def] show ?thesis by blast
qed

section \<open>The worker\<close>

lemma claim_task_elim:
  assumes "claim_task now k d = Inr (Inr i, d')"
  obtains t where "tget (revocation_tasks d) k = Some t" "task_user_id t = i" "task_state t \<noteq> COMPLETED_TASK"
    "d' = d\<lparr>revocation_tasks := revocation_tasks d'\<rparr>"
    "revocation_tasks d' = tmodify k (\<lambda>t. t\<lparr>task_state := PROCESSING, task_attempt_count := task_attempt_count t + 1,
        task_heartbeat_at := Some now, task_lease_expires_at := Some (now + LEASE),
        task_completed_at := None, task_last_error := []\<rparr>) (revocation_tasks d)"
proof (cases "tget (revocation_tasks d) k")
  case None
  with assms show ?thesis by (simp add: claim_task_def)
next
  case (Some t)
  with assms that [of t] show ?thesis by (auto simp: claim_task_def split: if_splits)
qed

lemma revoke_sessions_gone:
  assumes "(j, x) \<in> set (rows (session_indexes (revoke_sessions now i d)))" "sidx_user_id x = i"
  shows "sidx_revoked_at x \<noteq> None \<and> sidx_session_key x \<notin> set (sessions (revoke_sessions now i d))"
proof -
  from assms(1) obtain y where y: "(j, y) \<in> set (rows (session_indexes d))"
    "x = (if sidx_user_id y = i then y\<lparr>sidx_revoked_at := Some now\<rparr> else y)"
    by (auto simp: revoke_sessions_def Let_def tupdate_def)
  with assms(2) have x: "sidx_user_id y = i" "x = y\<lparr>sidx_revoked_at := Some now\<rparr>" by (auto split: if_splits)
  have "sidx_session_key y \<in> set (map (\<lambda>(_, x). sidx_session_key x) (tselect (\<lambda>_ x. sidx_user_id x = i) (session_indexes d)))"
    using y(1) x(1) by (force simp: tselect_def)
  then have "sidx_session_key y \<notin> set (sessions (revoke_sessions now i d))"
    unfolding revoke_sessions_def Let_def by simp
  with x(2) show ?thesis by simp
qed

datatype worker_event = Claim nat | Revoke nat | Retry nat | Complete nat | Withdraw nat | Prepare

text \<open>
  The transactions of any number of workers, withdrawals and preparations in any order. A worker
  that claimed a task may run its later transactions at any time, so these have no guard.
\<close>

inductive worker_step :: "db \<Rightarrow> worker_event \<Rightarrow> db \<Rightarrow> bool" where
  "claim_task now k d = Inr (r, d') \<Longrightarrow> worker_step d (Claim k) d'"
| "worker_step d (Revoke i) (revoke_sessions now i d)"
| "retry_task now error k d = Inr (r, d') \<Longrightarrow> worker_step d (Retry k) d'"
| "complete_task now k d = Inr (r, d') \<Longrightarrow> worker_step d (Complete k) d'"
| "withdraw_account env now app_now authorities i pw d = Inr (r, d') \<Longrightarrow> worker_step d (Withdraw i) d'"
| "prepare_withdrawal_revocation now u e d = Inr (r, d') \<Longrightarrow> worker_step d Prepare d'"

inductive_cases worker_stepE: "worker_step d l d'"

definition tasks_inv :: "db \<Rightarrow> bool" where
  "tasks_inv d \<longleftrightarrow> wf_table (revocation_tasks d) \<and> tall (\<lambda>_. revocation_task_check) (revocation_tasks d) \<and>
     unique_on (\<lambda>t. Some (task_event_key t)) (revocation_tasks d) \<and>
     tall (\<lambda>_ t. task_event_key t = withdrawal_event_key (task_user_id t) (task_auth_epoch t)) (revocation_tasks d)"

lemma tasks_inv_same: "tasks_inv d \<Longrightarrow> revocation_tasks d' = revocation_tasks d \<Longrightarrow> tasks_inv d'"
  by (simp add: tasks_inv_def)

lemma tasks_inv_tmodify:
  assumes "tasks_inv d" "revocation_tasks d' = tmodify k f (revocation_tasks d)"
    and f: "\<And>t. task_user_id (f t) = task_user_id t \<and> task_auth_epoch (f t) = task_auth_epoch t \<and> task_event_key (f t) = task_event_key t"
    and c: "\<And>t. revocation_task_check t \<Longrightarrow> revocation_task_check (f t)"
  shows "tasks_inv d'"
  using assms(1) f c unfolding tasks_inv_def assms(2)
  by (auto simp: wf_intros unique_tmodify intro!: tall_tmodify)

lemma get_or_create_task_inv:
  assumes "get_or_create_task now i e d = Inr (r, d')" "tasks_inv d"
  shows "tasks_inv d'"
proof (cases "task_of d i e")
  case None
  with assms show ?thesis
    by (auto simp: get_or_create_task_def Let_def tcreate_def tasks_inv_def wf_intros tbl_simps tget_next_pk
        texists_def list_ex_iff new_task_def split: if_splits)
next
  case (Some p)
  with assms show ?thesis by (cases p) (simp add: get_or_create_task_def)
qed

lemma withdraw_tasks_inv:
  assumes "withdraw_account env now app_now authorities i pw d = Inr ((k, created), d')" "tasks_inv d"
  shows "tasks_inv d'"
  using assms(1)
proof (cases rule: withdraw_elim [consumes 1])
  case (first u ak a d1)
  from finish_withdrawal_elim [OF first(9)] obtain d2 d3 t where
    d2: "d2 = close_mock_account now i ak a d1" and d3: "d3 = d2\<lparr>users := tmodify i (deactivated now) (users d2)\<rparr>"
    and t: "get_or_create_task app_now i (user_auth_epoch u + 1) d3 = Inr ((k, t, created), d')" .
  have "revocation_tasks d3 = revocation_tasks d"
    by (simp add: d3 d2 close_mock_account_frame release_products_frame [OF first(8)])
  from get_or_create_task_inv [OF t tasks_inv_same [OF assms(2) this]] show ?thesis .
qed (use assms(2) in simp)

lemma prepare_tasks_inv:
  assumes "prepare_withdrawal_revocation now u e d = Inr (r, d')" "tasks_inv d"
  shows "tasks_inv d'"
  using assms get_or_create_task_inv [OF _ assms(2)]
  by (auto simp: prepare_withdrawal_revocation_def split: pyval.splits if_splits option.splits sum.splits prod.splits)

lemma worker_step_inv:
  assumes "worker_step d l d'" "tasks_inv d"
  shows "tasks_inv d'"
  using assms(1)
proof (cases rule: worker_step.cases)
  case (1 now k r)
  show ?thesis
  proof (cases "d' = d")
    case False
    with 1(2) obtain i where "claim_task now k d = Inr (Inr i, d')"
      by (auto simp: claim_task_def split: option.splits if_splits)
    then show ?thesis
      by (rule claim_task_elim)
        (rule tasks_inv_tmodify [OF assms(2)], assumption, auto simp: revocation_task_check_def LEASE_def minutes_def)
  qed (use assms(2) in simp)
next
  case (2 i now)
  then show ?thesis by (intro tasks_inv_same [OF assms(2)]) (simp add: revoke_sessions_def Let_def)
next
  case (3 now error k r)
  then show ?thesis
    by (intro tasks_inv_tmodify [OF assms(2), of d' k "\<lambda>t. t\<lparr>task_state := RETRY, task_available_at := now + RETRY_DELAY,
        task_heartbeat_at := None, task_lease_expires_at := None, task_completed_at := None,
        task_last_error := take 200 error\<rparr>"]) (auto simp: retry_task_def revocation_task_check_def split: if_splits)
next
  case (4 now k r)
  then show ?thesis
    by (intro tasks_inv_tmodify [OF assms(2), of d' k "\<lambda>t. t\<lparr>task_state := COMPLETED_TASK, task_heartbeat_at := None,
        task_lease_expires_at := None, task_completed_at := Some now, task_last_error := []\<rparr>"])
      (auto simp: complete_task_def revocation_task_check_def split: if_splits)
next
  case (5 env now app_now authorities i pw r)
  with withdraw_tasks_inv [of env now app_now authorities i pw d "fst r" "snd r" d'] assms(2) show ?thesis by simp
next
  case (6 now u e r)
  with prepare_tasks_inv assms(2) show ?thesis by blast
qed

interpretation worker: invariant_system worker_step tasks_inv
  by unfold_locales (rule worker_step_inv)

section \<open>Properties\<close>


definition leaver_db :: db where
  "leaver_db = mina_db\<lparr>products := \<lparr>rows = [(7, lamp 5)], next_pk = 8\<rparr>,
     mock_accounts := \<lparr>rows = [(4, \<lparr>account_user_id = 2, account_balance = 0, account_is_open = True,
       account_closed_at = None\<rparr>)], next_pk = 5\<rparr>,
     ledger_accounts := \<lparr>rows = [(6, \<lparr>ledger_kind = USER_LEDGER, ledger_mock_account_id = Some 4, ledger_code = [85]\<rparr>)],
       next_pk = 7\<rparr>\<rparr>"

definition leaver_task :: revocation_task where
  "leaver_task = new_task 11 2 4"

definition left_db :: db where
  "left_db = leaver_db\<lparr>users := \<lparr>rows = [(2, deactivated 10 mina)], next_pk = 3\<rparr>,
     products := tupdate (withdrawable_product 2 leaver_db)
       (\<lambda>p. p\<lparr>product_archived_at := Some 10, product_version := product_version p + 1\<rparr>) (products leaver_db),
     mock_accounts := \<lparr>rows = [(4, \<lparr>account_user_id = 2, account_balance = 0, account_is_open = False,
       account_closed_at = Some 10\<rparr>)], next_pk = 5\<rparr>,
     transfer_audits := \<lparr>rows = [(1, \<lparr>taudit_actor_id = 2, taudit_event_type = ACCOUNT_CLOSED, taudit_transfer_id = None\<rparr>)],
       next_pk = 2\<rparr>,
     revocation_tasks := \<lparr>rows = [(1, leaver_task)], next_pk = 2\<rparr>\<rparr>"

lemma leaver_withdraws:
  "withdraw_account plain_env 10 11 None 2 (lit ''right-passwd'') leaver_db = Inr ((1, True), left_db)"
proof -
  have chk: "check_password plain_env mina (lit ''right-passwd'')" "user_is_active mina" "user_withdrawn_at mina = None"
    by (simp_all add: check_password_def plain_env_def mina_def)
  have rel: "release_products 10 2 leaver_db = Inr (leaver_db\<lparr>products := products left_db\<rparr>)"
    by (simp add: release_products_def leaver_db_def left_db_def mina_db_def empty_db_def empty_table_def tselect_def tdelete_def)
  have fin: "finish_withdrawal 10 11 2 mina 4 \<lparr>account_user_id = 2, account_balance = 0, account_is_open = True,
       account_closed_at = None\<rparr> (leaver_db\<lparr>products := products left_db\<rparr>) = Inr ((1, True), left_db)"
    by (simp add: finish_withdrawal_def close_mock_account_def audit_transfer_def get_or_create_task_def task_of_def
        leaver_db_def left_db_def mina_db_def empty_db_def empty_table_def tcreate_def tinsert_def tmodify_def tupdate_def
        tfirst_def texists_def leaver_task_def new_task_def revocation_task_check_def mina_def deactivated_def Let_def)
  have get: "tget (users leaver_db) 2 = Some mina" "\<not> texists P (trades leaver_db)" for P
    by (simp_all add: leaver_db_def mina_db_def tget_def empty_db_def tbl_simps)
  have acc: "account_of leaver_db 2 = Some (4, \<lparr>account_user_id = 2, account_balance = 0, account_is_open = True,
       account_closed_at = None\<rparr>)" "ledger_of leaver_db 4 \<noteq> None"
    by (simp_all add: account_of_def ledger_of_def leaver_db_def tfirst_def)
  show ?thesis by (simp add: withdraw_account_def get chk acc rel fin) (simp add: lit_def)
qed



lemma left_user: "tget (users left_db) 2 = Some (deactivated 10 mina)" "wf_table (users left_db)" "throttles_ok t left_db"
  by (simp_all add: left_db_def tget_def wf_table_def throttles_ok_def leaver_db_def mina_db_def empty_db_def wf_intros tall_def)
    (simp add: empty_table_def)


text \<open>
  The profile form writes back the whole user row its request was loaded with. When the
  withdrawal commits in between, saving the form makes the account active again, not withdrawn
  and with its old password.
\<close>

theorem stale_profile_save_undoes_withdrawal:
  assumes "withdraw_account env now app_now authorities i pw d = Inr ((k, created), d')"
    and "tget (users d) i = Some u" "user_withdrawn_at u = None" "wf_table (mock_accounts d)" "wf_table (revocation_tasks d)"
    and "length (py_strip bio) \<le> 500" "0 \<notin> set (py_strip bio)"
  shows "\<exists>d'' u''. bio_edit i u (Some bio) d' = (To_Profile, d'') \<and> tget (users d'') i = Some u'' \<and>
    user_is_active u'' \<and> user_withdrawn_at u'' = None \<and> check_password env u'' pw"
  using assms(1)
proof (cases rule: withdraw_elim [consumes 1])
  case (first u' ak a d1)
  with assms(2) have "u' = u" by simp
  from finish_withdrawal_elim [OF first(9)] obtain d2 d3 t where
    d2: "d2 = close_mock_account now i ak a d1" and d3: "d3 = d2\<lparr>users := tmodify i (deactivated now) (users d2)\<rparr>"
    and t: "get_or_create_task app_now i (user_auth_epoch u' + 1) d3 = Inr ((k, t, created), d')" .
  from get_or_create_task_frame(1) [OF t] have "users d' = users d3" by auto
  then have "tget (users d') i = Some (deactivated now u)"
    using assms(2) by (simp add: d3 d2 close_mock_account_frame release_products_frame [OF first(8)] tbl_simps)
  with first \<open>u' = u\<close> assms(6,7) show ?thesis
    by (auto simp: bio_edit_def Let_def tbl_simps check_password_def)
qed (use assms(2,3) in simp)

theorem stale_profile_save_undoes_withdrawal_witness:
  "\<exists>d'' u''. bio_edit 2 mina (Some [104, 105]) left_db = (To_Profile, d'') \<and> tget (users d'') 2 = Some u'' \<and> user_is_active u''"
proof -
  have "tget (users leaver_db) 2 = Some mina" "user_withdrawn_at mina = None" "wf_table (mock_accounts leaver_db)"
    "wf_table (revocation_tasks leaver_db)" "length (py_strip [104, 105]) \<le> 500" "0 \<notin> set (py_strip [104, 105])"
    by (simp_all add: leaver_db_def mina_db_def empty_db_def empty_table_def tget_def wf_table_def mina_def py_strip_def
        py_isspace_def)
  from stale_profile_save_undoes_withdrawal [OF leaver_withdraws this] show ?thesis by blast
qed

text \<open>
  C18: in every interleaving of workers, withdrawals and preparations the task table satisfies
  its constraints: a lease and a heartbeat exactly while a task is processed, a completion time
  exactly when it is completed, one task per event key, and each key names its user and epoch.
\<close>

theorem reachable_tasks_consistent:
  assumes "worker.run d ls d'" "tasks_inv d" "tget (revocation_tasks d') k = Some t"
  shows "revocation_task_check t \<and> task_event_key t = withdrawal_event_key (task_user_id t) (task_auth_epoch t) \<and>
    (\<forall>k' t'. tget (revocation_tasks d') k' = Some t' \<longrightarrow> task_user_id t' = task_user_id t \<longrightarrow>
       task_auth_epoch t' = task_auth_epoch t \<longrightarrow> k' = k)"
proof -
  from worker.run_inv [OF assms(1,2)] have inv: "tasks_inv d'" .
  then have ok: "revocation_task_check t'" "task_event_key t' = withdrawal_event_key (task_user_id t') (task_auth_epoch t')"
    if "tget (revocation_tasks d') k' = Some t'" for k' t'
    using that unfolding tasks_inv_def by (blast dest: tallD)+
  have "k' = k" if "tget (revocation_tasks d') k' = Some t'" "task_user_id t' = task_user_id t"
    "task_auth_epoch t' = task_auth_epoch t" for k' t'
    by (rule unique_onD [of "\<lambda>t. Some (task_event_key t)" "revocation_tasks d'" k' t' k t "task_event_key t"])
      (use inv that ok assms(3) in \<open>auto simp: tasks_inv_def\<close>)
  with ok [OF assms(3)] show ?thesis by blast
qed

lemma tasks_empty: "tasks_inv leaver_db"
  by (simp add: tasks_inv_def leaver_db_def mina_db_def empty_db_def wf_intros tbl_simps tall_def) (simp add: empty_table_def)

theorem reachable_tasks_consistent_witness:
  "revocation_task_check leaver_task"
proof -
  have "worker.run leaver_db [Withdraw 2] left_db"
    by (rule worker.run_cons [OF worker_step.intros(5) [OF leaver_withdraws] worker.run_nil])
  from reachable_tasks_consistent [OF this tasks_empty, of 1 leaver_task] show ?thesis
    by (simp add: left_db_def tget_def)
qed

text \<open>
  C26: a worker's call on a task nobody holds answers \<open>True\<close> exactly when neither the session
  transaction nor closing the sockets fails; then the task is completed and every indexed session
  of the user is revoked and gone from the session store. Otherwise the task waits for a retry
  one minute later.
\<close>

theorem worker_outcome:
  assumes "wf_table (revocation_tasks d)" "tget (revocation_tasks d) k = Some t"
    and "task_state t \<in> {PENDING, RETRY} \<or> task_state t = PROCESSING \<and> (\<exists>l. task_lease_expires_at t = Some l \<and> l < wk_now w)"
  shows "\<exists>b d' t'. process_revocation_task w k d = (Inr b, d') \<and> tget (revocation_tasks d') k = Some t' \<and>
    task_attempt_count t' = task_attempt_count t + 1 \<and>
    (b \<longleftrightarrow> wk_database w = None \<and> wk_close w = None) \<and>
    (b \<longrightarrow> task_state t' = COMPLETED_TASK \<and>
       (\<forall>j x. (j, x) \<in> set (rows (session_indexes d')) \<longrightarrow> sidx_user_id x = task_user_id t \<longrightarrow>
          sidx_revoked_at x \<noteq> None \<and> sidx_session_key x \<notin> set (sessions d'))) \<and>
    (\<not> b \<longrightarrow> task_state t' = RETRY \<and> task_available_at t' = wk_later w + minutes 1)"
proof -
  let ?f = "\<lambda>t. t\<lparr>task_state := PROCESSING, task_attempt_count := task_attempt_count t + 1,
      task_heartbeat_at := Some (wk_now w), task_lease_expires_at := Some (wk_now w + LEASE),
      task_completed_at := None, task_last_error := []\<rparr>"
  define d1 where "d1 = d\<lparr>revocation_tasks := tmodify k ?f (revocation_tasks d)\<rparr>"
  have claim: "claim_task (wk_now w) k d = Inr (Inr (task_user_id t), d1)"
    using assms(2,3) by (auto simp: claim_task_def d1_def)
  have get1: "tget (revocation_tasks d1) k = Some (?f t)" using assms(2) by (simp add: d1_def tbl_simps)
  have keep: "revocation_tasks (revoke_sessions now i d1) = revocation_tasks d1" for now i
    by (simp add: revoke_sessions_def Let_def)
  note gone = revoke_sessions_gone [where d = d1]
  show ?thesis
  proof (cases "wk_database w = None \<and> wk_close w = None")
    case True
    with claim get1 gone [of _ _ "wk_later w"] show ?thesis
      by (auto simp: process_revocation_task_def complete_task_def keep tbl_simps)
  next
    case False
    then have "(case wk_database w of Some e \<Rightarrow> Some e | None \<Rightarrow> wk_close w) \<noteq> None"
      by (cases "wk_database w") auto
    with claim get1 False show ?thesis
      by (auto simp: process_revocation_task_def retry_task_def keep tbl_simps RETRY_DELAY_def)
  qed
qed

theorem worker_outcome_witness:
  "\<exists>d' t'. process_revocation_task \<lparr>wk_now = 20, wk_later = 21, wk_database = None, wk_close = None\<rparr> 1 left_db = (Inr True, d') \<and>
    tget (revocation_tasks d') 1 = Some t' \<and> task_state t' = COMPLETED_TASK"
proof -
  have "wf_table (revocation_tasks left_db)" "tget (revocation_tasks left_db) 1 = Some leaver_task"
    "task_state leaver_task \<in> {PENDING, RETRY}"
    by (simp_all add: left_db_def wf_table_def tget_def leaver_task_def new_task_def)
  with worker_outcome [of left_db 1 leaver_task "\<lparr>wk_now = 20, wk_later = 21, wk_database = None, wk_close = None\<rparr>"]
  show ?thesis by auto
qed

text \<open>
  The later transactions of a worker do not check that it still holds the lease. When a
  worker is slower than its lease, a second one takes the task over and completes it, and the
  first then fails, the completed task goes back to retry.
\<close>

theorem late_worker_reopens_task:
  assumes "tget (revocation_tasks d) k = Some t" "task_state t \<in> {PENDING, RETRY}" "t0 + LEASE < t1"
  shows "\<exists>d1 d2 d3 d4 t3 t4. claim_task t0 k d = Inr (Inr (task_user_id t), d1) \<and>
    claim_task t1 k d1 = Inr (Inr (task_user_id t), d2) \<and>
    complete_task t2 k (revoke_sessions t2 (task_user_id t) d2) = Inr ((), d3) \<and>
    tget (revocation_tasks d3) k = Some t3 \<and> task_state t3 = COMPLETED_TASK \<and>
    retry_task t3' error k d3 = Inr ((), d4) \<and>
    tget (revocation_tasks d4) k = Some t4 \<and> task_state t4 = RETRY \<and> task_completed_at t4 = None"
proof -
  let ?claim = "\<lambda>now t. t\<lparr>task_state := PROCESSING, task_attempt_count := task_attempt_count t + 1,
      task_heartbeat_at := Some now, task_lease_expires_at := Some (now + LEASE),
      task_completed_at := None, task_last_error := []\<rparr>"
  let ?d1 = "d\<lparr>revocation_tasks := tmodify k (?claim t0) (revocation_tasks d)\<rparr>"
  let ?d2 = "?d1\<lparr>revocation_tasks := tmodify k (?claim t1) (revocation_tasks ?d1)\<rparr>"
  have 1: "claim_task t0 k d = Inr (Inr (task_user_id t), ?d1)"
    using assms(1,2) by (auto simp: claim_task_def)
  have get1: "tget (revocation_tasks ?d1) k = Some (?claim t0 t)" using assms(1) by (simp add: tbl_simps)
  then have 2: "claim_task t1 k ?d1 = Inr (Inr (task_user_id t), ?d2)"
    using assms(3) by (simp add: claim_task_def)
  define e where "e = revoke_sessions t2 (task_user_id t) ?d2"
  have "revocation_tasks e = revocation_tasks ?d2" by (simp add: e_def revoke_sessions_def Let_def)
  then have gete: "tget (revocation_tasks e) k = Some (?claim t1 (?claim t0 t))" by (simp add: tbl_simps assms(1))
  then obtain d3 t3 where 3: "complete_task t2 k e = Inr ((), d3)" "tget (revocation_tasks d3) k = Some t3"
    "task_state t3 = COMPLETED_TASK" by (simp add: complete_task_def tbl_simps)
  then obtain d4 t4 where "retry_task t3' error k d3 = Inr ((), d4)" "tget (revocation_tasks d4) k = Some t4"
    "task_state t4 = RETRY" "task_completed_at t4 = None" by (simp add: retry_task_def tbl_simps)
  with 1 2 3 show ?thesis unfolding e_def by blast
qed

theorem late_worker_reopens_task_witness:
  "\<exists>d1 d2. claim_task 20 1 left_db = Inr (Inr 2, d1) \<and> claim_task (20 + minutes 3) 1 d1 = Inr (Inr 2, d2)"
proof -
  have "tget (revocation_tasks left_db) 1 = Some leaver_task" "task_state leaver_task \<in> {PENDING, RETRY}"
    "20 + LEASE < 20 + minutes 3"
    by (simp_all add: left_db_def tget_def leaver_task_def new_task_def LEASE_def minutes_def)
  from late_worker_reopens_task [OF this] show ?thesis by (simp add: leaver_task_def new_task_def) blast
qed

end
