(* ===== verification/Management.thy ===== *)
theory Management imports Moderation_Services Trades begin

text \<open>
  Management commands (\<open>moderation/management.py\<close>): scoped sanctions, their release, the scopes of
  staff members and the visibility of reviews. Every command has two layers, as in the code: the
  authority, one transaction whose refusals roll it back, and the wrapper that audits a refusal in
  a transaction of its own and raises it again. Only \<open>set_review_visibility\<close> has no wrapper.
\<close>

section \<open>Requests\<close>

text \<open>
  \<open>env_nfc\<close> is NFC normalization, \<open>env_perm\<close> Django's \<open>has_perm\<close> on the permissions of the
  moderation app; \<open>env_tnow\<close> is the statement time, \<open>env_cnow\<close> the \<open>clock_timestamp()\<close>.
\<close>

record management_env =
  env_nfc :: "pystr \<Rightarrow> pystr"
  env_perm :: "nat \<Rightarrow> scope_codename \<Rightarrow> bool"
  env_tnow :: instant
  env_cnow :: instant

text \<open>The acting user, as loaded with the request, and the time of the last reauthentication (aware or none).\<close>

record manager =
  mgr_id :: nat
  mgr_user :: user
  mgr_reauthenticated_at :: "instant option"

definition normalize_management_reason :: "(pystr \<Rightarrow> pystr) \<Rightarrow> pystr \<Rightarrow> pystr result" where
  "normalize_management_reason nfc reason =
     (let normalized = nfc (py_strip reason) in
      if \<not> (10 \<le> length normalized \<and> length normalized \<le> 500) then Inl ManagementError
      else if list_ex (\<lambda>c. c < 32 \<or> 127 \<le> c \<and> c \<le> 159) normalized then Inl ManagementError
      else Inr normalized)"

definition REAUTH_WINDOW :: int where "REAUTH_WINDOW = seconds 300"

definition require_reauthentication :: "management_env \<Rightarrow> manager \<Rightarrow> unit result" where
  "require_reauthentication env m =
     (case mgr_reauthenticated_at m of
        None \<Rightarrow> Inl ManagementError
      | Some at \<Rightarrow>
          let age = env_cnow env - at in
          if age < 0 \<or> age > REAUTH_WINDOW then Inl ManagementError else Inr ())"

text \<open>
  \<open>_audit\<close>: whatever fails becomes \<open>ManagementUnavailable\<close>. The column \<open>target_id\<close> is a
  \<open>PositiveBigIntegerField\<close>.
\<close>

definition BIG_ID :: nat where "BIG_ID = 9223372036854775807"

definition write_audit :: "admin_audit \<Rightarrow> db \<Rightarrow> exn + db" where
  "write_audit a d =
     (if audit_target_id a > BIG_ID then Inl ManagementUnavailable
      else Inr (d\<lparr>admin_audits := snd (tcreate a (admin_audits d))\<rparr>))"

text \<open>The row of a success, a conflict (\<open>after\<close> is \<open>before\<close>) and a denial.\<close>

definition success_row ::
    "management_env \<Rightarrow> manager \<Rightarrow> audit_action \<Rightarrow> audit_target \<Rightarrow> nat \<Rightarrow> pystr \<Rightarrow> audit_snapshot \<Rightarrow> audit_snapshot \<Rightarrow>
     admin_audit" where
  "success_row env m act tt target_id reason before after =
     \<lparr>audit_actor_id = mgr_id m, audit_action = act, audit_target_type = tt, audit_target_id = target_id,
      audit_reason = reason, audit_before = before, audit_after = after, audit_result = SUCCESS,
      audit_created_at = env_tnow env\<rparr>"

definition conflict_row ::
    "management_env \<Rightarrow> manager \<Rightarrow> audit_action \<Rightarrow> audit_target \<Rightarrow> nat \<Rightarrow> pystr \<Rightarrow> audit_snapshot \<Rightarrow> admin_audit" where
  "conflict_row env m act tt target_id reason before =
     \<lparr>audit_actor_id = mgr_id m, audit_action = act, audit_target_type = tt, audit_target_id = target_id,
      audit_reason = reason, audit_before = before, audit_after = before, audit_result = CONFLICT,
      audit_created_at = env_tnow env\<rparr>"

definition denial_row ::
    "management_env \<Rightarrow> manager \<Rightarrow> audit_action \<Rightarrow> audit_target \<Rightarrow> nat \<Rightarrow> pystr \<Rightarrow> admin_audit" where
  "denial_row env m act tt target_id reason =
     \<lparr>audit_actor_id = mgr_id m, audit_action = act, audit_target_type = tt, audit_target_id = target_id,
      audit_reason = reason, audit_before = Empty_Snapshot, audit_after = Empty_Snapshot,
      audit_result = DENIED, audit_created_at = env_tnow env\<rparr>"

text \<open>A conflict inside a transaction: the row is written, then the raise rolls it back.\<close>

definition conflict_in_tx :: "admin_audit \<Rightarrow> db \<Rightarrow> exn" where
  "conflict_in_tx a d = (case write_audit a d of Inl e \<Rightarrow> e | Inr _ \<Rightarrow> ManagementConflict)"

section \<open>Scopes\<close>

text \<open>\<open>_target_filter\<close> on grants and on moderation actions.\<close>

fun grant_targets :: "target_type \<Rightarrow> nat \<Rightarrow> admin_scope_grant \<Rightarrow> bool" where
  "grant_targets USER i g \<longleftrightarrow> grant_target_user_id g = Some i"
| "grant_targets PRODUCT i g \<longleftrightarrow> grant_target_product_id g = Some i"
| "grant_targets REVIEW i g \<longleftrightarrow> grant_target_review_id g = Some i"

fun audit_target_of :: "target_type \<Rightarrow> audit_target" where
  "audit_target_of USER = USER_TARGET"
| "audit_target_of PRODUCT = PRODUCT_TARGET"
| "audit_target_of REVIEW = REVIEW_TARGET"

definition live_scope :: "nat \<Rightarrow> scope_codename \<Rightarrow> target_type \<Rightarrow> nat \<Rightarrow> admin_scope_grant \<Rightarrow> bool" where
  "live_scope staff codename tt i g \<longleftrightarrow>
     grant_staff_id g = staff \<and> grant_codename g = codename \<and> grant_revoked_at g = None \<and> grant_targets tt i g"

definition require_scope ::
    "management_env \<Rightarrow> manager \<Rightarrow> scope_codename \<Rightarrow> target_type \<Rightarrow> nat \<Rightarrow> db \<Rightarrow> nat result" where
  "require_scope env m codename tt target_id d =
     (if \<not> user_is_active (mgr_user m) \<or> \<not> user_is_staff (mgr_user m) \<or> \<not> env_perm env (mgr_id m) codename
      then Inl ManagementDenied
      else case tfirst (\<lambda>_ g. live_scope (mgr_id m) codename tt target_id g) (admin_scope_grants d) of
        None \<Rightarrow> Inl ManagementNotFound
      | Some (k, _) \<Rightarrow> Inr k)"

definition has_direct_meta_permission :: "manager \<Rightarrow> db \<Rightarrow> bool" where
  "has_direct_meta_permission m d \<longleftrightarrow>
     user_is_active (mgr_user m) \<and> user_is_staff (mgr_user m) \<and> user_is_superuser (mgr_user m) \<and>
     texists (\<lambda>k u. k = mgr_id m \<and> user_meta_permission u) (users d)"

text \<open>The check and the three partial unique constraints of \<open>AdminScopeGrant\<close>.\<close>

definition grant_check :: "admin_scope_grant \<Rightarrow> bool" where
  "grant_check g \<longleftrightarrow>
     grant_target_user_id g \<noteq> None \<and> grant_target_product_id g = None \<and> grant_target_review_id g = None \<or>
     grant_target_user_id g = None \<and> grant_target_product_id g \<noteq> None \<and> grant_target_review_id g = None \<or>
     grant_target_user_id g = None \<and> grant_target_product_id g = None \<and> grant_target_review_id g \<noteq> None"

definition same_scope :: "admin_scope_grant \<Rightarrow> admin_scope_grant \<Rightarrow> bool" where
  "same_scope g h \<longleftrightarrow>
     grant_revoked_at g = None \<and> grant_revoked_at h = None \<and>
     grant_staff_id g = grant_staff_id h \<and> grant_codename g = grant_codename h \<and>
     (grant_target_user_id g \<noteq> None \<and> grant_target_user_id g = grant_target_user_id h \<or>
      grant_target_product_id g \<noteq> None \<and> grant_target_product_id g = grant_target_product_id h \<or>
      grant_target_review_id g \<noteq> None \<and> grant_target_review_id g = grant_target_review_id h)"

definition create_grant :: "admin_scope_grant \<Rightarrow> db \<Rightarrow> exn + (nat \<times> db)" where
  "create_grant g d =
     (if \<not> grant_check g \<or> texists (\<lambda>_ h. same_scope g h) (admin_scope_grants d) then Inl IntegrityError
      else let (k, t) = tcreate g (admin_scope_grants d) in Inr (k, d\<lparr>admin_scope_grants := t\<rparr>))"

section \<open>Sanctions\<close>

text \<open>The version a sanction request must name: the user's \<open>auth_epoch\<close> or the product's \<open>version\<close>.\<close>

fun sanction_version :: "target_type \<Rightarrow> nat \<Rightarrow> db \<Rightarrow> nat option" where
  "sanction_version USER i d = map_option user_auth_epoch (tget (users d) i)"
| "sanction_version PRODUCT i d = map_option product_version (tget (products d) i)"
| "sanction_version REVIEW i d = None"

definition sanction_kind :: "target_type \<Rightarrow> action_kind" where
  "sanction_kind tt = (if tt = USER then USER_DORMANCY else PRODUCT_HIDE)"

definition active_sanction :: "instant \<Rightarrow> target_type \<Rightarrow> nat \<Rightarrow> db \<Rightarrow> (nat \<times> moderation_action) option" where
  "active_sanction now tt i d =
     tfirst (\<lambda>k a. action_kind a = sanction_kind tt \<and> active_actions now d k a \<and> targets tt i a)
       (moderation_actions d)"

definition impose_sanction ::
    "management_env \<Rightarrow> manager \<Rightarrow> target_type \<Rightarrow> nat \<Rightarrow> pystr \<Rightarrow> nat \<Rightarrow> db \<Rightarrow> exn + ((nat \<times> bool) \<times> db)" where
  "impose_sanction env m tt i reason current d =
     (case create_moderation_action
        \<lparr>action_kind = sanction_kind tt,
         action_target_user_id = (if tt = USER then Some i else None),
         action_target_product_id = (if tt = USER then None else Some i),
         action_starts_at = env_cnow env, action_expires_at = env_cnow env + days 7\<rparr> d of
        Inl e \<Rightarrow> Inl e
      | Inr (action, d1) \<Rightarrow>
          (case write_audit (success_row env m APPLY (audit_target_of tt) i reason
                  (Sanction_Version False current) (Sanction_Active True action)) d1 of
             Inl e \<Rightarrow> Inl e
           | Inr d2 \<Rightarrow> Inr ((action, True), d2)))"

definition apply_sanction_authority ::
    "management_env \<Rightarrow> manager \<Rightarrow> target_type option \<Rightarrow> nat \<Rightarrow> pystr \<Rightarrow> nat \<Rightarrow> (nat \<times> bool, db) tx" where
  "apply_sanction_authority env m target i reason version d =
     (case normalize_management_reason (env_nfc env) reason of Inl e \<Rightarrow> Inl e | Inr r \<Rightarrow>
     (case target of None \<Rightarrow> Inl ManagementError | Some tt \<Rightarrow>
      if tt = REVIEW then Inl ManagementError else
     (case require_reauthentication env m of Inl e \<Rightarrow> Inl e | Inr _ \<Rightarrow>
     (case sanction_version tt i d of None \<Rightarrow> Inl ManagementNotFound | Some current \<Rightarrow>
     (case require_scope env m APPLY_SANCTION tt i d of Inl e \<Rightarrow> Inl e | Inr _ \<Rightarrow>
      if version \<noteq> current
      then Inl (conflict_in_tx (conflict_row env m APPLY (audit_target_of tt) i r
                  (Sanction_Version False current)) d)
      else case active_sanction (env_cnow env) tt i d of
        Some (k, _) \<Rightarrow> Inr ((k, False), d)
      | None \<Rightarrow> impose_sanction env m tt i r current d)))))"

text \<open>The target a moderation action names.\<close>

definition action_target :: "moderation_action \<Rightarrow> target_type \<times> nat" where
  "action_target a =
     (case action_target_user_id a of
        Some u \<Rightarrow> (USER, u)
      | None \<Rightarrow> (PRODUCT, the (action_target_product_id a)))"

definition create_release :: "sanction_release \<Rightarrow> db \<Rightarrow> exn + (nat \<times> db)" where
  "create_release r d =
     (if texists (\<lambda>_ x. release_action_id x = release_action_id r) (sanction_releases d) then Inl IntegrityError
      else let (k, t) = tcreate r (sanction_releases d) in Inr (k, d\<lparr>sanction_releases := t\<rparr>))"

definition lift_sanction ::
    "management_env \<Rightarrow> manager \<Rightarrow> target_type \<Rightarrow> nat \<Rightarrow> nat \<Rightarrow> pystr \<Rightarrow> audit_snapshot \<Rightarrow> db \<Rightarrow>
     exn + ((nat \<times> bool) \<times> db)" where
  "lift_sanction env m tt i sanction_id reason before d =
     (case create_release \<lparr>release_action_id = sanction_id, release_actor_id = mgr_id m, release_reason = reason\<rparr> d of
        Inl e \<Rightarrow> Inl e
      | Inr (release, d1) \<Rightarrow>
          (case write_audit (success_row env m RELEASE (audit_target_of tt) i reason before
                  (Sanction_Active False sanction_id)) d1 of
             Inl e \<Rightarrow> Inl e
           | Inr d2 \<Rightarrow> Inr ((release, True), d2)))"

definition release_sanction_authority ::
    "management_env \<Rightarrow> manager \<Rightarrow> nat \<Rightarrow> pystr \<Rightarrow> nat \<Rightarrow> (nat \<times> bool, db) tx" where
  "release_sanction_authority env m sanction_id reason version d =
     (case normalize_management_reason (env_nfc env) reason of Inl e \<Rightarrow> Inl e | Inr r \<Rightarrow>
     (case require_reauthentication env m of Inl e \<Rightarrow> Inl e | Inr _ \<Rightarrow>
     (case tget (moderation_actions d) sanction_id of None \<Rightarrow> Inl ManagementNotFound | Some a \<Rightarrow>
      let (tt, i) = action_target a; before = Sanction_Active (in_window (env_cnow env) a) sanction_id in
     (case require_scope env m RELEASE_SANCTION tt i d of Inl e \<Rightarrow> Inl e | Inr _ \<Rightarrow>
      if version \<noteq> sanction_id
      then Inl (conflict_in_tx (conflict_row env m RELEASE (audit_target_of tt) i r before) d)
      else case tfirst (\<lambda>_ x. release_action_id x = sanction_id) (sanction_releases d) of
        Some (k, _) \<Rightarrow> Inr ((k, False), d)
      | None \<Rightarrow>
          if env_cnow env \<ge> action_expires_at a
          then Inl (conflict_in_tx (conflict_row env m RELEASE (audit_target_of tt) i r before) d)
          else lift_sanction env m tt i sanction_id r before d))))"

section \<open>Scope changes\<close>

fun target_exists :: "target_type \<Rightarrow> nat \<Rightarrow> db \<Rightarrow> bool" where
  "target_exists USER i d \<longleftrightarrow> tget (users d) i \<noteq> None"
| "target_exists PRODUCT i d \<longleftrightarrow> tget (products d) i \<noteq> None"
| "target_exists REVIEW i d \<longleftrightarrow> tget (reviews d) i \<noteq> None"

definition new_grant :: "manager \<Rightarrow> nat \<Rightarrow> scope_codename \<Rightarrow> target_type \<Rightarrow> nat \<Rightarrow> admin_scope_grant" where
  "new_grant m staff codename tt i =
     \<lparr>grant_staff_id = staff, grant_codename = codename,
      grant_target_user_id = (if tt = USER then Some i else None),
      grant_target_product_id = (if tt = PRODUCT then Some i else None),
      grant_target_review_id = (if tt = REVIEW then Some i else None),
      grant_version = 1, grant_granted_by = mgr_id m, grant_revoked_by = None, grant_revoked_at = None\<rparr>"

definition add_grant ::
    "management_env \<Rightarrow> manager \<Rightarrow> nat \<Rightarrow> scope_codename \<Rightarrow> target_type \<Rightarrow> nat \<Rightarrow> pystr \<Rightarrow> db \<Rightarrow>
     exn + ((nat \<times> bool) \<times> db)" where
  "add_grant env m staff codename tt i reason d =
     (case create_grant (new_grant m staff codename tt i) d of
        Inl _ \<Rightarrow> Inl ManagementConflict
      | Inr (grant, d1) \<Rightarrow>
          (case write_audit (success_row env m GRANT (audit_target_of tt) i reason
                  (Staff_Active staff False) (Staff_Granted staff grant)) d1 of
             Inl e \<Rightarrow> Inl e
           | Inr d2 \<Rightarrow> Inr ((grant, True), d2)))"

definition grant_scope_authority ::
    "management_env \<Rightarrow> manager \<Rightarrow> nat \<Rightarrow> scope_codename option \<Rightarrow> target_type option \<Rightarrow> nat \<Rightarrow> pystr \<Rightarrow> nat \<Rightarrow>
     (nat \<times> bool, db) tx" where
  "grant_scope_authority env m staff codename target i reason version d =
     (case normalize_management_reason (env_nfc env) reason of Inl e \<Rightarrow> Inl e | Inr r \<Rightarrow>
     (case (codename, target) of (Some c, Some tt) \<Rightarrow>
       (case require_reauthentication env m of Inl e \<Rightarrow> Inl e | Inr _ \<Rightarrow>
        if \<not> has_direct_meta_permission m d then Inl ManagementDenied else
       (case tget (users d) staff of None \<Rightarrow> Inl ManagementNotFound | Some s \<Rightarrow>
        if \<not> user_is_active s \<or> \<not> user_is_staff s then Inl ManagementNotFound
        else if mgr_id m = staff then Inl ManagementDenied
        else if user_auth_epoch s \<noteq> version
        then Inl (conflict_in_tx (conflict_row env m GRANT (audit_target_of tt) i r
                    (Staff_Version staff (user_auth_epoch s))) d)
        else if \<not> target_exists tt i d then Inl ManagementNotFound
        else add_grant env m staff c tt i r d))
      | _ \<Rightarrow> Inl ManagementError))"

text \<open>The target a grant names.\<close>

definition grant_target :: "admin_scope_grant \<Rightarrow> target_type \<times> nat" where
  "grant_target g =
     (case grant_target_user_id g of
        Some u \<Rightarrow> (USER, u)
      | None \<Rightarrow>
          (case grant_target_product_id g of
             Some p \<Rightarrow> (PRODUCT, p)
           | None \<Rightarrow> (REVIEW, the (grant_target_review_id g))))"

definition end_grant :: "management_env \<Rightarrow> manager \<Rightarrow> nat \<Rightarrow> nat \<Rightarrow> db \<Rightarrow> db" where
  "end_grant env m grant_id staff d =
     d\<lparr>admin_scope_grants := tmodify grant_id
         (\<lambda>g. g\<lparr>grant_revoked_at := Some (env_cnow env), grant_revoked_by := Some (mgr_id m),
                grant_version := grant_version g + 1\<rparr>) (admin_scope_grants d),
       users := tmodify staff bump_auth_epoch (users d)\<rparr>"

definition revoke_scope_authority ::
    "management_env \<Rightarrow> manager \<Rightarrow> nat \<Rightarrow> pystr \<Rightarrow> nat \<Rightarrow> (nat \<times> bool, db) tx" where
  "revoke_scope_authority env m grant_id reason version d =
     (case normalize_management_reason (env_nfc env) reason of Inl e \<Rightarrow> Inl e | Inr r \<Rightarrow>
     (case require_reauthentication env m of Inl e \<Rightarrow> Inl e | Inr _ \<Rightarrow>
      if \<not> has_direct_meta_permission m d then Inl ManagementDenied else
     (case tget (admin_scope_grants d) grant_id of None \<Rightarrow> Inl ManagementNotFound | Some g \<Rightarrow>
      if mgr_id m = grant_staff_id g then Inl ManagementDenied else
      let (tt, i) = grant_target g in
      if grant_version g \<noteq> version
      then Inl (conflict_in_tx (conflict_row env m REVOKE (audit_target_of tt) i r
                  (Grant_Version grant_id (grant_version g))) d)
      else if grant_revoked_at g \<noteq> None then Inr ((grant_id, False), d)
      else case write_audit (success_row env m REVOKE (audit_target_of tt) i r
                  (Grant_Active grant_id True) (Grant_Active grant_id False))
                  (end_grant env m grant_id (grant_staff_id g) d) of
             Inl e \<Rightarrow> Inl e
           | Inr d1 \<Rightarrow> Inr ((grant_id, True), d1))))"

section \<open>The visibility of a review\<close>

definition latest_decision :: "db \<Rightarrow> nat \<Rightarrow> (nat \<times> review_visibility_action) option" where
  "latest_decision d review_id =
     latest (tselect (\<lambda>_ a. visibility_review_id a = review_id) (visibility_actions d))"

fun visibility_codename :: "visibility_kind \<Rightarrow> scope_codename" where
  "visibility_codename HIDE = HIDE_REVIEW"
| "visibility_codename RESTORE = RESTORE_REVIEW"

fun visibility_audit_action :: "visibility_kind \<Rightarrow> audit_action" where
  "visibility_audit_action HIDE = HIDE_ACTION"
| "visibility_audit_action RESTORE = RESTORE_ACTION"

definition create_visibility_action :: "review_visibility_action \<Rightarrow> db \<Rightarrow> exn + (nat \<times> db)" where
  "create_visibility_action a d =
     (if visibility_reason a = [] \<or>
         texists (\<lambda>_ x. visibility_idempotency_key x = visibility_idempotency_key a) (visibility_actions d)
      then Inl IntegrityError
      else let (k, t) = tcreate a (visibility_actions d) in Inr (k, d\<lparr>visibility_actions := t\<rparr>))"

definition decide_visibility ::
    "management_env \<Rightarrow> manager \<Rightarrow> nat \<Rightarrow> visibility_kind \<Rightarrow> pystr \<Rightarrow> nat \<Rightarrow> visibility_kind option \<Rightarrow> db \<Rightarrow>
     exn + ((nat \<times> bool) \<times> db)" where
  "decide_visibility env m review_id kind reason key before d =
     (case create_visibility_action
        \<lparr>visibility_review_id = review_id, visibility_actor_id = mgr_id m, visibility_kind = kind,
         visibility_reason = reason, visibility_idempotency_key = key,
         visibility_created_at = env_tnow env\<rparr> d of
        Inl e \<Rightarrow> Inl e
      | Inr (action, d1) \<Rightarrow>
          (case write_audit (success_row env m (visibility_audit_action kind) REVIEW_TARGET review_id reason
                  (Visibility before) (Visibility_Action kind action)) d1 of
             Inl e \<Rightarrow> Inl e
           | Inr d2 \<Rightarrow> Inr ((action, True), d2)))"

definition set_review_visibility_tx ::
    "management_env \<Rightarrow> manager \<Rightarrow> nat \<Rightarrow> visibility_kind \<Rightarrow> pystr \<Rightarrow> nat \<Rightarrow> (nat \<times> bool, db) tx" where
  "set_review_visibility_tx env m review_id kind reason key d =
     (case normalize_management_reason (env_nfc env) reason of Inl e \<Rightarrow> Inl e | Inr r \<Rightarrow>
     (case require_reauthentication env m of Inl e \<Rightarrow> Inl e | Inr _ \<Rightarrow>
     (case tget (reviews d) review_id of None \<Rightarrow> Inl ManagementNotFound | Some _ \<Rightarrow>
     (case require_scope env m (visibility_codename kind) REVIEW review_id d of Inl e \<Rightarrow> Inl e | Inr _ \<Rightarrow>
      if \<not> texists (\<lambda>_ x. report_target_review_id x = Some review_id) (abuse_reports d)
      then Inl ManagementNotFound
      else case tfirst (\<lambda>_ a. visibility_idempotency_key a = key) (visibility_actions d) of
        Some (k, a) \<Rightarrow>
          if visibility_review_id a \<noteq> review_id \<or> visibility_kind a \<noteq> kind then Inl ManagementConflict
          else Inr ((k, False), d)
      | None \<Rightarrow>
          (case latest_decision d review_id of
             Some (k, a) \<Rightarrow>
               if visibility_kind a = kind then Inr ((k, False), d)
               else decide_visibility env m review_id kind r key (Some (visibility_kind a)) d
           | None \<Rightarrow> decide_visibility env m review_id kind r key None d)))))"

definition set_review_visibility ::
    "management_env \<Rightarrow> manager \<Rightarrow> nat \<Rightarrow> visibility_kind \<Rightarrow> pystr \<Rightarrow> nat \<Rightarrow> (nat \<times> bool, db) action" where
  "set_review_visibility env m review_id kind reason key =
     atomic (set_review_visibility_tx env m review_id kind reason key)"

section \<open>The audited commands\<close>

text \<open>
  The except clauses of the wrappers: a conflict and a denial each have their row, written after
  the transaction of the authority is gone; the exception goes on, unless the row cannot be written.
\<close>

definition record_refusal :: "admin_audit \<Rightarrow> exn \<Rightarrow> db \<Rightarrow> (exn + 'a) \<times> db" where
  "record_refusal row e d = (case write_audit row d of Inl e' \<Rightarrow> (Inl e', d) | Inr d1 \<Rightarrow> (Inl e, d1))"

definition audit_refusal :: "admin_audit \<Rightarrow> admin_audit \<Rightarrow> (exn + 'a) \<times> db \<Rightarrow> (exn + 'a) \<times> db" where
  "audit_refusal conflict denial out =
     (case out of
        (Inl e, d) \<Rightarrow>
          if e = ManagementConflict then record_refusal conflict e d
          else if e = ManagementDenied \<or> e = ManagementNotFound then record_refusal denial e d
          else (Inl e, d)
      | (Inr v, d) \<Rightarrow> (Inr v, d))"

text \<open>A target type outside the enumeration is refused before any audit, so \<open>the target\<close> is its value.\<close>

definition apply_sanction ::
    "management_env \<Rightarrow> manager \<Rightarrow> target_type option \<Rightarrow> nat \<Rightarrow> pystr \<Rightarrow> nat \<Rightarrow> (nat \<times> bool, db) action" where
  "apply_sanction env m target i reason version d =
     (case normalize_management_reason (env_nfc env) reason of
        Inl e \<Rightarrow> (Inl e, d)
      | Inr r \<Rightarrow>
          audit_refusal
            (conflict_row env m APPLY (audit_target_of (the target)) i r (Version_Only version))
            (denial_row env m APPLY (audit_target_of (the target)) i r)
            (atomic (apply_sanction_authority env m target i r version) d))"

text \<open>The target of a refused release is read again outside the transaction.\<close>

definition release_audit_target :: "nat \<Rightarrow> db \<Rightarrow> audit_target \<times> nat" where
  "release_audit_target sanction_id d =
     (case tget (moderation_actions d) sanction_id of
        None \<Rightarrow> (SANCTION_TARGET, sanction_id)
      | Some a \<Rightarrow> map_prod audit_target_of id (action_target a))"

definition release_sanction ::
    "management_env \<Rightarrow> manager \<Rightarrow> nat \<Rightarrow> pystr \<Rightarrow> nat \<Rightarrow> (nat \<times> bool, db) action" where
  "release_sanction env m sanction_id reason version d =
     (case normalize_management_reason (env_nfc env) reason of
        Inl e \<Rightarrow> (Inl e, d)
      | Inr r \<Rightarrow>
          let (tt, i) = release_audit_target sanction_id d in
          audit_refusal
            (conflict_row env m RELEASE tt i r (Sanction_Request sanction_id version))
            (denial_row env m RELEASE tt i r)
            (atomic (release_sanction_authority env m sanction_id r version) d))"

definition grant_scope ::
    "management_env \<Rightarrow> manager \<Rightarrow> nat \<Rightarrow> scope_codename option \<Rightarrow> target_type option \<Rightarrow> nat \<Rightarrow> pystr \<Rightarrow> nat \<Rightarrow>
     (nat \<times> bool, db) action" where
  "grant_scope env m staff codename target i reason version d =
     (case normalize_management_reason (env_nfc env) reason of
        Inl e \<Rightarrow> (Inl e, d)
      | Inr r \<Rightarrow>
          audit_refusal
            (conflict_row env m GRANT (audit_target_of (the target)) i r (Staff_Version staff version))
            (denial_row env m GRANT (audit_target_of (the target)) i r)
            (atomic (grant_scope_authority env m staff codename target i r version) d))"

definition revoke_audit_target :: "nat \<Rightarrow> db \<Rightarrow> audit_target \<times> nat" where
  "revoke_audit_target grant_id d =
     (case tget (admin_scope_grants d) grant_id of
        None \<Rightarrow> (SCOPE_TARGET, grant_id)
      | Some g \<Rightarrow> map_prod audit_target_of id (grant_target g))"

definition revoke_scope ::
    "management_env \<Rightarrow> manager \<Rightarrow> nat \<Rightarrow> pystr \<Rightarrow> nat \<Rightarrow> (nat \<times> bool, db) action" where
  "revoke_scope env m grant_id reason version d =
     (case normalize_management_reason (env_nfc env) reason of
        Inl e \<Rightarrow> (Inl e, d)
      | Inr r \<Rightarrow>
          let (tt, i) = revoke_audit_target grant_id d in
          audit_refusal
            (conflict_row env m REVOKE tt i r (Grant_Version grant_id version))
            (denial_row env m REVOKE tt i r)
            (atomic (revoke_scope_authority env m grant_id r version) d))"

end
