(* ===== verification/Management_Views.thy ===== *)
theory Management_Views imports Management begin

text \<open>
  The HTTP pages of \<open>moderation/management_views.py\<close>: the strict form fields, the numbers, the
  reauthentication time kept in the session and the mapping of the errors to status codes.
\<close>

section \<open>Requests and answers\<close>

text \<open>
  A form as its field-value pairs in order; a repeated field appears twice. \<open>form_get\<close> is
  \<open>request.POST[...]\<close>, the last value. The session value is \<open>None\<close> when it is absent or no text.
\<close>

type_synonym form = "(pystr \<times> pystr) list"

record management_request =
  mreq_actor :: "(nat \<times> user) option"   \<comment> \<open>\<open>None\<close> for an anonymous request\<close>
  mreq_is_post :: bool
  mreq_query_empty :: bool
  mreq_form :: form
  mreq_reauthenticated_at :: "pystr option"

datatype reply = Login_Redirect | Status nat | Named string nat | Server_Failure exn

definition form_get :: "form \<Rightarrow> string \<Rightarrow> pystr" where
  "form_get f name = the (map_of (rev f) (lit name))"

definition strict_post :: "form \<Rightarrow> string list \<Rightarrow> bool" where
  "strict_post f names \<longleftrightarrow>
     set (map fst f) = set (map lit names) \<and>
     list_all (\<lambda>n. length (filter (\<lambda>(k, _). k = lit n) f) = 1) names"

text \<open>Python's \<open>int\<close> refuses texts of more than 4300 digits with a \<open>ValueError\<close>.\<close>

definition MAX_STR_DIGITS :: nat where "MAX_STR_DIGITS = 4300"

definition py_int :: "pystr \<Rightarrow> nat result" where
  "py_int s = (if length s > MAX_STR_DIGITS then Inl ValueError else Inr (undec s))"

definition decimal_text :: "pystr \<Rightarrow> bool" where
  "decimal_text s \<longleftrightarrow> s \<noteq> [] \<and> list_all is_digit s"

definition positive_int :: "pystr \<Rightarrow> nat result" where
  "positive_int raw =
     (if \<not> decimal_text raw \<or> hd raw = 48 then Inl ManagementError
      else case py_int raw of
        Inl e \<Rightarrow> Inl e
      | Inr v \<Rightarrow> if v = 0 then Inl ManagementError else Inr v)"

definition version_text :: "pystr \<Rightarrow> nat result" where
  "version_text raw =
     (if \<not> decimal_text raw \<or> raw \<noteq> [48] \<and> hd raw = 48 then Inl ManagementError else py_int raw)"

text \<open>
  \<open>parse_iso\<close> is \<open>datetime.fromisoformat\<close>: \<open>None\<close> when it raises, \<open>Some None\<close> for a naive time.
\<close>

definition reauthenticated_at :: "(pystr \<Rightarrow> instant option option) \<Rightarrow> management_request \<Rightarrow> instant option result" where
  "reauthenticated_at parse_iso r =
     (case mreq_reauthenticated_at r of
        None \<Rightarrow> Inl ManagementError
      | Some raw \<Rightarrow> (case parse_iso raw of None \<Rightarrow> Inl ManagementError | Some at \<Rightarrow> Inr at))"

definition error_reply :: "exn \<Rightarrow> reply" where
  "error_reply e =
     (if e = ManagementDenied then Status 403
      else if e = ManagementNotFound then Status 404
      else if e = ManagementConflict then Status 409
      else if e = ManagementUnavailable then Status 503
      else if e = ManagementError then Status 400
      else Server_Failure e)"

definition answer :: "string \<Rightarrow> (exn + (nat \<times> bool)) \<times> db \<Rightarrow> reply \<times> db" where
  "answer label out =
     (case out of (Inl e, d) \<Rightarrow> (error_reply e, d) | (Inr (k, _), d) \<Rightarrow> (Named label k, d))"

fun target_named :: "pystr \<Rightarrow> target_type option" where
  "target_named s =
     (if s = lit ''USER'' then Some USER else if s = lit ''PRODUCT'' then Some PRODUCT
      else if s = lit ''REVIEW'' then Some REVIEW else None)"

definition codename_named :: "pystr \<Rightarrow> scope_codename option" where
  "codename_named s =
     map_of [(lit ''view_report'', VIEW_REPORT), (lit ''apply_sanction'', APPLY_SANCTION),
             (lit ''release_sanction'', RELEASE_SANCTION), (lit ''view_admin_audit'', VIEW_ADMIN_AUDIT),
             (lit ''hide_review'', HIDE_REVIEW), (lit ''restore_review'', RESTORE_REVIEW)] s"

text \<open>The decorators \<open>login_required\<close> and \<open>require_POST\<close> and the form check before every command.\<close>

definition posted ::
    "string list \<Rightarrow> management_request \<Rightarrow> ((nat \<times> user) \<Rightarrow> db \<Rightarrow> reply \<times> db) \<Rightarrow> db \<Rightarrow> reply \<times> db" where
  "posted names r body d =
     (case mreq_actor r of
        None \<Rightarrow> (Login_Redirect, d)
      | Some actor \<Rightarrow>
          if \<not> mreq_is_post r then (Status 405, d)
          else if \<not> strict_post (mreq_form r) names then (Status 400, d)
          else body actor d)"

definition manager_of :: "nat \<times> user \<Rightarrow> instant option \<Rightarrow> manager" where
  "manager_of actor at = \<lparr>mgr_id = fst actor, mgr_user = snd actor, mgr_reauthenticated_at = at\<rparr>"

section \<open>The command pages\<close>

text \<open>\<open>upper\<close> is \<open>str.upper\<close>.\<close>

definition sanctions_apply ::
    "management_env \<Rightarrow> (pystr \<Rightarrow> pystr) \<Rightarrow> (pystr \<Rightarrow> instant option option) \<Rightarrow> management_request \<Rightarrow> db \<Rightarrow> reply \<times> db" where
  "sanctions_apply env upper parse_iso r =
     posted [''target_type'', ''target_id'', ''reason'', ''version''] r (\<lambda>actor d.
       let f = mreq_form r; tt = target_named (upper (form_get f ''target_type'')) in
       case positive_int (form_get f ''target_id'') of Inl e \<Rightarrow> (error_reply e, d) | Inr i \<Rightarrow>
       case version_text (form_get f ''version'') of Inl e \<Rightarrow> (error_reply e, d) | Inr v \<Rightarrow>
       case reauthenticated_at parse_iso r of Inl e \<Rightarrow> (error_reply e, d) | Inr at \<Rightarrow>
       answer ''sanction'' (apply_sanction env (manager_of actor at) tt i (form_get f ''reason'') v d))"

definition sanctions_release ::
    "management_env \<Rightarrow> (pystr \<Rightarrow> instant option option) \<Rightarrow> nat \<Rightarrow> management_request \<Rightarrow> db \<Rightarrow> reply \<times> db" where
  "sanctions_release env parse_iso sanction_id r =
     posted [''reason'', ''version''] r (\<lambda>actor d.
       let f = mreq_form r in
       case version_text (form_get f ''version'') of Inl e \<Rightarrow> (error_reply e, d) | Inr v \<Rightarrow>
       case reauthenticated_at parse_iso r of Inl e \<Rightarrow> (error_reply e, d) | Inr at \<Rightarrow>
       answer ''release'' (release_sanction env (manager_of actor at) sanction_id (form_get f ''reason'') v d))"

definition scopes_grant ::
    "management_env \<Rightarrow> (pystr \<Rightarrow> pystr) \<Rightarrow> (pystr \<Rightarrow> instant option option) \<Rightarrow> management_request \<Rightarrow> db \<Rightarrow> reply \<times> db" where
  "scopes_grant env upper parse_iso r =
     posted [''staff_id'', ''codename'', ''target_type'', ''target_id'', ''reason'', ''version''] r (\<lambda>actor d.
       let f = mreq_form r; tt = target_named (upper (form_get f ''target_type''));
           codename = codename_named (form_get f ''codename'') in
       case positive_int (form_get f ''staff_id'') of Inl e \<Rightarrow> (error_reply e, d) | Inr staff \<Rightarrow>
       case positive_int (form_get f ''target_id'') of Inl e \<Rightarrow> (error_reply e, d) | Inr i \<Rightarrow>
       case version_text (form_get f ''version'') of Inl e \<Rightarrow> (error_reply e, d) | Inr v \<Rightarrow>
       case reauthenticated_at parse_iso r of Inl e \<Rightarrow> (error_reply e, d) | Inr at \<Rightarrow>
       answer ''grant'' (grant_scope env (manager_of actor at) staff codename tt i (form_get f ''reason'') v d))"

definition scopes_revoke ::
    "management_env \<Rightarrow> (pystr \<Rightarrow> instant option option) \<Rightarrow> nat \<Rightarrow> management_request \<Rightarrow> db \<Rightarrow> reply \<times> db" where
  "scopes_revoke env parse_iso grant_id r =
     posted [''reason'', ''version''] r (\<lambda>actor d.
       let f = mreq_form r in
       case version_text (form_get f ''version'') of Inl e \<Rightarrow> (error_reply e, d) | Inr v \<Rightarrow>
       case reauthenticated_at parse_iso r of Inl e \<Rightarrow> (error_reply e, d) | Inr at \<Rightarrow>
       answer ''revoke'' (revoke_scope env (manager_of actor at) grant_id (form_get f ''reason'') v d))"

text \<open>\<open>uuid\<close> is Python's \<open>UUID(...)\<close>, \<open>None\<close> when it raises; a \<open>ValueError\<close> is answered like a bad request.\<close>

definition review_visibility ::
    "management_env \<Rightarrow> (pystr \<Rightarrow> nat option) \<Rightarrow> (pystr \<Rightarrow> instant option option) \<Rightarrow> nat \<Rightarrow> management_request \<Rightarrow> db \<Rightarrow>
     reply \<times> db" where
  "review_visibility env uuid parse_iso review_id r =
     posted [''action'', ''reason'', ''idempotency_key''] r (\<lambda>actor d.
       let f = mreq_form r in
       case map_of [(lit ''hide'', HIDE), (lit ''restore'', RESTORE)] (form_get f ''action'') of
         None \<Rightarrow> (Status 400, d)
       | Some kind \<Rightarrow>
           (case uuid (form_get f ''idempotency_key'') of None \<Rightarrow> (Status 400, d) | Some key \<Rightarrow>
           (case reauthenticated_at parse_iso r of Inl e \<Rightarrow> (error_reply e, d) | Inr at \<Rightarrow>
            answer ''review-action''
              (set_review_visibility env (manager_of actor at) review_id kind (form_get f ''reason'') key d))))"

section \<open>The read pages\<close>

text \<open>A page is its status and its rows, newest first and at most a hundred.\<close>

definition staff_with_permission :: "management_env \<Rightarrow> nat \<times> user \<Rightarrow> scope_codename \<Rightarrow> bool" where
  "staff_with_permission env actor codename \<longleftrightarrow>
     user_is_active (snd actor) \<and> user_is_staff (snd actor) \<and> env_perm env (fst actor) codename"

definition live_grants :: "nat \<Rightarrow> scope_codename \<Rightarrow> db \<Rightarrow> admin_scope_grant list" where
  "live_grants staff codename d =
     map snd (tselect (\<lambda>_ g. grant_staff_id g = staff \<and> grant_codename g = codename \<and> grant_revoked_at g = None)
       (admin_scope_grants d))"

definition read_page ::
    "management_env \<Rightarrow> scope_codename \<Rightarrow> management_request \<Rightarrow> (admin_scope_grant list \<Rightarrow> 'a list) \<Rightarrow> db \<Rightarrow> reply + 'a list" where
  "read_page env codename r listed d =
     (case mreq_actor r of
        None \<Rightarrow> Inl Login_Redirect
      | Some actor \<Rightarrow>
          if mreq_is_post r then Inl (Status 405)
          else if \<not> mreq_query_empty r then Inl (Status 400)
          else if \<not> staff_with_permission env actor codename then Inl (Status 403)
          else Inr (take 100 (listed (live_grants (fst actor) codename d))))"

definition newest_first :: "('a \<Rightarrow> instant) \<Rightarrow> (nat \<times> 'a) list \<Rightarrow> (nat \<times> 'a) list" where
  "newest_first at xs = rev (sort_key (\<lambda>(_, x). at x) (sort_key fst xs))"

definition report_in_scope :: "admin_scope_grant list \<Rightarrow> abuse_report \<Rightarrow> bool" where
  "report_in_scope gs x \<longleftrightarrow>
     list_ex (\<lambda>g. case grant_target g of
        (USER, i) \<Rightarrow> report_target_user_id x = Some i
      | (PRODUCT, i) \<Rightarrow> report_target_product_id x = Some i
      | (REVIEW, i) \<Rightarrow> report_target_review_id x = Some i) gs"

definition reports_page :: "management_env \<Rightarrow> management_request \<Rightarrow> db \<Rightarrow> reply + (nat \<times> abuse_report) list" where
  "reports_page env r d =
     read_page env VIEW_REPORT r
       (\<lambda>gs. newest_first report_created_at (tselect (\<lambda>_ x. report_in_scope gs x) (abuse_reports d))) d"

definition audit_page :: "management_env \<Rightarrow> management_request \<Rightarrow> db \<Rightarrow> reply + (nat \<times> admin_audit) list" where
  "audit_page env r d =
     read_page env VIEW_ADMIN_AUDIT r
       (\<lambda>gs. newest_first audit_created_at
          (tselect (\<lambda>_ a. list_ex (\<lambda>g. (audit_target_type a, audit_target_id a) =
              map_prod audit_target_of id (grant_target g)) gs) (admin_audits d))) d"

section \<open>Without a reauthentication\<close>

text \<open>
  No code under \<open>src/\<close> ever writes the session value \<open>management_reauthenticated_at\<close>; without it every
  command page answers an error and changes nothing, not even the audit.
\<close>

definition page_refused :: "reply \<times> db \<Rightarrow> db \<Rightarrow> bool" where
  "page_refused out d \<longleftrightarrow> snd out = d \<and> (\<forall>label k. fst out \<noteq> Named label k)"

lemma error_reply_refused: "page_refused (error_reply e, d) d"
  by (simp add: page_refused_def error_reply_def)

lemma posted_refused:
  "(\<And>actor. page_refused (body actor d) d) \<Longrightarrow> page_refused (posted names r body d) d"
  by (simp add: posted_def page_refused_def split: option.splits)

theorem no_reauthentication_no_command:
  assumes "mreq_reauthenticated_at r = None"
  shows "page_refused (sanctions_apply env upper parse_iso r d) d \<and>
    page_refused (sanctions_release env parse_iso k r d) d \<and>
    page_refused (scopes_grant env upper parse_iso r d) d \<and>
    page_refused (scopes_revoke env parse_iso k r d) d \<and>
    page_refused (review_visibility env uuid parse_iso k r d) d"
proof -
  have no: "reauthenticated_at parse_iso r = Inl ManagementError" using assms by (simp add: reauthenticated_at_def)
  have bad: "page_refused (Status n, d) d" for n by (simp add: page_refused_def)
  show ?thesis
    unfolding sanctions_apply_def sanctions_release_def scopes_grant_def scopes_revoke_def review_visibility_def
    by (intro conjI posted_refused) (simp_all add: no Let_def error_reply_refused bad split: sum.splits option.splits)
qed

end
