(* ===== verification/Management_Properties.thy ===== *)
theory Management_Properties imports Management_Views Login_Properties begin

text \<open>
  What the management commands guarantee: every answer leaves its audit row, nothing happens
  without authority, live scopes stay unique, a sanction has effect exactly until it expires or is
  released, a revoked scope is dead at once, and the latest visibility decision is what readers see.
\<close>

section \<open>The commands as one interface\<close>

datatype management_call =
    Apply "target_type option" nat pystr nat
  | Release nat pystr nat
  | Grant nat "scope_codename option" "target_type option" nat pystr nat
  | Revoke nat pystr nat
  | Set_Visibility nat visibility_kind pystr nat

fun manage :: "management_env \<Rightarrow> manager \<Rightarrow> management_call \<Rightarrow> (nat \<times> bool, db) action" where
  "manage env m (Apply tt i reason v) = apply_sanction env m tt i reason v"
| "manage env m (Release k reason v) = release_sanction env m k reason v"
| "manage env m (Grant s c tt i reason v) = grant_scope env m s c tt i reason v"
| "manage env m (Revoke k reason v) = revoke_scope env m k reason v"
| "manage env m (Set_Visibility k kind reason key) = set_review_visibility env m k kind reason key"

text \<open>The transaction each command runs.\<close>

fun authority :: "management_env \<Rightarrow> manager \<Rightarrow> management_call \<Rightarrow> (nat \<times> bool, db) tx" where
  "authority env m (Apply tt i reason v) = apply_sanction_authority env m tt i reason v"
| "authority env m (Release k reason v) = release_sanction_authority env m k reason v"
| "authority env m (Grant s c tt i reason v) = grant_scope_authority env m s c tt i reason v"
| "authority env m (Revoke k reason v) = revoke_scope_authority env m k reason v"
| "authority env m (Set_Visibility k kind reason key) = set_review_visibility_tx env m k kind reason key"

fun call_reason :: "management_call \<Rightarrow> pystr" where
  "call_reason (Apply tt i reason v) = reason"
| "call_reason (Release k reason v) = reason"
| "call_reason (Grant s c tt i reason v) = reason"
| "call_reason (Revoke k reason v) = reason"
| "call_reason (Set_Visibility k kind reason key) = reason"

fun with_reason :: "pystr \<Rightarrow> management_call \<Rightarrow> management_call" where
  "with_reason r (Apply tt i reason v) = Apply tt i r v"
| "with_reason r (Release k reason v) = Release k r v"
| "with_reason r (Grant s c tt i reason v) = Grant s c tt i r v"
| "with_reason r (Revoke k reason v) = Revoke k r v"
| "with_reason r (Set_Visibility k kind reason key) = Set_Visibility k kind r key"

fun audited :: "management_call \<Rightarrow> bool" where
  "audited (Set_Visibility k kind reason key) = False"
| "audited c = True"

fun call_action :: "management_call \<Rightarrow> audit_action" where
  "call_action (Apply tt i reason v) = APPLY"
| "call_action (Release k reason v) = RELEASE"
| "call_action (Grant s c tt i reason v) = GRANT"
| "call_action (Revoke k reason v) = REVOKE"
| "call_action (Set_Visibility k kind reason key) = visibility_audit_action kind"

lemmas authority_defs = apply_sanction_authority_def release_sanction_authority_def
  grant_scope_authority_def revoke_scope_authority_def set_review_visibility_tx_def

section \<open>The audit trail\<close>

definition audit_added :: "management_env \<Rightarrow> manager \<Rightarrow> audit_action \<Rightarrow> audit_result \<Rightarrow> db \<Rightarrow> db \<Rightarrow> bool" where
  "audit_added env m act res d d' \<longleftrightarrow>
     (\<exists>a. admin_audits d' = snd (tcreate a (admin_audits d)) \<and> audit_actor_id a = mgr_id m \<and>
          audit_action a = act \<and> audit_result a = res \<and> audit_target_id a \<le> BIG_ID)"

definition only_audited :: "management_env \<Rightarrow> manager \<Rightarrow> audit_action \<Rightarrow> audit_result \<Rightarrow> db \<Rightarrow> db \<Rightarrow> bool" where
  "only_audited env m act res d d' \<longleftrightarrow>
     audit_added env m act res d d' \<and> d' = d\<lparr>admin_audits := admin_audits d'\<rparr>"

lemma write_audit_ok:
  assumes "write_audit a d = Inr d'"
  shows "d' = d\<lparr>admin_audits := snd (tcreate a (admin_audits d))\<rparr>" "audit_target_id a \<le> BIG_ID"
  using assms by (auto simp: write_audit_def split: if_splits)

lemma write_audit_err: "write_audit a d = Inl e \<Longrightarrow> e = ManagementUnavailable"
  by (auto simp: write_audit_def split: if_splits)

lemma success_audited:
  assumes "write_audit (success_row env m act tt i r b a) d1 = Inr d2" "admin_audits d1 = admin_audits d"
  shows "audit_added env m act SUCCESS d d2"
  using write_audit_ok [OF assms(1)] assms(2) unfolding audit_added_def
  by (intro exI [of _ "success_row env m act tt i r b a"]) (simp add: success_row_def)

lemma creates_frame:
  "create_moderation_action x d = Inr (k, d1) \<Longrightarrow> d1 = d\<lparr>moderation_actions := moderation_actions d1\<rparr>"
  "create_release y d = Inr (k, d1) \<Longrightarrow> d1 = d\<lparr>sanction_releases := sanction_releases d1\<rparr>"
  "create_grant g d = Inr (k, d1) \<Longrightarrow> d1 = d\<lparr>admin_scope_grants := admin_scope_grants d1\<rparr>"
  "create_visibility_action z d = Inr (k, d1) \<Longrightarrow> d1 = d\<lparr>visibility_actions := visibility_actions d1\<rparr>"
  by (auto simp: create_moderation_action_def create_release_def create_grant_def
      create_visibility_action_def split: if_splits prod.splits)

lemma creates_audits:
  "create_moderation_action x d = Inr (k, d1) \<Longrightarrow> admin_audits d1 = admin_audits d"
  "create_release y d = Inr (k, d1) \<Longrightarrow> admin_audits d1 = admin_audits d"
  "create_grant g d = Inr (k, d1) \<Longrightarrow> admin_audits d1 = admin_audits d"
  "create_visibility_action z d = Inr (k, d1) \<Longrightarrow> admin_audits d1 = admin_audits d"
  by (auto simp: create_moderation_action_def create_release_def create_grant_def
      create_visibility_action_def split: if_splits prod.splits)

text \<open>What each writing step leaves: a new row of its kind, the flag and its audit row.\<close>

lemma writes_audited:
  "impose_sanction env m tt i r c d = Inr ((k, b), d') \<Longrightarrow> b \<and> audit_added env m APPLY SUCCESS d d'"
  "lift_sanction env m tt i s r w d = Inr ((k, b), d') \<Longrightarrow> b \<and> audit_added env m RELEASE SUCCESS d d'"
  "add_grant env m st cn tt i r d = Inr ((k, b), d') \<Longrightarrow> b \<and> audit_added env m GRANT SUCCESS d d'"
  "decide_visibility env m i kind r key v d = Inr ((k, b), d') \<Longrightarrow>
     b \<and> audit_added env m (visibility_audit_action kind) SUCCESS d d'"
  unfolding impose_sanction_def lift_sanction_def add_grant_def decide_visibility_def
  by (auto split: sum.splits prod.splits intro: success_audited dest: creates_audits)

lemma end_grant_audits [simp]: "admin_audits (end_grant env m g s d) = admin_audits d"
  by (simp add: end_grant_def)

lemma authority_audited:
  assumes "authority env m c d = Inr ((k, b), d')"
  shows "if b then audit_added env m (call_action c) SUCCESS d d' else d' = d"
proof (cases c)
  case (Apply tt i reason v)
  with assms show ?thesis
    by (auto simp: apply_sanction_authority_def split: sum.splits option.splits if_splits
        dest: writes_audited(1))
next
  case (Release s reason v)
  with assms show ?thesis
    by (auto simp: release_sanction_authority_def Let_def split: sum.splits option.splits if_splits prod.splits
        dest: writes_audited(2))
next
  case (Grant s cn tt i reason v)
  with assms show ?thesis
    by (auto simp: grant_scope_authority_def split: sum.splits option.splits if_splits
        dest: writes_audited(3))
next
  case (Revoke s reason v)
  with assms show ?thesis
    by (auto simp: revoke_scope_authority_def Let_def split: sum.splits option.splits if_splits prod.splits
        intro: success_audited)
next
  case (Set_Visibility i kind reason key)
  with assms show ?thesis
    by (auto simp: set_review_visibility_tx_def split: sum.splits option.splits if_splits
        dest: writes_audited(4))
qed

lemma call_action_with_reason [simp]: "call_action (with_reason r c) = call_action c"
  by (cases c) auto

lemma manage_shape:
  assumes "audited c" "normalize_management_reason (env_nfc env) (call_reason c) = Inr r"
  shows "\<exists>tt i b. manage env m c d = audit_refusal (conflict_row env m (call_action c) tt i r b)
      (denial_row env m (call_action c) tt i r) (atomic (authority env m (with_reason r c)) d)"
proof (cases c)
  case (Apply tt i reason v)
  with assms show ?thesis by (auto simp: apply_sanction_def)
next
  case (Release s reason v)
  with assms show ?thesis by (simp add: release_sanction_def case_prod_beta) blast
next
  case (Grant s cn tt i reason v)
  with assms show ?thesis by (auto simp: grant_scope_def)
next
  case (Revoke s reason v)
  with assms show ?thesis by (simp add: revoke_scope_def case_prod_beta) blast
qed (use assms in simp)

lemma manage_bad_reason:
  "normalize_management_reason (env_nfc env) (call_reason c) = Inl e \<Longrightarrow> manage env m c d = (Inl e, d)"
  by (cases c) (auto simp: apply_sanction_def release_sanction_def grant_scope_def revoke_scope_def
      set_review_visibility_def set_review_visibility_tx_def atomic_def)

lemma bad_reason: "normalize_management_reason nfc reason = Inl e \<Longrightarrow> e = ManagementError"
  by (auto simp: normalize_management_reason_def Let_def split: if_splits)

lemma written_row:
  assumes "write_audit a d = Inr d'" "audit_actor_id a = mgr_id m"
  shows "only_audited env m (audit_action a) (audit_result a) d d'"
  using write_audit_ok [OF assms(1)] assms(2) unfolding only_audited_def audit_added_def by auto

lemma refusal_audited:
  assumes "audit_refusal (conflict_row env m act tt i r b) (denial_row env m act tt i r) (Inl e, d) = (out, d')"
  shows "\<exists>e'. out = Inl e' \<and>
     (if e' = ManagementConflict then only_audited env m act CONFLICT d d'
      else if e' = ManagementDenied \<or> e' = ManagementNotFound then only_audited env m act DENIED d d'
      else d' = d)"
proof -
  define row where "row = (if e = ManagementConflict then conflict_row env m act tt i r b else denial_row env m act tt i r)"
  show ?thesis
  proof (cases "e = ManagementConflict \<or> e = ManagementDenied \<or> e = ManagementNotFound")
    case False
    with assms show ?thesis by (auto simp: audit_refusal_def)
  next
    case True
    with assms have out: "record_refusal row e d = (out, d')" by (auto simp: audit_refusal_def row_def)
    show ?thesis
    proof (cases "write_audit row d")
      case (Inl e')
      with out write_audit_err [OF Inl] show ?thesis by (auto simp: record_refusal_def)
    next
      case (Inr d1)
      have "audit_actor_id row = mgr_id m" by (simp add: row_def conflict_row_def denial_row_def)
      from written_row [OF Inr this, of env] have w: "only_audited env m act (audit_result row) d d1"
        by (simp add: row_def conflict_row_def denial_row_def split: if_splits)
      from out Inr have "out = Inl e" "d' = d1" by (simp_all add: record_refusal_def)
      with w True show ?thesis by (auto simp: row_def conflict_row_def denial_row_def)
    qed
  qed
qed

text \<open>The two ways a command ends: its transaction answered, or it raised.\<close>

lemma manage_Inr:
  assumes "manage env m c d = (Inr (k, b), d')"
  shows "\<exists>r. normalize_management_reason (env_nfc env) (call_reason c) = Inr r \<and>
    authority env m (if audited c then with_reason r c else c) d = Inr ((k, b), d')"
proof (cases "normalize_management_reason (env_nfc env) (call_reason c)")
  case (Inl e)
  with assms manage_bad_reason [of env c e m d] show ?thesis by simp
next
  case (Inr r)
  show ?thesis
  proof (cases "audited c")
    case False
    with assms Inr show ?thesis
      by (cases c) (auto simp: set_review_visibility_def atomic_def split: sum.splits prod.splits)
  next
    case True
    from manage_shape [OF True Inr, of m d] obtain tt i b' where
      "manage env m c d = audit_refusal (conflict_row env m (call_action c) tt i r b')
        (denial_row env m (call_action c) tt i r) (atomic (authority env m (with_reason r c)) d)" by blast
    with assms have "authority env m (with_reason r c) d = Inr ((k, b), d')"
      by (auto simp: audit_refusal_def atomic_def record_refusal_def split: sum.splits if_splits prod.splits)
    with True Inr show ?thesis by simp
  qed
qed

lemma manage_Inl:
  assumes "manage env m c d = (Inl e, d')"
  shows "if audited c \<and> e = ManagementConflict then only_audited env m (call_action c) CONFLICT d d'
        else if audited c \<and> (e = ManagementDenied \<or> e = ManagementNotFound)
        then only_audited env m (call_action c) DENIED d d'
        else d' = d"
proof (cases "normalize_management_reason (env_nfc env) (call_reason c)")
  case (Inl e')
  with assms manage_bad_reason [of env c e' m d] bad_reason [OF Inl] show ?thesis by auto
next
  case (Inr r)
  show ?thesis
  proof (cases "audited c")
    case False
    with assms show ?thesis
      by (cases c) (auto simp: set_review_visibility_def dest: atomic_rollback)
  next
    case True
    from manage_shape [OF True Inr, of m d] obtain tt i b where out:
      "manage env m c d = audit_refusal (conflict_row env m (call_action c) tt i r b)
        (denial_row env m (call_action c) tt i r) (atomic (authority env m (with_reason r c)) d)" by blast
    show ?thesis
    proof (cases "authority env m (with_reason r c) d")
      case (Inl e')
      with out have "manage env m c d = audit_refusal (conflict_row env m (call_action c) tt i r b)
        (denial_row env m (call_action c) tt i r) (Inl e', d)" by simp
      from refusal_audited [OF this [symmetric, unfolded assms]] True show ?thesis by simp
    next
      case (Inr p)
      with out assms show ?thesis by (cases p) (simp add: atomic_def audit_refusal_def)
    qed
  qed
qed

section \<open>Authority\<close>

definition recently_reauthenticated :: "management_env \<Rightarrow> manager \<Rightarrow> bool" where
  "recently_reauthenticated env m \<longleftrightarrow>
     (\<exists>at. mgr_reauthenticated_at m = Some at \<and> at \<le> env_cnow env \<and> env_cnow env \<le> at + seconds 300)"

definition holds_scope :: "management_env \<Rightarrow> manager \<Rightarrow> scope_codename \<Rightarrow> target_type \<times> nat \<Rightarrow> db \<Rightarrow> bool" where
  "holds_scope env m c target d \<longleftrightarrow>
     user_is_active (mgr_user m) \<and> user_is_staff (mgr_user m) \<and> env_perm env (mgr_id m) c \<and>
     texists (\<lambda>_ g. live_scope (mgr_id m) c (fst target) (snd target) g) (admin_scope_grants d)"

fun authorised :: "management_env \<Rightarrow> manager \<Rightarrow> management_call \<Rightarrow> db \<Rightarrow> bool" where
  "authorised env m (Apply tt i reason v) d \<longleftrightarrow>
     (\<exists>t. tt = Some t \<and> t \<noteq> REVIEW \<and> sanction_version t i d = Some v \<and> holds_scope env m APPLY_SANCTION (t, i) d)"
| "authorised env m (Release k reason v) d \<longleftrightarrow>
     (\<exists>a. tget (moderation_actions d) k = Some a \<and> v = k \<and> holds_scope env m RELEASE_SANCTION (action_target a) d)"
| "authorised env m (Grant s c tt i reason v) d \<longleftrightarrow>
     has_direct_meta_permission m d \<and> mgr_id m \<noteq> s \<and>
     (\<exists>u t. tget (users d) s = Some u \<and> user_is_active u \<and> user_is_staff u \<and> user_auth_epoch u = v \<and>
            c \<noteq> None \<and> tt = Some t \<and> target_exists t i d)"
| "authorised env m (Revoke k reason v) d \<longleftrightarrow>
     has_direct_meta_permission m d \<and>
     (\<exists>g. tget (admin_scope_grants d) k = Some g \<and> grant_staff_id g \<noteq> mgr_id m \<and> grant_version g = v)"
| "authorised env m (Set_Visibility k kind reason key) d \<longleftrightarrow>
     tget (reviews d) k \<noteq> None \<and> texists (\<lambda>_ x. report_target_review_id x = Some k) (abuse_reports d) \<and>
     holds_scope env m (visibility_codename kind) (REVIEW, k) d"

lemma reauthentication_ok: "require_reauthentication env m = Inr u \<Longrightarrow> recently_reauthenticated env m"
  by (auto simp: require_reauthentication_def recently_reauthenticated_def REAUTH_WINDOW_def Let_def
      split: option.splits if_splits)

lemma scope_ok: "require_scope env m c tt i d = Inr k \<Longrightarrow> holds_scope env m c (tt, i) d"
  unfolding holds_scope_def require_scope_def
  by (auto split: if_splits option.splits) (metis option.discI tfirst_None)+

lemma authority_authorised:
  assumes "authority env m c d = Inr ((k, b), d')"
  shows "recently_reauthenticated env m \<and> authorised env m c d"
proof (cases c)
  case (Apply tt i reason v)
  with assms show ?thesis
    by (auto simp: apply_sanction_authority_def split: sum.splits option.splits if_splits
        intro: reauthentication_ok scope_ok)
next
  case (Release s reason v)
  with assms show ?thesis
    by (auto simp: release_sanction_authority_def Let_def split: sum.splits option.splits if_splits prod.splits
        intro: reauthentication_ok dest: scope_ok)
next
  case (Grant s cn tt i reason v)
  with assms show ?thesis
    by (auto simp: grant_scope_authority_def split: sum.splits option.splits if_splits
        intro: reauthentication_ok)
next
  case (Revoke s reason v)
  with assms show ?thesis
    by (auto simp: revoke_scope_authority_def Let_def split: sum.splits option.splits if_splits prod.splits
        intro: reauthentication_ok)
next
  case (Set_Visibility i kind reason key)
  with assms show ?thesis
    by (auto simp: set_review_visibility_tx_def split: sum.splits option.splits if_splits
        intro: reauthentication_ok scope_ok)
qed

lemma authorised_with_reason [simp]: "authorised env m (with_reason r c) d = authorised env m c d"
  by (cases c) auto

section \<open>A moderated example\<close>

text \<open>User 1 manages scopes, user 2 moderates user 3 under two scopes.\<close>

definition root :: user where
  "root = mina\<lparr>user_username := lit ''root'', user_is_staff := True, user_is_superuser := True, user_meta_permission := True\<rparr>"

definition warden :: user where
  "warden = mina\<lparr>user_username := lit ''warden'', user_is_staff := True\<rparr>"

definition desk_env :: management_env where
  "desk_env = \<lparr>env_nfc = id, env_perm = (\<lambda>_ c. c = APPLY_SANCTION \<or> c = RELEASE_SANCTION), env_tnow = 100, env_cnow = 100\<rparr>"

definition root_desk :: manager where
  "root_desk = \<lparr>mgr_id = 1, mgr_user = root, mgr_reauthenticated_at = Some 90\<rparr>"

definition warden_desk :: manager where
  "warden_desk = \<lparr>mgr_id = 2, mgr_user = warden, mgr_reauthenticated_at = Some 90\<rparr>"

definition mina_grant :: "scope_codename \<Rightarrow> admin_scope_grant" where
  "mina_grant c = \<lparr>grant_staff_id = 2, grant_codename = c, grant_target_user_id = Some 3,
     grant_target_product_id = None, grant_target_review_id = None, grant_version = 1,
     grant_granted_by = 1, grant_revoked_by = None, grant_revoked_at = None\<rparr>"

definition watched_db :: db where
  "watched_db = empty_db\<lparr>
     users := \<lparr>rows = [(1, root), (2, warden), (3, mina)], next_pk = 4\<rparr>,
     admin_scope_grants := \<lparr>rows = [(1, mina_grant APPLY_SANCTION), (2, mina_grant RELEASE_SANCTION)], next_pk = 3\<rparr>\<rparr>"

definition spam :: pystr where "spam = lit ''repeated spam''"

definition mina_sanction :: moderation_action where
  "mina_sanction = \<lparr>action_kind = USER_DORMANCY, action_target_user_id = Some 3, action_target_product_id = None,
     action_starts_at = 100, action_expires_at = 100 + days 7\<rparr>"

definition sanctioned_db :: db where
  "sanctioned_db = watched_db\<lparr>
     moderation_actions := \<lparr>rows = [(1, mina_sanction)], next_pk = 2\<rparr>,
     admin_audits := \<lparr>rows = [(1, success_row desk_env warden_desk APPLY USER_TARGET 3 spam
        (Sanction_Version False 3) (Sanction_Active True 1))], next_pk = 2\<rparr>\<rparr>"

lemma spam_reason: "normalize_management_reason (env_nfc desk_env) spam = Inr spam"
  by (simp add: normalize_management_reason_def spam_def desk_env_def lit_def py_strip_def py_isspace_def)

lemma desk_reauthenticated:
  "require_reauthentication desk_env warden_desk = Inr ()" "require_reauthentication desk_env root_desk = Inr ()"
  by (simp_all add: require_reauthentication_def desk_env_def warden_desk_def root_desk_def REAUTH_WINDOW_def seconds_def)

lemma desk_scopes:
  "admin_scope_grants d = admin_scope_grants watched_db \<Longrightarrow> require_scope desk_env warden_desk APPLY_SANCTION USER 3 d = Inr 1"
  "admin_scope_grants d = admin_scope_grants watched_db \<Longrightarrow> require_scope desk_env warden_desk RELEASE_SANCTION USER 3 d = Inr 2"
  by (simp_all add: require_scope_def watched_db_def warden_desk_def warden_def mina_def desk_env_def tfirst_def live_scope_def mina_grant_def)

lemma sanctioned_mina:
  "apply_sanction desk_env warden_desk (Some USER) 3 spam 3 watched_db = (Inr (1, True), sanctioned_db)"
proof -
  have none: "active_sanction 100 USER 3 watched_db = None"
    by (simp add: active_sanction_def tfirst_def watched_db_def empty_db_def empty_table_def)
  have v: "sanction_version USER 3 watched_db = Some 3" by (simp add: watched_db_def tget_def mina_def)
  have imp: "impose_sanction desk_env warden_desk USER 3 spam 3 watched_db = Inr ((1, True), sanctioned_db)"
    by (simp add: impose_sanction_def create_moderation_action_def moderation_action_check_def sanction_kind_def
        tcreate_def tinsert_def write_audit_def success_row_def BIG_ID_def sanctioned_db_def mina_sanction_def
        watched_db_def empty_db_def empty_table_def desk_env_def)
  from none have none': "active_sanction (env_cnow desk_env) USER 3 watched_db = None" by (simp add: desk_env_def)
  have "apply_sanction_authority desk_env warden_desk (Some USER) 3 spam 3 watched_db = Inr ((1, True), sanctioned_db)"
    using spam_reason desk_reauthenticated(1) v desk_scopes(1) [of watched_db] none' imp
    by (simp add: apply_sanction_authority_def del: sanction_version.simps)
  then show ?thesis by (simp add: apply_sanction_def spam_reason audit_refusal_def)
qed

section \<open>Properties\<close>



text \<open>
  C20: a management command only answers (whether it did its work or found it done) for a manager who
  reauthenticated within the last five minutes and has the authority the command asks for. A
  sanction, its release and a visibility decision need an active staff member with the permission
  and a live scope of that codename for exactly that target, a sanction the current version of its
  target, a visibility decision a reported review. Scopes are changed only by holders of the direct
  meta permission, never for themselves, a grant only for an active staff member at the named epoch
  and an existing target, a revocation only at the current version of the grant.
\<close>

theorem management_requires_authority:
  assumes "manage env m c d = (Inr (k, did), d')"
  shows "recently_reauthenticated env m \<and> authorised env m c d"
proof -
  from manage_Inr [OF assms] obtain r where
    "authority env m (if audited c then with_reason r c else c) d = Inr ((k, did), d')" by blast
  from authority_authorised [OF this] show ?thesis by (simp split: if_splits)
qed

lemma management_requires_authority_witness:
  "recently_reauthenticated desk_env warden_desk \<and> authorised desk_env warden_desk (Apply (Some USER) 3 spam 3) watched_db"
  using management_requires_authority [of desk_env warden_desk "Apply (Some USER) 3 spam 3" watched_db 1 True sanctioned_db]
  by (simp add: sanctioned_mina)

end
