(* ===== verification/Sanctions.thy ===== *)
theory Sanctions imports Management_Properties begin

text \<open>
  Sanctions and scopes over time: the management commands interleaved with the reports of users,
  whose threshold imposes sanctions automatically. Two unreleased sanctions of one target never
  overlap and a live scope is unique, so a sanction has effect until it expires or is released, and
  a revoked scope is gone.
\<close>

section \<open>The system\<close>

datatype moderation_label =
    Command management_env manager management_call
  | Report instant nat "target_type option" nat "report_context option" pystr
  | Review_Report instant nat bool int pystr
  | Evaluate instant "target_type option" nat

text \<open>
  The state is the database and the latest clock reading; the clock does not run backwards. A
  report reads the statement time first and the clock (\<open>now'\<close>) after its locks.
\<close>

inductive moderation_step :: "instant \<times> db \<Rightarrow> moderation_label \<Rightarrow> instant \<times> db \<Rightarrow> bool" where
  step_command: "now \<le> env_cnow env \<Longrightarrow>
     moderation_step (now, d) (Command env m c) (env_cnow env, snd (manage env m c d))"
| step_report: "now \<le> tnow \<Longrightarrow> tnow \<le> now' \<Longrightarrow>
     moderation_step (now, d) (Report tnow u tt i ctx reason)
       (now', snd (atomic (submit_report tnow now' u tt i ctx reason) d))"
| step_review_report: "now \<le> tnow \<Longrightarrow> tnow \<le> now' \<Longrightarrow>
     moderation_step (now, d) (Review_Report tnow u auth i reason)
       (now', snd (atomic (submit_review_report tnow now' u auth i reason) d))"
| step_evaluate: "now \<le> tnow \<Longrightarrow> tnow \<le> now' \<Longrightarrow>
     moderation_step (now, d) (Evaluate tnow tt i) (now', snd (atomic (evaluate_threshold tnow now' tt i) d))"

inductive_cases moderation_stepE: "moderation_step s l s'"

section \<open>The invariant\<close>

definition apart :: "moderation_action \<Rightarrow> moderation_action \<Rightarrow> bool" where
  "apart a b \<longleftrightarrow> action_expires_at a \<le> action_starts_at b \<or> action_expires_at b \<le> action_starts_at a"

definition all_apart :: "db \<Rightarrow> bool" where
  "all_apart d \<longleftrightarrow>
     (\<forall>k a k' a'. tget (moderation_actions d) k = Some a \<longrightarrow> tget (moderation_actions d) k' = Some a' \<longrightarrow>
        k \<noteq> k' \<longrightarrow> \<not> released d k \<longrightarrow> \<not> released d k' \<longrightarrow> action_target a = action_target a' \<longrightarrow> apart a a')"

definition sanctions_ok :: "instant \<Rightarrow> db \<Rightarrow> bool" where
  "sanctions_ok now d \<longleftrightarrow>
     wf_table (moderation_actions d) \<and>
     tall (\<lambda>_ a. moderation_action_check a \<and> action_starts_at a \<le> now) (moderation_actions d) \<and>
     tall (\<lambda>_ r. tget (moderation_actions d) (release_action_id r) \<noteq> None) (sanction_releases d) \<and>
     all_apart d"

text \<open>The key a live grant is unique for.\<close>

definition scope_key :: "admin_scope_grant \<Rightarrow> (nat \<times> scope_codename \<times> target_type \<times> nat) option" where
  "scope_key g = (if grant_revoked_at g \<noteq> None then None
     else Some (grant_staff_id g, grant_codename g, grant_target g))"

definition scopes_ok :: "db \<Rightarrow> bool" where
  "scopes_ok d \<longleftrightarrow> wf_table (admin_scope_grants d) \<and> tall (\<lambda>_. grant_check) (admin_scope_grants d) \<and>
     unique_on scope_key (admin_scope_grants d)"

definition moderation_inv :: "instant \<times> db \<Rightarrow> bool" where
  "moderation_inv s \<longleftrightarrow> sanctions_ok (fst s) (snd s) \<and> scopes_ok (snd s)"

subsection \<open>Sanctions\<close>

lemma sanctions_ok_later: "sanctions_ok now d \<Longrightarrow> now \<le> now' \<Longrightarrow> sanctions_ok now' d"
  unfolding sanctions_ok_def by (auto elim: tall_mono)

lemma released_mono:
  "released d k \<Longrightarrow> (\<And>P. texists P (sanction_releases d) \<Longrightarrow> texists P (sanction_releases d')) \<Longrightarrow> released d' k"
  by (simp add: released_def)

lemma sanctions_ok_same:
  "sanctions_ok now d \<Longrightarrow> moderation_actions d' = moderation_actions d \<Longrightarrow>
   sanction_releases d' = sanction_releases d \<Longrightarrow> sanctions_ok now d'"
  by (simp add: sanctions_ok_def all_apart_def released_def)

lemma sanctions_okD:
  assumes "sanctions_ok now d" "tget (moderation_actions d) k = Some a"
  shows "moderation_action_check a" "action_starts_at a \<le> now" "action_expires_at a = action_starts_at a + days 7"
proof -
  from assms(1) have "tall (\<lambda>_ a. moderation_action_check a \<and> action_starts_at a \<le> now) (moderation_actions d)"
    by (simp add: sanctions_ok_def)
  from tallD [OF this assms(2)] show c: "moderation_action_check a" and "action_starts_at a \<le> now" by auto
  from c show "action_expires_at a = action_starts_at a + days 7" by (simp add: moderation_action_check_def)
qed

lemma sanctions_apart:
  assumes "sanctions_ok now d" "tget (moderation_actions d) k = Some a" "tget (moderation_actions d) k' = Some a'"
    "k \<noteq> k'" "\<not> released d k" "\<not> released d k'" "action_target a = action_target a'"
  shows "apart a a'"
  using assms unfolding sanctions_ok_def all_apart_def by blast

lemma targets_action_target:
  "moderation_action_check a \<Longrightarrow> tt \<noteq> REVIEW \<Longrightarrow> targets tt i a \<longleftrightarrow> action_target a = (tt, i)"
  by (cases tt) (auto simp: moderation_action_check_def targets_def action_target_def split: option.splits)

lemma kind_of_target:
  "moderation_action_check a \<Longrightarrow> action_target a = (tt, i) \<Longrightarrow> action_kind a = sanction_kind tt"
  by (auto simp: moderation_action_check_def sanction_kind_def action_target_def split: option.splits)

text \<open>A new sanction of a target none of whose unreleased sanctions is still running.\<close>

lemma new_sanction_ok:
  assumes inv: "sanctions_ok now d" and now: "now \<le> now'"
    and free: "\<And>k a. tget (moderation_actions d) k = Some a \<Longrightarrow> \<not> released d k \<Longrightarrow>
        action_target a = action_target x \<Longrightarrow> action_expires_at a \<le> action_starts_at x"
    and x: "create_moderation_action x d = Inr (n, d1)" "action_starts_at x = now'"
  shows "sanctions_ok now' d1"
proof -
  from x have c: "moderation_action_check x" and d1: "d1 = d\<lparr>moderation_actions := snd (tcreate x (moderation_actions d))\<rparr>"
    by (auto simp: create_moderation_action_def split: if_splits prod.splits)
  from inv have wf: "wf_table (moderation_actions d)" by (simp add: sanctions_ok_def)
  have rel: "released d1 k = released d k" for k by (simp add: d1 released_def)
  have fk: "tall (\<lambda>_ r. tget (moderation_actions d1) (release_action_id r) \<noteq> None) (sanction_releases d1)"
    using inv wf by (auto simp: sanctions_ok_def d1 tbl_simps elim!: tall_mono)
  have rows: "tall (\<lambda>_ a. moderation_action_check a \<and> action_starts_at a \<le> now') (moderation_actions d1)"
    using inv now x c by (auto simp: sanctions_ok_def d1 tbl_simps elim!: tall_mono)
  have "apart a a'" if g: "tget (moderation_actions d1) k = Some a" "tget (moderation_actions d1) k' = Some a'"
    "k \<noteq> k'" "\<not> released d1 k" "\<not> released d1 k'" "action_target a = action_target a'" for k a k' a'
  proof -
    consider (old) "tget (moderation_actions d) k = Some a" "tget (moderation_actions d) k' = Some a'"
      | (new1) "a = x" "tget (moderation_actions d) k' = Some a'"
      | (new2) "a' = x" "tget (moderation_actions d) k = Some a"
      using g(1-3) wf by (auto simp: d1 tbl_simps split: if_splits)
    then show ?thesis
    proof cases
      case old
      with sanctions_apart [OF inv old g(3)] g rel show ?thesis by simp
    next
      case new1
      with free [OF new1(2)] g rel show ?thesis by (simp add: apart_def)
    next
      case new2
      with free [OF new2(2)] g rel show ?thesis by (simp add: apart_def)
    qed
  qed
  then have "all_apart d1" unfolding all_apart_def by blast
  with rows fk wf show ?thesis by (simp add: sanctions_ok_def d1 wf_tcreate)
qed

lemma no_active_sanction:
  assumes inv: "sanctions_ok now d" and now: "now \<le> t" and none: "active_sanction t tt i d = None" and tt: "tt \<noteq> REVIEW"
    and a: "tget (moderation_actions d) k = Some a" "\<not> released d k" "action_target a = (tt, i)"
  shows "action_expires_at a \<le> t"
proof -
  from sanctions_okD [OF inv a(1)] have c: "moderation_action_check a" "action_starts_at a \<le> now" by auto
  from inv none a(1) have "\<not> (action_kind a = sanction_kind tt \<and> active_actions t d k a \<and> targets tt i a)"
    by (auto simp: active_sanction_def tfirst_None texists_iff sanctions_ok_def)
  with c a now tt kind_of_target [OF c(1) a(3)] targets_action_target [OF c(1) tt, of i] show ?thesis
    by (auto simp: active_actions_def in_window_def)
qed

lemma no_active_action:
  assumes inv: "sanctions_ok now d" and now: "now \<le> t" and none: "active_action_for_target t d tt i = None" and tt: "tt \<noteq> REVIEW"
    and a: "tget (moderation_actions d) k = Some a" "\<not> released d k" "action_target a = (tt, i)"
  shows "action_expires_at a \<le> t"
proof -
  from sanctions_okD [OF inv a(1)] have c: "moderation_action_check a" "action_starts_at a \<le> now" by auto
  from inv none a(1) have "\<not> (active_actions t d k a \<and> targets tt i a)"
    by (auto simp: active_action_for_target_def tfirst_None texists_iff sanctions_ok_def)
  with c a now targets_action_target [OF c(1) tt, of i] show ?thesis
    by (auto simp: active_actions_def in_window_def)
qed

lemma new_release_ok:
  assumes inv: "sanctions_ok now d" and "create_release r d = Inr (n, d1)"
    and "tget (moderation_actions d) (release_action_id r) \<noteq> None"
  shows "sanctions_ok now d1"
proof -
  from assms(2) have d1: "d1 = d\<lparr>sanction_releases := snd (tcreate r (sanction_releases d))\<rparr>"
    by (auto simp: create_release_def split: if_splits prod.splits)
  have rel: "released d k \<Longrightarrow> released d1 k" for k by (simp add: d1 released_def tbl_simps)
  moreover have "moderation_actions d1 = moderation_actions d" by (simp add: d1)
  ultimately have "all_apart d1" using inv unfolding sanctions_ok_def all_apart_def by metis
  with inv assms(3) show ?thesis by (auto simp: sanctions_ok_def d1 tbl_simps)
qed

lemma impose_sanction_ok:
  assumes inv: "sanctions_ok now d" "now \<le> env_cnow env" and "active_sanction (env_cnow env) tt i d = None" "tt \<noteq> REVIEW"
    and out: "impose_sanction env m tt i r v d = Inr (p, d')"
  shows "sanctions_ok (env_cnow env) d'"
proof -
  define x where "x = \<lparr>action_kind = sanction_kind tt,
         action_target_user_id = (if tt = USER then Some i else None),
         action_target_product_id = (if tt = USER then None else Some i),
         action_starts_at = env_cnow env, action_expires_at = env_cnow env + days 7\<rparr>"
  from out obtain n d1 where d1: "create_moderation_action x d = Inr (n, d1)"
    and d': "moderation_actions d' = moderation_actions d1" "sanction_releases d' = sanction_releases d1"
    by (auto simp: impose_sanction_def x_def dest!: write_audit_ok(1) split: sum.splits)
  have tx: "action_target x = (tt, i)" using assms(4) by (cases tt) (auto simp: x_def action_target_def)
  have sx: "action_starts_at x = env_cnow env" by (simp add: x_def)
  have "action_expires_at a \<le> action_starts_at x"
    if "tget (moderation_actions d) k = Some a" "\<not> released d k" "action_target a = action_target x" for k a
    using no_active_sanction [OF inv assms(3,4)] that unfolding tx sx by blast
  from new_sanction_ok [OF inv this d1 sx] have "sanctions_ok (env_cnow env) d1" .
  with d' sanctions_ok_same show ?thesis by blast
qed

lemma lift_sanction_ok:
  assumes "sanctions_ok now d" "tget (moderation_actions d) s \<noteq> None" "lift_sanction env m tt i s r b d = Inr (p, d')"
  shows "sanctions_ok now d'"
proof -
  from assms(3) obtain n d1 where d1: "create_release \<lparr>release_action_id = s, release_actor_id = mgr_id m, release_reason = r\<rparr> d = Inr (n, d1)"
    and d': "moderation_actions d' = moderation_actions d1" "sanction_releases d' = sanction_releases d1"
    by (auto simp: lift_sanction_def dest!: write_audit_ok(1) split: sum.splits)
  from new_release_ok [OF assms(1) d1] assms(2) have "sanctions_ok now d1" by simp
  with d' sanctions_ok_same show ?thesis by blast
qed

text \<open>The other commands leave sanctions and releases alone.\<close>

lemma other_writes_frame:
  "add_grant env m s c tt i r d = Inr (p, d') \<Longrightarrow>
     moderation_actions d' = moderation_actions d \<and> sanction_releases d' = sanction_releases d"
  "decide_visibility env m i kind r key b d = Inr (p, d') \<Longrightarrow>
     moderation_actions d' = moderation_actions d \<and> sanction_releases d' = sanction_releases d \<and>
     admin_scope_grants d' = admin_scope_grants d"
  "impose_sanction env m tt i r v d = Inr (p, d') \<Longrightarrow> admin_scope_grants d' = admin_scope_grants d"
  "lift_sanction env m tt i k r w d = Inr (p, d') \<Longrightarrow> admin_scope_grants d' = admin_scope_grants d"
  by (auto simp: add_grant_def decide_visibility_def impose_sanction_def lift_sanction_def
      create_grant_def create_visibility_action_def create_moderation_action_def create_release_def
      dest!: write_audit_ok(1) split: sum.splits if_splits prod.splits)

lemma authority_sanctions_ok:
  assumes inv: "sanctions_ok now d" and now: "now \<le> env_cnow env" and out: "authority env m c d = Inr ((k, b), d')"
  shows "sanctions_ok (env_cnow env) d'"
proof -
  have later: "sanctions_ok (env_cnow env) d" by (rule sanctions_ok_later [OF inv now])
  show ?thesis
  proof (cases c)
    case (Apply tt i reason v)
    with out later show ?thesis
      by (auto simp: apply_sanction_authority_def split: sum.splits option.splits if_splits
          intro: impose_sanction_ok [OF inv now])
  next
    case (Release s reason v)
    with out later show ?thesis
      by (auto simp: release_sanction_authority_def Let_def split: sum.splits option.splits if_splits prod.splits
          intro: lift_sanction_ok [OF later])
  next
    case (Grant s cn tt i reason v)
    with out have "moderation_actions d' = moderation_actions d \<and> sanction_releases d' = sanction_releases d"
      by (auto simp: grant_scope_authority_def split: sum.splits option.splits if_splits dest!: other_writes_frame(1))
    with later sanctions_ok_same show ?thesis by blast
  next
    case (Revoke s reason v)
    with out have "moderation_actions d' = moderation_actions d \<and> sanction_releases d' = sanction_releases d"
      by (auto simp: revoke_scope_authority_def Let_def end_grant_def dest!: write_audit_ok(1)
          split: sum.splits option.splits if_splits prod.splits)
    with later sanctions_ok_same show ?thesis by blast
  next
    case (Set_Visibility i kind reason key)
    with out have "moderation_actions d' = moderation_actions d \<and> sanction_releases d' = sanction_releases d"
      by (auto simp: set_review_visibility_tx_def split: sum.splits option.splits if_splits
          dest!: other_writes_frame(2))
    with later sanctions_ok_same show ?thesis by blast
  qed
qed

subsection \<open>Scopes\<close>

lemma same_scope_key:
  "grant_check g \<Longrightarrow> grant_check h \<Longrightarrow> scope_key g \<noteq> None \<Longrightarrow> scope_key h = scope_key g \<Longrightarrow> same_scope g h"
  by (auto simp: scope_key_def grant_target_def grant_check_def same_scope_def split: option.splits if_splits)

lemma add_grant_ok:
  assumes inv: "scopes_ok d" and out: "add_grant env m s c tt i r d = Inr (p, d')"
  shows "scopes_ok d'"
proof -
  define g where "g = new_grant m s c tt i"
  from out have c: "grant_check g" "\<not> texists (\<lambda>_ h. same_scope g h) (admin_scope_grants d)"
    and d': "admin_scope_grants d' = snd (tcreate g (admin_scope_grants d))"
    by (auto simp: add_grant_def create_grant_def g_def split: sum.splits if_splits prod.splits dest!: write_audit_ok(1))
  have key: "scope_key g \<noteq> None" by (simp add: scope_key_def g_def new_grant_def)
  have wf: "wf_table (admin_scope_grants d)" and chk: "tall (\<lambda>_. grant_check) (admin_scope_grants d)"
    using inv by (simp_all add: scopes_ok_def)
  have "\<not> texists (\<lambda>_ h. scope_key h = scope_key g) (admin_scope_grants d)"
  proof
    assume "texists (\<lambda>_ h. scope_key h = scope_key g) (admin_scope_grants d)"
    then obtain k h where h: "tget (admin_scope_grants d) k = Some h" "scope_key h = scope_key g"
      using wf by (auto simp: texists_iff)
    from same_scope_key [OF c(1) tallD [OF chk h(1)] key h(2)] have "same_scope g h" .
    with h(1) c(2) wf show False by (auto simp: texists_iff)
  qed
  with inv c(1) d' show ?thesis by (simp add: scopes_ok_def tbl_simps wf_tcreate)
qed

lemma end_grant_ok:
  assumes "scopes_ok d" shows "scopes_ok (end_grant env m k s d)"
proof -
  define f :: "admin_scope_grant \<Rightarrow> admin_scope_grant" where "f = (\<lambda>g. g\<lparr>grant_revoked_at := Some (env_cnow env), grant_revoked_by := Some (mgr_id m),
    grant_version := grant_version g + 1\<rparr>)"
  have g: "admin_scope_grants (end_grant env m k s d) = tmodify k f (admin_scope_grants d)"
    by (simp add: end_grant_def f_def)
  have "unique_on scope_key (tmodify k f (admin_scope_grants d))"
    unfolding tmodify_def by (rule unique_tupdate_weaken) (use assms in \<open>auto simp: f_def scope_key_def scopes_ok_def\<close>)
  moreover have "tall (\<lambda>_. grant_check) (tmodify k f (admin_scope_grants d))"
    using assms tall_tmodify_same [of "\<lambda>_. grant_check" f k] by (simp add: f_def grant_check_def scopes_ok_def)
  ultimately show ?thesis using assms g by (simp add: scopes_ok_def wf_tmodify)
qed

lemma authority_scopes_ok:
  assumes inv: "scopes_ok d" and out: "authority env m c d = Inr ((k, b), d')"
  shows "scopes_ok d'"
proof (cases c)
  case (Apply tt i reason v)
  with out have "admin_scope_grants d' = admin_scope_grants d"
    by (auto simp: apply_sanction_authority_def split: sum.splits option.splits if_splits dest: other_writes_frame(3))
  with inv show ?thesis by (simp add: scopes_ok_def)
next
  case (Release s reason v)
  with out have "admin_scope_grants d' = admin_scope_grants d"
    by (auto simp: release_sanction_authority_def Let_def split: sum.splits option.splits if_splits prod.splits
        dest: other_writes_frame(4))
  with inv show ?thesis by (simp add: scopes_ok_def)
next
  case (Grant s cn tt i reason v)
  with out inv show ?thesis
    by (auto simp: grant_scope_authority_def split: sum.splits option.splits if_splits intro: add_grant_ok)
next
  case (Revoke s reason v)
  have audit: "write_audit a d1 = Inr d2 \<Longrightarrow> scopes_ok d1 \<Longrightarrow> scopes_ok d2" for a d1 d2
    by (drule write_audit_ok(1)) (simp add: scopes_ok_def)
  from Revoke out inv show ?thesis
    by (auto simp: revoke_scope_authority_def Let_def split: sum.splits option.splits if_splits prod.splits
        intro: audit end_grant_ok)
next
  case (Set_Visibility i kind reason key)
  with out have "admin_scope_grants d' = admin_scope_grants d"
    by (auto simp: set_review_visibility_tx_def split: sum.splits option.splits if_splits dest!: other_writes_frame(2))
  with inv show ?thesis by (simp add: scopes_ok_def)
qed

subsection \<open>Reports\<close>

lemma review_never_qualifies: "qualifies_for_action REVIEW by_ctx \<noteq> Inr True"
  by (auto simp: qualifies_for_action_def split: sum.splits)

lemma evaluate_locked_ok:
  assumes inv: "sanctions_ok now d" and t: "now \<le> tnow" "tnow \<le> cnow"
    and out: "evaluate_locked tnow cnow tt i actor d = Inr (r, d')"
  shows "sanctions_ok cnow d' \<and> admin_scope_grants d' = admin_scope_grants d"
proof (cases "r")
  case None
  with out have "d' = d" by (auto simp: evaluate_locked_def Let_def split: if_splits prod.splits sum.splits bool.splits)
  with sanctions_ok_later [OF inv] t show ?thesis by simp
next
  case (Some n)
  define x where "x = \<lparr>action_kind = (if tt = USER then USER_DORMANCY else PRODUCT_HIDE),
                action_target_user_id = (if tt = USER then Some i else None),
                action_target_product_id = (if tt = USER then None else Some i),
                action_starts_at = cnow, action_expires_at = cnow + ACTION_DURATION\<rparr>"
  obtain reports by_ctx where q: "qualifying_reports tnow cnow d tt i = (reports, by_ctx)" by force
  from out Some have none: "active_action_for_target tnow d tt i = None"
    by (cases "active_action_for_target tnow d tt i") (simp_all add: evaluate_locked_def)
  from out Some q none have qual: "qualifies_for_action tt by_ctx = Inr True"
    by (auto simp: evaluate_locked_def split: sum.splits bool.splits)
  with review_never_qualifies have tt: "tt \<noteq> REVIEW" by auto
  from out q none qual obtain d1 where d1: "create_moderation_action x d = Inr (n, d1)"
    and d': "moderation_actions d' = moderation_actions d1" "sanction_releases d' = sanction_releases d1"
      "admin_scope_grants d' = admin_scope_grants d1"
    using Some by (auto simp: evaluate_locked_def x_def Let_def split: sum.splits)
  have tx: "action_target x = (tt, i)" using tt by (cases tt) (auto simp: x_def action_target_def)
  have sx: "action_starts_at x = cnow" by (simp add: x_def)
  have "action_expires_at a \<le> action_starts_at x"
    if "tget (moderation_actions d) k = Some a" "\<not> released d k" "action_target a = action_target x" for k a
    using no_active_action [OF inv t(1) none tt] that t(2) unfolding tx sx by fastforce
  from new_sanction_ok [OF inv order_trans [OF t] this d1 sx] have "sanctions_ok cnow d1" .
  from sanctions_ok_same [OF this d'(1,2)] have "sanctions_ok cnow d'" .
  moreover have "admin_scope_grants d1 = admin_scope_grants d"
    using arg_cong [OF creates_frame(1) [OF d1], of admin_scope_grants] by simp
  ultimately show ?thesis using d'(3) by simp
qed

lemma create_report_frame:
  "create_report r d = Inr (k, d1) \<Longrightarrow> moderation_actions d1 = moderation_actions d \<and>
     sanction_releases d1 = sanction_releases d \<and> admin_scope_grants d1 = admin_scope_grants d"
  by (auto simp: create_report_def split: if_splits prod.splits)

lemma submit_report_tx_elim:
  assumes "submit_report_tx tnow cnow u tt i ctx reason d = Inr (p, d')"
  obtains r k d1 a where "create_report r d = Inr (k, d1)" "evaluate_locked tnow cnow tt i (Some u) d1 = Inr (a, d')"
proof -
  from assms have "\<exists>r k d1 a. create_report r d = Inr (k, d1) \<and> evaluate_locked tnow cnow tt i (Some u) d1 = Inr (a, d')"
    unfolding submit_report_tx_def by (simp split: sum.splits if_splits prod.splits) blast+
  with that show ?thesis by blast
qed

lemma submit_report_ok:
  assumes inv: "sanctions_ok now d" and t: "now \<le> tnow" "tnow \<le> cnow"
    and out: "submit_report tnow cnow u tt i ctx reason d = Inr (p, d')"
  shows "sanctions_ok cnow d' \<and> admin_scope_grants d' = admin_scope_grants d"
proof -
  from out obtain t' c' reason' where "submit_report_tx tnow cnow u t' i c' reason' d = Inr (p, d')"
    by (auto simp: submit_report_def split: option.splits sum.splits exn.splits)
  then obtain r k d1 a where d1: "create_report r d = Inr (k, d1)"
    and ev: "evaluate_locked tnow cnow t' i (Some u) d1 = Inr (a, d')" by (rule submit_report_tx_elim)
  from create_report_frame [OF d1] have f: "moderation_actions d1 = moderation_actions d"
    "sanction_releases d1 = sanction_releases d" "admin_scope_grants d1 = admin_scope_grants d" by auto
  from evaluate_locked_ok [OF sanctions_ok_same [OF inv f(1,2)] t ev] f(3) show ?thesis by simp
qed

lemma submit_review_report_ok:
  assumes inv: "sanctions_ok now d" and t: "now \<le> tnow" "tnow \<le> cnow"
    and out: "submit_review_report tnow cnow u auth i reason d = Inr (p, d')"
  shows "sanctions_ok cnow d' \<and> admin_scope_grants d' = admin_scope_grants d"
proof -
  obtain k where p: "p = k" by simp
  from out have "\<exists>r. create_report r d = Inr (p, d')"
    by (auto simp: submit_review_report_def split: option.splits sum.splits if_splits)
  then obtain r where d1: "create_report r d = Inr (p, d')" by blast
  from create_report_frame [OF d1] sanctions_ok_same [OF sanctions_ok_later [OF inv]] t show ?thesis
    by (meson order_trans)
qed

lemma evaluate_threshold_ok:
  assumes inv: "sanctions_ok now d" and t: "now \<le> tnow" "tnow \<le> cnow"
    and out: "evaluate_threshold tnow cnow tt i d = Inr (p, d')"
  shows "sanctions_ok cnow d' \<and> admin_scope_grants d' = admin_scope_grants d"
proof -
  from out have "d' = d \<or> (\<exists>t'. evaluate_locked tnow cnow t' i None d = Inr (p, d'))"
    by (auto simp: evaluate_threshold_def split: option.splits if_splits)
  then show ?thesis
  proof
    assume "d' = d"
    with sanctions_ok_later [OF inv] t show ?thesis by simp
  next
    assume "\<exists>t'. evaluate_locked tnow cnow t' i None d = Inr (p, d')"
    with evaluate_locked_ok [OF inv t] show ?thesis by blast
  qed
qed

subsection \<open>Every step\<close>

lemma audited_only_ok:
  "moderation_inv (now, d) \<Longrightarrow> d' = d\<lparr>admin_audits := a\<rparr> \<Longrightarrow> now \<le> now' \<Longrightarrow> moderation_inv (now', d')"
  using sanctions_ok_later [of now d now'] sanctions_ok_same [of now' d d']
  by (simp add: moderation_inv_def scopes_ok_def)

lemma manage_inv:
  assumes inv: "moderation_inv (now, d)" and now: "now \<le> env_cnow env"
  shows "moderation_inv (env_cnow env, snd (manage env m c d))"
proof -
  obtain out d' where m: "manage env m c d = (out, d')" by force
  show ?thesis
  proof (cases out)
    case (Inl e)
    have same: "d = d\<lparr>admin_audits := admin_audits d\<rparr>" by simp
    from manage_Inl [OF m [unfolded Inl]]
    have "d' = d \<or> only_audited env m (call_action c) CONFLICT d d' \<or> only_audited env m (call_action c) DENIED d d'"
      by (simp split: if_splits)
    then have "\<exists>a. d' = d\<lparr>admin_audits := a\<rparr>" unfolding only_audited_def using same by blast
    then obtain a where "d' = d\<lparr>admin_audits := a\<rparr>" ..
    from audited_only_ok [OF inv this now] m show ?thesis by simp
  next
    case (Inr p)
    obtain k b where p: "p = (k, b)" by force
    with m Inr manage_Inr [of env m c d k b d'] obtain c' where out: "authority env m c' d = Inr ((k, b), d')" by blast
    from inv have i: "sanctions_ok now d" "scopes_ok d" by (simp_all add: moderation_inv_def)
    from authority_sanctions_ok [OF i(1) now out] authority_scopes_ok [OF i(2) out] m show ?thesis
      by (simp add: moderation_inv_def)
  qed
qed

lemma reports_inv:
  assumes inv: "moderation_inv (now, d)" and t: "now \<le> tnow" "tnow \<le> cnow"
    and ok: "\<And>p d'. tx d = Inr (p, d') \<Longrightarrow> sanctions_ok cnow d' \<and> admin_scope_grants d' = admin_scope_grants d"
  shows "moderation_inv (cnow, snd (atomic tx d))"
proof (cases "tx d")
  case (Inl e)
  with inv sanctions_ok_later [of now d cnow] t show ?thesis by (simp add: moderation_inv_def)
next
  case (Inr q)
  obtain p d' where "q = (p, d')" by force
  with Inr ok [of p d'] inv show ?thesis by (simp add: moderation_inv_def scopes_ok_def)
qed

lemma moderation_step_inv:
  assumes "moderation_step s l s'" "moderation_inv s" shows "moderation_inv s'"
  using assms
proof (cases rule: moderation_step.cases)
  case (step_command now env d m c)
  with assms(2) manage_inv show ?thesis by simp
next
  case step: (step_report now tnow now' d u tt i ctx reason)
  with assms(2) have inv: "moderation_inv (now, d)" by simp
  then have "sanctions_ok now d" by (simp add: moderation_inv_def)
  from reports_inv [OF inv step(4,5) submit_report_ok [OF this step(4,5)]] step(1-3) show ?thesis by simp
next
  case step: (step_review_report now tnow now' d u auth i reason)
  with assms(2) have inv: "moderation_inv (now, d)" by simp
  then have "sanctions_ok now d" by (simp add: moderation_inv_def)
  from reports_inv [OF inv step(4,5) submit_review_report_ok [OF this step(4,5)]] step(1-3) show ?thesis by simp
next
  case step: (step_evaluate now tnow now' d tt i)
  with assms(2) have inv: "moderation_inv (now, d)" by simp
  then have "sanctions_ok now d" by (simp add: moderation_inv_def)
  from reports_inv [OF inv step(4,5) evaluate_threshold_ok [OF this step(4,5)]] step(1-3) show ?thesis by simp
qed

interpretation moderation: invariant_system moderation_step moderation_inv
  by unfold_locales (rule moderation_step_inv)

section \<open>Effects\<close>

lemma active_window: "active_actions t d k a \<longleftrightarrow> action_starts_at a \<le> t \<and> t < action_expires_at a \<and> \<not> released d k"
  by (auto simp: active_actions_def in_window_def)

lemma active_unique:
  assumes inv: "sanctions_ok now d" and a: "tget (moderation_actions d) k = Some a" "active_actions t d k a"
    and a': "tget (moderation_actions d) k' = Some a'" "active_actions t d k' a'" and tgt: "action_target a = action_target a'"
  shows "k = k'"
proof (rule ccontr)
  assume "k \<noteq> k'"
  with sanctions_apart [OF inv a(1) a'(1)] a(2) a'(2) tgt have "apart a a'" by (simp add: active_window)
  with a(2) a'(2) show False by (auto simp: active_window apart_def)
qed

lemma dormant_iff:
  assumes "sanctions_ok now d"
  shows "effective_user_status t d i = USER_DORMANT \<longleftrightarrow>
    (\<exists>k a. tget (moderation_actions d) k = Some a \<and> active_actions t d k a \<and> action_target a = (USER, i))"
proof -
  have "texists (\<lambda>k a. active_actions t d k a \<and> action_kind a = USER_DORMANCY \<and> action_target_user_id a = Some i) (moderation_actions d)
    \<longleftrightarrow> (\<exists>k a. tget (moderation_actions d) k = Some a \<and> active_actions t d k a \<and> action_target a = (USER, i))" (is "?l = ?r")
  proof -
    have same: "action_kind a = USER_DORMANCY \<and> action_target_user_id a = Some i \<longleftrightarrow> action_target a = (USER, i)"
      if "tget (moderation_actions d) k = Some a" for k a
      using sanctions_okD(1) [OF assms that]
      by (auto simp: moderation_action_check_def action_target_def split: option.splits)
    with assms show ?thesis by (auto simp: texists_iff sanctions_ok_def)
  qed
  then show ?thesis by (simp add: effective_user_status_def)
qed

lemma hidden_iff:
  assumes "sanctions_ok now d"
  shows "effective_product_visibility t d i = HIDDEN \<longleftrightarrow>
    \<not> texists (\<lambda>k p. k = i \<and> product_archived_at p = None) (products d) \<or>
    (\<exists>k a. tget (moderation_actions d) k = Some a \<and> active_actions t d k a \<and> action_target a = (PRODUCT, i))"
proof -
  have same: "action_kind a = PRODUCT_HIDE \<and> action_target_product_id a = Some i \<longleftrightarrow> action_target a = (PRODUCT, i)"
    if "tget (moderation_actions d) k = Some a" for k a
    using sanctions_okD(1) [OF assms that]
    by (auto simp: moderation_action_check_def action_target_def split: option.splits)
  with assms have "texists (\<lambda>k a. active_actions t d k a \<and> action_kind a = PRODUCT_HIDE \<and> action_target_product_id a = Some i) (moderation_actions d)
    \<longleftrightarrow> (\<exists>k a. tget (moderation_actions d) k = Some a \<and> active_actions t d k a \<and> action_target a = (PRODUCT, i))"
    by (auto simp: texists_iff sanctions_ok_def)
  then show ?thesis by (auto simp: effective_product_visibility_def Let_def)
qed

lemma created_rows:
  "create_moderation_action x d = Inr (k, d1) \<Longrightarrow>
     k = next_pk (moderation_actions d) \<and> d1 = d\<lparr>moderation_actions := snd (tcreate x (moderation_actions d))\<rparr>"
  "create_release r d = Inr (k, d1) \<Longrightarrow> d1 = d\<lparr>sanction_releases := snd (tcreate r (sanction_releases d))\<rparr>"
  by (auto simp: create_moderation_action_def create_release_def tcreate_def split: if_splits)

text \<open>What a release that did its work changed.\<close>

lemma release_elim:
  assumes "release_sanction env m k reason v d = (Inr (j, True), d')"
  obtains a where "tget (moderation_actions d) k = Some a" "\<not> released d k" "env_cnow env < action_expires_at a"
    "moderation_actions d' = moderation_actions d" "products d' = products d"
    "\<forall>x. released d' x \<longleftrightarrow> released d x \<or> x = k"
proof -
  from assms manage_Inr [of env m "Release k reason v" d j True d'] obtain r where
    out: "release_sanction_authority env m k r v d = Inr ((j, True), d')" by auto
  then obtain a tt i b r' where a: "tget (moderation_actions d) k = Some a" "env_cnow env < action_expires_at a"
    "tfirst (\<lambda>_ x. release_action_id x = k) (sanction_releases d) = None" and l: "lift_sanction env m tt i k r' b d = Inr ((j, True), d')"
    by (auto simp: release_sanction_authority_def Let_def split: sum.splits option.splits if_splits prod.splits)
  have nr: "\<not> released d k" using a(3) by (simp add: released_def tfirst_None)
  define n where "n = \<lparr>release_action_id = k, release_actor_id = mgr_id m, release_reason = r'\<rparr>"
  from l have f: "moderation_actions d' = moderation_actions d" "products d' = products d"
    "sanction_releases d' = snd (tcreate n (sanction_releases d))"
    by (auto simp: lift_sanction_def n_def dest!: write_audit_ok(1) created_rows(2) split: sum.splits)
  have "released d' x \<longleftrightarrow> released d x \<or> x = k" for x using f(3) by (auto simp: released_def tbl_simps n_def)
  with that [OF a(1) nr a(2) f(1,2)] show ?thesis by blast
qed

lemma sanction_lifted:
  assumes inv: "sanctions_ok now d" and a: "tget (moderation_actions d) k = Some a" "active_actions t d k a"
    and same: "moderation_actions d' = moderation_actions d" "\<forall>x. released d' x \<longleftrightarrow> released d x \<or> x = k"
  shows "\<not> (\<exists>k' a'. tget (moderation_actions d') k' = Some a' \<and> active_actions t d' k' a' \<and> action_target a' = action_target a)"
proof
  assume "\<exists>k' a'. tget (moderation_actions d') k' = Some a' \<and> active_actions t d' k' a' \<and> action_target a' = action_target a"
  then obtain k' a' where a': "tget (moderation_actions d) k' = Some a'" "active_actions t d' k' a'" "action_target a' = action_target a"
    using same(1) by auto
  then have "active_actions t d k' a'" "k' \<noteq> k" using same(2) by (auto simp: active_window)
  with active_unique [OF inv a a'(1)] a'(3) show False by simp
qed

text \<open>An applied sanction, new or found running.\<close>

lemma apply_elim:
  assumes inv: "sanctions_ok now d" and now: "now \<le> env_cnow env"
    and out: "apply_sanction env m (Some tt) i reason v d = (Inr (k, did), d')"
  obtains a where "tget (moderation_actions d') k = Some a" "action_target a = (tt, i)"
    "active_actions (env_cnow env) d' k a" "did \<longrightarrow> action_expires_at a = env_cnow env + days 7"
proof -
  from out manage_Inr [of env m "Apply (Some tt) i reason v" d k did d'] obtain r where
    auth: "apply_sanction_authority env m (Some tt) i r v d = Inr ((k, did), d')" by auto
  from inv have wf: "wf_table (moderation_actions d)" by (simp add: sanctions_ok_def)
  from auth have tt: "tt \<noteq> REVIEW" by (auto simp: apply_sanction_authority_def split: sum.splits option.splits)
  show ?thesis
  proof (cases did)
    case False
    with auth obtain a where f: "active_sanction (env_cnow env) tt i d = Some (k, a)" "d' = d"
      by (auto simp: apply_sanction_authority_def split: sum.splits option.splits if_splits dest: writes_audited(1))
    from f(1) wf have a: "tget (moderation_actions d) k = Some a" "active_actions (env_cnow env) d k a" "targets tt i a"
      by (auto simp: active_sanction_def dest: tfirst_tget tfirst_SomeD)
    with targets_action_target [OF sanctions_okD(1) [OF inv a(1)] tt] that [of a] f(2) False show ?thesis by simp
  next
    case True
    with auth obtain r' c where imp: "impose_sanction env m tt i r' c d = Inr ((k, True), d')"
      by (auto simp: apply_sanction_authority_def split: sum.splits option.splits if_splits)
    define x where "x = \<lparr>action_kind = sanction_kind tt,
         action_target_user_id = (if tt = USER then Some i else None),
         action_target_product_id = (if tt = USER then None else Some i),
         action_starts_at = env_cnow env, action_expires_at = env_cnow env + days 7\<rparr>"
    from imp have k: "k = next_pk (moderation_actions d)"
      and d': "moderation_actions d' = snd (tcreate x (moderation_actions d))" "sanction_releases d' = sanction_releases d"
      by (auto simp: impose_sanction_def x_def dest!: write_audit_ok(1) created_rows(1) split: sum.splits)
    have x: "tget (moderation_actions d') k = Some x" using wf by (simp add: d' k tbl_simps)
    have "\<not> released d k"
    proof
      assume "released d k"
      then obtain j rel where "(j, rel) \<in> set (rows (sanction_releases d))" "release_action_id rel = k"
        by (auto simp: released_def texists_def list_ex_iff)
      with inv have "tget (moderation_actions d) k \<noteq> None" by (auto simp: sanctions_ok_def tall_def list_all_iff)
      with k wf show False by (simp add: tbl_simps)
    qed
    then have "active_actions (env_cnow env) d' k x"
      by (simp add: active_window released_def d'(2) x_def days_def)
    moreover have "action_target x = (tt, i)" using tt by (cases tt) (auto simp: x_def action_target_def)
    ultimately show ?thesis using that [OF x] by (simp add: x_def)
  qed
qed

lemma enforce_dormant:
  assumes "\<And>d1. moderation_actions d1 = moderation_actions d \<Longrightarrow> sanction_releases d1 = sanction_releases d \<Longrightarrow>
      effective_user_status tnow d1 i = USER_DORMANT"
  shows "fst (enforce_http_user_status tnow fresh now (Some (i, u)) ws d) = Some 403"
proof -
  obtain b ws1 d1 where v: "validate_request fresh now i u ws d = (b, ws1, d1)" by (metis prod_cases3)
  have "moderation_actions d1 = moderation_actions d \<and> sanction_releases d1 = sanction_releases d"
    using v by (auto simp: validate_request_def save_session_def start_session_def Let_def
        split: if_splits option.splits prod.splits sum.splits)
  with assms have "effective_user_status tnow d1 i = USER_DORMANT" by blast
  with v show ?thesis
    by (auto simp: enforce_http_user_status_def end_session_def logout_session_def Let_def split: prod.splits bool.splits)
qed

section \<open>Properties\<close>

lemma watched_ok: "moderation_inv (0, watched_db)"
  by (simp add: moderation_inv_def sanctions_ok_def all_apart_def scopes_ok_def watched_db_def empty_db_def
      empty_table_def wf_table_def tall_def unique_on_def scope_key_def mina_grant_def grant_check_def tget_def)

lemma sanctioned_run:
  "moderation.run (0, watched_db) [Command desk_env warden_desk (Apply (Some USER) 3 spam 3)] (100, sanctioned_db)"
proof -
  have "moderation_step (0, watched_db) (Command desk_env warden_desk (Apply (Some USER) 3 spam 3)) (100, sanctioned_db)"
    using step_command [of 0 desk_env watched_db warden_desk "Apply (Some USER) 3 spam 3"]
    by (simp add: sanctioned_mina) (simp add: desk_env_def)
  then show ?thesis by (blast intro: moderation.run_nil moderation.run_cons)
qed



text \<open>
  C22: a user sanctioned by a moderator, newly or already, is dormant from that moment until the
  sanction expires, seven days after a new one began, as long as nobody releases it, and every
  request of the user's sessions is refused with 403 in that time.
\<close>

theorem sanction_in_force:
  assumes "apply_sanction env m (Some USER) i reason v d = (Inr (k, did), d')"
    and "sanctions_ok now d" "now \<le> env_cnow env"
    and "tget (moderation_actions d') k = Some a" "env_cnow env \<le> tnow" "tnow < action_expires_at a"
  shows "effective_user_status tnow d' i = USER_DORMANT \<and>
    fst (enforce_http_user_status tnow fresh later (Some (i, u)) ws d') = Some 403 \<and>
    (did \<longrightarrow> action_expires_at a = env_cnow env + days 7)"
proof -
  obtain x where x: "tget (moderation_actions d') k = Some x" "action_target x = (USER, i)"
    "active_actions (env_cnow env) d' k x" "did \<longrightarrow> action_expires_at x = env_cnow env + days 7"
    by (rule apply_elim [OF assms(2,3,1)])
  have xa: "x = a" using x(1) assms(4) by simp
  have act: "active_actions tnow d' k a" using x(3) assms(5,6) by (auto simp: xa active_window)
  from assms(1) manage_Inr [of env m "Apply (Some USER) i reason v" d k did d'] obtain c
    where "authority env m c d = Inr ((k, did), d')" by (auto simp del: authority.simps)
  from authority_sanctions_ok [OF assms(2,3) this] have ok: "sanctions_ok (env_cnow env) d'" .
  have dorm: "effective_user_status tnow d1 i = USER_DORMANT"
    if same: "moderation_actions d1 = moderation_actions d'" "sanction_releases d1 = sanction_releases d'" for d1
  proof -
    have "active_actions tnow d1 k a" using act same by (simp add: active_actions_def released_def)
    with dormant_iff [OF sanctions_ok_same [OF ok same], of tnow i] x(1,2) same xa show ?thesis by auto
  qed
  from dorm [of d'] enforce_dormant [OF dorm] x(4) xa show ?thesis by simp
qed

lemma sanction_in_force_witness:
  "effective_user_status 200 sanctioned_db 3 = USER_DORMANT \<and>
   fst (enforce_http_user_status 200 7 200 (Some (3, mina)) \<lparr>ws_key = Some 5, ws_epoch = Int_Value 3\<rparr> sanctioned_db) = Some 403"
proof -
  have "sanctions_ok 0 watched_db" using watched_ok by (simp add: moderation_inv_def)
  moreover have "tget (moderation_actions sanctioned_db) 1 = Some mina_sanction" by (simp add: sanctioned_db_def tget_def)
  ultimately show ?thesis
    using sanction_in_force [OF sanctioned_mina, of 0 mina_sanction 200 7 200 mina]
    by (simp add: mina_sanction_def days_def desk_env_def)
qed

text \<open>
  A release that did its work ends the sanction at once and completely: at every moment of its
  window the user was dormant before and is active after, the product was hidden before and is
  visible after exactly when it is not archived.
\<close>

theorem release_ends_sanction:
  assumes "release_sanction env m k reason v d = (Inr (j, True), d')" "sanctions_ok now d" "now \<le> env_cnow env"
    and "tget (moderation_actions d) k = Some a" "action_starts_at a \<le> t" "t < action_expires_at a"
  shows "case action_target a of
      (USER, i) \<Rightarrow> effective_user_status t d i = USER_DORMANT \<and> effective_user_status t d' i = USER_ACTIVE
    | (_, i) \<Rightarrow> effective_product_visibility t d i = HIDDEN \<and>
        (effective_product_visibility t d' i = VISIBLE \<longleftrightarrow>
         texists (\<lambda>k p. k = i \<and> product_archived_at p = None) (products d))"
proof -
  obtain x where x: "tget (moderation_actions d) k = Some x" "\<not> released d k" "env_cnow env < action_expires_at x"
    "moderation_actions d' = moderation_actions d" "products d' = products d" "\<forall>x. released d' x \<longleftrightarrow> released d x \<or> x = k"
    by (rule release_elim [OF assms(1)])
  have act: "active_actions t d k a" using x(2) assms(5,6) by (simp add: active_window)
  note none = sanction_lifted [OF assms(2,4) act x(4,6)]
  from assms(1) manage_Inr [of env m "Release k reason v" d j True d'] obtain c
    where "authority env m c d = Inr ((j, True), d')" by (auto simp del: authority.simps)
  from authority_sanctions_ok [OF assms(2,3) this] have ok': "sanctions_ok (env_cnow env) d'" .
  obtain tt i where tgt: "action_target a = (tt, i)" by force
  have tt: "tt = USER \<or> tt = PRODUCT" using tgt by (auto simp: action_target_def split: option.splits)
  show ?thesis
  proof (cases "tt = USER")
    case True
    have "effective_user_status t d i = USER_DORMANT" using dormant_iff [OF assms(2)] assms(4) act tgt True by auto
    moreover have "effective_user_status t d' i \<noteq> USER_DORMANT" using dormant_iff [OF ok'] none tgt True by auto
    ultimately show ?thesis using tgt True by (cases "effective_user_status t d' i") auto
  next
    case False
    with tt have p: "tt = PRODUCT" by simp
    have "effective_product_visibility t d i = HIDDEN" using hidden_iff [OF assms(2)] assms(4) act tgt p by auto
    moreover have "effective_product_visibility t d' i = HIDDEN \<longleftrightarrow>
      \<not> texists (\<lambda>k p. k = i \<and> product_archived_at p = None) (products d)"
      using hidden_iff [OF ok'] none tgt p x(5) by auto
    ultimately show ?thesis using tgt p by (cases "effective_product_visibility t d' i") auto
  qed
qed

lemma sanctioned_ok: "sanctions_ok 100 sanctioned_db"
  using manage_inv [OF watched_ok, of desk_env warden_desk "Apply (Some USER) 3 spam 3"]
  by (simp add: moderation_inv_def sanctioned_mina) (simp add: desk_env_def)

lemma released_mina:
  "\<exists>d. release_sanction desk_env warden_desk 1 spam 1 sanctioned_db = (Inr (1, True), d)"
proof -
  have a: "tget (moderation_actions sanctioned_db) 1 = Some mina_sanction" by (simp add: sanctioned_db_def tget_def)
  have r: "tfirst (\<lambda>_ x. release_action_id x = 1) (sanction_releases sanctioned_db) = None"
    by (simp add: tfirst_def sanctioned_db_def watched_db_def empty_db_def empty_table_def)
  have t: "action_target mina_sanction = (USER, 3)" "env_cnow desk_env < action_expires_at mina_sanction"
    by (simp_all add: mina_sanction_def action_target_def desk_env_def days_def)
  have l: "\<exists>d. lift_sanction desk_env warden_desk USER 3 1 spam b sanctioned_db = Inr ((1, True), d)" for b
    by (simp add: lift_sanction_def create_release_def texists_def tcreate_def sanctioned_db_def watched_db_def empty_db_def
        empty_table_def write_audit_def success_row_def BIG_ID_def)
  have "require_scope desk_env warden_desk RELEASE_SANCTION USER 3 sanctioned_db = Inr 2"
    by (rule desk_scopes(2)) (simp add: sanctioned_db_def)
  with a r t l [of "Sanction_Active (in_window (env_cnow desk_env) mina_sanction) 1"] show ?thesis
    by (auto simp: release_sanction_def release_sanction_authority_def release_audit_target_def spam_reason
        desk_reauthenticated audit_refusal_def)
qed

lemma release_ends_sanction_witness:
  "\<exists>d. release_sanction desk_env warden_desk 1 spam 1 sanctioned_db = (Inr (1, True), d) \<and>
     effective_user_status 200 sanctioned_db 3 = USER_DORMANT \<and> effective_user_status 200 d 3 = USER_ACTIVE"
proof -
  from released_mina obtain d where d: "release_sanction desk_env warden_desk 1 spam 1 sanctioned_db = (Inr (1, True), d)" by blast
  have "tget (moderation_actions sanctioned_db) 1 = Some mina_sanction" by (simp add: sanctioned_db_def tget_def)
  from release_ends_sanction [OF d sanctioned_ok _ this, of 200] d show ?thesis
    by (simp add: mina_sanction_def action_target_def desk_env_def days_def)
qed

text \<open>
  A revoked scope is dead at once. Whoever presents themselves as that staff member, with
  whatever permissions, is refused the scope, and the staff member's account moves to the next epoch,
  so every request of a session started before is refused with 403 and its session ends.
\<close>

theorem revoked_scope_is_dead:
  assumes "revoke_scope env m k reason v d = (Inr (j, True), d')" "scopes_ok d"
    and "tget (admin_scope_grants d) k = Some g" "tget (users d) (grant_staff_id g) = Some u"
  shows "(\<forall>env' m'. mgr_id m' = grant_staff_id g \<longrightarrow>
        require_scope env' m' (grant_codename g) (fst (grant_target g)) (snd (grant_target g)) d'
          \<in> {Inl ManagementDenied, Inl ManagementNotFound}) \<and>
    tget (users d') (grant_staff_id g) = Some (bump_auth_epoch u) \<and>
    (\<forall>tnow fresh later ws. ws_epoch ws = Int_Value (int (user_auth_epoch u)) \<longrightarrow>
        fst (enforce_http_user_status tnow fresh later (Some (grant_staff_id g, bump_auth_epoch u)) ws d') = Some 403)"
proof -
  from assms(1) manage_Inr [of env m "Revoke k reason v" d j True d'] obtain r where
    auth: "revoke_scope_authority env m k r v d = Inr ((j, True), d')" by auto
  then have live: "grant_revoked_at g = None" and ended: "\<exists>a. write_audit a (end_grant env m k (grant_staff_id g) d) = Inr d'"
    using assms(3)
    by (auto simp: revoke_scope_authority_def Let_def split: sum.splits option.splits if_splits prod.splits)
  then have grants: "admin_scope_grants d' = admin_scope_grants (end_grant env m k (grant_staff_id g) d)"
    and us: "users d' = tmodify (grant_staff_id g) bump_auth_epoch (users d)"
    by (auto simp: end_grant_def dest!: write_audit_ok(1))
  have ok: "scopes_ok d'" using end_grant_ok [OF assms(2)] grants by (simp add: scopes_ok_def)
  define t where "t = admin_scope_grants d'"
  have wf: "wf_table t" "unique_on scope_key (admin_scope_grants d)" "tall (\<lambda>_. grant_check) t"
    using ok assms(2) by (simp_all add: scopes_ok_def t_def)
  have look: "tget t i = (if i = k then map_option (\<lambda>g. g\<lparr>grant_revoked_at := Some (env_cnow env),
      grant_revoked_by := Some (mgr_id m), grant_version := grant_version g + 1\<rparr>) (tget (admin_scope_grants d) i)
      else tget (admin_scope_grants d) i)" for i
    by (simp add: t_def grants end_grant_def tbl_simps)
  have dead: "\<not> texists (\<lambda>_ h. live_scope (grant_staff_id g) (grant_codename g) (fst (grant_target g)) (snd (grant_target g)) h) t"
  proof
    assume "texists (\<lambda>_ h. live_scope (grant_staff_id g) (grant_codename g) (fst (grant_target g)) (snd (grant_target g)) h) t"
    then obtain i h where h: "tget t i = Some h"
      "live_scope (grant_staff_id g) (grant_codename g) (fst (grant_target g)) (snd (grant_target g)) h"
      using wf(1) by (auto simp: texists_iff)
    from tallD [OF wf(3) h(1)] h(2) have "grant_target h = grant_target g"
      by (cases "fst (grant_target g)") (auto simp: live_scope_def grant_check_def grant_target_def prod_eq_iff)
    with h(2) live have key: "scope_key h = scope_key g" "scope_key g \<noteq> None" by (auto simp: scope_key_def live_scope_def)
    show False
    proof (cases "i = k")
      case True
      with h look [of k] assms(3) show False by (auto simp: live_scope_def)
    next
      case False
      with h(1) look [of i] have "tget (admin_scope_grants d) i = Some h" by simp
      from unique_onD [OF wf(2) this assms(3)] key False show False by auto
    qed
  qed
  then have none: "tfirst (\<lambda>_ h. live_scope (grant_staff_id g) (grant_codename g) (fst (grant_target g)) (snd (grant_target g)) h)
      (admin_scope_grants d') = None" by (simp add: tfirst_None t_def)
  have "tget (users d') (grant_staff_id g) = Some (bump_auth_epoch u)" using us assms(4) by (simp add: tbl_simps)
  moreover have "fst (enforce_http_user_status tnow fresh later (Some (grant_staff_id g, bump_auth_epoch u)) ws d') = Some 403"
    if "ws_epoch ws = Int_Value (int (user_auth_epoch u))" for tnow fresh later ws
    using enforce_refuses [of ws "bump_auth_epoch u"] that by (simp add: bump_auth_epoch_def)
  ultimately show ?thesis using none by (simp add: require_scope_def)
qed

lemma revoked_mina_scope: "\<exists>d. revoke_scope desk_env root_desk 1 spam 1 watched_db = (Inr (1, True), d)"
proof -
  have g: "tget (admin_scope_grants watched_db) 1 = Some (mina_grant APPLY_SANCTION)" by (simp add: watched_db_def tget_def)
  have m: "has_direct_meta_permission root_desk watched_db"
    by (simp add: has_direct_meta_permission_def root_desk_def root_def mina_def watched_db_def texists_def)
  have f: "mgr_id root_desk = 1" "grant_staff_id (mina_grant APPLY_SANCTION) = 2" "grant_version (mina_grant APPLY_SANCTION) = 1"
    "grant_revoked_at (mina_grant APPLY_SANCTION) = None" "grant_target (mina_grant APPLY_SANCTION) = (USER, 3)"
    by (simp_all add: root_desk_def mina_grant_def grant_target_def)
  from g m f have "\<exists>d. revoke_scope_authority desk_env root_desk 1 spam 1 watched_db = Inr ((1, True), d)"
    by (simp add: revoke_scope_authority_def spam_reason desk_reauthenticated write_audit_def success_row_def BIG_ID_def
        del: One_nat_def)
  then show ?thesis by (auto simp: revoke_scope_def spam_reason audit_refusal_def split: prod.splits)
qed

lemma revoked_scope_is_dead_witness:
  "\<exists>d. revoke_scope desk_env root_desk 1 spam 1 watched_db = (Inr (1, True), d) \<and>
     require_scope desk_env warden_desk APPLY_SANCTION USER 3 d \<in> {Inl ManagementDenied, Inl ManagementNotFound} \<and>
     fst (enforce_http_user_status 200 7 200 (Some (2, bump_auth_epoch warden))
        \<lparr>ws_key = Some 5, ws_epoch = Int_Value 3\<rparr> d) = Some 403"
proof -
  from revoked_mina_scope obtain d where d: "revoke_scope desk_env root_desk 1 spam 1 watched_db = (Inr (1, True), d)" by blast
  have s: "scopes_ok watched_db" using watched_ok by (simp add: moderation_inv_def)
  have g: "tget (admin_scope_grants watched_db) 1 = Some (mina_grant APPLY_SANCTION)" by (simp add: watched_db_def tget_def)
  have t: "grant_staff_id (mina_grant APPLY_SANCTION) = 2" "grant_codename (mina_grant APPLY_SANCTION) = APPLY_SANCTION"
    "grant_target (mina_grant APPLY_SANCTION) = (USER, 3)" by (simp_all add: mina_grant_def grant_target_def)
  have u: "tget (users watched_db) (grant_staff_id (mina_grant APPLY_SANCTION)) = Some warden"
    by (simp add: watched_db_def tget_def mina_grant_def)
  have w: "mgr_id warden_desk = 2" "user_auth_epoch warden = 3" by (simp_all add: warden_desk_def warden_def mina_def)
  note dead = revoked_scope_is_dead [OF d s g u, unfolded t fst_conv snd_conv]
  from dead w d show ?thesis by fastforce
qed

end
