(* ===== verification/Report_Pages.thy ===== *)
theory Report_Pages imports Moderation_Services Identity begin

text \<open>
  The report pages of \<open>moderation/views.py\<close> and their forms: what a form accepts, which target a page
  finds, and the answer to every outcome of the services. A posted form is its three texts, absent fields
  being empty; a choice outside the list is no choice.
\<close>

section \<open>Forms\<close>

text \<open>
  \<open>CharField(min_length=1, max_length=1000, strip=True)\<close>, which also refuses null characters, and
  \<open>clean_reason\<close>.
\<close>

definition clean_reason :: "pystr \<Rightarrow> pystr option" where
  "clean_reason raw =
     (let reason = py_strip raw in
      if reason = [] \<or> length reason > 1000 \<or> 0 \<in> set reason then None
      else if list_ex (\<lambda>c. c < 32 \<and> c \<noteq> 10) reason then None
      else Some reason)"

text \<open>The choices of \<open>UserReportForm.context\<close>: the values of the contexts allowed for users.\<close>

fun context_value :: "report_context \<Rightarrow> pystr" where
  "context_value PROFILE = lit ''PROFILE''"
| "context_value PRODUCT_CONTEXT = lit ''PRODUCT''"
| "context_value PRODUCT_INTERACTION = lit ''PRODUCT_INTERACTION''"
| "context_value GLOBAL_CHAT = lit ''GLOBAL_CHAT''"
| "context_value DIRECT_CHAT = lit ''DIRECT_CHAT''"
| "context_value REVIEW_CONTEXT = lit ''REVIEW''"

definition clean_context :: "pystr \<Rightarrow> report_context option" where
  "clean_context raw = find (\<lambda>c. context_value c = raw) USER_CONTEXTS"

record report_form =
  raw_reason :: pystr
  raw_context :: pystr

section \<open>Pages\<close>

datatype report_reply =
    Report_Form pystr nat     \<comment> \<open>the form with its target label and status\<close>
  | To_Root | To_Login | Report_405 | Report_404 | Report_500 exn

text \<open>\<open>None\<close> is a GET, \<open>Some form\<close> a POST; any other method is \<open>other_method\<close>.\<close>

definition form_status :: "report_form option \<Rightarrow> nat" where
  "form_status posted = (case posted of None \<Rightarrow> 200 | Some _ \<Rightarrow> 400)"

definition after_submit ::
    "pystr \<Rightarrow> exn + ('a \<times> db) \<Rightarrow> db \<Rightarrow> report_reply \<times> db" where
  "after_submit label out d =
     (case out of
        Inl e \<Rightarrow> (if is_subclass e ReportSubmissionError then Report_Form label 400 else Report_500 e, d)
      | Inr (_, d1) \<Rightarrow> (To_Root, d1))"

definition report_user ::
    "instant \<Rightarrow> instant \<Rightarrow> nat option \<Rightarrow> bool \<Rightarrow> nat \<Rightarrow> report_form option \<Rightarrow> db \<Rightarrow> report_reply \<times> db" where
  "report_user tnow cnow user other_method target_id posted d =
     (case user of
        None \<Rightarrow> (To_Login, d)
      | Some reporter \<Rightarrow>
          if other_method then (Report_405, d)
          else case tget (users d) target_id of
            None \<Rightarrow> (Report_404, d)
          | Some target \<Rightarrow>
              let label = identity_display_name (project_account_identity (Some (Some target_id, target))) in
              (case posted of
                 None \<Rightarrow> (Report_Form label 200, d)
               | Some form \<Rightarrow>
                   (case (clean_reason (raw_reason form), clean_context (raw_context form)) of
                      (Some reason, Some ctx) \<Rightarrow>
                        after_submit label (submit_report tnow cnow reporter (Some USER) target_id (Some ctx) reason d) d
                    | _ \<Rightarrow> (Report_Form label 400, d))))"

definition report_product ::
    "instant \<Rightarrow> instant \<Rightarrow> nat option \<Rightarrow> bool \<Rightarrow> nat \<Rightarrow> report_form option \<Rightarrow> db \<Rightarrow> report_reply \<times> db" where
  "report_product tnow cnow user other_method target_id posted d =
     (case user of
        None \<Rightarrow> (To_Login, d)
      | Some reporter \<Rightarrow>
          if other_method then (Report_405, d)
          else case map_of (visible_products tnow d (rows (products d))) target_id of
            None \<Rightarrow> (Report_404, d)
          | Some target \<Rightarrow>
              (case posted of
                 None \<Rightarrow> (Report_Form (product_title target) 200, d)
               | Some form \<Rightarrow>
                   (case clean_reason (raw_reason form) of
                      Some reason \<Rightarrow>
                        after_submit (product_title target)
                          (submit_report tnow cnow reporter (Some PRODUCT) target_id (Some PRODUCT_CONTEXT) reason d) d
                    | None \<Rightarrow> (Report_Form (product_title target) 400, d))))"

definition REVIEW_LABEL :: pystr where "REVIEW_LABEL = [44144, 47000, 32, 54980, 44592]"

definition report_review ::
    "instant \<Rightarrow> instant \<Rightarrow> nat option \<Rightarrow> bool \<Rightarrow> nat \<Rightarrow> report_form option \<Rightarrow> db \<Rightarrow> report_reply \<times> db" where
  "report_review tnow cnow user other_method target_id posted d =
     (case user of
        None \<Rightarrow> (To_Login, d)
      | Some reporter \<Rightarrow>
          if other_method then (Report_405, d)
          else
            (case posted of
               None \<Rightarrow> (Report_Form REVIEW_LABEL 200, d)
             | Some form \<Rightarrow>
                 (case clean_reason (raw_reason form) of
                    Some reason \<Rightarrow>
                      after_submit REVIEW_LABEL
                        (submit_review_report tnow cnow reporter True (int target_id) reason d) d
                  | None \<Rightarrow> (Report_Form REVIEW_LABEL 400, d))))"

section \<open>The form and the service agree on reasons\<close>

lemma normalize_clean_reason: "clean_reason raw = Some reason \<Longrightarrow> normalize_reason reason = Inr reason"
  by (auto simp: clean_reason_def normalize_reason_def Let_def split: if_splits)

text \<open>
  A browser sends the line breaks of a text area as CR LF, so a reason of several lines is refused although
  the form means to allow line feeds.
\<close>

lemma multiline_reason_refused:
  assumes "py_strip raw = first @ [13, 10] @ second"
  shows "clean_reason raw = None"
  using assms by (simp add: clean_reason_def Let_def)

end
