(* ===== verification/Report_Threshold.thy ===== *)
theory Report_Threshold imports Report_Pages begin

text \<open>
  The automatic sanction in closed form: a report is accepted or refused without any other effect, and an
  accepted one sanctions its target exactly when, counting it, five independent eligible reporters have
  reported it in the last seven days, for a user in two contexts at least.
\<close>

section \<open>The reports of a database\<close>

definition reports_ok :: "db \<Rightarrow> bool" where
  "reports_ok d \<longleftrightarrow> wf_table (abuse_reports d) \<and> tall (\<lambda>_. abuse_report_check) (abuse_reports d) \<and>
     (\<forall>k r k' r'. tget (abuse_reports d) k = Some r \<and> tget (abuse_reports d) k' = Some r' \<and> same_report_target r r' \<longrightarrow> k = k')"

lemma same_report_target_sym: "same_report_target r x \<longleftrightarrow> same_report_target x r"
  unfolding same_report_target_def by metis

lemma reports_ok_create:
  assumes "create_report r d = Inr (k, d')" "reports_ok d"
  shows "reports_ok d' \<and> d' = d\<lparr>abuse_reports := snd (tcreate r (abuse_reports d))\<rparr> \<and> abuse_report_check r \<and>
    (\<forall>i x. tget (abuse_reports d) i = Some x \<longrightarrow> \<not> same_report_target r x)"
proof -
  let ?t = "abuse_reports d"
  have c: "d' = d\<lparr>abuse_reports := snd (tcreate r ?t)\<rparr>" "abuse_report_check r" "\<not> texists (\<lambda>_ x. same_report_target r x) ?t"
    using assms(1) by (auto simp: create_report_def split: if_splits prod.splits)
  have wf: "wf_table ?t" using assms(2) by (simp add: reports_ok_def)
  have fresh: "\<not> same_report_target r x" "\<not> same_report_target x r" if "tget ?t i = Some x" for i x
    using c(3) texists_tget [OF that, of "\<lambda>_ x. same_report_target r x"] same_report_target_sym [of x r] by blast+
  have "reports_ok d'"
    using assms(2) c(2) fresh by (auto simp: reports_ok_def c(1) wf_tcreate tall_tcreate tget_tcreate split: if_splits)
  with c fresh show ?thesis by blast
qed

section \<open>Grouping by context\<close>

definition reporters_of :: "(nat \<times> abuse_report) list \<Rightarrow> nat set" where
  "reporters_of rs = (report_reporter_id \<circ> snd) ` set rs"

definition contexts_of :: "(nat \<times> abuse_report) list \<Rightarrow> report_context set" where
  "contexts_of rs = (report_context \<circ> snd) ` set rs"

lemma add_reporter_keys: "set (map fst (add_reporter c i m)) = insert c (set (map fst m))"
  by (induction c i m rule: add_reporter.induct) auto

lemma add_reporter_distinct: "distinct (map fst m) \<Longrightarrow> distinct (map fst (add_reporter c i m))"
  by (induction c i m rule: add_reporter.induct) (use add_reporter_keys in auto)

lemma add_reporter_all: "all_reporters (add_reporter c i m) = insert i (all_reporters m)"
  by (induction c i m rule: add_reporter.induct) auto

lemma add_reporter_independent:
  "i \<notin> all_reporters m \<Longrightarrow> independent m \<Longrightarrow> independent (add_reporter c i m)"
  by (induction c i m rule: add_reporter.induct) (auto simp: add_reporter_all)

lemma used_contexts_Cons: "used_contexts ((c, ids) # m) = (if ids \<noteq> [] then {c} else {}) \<union> used_contexts m"
  by (auto simp: used_contexts_def)

lemma add_reporter_used: "used_contexts (add_reporter c i m) = insert c (used_contexts m)"
proof (induction c i m rule: add_reporter.induct)
  case (1 c i)
  then show ?case by (auto simp: used_contexts_def)
next
  case (2 c i c' ids rest)
  have "List.insert i ids \<noteq> []" by (auto simp: List.insert_def)
  with 2 show ?case by (auto simp: used_contexts_Cons)
qed

lemma group_reports_facts:
  assumes "distinct (map (report_reporter_id \<circ> snd) rs)" "reporters_of rs \<inter> all_reporters m = {}"
    and "independent m" "distinct (map fst m)"
  shows "all_reporters (group_reports rs m) = all_reporters m \<union> reporters_of rs \<and>
    used_contexts (group_reports rs m) = used_contexts m \<union> contexts_of rs \<and>
    independent (group_reports rs m) \<and> distinct (map fst (group_reports rs m)) \<and>
    set (map fst (group_reports rs m)) = set (map fst m) \<union> contexts_of rs"
  using assms
proof (induction rs m rule: group_reports.induct)
  case (2 k r rest m)
  let ?m = "add_reporter (report_context r) (report_reporter_id r) m"
  have "distinct (map (report_reporter_id \<circ> snd) rest)" "reporters_of rest \<inter> all_reporters ?m = {}"
    "independent ?m" "distinct (map fst ?m)"
    using "2.prems" by (auto simp: reporters_of_def add_reporter_all comp_def intro: add_reporter_independent add_reporter_distinct)
  from "2.IH" [OF this] show ?case
    by (auto simp: add_reporter_all add_reporter_used add_reporter_keys reporters_of_def contexts_of_def simp del: set_map)
qed (simp add: reporters_of_def contexts_of_def)

section \<open>The decision\<close>

text \<open>The reports that count: of the last seven days, not consumed, by reporters who may contribute now.\<close>

definition counted_reports :: "instant \<Rightarrow> instant \<Rightarrow> db \<Rightarrow> target_type \<Rightarrow> nat \<Rightarrow> (nat \<times> abuse_report) set" where
  "counted_reports tnow cnow d tt i =
     {(k, r). tget (abuse_reports d) k = Some r \<and> recent_report cnow tt i k r \<and> contributes tnow cnow d r}"

definition enough_reports :: "target_type \<Rightarrow> (nat \<times> abuse_report) set \<Rightarrow> bool" where
  "enough_reports tt R \<longleftrightarrow> 5 \<le> card ((report_reporter_id \<circ> snd) ` R) \<and>
     (tt = USER \<longrightarrow> 2 \<le> card ((report_context \<circ> snd) ` R))"

lemma qualifying_set:
  assumes "reports_ok d" "qualifying_reports tnow cnow d tt i = (reports, by_context)"
  shows "set reports = counted_reports tnow cnow d tt i" "distinct reports" "by_context = group_reports reports []"
proof -
  from assms have wf: "wf_table (abuse_reports d)" by (simp add: reports_ok_def)
  from assms(2) have r: "reports = filter (\<lambda>(k, r). contributes tnow cnow d r)
      (sort_key (\<lambda>(k, r). report_created_at r) (tselect (recent_report cnow tt i) (abuse_reports d)))"
    and "by_context = group_reports reports []"
    by (auto simp: qualifying_reports_def Let_def)
  then show "by_context = group_reports reports []" by simp
  show "set reports = counted_reports tnow cnow d tt i"
    using wf by (auto simp: r counted_reports_def tselect_def tget_iff)
  have "distinct (tselect (recent_report cnow tt i) (abuse_reports d))"
    using wf by (auto simp: wf_table_def tselect_def distinct_map intro!: distinct_filter)
  then show "distinct reports" by (simp add: r)
qed

lemma counted_apart:
  assumes "reports_ok d" "tt \<noteq> REVIEW" "x \<in> counted_reports tnow cnow d tt i" "y \<in> counted_reports tnow cnow d tt i"
    and "report_reporter_id (snd x) = report_reporter_id (snd y)"
  shows "x = y"
proof -
  obtain k r k' r' where xy: "x = (k, r)" "y = (k', r')" by (metis surj_pair)
  with assms(2-5) have "tget (abuse_reports d) k = Some r" "tget (abuse_reports d) k' = Some r'" "same_report_target r r'"
    by (auto simp: counted_reports_def recent_report_def same_report_target_def split: if_splits)
  with assms(1) have "k = k'" unfolding reports_ok_def by blast
  with \<open>tget (abuse_reports d) k = Some r\<close> \<open>tget (abuse_reports d) k' = Some r'\<close> show ?thesis by (simp add: xy)
qed

lemma counted_contexts:
  assumes "reports_ok d"
  shows "(report_context \<circ> snd) ` counted_reports tnow cnow d tt i \<subseteq> set (allowed_contexts tt)"
proof -
  have "report_context r \<in> set (allowed_contexts tt)" if "(k, r) \<in> counted_reports tnow cnow d tt i" for k r
  proof -
    from that have r: "tget (abuse_reports d) k = Some r" "report_target_type r = tt"
      by (simp_all add: counted_reports_def recent_report_def)
    from r(1) assms have "abuse_report_check r" by (auto simp: reports_ok_def dest: tallD)
    with r(2) show ?thesis
      by (cases tt; cases "report_context r") (auto simp: abuse_report_check_def USER_CONTEXTS_def)
  qed
  then show ?thesis by auto
qed

lemma qualifies_counted:
  assumes "reports_ok d" "tt \<noteq> REVIEW" "qualifying_reports tnow cnow d tt i = (reports, by_context)"
  shows "qualifies_for_action tt by_context = Inr (enough_reports tt (counted_reports tnow cnow d tt i))"
proof -
  note q = qualifying_set [OF assms(1,3)]
  have "inj_on (report_reporter_id \<circ> snd) (set reports)"
    using counted_apart [OF assms(1,2)] by (auto simp: inj_on_def q(1))
  with q(2) have "distinct (map (report_reporter_id \<circ> snd) reports)" by (simp add: distinct_map)
  from group_reports_facts [OF this, of "[]"] have g: "all_reporters by_context = reporters_of reports"
    "used_contexts by_context = contexts_of reports" "independent by_context" "distinct (map fst by_context)"
    "set (map fst by_context) = contexts_of reports"
    by (simp_all add: q(3) used_contexts_def)
  have "contexts_allowed tt by_context"
    using counted_contexts [OF assms(1)] g(5) by (simp add: contexts_allowed_def contexts_of_def q(1))
  with g assms(2) show ?thesis
    by (cases tt) (simp_all add: qualifies_user qualifies_product enough_reports_def reporters_of_def contexts_of_def q(1))
qed

text \<open>The sanction of a target, with its end seven days on.\<close>

definition automatic_action :: "instant \<Rightarrow> target_type \<Rightarrow> nat \<Rightarrow> moderation_action" where
  "automatic_action cnow tt i =
     \<lparr>action_kind = (if tt = USER then USER_DORMANCY else PRODUCT_HIDE),
      action_target_user_id = (if tt = USER then Some i else None),
      action_target_product_id = (if tt = USER then None else Some i),
      action_starts_at = cnow, action_expires_at = cnow + days 7\<rparr>"

lemma evaluate_locked_exact:
  assumes "reports_ok d" "tt \<noteq> REVIEW"
  shows "\<exists>action d'. evaluate_locked tnow cnow tt i actor d = Inr (action, d') \<and> reports_ok d' \<and>
    (action \<noteq> None \<longleftrightarrow> active_action_for_target tnow d tt i = None \<and>
       enough_reports tt (counted_reports tnow cnow d tt i)) \<and>
    (action = None \<longrightarrow> d' = d) \<and>
    (\<forall>a. action = Some a \<longrightarrow> moderation_actions d' = snd (tcreate (automatic_action cnow tt i) (moderation_actions d)) \<and>
       a = next_pk (moderation_actions d) \<and> sanction_releases d' = sanction_releases d \<and>
       (\<forall>(k, r) \<in> counted_reports tnow cnow d tt i.
          tget (abuse_reports d') k = Some (r\<lparr>report_consumed_by := Some a\<rparr>)))"
proof (cases "active_action_for_target tnow d tt i = None")
  case False
  then have "evaluate_locked tnow cnow tt i actor d = Inr (None, d)" by (simp add: evaluate_locked_def)
  with False assms(1) show ?thesis by simp
next
  case free: True
  obtain reports by_context where q: "qualifying_reports tnow cnow d tt i = (reports, by_context)" by force
  note qual = qualifies_counted [OF assms q] and set = qualifying_set(1) [OF assms(1) q]
  show ?thesis
  proof (cases "enough_reports tt (counted_reports tnow cnow d tt i)")
    case False
    then have "evaluate_locked tnow cnow tt i actor d = Inr (None, d)" by (simp add: evaluate_locked_def free q qual)
    with False assms(1) show ?thesis by simp
  next
    case True
    let ?a = "automatic_action cnow tt i" and ?k = "next_pk (moderation_actions d)"
    define t where "t = tupdate (\<lambda>k _. k \<in> set (map fst reports)) (\<lambda>r. r\<lparr>report_consumed_by := Some ?k\<rparr>) (abuse_reports d)"
    have create: "create_moderation_action ?a d =
        Inr (?k, d\<lparr>moderation_actions := snd (tcreate ?a (moderation_actions d))\<rparr>)"
      by (auto simp: create_moderation_action_def moderation_action_check_def automatic_action_def tcreate_def)
    have form: "?a = \<lparr>action_kind = (if tt = USER then USER_DORMANCY else PRODUCT_HIDE),
                action_target_user_id = (if tt = USER then Some i else None),
                action_target_product_id = (if tt = USER then None else Some i),
                action_starts_at = cnow, action_expires_at = cnow + ACTION_DURATION\<rparr>"
      by (simp add: automatic_action_def policy_defs)
    obtain d' where run: "evaluate_locked tnow cnow tt i actor d = Inr (Some ?k, d')"
      and d': "abuse_reports d' = t" "moderation_actions d' = snd (tcreate ?a (moderation_actions d))"
        "sanction_releases d' = sanction_releases d"
      using True create unfolding form
      by (auto simp: evaluate_locked_def free q qual Let_def t_def simp del: tcreate_def)
    have look: "tget t k = map_option (\<lambda>r. if k \<in> fst ` counted_reports tnow cnow d tt i
        then r\<lparr>report_consumed_by := Some ?k\<rparr> else r) (tget (abuse_reports d) k)" for k
      by (simp add: t_def tget_tupdate set option.case_eq_if map_option_case flip: set split: option.splits)
    have "reports_ok d'"
    proof -
      have "wf_table t" using assms(1) by (simp add: t_def wf_tupdate reports_ok_def)
      moreover have "tall (\<lambda>_. abuse_report_check) t"
        unfolding t_def using assms(1)
        by (subst tall_tupdate_same) (simp_all add: abuse_report_check_def reports_ok_def)
      moreover have "k = k'" if "tget t k = Some r" "tget t k' = Some r'" "same_report_target r r'" for k r k' r'
      proof -
        let ?upd = "\<lambda>k x. if k \<in> fst ` counted_reports tnow cnow d tt i then x\<lparr>report_consumed_by := Some ?k\<rparr> else x"
        from look [of k] that(1) obtain x where x: "tget (abuse_reports d) k = Some x" "r = ?upd k x"
          by (cases "tget (abuse_reports d) k") auto
        from look [of k'] that(2) obtain x' where x': "tget (abuse_reports d) k' = Some x'" "r' = ?upd k' x'"
          by (cases "tget (abuse_reports d) k'") auto
        have "same_report_target x x'" using that(3) by (simp add: x(2) x'(2) same_report_target_def split: if_splits)
        note x(1) x'(1) this
        with assms(1) show ?thesis unfolding reports_ok_def by blast
      qed
      ultimately show ?thesis unfolding reports_ok_def d'(1) by blast
    qed
    moreover have "tget t k = Some (r\<lparr>report_consumed_by := Some ?k\<rparr>)" if "(k, r) \<in> counted_reports tnow cnow d tt i" for k r
      using that by (force simp: look counted_reports_def)
    ultimately show ?thesis using run d' True free by auto
  qed
qed

section \<open>Submission\<close>

text \<open>The report a submission writes.\<close>

definition new_report :: "nat \<Rightarrow> target_type \<Rightarrow> nat \<Rightarrow> report_context \<Rightarrow> pystr \<Rightarrow> instant \<Rightarrow> abuse_report" where
  "new_report reporter tt i ctx reason cnow =
     \<lparr>report_reporter_id = reporter, report_target_type = tt,
      report_target_user_id = (if tt = USER then Some i else None),
      report_target_product_id = (if tt = USER then None else Some i),
      report_target_review_id = None, report_context = ctx, report_reason = reason,
      report_created_at = cnow, report_consumed_by = None\<rparr>"

definition add_report :: "abuse_report \<Rightarrow> db \<Rightarrow> db" where
  "add_report r d = d\<lparr>abuse_reports := snd (tcreate r (abuse_reports d))\<rparr>"

text \<open>The parties and the guards of the transaction, as one test.\<close>

definition may_report :: "instant \<Rightarrow> instant \<Rightarrow> nat \<Rightarrow> target_type \<Rightarrow> nat \<Rightarrow> db \<Rightarrow> bool" where
  "may_report tnow cnow reporter tt i d \<longleftrightarrow>
     (case tget (users d) reporter of None \<Rightarrow> False | Some u \<Rightarrow> reporter_can_contribute tnow cnow d reporter u) \<and>
     (if tt = USER then i \<noteq> reporter \<and>
        (case tget (users d) i of None \<Rightarrow> False | Some u \<Rightarrow> user_is_active u) \<and>
        effective_user_status tnow d i = USER_ACTIVE
      else (case tget (products d) i of None \<Rightarrow> False
              | Some p \<Rightarrow> product_archived_at p = None \<and> product_owner_id p \<noteq> reporter) \<and>
        effective_product_visibility tnow d i = VISIBLE)"

lemma submit_report_tx_eq:
  assumes "tt \<noteq> REVIEW"
  shows "submit_report_tx tnow cnow reporter tt i ctx reason d =
    (if \<not> may_report tnow cnow reporter tt i d then Inl ReportSubmissionError
     else case create_report (new_report reporter tt i ctx reason cnow) d of
       Inl e \<Rightarrow> Inl e
     | Inr (report, d1) \<Rightarrow>
         (case evaluate_locked tnow cnow tt i (Some reporter) d1 of
            Inl e \<Rightarrow> Inl e
          | Inr (action, d2) \<Rightarrow> Inr ((report, action), d2)))"
  using assms
  by (cases tt) (auto simp: submit_report_tx_def lock_submission_parties_def may_report_def new_report_def
      split: option.splits)

lemma active_action_add [simp]:
  "active_action_for_target tnow (add_report r d) tt i = active_action_for_target tnow d tt i"
  by (simp add: add_report_def active_action_for_target_def active_actions_def released_def)

lemma submit_report_tx_outcome:
  assumes "reports_ok d" "tt \<noteq> REVIEW"
  shows "(\<exists>e. submit_report_tx tnow cnow reporter tt i ctx reason d = Inl e \<and> e \<in> {ReportSubmissionError, IntegrityError}) \<or>
    (\<exists>action d'. submit_report_tx tnow cnow reporter tt i ctx reason d = Inr ((next_pk (abuse_reports d), action), d') \<and>
       may_report tnow cnow reporter tt i d \<and>
       reports_ok (add_report (new_report reporter tt i ctx reason cnow) d) \<and>
       evaluate_locked tnow cnow tt i (Some reporter) (add_report (new_report reporter tt i ctx reason cnow) d) = Inr (action, d'))"
proof -
  let ?r = "new_report reporter tt i ctx reason cnow"
  show ?thesis
  proof (cases "create_report ?r d")
    case (Inl e)
    then have "e = IntegrityError" by (auto simp: create_report_def split: if_splits prod.splits)
    with Inl assms(2) show ?thesis by (simp add: submit_report_tx_eq)
  next
    case (Inr kd)
    obtain k d1 where kd: "kd = (k, d1)" by force
    with Inr have cr: "create_report ?r d = Inr (k, d1)" by simp
    then have k: "k = next_pk (abuse_reports d)" by (auto simp: create_report_def tcreate_def split: if_splits)
    from reports_ok_create [OF cr assms(1)] have d1: "reports_ok d1" "d1 = add_report ?r d"
      unfolding add_report_def by blast+
    from evaluate_locked_exact [OF d1(1) assms(2), of tnow cnow i "Some reporter"] obtain action d'
      where "evaluate_locked tnow cnow tt i (Some reporter) d1 = Inr (action, d')" by blast
    with cr k d1 assms(2) show ?thesis by (simp add: submit_report_tx_eq)
  qed
qed

lemma submit_report_outcome:
  assumes "reports_ok d" "tt \<noteq> REVIEW"
  shows "(\<exists>e. submit_report tnow cnow reporter (Some tt) i (Some ctx) reason d = Inl e \<and> is_subclass e ReportSubmissionError) \<or>
    (\<exists>normalized action d'. submit_report tnow cnow reporter (Some tt) i (Some ctx) reason d =
         Inr ((next_pk (abuse_reports d), action), d') \<and>
       normalize_reason reason = Inr normalized \<and> may_report tnow cnow reporter tt i d \<and>
       reports_ok (add_report (new_report reporter tt i ctx normalized cnow) d) \<and>
       evaluate_locked tnow cnow tt i (Some reporter) (add_report (new_report reporter tt i ctx normalized cnow) d) = Inr (action, d'))"
proof (cases "validate_report_context tt ctx")
  case (Inl e)
  then show ?thesis by (simp add: submit_report_def is_subclass_def)
next
  case ctx: (Inr u)
  show ?thesis
  proof (cases "normalize_reason reason")
    case (Inl e)
    then have "e = ReportSubmissionError" by (auto simp: normalize_reason_def Let_def split: if_splits)
    with Inl ctx show ?thesis by (simp add: submit_report_def is_subclass_def)
  next
    case (Inr normalized)
    from submit_report_tx_outcome [OF assms, of tnow cnow reporter i ctx normalized] show ?thesis
      using ctx Inr by (auto simp: submit_report_def is_subclass_def)
  qed
qed

text \<open>
  C35: The sanction threshold, exactly: an accepted report of a user or a product is the next row of the table;
  it sanctions the target when and only when the target has no sanction in force and, counting the new
  report, at least five different eligible accounts have a report on it from the last seven days that
  no earlier sanction has used up, and, for a user, in two different contexts at least. Without a
  sanction nothing but the new report is written; with one, a seven-day sanction of the target is the next
  row of the actions, every counted report is marked as used by it, and no release is written.
\<close>

theorem report_threshold:
  assumes "reports_ok d" "tt \<noteq> REVIEW"
    and "submit_report tnow cnow reporter (Some tt) i (Some ctx) reason d = Inr ((k, action), d')"
  shows "\<exists>normalized d1. normalize_reason reason = Inr normalized \<and> may_report tnow cnow reporter tt i d \<and>
    d1 = add_report (new_report reporter tt i ctx normalized cnow) d \<and> k = next_pk (abuse_reports d) \<and> reports_ok d' \<and>
    (action \<noteq> None \<longleftrightarrow> active_action_for_target tnow d tt i = None \<and> enough_reports tt (counted_reports tnow cnow d1 tt i)) \<and>
    (action = None \<longrightarrow> d' = d1) \<and>
    (\<forall>a. action = Some a \<longrightarrow>
       moderation_actions d' = snd (tcreate (automatic_action cnow tt i) (moderation_actions d)) \<and>
       a = next_pk (moderation_actions d) \<and> sanction_releases d' = sanction_releases d \<and>
       (\<forall>(j, r) \<in> counted_reports tnow cnow d1 tt i.
          tget (abuse_reports d') j = Some (r\<lparr>report_consumed_by := Some a\<rparr>)))"
proof -
  from submit_report_outcome [OF assms(1,2), of tnow cnow reporter i ctx reason] assms(3)
  obtain normalized where n: "normalize_reason reason = Inr normalized" "may_report tnow cnow reporter tt i d"
    "k = next_pk (abuse_reports d)" "reports_ok (add_report (new_report reporter tt i ctx normalized cnow) d)"
    and ev: "evaluate_locked tnow cnow tt i (Some reporter) (add_report (new_report reporter tt i ctx normalized cnow) d) = Inr (action, d')"
    by auto
  have keep: "moderation_actions (add_report r d) = moderation_actions d"
    "sanction_releases (add_report r d) = sanction_releases d" for r by (simp_all add: add_report_def)
  from evaluate_locked_exact [OF n(4) assms(2), of tnow cnow i "Some reporter"] show ?thesis
    unfolding ev active_action_add keep using n by (intro exI [of _ normalized] exI conjI) auto
qed

text \<open>Six accounts older than a week, of which the sixth has been reported by four others, in two contexts.\<close>

definition resident :: user where
  "resident = \<lparr>user_username = [], user_password = None, user_is_active = True, user_is_staff = False,
     user_is_superuser = False, user_meta_permission = False, user_bio = [], user_auth_epoch = 0,
     user_withdrawn_at = None, user_date_joined = 0\<rparr>"

definition reported_db :: db where
  "reported_db = empty_db
     \<lparr>users := \<lparr>rows = map (\<lambda>k. (k, resident)) [1, 2, 3, 4, 5, 6], next_pk = 7\<rparr>,
      abuse_reports := \<lparr>rows = map (\<lambda>(k, ctx). (k, new_report k USER 6 ctx [120] (days 20)))
        [(1, PROFILE), (2, PROFILE), (3, GLOBAL_CHAT), (4, PROFILE)], next_pk = 5\<rparr>\<rparr>"

lemmas reported_defs = reported_db_def empty_db_def empty_table_def new_report_def resident_def days_def

lemma reported_db_ok: "reports_ok reported_db"
  by (auto simp: reports_ok_def reported_defs wf_table_def tall_def abuse_report_check_def same_report_target_def
      tget_def split: if_splits)

lemma reported_db_may: "may_report (days 21) (days 21) 5 USER 6 reported_db"
  by (simp add: may_report_def reported_defs tget_def reporter_can_contribute_def is_reporter_eligible_def
      MIN_REPORTER_AGE_def effective_user_status_def texists_def)

lemma report_threshold_witness:
  "\<exists>d'. submit_report (days 21) (days 21) 5 (Some USER) 6 (Some PROFILE) [120, 121] reported_db = Inr ((5, Some 1), d') \<and>
     moderation_actions d' = snd (tcreate (automatic_action (days 21) USER 6) empty_table)"
proof -
  let ?run = "submit_report (days 21) (days 21) 5 (Some USER) 6 (Some PROFILE) [120, 121] reported_db"
  have "map_prod id fst (case ?run of Inr out \<Rightarrow> (True, out) | _ \<Rightarrow> (False, undefined)) = (True, 5, Some 1)" by code_simp
  then obtain d' where run: "?run = Inr ((5, Some 1), d')" by (auto split: sum.splits)
  from report_threshold [OF reported_db_ok _ run] have
    "moderation_actions d' = snd (tcreate (automatic_action (days 21) USER 6) (moderation_actions reported_db))" by auto
  with run show ?thesis by (simp add: reported_db_def empty_db_def)
qed

section \<open>The pages\<close>

fun report_page :: "target_type \<Rightarrow> instant \<Rightarrow> instant \<Rightarrow> nat option \<Rightarrow> bool \<Rightarrow> nat \<Rightarrow> report_form option \<Rightarrow> db \<Rightarrow> report_reply \<times> db" where
  "report_page USER = report_user"
| "report_page PRODUCT = report_product"
| "report_page REVIEW = report_review"

definition orderly :: "db \<Rightarrow> report_reply \<times> db \<Rightarrow> bool" where
  "orderly d out \<longleftrightarrow> (\<forall>e. fst out \<noteq> Report_500 e) \<and> (fst out \<noteq> To_Root \<longrightarrow> snd out = d) \<and> reports_ok (snd out)"

lemma orderly_same: "reports_ok d \<Longrightarrow> (\<And>e. reply \<noteq> Report_500 e) \<Longrightarrow> orderly d (reply, d)"
  by (simp add: orderly_def)

lemma after_submit_orderly:
  assumes "reports_ok d" "\<And>e. out = Inl e \<Longrightarrow> is_subclass e ReportSubmissionError"
    and "\<And>a d'. out = Inr (a, d') \<Longrightarrow> reports_ok d'"
  shows "orderly d (after_submit label out d)"
  using assms by (cases out) (auto simp: orderly_def after_submit_def)

lemma submit_report_orderly:
  assumes "reports_ok d" "tt \<noteq> REVIEW"
  shows "orderly d (after_submit label (submit_report tnow cnow reporter (Some tt) i (Some ctx) reason d) d)"
proof (rule after_submit_orderly [OF assms(1)])
  fix e assume "submit_report tnow cnow reporter (Some tt) i (Some ctx) reason d = Inl e"
  with submit_report_outcome [OF assms, of tnow cnow reporter i ctx reason] show "is_subclass e ReportSubmissionError" by auto
next
  fix a d' assume "submit_report tnow cnow reporter (Some tt) i (Some ctx) reason d = Inr (a, d')"
  with submit_report_outcome [OF assms, of tnow cnow reporter i ctx reason]
  obtain r action where "reports_ok (add_report r d)"
    "evaluate_locked tnow cnow tt i (Some reporter) (add_report r d) = Inr (action, d')" by auto
  with evaluate_locked_exact [OF _ assms(2), of "add_report r d" tnow cnow i "Some reporter"] show "reports_ok d'" by auto
qed

lemma submit_review_orderly:
  assumes "reports_ok d"
  shows "orderly d (after_submit label (submit_review_report tnow cnow reporter True i reason d) d)"
proof (rule after_submit_orderly [OF assms])
  fix e assume "submit_review_report tnow cnow reporter True i reason d = Inl e"
  then have "e = ReportSubmissionError"
    by (auto simp: submit_review_report_def normalize_reason_def Let_def split: if_splits sum.splits option.splits)
  then show "is_subclass e ReportSubmissionError" by (simp add: is_subclass_def)
next
  fix a d' assume "submit_review_report tnow cnow reporter True i reason d = Inr (a, d')"
  then obtain r where "create_report r d = Inr (a, d')"
    by (auto simp: submit_review_report_def split: if_splits sum.splits option.splits)
  from reports_ok_create [OF this assms] show "reports_ok d'" by blast
qed

lemma report_user_orderly: "reports_ok d \<Longrightarrow> orderly d (report_user tnow cnow user other_method i posted d)"
  unfolding report_user_def Let_def
  by (simp add: orderly_same submit_report_orderly split: option.split)

lemma report_product_orderly: "reports_ok d \<Longrightarrow> orderly d (report_product tnow cnow user other_method i posted d)"
  by (simp add: report_product_def orderly_same submit_report_orderly split: option.split)

lemma report_review_orderly: "reports_ok d \<Longrightarrow> orderly d (report_review tnow cnow user other_method i posted d)"
  by (simp add: report_review_def orderly_same submit_review_orderly split: option.split)

text \<open>
  C36: No report page fails: whatever the database, the account and the form, the answer is the form, a
  redirect or a 404, never an exception, so in particular a duplicate report and a target of the wrong
  kind end in the form with status 400; every answer but the redirect that follows an accepted report leaves
  the database as it was; and the reports stay well formed, one per reporter and target.
\<close>

theorem report_pages_total:
  assumes "reports_ok d" "report_page tt tnow cnow user other_method i posted d = (reply, d')"
  shows "(\<forall>e. reply \<noteq> Report_500 e) \<and> (reply \<noteq> To_Root \<longrightarrow> d' = d) \<and> reports_ok d'"
proof -
  have "orderly d (report_page tt tnow cnow user other_method i posted d)"
    using assms(1)
    by (cases tt) (simp_all only: report_page.simps report_user_orderly report_product_orderly report_review_orderly)
  with assms(2) show ?thesis by (simp add: orderly_def)
qed

text \<open>A second report of the same account by the same reporter is answered by the form.\<close>

lemma report_pages_total_witness:
  "\<exists>label. report_page USER (days 21) (days 21) (Some 1) False 6
     (Some \<lparr>raw_reason = [120, 121], raw_context = lit ''PROFILE''\<rparr>) reported_db = (Report_Form label 400, reported_db)"
proof -
  let ?page = "report_page USER (days 21) (days 21) (Some 1) False 6
     (Some \<lparr>raw_reason = [120, 121], raw_context = lit ''PROFILE''\<rparr>) reported_db"
  have "(case submit_report (days 21) (days 21) 1 (Some USER) 6 (Some PROFILE) [120, 121] reported_db of
      Inl e \<Rightarrow> e = DuplicateReportError | _ \<Rightarrow> False)" by code_simp
  then have "submit_report (days 21) (days 21) 1 (Some USER) 6 (Some PROFILE) [120, 121] reported_db = Inl DuplicateReportError"
    by (auto split: sum.splits)
  moreover have "clean_reason [120, 121] = Some [120, 121]" by code_simp
  moreover have "clean_context (lit ''PROFILE'') = Some PROFILE" by (simp add: clean_context_def USER_CONTEXTS_def)
  moreover have "tget (users reported_db) 6 = Some resident" by (simp add: reported_db_def tget_def)
  ultimately obtain label d' where run: "?page = (Report_Form label 400, d')"
    by (simp add: report_user_def Let_def after_submit_def is_subclass_def)
  from report_pages_total [OF reported_db_ok run] run show ?thesis by simp
qed

end
