(* ===== verification/Append_Only.thy ===== *)
theory Append_Only imports Sanctions Trade_Lifecycle begin

text \<open>
  The append-only histories of moderation and trades: the triggers that the migrations put on the audit
  trail, the releases, the reviews with their visibility decisions and the trade history, and the fact that no
  command, report or trade ever runs into them.
\<close>

section \<open>The triggers\<close>

text \<open>\<open>moderation_adminaudit_append_only\<close> and \<open>moderation_sanctionrelease_append_only\<close>.\<close>

definition management_triggers_pass :: "db \<Rightarrow> db \<Rightarrow> bool" where
  "management_triggers_pass d d' \<longleftrightarrow>
     append_only (admin_audits d) (admin_audits d') \<and> append_only (sanction_releases d) (sanction_releases d')"

text \<open>\<open>trades_review_append_only\<close> and \<open>trades_review_visibility_append_only\<close>.\<close>

definition review_triggers_pass :: "db \<Rightarrow> db \<Rightarrow> bool" where
  "review_triggers_pass d d' \<longleftrightarrow>
     append_only (reviews d) (reviews d') \<and> append_only (visibility_actions d) (visibility_actions d')"

text \<open>\<open>trades_status_history_immutable\<close>.\<close>

definition history_trigger_passes :: "db \<Rightarrow> db \<Rightarrow> bool" where
  "history_trigger_passes d d' \<longleftrightarrow> append_only (trade_histories d) (trade_histories d')"

definition logs_kept :: "db \<Rightarrow> db \<Rightarrow> bool" where
  "logs_kept d d' \<longleftrightarrow> management_triggers_pass d d' \<and> review_triggers_pass d d' \<and>
     append_only (audit_events d) (audit_events d')"

lemmas logs_defs = logs_kept_def management_triggers_pass_def review_triggers_pass_def

lemma logs_kept_refl [intro, simp]: "logs_kept d d"
  by (simp add: logs_defs)

lemma logs_kept_trans: "logs_kept d d' \<Longrightarrow> logs_kept d' d'' \<Longrightarrow> logs_kept d d''"
  by (auto simp: logs_defs intro: append_only_trans)

section \<open>Moderation\<close>

lemma writes_logs:
  "impose_sanction env m tt i r c d = Inr (x, d') \<Longrightarrow> logs_kept d d'"
  "lift_sanction env m tt i s r w d = Inr (x, d') \<Longrightarrow> logs_kept d d'"
  "add_grant env m st cn tt i r d = Inr (x, d') \<Longrightarrow> logs_kept d d'"
  "decide_visibility env m i kind r key v d = Inr (x, d') \<Longrightarrow> logs_kept d d'"
  by (auto simp: add_grant_def decide_visibility_def impose_sanction_def lift_sanction_def logs_defs
      create_grant_def create_visibility_action_def create_moderation_action_def create_release_def append_only_tcreate case_prod_beta
      dest!: write_audit_ok(1) split: sum.splits if_splits)

lemma authority_logs:
  assumes "authority env m c d = Inr (x, d')"
  shows "logs_kept d d'"
proof (cases c)
  case (Apply tt i reason v)
  with assms show ?thesis
    by (auto simp: apply_sanction_authority_def split: sum.splits option.splits if_splits dest: writes_logs(1))
next
  case (Release s reason v)
  with assms show ?thesis
    by (auto simp: release_sanction_authority_def Let_def split: sum.splits option.splits if_splits prod.splits
        dest: writes_logs(2))
next
  case (Grant s cn tt i reason v)
  with assms show ?thesis
    by (auto simp: grant_scope_authority_def split: sum.splits option.splits if_splits dest: writes_logs(3))
next
  case (Revoke s reason v)
  with assms show ?thesis
    by (auto simp: revoke_scope_authority_def Let_def logs_defs end_grant_def append_only_tcreate
        dest!: write_audit_ok(1) split: sum.splits option.splits if_splits prod.splits)
next
  case (Set_Visibility i kind reason key)
  with assms show ?thesis
    by (auto simp: set_review_visibility_tx_def split: sum.splits option.splits if_splits dest: writes_logs(4))
qed

lemma only_audited_logs: "only_audited env m act res d d' \<Longrightarrow> logs_kept d d'"
  unfolding only_audited_def audit_added_def
  by (elim conjE exE, erule ssubst) (simp add: logs_defs append_only_tcreate)

lemma manage_logs: "logs_kept d (snd (manage env m c d))"
proof -
  obtain out d' where m: "manage env m c d = (out, d')" by force
  show ?thesis
  proof (cases out)
    case (Inl e)
    from manage_Inl [OF m [unfolded Inl]] m show ?thesis
      by (auto intro: only_audited_logs split: if_splits)
  next
    case (Inr p)
    obtain k b where "p = (k, b)" by force
    with m Inr manage_Inr [of env m c d k b d'] obtain c' where "authority env m c' d = Inr ((k, b), d')" by blast
    with m authority_logs show ?thesis by simp
  qed
qed

lemma create_report_logs: "create_report r d = Inr (k, d') \<Longrightarrow> logs_kept d d'"
  by (auto simp: create_report_def logs_defs case_prod_beta split: if_splits)

lemma evaluate_locked_logs:
  assumes "evaluate_locked tnow cnow tt i actor d = Inr (a, d')"
  shows "logs_kept d d'"
  using assms
  by (auto simp: evaluate_locked_def create_moderation_action_def Let_def logs_defs append_only_tcreate
      split: if_splits sum.splits bool.splits prod.splits simp del: tcreate_def)

lemma submit_report_logs:
  assumes "submit_report tnow cnow u tt i ctx reason d = Inr (x, d')"
  shows "logs_kept d d'"
proof -
  from assms obtain t c r where "submit_report_tx tnow cnow u t i c r d = Inr (x, d')"
    by (auto simp: submit_report_def split: option.splits sum.splits exn.splits)
  then obtain k d1 r' a where "create_report r' d = Inr (k, d1)" "evaluate_locked tnow cnow t i (Some u) d1 = Inr (a, d')"
    by (auto simp: submit_report_tx_def split: sum.splits if_splits)
  then show ?thesis by (blast intro: create_report_logs evaluate_locked_logs logs_kept_trans)
qed

lemma submit_review_report_logs: "submit_review_report tnow cnow u auth i reason d = Inr (x, d') \<Longrightarrow> logs_kept d d'"
  by (auto simp: submit_review_report_def intro: create_report_logs split: if_splits sum.splits option.splits)

lemma evaluate_threshold_logs: "evaluate_threshold tnow cnow tt i d = Inr (x, d') \<Longrightarrow> logs_kept d d'"
  by (auto simp: evaluate_threshold_def intro: evaluate_locked_logs split: if_splits option.splits)

lemma atomic_logs: "(\<And>x d'. tx d = Inr (x, d') \<Longrightarrow> logs_kept d d') \<Longrightarrow> logs_kept d (snd (atomic tx d))"
  by (rule atomic_preserves) simp_all

lemma moderation_step_logs:
  assumes "moderation_step s l s'"
  shows "logs_kept (snd s) (snd s')"
  using assms
proof (cases rule: moderation_step.cases)
  case step_command
  then show ?thesis by (simp add: manage_logs)
next
  case step_report
  then show ?thesis by (simp add: atomic_logs [OF submit_report_logs])
next
  case step_review_report
  then show ?thesis by (simp add: atomic_logs [OF submit_review_report_logs])
next
  case step_evaluate
  then show ?thesis by (simp add: atomic_logs [OF evaluate_threshold_logs])
qed

section \<open>Trades\<close>

lemma trade_exec_history:
  assumes inv: "trades_inv d" and e: "trade_exec e c d = Inr (r, d')"
  shows "history_trigger_passes d d'"
proof (cases c)
  case (Reserve actor p)
  with e have "reserve (te_now e) actor p d = Inr (r, d')" by simp
  then show ?thesis
    by (cases rule: reserve_elim [OF inv, consumes 1])
       (auto simp: history_trigger_passes_def reserved_db_def append_only_tcreate)
next
  case (Cancel actor k v)
  with e have "cancel (te_now e) actor k v d = Inr (r, d')" by simp
  then show ?thesis
    by (cases rule: cancel_elim [OF inv, consumes 1])
       (auto simp: history_trigger_passes_def advanced_db_def append_only_tcreate)
next
  case (Complete actor k v)
  with e have "complete (te_now e) (te_app_now e) actor k v d = Inr (r, d')" by simp
  then show ?thesis
    by (cases rule: complete_elim [OF inv, consumes 1])
       (auto simp: history_trigger_passes_def advanced_db_def append_only_tcreate)
qed

lemma trade_step_history:
  assumes "trade_step d l d'" "trades_inv d"
  shows "history_trigger_passes d d'"
  using assms(1)
proof (cases rule: trade_step.cases)
  case (trade_call e c)
  have "history_trigger_passes d (snd (atomic (trade_exec e c) d))"
    by (rule atomic_preserves [OF trade_exec_history [OF assms(2)]]) (simp_all add: history_trigger_passes_def)
  with trade_call show ?thesis by simp
next
  case trade_elsewhere
  then show ?thesis by (simp add: same_trades_def history_trigger_passes_def)
qed

lemma create_review_logs:
  "create_review nfc actor trade_id rating body d = Inr (x, d') \<Longrightarrow> logs_kept d d' \<and> history_trigger_passes d d'"
  by (auto simp: create_review_def Let_def logs_defs history_trigger_passes_def append_only_tcreate
      split: option.splits sum.splits if_splits prod.splits)

section \<open>No trigger fires\<close>

text \<open>
  The append-only triggers of moderation and trades are never run into: over any run of management
  commands, reports and threshold evaluations no audit row, release, review or visibility decision is
  changed or removed; no trade command changes or removes a row of the trade history; and writing a
  review leaves all of them as they were.
\<close>

theorem histories_append_only:
  "(moderation.run (t, d) ls (t', d') \<longrightarrow> management_triggers_pass d d' \<and> review_triggers_pass d d') \<and>
   (trading.run empty_db before e \<and> trading.run e calls e' \<longrightarrow> history_trigger_passes e e') \<and>
   (create_review nfc actor trade_id rating body f = Inr (x, f') \<longrightarrow>
      review_triggers_pass f f' \<and> history_trigger_passes f f')"
proof (intro conjI impI)
  assume "moderation.run (t, d) ls (t', d')"
  then have "logs_kept (snd (t, d)) (snd (t', d'))"
    by (induction rule: moderation.run.induct) (auto intro: logs_kept_trans dest: moderation_step_logs)
  then show "management_triggers_pass d d'" "review_triggers_pass d d'" by (simp_all add: logs_kept_def)
next
  assume run: "trading.run empty_db before e \<and> trading.run e calls e'"
  with trading.run_inv trades_inv_empty have inv: "trades_inv e" by blast
  show "history_trigger_passes e e'"
    by (rule trading.run_monotone [OF trade_step_history _ _ conjunct2 [OF run] inv])
       (auto simp: history_trigger_passes_def intro: append_only_trans)
qed (auto dest!: create_review_logs simp: logs_kept_def)

lemma histories_append_only_witness:
  "management_triggers_pass watched_db sanctioned_db \<and> history_trigger_passes empty_db completed_shop"
proof
  show "management_triggers_pass watched_db sanctioned_db"
    by (rule histories_append_only [THEN conjunct1, THEN mp, THEN conjunct1]) (rule sanctioned_run)
  show "history_trigger_passes empty_db completed_shop"
    by (rule histories_append_only [THEN conjunct2, THEN conjunct1, THEN mp])
       (rule conjI [OF trading.run_nil completed_shop_run])
qed

end
