(* ===== verification/Chat.thy ===== *)
theory Chat imports Notifications Moderation_Services begin

text \<open>
  Chat (\<open>chat/policies.py\<close>, \<open>chat/services.py\<close> and the peer lookup of \<open>chat/presence.py\<close>): the text
  policy, who may enter a room, the creation of rooms, the acceptance of a message with its replay
  check, rate limits, notification and live delivery, and the history after a cursor.
\<close>

section \<open>Policies\<close>

definition CHAT_MAX_BYTES :: nat where "CHAT_MAX_BYTES = 2000"
definition CHAT_BURST_MESSAGES :: nat where "CHAT_BURST_MESSAGES = 10"
definition CHAT_BURST_SECONDS :: int where "CHAT_BURST_SECONDS = 10"
definition CHAT_SUSTAINED_MESSAGES :: nat where "CHAT_SUSTAINED_MESSAGES = 60"
definition CHAT_SUSTAINED_SECONDS :: int where "CHAT_SUSTAINED_SECONDS = 60"
definition CONNECTION_BURST_MESSAGES :: nat where "CONNECTION_BURST_MESSAGES = 10"
definition CONNECTION_BURST_SECONDS :: int where "CONNECTION_BURST_SECONDS = 10"
definition HISTORY_MAX_LIMIT :: nat where "HISTORY_MAX_LIMIT = 100"

lemmas chat_limits = CHAT_BURST_MESSAGES_def CHAT_BURST_SECONDS_def CHAT_SUSTAINED_MESSAGES_def
  CHAT_SUSTAINED_SECONDS_def CONNECTION_BURST_MESSAGES_def CONNECTION_BURST_SECONDS_def

text \<open>The length of a text in UTF-8; a lone surrogate cannot be encoded, which is a \<open>ValueError\<close>.\<close>

definition utf8_size :: "nat \<Rightarrow> nat" where
  "utf8_size c = (if c < 128 then 1 else if c < 2048 then 2 else if c < 65536 then 3 else 4)"

definition is_surrogate :: "nat \<Rightarrow> bool" where
  "is_surrogate c \<longleftrightarrow> 55296 \<le> c \<and> c \<le> 57343"

definition utf8_length :: "pystr \<Rightarrow> nat result" where
  "utf8_length s = (if list_ex is_surrogate s then Inl ValueError else Inr (sum_list (map utf8_size s)))"

definition normalize_chat_text :: "pystr \<Rightarrow> pystr result" where
  "normalize_chat_text value =
     (if list_ex (\<lambda>c. c < 32 \<and> c \<noteq> 10) value then Inl ChatPolicyError
      else
        let normalized = py_strip value in
        if normalized = [] then Inl ChatPolicyError
        else case utf8_length normalized of
          Inl e \<Rightarrow> Inl e
        | Inr n \<Rightarrow> if n > CHAT_MAX_BYTES then Inl ChatPolicyError else Inr normalized)"

text \<open>The version and variant fields of a 128-bit UUID.\<close>

definition is_uuid4 :: "nat \<Rightarrow> bool" where
  "is_uuid4 n \<longleftrightarrow> n div 2 ^ 76 mod 16 = 4 \<and> n div 2 ^ 62 mod 4 = 2"

definition require_uuid4 :: "nat \<Rightarrow> nat result" where
  "require_uuid4 n = (if is_uuid4 n then Inr n else Inl ChatPolicyError)"

text \<open>The canonical JSON, keys sorted, that \<open>sha\<close> (SHA-256 of its UTF-8 form) binds a message to.\<close>

definition canonical_chat_payload :: "nat \<Rightarrow> nat \<Rightarrow> pystr \<Rightarrow> pystr" where
  "canonical_chat_payload room_id sender_id body =
     lit ''{\"body\":'' @ json_string body @ lit '',\"room_id\":'' @ dec room_id @
     lit '',\"sender_id\":'' @ dec sender_id @ lit ''}''"

definition canonical_payload_sha256 :: "(pystr \<Rightarrow> nat) \<Rightarrow> nat \<Rightarrow> nat \<Rightarrow> pystr \<Rightarrow> nat result" where
  "canonical_payload_sha256 sha room_id sender_id body =
     (case normalize_chat_text body of
        Inl e \<Rightarrow> Inl e
      | Inr b \<Rightarrow> Inr (sha (canonical_chat_payload room_id sender_id b)))"

section \<open>Access\<close>

definition chat_active :: "instant \<Rightarrow> nat \<Rightarrow> user \<Rightarrow> db \<Rightarrow> bool" where
  "chat_active tnow user_id u d \<longleftrightarrow>
     effective_account_status (Some (Some user_id, u)) = ACTIVE \<and> effective_user_status tnow d user_id = USER_ACTIVE"

definition require_active_user :: "instant \<Rightarrow> nat \<Rightarrow> db \<Rightarrow> user result" where
  "require_active_user tnow user_id d =
     (case tget (users d) user_id of
        None \<Rightarrow> Inl ChatAuthorizationError
      | Some u \<Rightarrow>
          if \<not> user_is_active u \<or> \<not> chat_active tnow user_id u d then Inl ChatAuthorizationError else Inr u)"

definition participant_ids :: "nat \<Rightarrow> db \<Rightarrow> nat list" where
  "participant_ids room_id d =
     map (\<lambda>(_, p). participant_user_id p) (tselect (\<lambda>_ p. participant_room_id p = room_id) (room_participants d))"

definition contains_user :: "nat \<Rightarrow> room \<Rightarrow> nat \<Rightarrow> db \<Rightarrow> bool" where
  "contains_user room_id r user_id d \<longleftrightarrow>
     (if room_kind r = GLOBAL then True
      else if room_kind r = PRODUCT_ROOM then user_id \<in> set (participant_ids room_id d)
      else room_direct_user_low r = Some user_id \<or> room_direct_user_high r = Some user_id)"

definition conversation_of :: "nat \<Rightarrow> db \<Rightarrow> (nat \<times> product_conversation) option" where
  "conversation_of room_id d = tfirst (\<lambda>_ c. conversation_room_id c = room_id) (product_conversations d)"

definition conversation_open :: "instant \<Rightarrow> nat \<Rightarrow> product_conversation \<Rightarrow> db \<Rightarrow> bool" where
  "conversation_open tnow room_id c d \<longleftrightarrow>
     set (participant_ids room_id d) = {conversation_seller_id c, conversation_buyer_id c} \<and>
     texists (\<lambda>k p. k = conversation_product_id c \<and> product_owner_id p = conversation_seller_id c) (products d) \<and>
     effective_product_visibility tnow d (conversation_product_id c) = VISIBLE"

definition require_room_access :: "instant \<Rightarrow> nat \<Rightarrow> nat \<Rightarrow> bool \<Rightarrow> db \<Rightarrow> room result" where
  "require_room_access tnow room_id user_id active_participants d =
     (case tget (rooms d) room_id of
        None \<Rightarrow> Inl ChatAuthorizationError
      | Some r \<Rightarrow>
          if \<not> contains_user room_id r user_id d then Inl ChatAuthorizationError
          else if room_kind r = PRODUCT_ROOM then
            (case conversation_of room_id d of
               None \<Rightarrow> Inl ChatAuthorizationError
             | Some (_, c) \<Rightarrow>
                 if \<not> conversation_open tnow room_id c d then Inl ChatAuthorizationError
                 else if active_participants \<and>
                         \<not> list_all (\<lambda>i. \<not> isl (require_active_user tnow i d)) (participant_ids room_id d)
                 then Inl ChatAuthorizationError
                 else Inr r)
          else Inr r)"

text \<open>Both parties active; \<open>users.filter(pk__in=..., is_active=True)\<close> finds two rows only for distinct ids.\<close>

definition both_active :: "instant \<Rightarrow> nat \<Rightarrow> nat \<Rightarrow> db \<Rightarrow> bool" where
  "both_active tnow a b d \<longleftrightarrow> a \<noteq> b \<and>
     (case (tget (users d) a, tget (users d) b) of
        (Some u, Some v) \<Rightarrow>
          user_is_active u \<and> user_is_active v \<and> chat_active tnow a u d \<and> chat_active tnow b v d
      | _ \<Rightarrow> False)"

definition require_message_accept_access :: "instant \<Rightarrow> nat \<Rightarrow> nat \<Rightarrow> db \<Rightarrow> room result" where
  "require_message_accept_access tnow room_id sender_id d =
     (case tget (rooms d) room_id of
        None \<Rightarrow> Inl ChatAuthorizationError
      | Some r \<Rightarrow>
          if room_kind r \<noteq> PRODUCT_ROOM then
            (case require_active_user tnow sender_id d of
               Inl e \<Rightarrow> Inl e
             | Inr _ \<Rightarrow> require_room_access tnow room_id sender_id True d)
          else
            (case conversation_of room_id d of
               None \<Rightarrow> Inl ChatAuthorizationError
             | Some (_, c) \<Rightarrow>
                 if sender_id \<noteq> conversation_seller_id c \<and> sender_id \<noteq> conversation_buyer_id c
                 then Inl ChatAuthorizationError
                 else if \<not> both_active tnow (conversation_seller_id c) (conversation_buyer_id c) d
                 then Inl ChatAuthorizationError
                 else if \<not> texists (\<lambda>k p. k = conversation_product_id c \<and>
                               product_owner_id p = conversation_seller_id c \<and> product_archived_at p = None) (products d)
                 then Inl ChatAuthorizationError
                 else require_room_access tnow room_id sender_id True d))"

section \<open>Rooms\<close>

definition GLOBAL_ROOM :: room where
  "GLOBAL_ROOM = \<lparr>room_kind = GLOBAL, room_direct_user_low = None, room_direct_user_high = None\<rparr>"

text \<open>The three constraints of \<open>Room\<close>.\<close>

definition same_room :: "room \<Rightarrow> room \<Rightarrow> bool" where
  "same_room r r' \<longleftrightarrow>
     room_kind r = GLOBAL \<and> room_kind r' = GLOBAL \<or>
     room_kind r = DIRECT \<and> room_kind r' = DIRECT \<and>
       room_direct_user_low r = room_direct_user_low r' \<and> room_direct_user_high r = room_direct_user_high r'"

definition create_room :: "room \<Rightarrow> db \<Rightarrow> exn + (nat \<times> db)" where
  "create_room r d =
     (if \<not> room_check r \<or> texists (\<lambda>_ r'. same_room r r') (rooms d) then Inl IntegrityError
      else let (k, t) = tcreate r (rooms d) in Inr (k, d\<lparr>rooms := t\<rparr>))"

text \<open>\<open>bulk_create\<close> of the two participants.\<close>

definition add_participants :: "nat \<Rightarrow> nat \<Rightarrow> nat \<Rightarrow> db \<Rightarrow> db" where
  "add_participants room_id a b d =
     d\<lparr>room_participants :=
         snd (tcreate \<lparr>participant_room_id = room_id, participant_user_id = b\<rparr>
           (snd (tcreate \<lparr>participant_room_id = room_id, participant_user_id = a\<rparr> (room_participants d))))\<rparr>"

definition get_or_create_global_room :: "db \<Rightarrow> exn + (nat \<times> db)" where
  "get_or_create_global_room d =
     (case tfirst (\<lambda>_ r. room_kind r = GLOBAL) (rooms d) of
        Some (k, _) \<Rightarrow> Inr (k, d)
      | None \<Rightarrow> create_room GLOBAL_ROOM d)"

definition create_conversation :: "product_conversation \<Rightarrow> db \<Rightarrow> exn + (nat \<times> db)" where
  "create_conversation c d =
     (if conversation_seller_id c = conversation_buyer_id c \<or>
         texists (\<lambda>_ x. conversation_room_id x = conversation_room_id c \<or>
            conversation_product_id x = conversation_product_id c \<and>
            conversation_seller_id x = conversation_seller_id c \<and>
            conversation_buyer_id x = conversation_buyer_id c) (product_conversations d)
      then Inl IntegrityError
      else let (k, t) = tcreate c (product_conversations d) in Inr (k, d\<lparr>product_conversations := t\<rparr>))"

definition open_conversation :: "nat \<Rightarrow> nat \<Rightarrow> nat \<Rightarrow> db \<Rightarrow> exn + (nat \<times> db)" where
  "open_conversation product_id seller buyer d =
     (case create_room \<lparr>room_kind = PRODUCT_ROOM, room_direct_user_low = None, room_direct_user_high = None\<rparr> d of
        Inl e \<Rightarrow> Inl e
      | Inr (room_id, d1) \<Rightarrow>
          (case create_conversation \<lparr>conversation_room_id = room_id, conversation_product_id = product_id,
                  conversation_seller_id = seller, conversation_buyer_id = buyer\<rparr> d1 of
             Inl e \<Rightarrow> Inl e
           | Inr (conversation, d2) \<Rightarrow> Inr (conversation, add_participants room_id seller buyer d2)))"

definition get_or_create_product_conversation :: "instant \<Rightarrow> nat \<Rightarrow> nat \<Rightarrow> (nat, db) tx" where
  "get_or_create_product_conversation tnow product_id actor d =
     (case require_active_user tnow actor d of Inl e \<Rightarrow> Inl e | Inr _ \<Rightarrow>
     (case tget (products d) product_id of None \<Rightarrow> Inl ChatAuthorizationError | Some p \<Rightarrow>
      if product_archived_at p \<noteq> None \<or> actor = product_owner_id p then Inl ChatAuthorizationError
      else if \<not> both_active tnow actor (product_owner_id p) d then Inl ChatAuthorizationError
      else if effective_product_visibility tnow d product_id \<noteq> VISIBLE then Inl ChatAuthorizationError
      else case tfirst (\<lambda>_ c. conversation_product_id c = product_id \<and> conversation_seller_id c = product_owner_id p \<and>
                          conversation_buyer_id c = actor) (product_conversations d) of
        Some (k, _) \<Rightarrow> Inr (k, d)
      | None \<Rightarrow> open_conversation product_id (product_owner_id p) actor d))"

definition get_or_create_direct_room :: "instant \<Rightarrow> nat \<Rightarrow> nat \<Rightarrow> (nat, db) tx" where
  "get_or_create_direct_room tnow a b d =
     (if a = b then Inl ChatAuthorizationError
      else
        let low = min a b; high = max a b in
        if \<not> both_active tnow low high d then Inl ChatAuthorizationError
        else case tfirst (\<lambda>_ r. room_kind r = DIRECT \<and> room_direct_user_low r = Some low \<and>
                            room_direct_user_high r = Some high) (rooms d) of
          Some (k, _) \<Rightarrow> Inr (k, d)
        | None \<Rightarrow>
            (case create_room \<lparr>room_kind = DIRECT, room_direct_user_low = Some low, room_direct_user_high = Some high\<rparr> d of
               Inl e \<Rightarrow> Inl e
             | Inr (k, d1) \<Rightarrow> Inr (k, add_participants k low high d1)))"

section \<open>Accepting a message\<close>

text \<open>
  What an acceptance draws from outside: the hash, the start of the transaction
  (\<open>CURRENT_TIMESTAMP\<close>), the statement time behind \<open>Now()\<close> and whether the publisher succeeds.
\<close>

record chat_env =
  ce_sha :: "pystr \<Rightarrow> nat"
  ce_tx_now :: instant
  ce_tnow :: instant
  ce_published :: bool

record chat_command =
  cc_room_id :: nat
  cc_sender_id :: nat
  cc_connection_id :: nat
  cc_client_message_id :: nat
  cc_body :: pystr

record accepted_message =
  am_server_message_id :: nat
  am_client_message_id :: nat
  am_accepted_at :: instant
  am_delivery :: delivery
  am_replayed :: bool

record chat_event =
  ev_server_message_id :: nat
  ev_sender_id :: nat
  ev_sender_username :: pystr
  ev_body :: pystr
  ev_accepted_at :: instant

definition recent_times :: "(chat_message \<Rightarrow> bool) \<Rightarrow> nat \<Rightarrow> int \<Rightarrow> instant \<Rightarrow> db \<Rightarrow> instant list" where
  "recent_times P limit secs now d =
     take limit (sort (map (\<lambda>(_, m). message_accepted_at m)
       (tselect (\<lambda>_ m. P m \<and> message_accepted_at m > now - seconds secs) (chat_messages d))))"

text \<open>The ceiling of the seconds until the oldest of them leaves the window; 0 when the limit is not reached.\<close>

definition window_wait :: "(chat_message \<Rightarrow> bool) \<Rightarrow> nat \<Rightarrow> int \<Rightarrow> instant \<Rightarrow> db \<Rightarrow> int" where
  "window_wait P limit secs now d =
     (let ts = recent_times P limit secs now d in
      if length ts < limit then 0
      else - ((now - (hd ts + seconds secs)) div 1000000))"

definition enforce_rate_limits :: "nat \<Rightarrow> nat \<Rightarrow> instant \<Rightarrow> db \<Rightarrow> unit result" where
  "enforce_rate_limits sender_id connection_id now d =
     (let retry_after = max (max (max 0
            (window_wait (\<lambda>m. message_sender_id m = sender_id) CHAT_BURST_MESSAGES CHAT_BURST_SECONDS now d))
            (window_wait (\<lambda>m. message_sender_id m = sender_id) CHAT_SUSTAINED_MESSAGES CHAT_SUSTAINED_SECONDS now d))
            (window_wait (\<lambda>m. message_sender_id m = sender_id \<and> message_connection_id m = connection_id)
               CONNECTION_BURST_MESSAGES CONNECTION_BURST_SECONDS now d) in
      if retry_after \<noteq> 0 then Inl (ChatRateLimited (nat (max 1 retry_after))) else Inr ())"

definition find_replay :: "chat_command \<Rightarrow> db \<Rightarrow> (nat \<times> chat_message) option" where
  "find_replay c d =
     tfirst (\<lambda>_ m. message_room_id m = cc_room_id c \<and> message_sender_id m = cc_sender_id c \<and>
                   message_client_message_id m = cc_client_message_id c) (chat_messages d)"

definition message_event_key :: "nat \<Rightarrow> pystr" where
  "message_event_key k = lit ''chat.message:'' @ dec k"

text \<open>The notification of the other party of a product conversation.\<close>

definition notify_other_party :: "instant \<Rightarrow> nat \<Rightarrow> nat \<Rightarrow> nat \<Rightarrow> db \<Rightarrow> exn + db" where
  "notify_other_party tnow room_id sender_id k d =
     (case conversation_of room_id d of
        None \<Rightarrow> Inl ObjectDoesNotExist
      | Some (_, c) \<Rightarrow>
          let recipient = (if sender_id = conversation_seller_id c then conversation_buyer_id c
                           else conversation_seller_id c) in
          (case create_notification tnow recipient (message_event_key k) PRODUCT_MESSAGE
                  (Message_Payload room_id (conversation_product_id c) k) d of
             Inl e \<Rightarrow> Inl e
           | Inr (_, d1) \<Rightarrow> Inr d1))"

definition store_message :: "chat_env \<Rightarrow> chat_command \<Rightarrow> room \<Rightarrow> pystr \<Rightarrow> nat \<Rightarrow> db \<Rightarrow> exn + (nat \<times> db)" where
  "store_message env c r body hash d =
     (let (k, t) = tcreate \<lparr>message_room_id = cc_room_id c, message_sender_id = cc_sender_id c,
            message_connection_id = cc_connection_id c, message_client_message_id = cc_client_message_id c,
            message_body = body, message_payload_sha256 = hash, message_delivery = DEGRADED,
            message_accepted_at = ce_tnow env\<rparr> (chat_messages d);
          d1 = d\<lparr>chat_messages := t\<rparr> in
      if room_kind r = PRODUCT_ROOM then
        (case notify_other_party (ce_tnow env) (cc_room_id c) (cc_sender_id c) k d1 of
           Inl e \<Rightarrow> Inl e
         | Inr d2 \<Rightarrow> Inr (k, d2))
      else Inr (k, d1))"

text \<open>The transaction of \<open>accept\<close>: the key of the message, new or replayed.\<close>

definition accept_tx :: "chat_env \<Rightarrow> chat_command \<Rightarrow> pystr \<Rightarrow> nat \<Rightarrow> (nat \<times> bool, db) tx" where
  "accept_tx env c body hash d =
     (case require_message_accept_access (ce_tnow env) (cc_room_id c) (cc_sender_id c) d of
        Inl e \<Rightarrow> Inl e
      | Inr r \<Rightarrow>
          (case find_replay c d of
             Some (k, m) \<Rightarrow>
               if message_payload_sha256 m \<noteq> hash then Inl ChatReplayConflict else Inr ((k, True), d)
           | None \<Rightarrow>
               (case enforce_rate_limits (cc_sender_id c) (cc_connection_id c) (ce_tx_now env) d of
                  Inl e \<Rightarrow> Inl e
                | Inr _ \<Rightarrow>
                    (case store_message env c r body hash d of
                       Inl e \<Rightarrow> Inl e
                     | Inr (k, d1) \<Rightarrow> Inr ((k, False), d1)))))"

definition check_command :: "chat_env \<Rightarrow> chat_command \<Rightarrow> (pystr \<times> nat) result" where
  "check_command env c =
     (case require_uuid4 (cc_connection_id c) of Inl e \<Rightarrow> Inl e | Inr _ \<Rightarrow>
     (case require_uuid4 (cc_client_message_id c) of Inl e \<Rightarrow> Inl e | Inr _ \<Rightarrow>
     (case normalize_chat_text (cc_body c) of Inl e \<Rightarrow> Inl e | Inr body \<Rightarrow>
     (case canonical_payload_sha256 (ce_sha env) (cc_room_id c) (cc_sender_id c) body of
        Inl e \<Rightarrow> Inl e
      | Inr hash \<Rightarrow> Inr (body, hash)))))"

definition accepted_row :: "nat \<Rightarrow> chat_message \<Rightarrow> bool \<Rightarrow> accepted_message" where
  "accepted_row k m replayed =
     \<lparr>am_server_message_id = k, am_client_message_id = message_client_message_id m,
      am_accepted_at = message_accepted_at m, am_delivery = message_delivery m, am_replayed = replayed\<rparr>"

definition display_name_of :: "nat \<Rightarrow> db \<Rightarrow> pystr" where
  "display_name_of i d =
     identity_display_name (project_account_identity (map_option (\<lambda>u. (Some i, u)) (tget (users d) i)))"

definition event_of :: "nat \<Rightarrow> chat_message \<Rightarrow> db \<Rightarrow> chat_event" where
  "event_of k m d =
     \<lparr>ev_server_message_id = k, ev_sender_id = message_sender_id m,
      ev_sender_username = display_name_of (message_sender_id m) d, ev_body = message_body m,
      ev_accepted_at = message_accepted_at m\<rparr>"

definition mark_live :: "nat \<Rightarrow> db \<Rightarrow> db" where
  "mark_live k d = d\<lparr>chat_messages := tmodify k (\<lambda>m. m\<lparr>message_delivery := LIVE\<rparr>) (chat_messages d)\<rparr>"

text \<open>
  \<open>accept\<close>: the answer, the event handed to a publisher that took it, and the database. A publisher
  that raises leaves the accepted message degraded.
\<close>

definition accept :: "chat_env \<Rightarrow> chat_command \<Rightarrow> db \<Rightarrow> (exn + accepted_message) \<times> chat_event option \<times> db" where
  "accept env c d =
     (case check_command env c of
        Inl e \<Rightarrow> (Inl e, None, d)
      | Inr (body, hash) \<Rightarrow>
          (case accept_tx env c body hash d of
             Inl e \<Rightarrow> (Inl e, None, d)
           | Inr ((k, replayed), d1) \<Rightarrow>
               let m = the (tget (chat_messages d1) k) in
               if replayed then (Inr (accepted_row k m True), None, d1)
               else if ce_published env then
                 (Inr (accepted_row k (m\<lparr>message_delivery := LIVE\<rparr>) False), Some (event_of k m d1), mark_live k d1)
               else (Inr (accepted_row k m False), None, d1)))"

section \<open>History\<close>

record history_message =
  hm_server_message_id :: nat
  hm_sender_id :: nat
  hm_sender_username :: pystr
  hm_body :: pystr
  hm_accepted_at :: instant

definition history_row :: "db \<Rightarrow> nat \<times> chat_message \<Rightarrow> history_message" where
  "history_row d row =
     \<lparr>hm_server_message_id = fst row, hm_sender_id = message_sender_id (snd row),
      hm_sender_username = display_name_of (message_sender_id (snd row)) d,
      hm_body = message_body (snd row), hm_accepted_at = message_accepted_at (snd row)\<rparr>"

definition room_messages_after :: "nat \<Rightarrow> int \<Rightarrow> db \<Rightarrow> (nat \<times> chat_message) list" where
  "room_messages_after room_id cursor d =
     sort_key fst (tselect (\<lambda>k m. message_room_id m = room_id \<and> int k > cursor) (chat_messages d))"

definition history_after :: "instant \<Rightarrow> nat \<Rightarrow> nat \<Rightarrow> int \<Rightarrow> nat \<Rightarrow> db \<Rightarrow> history_message list result" where
  "history_after tnow room_id user_id cursor limit d =
     (if cursor < 0 then Inl ValueError
      else if \<not> (1 \<le> limit \<and> limit \<le> HISTORY_MAX_LIMIT) then Inl ValueError
      else case require_active_user tnow user_id d of Inl e \<Rightarrow> Inl e | Inr _ \<Rightarrow>
        (case require_room_access tnow room_id user_id True d of
           Inl e \<Rightarrow> Inl e
         | Inr _ \<Rightarrow> Inr (map (history_row d) (take limit (room_messages_after room_id cursor d)))))"

section \<open>Presence\<close>

definition authorized_presence_peers :: "instant \<Rightarrow> nat \<Rightarrow> nat \<Rightarrow> bool \<Rightarrow> db \<Rightarrow> nat list result" where
  "authorized_presence_peers tnow room_id user_id active_peers d =
     (case require_active_user tnow user_id d of Inl e \<Rightarrow> Inl e | Inr _ \<Rightarrow>
     (case require_room_access tnow room_id user_id active_peers d of Inl e \<Rightarrow> Inl e | Inr r \<Rightarrow>
      if room_kind r = GLOBAL then Inl ChatAuthorizationError
      else
        let peers = (if room_kind r = DIRECT then
               (case (if room_direct_user_low r = Some user_id then room_direct_user_high r
                      else room_direct_user_low r) of None \<Rightarrow> [] | Some p \<Rightarrow> [p])
             else (case conversation_of room_id d of
                     None \<Rightarrow> []
                   | Some (_, c) \<Rightarrow> [if conversation_seller_id c = user_id then conversation_buyer_id c
                                    else conversation_seller_id c])) in
        if active_peers \<and> \<not> list_all (\<lambda>i. \<not> isl (require_active_user tnow i d)) peers
        then Inl ChatAuthorizationError
        else Inr peers))"

text \<open>\<open>live\<close> is \<open>count_live\<close> of the presence backend.\<close>

definition peer_states :: "instant \<Rightarrow> (nat \<Rightarrow> nat \<Rightarrow> nat) \<Rightarrow> nat \<Rightarrow> nat \<Rightarrow> db \<Rightarrow> (nat \<times> bool) list result" where
  "peer_states tnow live room_id user_id d =
     (case authorized_presence_peers tnow room_id user_id False d of
        Inl e \<Rightarrow> Inl e
      | Inr peers \<Rightarrow>
          Inr (map (\<lambda>p. (p, \<not> isl (require_active_user tnow p d) \<and> live room_id p > 0)) peers))"

end
