(* ===== verification/Chat_Socket.thy ===== *)
theory Chat_Socket imports Chat Trades begin

text \<open>
  The chat WebSocket (\<open>chat/consumers.py\<close>) and the chat pages (\<open>chat/views.py\<close>): the origin check, the
  life of a connection from connect to disconnect, the operations a client may send, and the delivery
  of published messages to the connections of a room.
\<close>

section \<open>The origin check\<close>

text \<open>
  The parts of Python's \<open>urlsplit\<close> the check reads; \<open>split\<close> is \<open>urlsplit\<close> (\<open>None\<close> when it raises), the
  port is \<open>None\<close> when reading it raises. \<open>casefold\<close> is \<open>str.casefold\<close>.
\<close>

record split_url =
  url_scheme :: pystr
  url_username :: "pystr option"
  url_password :: "pystr option"
  url_path :: pystr
  url_query :: pystr
  url_fragment :: pystr
  url_hostname :: "pystr option"
  url_port :: "nat option option"

definition plain_url :: "split_url \<Rightarrow> bool" where
  "plain_url u \<longleftrightarrow>
     url_username u = None \<and> url_password u = None \<and> (url_path u = [] \<or> url_path u = lit ''/'') \<and>
     url_query u = [] \<and> url_fragment u = [] \<and> url_hostname u \<noteq> None"

definition effective_port :: "nat \<Rightarrow> split_url \<Rightarrow> nat option" where
  "effective_port default_port u =
     (case url_port u of
        None \<Rightarrow> None
      | Some None \<Rightarrow> Some default_port
      | Some (Some p) \<Rightarrow> Some (if p = 0 then default_port else p))"

definition header_values :: "string \<Rightarrow> (pystr \<times> pystr) list \<Rightarrow> pystr list" where
  "header_values name headers = map snd (filter (\<lambda>(n, _). ascii_lower n = lit name) headers)"

definition is_ascii :: "pystr \<Rightarrow> bool" where
  "is_ascii s \<longleftrightarrow> list_all (\<lambda>c. c < 128) s"

definition same_origin :: "(pystr \<Rightarrow> pystr) \<Rightarrow> bool \<Rightarrow> split_url \<Rightarrow> split_url \<Rightarrow> bool" where
  "same_origin casefold secure origin host \<longleftrightarrow>
     url_scheme origin = (if secure then lit ''https'' else lit ''http'') \<and> plain_url origin \<and> plain_url host \<and>
     casefold (the (url_hostname origin)) = casefold (the (url_hostname host)) \<and>
     (let default_port = (if secure then 443 else 80) in
      effective_port default_port origin \<noteq> None \<and>
      effective_port default_port origin = effective_port default_port host)"

definition has_exact_origin ::
    "(pystr \<Rightarrow> split_url option) \<Rightarrow> (pystr \<Rightarrow> pystr) \<Rightarrow> bool \<Rightarrow> (pystr \<times> pystr) list \<Rightarrow> bool" where
  "has_exact_origin split casefold secure headers \<longleftrightarrow>
     (case (header_values ''origin'' headers, header_values ''host'' headers) of
        ([o1], [h1]) \<Rightarrow>
          is_ascii o1 \<and> is_ascii h1 \<and>
          (case (split o1, split (lit ''//'' @ h1)) of
             (Some origin, Some host) \<Rightarrow> same_origin casefold secure origin host
           | _ \<Rightarrow> False)
      | _ \<Rightarrow> False)"

section \<open>Connections\<close>

definition DORMANT_CLOSE_CODE :: nat where "DORMANT_CLOSE_CODE = 4403"

definition room_group_name :: "nat \<Rightarrow> pystr" where
  "room_group_name room_id = lit ''chat.room.'' @ dec room_id"

definition user_close_group_name :: "nat \<Rightarrow> pystr result" where
  "user_close_group_name user_id =
     (if user_id = 0 then Inl ValueError else Inr (lit ''chat.user-close.'' @ dec user_id))"

record socket =
  sock_user_id :: nat
  sock_room_id :: nat
  sock_connection_id :: nat
  sock_group_joined :: bool
  sock_close_joined :: bool
  sock_presence_online :: bool

datatype frame =
    Degraded_Frame
  | Dormant_Frame
  | Error_Frame string
  | Rate_Limited_Frame nat
  | Ack_Frame accepted_message
  | History_Frame "history_message list"
  | Presence_Frame "(nat \<times> bool) list"
  | Message_Frame chat_event
  | Close_Frame nat
  | Crash exn

definition authorize :: "instant \<Rightarrow> nat \<Rightarrow> nat \<Rightarrow> db \<Rightarrow> unit result" where
  "authorize tnow room_id user_id d =
     (case require_active_user tnow user_id d of
        Inl e \<Rightarrow> Inl e
      | Inr _ \<Rightarrow> (case require_room_access tnow room_id user_id True d of Inl e \<Rightarrow> Inl e | Inr _ \<Rightarrow> Inr ()))"

text \<open>
  What the channel layer and the presence backend answer: whether the two groups could be joined,
  whether the backend took a touch, and the live counts.
\<close>

record socket_env =
  se_tnow :: instant
  se_connection_id :: nat
  se_join_room :: bool
  se_join_close :: bool
  se_touch :: bool
  se_live :: "nat \<Rightarrow> nat \<Rightarrow> nat"

definition presence_online :: "socket_env \<Rightarrow> nat \<Rightarrow> nat \<Rightarrow> db \<Rightarrow> bool" where
  "presence_online env room_id user_id d \<longleftrightarrow>
     \<not> isl (authorized_presence_peers (se_tnow env) room_id user_id True d) \<and> se_touch env"

text \<open>\<open>connect\<close>: the frames sent and the connection, if it was accepted.\<close>

definition ws_connect ::
    "socket_env \<Rightarrow> nat option \<Rightarrow> bool \<Rightarrow> nat \<Rightarrow> db \<Rightarrow> frame list \<times> socket option" where
  "ws_connect env user origin_ok room_id d =
     (case user of
        None \<Rightarrow> ([Close_Frame DORMANT_CLOSE_CODE], None)
      | Some user_id \<Rightarrow>
          if \<not> origin_ok then ([Close_Frame DORMANT_CLOSE_CODE], None)
          else case authorize (se_tnow env) room_id user_id d of
            Inl _ \<Rightarrow> ([Close_Frame DORMANT_CLOSE_CODE], None)
          | Inr _ \<Rightarrow>
              ((if se_join_room env \<and> se_join_close env then [] else [Degraded_Frame]),
               Some \<lparr>sock_user_id = user_id, sock_room_id = room_id, sock_connection_id = se_connection_id env,
                     sock_group_joined = se_join_room env, sock_close_joined = se_join_close env,
                     sock_presence_online = presence_online env room_id user_id d\<rparr>))"

section \<open>Client operations\<close>

definition member :: "string \<Rightarrow> (pystr \<times> json) list \<Rightarrow> json option" where
  "member name pairs = map_of (rev pairs) (lit name)"

definition send_presence :: "socket_env \<Rightarrow> socket \<Rightarrow> db \<Rightarrow> frame list" where
  "send_presence env s d =
     (if \<not> presence_online env (sock_room_id s) (sock_user_id s) d then [Error_Frame ''presence_unavailable'']
      else case peer_states (se_tnow env) (se_live env) (sock_room_id s) (sock_user_id s) d of
        Inl _ \<Rightarrow> [Error_Frame ''presence_unavailable'']
      | Inr states \<Rightarrow> [Presence_Frame states])"

definition send_failure :: "exn \<Rightarrow> frame list" where
  "send_failure e =
     (case e of
        ChatRateLimited n \<Rightarrow> [Rate_Limited_Frame n]
      | ChatReplayConflict \<Rightarrow> [Error_Frame ''replay_conflict'']
      | ChatAuthorizationError \<Rightarrow> [Close_Frame DORMANT_CLOSE_CODE]
      | _ \<Rightarrow> if is_subclass e ValueError then [Error_Frame ''invalid_message''] else [Crash e])"

text \<open>\<open>uuid_of\<close> is \<open>UUID(str(value))\<close>, \<open>None\<close> when it raises \<open>ValueError\<close>.\<close>

definition send_message ::
    "chat_env \<Rightarrow> (json \<Rightarrow> nat option) \<Rightarrow> socket \<Rightarrow> (pystr \<times> json) list \<Rightarrow> db \<Rightarrow> frame list \<times> chat_event option \<times> db" where
  "send_message ce uuid_of s pairs d =
     (case uuid_of (case member ''client_message_id'' pairs of None \<Rightarrow> J_Str [] | Some v \<Rightarrow> v) of
        None \<Rightarrow> (send_failure ValueError, None, d)
      | Some client_id \<Rightarrow>
          (case member ''body'' pairs of
             Some (J_Str body) \<Rightarrow>
               (case accept ce \<lparr>cc_room_id = sock_room_id s, cc_sender_id = sock_user_id s,
                       cc_connection_id = sock_connection_id s, cc_client_message_id = client_id, cc_body = body\<rparr> d of
                  (Inl e, ev, d1) \<Rightarrow> (send_failure e, ev, d1)
                | (Inr a, ev, d1) \<Rightarrow> ([Ack_Frame a], ev, d1))
           | _ \<Rightarrow> (send_failure ChatPolicyError, None, d)))"

text \<open>\<open>int_of\<close> is Python's \<open>int\<close> on a decoded value with what it raises.\<close>

definition send_history :: "instant \<Rightarrow> (json \<Rightarrow> int result) \<Rightarrow> socket \<Rightarrow> (pystr \<times> json) list \<Rightarrow> db \<Rightarrow> frame list" where
  "send_history tnow int_of s pairs d =
     (let answer = (case int_of (case member ''cursor'' pairs of None \<Rightarrow> J_Int 0 | Some v \<Rightarrow> v) of
             Inl e \<Rightarrow> Inl e
           | Inr cursor \<Rightarrow> history_after tnow (sock_room_id s) (sock_user_id s) cursor 100 d) in
      case answer of
        Inl e \<Rightarrow>
          if e = ChatAuthorizationError then [Dormant_Frame, Close_Frame DORMANT_CLOSE_CODE]
          else if e = TypeError \<or> is_subclass e ValueError then [Error_Frame ''invalid_cursor'']
          else [Crash e]
      | Inr history \<Rightarrow> [History_Frame history])"

definition ws_receive ::
    "socket_env \<Rightarrow> chat_env \<Rightarrow> (json \<Rightarrow> nat option) \<Rightarrow> (json \<Rightarrow> int result) \<Rightarrow> socket \<Rightarrow> json \<Rightarrow> db \<Rightarrow>
     frame list \<times> chat_event option \<times> db" where
  "ws_receive env ce uuid_of int_of s content d =
     (case authorize (se_tnow env) (sock_room_id s) (sock_user_id s) d of
        Inl _ \<Rightarrow> ([Dormant_Frame, Close_Frame DORMANT_CLOSE_CODE], None, d)
      | Inr _ \<Rightarrow>
          (case content of
             J_Object pairs \<Rightarrow>
               if member ''type'' pairs = Some (J_Str (lit ''history''))
               then (send_history (se_tnow env) int_of s pairs d, None, d)
               else if member ''type'' pairs = Some (J_Str (lit ''send'')) then send_message ce uuid_of s pairs d
               else if member ''type'' pairs = Some (J_Str (lit ''presence'')) then (send_presence env s d, None, d)
               else ([Error_Frame ''invalid_request''], None, d)
           | _ \<Rightarrow> ([Error_Frame ''invalid_request''], None, d)))"

section \<open>Delivery\<close>

definition ws_chat_message :: "instant \<Rightarrow> socket \<Rightarrow> chat_event \<Rightarrow> db \<Rightarrow> frame list" where
  "ws_chat_message tnow s ev d =
     (case authorize tnow (sock_room_id s) (sock_user_id s) d of
        Inl _ \<Rightarrow> [Dormant_Frame, Close_Frame DORMANT_CLOSE_CODE]
      | Inr _ \<Rightarrow> [Message_Frame ev])"

definition ws_user_close :: "frame list" where
  "ws_user_close = [Close_Frame DORMANT_CLOSE_CODE]"

text \<open>The channel layer hands an event of a room's group to every connection that joined it.\<close>

definition broadcast :: "instant \<Rightarrow> nat \<Rightarrow> chat_event \<Rightarrow> socket list \<Rightarrow> db \<Rightarrow> (socket \<times> frame list) list" where
  "broadcast tnow room_id ev sockets d =
     map (\<lambda>s. (s, ws_chat_message tnow s ev d))
       (filter (\<lambda>s. sock_group_joined s \<and> room_group_name (sock_room_id s) = room_group_name room_id) sockets)"

text \<open>A connection that was closed, by either side, is gone from its groups (\<open>disconnect\<close>).\<close>

definition closes :: "frame list \<Rightarrow> bool" where
  "closes fs \<longleftrightarrow> list_ex (\<lambda>f. case f of Close_Frame _ \<Rightarrow> True | _ \<Rightarrow> False) fs"

definition ws_disconnect :: "socket \<Rightarrow> pystr list" where
  "ws_disconnect s =
     (if sock_group_joined s then [room_group_name (sock_room_id s)] else []) @
     (if sock_close_joined s then (case user_close_group_name (sock_user_id s) of Inl _ \<Rightarrow> [] | Inr g \<Rightarrow> [g]) else [])"

section \<open>The chat pages\<close>

datatype chat_page = Chat_404 | To_Room nat | To_Chat_Login

definition product_room :: "instant \<Rightarrow> nat \<Rightarrow> nat \<Rightarrow> db \<Rightarrow> (exn + chat_page) \<times> db" where
  "product_room tnow product_id user_id d =
     (case atomic (get_or_create_product_conversation tnow product_id user_id) d of
        (Inl ChatAuthorizationError, d1) \<Rightarrow> (Inr Chat_404, d1)
      | (Inl e, d1) \<Rightarrow> (Inl e, d1)
      | (Inr k, d1) \<Rightarrow>
          (Inr (case tget (product_conversations d1) k of None \<Rightarrow> Chat_404 | Some c \<Rightarrow> To_Room (conversation_room_id c)), d1))"

text \<open>Rows are in the order of their creation, the pages show the newest first.\<close>

definition own_direct_rooms :: "nat \<Rightarrow> db \<Rightarrow> (nat \<times> nat option) list" where
  "own_direct_rooms user_id d =
     rev (map (\<lambda>(k, r). (k, if room_direct_user_low r = Some user_id then room_direct_user_high r else room_direct_user_low r))
       (tselect (\<lambda>_ r. room_kind r = DIRECT \<and>
          (room_direct_user_low r = Some user_id \<or> room_direct_user_high r = Some user_id)) (rooms d)))"

definition own_product_rooms :: "nat \<Rightarrow> db \<Rightarrow> (nat \<times> product_conversation) list" where
  "own_product_rooms user_id d =
     rev (tselect (\<lambda>_ c. conversation_seller_id c = user_id \<or> conversation_buyer_id c = user_id) (product_conversations d))"

record room_page =
  page_messages :: "(nat \<times> chat_message) list"
  page_conversation :: "(nat \<times> product_conversation) option"
  page_global_room :: "(nat \<times> room) option"
  page_direct_rooms :: "(nat \<times> nat option) list"
  page_product_rooms :: "(nat \<times> product_conversation) list"

text \<open>The newest hundred messages, oldest first.\<close>

definition newest_messages :: "nat \<Rightarrow> db \<Rightarrow> (nat \<times> chat_message) list" where
  "newest_messages room_id d =
     rev (take 100 (rev (sort_key fst (tselect (\<lambda>_ m. message_room_id m = room_id) (chat_messages d)))))"

definition room_detail :: "instant \<Rightarrow> nat \<Rightarrow> nat \<Rightarrow> db \<Rightarrow> room_page option" where
  "room_detail tnow room_id user_id d =
     (case authorize tnow room_id user_id d of
        Inl _ \<Rightarrow> None
      | Inr _ \<Rightarrow> Some
          \<lparr>page_messages = newest_messages room_id d, page_conversation = conversation_of room_id d,
           page_global_room = tfirst (\<lambda>_ r. room_kind r = GLOBAL) (rooms d),
           page_direct_rooms = own_direct_rooms user_id d, page_product_rooms = own_product_rooms user_id d\<rparr>)"

definition room_list :: "nat \<Rightarrow> db \<Rightarrow> room_page" where
  "room_list user_id d =
     \<lparr>page_messages = [], page_conversation = None,
      page_global_room = tfirst (\<lambda>_ r. room_kind r = GLOBAL) (rooms d),
      page_direct_rooms = own_direct_rooms user_id d, page_product_rooms = own_product_rooms user_id d\<rparr>"

text \<open>\<open>int_text\<close> is \<open>int\<close> on the query text; \<open>None\<close> is the answer 404.\<close>

definition room_history :: "instant \<Rightarrow> (pystr \<Rightarrow> int result) \<Rightarrow> pystr option \<Rightarrow> nat \<Rightarrow> nat \<Rightarrow> db \<Rightarrow> history_message list option" where
  "room_history tnow int_text cursor room_id user_id d =
     (case int_text (case cursor of None \<Rightarrow> lit ''0'' | Some c \<Rightarrow> c) of
        Inl _ \<Rightarrow> None
      | Inr c \<Rightarrow> (case history_after tnow room_id user_id c 100 d of Inl _ \<Rightarrow> None | Inr h \<Rightarrow> Some h))"

end
