(* ===== verification/Chat_System.thy ===== *)
theory Chat_System imports Chat_Socket "HOL-Library.Countable" begin

text \<open>
  Chat as a system: what an acceptance does, the rate limits and the rooms as invariants of every
  interleaving, the history as a client fetches it, the notification of the other party, and an
  example conversation.
\<close>

section \<open>Acceptance\<close>

text \<open>The checks and the transaction of \<open>accept\<close> as one command.\<close>

definition accept_exec :: "chat_env \<Rightarrow> chat_command \<Rightarrow> db \<Rightarrow> exn + ((nat \<times> bool) \<times> db)" where
  "accept_exec env c d =
     (case check_command env c of Inl e \<Rightarrow> Inl e | Inr (body, hash) \<Rightarrow> accept_tx env c body hash d)"

lemma accept_from_exec:
  "accept env c d = (case accept_exec env c d of
      Inl e \<Rightarrow> (Inl e, None, d)
    | Inr ((k, replayed), d1) \<Rightarrow>
        let m = the (tget (chat_messages d1) k) in
        if replayed then (Inr (accepted_row k m True), None, d1)
        else if ce_published env then
          (Inr (accepted_row k (m\<lparr>message_delivery := LIVE\<rparr>) False), Some (event_of k m d1), mark_live k d1)
        else (Inr (accepted_row k m False), None, d1))"
  by (simp add: accept_def accept_exec_def split: sum.splits prod.splits)

definition new_message :: "chat_env \<Rightarrow> chat_command \<Rightarrow> pystr \<Rightarrow> nat \<Rightarrow> chat_message" where
  "new_message env c body hash =
     \<lparr>message_room_id = cc_room_id c, message_sender_id = cc_sender_id c,
      message_connection_id = cc_connection_id c, message_client_message_id = cc_client_message_id c,
      message_body = body, message_payload_sha256 = hash, message_delivery = DEGRADED,
      message_accepted_at = ce_tnow env\<rparr>"

lemma notify_other_party_frame:
  "notify_other_party tnow room sender k d = Inr d' \<Longrightarrow> d' = d\<lparr>notifications := notifications d'\<rparr>"
  by (auto simp: notify_other_party_def create_notification_def Let_def split: option.splits if_splits prod.splits)

definition with_message :: "chat_env \<Rightarrow> chat_command \<Rightarrow> pystr \<Rightarrow> nat \<Rightarrow> db \<Rightarrow> db" where
  "with_message env c body hash d =
     d\<lparr>chat_messages := snd (tcreate (new_message env c body hash) (chat_messages d))\<rparr>"

lemma store_message_cases:
  assumes "store_message env c r body hash d = Inr (k, d')"
  shows "k = next_pk (chat_messages d) \<and>
    (if room_kind r = PRODUCT_ROOM
     then notify_other_party (ce_tnow env) (cc_room_id c) (cc_sender_id c) k (with_message env c body hash d) = Inr d'
     else d' = with_message env c body hash d)"
  using assms by (cases "room_kind r = PRODUCT_ROOM")
    (auto simp: store_message_def new_message_def with_message_def tcreate_def Let_def split: sum.splits)

text \<open>The two ways a command is accepted.\<close>

lemma accept_exec_cases:
  assumes "accept_exec env c d = Inr ((k, replayed), d')"
  obtains (replay) m body where "replayed" "find_replay c d = Some (k, m)" "d' = d"
        "check_command env c = Inr (body, message_payload_sha256 m)"
    | (new) body hash r where "\<not> replayed" "check_command env c = Inr (body, hash)"
        "require_message_accept_access (ce_tnow env) (cc_room_id c) (cc_sender_id c) d = Inr r"
        "find_replay c d = None" "enforce_rate_limits (cc_sender_id c) (cc_connection_id c) (ce_tx_now env) d = Inr ()"
        "k = next_pk (chat_messages d)"
        "chat_messages d' = snd (tcreate (new_message env c body hash) (chat_messages d))"
        "d' = d\<lparr>chat_messages := chat_messages d', notifications := notifications d'\<rparr>"
        "store_message env c r body hash d = Inr (k, d')"
proof -
  from assms obtain body hash where chk: "check_command env c = Inr (body, hash)"
    and tx: "accept_tx env c body hash d = Inr ((k, replayed), d')"
    by (auto simp: accept_exec_def split: sum.splits)
  from tx obtain r where r: "require_message_accept_access (ce_tnow env) (cc_room_id c) (cc_sender_id c) d = Inr r"
    by (auto simp: accept_tx_def split: sum.splits)
  show ?thesis
  proof (cases "find_replay c d")
    case (Some p)
    obtain k' m where "p = (k', m)" by force
    with tx r Some chk replay [of m body] show ?thesis by (auto simp: accept_tx_def split: if_splits)
  next
    case None
    with tx r have lim: "enforce_rate_limits (cc_sender_id c) (cc_connection_id c) (ce_tx_now env) d = Inr ()"
      and st: "\<not> replayed" "store_message env c r body hash d = Inr (k, d')"
      by (auto simp: accept_tx_def split: sum.splits)
    from store_message_cases [OF st(2)] have k: "k = next_pk (chat_messages d)"
      and d': "d' = (with_message env c body hash d)\<lparr>notifications := notifications d'\<rparr>"
      by (auto split: if_splits dest: notify_other_party_frame)
    have m: "chat_messages d' = snd (tcreate (new_message env c body hash) (chat_messages d))"
      using arg_cong [OF d', of chat_messages] by (simp add: with_message_def)
    have f: "d' = d\<lparr>chat_messages := chat_messages d', notifications := notifications d'\<rparr>"
      unfolding m by (rule d' [unfolded with_message_def])
    show ?thesis by (rule new [OF st(1) chk r None lim k m f st(2)])
  qed
qed

section \<open>Replays\<close>

definition accept_run :: "chat_env \<Rightarrow> chat_command \<Rightarrow> db \<Rightarrow> exn + (accepted_message \<times> db)" where
  "accept_run env c d = (case accept env c d of (Inl e, _, _) \<Rightarrow> Inl e | (Inr a, _, d') \<Rightarrow> Inr (a, d'))"

definition same_message :: "accepted_message \<Rightarrow> accepted_message \<Rightarrow> bool" where
  "same_message a b \<longleftrightarrow> am_server_message_id a = am_server_message_id b \<and>
     am_client_message_id a = am_client_message_id b \<and> am_accepted_at a = am_accepted_at b \<and>
     am_delivery a = am_delivery b"

definition messages_wf :: "db \<Rightarrow> bool" where
  "messages_wf d \<longleftrightarrow> wf_table (chat_messages d)"

text \<open>After an acceptance the message is the one its client id finds.\<close>

lemma accept_run_found:
  assumes wf: "messages_wf d" and run: "accept_run env c d = Inr (a, d')"
  shows "\<exists>m. find_replay c d' = Some (am_server_message_id a, m) \<and>
    a = accepted_row (am_server_message_id a) m (am_replayed a)"
proof -
  from run obtain k rep d1 where ex: "accept_exec env c d = Inr ((k, rep), d1)"
    by (auto simp: accept_run_def accept_from_exec split: sum.splits prod.splits)
  from ex show ?thesis
  proof (cases rule: accept_exec_cases)
    case (replay m b)
    from wf replay(2) have "tget (chat_messages d) k = Some m"
      by (auto simp: find_replay_def messages_wf_def dest: tfirst_tget)
    with run ex replay show ?thesis by (auto simp: accept_run_def accept_from_exec accepted_row_def)
  next
    case (new body hash r)
    define m where "m = new_message env c body hash"
    have f1: "find_replay c d1 = Some (k, m)"
      using new(4) new(6) unfolding find_replay_def new(7)
      by (auto simp: tfirst_tcreate m_def new_message_def split: option.splits)
    have g1: "tget (chat_messages d1) k = Some m"
      using wf new(6) unfolding new(7) by (simp add: messages_wf_def tbl_simps m_def)
    show ?thesis
    proof (cases "ce_published env")
      case False
      with run ex new(1) g1 f1 show ?thesis by (auto simp: accept_run_def accept_from_exec accepted_row_def)
    next
      case True
      then have "d' = mark_live k d1" "a = accepted_row k (m\<lparr>message_delivery := LIVE\<rparr>) False"
        using run ex new(1) g1 by (auto simp: accept_run_def accept_from_exec)
      moreover have "find_replay c (mark_live k d1) = Some (k, m\<lparr>message_delivery := LIVE\<rparr>)"
        using f1 by (simp add: find_replay_def mark_live_def tfirst_tmodify)
      ultimately show ?thesis by (auto simp: accepted_row_def)
    qed
  qed
qed

lemma accept_run_wf:
  assumes wf: "messages_wf d" and run: "accept_run env c d = Inr (a, d')" shows "messages_wf d'"
proof -
  from run obtain k rep d1 where ex: "accept_exec env c d = Inr ((k, rep), d1)"
    and d': "d' = d1 \<or> d' = mark_live k d1"
    by (auto simp: accept_run_def accept_from_exec Let_def split: sum.splits prod.splits if_splits)
  from ex have "messages_wf d1"
    by (cases rule: accept_exec_cases) (use wf in \<open>simp_all add: messages_wf_def wf_tcreate\<close>)
  with d' show ?thesis by (auto simp: messages_wf_def mark_live_def wf_tmodify)
qed

lemma accept_run_replays:
  assumes wf: "messages_wf d" and found: "find_replay c d = Some (k, m)" and run: "accept_run env c d = Inr (a, d')"
  shows "d' = d \<and> a = accepted_row k m True"
proof -
  from run obtain k' rep d1 where ex: "accept_exec env c d = Inr ((k', rep), d1)"
    by (auto simp: accept_run_def accept_from_exec split: sum.splits prod.splits)
  from wf found have g: "tget (chat_messages d) k = Some m"
    by (auto simp: find_replay_def messages_wf_def dest: tfirst_tget)
  from ex show ?thesis
  proof (cases rule: accept_exec_cases)
    case (replay m' b)
    with found run ex g show ?thesis by (auto simp: accept_run_def accept_from_exec)
  next
    case (new body hash r)
    with found show ?thesis by simp
  qed
qed

interpretation chat: replayable accept_run same_message messages_wf
proof unfold_locales
  fix s e c r s' e' r' s''
  assume wf: "messages_wf s" and one: "accept_run e c s = Inr (r, s')" and two: "accept_run e' c s' = Inr (r', s'')"
  from accept_run_found [OF wf one] obtain m where m: "find_replay c s' = Some (am_server_message_id r, m)"
    "r = accepted_row (am_server_message_id r) m (am_replayed r)" by blast
  from accept_run_replays [OF accept_run_wf [OF wf one] m(1) two] m(2)
  show "s'' = s' \<and> same_message r r'" unfolding same_message_def
    by (metis (no_types, lifting) accepted_message.select_convs accepted_row_def)
qed

section \<open>Rate limits\<close>

definition sent_in :: "nat \<Rightarrow> instant \<Rightarrow> instant \<Rightarrow> db \<Rightarrow> nat" where
  "sent_in sender lo hi d =
     tcount (\<lambda>_ m. message_sender_id m = sender \<and> lo < message_accepted_at m \<and> message_accepted_at m \<le> hi) (chat_messages d)"

definition within_rate :: "nat \<Rightarrow> int \<Rightarrow> db \<Rightarrow> bool" where
  "within_rate limit secs d \<longleftrightarrow> (\<forall>sender t. sent_in sender (t - seconds secs) t d \<le> limit)"

definition rates_ok :: "instant \<Rightarrow> db \<Rightarrow> bool" where
  "rates_ok now d \<longleftrightarrow>
     tall (\<lambda>_ m. message_accepted_at m \<le> now) (chat_messages d) \<and>
     within_rate CHAT_BURST_MESSAGES CHAT_BURST_SECONDS d \<and>
     within_rate CHAT_SUSTAINED_MESSAGES CHAT_SUSTAINED_SECONDS d"

lemma length_filter_mono:
  "(\<And>x. x \<in> set xs \<Longrightarrow> P x \<Longrightarrow> Q x) \<Longrightarrow> length (filter P xs) \<le> length (filter Q xs)"
  by (induction xs) auto

lemma tcount_mono:
  "(\<And>k r. (k, r) \<in> set (rows t) \<Longrightarrow> P k r \<Longrightarrow> Q k r) \<Longrightarrow> tcount P t \<le> tcount Q t"
  unfolding tcount_def tselect_def by (rule length_filter_mono) auto

lemma length_filter_upd:
  "(\<And>i r. P i (f r) = P i r) \<Longrightarrow>
   length (filter (\<lambda>(i, r). P i r) (map (\<lambda>(i, r). (i, if Q i r then f r else r)) xs)) =
   length (filter (\<lambda>(i, r). P i r) xs)"
  by (induction xs) (auto split: if_splits)

lemma tcount_tmodify_same: "(\<And>i r. P i (f r) = P i r) \<Longrightarrow> tcount P (tmodify k f t) = tcount P t"
  using length_filter_upd [of P f "\<lambda>i _. i = k" "rows t"] by (simp add: tcount_def tselect_def tmodify_def tupdate_def)

text \<open>A window without a wait holds fewer messages than its limit.\<close>

lemma window_open:
  assumes "window_wait P limit secs now d = 0" "0 < limit"
  shows "tcount (\<lambda>_ m. P m \<and> now - seconds secs < message_accepted_at m) (chat_messages d) < limit"
proof (rule ccontr)
  let ?ts = "recent_times P limit secs now d"
  let ?all = "sort (map (\<lambda>(_, m). message_accepted_at m)
      (tselect (\<lambda>_ m. P m \<and> now - seconds secs < message_accepted_at m) (chat_messages d)))"
  assume "\<not> tcount (\<lambda>_ m. P m \<and> now - seconds secs < message_accepted_at m) (chat_messages d) < limit"
  then have len: "limit \<le> length ?all" by (simp add: tcount_def)
  have ts: "?ts = take limit ?all" by (simp add: recent_times_def)
  with len have full: "length ?ts = limit" by simp
  then have "hd ?ts \<in> set ?ts" using assms(2) by (metis hd_in_set length_greater_0_conv)
  then have "hd ?ts \<in> set ?all" unfolding ts by (rule in_set_takeD)
  then have "now - seconds secs < hd ?ts" by (auto simp: tselect_def)
  then have "(now - (hd ?ts + seconds secs)) div 1000000 < 0" by (simp add: neg_imp_zdiv_neg_iff)
  with assms(1) full show False by (simp add: window_wait_def Let_def)
qed

lemma window_wait_nonneg: "0 < limit \<Longrightarrow> 0 \<le> window_wait P limit secs now d"
proof -
  let ?ts = "recent_times P limit secs now d"
  assume l: "0 < limit"
  show ?thesis
  proof (cases "length ?ts < limit")
    case False
    with l have "hd ?ts \<in> set ?ts" by (metis hd_in_set length_0_conv)
    then have "now - seconds secs < hd ?ts"
      unfolding recent_times_def by (auto dest!: in_set_takeD simp: tselect_def)
    then have "(now - (hd ?ts + seconds secs)) div 1000000 < 0" by (simp add: neg_imp_zdiv_neg_iff)
    then show ?thesis by (simp add: window_wait_def Let_def)
  qed (simp add: window_wait_def)
qed

lemma limits_open:
  assumes "enforce_rate_limits sender conn now d = Inr ()"
  shows "tcount (\<lambda>_ m. message_sender_id m = sender \<and> now - seconds CHAT_BURST_SECONDS < message_accepted_at m) (chat_messages d)
      < CHAT_BURST_MESSAGES"
    and "tcount (\<lambda>_ m. message_sender_id m = sender \<and> now - seconds CHAT_SUSTAINED_SECONDS < message_accepted_at m) (chat_messages d)
      < CHAT_SUSTAINED_MESSAGES"
proof -
  let ?b = "window_wait (\<lambda>m. message_sender_id m = sender) CHAT_BURST_MESSAGES CHAT_BURST_SECONDS now d"
  let ?s = "window_wait (\<lambda>m. message_sender_id m = sender) CHAT_SUSTAINED_MESSAGES CHAT_SUSTAINED_SECONDS now d"
  have nn: "0 \<le> ?b" "0 \<le> ?s" by (simp_all add: window_wait_nonneg chat_limits)
  from assms have "?b \<le> 0" "?s \<le> 0" by (auto simp: enforce_rate_limits_def Let_def max_def split: if_splits)
  with nn have "?b = 0" "?s = 0" by auto
  from window_open [OF this(1)] window_open [OF this(2)]
  show "tcount (\<lambda>_ m. message_sender_id m = sender \<and> now - seconds CHAT_BURST_SECONDS < message_accepted_at m) (chat_messages d)
      < CHAT_BURST_MESSAGES"
    "tcount (\<lambda>_ m. message_sender_id m = sender \<and> now - seconds CHAT_SUSTAINED_SECONDS < message_accepted_at m) (chat_messages d)
      < CHAT_SUSTAINED_MESSAGES"
    by (simp_all add: chat_limits)
qed

lemma within_rate_new:
  assumes old: "within_rate limit secs d" and times: "tall (\<lambda>_ m. message_accepted_at m \<le> now) (chat_messages d)"
    and room: "tcount (\<lambda>_ m. message_sender_id m = message_sender_id x \<and> tx - seconds secs < message_accepted_at m) (chat_messages d) < limit"
    and t: "tx \<le> message_accepted_at x" "now \<le> message_accepted_at x"
    and d': "chat_messages d' = snd (tcreate x (chat_messages d))"
  shows "within_rate limit secs d'"
  unfolding within_rate_def
proof (intro allI)
  fix sender t
  let ?in = "\<lambda>m. message_sender_id m = sender \<and> t - seconds secs < message_accepted_at m \<and> message_accepted_at m \<le> t"
  have step: "sent_in sender (t - seconds secs) t d' = sent_in sender (t - seconds secs) t d + (if ?in x then 1 else 0)"
    by (simp add: sent_in_def d' tbl_simps)
  show "sent_in sender (t - seconds secs) t d' \<le> limit"
  proof (cases "?in x")
    case False
    with step old show ?thesis by (simp add: within_rate_def)
  next
    case True
    have "sent_in sender (t - seconds secs) t d \<le>
      tcount (\<lambda>_ m. message_sender_id m = message_sender_id x \<and> tx - seconds secs < message_accepted_at m) (chat_messages d)"
      unfolding sent_in_def by (rule tcount_mono) (use True t in auto)
    with step room True show ?thesis by simp
  qed
qed

lemma rates_ok_new:
  assumes ok: "rates_ok now d" and lim: "enforce_rate_limits (message_sender_id x) conn tx d = Inr ()"
    and t: "tx \<le> message_accepted_at x" "now \<le> message_accepted_at x"
    and d': "chat_messages d' = snd (tcreate x (chat_messages d))"
  shows "rates_ok (message_accepted_at x) d'"
proof -
  from ok have times: "tall (\<lambda>_ m. message_accepted_at m \<le> now) (chat_messages d)" by (simp add: rates_ok_def)
  have "tall (\<lambda>_ m. message_accepted_at m \<le> message_accepted_at x) (chat_messages d)"
    by (rule tall_mono [OF times]) (use t(2) in simp)
  with within_rate_new [OF _ times limits_open(1) [OF lim] t d'] within_rate_new [OF _ times limits_open(2) [OF lim] t d'] ok
  show ?thesis by (simp add: rates_ok_def d' tbl_simps)
qed

lemma rates_ok_later: "rates_ok now d \<Longrightarrow> now \<le> now' \<Longrightarrow> rates_ok now' d"
  unfolding rates_ok_def by (auto elim: tall_mono)

lemma rates_ok_same: "rates_ok now d \<Longrightarrow> chat_messages d' = chat_messages d \<Longrightarrow> rates_ok now d'"
  by (simp add: rates_ok_def within_rate_def sent_in_def)

lemma rates_ok_live:
  assumes "rates_ok now d" shows "rates_ok now (mark_live k d)"
proof -
  from assms show ?thesis
    unfolding rates_ok_def within_rate_def sent_in_def mark_live_def
    by (simp add: tall_tmodify_same tcount_tmodify_same)
qed

section \<open>Rooms\<close>

text \<open>
  The participants a room must have: none in the global room, the two of a direct room, the seller and
  the buyer of the one conversation of a product room.
\<close>

definition room_ok :: "db \<Rightarrow> nat \<Rightarrow> room \<Rightarrow> bool" where
  "room_ok d k r \<longleftrightarrow> room_check r \<and>
     (case room_kind r of
        GLOBAL \<Rightarrow> participant_ids k d = []
      | DIRECT \<Rightarrow> set (participant_ids k d) = {the (room_direct_user_low r), the (room_direct_user_high r)}
      | PRODUCT_ROOM \<Rightarrow>
          texists (\<lambda>_ c. conversation_room_id c = k \<and> conversation_seller_id c \<noteq> conversation_buyer_id c \<and>
             set (participant_ids k d) = {conversation_seller_id c, conversation_buyer_id c}) (product_conversations d))"

definition conversation_key :: "product_conversation \<Rightarrow> nat \<times> nat \<times> nat" where
  "conversation_key c = (conversation_product_id c, conversation_seller_id c, conversation_buyer_id c)"

definition room_key :: "room \<Rightarrow> (nat option \<times> nat option) option" where
  "room_key r = (if room_kind r = PRODUCT_ROOM then None else Some (room_direct_user_low r, room_direct_user_high r))"

definition rooms_ok :: "db \<Rightarrow> bool" where
  "rooms_ok d \<longleftrightarrow>
     wf_table (rooms d) \<and> wf_table (product_conversations d) \<and>
     tall (room_ok d) (rooms d) \<and> unique_on room_key (rooms d) \<and>
     unique_on (\<lambda>c. Some (conversation_key c)) (product_conversations d) \<and>
     unique_on (\<lambda>c. Some (conversation_room_id c)) (product_conversations d) \<and>
     tall (\<lambda>_ c. tget (rooms d) (conversation_room_id c) \<noteq> None) (product_conversations d) \<and>
     tall (\<lambda>_ p. tget (rooms d) (participant_room_id p) \<noteq> None) (room_participants d)"

lemma participant_ids_add:
  "participant_ids i (add_participants k a b d) = participant_ids i d @ (if i = k then [a, b] else [])"
  by (simp add: participant_ids_def add_participants_def tbl_simps)

lemma participants_of_missing:
  assumes "tall (\<lambda>_ p. tget (rooms d) (participant_room_id p) \<noteq> None) (room_participants d)" "tget (rooms d) k = None"
  shows "participant_ids k d = []"
  using assms by (auto simp: participant_ids_def tselect_def filter_empty_conv tall_def list_all_iff)

lemma room_key_distinct:
  "room_check r \<Longrightarrow> room_check r' \<Longrightarrow> room_key r' = room_key r \<Longrightarrow> room_key r \<noteq> None \<Longrightarrow> same_room r r'"
  by (cases "room_kind r"; cases "room_kind r'")
    (auto simp: room_key_def room_check_def same_room_def split: option.splits)

lemma rooms_ok_same:
  "rooms_ok d \<Longrightarrow> rooms d' = rooms d \<Longrightarrow> product_conversations d' = product_conversations d \<Longrightarrow>
   room_participants d' = room_participants d \<Longrightarrow> rooms_ok d'"
  by (simp add: rooms_ok_def room_ok_def [abs_def] participant_ids_def cong: room_kind.case_cong)

lemma create_room_ok:
  assumes "create_room r d = Inr (k, d1)" "rooms_ok d"
  shows "k = next_pk (rooms d)" "d1 = d\<lparr>rooms := snd (tcreate r (rooms d))\<rparr>" "room_check r"
    "unique_on room_key (snd (tcreate r (rooms d)))" "tget (rooms d) k = None"
proof -
  from assms(1) show "k = next_pk (rooms d)" "d1 = d\<lparr>rooms := snd (tcreate r (rooms d))\<rparr>" and c: "room_check r"
    by (auto simp: create_room_def tcreate_def split: if_splits)
  from assms(1) have free: "\<not> texists (\<lambda>_ r'. same_room r r') (rooms d)" by (auto simp: create_room_def split: if_splits)
  from assms(2) have wf: "wf_table (rooms d)" and all: "tall (room_ok d) (rooms d)" by (simp_all add: rooms_ok_def)
  show "tget (rooms d) k = None" using wf \<open>k = next_pk (rooms d)\<close> by (simp add: tbl_simps)
  have "room_key r = None \<or> \<not> texists (\<lambda>_ r'. room_key r' = room_key r) (rooms d)"
  proof (rule ccontr)
    assume "\<not> (room_key r = None \<or> \<not> texists (\<lambda>_ r'. room_key r' = room_key r) (rooms d))"
    then obtain i r' where i: "tget (rooms d) i = Some r'" "room_key r' = room_key r" "room_key r \<noteq> None"
      using wf by (auto simp: texists_iff)
    from tallD [OF all i(1)] have "room_check r'" by (simp add: room_ok_def)
    from room_key_distinct [OF c this i(2,3)] i(1) free wf show False by (auto simp: texists_iff)
  qed
  with assms(2) show "unique_on room_key (snd (tcreate r (rooms d)))" by (simp add: rooms_ok_def tbl_simps)
qed

text \<open>A new room with its two participants, and its conversation when it has one.\<close>

lemma room_added_ok:
  assumes ok: "rooms_ok d" and new: "create_room r d = Inr (k, d1)"
    and d': "rooms d' = rooms d1" "room_participants d' = room_participants (add_participants k a b d)"
    and conv: "\<And>P. texists P (product_conversations d) \<Longrightarrow> texists P (product_conversations d')"
    and convs: "wf_table (product_conversations d')" "unique_on (\<lambda>c. Some (conversation_key c)) (product_conversations d')"
      "unique_on (\<lambda>c. Some (conversation_room_id c)) (product_conversations d')"
      "tall (\<lambda>_ c. tget (rooms d') (conversation_room_id c) \<noteq> None) (product_conversations d')"
    and kind: "room_kind r = DIRECT \<and> {the (room_direct_user_low r), the (room_direct_user_high r)} = {a, b} \<or>
      room_kind r = PRODUCT_ROOM \<and> texists (\<lambda>_ c. conversation_room_id c = k \<and>
        conversation_seller_id c \<noteq> conversation_buyer_id c \<and>
        {a, b} = {conversation_seller_id c, conversation_buyer_id c}) (product_conversations d')"
  shows "rooms_ok d'"
proof -
  note n = create_room_ok [OF new ok]
  have rd: "rooms d' = snd (tcreate r (rooms d))" by (simp add: d'(1) n(2))
  have wf: "wf_table (rooms d)" and fk: "tall (\<lambda>_ p. tget (rooms d) (participant_room_id p) \<noteq> None) (room_participants d)"
    using ok by (simp_all add: rooms_ok_def)
  have ids: "participant_ids i d' = participant_ids i d @ (if i = k then [a, b] else [])" for i
    using participant_ids_add [of i k a b d] by (simp add: participant_ids_def d'(2))
  have idk: "participant_ids k d' = [a, b]" using participants_of_missing [OF fk n(5)] ids [of k] by simp
  have look: "tget (rooms d') i = (if i = k then Some r else tget (rooms d) i)" for i
    using wf by (simp add: rd n(1) tbl_simps)
  have old: "room_ok d' i x" if "tget (rooms d) i = Some x" for i x
  proof -
    from n(5) that have "i \<noteq> k" by auto
    with ids have same: "participant_ids i d' = participant_ids i d" by simp
    from ok that have "room_ok d i x" by (auto simp: rooms_ok_def dest: tallD)
    with same conv show ?thesis by (auto simp: room_ok_def split: room_kind.splits)
  qed
  have "room_ok d' k r" using kind n(3) idk by (auto simp: room_ok_def insert_commute)
  with old look wf have "tall (room_ok d') (rooms d')" by (simp add: tall_iff rd wf_tcreate)
  moreover have "tall (\<lambda>_ p. tget (rooms d') (participant_room_id p) \<noteq> None) (room_participants d')"
    using fk look by (auto simp: d'(2) add_participants_def tbl_simps elim!: tall_mono)
  ultimately show ?thesis using convs n(4) wf by (simp add: rooms_ok_def rd wf_tcreate)
qed

lemma open_conversation_ok:
  assumes ok: "rooms_ok d" and out: "open_conversation product seller buyer d = Inr (conv, d')"
  shows "rooms_ok d' \<and> chat_messages d' = chat_messages d"
proof -
  define r where "r = \<lparr>room_kind = PRODUCT_ROOM, room_direct_user_low = None, room_direct_user_high = None :: nat option\<rparr>"
  from out obtain k d1 d2 where new: "create_room r d = Inr (k, d1)"
    and cc: "create_conversation \<lparr>conversation_room_id = k, conversation_product_id = product,
                  conversation_seller_id = seller, conversation_buyer_id = buyer\<rparr> d1 = Inr (conv, d2)"
    and d': "d' = add_participants k seller buyer d2"
    by (auto simp: open_conversation_def r_def split: sum.splits)
  define c where "c = \<lparr>conversation_room_id = k, conversation_product_id = product,
                  conversation_seller_id = seller, conversation_buyer_id = buyer\<rparr>"
  note n = create_room_ok [OF new ok]
  from cc have neq: "seller \<noteq> buyer" and d2: "d2 = d1\<lparr>product_conversations := snd (tcreate c (product_conversations d1))\<rparr>"
    and free: "\<not> texists (\<lambda>_ x. conversation_room_id x = k \<or> conversation_key x = conversation_key c) (product_conversations d1)"
    by (auto simp: create_conversation_def c_def conversation_key_def tcreate_def split: if_splits)
  have same: "product_conversations d1 = product_conversations d" by (simp add: n(2))
  have cd: "product_conversations d' = snd (tcreate c (product_conversations d))"
    by (simp add: d' add_participants_def d2 same)
  have rd: "rooms d' = rooms d1" by (simp add: d' add_participants_def d2)
  have pd: "room_participants d' = room_participants (add_participants k seller buyer d)"
    by (simp add: d' add_participants_def d2 n(2))
  have free': "\<not> texists (\<lambda>_ x. conversation_room_id x = k) (product_conversations d)"
    "\<not> texists (\<lambda>_ x. conversation_key x = conversation_key c) (product_conversations d)"
    using free by (auto simp: same texists_def list_ex_iff)
  have look: "tget (rooms d') i = (if i = k then Some r else tget (rooms d) i)" for i
    using ok by (simp add: rd n(1,2) tbl_simps rooms_ok_def)
  have "rooms_ok d'"
  proof (rule room_added_ok [OF ok new rd pd])
    show "texists P (product_conversations d) \<Longrightarrow> texists P (product_conversations d')" for P by (simp add: cd tbl_simps)
    show "tall (\<lambda>_ c. tget (rooms d') (conversation_room_id c) \<noteq> None) (product_conversations d')"
      using ok by (auto simp: cd tbl_simps look c_def rooms_ok_def elim!: tall_mono)
    show "room_kind r = DIRECT \<and> {the (room_direct_user_low r), the (room_direct_user_high r)} = {seller, buyer} \<or>
      room_kind r = PRODUCT_ROOM \<and> texists (\<lambda>_ c. conversation_room_id c = k \<and>
        conversation_seller_id c \<noteq> conversation_buyer_id c \<and>
        {seller, buyer} = {conversation_seller_id c, conversation_buyer_id c}) (product_conversations d')"
      using neq by (simp add: cd tbl_simps c_def r_def)
  qed (use ok free' in \<open>simp_all add: cd tbl_simps wf_tcreate rooms_ok_def\<close>, simp add: c_def)
  then show ?thesis by (simp add: d' add_participants_def d2 n(2))
qed

lemma direct_room_ok:
  assumes ok: "rooms_ok d" and new: "create_room \<lparr>room_kind = DIRECT, room_direct_user_low = Some a, room_direct_user_high = Some b\<rparr> d = Inr (k, d1)"
  shows "rooms_ok (add_participants k a b d1) \<and> chat_messages (add_participants k a b d1) = chat_messages d"
proof -
  note n = create_room_ok [OF new ok]
  have look: "tget (rooms d1) i = (if i = k then Some \<lparr>room_kind = DIRECT, room_direct_user_low = Some a, room_direct_user_high = Some b\<rparr>
      else tget (rooms d) i)" for i
    using ok by (simp add: n(1,2) tbl_simps rooms_ok_def)
  have conv: "product_conversations d1 = product_conversations d" by (simp add: n(2))
  have "rooms_ok (add_participants k a b d1)"
  proof (rule room_added_ok [OF ok new])
    show "room_participants (add_participants k a b d1) = room_participants (add_participants k a b d)"
      by (simp add: add_participants_def n(2))
    show "tall (\<lambda>_ c. tget (rooms (add_participants k a b d1)) (conversation_room_id c) \<noteq> None) (product_conversations (add_participants k a b d1))"
      using ok by (auto simp: add_participants_def conv look rooms_ok_def elim!: tall_mono)
  qed (use ok in \<open>simp_all add: add_participants_def conv rooms_ok_def\<close>)
  then show ?thesis by (simp add: add_participants_def n(2))
qed

lemma global_room_ok:
  assumes ok: "rooms_ok d" and new: "create_room GLOBAL_ROOM d = Inr (k, d1)"
  shows "rooms_ok d1 \<and> chat_messages d1 = chat_messages d"
proof -
  note n = create_room_ok [OF new ok]
  have wf: "wf_table (rooms d)" and fk: "tall (\<lambda>_ p. tget (rooms d) (participant_room_id p) \<noteq> None) (room_participants d)"
    using ok by (simp_all add: rooms_ok_def)
  have look: "tget (rooms d1) i = (if i = k then Some GLOBAL_ROOM else tget (rooms d) i)" for i
    using wf by (simp add: n(1,2) tbl_simps)
  have ids: "participant_ids i d1 = participant_ids i d" for i by (simp add: participant_ids_def n(2))
  have conv: "product_conversations d1 = product_conversations d" "room_participants d1 = room_participants d" by (simp_all add: n(2))
  have "room_ok d1 k GLOBAL_ROOM"
    using n(3) participants_of_missing [OF fk n(5)] by (simp add: room_ok_def ids GLOBAL_ROOM_def)
  moreover have "room_ok d1 i x" if "tget (rooms d) i = Some x" for i x
  proof -
    from ok that have "room_ok d i x" by (auto simp: rooms_ok_def dest: tallD)
    then show ?thesis by (simp add: room_ok_def ids conv split: room_kind.splits)
  qed
  ultimately have "tall (room_ok d1) (rooms d1)" using look wf by (simp add: tall_iff n(2) wf_tcreate)
  moreover have "tall (\<lambda>_ p. tget (rooms d1) (participant_room_id p) \<noteq> None) (room_participants d1)"
    using fk by (auto simp: conv look elim!: tall_mono)
  moreover have "tall (\<lambda>_ c. tget (rooms d1) (conversation_room_id c) \<noteq> None) (product_conversations d1)"
    using ok by (auto simp: conv look rooms_ok_def elim!: tall_mono)
  ultimately show ?thesis using ok n(4) wf by (simp add: rooms_ok_def n(2) wf_tcreate)
qed

section \<open>The system\<close>

datatype chat_label =
    Send chat_env chat_command
  | Open_Conversation instant nat nat
  | Open_Direct instant nat nat
  | Open_Global

text \<open>
  The state is the database and the latest statement time. A transaction that waited for a lock reads a
  \<open>CURRENT_TIMESTAMP\<close> from before other statements; statement times do not run backwards.
\<close>

inductive chat_step :: "instant \<times> db \<Rightarrow> chat_label \<Rightarrow> instant \<times> db \<Rightarrow> bool" where
  chat_send: "now \<le> ce_tnow env \<Longrightarrow> ce_tx_now env \<le> ce_tnow env \<Longrightarrow>
     chat_step (now, d) (Send env c) (ce_tnow env, snd (snd (accept env c d)))"
| chat_conversation: "now \<le> tnow \<Longrightarrow>
     chat_step (now, d) (Open_Conversation tnow product actor)
       (tnow, snd (atomic (get_or_create_product_conversation tnow product actor) d))"
| chat_direct: "now \<le> tnow \<Longrightarrow>
     chat_step (now, d) (Open_Direct tnow a b) (tnow, snd (atomic (get_or_create_direct_room tnow a b) d))"
| chat_global: "chat_step (now, d) Open_Global (now, snd (atomic get_or_create_global_room d))"

definition chat_inv :: "instant \<times> db \<Rightarrow> bool" where
  "chat_inv s \<longleftrightarrow> messages_wf (snd s) \<and> rates_ok (fst s) (snd s) \<and> rooms_ok (snd s)"

lemma accept_outcomes:
  obtains (idle) e where "accept env c d = (Inl e, None, d)" "accept_exec env c d = Inl e"
    | (ran) k rep d1 a ev where "accept_exec env c d = Inr ((k, rep), d1)"
        "accept env c d = (Inr a, ev, if \<not> rep \<and> ce_published env then mark_live k d1 else d1)"
proof (cases "accept_exec env c d")
  case (Inl e)
  with idle show ?thesis by (simp add: accept_from_exec)
next
  case (Inr p)
  obtain k rep d1 where "p = ((k, rep), d1)" by (metis prod.exhaust)
  with Inr ran show ?thesis
    by (cases rep; cases "ce_published env") (simp_all add: accept_from_exec Let_def)
qed

lemma accept_inv:
  assumes inv: "chat_inv (now, d)" and t: "now \<le> ce_tnow env" "ce_tx_now env \<le> ce_tnow env"
  shows "chat_inv (ce_tnow env, snd (snd (accept env c d)))"
proof (cases rule: accept_outcomes [of env c d])
  case (idle e)
  with inv t(1) show ?thesis by (auto simp: chat_inv_def intro: rates_ok_later)
next
  case (ran k rep d1 a ev)
  have live: "chat_inv (s, mark_live k x)" if "chat_inv (s, x)" for s x
    using that rates_ok_live rooms_ok_same [of x "mark_live k x"]
    by (simp add: chat_inv_def messages_wf_def) (simp add: mark_live_def wf_tmodify)
  from ran(1) have "chat_inv (ce_tnow env, d1)"
  proof (cases rule: accept_exec_cases)
    case (replay m b)
    with inv t(1) show ?thesis by (auto simp: chat_inv_def intro: rates_ok_later)
  next
    case (new body hash r)
    define x where "x = new_message env c body hash"
    have x: "message_sender_id x = cc_sender_id c" "message_accepted_at x = ce_tnow env"
      by (simp_all add: x_def new_message_def)
    have "rates_ok (message_accepted_at x) d1"
      by (rule rates_ok_new [of now d x "cc_connection_id c" "ce_tx_now env"])
        (use inv t new(5,7) x in \<open>simp_all add: chat_inv_def x_def\<close>)
    moreover have "rooms d1 = rooms d" "product_conversations d1 = product_conversations d" "room_participants d1 = room_participants d"
      using arg_cong [OF new(8), of rooms] arg_cong [OF new(8), of product_conversations] arg_cong [OF new(8), of room_participants]
      by simp_all
    ultimately show ?thesis using inv rooms_ok_same [of d d1] new(7) x(2)
      by (simp add: chat_inv_def messages_wf_def wf_tcreate)
  qed
  with live ran(2) show ?thesis by simp
qed

lemma conversation_inv:
  assumes inv: "rooms_ok d" and out: "get_or_create_product_conversation tnow product actor d = Inr (k, d')"
  shows "rooms_ok d' \<and> chat_messages d' = chat_messages d"
proof -
  from out have "d' = d \<or> (\<exists>seller. open_conversation product seller actor d = Inr (k, d'))"
    by (auto simp: get_or_create_product_conversation_def split: sum.splits option.splits if_splits)
  with inv open_conversation_ok show ?thesis by blast
qed

lemma direct_inv:
  assumes inv: "rooms_ok d" and out: "get_or_create_direct_room tnow a b d = Inr (k, d')"
  shows "rooms_ok d' \<and> chat_messages d' = chat_messages d"
proof -
  from out have "d' = d \<or> (\<exists>low high d1. create_room \<lparr>room_kind = DIRECT, room_direct_user_low = Some low,
      room_direct_user_high = Some high\<rparr> d = Inr (k, d1) \<and> d' = add_participants k low high d1)"
    by (auto simp: get_or_create_direct_room_def Let_def split: sum.splits option.splits if_splits)
  with inv direct_room_ok show ?thesis by blast
qed

lemma global_inv:
  assumes inv: "rooms_ok d" and out: "get_or_create_global_room d = Inr (k, d')"
  shows "rooms_ok d' \<and> chat_messages d' = chat_messages d"
proof -
  from out have "d' = d \<or> create_room GLOBAL_ROOM d = Inr (k, d')"
    by (auto simp: get_or_create_global_room_def split: option.splits)
  with inv global_room_ok show ?thesis by blast
qed

lemma room_tx_inv:
  assumes inv: "chat_inv (now, d)" and t: "now \<le> t"
    and tx: "\<And>k d'. tx d = Inr (k, d') \<Longrightarrow> rooms_ok d' \<and> chat_messages d' = chat_messages d"
  shows "chat_inv (t, snd (atomic tx d))"
proof (cases "tx d")
  case (Inl e)
  with inv t show ?thesis by (auto simp: chat_inv_def intro: rates_ok_later)
next
  case (Inr p)
  obtain k d' where "p = (k, d')" by force
  with Inr tx [of k d'] inv t show ?thesis
    by (auto simp: chat_inv_def messages_wf_def intro: rates_ok_later rates_ok_same)
qed

lemma chat_step_inv: "chat_step s l s' \<Longrightarrow> chat_inv s \<Longrightarrow> chat_inv s'"
proof (induction rule: chat_step.induct)
  case (chat_send now env d c)
  then show ?case by (blast intro: accept_inv)
next
  case (chat_conversation now tnow d product actor)
  then have ok: "rooms_ok d" by (simp add: chat_inv_def)
  show ?case by (rule room_tx_inv [OF chat_conversation(2,1) conversation_inv [OF ok]])
next
  case (chat_direct now tnow d a b)
  then have ok: "rooms_ok d" by (simp add: chat_inv_def)
  show ?case by (rule room_tx_inv [OF chat_direct(2,1) direct_inv [OF ok]])
next
  case (chat_global now d)
  then have ok: "rooms_ok d" by (simp add: chat_inv_def)
  show ?case by (rule room_tx_inv [OF chat_global order_refl global_inv [OF ok]])
qed

interpretation chat_rooms: invariant_system chat_step chat_inv
  by unfold_locales (rule chat_step_inv)

section \<open>The text a client id stands for\<close>

lemma normalize_idem:
  assumes "normalize_chat_text v = Inr b" shows "normalize_chat_text b = Inr b"
proof -
  from assms have b: "b = py_strip v" and clean: "\<not> list_ex (\<lambda>c. c < 32 \<and> c \<noteq> 10) v"
    by (auto simp: normalize_chat_text_def Let_def split: if_splits sum.splits)
  have "\<not> list_ex (\<lambda>c. c < 32 \<and> c \<noteq> 10) b" using clean set_py_strip [of v] by (auto simp: b list_ex_iff)
  with assms b show ?thesis by (auto simp: normalize_chat_text_def Let_def split: if_splits sum.splits)
qed

lemma check_command_hash:
  assumes "check_command env c = Inr (body, hash)"
  shows "normalize_chat_text (cc_body c) = Inr body"
    "hash = ce_sha env (canonical_chat_payload (cc_room_id c) (cc_sender_id c) body)"
proof -
  from assms show n: "normalize_chat_text (cc_body c) = Inr body"
    by (auto simp: check_command_def split: sum.splits)
  from assms n normalize_idem [OF n] show "hash = ce_sha env (canonical_chat_payload (cc_room_id c) (cc_sender_id c) body)"
    by (auto simp: check_command_def canonical_payload_sha256_def split: sum.splits)
qed

lemma canonical_chat_payload_inject:
  "canonical_chat_payload room sender b = canonical_chat_payload room sender b' \<Longrightarrow> b = b'"
  unfolding canonical_chat_payload_def by (metis append_same_eq same_append_eq json_string_prefix)

section \<open>Fetching the history\<close>

text \<open>
  A client that asks again with the last id it got, page by page, until a page is empty. Every page
  after the first goes through the access checks again.
\<close>

lemma strictly_sorted_by_key:
  "distinct (map fst xs) \<Longrightarrow> sorted_wrt (\<lambda>x y. fst x < (fst y :: nat)) (sort_key fst xs)"
proof -
  assume d: "distinct (map fst xs)"
  have "sorted (map fst (sort_key fst xs))" by simp
  moreover have "distinct (map fst (sort_key fst xs))"
    using d by (simp add: distinct_map)
  ultimately have "sorted_wrt (<) (map fst (sort_key fst xs))" by (simp add: strict_sorted_iff)
  then show ?thesis by (simp add: sorted_wrt_map)
qed

lemma filter_after_page:
  assumes s: "sorted_wrt (\<lambda>x y. fst x < (fst y :: nat)) xs" and n: "0 < n" and xs: "xs \<noteq> []"
  shows "filter (\<lambda>x. fst x > fst (last (take n xs))) xs = drop n xs"
proof -
  define t where "t = take n xs"
  have t: "t \<noteq> []" using n xs by (simp add: t_def)
  have split: "xs = t @ drop n xs" by (simp add: t_def)
  from s have st: "sorted_wrt (\<lambda>x y. fst x < (fst y :: nat)) (t @ drop n xs)" using split by simp
  then have after: "\<forall>x \<in> set (drop n xs). fst (last t) < fst x" using t by (simp add: sorted_wrt_append)
  have "t = butlast t @ [last t]" using t by simp
  with st have "sorted_wrt (\<lambda>x y. fst x < (fst y :: nat)) (butlast t @ [last t])" by (simp add: sorted_wrt_append)
  then have "\<forall>x \<in> set (butlast t). fst x < fst (last t)" by (simp add: sorted_wrt_append)
  then have before: "\<forall>x \<in> set t. \<not> fst x > fst (last t)"
    using t by (metis append_butlast_last_id in_set_butlastD last_in_set less_irrefl not_less_iff_gr_or_eq rotate1.simps(2) set_ConsD set_rotate1)
  have "filter (\<lambda>x. fst x > fst (last t)) (t @ drop n xs) = drop n xs"
    using before after by simp
  with split show ?thesis by (simp add: t_def)
qed

definition room_log :: "nat \<Rightarrow> db \<Rightarrow> (nat \<times> chat_message) list" where
  "room_log room d = sort_key fst (tselect (\<lambda>_ m. message_room_id m = room) (chat_messages d))"

lemma messages_after_filter:
  "room_messages_after room cursor d = filter (\<lambda>x. int (fst x) > cursor) (room_log room d)"
  unfolding room_messages_after_def room_log_def tselect_def filter_sort [symmetric]
  by (simp add: conj_commute case_prod_beta' cong: filter_cong)

lemma messages_after_sorted:
  "messages_wf d \<Longrightarrow> sorted_wrt (\<lambda>x y. fst x < fst y) (room_messages_after room cursor d)"
  unfolding messages_after_filter room_log_def
  by (intro sorted_wrt_filter strictly_sorted_by_key)
    (simp add: messages_wf_def wf_table_def tselect_def distinct_map_filter)

lemma after_last_page:
  assumes wf: "messages_wf d" and n: "0 < n" and ne: "room_messages_after room cursor d \<noteq> []"
  shows "room_messages_after room (int (fst (last (take n (room_messages_after room cursor d))))) d =
    drop n (room_messages_after room cursor d)"
proof -
  let ?xs = "room_messages_after room cursor d"
  define l where "l = fst (last (take n ?xs))"
  have "take n ?xs \<noteq> []" using n ne by simp
  then have "last (take n ?xs) \<in> set ?xs" by (metis in_set_takeD last_in_set)
  then have "int l > cursor" by (simp add: messages_after_filter l_def)
  then have "room_messages_after room (int l) d = filter (\<lambda>x. fst x > l) ?xs"
    unfolding messages_after_filter by (auto intro!: filter_cong)
  with filter_after_page [OF messages_after_sorted [OF wf] n ne] show ?thesis by (simp add: l_def)
qed

lemma history_page:
  "history_after tnow room user cursor limit d = Inr h \<Longrightarrow>
     h = map (history_row d) (take limit (room_messages_after room cursor d)) \<and> 1 \<le> limit \<and> 0 \<le> cursor"
  by (auto simp: history_after_def split: if_splits sum.splits)

lemma history_again:
  "history_after tnow room user cursor limit d = Inr h \<Longrightarrow> 0 \<le> cursor' \<Longrightarrow>
     history_after tnow room user cursor' limit d = Inr (map (history_row d) (take limit (room_messages_after room cursor' d)))"
  by (auto simp: history_after_def split: if_splits sum.splits)

function fetch_all :: "instant \<Rightarrow> nat \<Rightarrow> nat \<Rightarrow> nat \<Rightarrow> db \<Rightarrow> int \<Rightarrow> history_message list result" where
  "fetch_all tnow room user limit d cursor =
     (case history_after tnow room user cursor limit d of
        Inl e \<Rightarrow> Inl e
      | Inr page \<Rightarrow>
          if page = [] then Inr []
          else (case fetch_all tnow room user limit d (int (hm_server_message_id (last page))) of
                  Inl e \<Rightarrow> Inl e
                | Inr rest \<Rightarrow> Inr (page @ rest)))"
  by pat_completeness auto
termination
proof (relation "measure (\<lambda>(tnow, room, user, limit, d, cursor). length (filter (\<lambda>(k, m). int k > cursor) (rows (chat_messages d))))",
    goal_cases)
  case (2 tnow room user limit d cursor page)
  let ?xs = "take limit (room_messages_after room cursor d)"
  from history_page [OF 2(1)] have page: "page = map (history_row d) ?xs" by simp
  with 2(2) have ne: "?xs \<noteq> []" by auto
  then have "last ?xs \<in> set (room_messages_after room cursor d)" by (metis in_set_takeD last_in_set)
  then have in_rows: "last ?xs \<in> set (rows (chat_messages d))" and gt: "int (fst (last ?xs)) > cursor"
    by (auto simp: room_messages_after_def tselect_def)
  have id: "hm_server_message_id (last page) = fst (last ?xs)" using ne by (simp add: page last_map history_row_def)
  have "length (filter (\<lambda>x. int (fst x) > int (fst (last ?xs))) (filter (\<lambda>x. int (fst x) > cursor) (rows (chat_messages d))))
    < length (filter (\<lambda>x. int (fst x) > cursor) (rows (chat_messages d)))"
    by (rule length_filter_less [of "last ?xs"]) (use in_rows gt in auto)
  moreover have "filter (\<lambda>x. int (fst x) > int (fst (last ?xs))) (filter (\<lambda>x. int (fst x) > cursor) (rows (chat_messages d))) =
    filter (\<lambda>x. int (fst x) > int (fst (last ?xs))) (rows (chat_messages d))"
    using gt by (auto intro: filter_cong)
  ultimately show ?case by (simp add: id case_prod_beta')
qed simp

declare fetch_all.simps [simp del]

lemma fetch_all_from:
  "messages_wf d \<Longrightarrow> history_after tnow room user cursor limit d = Inr h \<Longrightarrow>
   fetch_all tnow room user limit d cursor = Inr (map (history_row d) (room_messages_after room cursor d))"
proof (induction tnow room user limit d cursor arbitrary: h rule: fetch_all.induct)
  case (1 tnow room user limit d cursor)
  let ?xs = "room_messages_after room cursor d"
  from history_page [OF 1(3)] have h: "h = map (history_row d) (take limit ?xs)" and lim: "0 < limit" by auto
  show ?case
  proof (cases "?xs = []")
    case True
    with 1(3) h show ?thesis by (subst fetch_all.simps) simp
  next
    case False
    with lim have ne: "h \<noteq> []" by (simp add: h)
    have id: "hm_server_message_id (last h) = fst (last (take limit ?xs))"
      using False lim by (simp add: h last_map history_row_def)
    let ?next = "int (hm_server_message_id (last h))"
    from 1(1) [OF 1(3) ne 1(2) history_again [OF 1(3)]]
    have "fetch_all tnow room user limit d ?next = Inr (map (history_row d) (room_messages_after room ?next d))" by simp
    also have "room_messages_after room ?next d = drop limit ?xs"
      unfolding id by (rule after_last_page [OF 1(2) lim False])
    finally have rest: "fetch_all tnow room user limit d ?next = Inr (map (history_row d) (drop limit ?xs))" .
    have "fetch_all tnow room user limit d cursor = Inr (h @ map (history_row d) (drop limit ?xs))"
      using 1(3) ne rest by (subst fetch_all.simps) simp
    then show ?thesis by (simp add: h flip: map_append)
  qed
qed

section \<open>Notifying the other party\<close>

lemma both_active_recipients:
  "both_active tnow a b d \<Longrightarrow> active_recipient d a \<and> active_recipient d b"
  by (auto simp: both_active_def chat_active_def active_recipient_def effective_account_status_def
      split: option.splits if_splits intro: texists_tget)

text \<open>The other party of a conversation, for a sender who is one of the two.\<close>

definition other_party :: "product_conversation \<Rightarrow> nat \<Rightarrow> nat" where
  "other_party c sender =
     (if sender = conversation_seller_id c then conversation_buyer_id c else conversation_seller_id c)"

lemma notify_ok:
  assumes conv: "conversation_of room d = Some (i, c)" and act: "both_active tnow (conversation_seller_id c) (conversation_buyer_id c) d"
    and k: "k < 10 ^ 19"
  shows "\<exists>d'. notify_other_party tnow' room sender k d = Inr d' \<and>
    texists (\<lambda>_ n. notification_recipient_id n = other_party c sender \<and> notification_event_key n = message_event_key k) (notifications d')"
proof -
  have len: "length (message_event_key k) \<le> 160" "message_event_key k \<noteq> []"
    using dec_length [of 19 k] k by (simp_all add: message_event_key_def)
  have act': "active_recipient d (other_party c sender)"
    using both_active_recipients [OF act] by (simp add: other_party_def)
  let ?p = "Message_Payload room (conversation_product_id c) k"
  obtain n where cn: "create_notification tnow' (other_party c sender) (message_event_key k) PRODUCT_MESSAGE ?p d = Inr n"
    and ex: "texists (\<lambda>_ n. notification_recipient_id n = other_party c sender \<and> notification_event_key n = message_event_key k)
      (notifications (snd n))"
  proof (cases "tfirst (notification_key (other_party c sender) (message_event_key k)) (notifications d)")
    case None
    with len act' that show ?thesis by (simp add: create_notification_def tcreate_def tbl_simps)
  next
    case (Some p)
    obtain j x where p: "p = (j, x)" by force
    from Some p have "texists (notification_key (other_party c sender) (message_event_key k)) (notifications d)"
      using tfirst_None [of "notification_key (other_party c sender) (message_event_key k)" "notifications d"] by auto
    with Some p len act' that show ?thesis
      by (simp add: create_notification_def notification_key_def [abs_def])
  qed
  obtain a d' where n: "n = (a, d')" by (cases n)
  with conv cn ex show ?thesis by (auto simp: notify_other_party_def other_party_def Let_def)
qed

section \<open>An example conversation\<close>

text \<open>User 1 sells product 7; user 2 has opened a conversation about it in room 1.\<close>

definition chatter :: "string \<Rightarrow> user" where
  "chatter name = \<lparr>user_username = lit name, user_password = Some 1, user_is_active = True, user_is_staff = False,
     user_is_superuser = False, user_meta_permission = False, user_bio = [], user_auth_epoch = 0,
     user_withdrawn_at = None, user_date_joined = 0\<rparr>"

definition chair :: product where
  "chair = \<lparr>product_owner_id = 1, product_title = lit ''chair'', product_description = lit ''old'',
     product_price = 5, product_legacy_image = [], product_category_id = lit ''HOME'',
     product_region_id = None, product_region_source = LEGACY_UNSET, product_archived_at = None,
     product_version = 1, product_created_at = 0, product_demo_key = None\<rparr>"

definition chair_talk :: product_conversation where
  "chair_talk = \<lparr>conversation_room_id = 1, conversation_product_id = 7, conversation_seller_id = 1, conversation_buyer_id = 2\<rparr>"

definition talk_db :: db where
  "talk_db = empty_db\<lparr>
     users := \<lparr>rows = [(1, chatter ''sam''), (2, chatter ''bea'')], next_pk = 3\<rparr>,
     products := \<lparr>rows = [(7, chair)], next_pk = 8\<rparr>,
     rooms := \<lparr>rows = [(1, \<lparr>room_kind = PRODUCT_ROOM, room_direct_user_low = None, room_direct_user_high = None\<rparr>)], next_pk = 2\<rparr>,
     room_participants := \<lparr>rows = [(1, \<lparr>participant_room_id = 1, participant_user_id = 1\<rparr>),
        (2, \<lparr>participant_room_id = 1, participant_user_id = 2\<rparr>)], next_pk = 3\<rparr>,
     product_conversations := \<lparr>rows = [(1, chair_talk)], next_pk = 2\<rparr>\<rparr>"

text \<open>A version 4 UUID, a hash without collisions and a publisher that answers.\<close>

definition some_uuid4 :: nat where "some_uuid4 = 4 * 2 ^ 76 + 2 * 2 ^ 62"

definition talk_env :: chat_env where
  "talk_env = \<lparr>ce_sha = to_nat, ce_tx_now = 100, ce_tnow = 100, ce_published = True\<rparr>"

definition hello :: "string \<Rightarrow> chat_command" where
  "hello text = \<lparr>cc_room_id = 1, cc_sender_id = 2, cc_connection_id = some_uuid4, cc_client_message_id = some_uuid4,
     cc_body = lit text\<rparr>"

definition hello_message :: chat_message where
  "hello_message = new_message talk_env (hello ''hi'') (lit ''hi'') (to_nat (canonical_chat_payload 1 2 (lit ''hi'')))"

definition hello_note :: notification where
  "hello_note = \<lparr>notification_recipient_id = 1, notification_event_key = message_event_key 1,
     notification_kind = PRODUCT_MESSAGE, notification_payload = Message_Payload 1 7 1,
     notification_read_at = None, notification_created_at = 100, notification_expires_at = 100 + days 90\<rparr>"

definition hello_db :: db where
  "hello_db = talk_db\<lparr>chat_messages := \<lparr>rows = [(1, hello_message)], next_pk = 2\<rparr>,
     notifications := \<lparr>rows = [(1, hello_note)], next_pk = 2\<rparr>\<rparr>"

lemma uuid_ok: "is_uuid4 some_uuid4"
  by (simp add: is_uuid4_def some_uuid4_def)

lemma hello_text: "normalize_chat_text (lit ''hi'') = Inr (lit ''hi'')" "normalize_chat_text (lit ''yo'') = Inr (lit ''yo'')"
  by (simp_all add: normalize_chat_text_def lit_def py_strip_def py_isspace_def utf8_length_def is_surrogate_def
      utf8_size_def CHAT_MAX_BYTES_def)

lemma hello_checked:
  "check_command talk_env (hello ''hi'') = Inr (lit ''hi'', to_nat (canonical_chat_payload 1 2 (lit ''hi'')))"
  by (simp add: check_command_def require_uuid4_def hello_def uuid_ok hello_text canonical_payload_sha256_def talk_env_def)

lemma talkers_active: "\<not> isl (require_active_user t 1 talk_db)" "\<not> isl (require_active_user t 2 talk_db)"
  by (simp_all add: require_active_user_def talk_db_def tget_def chatter_def chat_active_def effective_account_status_def
      effective_user_status_def empty_db_def empty_table_def texists_def)

lemma talk_both_active: "both_active t 1 2 talk_db"
  by (simp add: both_active_def talk_db_def tget_def chatter_def chat_active_def effective_account_status_def
      effective_user_status_def empty_db_def empty_table_def texists_def)

lemma talk_conversation: "conversation_of 1 talk_db = Some (1, chair_talk)"
  by (simp add: conversation_of_def talk_db_def tfirst_def chair_talk_def)

lemma talk_participants: "participant_ids 1 talk_db = [1, 2]"
  by (simp add: participant_ids_def talk_db_def tselect_def)

lemma talk_room: "tget (rooms talk_db) 1 = Some \<lparr>room_kind = PRODUCT_ROOM, room_direct_user_low = None, room_direct_user_high = None\<rparr>"
  by (simp add: talk_db_def tget_def)

lemma talk_open: "conversation_open t 1 chair_talk talk_db"
  unfolding conversation_open_def talk_participants
  by (simp add: chair_talk_def talk_db_def texists_def chair_def effective_product_visibility_def empty_db_def
      empty_table_def Let_def)

lemma talk_access:
  "require_room_access t 1 2 True talk_db = Inr \<lparr>room_kind = PRODUCT_ROOM, room_direct_user_low = None, room_direct_user_high = None\<rparr>"
  by (simp add: require_room_access_def talk_room contains_user_def talk_conversation talk_open talk_participants talkers_active
      del: One_nat_def)

lemma talk_accept_access:
  "require_message_accept_access t 1 2 talk_db = Inr \<lparr>room_kind = PRODUCT_ROOM, room_direct_user_low = None, room_direct_user_high = None\<rparr>"
proof -
  have p: "texists (\<lambda>k p. k = 7 \<and> product_owner_id p = 1 \<and> product_archived_at p = None) (products talk_db)"
    by (simp add: talk_db_def texists_def chair_def)
  have c: "conversation_seller_id chair_talk = 1" "conversation_buyer_id chair_talk = 2" "conversation_product_id chair_talk = 7"
    by (simp_all add: chair_talk_def)
  from p c talk_both_active [of t] talk_access [of t] show ?thesis
    by (simp add: require_message_accept_access_def talk_room talk_conversation del: One_nat_def)
qed

lemma hello_accepted:
  "accept_exec talk_env (hello ''hi'') talk_db = Inr ((1, False), hello_db)"
proof -
  have none: "find_replay (hello ''hi'') talk_db = None"
    by (simp add: find_replay_def tfirst_def talk_db_def empty_db_def empty_table_def)
  have lim: "enforce_rate_limits 2 some_uuid4 100 talk_db = Inr ()"
    by (simp add: enforce_rate_limits_def window_wait_def recent_times_def tselect_def talk_db_def empty_db_def empty_table_def chat_limits)
  define body where "body = lit ''hi''"
  define hash where "hash = to_nat (canonical_chat_payload 1 2 body)"
  define r where "r = \<lparr>room_kind = PRODUCT_ROOM, room_direct_user_low = None, room_direct_user_high = None :: nat option\<rparr>"
  let ?d = "talk_db\<lparr>chat_messages := \<lparr>rows = [(1, hello_message)], next_pk = 2\<rparr>\<rparr>"
  have m: "snd (tcreate (new_message talk_env (hello ''hi'') body hash) (chat_messages talk_db)) = \<lparr>rows = [(1, hello_message)], next_pk = 2\<rparr>"
    "fst (tcreate (new_message talk_env (hello ''hi'') body hash) (chat_messages talk_db)) = 1"
    by (simp_all add: tcreate_def tinsert_def talk_db_def empty_db_def empty_table_def hello_message_def body_def hash_def)
  have key: "message_event_key 1 \<noteq> []" "length (message_event_key 1) \<le> 160"
    using dec_length [of 1 1] by (simp_all add: message_event_key_def)
  have act: "active_recipient ?d 1"
    by (simp add: active_recipient_def texists_def talk_db_def chatter_def)
  have conv: "conversation_of 1 ?d = Some (1, chair_talk)" by (simp add: conversation_of_def talk_db_def tfirst_def chair_talk_def)
  have "tfirst (notification_key 1 (message_event_key 1)) (notifications ?d) = None"
    by (simp add: tfirst_def talk_db_def empty_db_def empty_table_def)
  with key act have "create_notification 100 1 (message_event_key 1) PRODUCT_MESSAGE (Message_Payload 1 7 1) ?d = Inr ((1, True), hello_db)"
    by (simp add: create_notification_def hello_db_def hello_note_def tcreate_def tinsert_def talk_db_def empty_db_def empty_table_def
        del: One_nat_def)
  with conv have noted: "notify_other_party 100 1 2 1 ?d = Inr hello_db"
    by (simp add: notify_other_party_def chair_talk_def del: One_nat_def)
  have f: "cc_room_id (hello ''hi'') = 1" "cc_sender_id (hello ''hi'') = 2" "cc_connection_id (hello ''hi'') = some_uuid4"
    "ce_tnow talk_env = 100" "ce_tx_now talk_env = 100" by (simp_all add: hello_def talk_env_def)
  have "store_message talk_env (hello ''hi'') r body hash talk_db = Inr (1, hello_db)"
    using noted m unfolding store_message_def new_message_def [symmetric] Let_def
    by (simp add: case_prod_beta f r_def del: One_nat_def)
  with none lim talk_accept_access [of 100] have "accept_tx talk_env (hello ''hi'') body hash talk_db = Inr ((1, False), hello_db)"
    by (simp add: accept_tx_def f r_def del: One_nat_def)
  then show ?thesis by (simp add: accept_exec_def hello_checked body_def hash_def)
qed

lemma hello_answer:
  "accept talk_env (hello ''hi'') talk_db =
    (Inr (accepted_row 1 (hello_message\<lparr>message_delivery := LIVE\<rparr>) False), Some (event_of 1 hello_message hello_db), mark_live 1 hello_db)"
proof -
  have "tget (chat_messages hello_db) 1 = Some hello_message" by (simp add: hello_db_def tget_def)
  then show ?thesis by (simp add: accept_from_exec hello_accepted Let_def del: One_nat_def) (simp add: talk_env_def)
qed

end
