(* ===== verification/Chat_Properties.thy ===== *)
theory Chat_Properties imports Chat_System begin

text \<open>
  What chat guarantees: a message is accepted at most once and its client id stands for one text, no
  sender exceeds the rate limits, rooms and conversations stay consistent, the other party of a product
  conversation is notified, the history loses nothing, and a published message reaches exactly the
  authorised connections of its room.
\<close>

text \<open>
  C23: however often and in whatever circumstances one chat command is delivered, the database is as
  after none or after exactly one of the deliveries, and two deliveries in a row that are both
  answered answer with the same message.
\<close>

theorem message_at_most_once:
  assumes "messages_wf d"
  shows "(chat.deliver envs c d = d \<or> (\<exists>e \<in> set envs. \<exists>a. accept_run e c d = Inr (a, chat.deliver envs c d))) \<and>
    (\<forall>e e' a a' d' d''. accept_run e c d = Inr (a, d') \<longrightarrow> accept_run e' c d' = Inr (a', d'') \<longrightarrow>
       d'' = d' \<and> same_message a a')"
  using chat.deliver_at_most_once [OF assms] chat.replay [OF assms] by blast

lemma talk_wf: "messages_wf talk_db"
  by (simp add: messages_wf_def talk_db_def empty_db_def wf_empty_table)

lemma message_at_most_once_witness:
  "chat.deliver [talk_env, talk_env] (hello ''hi'') talk_db = talk_db \<or>
   (\<exists>e \<in> set [talk_env, talk_env]. \<exists>a. accept_run e (hello ''hi'') talk_db = Inr (a, chat.deliver [talk_env, talk_env] (hello ''hi'') talk_db))"
  using message_at_most_once [OF talk_wf, of "[talk_env, talk_env]" "hello ''hi''"] by (rule conjunct1)

text \<open>
  Once a message is accepted, its client id stands for its normalized text: the same sender using
  the id again in the same room with another text is refused, provided the hash has no collisions.
\<close>

theorem client_id_binds_text:
  assumes "accept_run env c d = Inr (a, d')" "\<not> am_replayed a" "messages_wf d"
    and "ce_sha env' = ce_sha env" "inj (ce_sha env)"
    and "cc_room_id c' = cc_room_id c" "cc_sender_id c' = cc_sender_id c"
      "cc_client_message_id c' = cc_client_message_id c"
      "normalize_chat_text (cc_body c') \<noteq> normalize_chat_text (cc_body c)"
  shows "\<exists>e. accept_run env' c' d' = Inl e"
proof (rule ccontr)
  assume "\<nexists>e. accept_run env' c' d' = Inl e"
  then obtain a' d'' where two: "accept_run env' c' d' = Inr (a', d'')"
    by (cases "accept_run env' c' d'") auto
  from assms(1,2) obtain k d1 where ex: "accept_exec env c d = Inr ((k, False), d1)" and a: "am_server_message_id a = k"
    by (auto simp: accept_run_def accept_from_exec accepted_row_def Let_def split: sum.splits prod.splits if_splits)
  from ex obtain body hash where chk: "check_command env c = Inr (body, hash)"
    and msgs: "chat_messages d1 = snd (tcreate (new_message env c body hash) (chat_messages d))"
      "k = next_pk (chat_messages d)"
    by (cases rule: accept_exec_cases) auto
  have g: "tget (chat_messages d1) k = Some (new_message env c body hash)"
    using assms(3) by (simp add: msgs messages_wf_def tbl_simps)
  from accept_run_found [OF assms(3,1)] a obtain m where m: "find_replay c d' = Some (k, m)" by auto
  have "d' = d1 \<or> d' = mark_live k d1"
    using assms(1) ex by (auto simp: accept_run_def accept_from_exec Let_def split: if_splits)
  with g have "\<exists>x. tget (chat_messages d') k = Some x \<and> message_payload_sha256 x = hash"
    by (auto simp: mark_live_def tbl_simps new_message_def)
  with m accept_run_wf [OF assms(3,1)] have hash: "message_payload_sha256 m = hash"
    by (auto simp: find_replay_def messages_wf_def dest: tfirst_tget)
  from m assms(6-8) have m': "find_replay c' d' = Some (k, m)" by (simp add: find_replay_def)
  from two obtain k' rep d2 where "accept_exec env' c' d' = Inr ((k', rep), d2)"
    by (auto simp: accept_run_def accept_from_exec split: sum.splits prod.splits)
  then obtain body' where chk': "check_command env' c' = Inr (body', hash)"
    using m' hash by (cases rule: accept_exec_cases) auto
  from check_command_hash [OF chk] check_command_hash [OF chk'] assms(4-7)
  have "canonical_chat_payload (cc_room_id c) (cc_sender_id c) body = canonical_chat_payload (cc_room_id c) (cc_sender_id c) body'"
    by (auto dest: injD)
  then have "body = body'" by (rule canonical_chat_payload_inject)
  with check_command_hash(1) [OF chk] check_command_hash(1) [OF chk'] assms(9) show False by simp
qed

lemma hello_run: "\<exists>a. accept_run talk_env (hello ''hi'') talk_db = Inr (a, mark_live 1 hello_db) \<and> \<not> am_replayed a"
  by (simp add: accept_run_def hello_answer accepted_row_def)

lemma client_id_binds_text_witness:
  "\<exists>a d'. accept_run talk_env (hello ''hi'') talk_db = Inr (a, d') \<and> (\<exists>e. accept_run talk_env (hello ''yo'') d' = Inl e)"
proof -
  from hello_run obtain a where a: "accept_run talk_env (hello ''hi'') talk_db = Inr (a, mark_live 1 hello_db)" "\<not> am_replayed a" by blast
  have "\<exists>e. accept_run talk_env (hello ''yo'') (mark_live 1 hello_db) = Inl e"
  proof (rule client_id_binds_text [OF a talk_wf])
    show "inj (ce_sha talk_env)" by (simp add: talk_env_def)
    show "normalize_chat_text (cc_body (hello ''yo'')) \<noteq> normalize_chat_text (cc_body (hello ''hi''))"
      by (simp add: hello_def hello_text) (simp add: lit_def)
  qed (simp_all add: hello_def)
  with a(1) show ?thesis by blast
qed

text \<open>
  C24: in every run of message acceptances and room creations no window of ten seconds holds more than
  ten messages of one sender and none of sixty seconds more than sixty, wherever the window starts and
  however many rooms and connections the sender uses.
\<close>

theorem chat_rate_bounded:
  assumes "chat_rooms.run (t0, d0) ls (t, d)" "chat_inv (t0, d0)"
  shows "sent_in sender (s - seconds 10) s d \<le> 10 \<and> sent_in sender (s - seconds 60) s d \<le> 60"
  using chat_rooms.run_inv [OF assms] by (simp add: chat_inv_def rates_ok_def within_rate_def chat_limits)

lemma talk_inv: "chat_inv (0, talk_db)"
proof -
  have "room_ok talk_db 1 \<lparr>room_kind = PRODUCT_ROOM, room_direct_user_low = None, room_direct_user_high = None\<rparr>"
    unfolding room_ok_def talk_participants by (simp add: room_check_def talk_db_def texists_def chair_talk_def)
  then have "rooms_ok talk_db"
    by (simp add: rooms_ok_def) (simp add: talk_db_def wf_table_def tall_def unique_on_def room_key_def tget_def chair_talk_def)
  moreover have "rates_ok 0 talk_db"
    by (simp add: rates_ok_def within_rate_def sent_in_def talk_db_def empty_db_def empty_table_def tall_def tcount_def tselect_def)
  ultimately show ?thesis by (simp add: chat_inv_def talk_wf)
qed

lemma hello_step: "chat_rooms.run (0, talk_db) [Send talk_env (hello ''hi'')] (100, mark_live 1 hello_db)"
proof -
  have "chat_step (0, talk_db) (Send talk_env (hello ''hi'')) (100, mark_live 1 hello_db)"
    using chat_send [of 0 talk_env talk_db "hello ''hi''"] by (simp add: hello_answer) (simp add: talk_env_def)
  then show ?thesis by (blast intro: chat_rooms.run_nil chat_rooms.run_cons)
qed

lemma chat_rate_bounded_witness:
  "sent_in 2 (100 - seconds 10) 100 (mark_live 1 hello_db) \<le> 10"
  using chat_rate_bounded [OF hello_step talk_inv, of 2 100] by (rule conjunct1)

text \<open>
  C25: in every such run a direct room has exactly its two distinct participants, a product room exactly
  the seller and the buyer of its conversation, the global room none; there is at most one global room,
  one direct room per pair of users and one conversation per product, seller and buyer.
\<close>

theorem reachable_rooms_consistent:
  assumes "chat_rooms.run (t0, d0) ls (t, d)" "chat_inv (t0, d0)"
  shows "(\<forall>k r. tget (rooms d) k = Some r \<longrightarrow>
       (case room_kind r of
          GLOBAL \<Rightarrow> participant_ids k d = []
        | DIRECT \<Rightarrow> \<exists>a b. a < b \<and> room_direct_user_low r = Some a \<and> room_direct_user_high r = Some b \<and>
            set (participant_ids k d) = {a, b}
        | PRODUCT_ROOM \<Rightarrow> \<exists>c. conversation_of k d = Some c \<and>
            conversation_seller_id (snd c) \<noteq> conversation_buyer_id (snd c) \<and>
            set (participant_ids k d) = {conversation_seller_id (snd c), conversation_buyer_id (snd c)})) \<and>
    (\<forall>k r k' r'. tget (rooms d) k = Some r \<and> tget (rooms d) k' = Some r' \<and> same_room r r' \<longrightarrow> k = k') \<and>
    (\<forall>k c k' c'. tget (product_conversations d) k = Some c \<and> tget (product_conversations d) k' = Some c' \<and>
       conversation_key c = conversation_key c' \<longrightarrow> k = k')"
proof (intro conjI allI impI)
  from chat_rooms.run_inv [OF assms] have ok: "rooms_ok d" by (simp add: chat_inv_def)
  then have u: "unique_on room_key (rooms d)" "unique_on (\<lambda>c. Some (conversation_key c)) (product_conversations d)"
    "unique_on (\<lambda>c. Some (conversation_room_id c)) (product_conversations d)" "wf_table (product_conversations d)"
    and all: "tall (room_ok d) (rooms d)" by (simp_all add: rooms_ok_def)
  fix k r assume r: "tget (rooms d) k = Some r"
  from tallD [OF all r] have rk: "room_ok d k r" .
  show "case room_kind r of
          GLOBAL \<Rightarrow> participant_ids k d = []
        | DIRECT \<Rightarrow> \<exists>a b. a < b \<and> room_direct_user_low r = Some a \<and> room_direct_user_high r = Some b \<and>
            set (participant_ids k d) = {a, b}
        | PRODUCT_ROOM \<Rightarrow> \<exists>c. conversation_of k d = Some c \<and>
            conversation_seller_id (snd c) \<noteq> conversation_buyer_id (snd c) \<and>
            set (participant_ids k d) = {conversation_seller_id (snd c), conversation_buyer_id (snd c)}"
  proof (cases "room_kind r")
    case PRODUCT_ROOM
    with rk u(4) obtain i c where c: "tget (product_conversations d) i = Some c" "conversation_room_id c = k"
      "conversation_seller_id c \<noteq> conversation_buyer_id c" "set (participant_ids k d) = {conversation_seller_id c, conversation_buyer_id c}"
      by (auto simp: room_ok_def texists_iff)
    have "conversation_of k d = Some (i, c)"
      using tfirst_unique_on [OF u(4,3) c(1), of k] c(2) by (simp add: conversation_of_def)
    with c PRODUCT_ROOM show ?thesis by simp
  qed (use rk in \<open>auto simp: room_ok_def room_check_def split: option.splits\<close>)
next
  from chat_rooms.run_inv [OF assms] have ok: "rooms_ok d" by (simp add: chat_inv_def)
  then have u: "unique_on room_key (rooms d)" and all: "tall (room_ok d) (rooms d)" by (simp_all add: rooms_ok_def)
  fix k r k' r' assume r: "tget (rooms d) k = Some r \<and> tget (rooms d) k' = Some r' \<and> same_room r r'"
  then have "room_check r" "room_check r'" using tallD [OF all] by (auto simp: room_ok_def)
  with r have "room_key r = room_key r'" "room_key r \<noteq> None" by (auto simp: room_key_def same_room_def room_check_def)
  with unique_onD [OF u] r show "k = k'" by (metis option.exhaust)
next
  from chat_rooms.run_inv [OF assms] have u: "unique_on (\<lambda>c. Some (conversation_key c)) (product_conversations d)"
    by (simp add: chat_inv_def rooms_ok_def)
  fix k c k' c' assume "tget (product_conversations d) k = Some c \<and> tget (product_conversations d) k' = Some c' \<and>
       conversation_key c = conversation_key c'"
  then show "k = k'" by (intro unique_onD [OF u, of k c k' c' "conversation_key c"]) auto
qed

lemma reachable_rooms_consistent_witness:
  "{(k, k'). \<exists>r r'. tget (rooms (mark_live 1 hello_db)) k = Some r \<and> tget (rooms (mark_live 1 hello_db)) k' = Some r' \<and>
     same_room r r'} \<subseteq> Id"
  using reachable_rooms_consistent [OF hello_step talk_inv] by blast

text \<open>
  C26: a client that fetches the history page by page, each time with the last id it got, ends after
  finitely many pages and has every later message of the room exactly once, in the order of their ids.
\<close>

theorem history_complete:
  assumes "messages_wf d" "history_after tnow room user cursor limit d = Inr h"
  shows "fetch_all tnow room user limit d cursor =
      Inr (map (history_row d) (filter (\<lambda>x. int (fst x) > cursor) (room_log room d))) \<and>
    sorted_wrt (\<lambda>x y. fst x < fst y) (room_log room d) \<and>
    set (room_log room d) = {(k, m). tget (chat_messages d) k = Some m \<and> message_room_id m = room}"
proof (intro conjI)
  show "fetch_all tnow room user limit d cursor =
      Inr (map (history_row d) (filter (\<lambda>x. int (fst x) > cursor) (room_log room d)))"
    using fetch_all_from [OF assms] by (simp add: messages_after_filter)
  show "sorted_wrt (\<lambda>x y. fst x < fst y) (room_log room d)"
    unfolding room_log_def using assms(1)
    by (intro strictly_sorted_by_key) (simp add: messages_wf_def wf_table_def tselect_def distinct_map_filter)
  show "set (room_log room d) = {(k, m). tget (chat_messages d) k = Some m \<and> message_room_id m = room}"
    using assms(1) by (auto simp: room_log_def tselect_set messages_wf_def tget_iff)
qed

lemma history_complete_witness:
  "fetch_all 100 1 2 1 talk_db 0 = Inr []"
proof -
  have none: "chat_messages talk_db = empty_table" by (simp add: talk_db_def empty_db_def)
  obtain u where "require_active_user 100 2 talk_db = Inr u" using talkers_active(2) [of 100] by (cases "require_active_user 100 2 talk_db") auto
  with talk_access [of 100] have h: "history_after 100 1 2 0 1 talk_db = Inr []"
    by (simp add: history_after_def HISTORY_MAX_LIMIT_def room_messages_after_def tselect_def none empty_table_def)
  have "room_log 1 talk_db = []" by (simp add: room_log_def tselect_def none empty_table_def)
  with history_complete [OF talk_wf h] show ?thesis by simp
qed

text \<open>
  When an acceptance passes the access check, the replay check and the rate limits it succeeds,
  whether or not the publisher works, and in a product conversation the other party then has the
  notification of exactly this message.
\<close>

theorem accepted_message_notifies:
  assumes "check_command env c = Inr (body, hash)" "find_replay c d = None"
    and "require_message_accept_access (ce_tnow env) (cc_room_id c) (cc_sender_id c) d = Inr r"
    and "enforce_rate_limits (cc_sender_id c) (cc_connection_id c) (ce_tx_now env) d = Inr ()"
    and "messages_wf d" "next_pk (chat_messages d) < 10 ^ 19"
  shows "\<exists>a ev d'. accept env c d = (Inr a, ev, d') \<and> \<not> am_replayed a \<and>
    (am_delivery a = LIVE \<longleftrightarrow> ce_published env) \<and>
    (\<exists>m. tget (chat_messages d') (am_server_message_id a) = Some m \<and> message_body m = body \<and> message_sender_id m = cc_sender_id c) \<and>
    (room_kind r = PRODUCT_ROOM \<longrightarrow> (\<exists>i conv. conversation_of (cc_room_id c) d = Some (i, conv) \<and>
       texists (\<lambda>_ n. notification_recipient_id n = other_party conv (cc_sender_id c) \<and>
          notification_event_key n = message_event_key (am_server_message_id a)) (notifications d')))"
proof -
  define k where "k = next_pk (chat_messages d)"
  define m where "m = new_message env c body hash"
  define d1 where "d1 = with_message env c body hash d"
  have d1: "tget (chat_messages d1) k = Some m" using assms(5)
    by (simp add: d1_def with_message_def k_def m_def messages_wf_def tbl_simps)
  have same: "users d1 = users d" "conversation_of i d1 = conversation_of i d" "moderation_actions d1 = moderation_actions d"
    "sanction_releases d1 = sanction_releases d" for i
    by (simp_all add: d1_def with_message_def conversation_of_def)
  have "\<exists>d2. store_message env c r body hash d = Inr (k, d2) \<and> chat_messages d2 = chat_messages d1 \<and>
    (room_kind r = PRODUCT_ROOM \<longrightarrow> (\<exists>i conv. conversation_of (cc_room_id c) d = Some (i, conv) \<and>
       texists (\<lambda>_ n. notification_recipient_id n = other_party conv (cc_sender_id c) \<and>
          notification_event_key n = message_event_key k) (notifications d2)))"
  proof (cases "room_kind r = PRODUCT_ROOM")
    case False
    then have "store_message env c r body hash d = Inr (k, d1)"
      by (simp add: store_message_def d1_def with_message_def new_message_def k_def tcreate_def Let_def)
    with False show ?thesis by simp
  next
    case True
    from assms(3) have room: "tget (rooms d) (cc_room_id c) = Some r"
      by (auto simp: require_message_accept_access_def require_room_access_def split: option.splits if_splits sum.splits)
    with assms(3) True obtain i conv where conv: "conversation_of (cc_room_id c) d = Some (i, conv)"
      and act: "both_active (ce_tnow env) (conversation_seller_id conv) (conversation_buyer_id conv) d"
      by (auto simp: require_message_accept_access_def split: option.splits if_splits)
    have act1: "both_active (ce_tnow env) (conversation_seller_id conv) (conversation_buyer_id conv) d1"
      using act by (simp add: both_active_def chat_active_def effective_user_status_def active_actions_def released_def same
          cong: option.case_cong)
    from notify_ok [OF _ act1, of "cc_room_id c" i k "ce_tnow env" "cc_sender_id c"] conv same assms(6)
    obtain d2 where d2: "notify_other_party (ce_tnow env) (cc_room_id c) (cc_sender_id c) k d1 = Inr d2"
      "texists (\<lambda>_ n. notification_recipient_id n = other_party conv (cc_sender_id c) \<and>
          notification_event_key n = message_event_key k) (notifications d2)" by (auto simp: k_def)
    have "store_message env c r body hash d = Inr (k, d2)"
      using d2(1) True by (simp add: store_message_def d1_def with_message_def new_message_def k_def tcreate_def Let_def)
    moreover have "chat_messages d2 = chat_messages d1"
      using arg_cong [OF notify_other_party_frame [OF d2(1)], of chat_messages] by simp
    ultimately show ?thesis using d2(2) conv by blast
  qed
  then obtain d2 where st: "store_message env c r body hash d = Inr (k, d2)" "chat_messages d2 = chat_messages d1"
    and note': "room_kind r = PRODUCT_ROOM \<longrightarrow> (\<exists>i conv. conversation_of (cc_room_id c) d = Some (i, conv) \<and>
       texists (\<lambda>_ n. notification_recipient_id n = other_party conv (cc_sender_id c) \<and>
          notification_event_key n = message_event_key k) (notifications d2))" by blast
  from assms(1-4) st(1) have ex: "accept_exec env c d = Inr ((k, False), d2)"
    by (simp add: accept_exec_def accept_tx_def)
  have g: "tget (chat_messages d2) k = Some m" using d1 st(2) by simp
  have m: "message_body m = body" "message_sender_id m = cc_sender_id c" "message_delivery m = DEGRADED"
    by (simp_all add: m_def new_message_def)
  show ?thesis
  proof (cases "ce_published env")
    case True
    with ex g have "accept env c d = (Inr (accepted_row k (m\<lparr>message_delivery := LIVE\<rparr>) False), Some (event_of k m d2), mark_live k d2)"
      by (simp add: accept_from_exec)
    with True m g note' show ?thesis by (auto simp: accepted_row_def mark_live_def tbl_simps)
  next
    case False
    with ex g have "accept env c d = (Inr (accepted_row k m False), None, d2)" by (simp add: accept_from_exec)
    with False m g note' show ?thesis by (auto simp: accepted_row_def)
  qed
qed

lemma accepted_message_notifies_witness:
  "\<exists>a ev d'. accept talk_env (hello ''hi'') talk_db = (Inr a, ev, d') \<and> am_delivery a = LIVE"
proof -
  have f: "cc_room_id (hello ''hi'') = 1" "cc_sender_id (hello ''hi'') = 2" "cc_connection_id (hello ''hi'') = some_uuid4"
    "ce_tnow talk_env = 100" "ce_tx_now talk_env = 100" "ce_published talk_env" by (simp_all add: hello_def talk_env_def)
  have none: "chat_messages talk_db = empty_table" by (simp add: talk_db_def empty_db_def)
  have replay: "find_replay (hello ''hi'') talk_db = None" by (simp add: find_replay_def none tfirst_None tbl_simps)
  have lim: "enforce_rate_limits 2 some_uuid4 100 talk_db = Inr ()"
    by (simp add: enforce_rate_limits_def window_wait_def recent_times_def tselect_def none empty_table_def chat_limits)
  have "next_pk (chat_messages talk_db) < 10 ^ 19" by (simp add: none empty_table_def)
  from accepted_message_notifies [OF hello_checked replay, unfolded f, OF talk_accept_access lim talk_wf this] f(6)
  show ?thesis by blast
qed


end
