(* ===== verification/Inbox.thy ===== *)
theory Inbox imports Notifications "HOL-Library.Product_Lexorder" begin

text \<open>
  The inbox as a user sees it: the queryset of \<open>notifications_for_user\<close>, the display texts of
  \<open>notifications/presentation.py\<close>, the two pages of \<open>notifications/views.py\<close>, and the two purge
  commands. Korean texts are lists of code points.
\<close>

section \<open>The queryset\<close>

text \<open>\<open>Meta.ordering = ("-created_at", "-pk")\<close>.\<close>

definition newest_first :: "(nat \<times> notification) list \<Rightarrow> (nat \<times> notification) list" where
  "newest_first ns = sort_key (\<lambda>(k, n). (- notification_created_at n, - int k)) ns"

definition notifications_for_user :: "instant \<Rightarrow> nat \<Rightarrow> db \<Rightarrow> (nat \<times> notification) list result" where
  "notifications_for_user tnow user_id d =
     (case tget (users d) user_id of
        None \<Rightarrow> Inl NotificationAuthorizationError
      | Some u \<Rightarrow>
          if \<not> user_is_active u then Inl NotificationAuthorizationError
          else if effective_account_status (Some (Some user_id, u)) \<noteq> ACTIVE
          then Inl NotificationAuthorizationError
          else Inr (newest_first (tselect (unexpired tnow user_id) (notifications d))))"

section \<open>Display texts\<close>

text \<open>\<open>_AMOUNT\<close>, here used with \<open>fullmatch\<close>.\<close>

definition shown_amount :: "pystr \<Rightarrow> bool" where
  "shown_amount s \<longleftrightarrow> s \<noteq> [] \<and> length s \<le> 8 \<and> list_all is_digit s \<and> hd s \<noteq> 48"

definition three_digits :: "nat \<Rightarrow> pystr" where
  "three_digits n = [48 + n div 100, 48 + n div 10 mod 10, 48 + n mod 10]"

text \<open>\<open>f"{n:,}"\<close>.\<close>

fun fmt_comma :: "nat \<Rightarrow> pystr" where
  "fmt_comma n = (if n < 1000 then dec n else fmt_comma (n div 1000) @ [44] @ three_digits (n mod 1000))"

declare fmt_comma.simps [simp del]

text \<open>The two payload fields the presentation reads, when they are texts; a message event has neither.\<close>

definition payload_amount :: "notification_payload \<Rightarrow> pystr option" where
  "payload_amount p = (case p of Transfer_Payload _ a _ \<Rightarrow> Some a | _ \<Rightarrow> None)"

definition payload_counterparty :: "notification_payload \<Rightarrow> pystr option" where
  "payload_counterparty p = (case p of Transfer_Payload _ _ c \<Rightarrow> Some c | _ \<Rightarrow> None)"

definition TRANSFER_ARRIVED :: pystr where
  "TRANSFER_ARRIVED = [49569, 44552, 32, 50508, 47548, 51060, 32, 46020, 52265, 54664, 49845, 45768, 45796, 46]"

definition won_text :: pystr where "won_text = [50896, 51012, 32]"
definition to_text :: pystr where "to_text = [45784, 50640, 44172, 32]"
definition sent_text :: pystr where "sent_text = [48372, 45256, 49845, 45768, 45796]"
definition received_text :: pystr where "received_text = [48155, 50520, 49845, 45768, 45796]"

definition transfer_detail :: "notification_payload \<Rightarrow> pystr \<Rightarrow> pystr" where
  "transfer_detail payload action =
     (case payload_amount payload of
        None \<Rightarrow> TRANSFER_ARRIVED
      | Some amount \<Rightarrow>
          if \<not> shown_amount amount then TRANSFER_ARRIVED
          else
            let display_amount = fmt_comma (undec amount) in
            case payload_counterparty payload of
              None \<Rightarrow> display_amount @ won_text @ action
            | Some name \<Rightarrow>
                if py_strip name = [] then display_amount @ won_text @ action
                else py_strip name @ to_text @ display_amount @ won_text @ action)"

record inbox_notification =
  inbox_id :: nat
  inbox_title :: pystr
  inbox_detail :: pystr
  inbox_created_at :: instant
  inbox_is_unread :: bool

definition inbox_text :: "notification \<Rightarrow> pystr \<times> pystr" where
  "inbox_text n =
     (case notification_kind n of
        TRANSFER_SENT \<Rightarrow> ([49569, 44552, 32, 50756, 47308], transfer_detail (notification_payload n) sent_text)
      | TRANSFER_RECEIVED \<Rightarrow>
          ([49569, 44552, 32, 49688, 49888], transfer_detail (notification_payload n) received_text)
      | PRODUCT_MESSAGE \<Rightarrow>
          ([49352, 32, 50508, 47548],
           [50508, 47548, 54632, 50640, 49436, 32, 45236, 50857, 51012, 32, 54869, 51064, 54616, 49464, 50836, 46]))"

definition inbox_row :: "nat \<times> notification \<Rightarrow> inbox_notification" where
  "inbox_row kn = (case kn of (k, n) \<Rightarrow>
     \<lparr>inbox_id = k, inbox_title = fst (inbox_text n), inbox_detail = snd (inbox_text n),
      inbox_created_at = notification_created_at n, inbox_is_unread = notification_read_at n = None\<rparr>)"

definition inbox_notifications :: "(nat \<times> notification) list \<Rightarrow> inbox_notification list" where
  "inbox_notifications ns = map inbox_row ns"

section \<open>The pages\<close>

datatype inbox_reply = Inbox_Page "inbox_notification list" | To_Inbox | To_Login | Method_Not_Allowed | Not_Found

text \<open>
  \<open>login_required\<close> sends a visitor to the login page before the method is looked at. \<open>posted\<close> is
  whether the method is POST; for the inbox everything but GET is refused.
\<close>

definition inbox :: "instant \<Rightarrow> nat option \<Rightarrow> bool \<Rightarrow> db \<Rightarrow> inbox_reply" where
  "inbox tnow user is_get d =
     (case user of
        None \<Rightarrow> To_Login
      | Some user_id \<Rightarrow>
          if \<not> is_get then Method_Not_Allowed
          else case notifications_for_user tnow user_id d of
            Inl _ \<Rightarrow> Not_Found
          | Inr ns \<Rightarrow> Inbox_Page (inbox_notifications (take 100 ns)))"

definition mark_read :: "instant \<Rightarrow> instant \<Rightarrow> nat option \<Rightarrow> bool \<Rightarrow> nat \<Rightarrow> db \<Rightarrow> inbox_reply \<times> db" where
  "mark_read tnow app_now user posted notification_id d =
     (case user of
        None \<Rightarrow> (To_Login, d)
      | Some user_id \<Rightarrow>
          if \<not> posted then (Method_Not_Allowed, d)
          else case mark_notification_read tnow app_now notification_id user_id d of
            Inl _ \<Rightarrow> (Not_Found, d)
          | Inr (_, d1) \<Rightarrow> (To_Inbox, d1))"

section \<open>The purge commands\<close>

datatype purge_output = Already_Running | Deleted nat

definition purge_notifications_command :: "instant \<Rightarrow> bool \<Rightarrow> db \<Rightarrow> purge_output result \<times> db" where
  "purge_notifications_command tnow locked d =
     (case purge_expired_notifications tnow locked d of
        Inl e \<Rightarrow> (Inl e, d)
      | Inr (r, d1) \<Rightarrow> (Inr (if \<not> lock_acquired r then Already_Running else Deleted (deleted_count r)), d1))"

text \<open>
  One day of the scheduler: up to three attempts. \<open>env\<close> says of each attempt whether the database
  raises in it (\<open>Inl\<close>, and its transaction is rolled back) or answers with its clock and whether the
  advisory lock was free. The last failure leaves the command with its exception.
\<close>

definition MAX_RETRIES :: nat where "MAX_RETRIES = 3"

definition purge_attempt :: "exn + (instant \<times> bool) \<Rightarrow> db \<Rightarrow> exn + (purge_result \<times> db)" where
  "purge_attempt outcome d =
     (case outcome of Inl e \<Rightarrow> Inl e | Inr (tnow, locked) \<Rightarrow> purge_expired_notifications tnow locked d)"

fun scheduler_attempts :: "(exn + (instant \<times> bool)) list \<Rightarrow> db \<Rightarrow> purge_result option result \<times> db" where
  "scheduler_attempts [] d = (Inr None, d)"
| "scheduler_attempts (outcome # rest) d =
     (case purge_attempt outcome d of
        Inl e \<Rightarrow> (if rest = [] then (Inl e, d) else scheduler_attempts rest d)
      | Inr (r, d1) \<Rightarrow> (Inr (Some r), d1))"

definition scheduler_day :: "(nat \<Rightarrow> exn + (instant \<times> bool)) \<Rightarrow> db \<Rightarrow> purge_result option result \<times> db" where
  "scheduler_day env d = scheduler_attempts (map env [0..<MAX_RETRIES]) d"

text \<open>The endless loop, observed for the days of a list; it ends early only by an exception.\<close>

fun scheduler_days :: "(nat \<Rightarrow> exn + (instant \<times> bool)) list \<Rightarrow> db \<Rightarrow> unit result \<times> db" where
  "scheduler_days [] d = (Inr (), d)"
| "scheduler_days (env # rest) d =
     (case scheduler_day env d of (Inl e, d1) \<Rightarrow> (Inl e, d1) | (Inr _, d1) \<Rightarrow> scheduler_days rest d1)"

definition run_scheduler ::
    "bool \<Rightarrow> (nat \<Rightarrow> exn + (instant \<times> bool)) list \<Rightarrow> db \<Rightarrow> unit result \<times> db" where
  "run_scheduler in_tests envs d = (if in_tests then (Inl CommandError, d) else scheduler_days envs d)"

section \<open>The purge is one deletion\<close>

lemma purge_loop_once:
  assumes "wf_table t" "0 < batch"
  shows "purge_loop tnow batch n t = (n + tcount (expired tnow) t, tdelete (expired tnow) t)"
  using assms
proof (induction tnow batch n t rule: purge_loop.induct)
  case (1 tnow batch n t)
  let ?ids = "expired_batch tnow batch t"
  show ?case
  proof (cases "?ids = []")
    case True
    with "1.prems"(2) have none: "tselect (expired tnow) t = []"
      by (metis expired_batch_def length_0_conv length_map length_sort less_numeral_extra(3) take_eq_Nil)
    then have "\<not> expired tnow k r" if "(k, r) \<in> set (rows t)" for k r
      using that by (auto simp: tselect_def filter_empty_conv)
    then have "filter (\<lambda>(k, r). \<not> expired tnow k r) (rows t) = rows t" by (intro filter_True) auto
    then have "tdelete (expired tnow) t = t" by (simp add: tdelete_def)
    with True none show ?thesis by (subst purge_loop.simps) (simp add: tcount_def)
  next
    case False
    have ids: "expired tnow k r" if "(k, r) \<in> set (rows t)" "k \<in> set ?ids" for k r
    proof -
      from that(2) obtain r' where r: "(k, r') \<in> set (rows t)" "expired tnow k r'"
        unfolding expired_batch_def by (auto simp: tselect_def dest!: in_set_takeD)
      with that(1) "1.prems"(1) have "r = r'" by (auto simp: wf_table_def dest: eq_key_imp_eq_value)
      with r show ?thesis by simp
    qed
    have "tcount (expired tnow) t = tcount (\<lambda>k r. expired tnow k r \<and> k \<notin> set ?ids) t +
        tcount (\<lambda>k r. expired tnow k r \<and> k \<in> set ?ids) t"
      by (rule tcount_split)
    also have "tcount (\<lambda>k r. expired tnow k r \<and> k \<in> set ?ids) t = tcount (\<lambda>k _. k \<in> set ?ids) t"
      by (rule tcount_cong) (use ids in blast)
    finally have count: "tcount (expired tnow) t =
        tcount (expired tnow) (delete_batch ?ids t) + tcount (\<lambda>k _. k \<in> set ?ids) t"
      by (simp add: delete_batch_def tcount_tdelete)
    have del: "tdelete (expired tnow) (delete_batch ?ids t) = tdelete (expired tnow) t"
      unfolding delete_batch_def tdelete_tdelete by (rule tdelete_cong) (use ids in blast)
    have "wf_table (delete_batch ?ids t)" unfolding delete_batch_def by (intro wf_intros "1.prems")
    with "1.IH" [OF refl False] "1.prems"(2) False count del show ?thesis
      by (subst purge_loop.simps) (simp add: Let_def)
  qed
qed

lemma set_newest_first: "set (newest_first ns) = set ns"
  by (simp add: newest_first_def)

lemma length_newest_first: "length (newest_first ns) = length ns"
  by (simp add: newest_first_def)

section \<open>Amounts are shown exactly\<close>

lemma dec_mod_1000:
  assumes "1000 \<le> n"
  shows "dec n = dec (n div 1000) @ three_digits (n mod 1000)"
proof -
  from assms have "\<not> n < 10" "\<not> n div 10 < 10" "\<not> n div 10 div 10 < 10" by presburger+
  then have "dec n = dec (n div 10 div 10 div 10) @ [48 + n div 10 div 10 mod 10] @ [48 + n div 10 mod 10] @ [48 + n mod 10]"
    using dec.simps [of n] dec.simps [of "n div 10"] dec.simps [of "n div 10 div 10"] by simp
  moreover have "n div 10 div 10 div 10 = n div 1000" by (simp add: div_mult2_eq [symmetric])
  moreover have "n div 10 div 10 mod 10 = n mod 1000 div 100"
    using mod_mult2_eq [of n 100 10] by (simp add: div_mult2_eq [symmetric])
  moreover have "n div 10 mod 10 = n mod 1000 div 10 mod 10"
    using mod_mult2_eq [of n 10 100] by (simp add: mod_mod_cancel)
  moreover have "n mod 10 = n mod 1000 mod 10" by (simp add: mod_mod_cancel)
  ultimately show ?thesis by (simp add: three_digits_def)
qed

lemma fmt_comma_digits: "filter (\<lambda>c. c \<noteq> 44) (fmt_comma n) = dec n"
proof (induction n rule: fmt_comma.induct)
  case (1 n)
  have plain: "filter (\<lambda>c. c \<noteq> 44) (dec m) = dec m" for m
    using dec_digits by (intro filter_True) (fastforce simp: is_digit_def)
  show ?case
  proof (cases "n < 1000")
    case True
    then show ?thesis by (subst fmt_comma.simps) (simp add: plain)
  next
    case False
    with "1" show ?thesis
      by (subst fmt_comma.simps) (simp add: dec_mod_1000 three_digits_def)
  qed
qed

end
