(* ===== verification/Inbox_Properties.thy ===== *)
theory Inbox_Properties imports Inbox "HOL-Library.Multiset" begin

text \<open>
  What the inbox promises: the purge deletes the expired notifications and nothing else, the page shows
  its owner's notifications and nobody else's, and a transfer is shown with its amount and counterparty.
\<close>

section \<open>An example inbox\<close>

definition inbox_user :: user where
  "inbox_user = \<lparr>user_username = lit ''anna'', user_password = Some 1, user_is_active = True,
     user_is_staff = False, user_is_superuser = False, user_meta_permission = False, user_bio = [],
     user_auth_epoch = 0, user_withdrawn_at = None, user_date_joined = 0\<rparr>"

definition inbox_event :: "nat \<Rightarrow> string \<Rightarrow> instant \<Rightarrow> notification" where
  "inbox_event owner key created = \<lparr>notification_recipient_id = owner, notification_event_key = lit key,
     notification_kind = PRODUCT_MESSAGE, notification_payload = Message_Payload 1 1 1, notification_read_at = None,
     notification_created_at = created, notification_expires_at = created + 100\<rparr>"

definition inbox_db :: db where
  "inbox_db = empty_db\<lparr>users := \<lparr>rows = [(1, inbox_user), (2, inbox_user\<lparr>user_username := lit ''bert''\<rparr>)], next_pk = 3\<rparr>,
     notifications := \<lparr>rows = [(1, inbox_event 1 ''a'' 0), (2, inbox_event 1 ''b'' 50), (3, inbox_event 2 ''c'' 60),
       (4, inbox_event 1 ''d'' 70)], next_pk = 5\<rparr>\<rparr>"

lemmas inbox_db_defs = inbox_db_def inbox_user_def inbox_event_def empty_db_def

lemma inbox_db_wf: "wf_table (notifications inbox_db)"
  by (simp add: inbox_db_def empty_db_def wf_table_def)

section \<open>Properties\<close>

text \<open>
  C30: the purge in batches is one deletion: with the advisory lock it leaves exactly the notifications
  that have not expired, whatever their number, reports how many it deleted and records its success; a
  second run in the same instant finds nothing.
\<close>

theorem purge_exact:
  assumes "wf_table (notifications d)"
  shows "purge_expired_notifications tnow True d =
    Inr (\<lparr>deleted_count = tcount (expired tnow) (notifications d), lock_acquired = True\<rparr>,
      d\<lparr>notifications := tdelete (expired tnow) (notifications d),
         notification_purge := Some \<lparr>purge_last_success_at = Some tnow,
           purge_last_deleted_count = tcount (expired tnow) (notifications d)\<rparr>\<rparr>) \<and>
    tcount (expired tnow) (tdelete (expired tnow) (notifications d)) = 0"
  using purge_loop_once [OF assms, of PURGE_BATCH_SIZE tnow 0]
  by (simp add: purge_expired_notifications_def PURGE_BATCH_SIZE_def tcount_tdelete) (simp add: tcount_def tselect_def)

theorem purge_exact_witness:
  "\<exists>d'. purge_expired_notifications 120 True inbox_db = Inr (\<lparr>deleted_count = 1, lock_acquired = True\<rparr>, d') \<and>
     map fst (rows (notifications d')) = [2, 3, 4]"
proof -
  have "tcount (expired 120) (notifications inbox_db) = 1"
    "map fst (rows (tdelete (expired 120) (notifications inbox_db))) = [2, 3, 4]"
    by (simp_all add: inbox_db_defs expired_def tcount_def tselect_def tdelete_def)
  with purge_exact [OF inbox_db_wf, of 120] show ?thesis by simp
qed

text \<open>
  C31: the inbox of a user answers only for an active account that has not withdrawn, and shows the
  hundred newest of the user's own unexpired notifications, ties broken by the later key; the badge of the
  header counts the unread ones among all of them.
\<close>

theorem inbox_exact:
  assumes "wf_table (notifications d)" "inbox tnow (Some user_id) True d = Inbox_Page page"
  shows "(\<exists>u. tget (users d) user_id = Some u \<and> user_is_active u \<and> user_withdrawn_at u = None) \<and>
    (\<exists>ns. set ns = {(k, n). tget (notifications d) k = Some n \<and> notification_recipient_id n = user_id \<and>
            notification_expires_at n \<ge> tnow} \<and> distinct (map fst ns) \<and>
       sorted_wrt (\<lambda>(k, n) (k', n'). notification_created_at n' < notification_created_at n \<or>
            notification_created_at n' = notification_created_at n \<and> k' \<le> k) ns \<and>
       page = map inbox_row (take 100 ns) \<and>
       unread_notification_count tnow (Some user_id) d = length (filter (\<lambda>(k, n). notification_read_at n = None) ns))"
proof -
  let ?sel = "tselect (unexpired tnow user_id) (notifications d)"
  from assms(2) obtain u where u: "tget (users d) user_id = Some u" "user_is_active u" "user_withdrawn_at u = None"
    and page: "page = map inbox_row (take 100 (newest_first ?sel))"
    by (auto simp: inbox_def notifications_for_user_def inbox_notifications_def effective_account_status_def
        split: option.splits if_splits)
  have "set (newest_first ?sel) = {(k, n). tget (notifications d) k = Some n \<and> notification_recipient_id n = user_id \<and>
      notification_expires_at n \<ge> tnow}"
    using assms(1) by (auto simp: set_newest_first tselect_def tget_iff unexpired_def)
  moreover have "distinct (map fst (newest_first ?sel))"
  proof -
    have "mset (map fst (newest_first ?sel)) = mset (map fst ?sel)" by (simp add: newest_first_def)
    moreover have "distinct (map fst ?sel)" using assms(1) by (simp add: wf_table_def tselect_def distinct_map_filter)
    ultimately show ?thesis by (metis mset_eq_imp_distinct_iff)
  qed
  moreover have "sorted_wrt (\<lambda>(k, n) (k', n'). notification_created_at n' < notification_created_at n \<or>
      notification_created_at n' = notification_created_at n \<and> k' \<le> k) (newest_first ?sel)"
  proof -
    have "sorted (map (\<lambda>(k, n). (- notification_created_at n, - int k)) (newest_first ?sel))"
      unfolding newest_first_def by (rule sorted_sort_key)
    then show ?thesis unfolding sorted_map by (rule sorted_wrt_mono_rel [rotated]) auto
  qed
  moreover have "unread_notification_count tnow (Some user_id) d =
      length (filter (\<lambda>(k, n). notification_read_at n = None) (newest_first ?sel))"
  proof -
    have "mset (newest_first ?sel) = mset ?sel" by (simp add: newest_first_def)
    then have "length (filter (\<lambda>(k, n). notification_read_at n = None) (newest_first ?sel)) =
        length (filter (\<lambda>(k, n). notification_read_at n = None) ?sel)"
      by (metis mset_filter size_mset)
    then show ?thesis by (simp add: unread_notification_count_def tcount_def tselect_def split_def conj_commute)
  qed
  ultimately show ?thesis using u page by blast
qed

theorem inbox_exact_witness:
  "\<exists>ns. set ns = {(k, n). tget (notifications inbox_db) k = Some n \<and> notification_recipient_id n = 1 \<and>
      notification_expires_at n \<ge> 120} \<and>
    map inbox_id (map inbox_row (take 100 ns)) = [4, 2] \<and>
    unread_notification_count 120 (Some 1) inbox_db = length (filter (\<lambda>(k, n). notification_read_at n = None) ns)"
proof -
  have page: "inbox 120 (Some 1) True inbox_db =
      Inbox_Page [inbox_row (4, inbox_event 1 ''d'' 70), inbox_row (2, inbox_event 1 ''b'' 50)]"
    by (simp add: inbox_def notifications_for_user_def inbox_db_defs effective_account_status_def newest_first_def
        tselect_def unexpired_def inbox_notifications_def tget_def)
  obtain ns where ns: "set ns = {(k, n). tget (notifications inbox_db) k = Some n \<and> notification_recipient_id n = 1 \<and>
      notification_expires_at n \<ge> 120}"
    "[inbox_row (4, inbox_event 1 ''d'' 70), inbox_row (2, inbox_event 1 ''b'' 50)] = map inbox_row (take 100 ns)"
    "unread_notification_count 120 (Some 1) inbox_db = length (filter (\<lambda>(k, n). notification_read_at n = None) ns)"
    using inbox_exact [OF inbox_db_wf page, THEN conjunct2] by (elim exE conjE) (rule that)
  have ids: "map inbox_id (map inbox_row (take 100 ns)) = [4, 2]"
    unfolding ns(2) [symmetric] by (simp add: inbox_row_def)
  show ?thesis by (intro exI conjI) (rule ns(1), rule ids, rule ns(3))
qed

text \<open>
  Marking read redirects to the inbox exactly for an unexpired notification of the user himself; then
  that notification is read, keeps the time of its first reading, and nothing else of the database changes.
  A notification of somebody else answers 404 like one that does not exist.
\<close>

theorem mark_read_exact:
  assumes "wf_table (notifications d)" "mark_read tnow app_now (Some user_id) True k d = (reply, d')"
  shows "(reply = To_Inbox \<longleftrightarrow> (\<exists>n. tget (notifications d) k = Some n \<and> notification_recipient_id n = user_id \<and>
        notification_expires_at n \<ge> tnow)) \<and>
    (reply \<noteq> To_Inbox \<longrightarrow> reply = Not_Found \<and> d' = d) \<and>
    (reply = To_Inbox \<longrightarrow> (\<exists>t. d' = d\<lparr>notifications := t\<rparr> \<and> (\<forall>i. tget t i =
       (case tget (notifications d) i of None \<Rightarrow> None
        | Some n \<Rightarrow> Some (if i = k \<and> notification_read_at n = None then n\<lparr>notification_read_at := Some app_now\<rparr> else n)))))"
proof -
  have same: "tget (notifications d) i =
      (case tget (notifications d) i of None \<Rightarrow> None
       | Some n \<Rightarrow> Some (if i = k \<and> notification_read_at n = None then n\<lparr>notification_read_at := Some app_now\<rparr> else n))"
    if "tget (notifications d) k = Some n" "notification_read_at n \<noteq> None" for i n
    using that by (auto split: option.splits)
  show ?thesis
  proof (cases "tget (notifications d) k")
    case None
    with assms(2) show ?thesis by (auto simp: mark_read_def mark_notification_read_def)
  next
    case (Some n)
    consider "\<not> unexpired tnow user_id k n" | "unexpired tnow user_id k n" "notification_read_at n = None"
      | "unexpired tnow user_id k n" "notification_read_at n \<noteq> None" by blast
    then show ?thesis
    proof cases
      case 1
      with assms(2) Some show ?thesis by (auto simp: mark_read_def mark_notification_read_def unexpired_def)
    next
      case 2
      with assms(2) Some show ?thesis
        by (auto simp: mark_read_def mark_notification_read_def unexpired_def tget_tmodify split: option.splits
            intro!: exI [of _ "tmodify k (\<lambda>n. n\<lparr>notification_read_at := Some app_now\<rparr>) (notifications d)"])
    next
      case 3
      with assms(2) Some have "reply = To_Inbox" "d' = d"
        by (auto simp: mark_read_def mark_notification_read_def)
      with 3 Some same [OF Some 3(2)] show ?thesis
        by (intro conjI impI exI [of _ "notifications d"]) (auto simp: unexpired_def)
    qed
  qed
qed

theorem mark_read_exact_witness:
  "fst (mark_read 120 121 (Some 1) True 2 inbox_db) = To_Inbox \<and>
   fst (mark_read 120 121 (Some 1) True 3 inbox_db) = Not_Found"
proof -
  obtain r d' r' d'' where r: "mark_read 120 121 (Some 1) True 2 inbox_db = (r, d')"
    "mark_read 120 121 (Some 1) True 3 inbox_db = (r', d'')" by force
  have "\<exists>n. tget (notifications inbox_db) 2 = Some n \<and> notification_recipient_id n = 1 \<and> notification_expires_at n \<ge> 120"
    "\<not> (\<exists>n. tget (notifications inbox_db) 3 = Some n \<and> notification_recipient_id n = 1 \<and> notification_expires_at n \<ge> 120)"
    by (simp_all add: inbox_db_defs tget_def)
  with mark_read_exact [OF inbox_db_wf r(1)] mark_read_exact [OF inbox_db_wf r(2)] r show ?thesis by simp
qed

end
