(* ===== verification/Settings.thy ===== *)
theory Settings imports Sessions begin

text \<open>
  \<open>config/settings.py\<close>: the settings module as a function of the environment, with every
  \<open>ImproperlyConfigured\<close> it can raise, and what it promises together with the proxy middleware of
  \<open>config/middleware.py\<close>. \<open>os.getenv\<close> is \<open>env\<close>; \<open>str.lower\<close> and \<open>str(ip_address(.))\<close> are
  the parameters \<open>lower\<close> and \<open>ip\<close>. Constants that only configure Django (installed apps,
  templates, logging) are left out.
\<close>

type_synonym environment = "string \<Rightarrow> pystr option"

section \<open>Reading the environment\<close>

text \<open>\<open>os.getenv(name, default)\<close>.\<close>

definition getenv :: "environment \<Rightarrow> string \<Rightarrow> pystr \<Rightarrow> pystr" where
  "getenv env name dflt = (case env name of None \<Rightarrow> dflt | Some v \<Rightarrow> v)"

definition boolean_setting :: "(pystr \<Rightarrow> pystr) \<Rightarrow> environment \<Rightarrow> string \<Rightarrow> bool \<Rightarrow> bool result" where
  "boolean_setting lower env name dflt =
     (case env name of
        None \<Rightarrow> Inr dflt
      | Some value \<Rightarrow>
          let normalized = lower (py_strip value) in
          if normalized \<in> set (map lit [''1'', ''true'', ''yes'', ''on'']) then Inr True
          else if normalized \<in> set (map lit [''0'', ''false'', ''no'', ''off'']) then Inr False
          else Inl ImproperlyConfigured)"

text \<open>\<open>str.split(sep)\<close> for a separator of one character.\<close>

fun split_on :: "nat \<Rightarrow> pystr \<Rightarrow> pystr list" where
  "split_on c [] = [[]]"
| "split_on c (x # xs) =
     (if x = c then [] # split_on c xs
      else case split_on c xs of [] \<Rightarrow> [[x]] | w # ws \<Rightarrow> (x # w) # ws)"

definition csv_setting :: "environment \<Rightarrow> string \<Rightarrow> pystr \<Rightarrow> pystr list" where
  "csv_setting env name dflt =
     filter (\<lambda>item. item \<noteq> []) (map py_strip (split_on 44 (getenv env name dflt)))"

definition required_setting :: "environment \<Rightarrow> string \<Rightarrow> pystr result" where
  "required_setting env name =
     (let value = py_strip (getenv env name []) in if value = [] then Inl ImproperlyConfigured else Inr value)"

definition has_prefix :: "string \<Rightarrow> pystr \<Rightarrow> bool" where
  "has_prefix prefix s \<longleftrightarrow> take (length prefix) s = lit prefix"

section \<open>The settings\<close>

datatype app_env = DEVELOPMENT | TEST | PRODUCTION

definition parse_app_env :: "pystr \<Rightarrow> app_env result" where
  "parse_app_env s =
     (if s = lit ''development'' then Inr DEVELOPMENT
      else if s = lit ''test'' then Inr TEST
      else if s = lit ''production'' then Inr PRODUCTION
      else Inl ImproperlyConfigured)"

record database_settings =
  db_name :: pystr
  db_user :: pystr
  db_password :: pystr
  db_host :: pystr
  db_port :: pystr
  db_sslmode :: pystr

record settings =
  set_app_env :: app_env
  set_debug :: bool
  set_demo_bootstrap :: bool
  set_secret_key :: pystr
  set_allowed_hosts :: "pystr list"
  set_csrf_origins :: "pystr list"
  set_trust_proxy :: bool
  set_proxy_ips :: "pystr list"
  set_database :: database_settings
  set_redis_url :: pystr

definition is_production :: "settings \<Rightarrow> bool" where
  "is_production s \<longleftrightarrow> set_app_env s = PRODUCTION"

text \<open>The settings that follow from the environment name.\<close>

definition reseed_categories :: "settings \<Rightarrow> bool" where "reseed_categories s \<longleftrightarrow> set_app_env s = TEST"
definition secure_cookies :: "settings \<Rightarrow> bool" where "secure_cookies s \<longleftrightarrow> is_production s"
definition secure_ssl_redirect :: "settings \<Rightarrow> bool" where "secure_ssl_redirect s \<longleftrightarrow> is_production s"
definition hsts_seconds :: "settings \<Rightarrow> nat" where "hsts_seconds s = (if is_production s then 31536000 else 0)"

text \<open>\<open>SECURE_PROXY_SSL_HEADER\<close> is set only when proxy headers are trusted.\<close>

definition proxy_ssl_header :: "settings \<Rightarrow> (string \<times> pystr) option" where
  "proxy_ssl_header s = (if set_trust_proxy s then Some (''HTTP_X_FORWARDED_PROTO'', lit ''https'') else None)"

definition secret_and_hosts :: "bool \<Rightarrow> environment \<Rightarrow> (pystr \<times> pystr list) result" where
  "secret_and_hosts production env =
     (if production then
        (case required_setting env ''DJANGO_SECRET_KEY'' of
           Inl e \<Rightarrow> Inl e
         | Inr key \<Rightarrow>
             if length key < 50 \<or> has_prefix ''development-'' key then Inl ImproperlyConfigured
             else
               let hosts = csv_setting env ''DJANGO_ALLOWED_HOSTS'' [] in
               if hosts = [] \<or> lit ''*'' \<in> set hosts then Inl ImproperlyConfigured else Inr (key, hosts))
      else Inr (getenv env ''DJANGO_SECRET_KEY''
                  (lit ''development-only-change-me-before-any-shared-deployment-000000''),
                csv_setting env ''DJANGO_ALLOWED_HOSTS'' (lit ''localhost,127.0.0.1'')))"

definition csrf_origins :: "bool \<Rightarrow> environment \<Rightarrow> pystr list result" where
  "csrf_origins production env =
     (let origins = csv_setting env ''DJANGO_CSRF_TRUSTED_ORIGINS'' [] in
      if production \<and> origins = [] then Inl ImproperlyConfigured
      else if list_ex (\<lambda>u. \<not> (has_prefix ''http://'' u \<or> has_prefix ''https://'' u)) origins
      then Inl ImproperlyConfigured
      else if production \<and> list_ex (\<lambda>u. \<not> has_prefix ''https://'' u) origins then Inl ImproperlyConfigured
      else Inr origins)"

text \<open>The trusted addresses in canonical form; one text that is no address fails the load.\<close>

fun canonical_ips :: "(pystr \<Rightarrow> pystr option) \<Rightarrow> pystr list \<Rightarrow> pystr list result" where
  "canonical_ips ip [] = Inr []"
| "canonical_ips ip (a # as) =
     (case ip a of
        None \<Rightarrow> Inl ImproperlyConfigured
      | Some c \<Rightarrow> (case canonical_ips ip as of Inl e \<Rightarrow> Inl e | Inr cs \<Rightarrow> Inr (c # cs)))"

definition proxy_settings ::
    "(pystr \<Rightarrow> pystr) \<Rightarrow> (pystr \<Rightarrow> pystr option) \<Rightarrow> environment \<Rightarrow> (bool \<times> pystr list) result" where
  "proxy_settings lower ip env =
     (case boolean_setting lower env ''DJANGO_TRUST_PROXY_HEADERS'' False of
        Inl e \<Rightarrow> Inl e
      | Inr trust \<Rightarrow>
          let ips = csv_setting env ''DJANGO_TRUSTED_PROXY_IPS'' [] in
          if \<not> trust then Inr (False, ips)
          else if ips = [] then Inl ImproperlyConfigured
          else (case canonical_ips ip ips of Inl e \<Rightarrow> Inl e | Inr cs \<Rightarrow> Inr (True, cs)))"

definition tls_modes :: "string list" where "tls_modes = [''require'', ''verify-ca'', ''verify-full'']"

definition database_setting ::
    "(pystr \<Rightarrow> pystr) \<Rightarrow> bool \<Rightarrow> environment \<Rightarrow> database_settings result" where
  "database_setting lower production env =
     (let sslmode = lower (py_strip (getenv env ''POSTGRES_SSLMODE''
            (lit (if production then ''require'' else ''disable'')))) in
      if sslmode \<notin> set (map lit ([''disable'', ''allow'', ''prefer''] @ tls_modes)) then Inl ImproperlyConfigured
      else if production \<and> sslmode \<notin> set (map lit tls_modes) then Inl ImproperlyConfigured
      else
        (case required_setting env ''POSTGRES_DB'' of Inl e \<Rightarrow> Inl e | Inr name \<Rightarrow>
        (case required_setting env ''POSTGRES_USER'' of Inl e \<Rightarrow> Inl e | Inr user \<Rightarrow>
        (case required_setting env ''POSTGRES_PASSWORD'' of Inl e \<Rightarrow> Inl e | Inr password \<Rightarrow>
        (case required_setting env ''POSTGRES_HOST'' of Inl e \<Rightarrow> Inl e | Inr host \<Rightarrow>
         Inr \<lparr>db_name = name, db_user = user, db_password = password, db_host = host,
              db_port = getenv env ''POSTGRES_PORT'' (lit ''5432''), db_sslmode = sslmode\<rparr>)))))"

definition redis_setting :: "bool \<Rightarrow> environment \<Rightarrow> pystr result" where
  "redis_setting production env =
     (let url = getenv env ''REDIS_URL'' (if production then [] else lit ''redis://127.0.0.1:6379/0'') in
      if url = [] then Inl ImproperlyConfigured
      else if production \<and> \<not> has_prefix ''rediss://'' url then Inl ImproperlyConfigured
      else Inr url)"

text \<open>Importing the module.\<close>

definition load_settings ::
    "(pystr \<Rightarrow> pystr) \<Rightarrow> (pystr \<Rightarrow> pystr option) \<Rightarrow> environment \<Rightarrow> settings result" where
  "load_settings lower ip env =
     (case parse_app_env (lower (py_strip (getenv env ''APP_ENV'' (lit ''production'')))) of Inl e \<Rightarrow> Inl e | Inr a \<Rightarrow>
     (let production = (a = PRODUCTION) in
      case boolean_setting lower env ''DJANGO_DEBUG'' False of Inl e \<Rightarrow> Inl e | Inr debug \<Rightarrow>
      if production \<and> debug then Inl ImproperlyConfigured else
     (case boolean_setting lower env ''DEMO_CATALOG_BOOTSTRAP_ENABLED'' (a = DEVELOPMENT) of Inl e \<Rightarrow> Inl e | Inr demo \<Rightarrow>
      if a \<noteq> DEVELOPMENT \<and> demo then Inl ImproperlyConfigured else
     (case secret_and_hosts production env of Inl e \<Rightarrow> Inl e | Inr (key, hosts) \<Rightarrow>
     (case csrf_origins production env of Inl e \<Rightarrow> Inl e | Inr origins \<Rightarrow>
     (case proxy_settings lower ip env of Inl e \<Rightarrow> Inl e | Inr (trust, ips) \<Rightarrow>
     (case database_setting lower production env of Inl e \<Rightarrow> Inl e | Inr database \<Rightarrow>
     (case redis_setting production env of Inl e \<Rightarrow> Inl e | Inr url \<Rightarrow>
      Inr \<lparr>set_app_env = a, set_debug = debug, set_demo_bootstrap = demo, set_secret_key = key,
           set_allowed_hosts = hosts, set_csrf_origins = origins, set_trust_proxy = trust, set_proxy_ips = ips,
           set_database = database, set_redis_url = url\<rparr>))))))))"

section \<open>What a load promises\<close>

lemma secret_and_hosts_ok:
  "secret_and_hosts True env = Inr (key, hosts) \<Longrightarrow>
     50 \<le> length key \<and> \<not> has_prefix ''development-'' key \<and> hosts \<noteq> [] \<and> lit ''*'' \<notin> set hosts"
  by (auto simp: secret_and_hosts_def Let_def split: sum.splits if_splits)

lemma csrf_origins_ok:
  "csrf_origins production env = Inr origins \<Longrightarrow>
     (production \<longrightarrow> origins \<noteq> []) \<and>
     list_all (\<lambda>u. has_prefix ''https://'' u \<or> \<not> production \<and> has_prefix ''http://'' u) origins"
  by (auto simp: csrf_origins_def Let_def list_all_iff list_ex_iff split: if_splits)

lemma canonical_ips_ok: "canonical_ips ip xs = Inr cs \<Longrightarrow> map ip xs = map Some cs"
  by (induction xs arbitrary: cs) (auto split: option.splits sum.splits)

lemma proxy_settings_ok:
  "proxy_settings lower ip env = Inr (True, ips) \<Longrightarrow>
     ips \<noteq> [] \<and> map Some ips = map ip (csv_setting env ''DJANGO_TRUSTED_PROXY_IPS'' [])"
  by (auto simp: proxy_settings_def Let_def split: sum.splits if_splits dest!: canonical_ips_ok)

lemma database_setting_ok:
  "database_setting lower production env = Inr database \<Longrightarrow>
     db_sslmode database \<in> set (map lit ([''disable'', ''allow'', ''prefer''] @ tls_modes)) \<and>
     (production \<longrightarrow> db_sslmode database \<in> set (map lit tls_modes))"
  by (auto simp: database_setting_def Let_def split: sum.splits if_splits)

lemma redis_setting_ok: "redis_setting True env = Inr url \<Longrightarrow> has_prefix ''rediss://'' url"
  by (auto simp: redis_setting_def Let_def split: if_splits)

lemma load_settings_parts:
  assumes "load_settings lower ip env = Inr s"
  shows "(is_production s \<longrightarrow> \<not> set_debug s)"
    "(set_demo_bootstrap s \<longrightarrow> set_app_env s = DEVELOPMENT)"
    "secret_and_hosts (is_production s) env = Inr (set_secret_key s, set_allowed_hosts s)"
    "csrf_origins (is_production s) env = Inr (set_csrf_origins s)"
    "proxy_settings lower ip env = Inr (set_trust_proxy s, set_proxy_ips s)"
    "database_setting lower (is_production s) env = Inr (set_database s)"
    "redis_setting (is_production s) env = Inr (set_redis_url s)"
    "parse_app_env (lower (py_strip (getenv env ''APP_ENV'' (lit ''production'')))) = Inr (set_app_env s)"
  using assms unfolding load_settings_def Let_def is_production_def
  by (auto split: sum.splits if_splits prod.splits)

lemma map_of_filter_other: "P k \<Longrightarrow> map_of (filter (\<lambda>(h, _). P h) xs) k = map_of xs k"
  by (induction xs) auto

lemma empty_environment: "load_settings lower ip (\<lambda>_. None) = Inl ImproperlyConfigured"
proof -
  have "database_setting lower production (\<lambda>_. None) = Inl ImproperlyConfigured" for production
    by (simp add: database_setting_def required_setting_def getenv_def Let_def)
  moreover have "parse_app_env a = Inl e \<Longrightarrow> e = ImproperlyConfigured" for a e
    by (auto simp: parse_app_env_def split: if_splits)
  moreover have "secret_and_hosts production (\<lambda>_. None) = Inl e \<Longrightarrow> e = ImproperlyConfigured"
    "csrf_origins production (\<lambda>_. None) = Inl e \<Longrightarrow> e = ImproperlyConfigured"
    "proxy_settings lower ip (\<lambda>_. None) = Inl e \<Longrightarrow> e = ImproperlyConfigured" for production e
    by (auto simp: secret_and_hosts_def csrf_origins_def proxy_settings_def boolean_setting_def required_setting_def
        getenv_def Let_def split: if_splits)
  ultimately show ?thesis
    by (auto simp: load_settings_def Let_def boolean_setting_def split: sum.splits prod.splits)
qed

section \<open>Properties\<close>


definition prod_env :: environment where
  "prod_env = map_of [(''DJANGO_SECRET_KEY'', replicate 60 97), (''DJANGO_ALLOWED_HOSTS'', lit ''shop.example''),
     (''DJANGO_CSRF_TRUSTED_ORIGINS'', lit ''https://shop.example''), (''POSTGRES_DB'', lit ''shop''),
     (''POSTGRES_USER'', lit ''app''), (''POSTGRES_PASSWORD'', lit ''pw''), (''POSTGRES_HOST'', lit ''db''),
     (''REDIS_URL'', lit ''rediss://cache''), (''DJANGO_TRUST_PROXY_HEADERS'', lit ''1''),
     (''DJANGO_TRUSTED_PROXY_IPS'', lit ''10.0.0.1'')]"

definition prod_settings :: settings where
  "prod_settings = \<lparr>set_app_env = PRODUCTION, set_debug = False, set_demo_bootstrap = False,
     set_secret_key = replicate 60 97, set_allowed_hosts = [lit ''shop.example''],
     set_csrf_origins = [lit ''https://shop.example''], set_trust_proxy = True, set_proxy_ips = [lit ''10.0.0.1''],
     set_database = \<lparr>db_name = lit ''shop'', db_user = lit ''app'', db_password = lit ''pw'', db_host = lit ''db'',
       db_port = lit ''5432'', db_sslmode = lit ''require''\<rparr>, set_redis_url = lit ''rediss://cache''\<rparr>"

lemma prod_key: "py_strip (replicate 60 97) = replicate 60 97" "\<not> has_prefix ''development-'' (replicate 60 97)"
proof -
  show "py_strip (replicate 60 97) = replicate 60 97" by (rule py_strip_clean) (auto simp: py_isspace_def)
  have "hd (take 12 (replicate 60 97)) = (97::nat)" by simp
  moreover have "hd (lit ''development-'') = 100" by (simp add: lit_def)
  ultimately show "\<not> has_prefix ''development-'' (replicate 60 97)"
    by (auto simp: has_prefix_def simp del: take_replicate dest: arg_cong [of _ _ hd])
qed

lemmas load_text_defs = getenv_def csv_setting_def required_setting_def boolean_setting_def py_strip_def
  py_isspace_def lit_def ascii_lower_def has_prefix_def Let_def

lemma prod_settings_load: "load_settings ascii_lower Some prod_env = Inr prod_settings"
proof -
  have key: "required_setting prod_env ''DJANGO_SECRET_KEY'' = Inr (replicate 60 97)"
    by (simp add: required_setting_def getenv_def prod_env_def prod_key)
  have "parse_app_env (ascii_lower (py_strip (getenv prod_env ''APP_ENV'' (lit ''production'')))) = Inr PRODUCTION"
    "boolean_setting ascii_lower prod_env ''DJANGO_DEBUG'' False = Inr False"
    "boolean_setting ascii_lower prod_env ''DEMO_CATALOG_BOOTSTRAP_ENABLED'' False = Inr False"
    by (simp_all add: load_text_defs parse_app_env_def prod_env_def)
  moreover have "secret_and_hosts True prod_env = Inr (set_secret_key prod_settings, set_allowed_hosts prod_settings)"
    unfolding secret_and_hosts_def key
    by (simp add: prod_key csv_setting_def) (simp add: load_text_defs prod_env_def prod_settings_def)
  moreover have "csrf_origins True prod_env = Inr (set_csrf_origins prod_settings)"
    by (simp add: csrf_origins_def load_text_defs prod_env_def prod_settings_def)
  moreover have "proxy_settings ascii_lower Some prod_env = Inr (True, set_proxy_ips prod_settings)"
    by (simp add: proxy_settings_def load_text_defs prod_env_def prod_settings_def)
  moreover have "database_setting ascii_lower True prod_env = Inr (set_database prod_settings)"
    by (simp add: database_setting_def tls_modes_def load_text_defs prod_env_def prod_settings_def)
  moreover have "redis_setting True prod_env = Inr (set_redis_url prod_settings)"
    by (simp add: redis_setting_def load_text_defs prod_env_def prod_settings_def)
  ultimately show ?thesis by (simp add: load_settings_def) (simp add: prod_settings_def)
qed


text \<open>
  An HTTPS assertion of a proxy is believed only from a configured proxy: when a request passes the
  middleware under loaded settings and still carries the header Django takes as proof of HTTPS, then proxy
  headers are trusted, the peer address is one of the configured addresses (compared in canonical form), and
  none of the headers a client could forge is left.
\<close>

theorem https_only_from_configured_proxy:
  assumes "load_settings lower ip env = Inr s"
    and "trusted_proxy_headers ip (set_trust_proxy s) (set_proxy_ips s) meta = Some meta'"
    and "proxy_ssl_header s = Some (header, secure)" "map_of meta' header = Some value"
  shows "value = secure \<and>
    (\<exists>configured \<in> set (csv_setting env ''DJANGO_TRUSTED_PROXY_IPS'' []). \<exists>canonical. ip configured = Some canonical \<and>
       ip (case map_of meta ''REMOTE_ADDR'' of None \<Rightarrow> [] | Some a \<Rightarrow> a) = Some canonical) \<and>
    set (map fst meta') \<inter> set UNTRUSTED_FORWARDED_HEADERS = {}"
proof -
  let ?peer = "case map_of meta ''REMOTE_ADDR'' of None \<Rightarrow> [] | Some a \<Rightarrow> a"
  from assms(3) have trust: "set_trust_proxy s" and h: "header = ''HTTP_X_FORWARDED_PROTO''" "secure = lit ''https''"
    by (auto simp: proxy_ssl_header_def split: if_splits)
  have ips: "map Some (set_proxy_ips s) = map ip (csv_setting env ''DJANGO_TRUSTED_PROXY_IPS'' [])"
    using proxy_settings_ok load_settings_parts(5) [OF assms(1)] trust by auto
  have meta': "meta' = filter (\<lambda>(h, _). h \<notin> set UNTRUSTED_FORWARDED_HEADERS) meta"
    using assms(2) trust by (auto simp: trusted_proxy_headers_def Let_def split: option.splits if_splits)
  have "map_of meta' header = map_of meta header"
    unfolding meta' h(1) by (intro map_of_filter_other) (simp add: UNTRUSTED_FORWARDED_HEADERS_def)
  with assms(4) have "map_of meta ''HTTP_X_FORWARDED_PROTO'' = Some value" by (simp add: h)
  with assms(2) trust obtain remote where r: "ip ?peer = Some remote" "remote \<in> set (set_proxy_ips s)" "value = lit ''https''"
    by (auto simp: trusted_proxy_headers_def Let_def split: option.splits if_splits)
  from r(2) have "Some remote \<in> ip ` set (csv_setting env ''DJANGO_TRUSTED_PROXY_IPS'' [])"
    using arg_cong [OF ips, of set] by (metis imageI image_set)
  with r show ?thesis by (auto simp: meta' h)
qed

theorem https_only_from_configured_proxy_witness:
  "\<exists>configured \<in> set (csv_setting prod_env ''DJANGO_TRUSTED_PROXY_IPS'' []). \<exists>canonical.
     Some configured = Some canonical \<and> Some (lit ''10.0.0.1'') = Some canonical"
proof -
  let ?meta = "[(''REMOTE_ADDR'', lit ''10.0.0.1''), (''HTTP_X_FORWARDED_PROTO'', lit ''https''),
     (''HTTP_X_FORWARDED_FOR'', lit ''8.8.8.8'')]"
  have "trusted_proxy_headers Some (set_trust_proxy prod_settings) (set_proxy_ips prod_settings) ?meta =
      Some (take 2 ?meta)"
    by (simp add: trusted_proxy_headers_def prod_settings_def UNTRUSTED_FORWARDED_HEADERS_def)
  moreover have "proxy_ssl_header prod_settings = Some (''HTTP_X_FORWARDED_PROTO'', lit ''https'')"
    by (simp add: proxy_ssl_header_def prod_settings_def)
  ultimately show ?thesis
    using https_only_from_configured_proxy [OF prod_settings_load, of ?meta "take 2 ?meta" "''HTTP_X_FORWARDED_PROTO''"
        "lit ''https''" "lit ''https''"] by simp
qed

end
