(* ===== verification/Legacy_Cutover.thy ===== *)
theory Legacy_Cutover imports Gallery_Recovery begin

text \<open>
  The data migrations that moved the catalogue from one image column and a sale flag to galleries and
  trades: \<open>catalog/migrations/0003\<close> (reference rows, copying the legacy images), \<open>trades/migrations/0001\<close>
  (a \<open>LEGACY_SOLD\<close> trade for every sold product), \<open>catalog/migrations/0004\<close> (revalidation at the cutover),
  the key guard of \<open>0006\<close>, the NFC pass of \<open>0007\<close> and the clean-up of \<open>0008\<close>. The state is that of the
  tables at that time; the columns migration 0005 adds to images already have its defaults here. Schema
  operations, triggers' SQL and table locks are the framework's.
\<close>

section \<open>The tables at the time\<close>

record legacy_product =
  lp_owner_id :: nat
  lp_title :: pystr
  lp_description :: pystr
  lp_price :: int
  lp_image :: pystr           \<comment> \<open>the legacy file name, empty when there is none\<close>
  lp_sold :: bool             \<comment> \<open>\<open>sale_state = SOLD\<close>\<close>
  lp_updated_at :: instant
  lp_category :: "pystr option"
  lp_region :: "pystr option"
  lp_region_source :: region_source

record legacy_trade =
  lt_product_id :: nat
  lt_seller_id :: nat
  lt_buyer_id :: "nat option"
  lt_kind :: trade_kind
  lt_status :: trade_status
  lt_completed_at :: "instant option"

record cutover_db =
  cut_usernames :: "(nat \<times> pystr) list"
  cut_products :: "legacy_product table"
  cut_images :: "product_image table"
  cut_trades :: "legacy_trade table"
  cut_categories :: "(pystr \<times> pystr \<times> nat) list"
  cut_regions :: "(pystr \<times> pystr \<times> pystr) list"

section \<open>Catalog 0003: reference rows\<close>

definition CATEGORIES :: "(pystr \<times> pystr \<times> nat) list" where
  "CATEGORIES =
    [(lit ''DIGITAL_APPLIANCES'', ([46356, 51648, 53560, 183, 44032, 51204], 0)),
     (lit ''LIVING_KITCHEN'', ([49373, 54876, 183, 51452, 48169], 1)),
     (lit ''FURNITURE_INTERIOR'', ([44032, 44396, 183, 51064, 53580, 47532, 50612], 2)),
     (lit ''FASHION_GOODS'', ([51032, 47448, 183, 51105, 54868], 3)),
     (lit ''SPORTS_HOBBIES'', ([49828, 54252, 52768, 183, 52712, 48120], 4)),
     (lit ''BOOKS'', ([46020, 49436], 5)),
     (lit ''OTHER'', ([44592, 53440], 6))]"

definition REGIONS :: "(pystr \<times> pystr \<times> pystr) list" where
  "REGIONS =
    [(lit ''KR-11-680'', ([49436, 50872, 53945, 48324, 49884, 32, 44053, 45224, 44396], lit ''2026-07'')),
     (lit ''KR-41-110'', ([44221, 44592, 46020, 32, 49688, 50896, 49884], lit ''2026-07'')),
     (lit ''KR-41-830'', ([44221, 44592, 46020, 32, 50577, 54217, 44400], lit ''2026-07''))]"

text \<open>\<open>update_or_create(code=..., defaults=...)\<close>.\<close>

fun put_row :: "pystr \<Rightarrow> 'a \<Rightarrow> (pystr \<times> 'a) list \<Rightarrow> (pystr \<times> 'a) list" where
  "put_row c v [] = [(c, v)]"
| "put_row c v ((c', v') # rest) = (if c' = c then (c, v) # rest else (c', v') # put_row c v rest)"

definition unset_category :: "nat \<Rightarrow> legacy_product \<Rightarrow> bool" where
  "unset_category k p \<longleftrightarrow> lp_category p = None"

definition seed_references :: "cutover_db \<Rightarrow> cutover_db" where
  "seed_references d = d\<lparr>
     cut_categories := fold (\<lambda>(c, v). put_row c v) CATEGORIES (cut_categories d),
     cut_regions := fold (\<lambda>(c, v). put_row c v) REGIONS (cut_regions d),
     cut_products := tupdate unset_category
       (\<lambda>p. p\<lparr>lp_category := Some (lit ''OTHER''), lp_region_source := LEGACY_UNSET, lp_region := None\<rparr>)
       (cut_products d)\<rparr>"

section \<open>Catalog 0003: copying the images\<close>

text \<open>\<open>_read_bounded\<close>: one byte more than the limit is read to notice a larger file.\<close>

definition read_legacy :: "'s storage \<Rightarrow> pystr \<Rightarrow> 's \<Rightarrow> content result" where
  "read_legacy st name s =
     (case st_read st name s of
        Inl e \<Rightarrow> Inl e
      | Inr stored \<Rightarrow>
          let raw = take (MAX_IMAGE_BYTES + 1) stored in
          if length raw > MAX_IMAGE_BYTES then Inl RuntimeError else Inr raw)"

text \<open>\<open>f"product-images/migrated/{pk}/{checksum}.{extension}"\<close>.\<close>

definition migrated_name :: "nat \<Rightarrow> nat \<Rightarrow> pystr \<Rightarrow> pystr" where
  "migrated_name pk checksum extension =
     lit ''product-images/migrated/'' @ dec pk @ [47] @ hex_fixed 64 checksum @ [46] @ extension"

text \<open>Format, frames, dimensions and \<open>verify\<close>; every exception in the block is a \<open>RuntimeError\<close>.\<close>

definition inspect_legacy :: "codec \<Rightarrow> content \<Rightarrow> (image_format \<times> nat \<times> nat) result" where
  "inspect_legacy codec raw =
     (case codec_open codec raw of
        None \<Rightarrow> Inl RuntimeError
      | Some probe \<Rightarrow>
          (case probe_format probe of
             None \<Rightarrow> Inl RuntimeError
           | Some fmt \<Rightarrow>
               if probe_frames probe \<noteq> 1 then Inl RuntimeError
               else if \<not> (0 < probe_width probe \<and> probe_width probe \<le> 4096 \<and>
                          0 < probe_height probe \<and> probe_height probe \<le> 4096)
               then Inl RuntimeError
               else Inr (fmt, probe_width probe, probe_height probe)))"

text \<open>The destination holds the bytes when this returns.\<close>

definition place_copy ::
    "'s storage \<Rightarrow> (content \<Rightarrow> nat) \<Rightarrow> pystr \<Rightarrow> content \<Rightarrow> 's \<Rightarrow> unit result \<times> 's" where
  "place_copy st sha destination raw s =
     (let checked = (\<lambda>s1. case read_legacy st destination s1 of
            Inl e \<Rightarrow> (Inl e, s1)
          | Inr copied \<Rightarrow> if sha copied \<noteq> sha raw then (Inl RuntimeError, s1) else (Inr (), s1)) in
      case st_exists st destination s of
        Inl e \<Rightarrow> (Inl e, s)
      | Inr True \<Rightarrow>
          (case read_legacy st destination s of
             Inl e \<Rightarrow> (Inl e, s)
           | Inr existing \<Rightarrow> if sha existing \<noteq> sha raw then (Inl RuntimeError, s) else checked s)
      | Inr False \<Rightarrow>
          (case st_save st destination raw s of
             (Inl e, s1) \<Rightarrow> (Inl e, s1)
           | (Inr saved, s1) \<Rightarrow> if saved \<noteq> destination then (Inl RuntimeError, s1) else checked s1))"

definition first_image :: "nat \<Rightarrow> nat \<Rightarrow> product_image \<Rightarrow> bool" where
  "first_image pk k i \<longleftrightarrow> image_product_id i = pk \<and> image_position i = 0"

definition put_first_image :: "product_image \<Rightarrow> cutover_db \<Rightarrow> cutover_db result" where
  "put_first_image i d =
     (if \<not> product_image_check i then Inl IntegrityError
      else case tfirst (first_image (image_product_id i)) (cut_images d) of
        Some (k, _) \<Rightarrow> Inr (d\<lparr>cut_images := tmodify k
          (\<lambda>j. j\<lparr>image_name := image_name i, image_sha256 := image_sha256 i, image_byte_size := image_byte_size i,
                 image_width := image_width i, image_height := image_height i\<rparr>) (cut_images d)\<rparr>)
      | None \<Rightarrow> Inr (d\<lparr>cut_images := snd (tcreate i (cut_images d))\<rparr>))"

definition copy_image ::
    "codec \<Rightarrow> (content \<Rightarrow> nat) \<Rightarrow> 's storage \<Rightarrow> nat \<Rightarrow> pystr \<Rightarrow> cutover_db \<Rightarrow> 's \<Rightarrow> cutover_db result \<times> 's" where
  "copy_image codec sha st pk source d s =
     (case st_exists st source s of
        Inl e \<Rightarrow> (Inl e, s)
      | Inr False \<Rightarrow> (Inl RuntimeError, s)
      | Inr True \<Rightarrow>
     (case read_legacy st source s of
        Inl e \<Rightarrow> (Inl e, s)
      | Inr raw \<Rightarrow>
     (case inspect_legacy codec raw of
        Inl e \<Rightarrow> (Inl e, s)
      | Inr (fmt, width, height) \<Rightarrow>
          let destination = migrated_name pk (sha raw) (format_extension fmt) in
          if destination = source then (Inl RuntimeError, s)
          else case place_copy st sha destination raw s of
            (Inl e, s1) \<Rightarrow> (Inl e, s1)
          | (Inr _, s1) \<Rightarrow>
              (put_first_image \<lparr>image_product_id = pk, image_name = destination, image_position = 0,
                 image_sha256 = sha raw, image_byte_size = length raw, image_width = width, image_height = height,
                 image_owned_key = [], image_promotion_state = IMAGE_PROMOTED\<rparr> d, s1))))"

fun copy_images ::
    "codec \<Rightarrow> (content \<Rightarrow> nat) \<Rightarrow> 's storage \<Rightarrow> (nat \<times> legacy_product) list \<Rightarrow> cutover_db \<Rightarrow> 's \<Rightarrow>
     cutover_db result \<times> 's" where
  "copy_images codec sha st [] d s = (Inr d, s)"
| "copy_images codec sha st ((pk, p) # ps) d s =
     (case copy_image codec sha st pk (lp_image p) d s of
        (Inl e, s1) \<Rightarrow> (Inl e, s1)
      | (Inr d1, s1) \<Rightarrow> copy_images codec sha st ps d1 s1)"

definition with_image :: "nat \<Rightarrow> legacy_product \<Rightarrow> bool" where
  "with_image k p \<longleftrightarrow> lp_image p \<noteq> []"

text \<open>The database part is rolled back when it raises, the storage is not.\<close>

definition seed_and_copy_legacy ::
    "codec \<Rightarrow> (content \<Rightarrow> nat) \<Rightarrow> 's storage \<Rightarrow> cutover_db \<Rightarrow> 's \<Rightarrow> cutover_db result \<times> 's" where
  "seed_and_copy_legacy codec sha st d s =
     (let d1 = seed_references d in copy_images codec sha st (tselect with_image (cut_products d1)) d1 s)"

text \<open>The reverse step removes the image rows only while all of them are the migration's own.\<close>

definition migration_owned :: "nat \<Rightarrow> product_image \<Rightarrow> bool" where
  "migration_owned k i \<longleftrightarrow>
     image_name i \<in> set (map (\<lambda>f. migrated_name (image_product_id i) (image_sha256 i) (format_extension f))
       [JPEG, PNG, WEBP])"

definition reverse_seed_and_copy :: "cutover_db \<Rightarrow> cutover_db result" where
  "reverse_seed_and_copy d =
     (if \<not> tall migration_owned (cut_images d) then Inl RuntimeError
      else let migrated = map fst (rows (cut_images d)) in
        Inr (d\<lparr>cut_images := tdelete (\<lambda>k _. k \<in> set migrated) (cut_images d)\<rparr>))"

section \<open>Trades 0001: the legacy sales\<close>

definition legacy_trade_matches :: "legacy_trade \<Rightarrow> legacy_product \<Rightarrow> bool" where
  "legacy_trade_matches t p \<longleftrightarrow>
     lt_seller_id t = lp_owner_id p \<and> lt_buyer_id t = None \<and> lt_kind t = LEGACY_SOLD \<and>
     lt_status t = COMPLETED \<and> lt_completed_at t = Some (lp_updated_at p)"

definition sold :: "nat \<Rightarrow> legacy_product \<Rightarrow> bool" where "sold k p \<longleftrightarrow> lp_sold p"
definition legacy_kind :: "nat \<Rightarrow> legacy_trade \<Rightarrow> bool" where "legacy_kind k t \<longleftrightarrow> lt_kind t = LEGACY_SOLD"

definition sold_ids :: "cutover_db \<Rightarrow> nat set" where
  "sold_ids d = set (map fst (tselect sold (cut_products d)))"

text \<open>The constraints of the table: \<open>trades_buyer_kind_typed\<close>, \<open>trades_completed_at_typed\<close>, one uncancelled.\<close>

definition legacy_trade_check :: "legacy_trade \<Rightarrow> bool" where
  "legacy_trade_check t \<longleftrightarrow>
     (lt_kind t = LEGACY_SOLD \<and> lt_status t = COMPLETED \<and> lt_buyer_id t = None \<and> lt_completed_at t \<noteq> None \<or>
      lt_kind t = STANDARD \<and> lt_buyer_id t \<noteq> None) \<and>
     (lt_status t = COMPLETED \<and> lt_completed_at t \<noteq> None \<or> lt_status t \<noteq> COMPLETED \<and> lt_completed_at t = None)"

definition open_key :: "legacy_trade \<Rightarrow> nat option" where
  "open_key t = (if lt_status t = CANCELLED then None else Some (lt_product_id t))"

definition create_legacy_trade :: "legacy_trade \<Rightarrow> cutover_db \<Rightarrow> cutover_db result" where
  "create_legacy_trade t d =
     (if \<not> legacy_trade_check t \<or> open_key t \<noteq> None \<and> texists (\<lambda>_ t'. open_key t' = open_key t) (cut_trades d)
      then Inl IntegrityError
      else Inr (d\<lparr>cut_trades := snd (tcreate t (cut_trades d))\<rparr>))"

text \<open>
  The dictionaries of trades are read before the loop (\<open>existing\<close>); of two trades of one product the
  later row is the value.
\<close>

definition trades_by_product :: "cutover_db \<Rightarrow> nat \<Rightarrow> legacy_trade option" where
  "trades_by_product d = map_of (rev (map (\<lambda>(_, t). (lt_product_id t, t)) (rows (cut_trades d))))"

fun backfill_each ::
    "(nat \<Rightarrow> legacy_trade option) \<Rightarrow> (nat \<times> legacy_product) list \<Rightarrow> cutover_db \<Rightarrow> cutover_db result" where
  "backfill_each existing [] d = Inr d"
| "backfill_each existing ((pk, p) # ps) d =
     (case existing pk of
        Some t \<Rightarrow> if \<not> legacy_trade_matches t p then Inl RuntimeError else backfill_each existing ps d
      | None \<Rightarrow>
          (case create_legacy_trade \<lparr>lt_product_id = pk, lt_seller_id = lp_owner_id p, lt_buyer_id = None,
                  lt_kind = LEGACY_SOLD, lt_status = COMPLETED, lt_completed_at = Some (lp_updated_at p)\<rparr> d of
             Inl e \<Rightarrow> Inl e
           | Inr d1 \<Rightarrow> backfill_each existing ps d1))"

definition trade_products :: "(nat \<Rightarrow> legacy_trade \<Rightarrow> bool) \<Rightarrow> cutover_db \<Rightarrow> nat set" where
  "trade_products P d = set (map (\<lambda>(_, t). lt_product_id t) (tselect P (cut_trades d)))"

definition backfill_legacy_sold :: "cutover_db \<Rightarrow> cutover_db result" where
  "backfill_legacy_sold d =
     (if \<not> trade_products legacy_kind d \<subseteq> sold_ids d then Inl RuntimeError
      else case backfill_each (trades_by_product d) (tselect sold (cut_products d)) d of
        Inl e \<Rightarrow> Inl e
      | Inr d1 \<Rightarrow>
          if trade_products (\<lambda>k t. legacy_kind k t \<and> lt_status t = COMPLETED) d1 \<noteq> sold_ids d
          then Inl RuntimeError else Inr d1)"

definition sold_product :: "cutover_db \<Rightarrow> nat \<Rightarrow> legacy_product option" where
  "sold_product d = map_of (tselect sold (cut_products d))"

definition matches_product :: "cutover_db \<Rightarrow> legacy_trade \<Rightarrow> bool" where
  "matches_product d t \<longleftrightarrow>
     (case sold_product d (lt_product_id t) of None \<Rightarrow> False | Some p \<Rightarrow> legacy_trade_matches t p)"

definition reverse_legacy_sold :: "cutover_db \<Rightarrow> cutover_db result" where
  "reverse_legacy_sold d =
     (if texists (\<lambda>k t. \<not> legacy_kind k t) (cut_trades d) then Inl RuntimeError
      else if trade_products legacy_kind d \<noteq> sold_ids d then Inl RuntimeError
      else if list_ex (\<lambda>(_, t). \<not> matches_product d t) (tselect legacy_kind (cut_trades d)) then Inl RuntimeError
      else Inr (d\<lparr>cut_trades := tdelete legacy_kind (cut_trades d)\<rparr>))"

section \<open>Catalog 0004: revalidation at the cutover\<close>

definition revalidate_legacy_sold :: "cutover_db \<Rightarrow> unit result" where
  "revalidate_legacy_sold d =
     (if tcount legacy_kind (cut_trades d) \<noteq> card (sold_ids d) \<or> trade_products legacy_kind d \<noteq> sold_ids d
      then Inl RuntimeError
      else if list_ex (\<lambda>(_, t). \<not> matches_product d t) (tselect legacy_kind (cut_trades d))
      then Inl RuntimeError else Inr ())"

definition revalidate_image ::
    "codec \<Rightarrow> (content \<Rightarrow> nat) \<Rightarrow> 's storage \<Rightarrow> nat \<Rightarrow> pystr \<Rightarrow> cutover_db \<Rightarrow> 's \<Rightarrow> unit result" where
  "revalidate_image codec sha st pk source d s =
     (case st_exists st source s of
        Inl e \<Rightarrow> Inl e
      | Inr False \<Rightarrow> Inl RuntimeError
      | Inr True \<Rightarrow>
     (case read_legacy st source s of
        Inl _ \<Rightarrow> Inl RuntimeError
      | Inr raw \<Rightarrow>
     (case codec_open codec raw of
        None \<Rightarrow> Inl RuntimeError
      | Some probe \<Rightarrow>
     (case probe_format probe of
        None \<Rightarrow> Inl RuntimeError
      | Some fmt \<Rightarrow>
     (case tfirst (first_image pk) (cut_images d) of
        None \<Rightarrow> Inl RuntimeError
      | Some (_, copied) \<Rightarrow>
     (case read_legacy st (image_name copied) s of
        Inl _ \<Rightarrow> Inl RuntimeError
      | Inr copied_raw \<Rightarrow>
          if image_name copied \<noteq> migrated_name pk (sha raw) (format_extension fmt) \<or>
             image_sha256 copied \<noteq> sha raw \<or> image_byte_size copied \<noteq> length raw \<or>
             copied_raw \<noteq> raw \<or> sha copied_raw \<noteq> sha raw
          then Inl RuntimeError else Inr ()))))))"

fun revalidate_images ::
    "codec \<Rightarrow> (content \<Rightarrow> nat) \<Rightarrow> 's storage \<Rightarrow> (nat \<times> legacy_product) list \<Rightarrow> cutover_db \<Rightarrow> 's \<Rightarrow> unit result" where
  "revalidate_images codec sha st [] d s = Inr ()"
| "revalidate_images codec sha st ((pk, p) # ps) d s =
     (case revalidate_image codec sha st pk (lp_image p) d s of
        Inl e \<Rightarrow> Inl e
      | Inr _ \<Rightarrow> revalidate_images codec sha st ps d s)"

definition revalidate_legacy_images ::
    "codec \<Rightarrow> (content \<Rightarrow> nat) \<Rightarrow> 's storage \<Rightarrow> cutover_db \<Rightarrow> 's \<Rightarrow> unit result" where
  "revalidate_legacy_images codec sha st d s =
     revalidate_images codec sha st (tselect with_image (cut_products d)) d s"

text \<open>\<open>freeze_legacy_fields\<close> after the triggers are in place; \<open>vendor_known\<close> is PostgreSQL or SQLite.\<close>

definition freeze_legacy_fields ::
    "bool \<Rightarrow> codec \<Rightarrow> (content \<Rightarrow> nat) \<Rightarrow> 's storage \<Rightarrow> cutover_db \<Rightarrow> 's \<Rightarrow> unit result" where
  "freeze_legacy_fields vendor_known codec sha st d s =
     (if \<not> vendor_known then Inl RuntimeError
      else case revalidate_legacy_sold d of
        Inl e \<Rightarrow> Inl e
      | Inr _ \<Rightarrow> revalidate_legacy_images codec sha st d s)"

text \<open>The row triggers of 0004 and 0006: which writes the database lets through.\<close>

definition product_write_allowed :: "legacy_product \<Rightarrow> legacy_product option \<Rightarrow> bool" where
  "product_write_allowed old new =
     (case new of None \<Rightarrow> False | Some p \<Rightarrow> lp_sold p = lp_sold old \<and> lp_image p = lp_image old)"

definition image_write_allowed :: "cutover_db \<Rightarrow> product_image \<Rightarrow> bool" where
  "image_write_allowed d i \<longleftrightarrow>
     image_name i = [] \<or> \<not> texists (\<lambda>k p. k = image_product_id i \<and> lp_image p = image_name i) (cut_products d)"

section \<open>Catalog 0007: NFC\<close>

definition nfc_text :: "(pystr \<Rightarrow> pystr) \<Rightarrow> legacy_product \<Rightarrow> legacy_product" where
  "nfc_text nfc p = p\<lparr>lp_title := nfc (lp_title p), lp_description := nfc (lp_description p)\<rparr>"

text \<open>\<open>bulk_update\<close> of the collected rows: their two columns are written by key.\<close>

definition bulk_update :: "(nat \<times> legacy_product) list \<Rightarrow> legacy_product table \<Rightarrow> legacy_product table" where
  "bulk_update pending t = fold (\<lambda>(k, q). tmodify k
     (\<lambda>p. p\<lparr>lp_title := lp_title q, lp_description := lp_description q\<rparr>)) pending t"

definition BULK :: nat where "BULK = 500"

fun normalize_each ::
    "(pystr \<Rightarrow> pystr) \<Rightarrow> (nat \<times> legacy_product) list \<Rightarrow> (nat \<times> legacy_product) list \<Rightarrow> legacy_product table \<Rightarrow>
     legacy_product table" where
  "normalize_each nfc [] pending t = (if pending \<noteq> [] then bulk_update pending t else t)"
| "normalize_each nfc ((k, p) # ps) pending t =
     (let q = nfc_text nfc p;
          pending1 = (if q \<noteq> p then pending @ [(k, q)] else pending) in
      if length pending1 = BULK then normalize_each nfc ps [] (bulk_update pending1 t)
      else normalize_each nfc ps pending1 t)"

definition normalize_products :: "(pystr \<Rightarrow> pystr) \<Rightarrow> cutover_db \<Rightarrow> cutover_db" where
  "normalize_products nfc d = d\<lparr>cut_products := normalize_each nfc (rows (cut_products d)) [] (cut_products d)\<rparr>"

definition nfc_constraint :: "(pystr \<Rightarrow> pystr) \<Rightarrow> nat \<Rightarrow> legacy_product \<Rightarrow> bool" where
  "nfc_constraint nfc k p \<longleftrightarrow> lp_title p = nfc (lp_title p) \<and> lp_description p = nfc (lp_description p)"

section \<open>Catalog 0008: the backup marker\<close>

definition is_marker :: "cutover_db \<Rightarrow> nat \<Rightarrow> legacy_product \<Rightarrow> bool" where
  "is_marker d k p \<longleftrightarrow>
     lp_title p = lit ''G4 backup marker'' \<and> map_of (cut_usernames d) (lp_owner_id p) = Some (lit ''g4_backup_user'') \<and>
     lp_description p = lit ''restore evidence'' \<and> lp_price p = 1000"

text \<open>
  The delete trigger is off only inside the step. A trade of the product (\<open>PROTECT\<close>) refuses the deletion,
  its images (\<open>CASCADE\<close>) go with it; the other tables that refer to products are not in this state.
\<close>

definition remove_g4_backup_marker :: "bool \<Rightarrow> cutover_db \<Rightarrow> cutover_db result" where
  "remove_g4_backup_marker vendor_known d =
     (let n = tcount (is_marker d) (cut_products d) in
      if n = 0 then Inr d
      else if n > 1 then Inl RuntimeError
      else if \<not> vendor_known then Inl RuntimeError
      else
        let ids = map fst (tselect (is_marker d) (cut_products d)) in
        if texists (\<lambda>_ t. lt_product_id t \<in> set ids) (cut_trades d) then Inl IntegrityError
        else Inr (d\<lparr>cut_products := tdelete (is_marker d) (cut_products d),
                    cut_images := tdelete (\<lambda>_ i. image_product_id i \<in> set ids) (cut_images d)\<rparr>))"

end
