(* ===== verification/Cutover_Properties.thy ===== *)
theory Cutover_Properties imports Legacy_Cutover begin

text \<open>
  What the data migrations promise: the sales and image copies they write pass the revalidation of the
  cutover, reversing the sales gives the table back, and the batched NFC pass is one pass over all rows.
\<close>

section \<open>The NFC pass\<close>

abbreviation set_texts :: "legacy_product \<Rightarrow> legacy_product \<Rightarrow> legacy_product" where
  "set_texts q p \<equiv> p\<lparr>lp_title := lp_title q, lp_description := lp_description q\<rparr>"

text \<open>A bulk update of rows with distinct keys rewrites exactly those rows.\<close>

lemma bulk_update_rows:
  "distinct (map fst qs) \<Longrightarrow> bulk_update qs t = t\<lparr>rows := map (\<lambda>(i, r).
     (i, case map_of qs i of None \<Rightarrow> r | Some q \<Rightarrow> set_texts q r)) (rows t)\<rparr>"
proof (induction qs arbitrary: t)
  case Nil
  then show ?case by (simp add: bulk_update_def split_def)
next
  case (Cons kq qs)
  obtain k q where kq: "kq = (k, q)" by force
  have none: "map_of qs k = None" using Cons.prems by (simp add: kq map_of_eq_None_iff)
  have "bulk_update (kq # qs) t = bulk_update qs (tmodify k (set_texts q) t)" by (simp add: bulk_update_def kq)
  also have "\<dots> = t\<lparr>rows := map (\<lambda>(i, r).
     (i, case map_of (kq # qs) i of None \<Rightarrow> r | Some q \<Rightarrow> set_texts q r)) (rows t)\<rparr>"
    using Cons.prems none
    by (subst Cons.IH) (auto simp: kq tmodify_def tupdate_def split: option.splits
        intro!: arg_cong [where f = "\<lambda>xs. t\<lparr>rows := xs\<rparr>"])
  finally show ?case .
qed

fun changed :: "(pystr \<Rightarrow> pystr) \<Rightarrow> (nat \<times> legacy_product) list \<Rightarrow> (nat \<times> legacy_product) list" where
  "changed nfc [] = []"
| "changed nfc ((k, p) # ps) = (if nfc_text nfc p \<noteq> p then [(k, nfc_text nfc p)] else []) @ changed nfc ps"

lemma bulk_update_append: "bulk_update (xs @ ys) t = bulk_update ys (bulk_update xs t)"
  by (simp add: bulk_update_def)

lemma bulk_update_Nil [simp]: "bulk_update [] t = t"
  by (simp add: bulk_update_def)

lemma normalize_each_bulk: "normalize_each nfc ps pending t = bulk_update (pending @ changed nfc ps) t"
proof (induction nfc ps pending t rule: normalize_each.induct)
  case (2 nfc k p ps pending t)
  let ?q = "nfc_text nfc p"
  let ?pending = "if ?q \<noteq> p then pending @ [(k, ?q)] else pending"
  have "normalize_each nfc ((k, p) # ps) pending t = bulk_update (?pending @ changed nfc ps) t"
    using "2.IH" [OF refl refl] by (simp add: Let_def bulk_update_append)
  then show ?case by simp
qed simp

lemma changed_keys: "set (map fst (changed nfc ps)) \<subseteq> set (map fst ps)"
  by (induction nfc ps rule: changed.induct) auto

lemma distinct_changed: "distinct (map fst ps) \<Longrightarrow> distinct (map fst (changed nfc ps))"
  by (induction nfc ps rule: changed.induct) (use changed_keys in auto)

lemma map_of_changed: "distinct (map fst ps) \<Longrightarrow> (k, p) \<in> set ps \<Longrightarrow>
    map_of (changed nfc ps) k = (if nfc_text nfc p \<noteq> p then Some (nfc_text nfc p) else None)"
proof (induction nfc ps rule: changed.induct)
  case (2 nfc k' p' ps)
  show ?case
  proof (cases "k = k'")
    case True
    with "2.prems" have "p = p'" "k \<notin> set (map fst ps)" by force+
    moreover from this(2) have "map_of (changed nfc ps) k = None"
      using changed_keys [of nfc ps] by (auto simp: map_of_eq_None_iff)
    ultimately show ?thesis using True by (simp add: map_add_def)
  next
    case False
    with "2" show ?thesis by (auto simp: map_add_def split: option.splits)
  qed
qed simp

text \<open>
  The NFC pass, which collects changed rows and writes them in batches of 500, is one pass over all
  rows: every product has its title and description normalised, nothing else changes, and with an
  idempotent normalisation the constraint the migration then installs holds for every row.
\<close>

theorem normalize_pass_exact:
  assumes "wf_table (cut_products d)"
  shows "normalize_products nfc d = d\<lparr>cut_products := (cut_products d)\<lparr>rows :=
      map (\<lambda>(k, p). (k, nfc_text nfc p)) (rows (cut_products d))\<rparr>\<rparr> \<and>
    ((\<forall>s. nfc (nfc s) = nfc s) \<longrightarrow> tall (nfc_constraint nfc) (cut_products (normalize_products nfc d)))"
proof -
  let ?t = "cut_products d"
  have keys: "distinct (map fst (rows ?t))" using assms by (simp add: wf_table_def)
  have row: "(case map_of (changed nfc (rows ?t)) k of None \<Rightarrow> p | Some q \<Rightarrow> set_texts q p) = nfc_text nfc p"
    if "(k, p) \<in> set (rows ?t)" for k p
    using map_of_changed [OF keys that, of nfc] by (simp add: nfc_text_def)
  have "normalize_each nfc (rows ?t) [] ?t = bulk_update (changed nfc (rows ?t)) ?t"
    by (simp add: normalize_each_bulk)
  also have "\<dots> = ?t\<lparr>rows := map (\<lambda>(k, p). (k, nfc_text nfc p)) (rows ?t)\<rparr>"
    unfolding bulk_update_rows [OF distinct_changed [OF keys]] using row
    by (intro arg_cong [where f = "\<lambda>xs. ?t\<lparr>rows := xs\<rparr>"] map_cong) auto
  finally have eq: "normalize_products nfc d = d\<lparr>cut_products := ?t\<lparr>rows := map (\<lambda>(k, p). (k, nfc_text nfc p)) (rows ?t)\<rparr>\<rparr>"
    by (simp add: normalize_products_def)
  then show ?thesis by (auto simp: tall_def list_all_iff nfc_constraint_def nfc_text_def)
qed

definition old_product :: legacy_product where
  "old_product = \<lparr>lp_owner_id = 5, lp_title = [1], lp_description = [2], lp_price = 10, lp_image = [7], lp_sold = True,
     lp_updated_at = 40, lp_category = None, lp_region = None, lp_region_source = LEGACY_UNSET\<rparr>"

definition old_db :: cutover_db where
  "old_db = \<lparr>cut_usernames = [(5, lit ''anna'')], cut_products = \<lparr>rows = [(1, old_product),
     (2, old_product\<lparr>lp_sold := False, lp_image := []\<rparr>)], next_pk = 3\<rparr>, cut_images = empty_table,
     cut_trades = empty_table, cut_categories = [], cut_regions = []\<rparr>"

lemma old_db_wf: "wf_table (cut_products old_db)"
  by (simp add: old_db_def wf_table_def)

theorem normalize_pass_exact_witness:
  "map (lp_title \<circ> snd) (rows (cut_products (normalize_products (\<lambda>s. if s = [1] then [9] else s) old_db))) = [[9], [9]]"
  using normalize_pass_exact [OF old_db_wf, of "\<lambda>s. if s = [1] then [9] else s"]
  by (simp add: old_db_def old_product_def nfc_text_def)

section \<open>The legacy sales\<close>

text \<open>The constraints the migration creates the trade table with.\<close>

definition trades_typed :: "cutover_db \<Rightarrow> bool" where
  "trades_typed d \<longleftrightarrow> wf_table (cut_products d) \<and> wf_table (cut_trades d) \<and>
     tall (\<lambda>_. legacy_trade_check) (cut_trades d) \<and> unique_on open_key (cut_trades d)"

lemma create_legacy_trade_cases:
  assumes "create_legacy_trade t d = Inr d'" "trades_typed d"
  shows "d' = d\<lparr>cut_trades := snd (tcreate t (cut_trades d))\<rparr> \<and> trades_typed d'"
  using assms by (auto simp: create_legacy_trade_def trades_typed_def tbl_simps wf_tcreate tall_tcreate split: if_splits)

definition sale_of :: "nat \<Rightarrow> legacy_product \<Rightarrow> legacy_trade" where
  "sale_of pk p = \<lparr>lt_product_id = pk, lt_seller_id = lp_owner_id p, lt_buyer_id = None,
     lt_kind = LEGACY_SOLD, lt_status = COMPLETED, lt_completed_at = Some (lp_updated_at p)\<rparr>"

lemma matches_iff: "legacy_trade_matches t p \<and> lt_product_id t = pk \<longleftrightarrow> t = sale_of pk p"
  by (cases t) (auto simp: legacy_trade_matches_def sale_of_def)

text \<open>The loop appends rows only, keeps the constraints, and leaves a matching trade for every product.\<close>

lemma backfill_each_ok:
  assumes "backfill_each existing ps d = Inr d'" "trades_typed d"
    and "\<forall>pk t. existing pk = Some t \<longrightarrow> lt_product_id t = pk \<and> t \<in> snd ` set (rows (cut_trades d))"
  shows "trades_typed d' \<and> cut_products d' = cut_products d \<and>
    (\<exists>new. rows (cut_trades d') = rows (cut_trades d) @ new \<and> snd ` set new \<subseteq> (\<lambda>(pk, p). sale_of pk p) ` set ps) \<and>
    (\<lambda>(pk, p). sale_of pk p) ` set ps \<subseteq> snd ` set (rows (cut_trades d')) \<and> (\<exists>t. d' = d\<lparr>cut_trades := t\<rparr>)"
  using assms
proof (induction ps arbitrary: d)
  case Nil
  then show ?case by simp (metis cutover_db.surjective cutover_db.update_convs(4))
next
  case (Cons x ps)
  obtain pk p where x: "x = (pk, p)" by force
  show ?case
  proof (cases "existing pk")
    case (Some t)
    with Cons.prems x have m: "legacy_trade_matches t p" "backfill_each existing ps d = Inr d'"
      by (auto split: if_splits)
    with Cons.prems(3) Some have t: "t = sale_of pk p" "t \<in> snd ` set (rows (cut_trades d))"
      using matches_iff [of t p pk] by blast+
    from Cons.IH [OF m(2) Cons.prems(2,3)] obtain new where ih: "trades_typed d'" "cut_products d' = cut_products d"
      "rows (cut_trades d') = rows (cut_trades d) @ new" "snd ` set new \<subseteq> (\<lambda>(pk, p). sale_of pk p) ` set ps"
      "(\<lambda>(pk, p). sale_of pk p) ` set ps \<subseteq> snd ` set (rows (cut_trades d'))" "\<exists>t. d' = d\<lparr>cut_trades := t\<rparr>" by blast
    have "sale_of pk p \<in> snd ` set (rows (cut_trades d'))" using t ih(3) by auto
    with ih show ?thesis by (auto simp: x)
  next
    case None
    with Cons.prems(1) x obtain d1 where d1: "create_legacy_trade (sale_of pk p) d = Inr d1"
      "backfill_each existing ps d1 = Inr d'"
      by (auto simp: sale_of_def split: sum.splits)
    from create_legacy_trade_cases [OF d1(1) Cons.prems(2)] have c:
      "d1 = d\<lparr>cut_trades := snd (tcreate (sale_of pk p) (cut_trades d))\<rparr>" "trades_typed d1" by blast+
    have "\<forall>pk t. existing pk = Some t \<longrightarrow> lt_product_id t = pk \<and> t \<in> snd ` set (rows (cut_trades d1))"
      using Cons.prems(3) by (auto simp: c(1))
    from Cons.IH [OF d1(2) c(2) this] obtain new where ih: "trades_typed d'" "cut_products d' = cut_products d1"
      "rows (cut_trades d') = rows (cut_trades d1) @ new" "snd ` set new \<subseteq> (\<lambda>(pk, p). sale_of pk p) ` set ps"
      "(\<lambda>(pk, p). sale_of pk p) ` set ps \<subseteq> snd ` set (rows (cut_trades d'))" "\<exists>t. d' = d1\<lparr>cut_trades := t\<rparr>" by blast
    have "rows (cut_trades d') = rows (cut_trades d) @ (next_pk (cut_trades d), sale_of pk p) # new"
      using ih(3) by (simp add: c(1))
    with ih c show ?thesis by (auto simp: x)
  qed
qed

lemma trades_by_product_in:
  "trades_by_product d pk = Some t \<Longrightarrow> lt_product_id t = pk \<and> t \<in> snd ` set (rows (cut_trades d))"
  unfolding trades_by_product_def by (drule map_of_SomeD) (force simp: image_iff)

lemma distinct_keys: "distinct (map fst xs) \<Longrightarrow> distinct xs"
  by (simp add: distinct_map)

lemma sold_product_iff:
  "wf_table (cut_products d) \<Longrightarrow> sold_product d pk = Some p \<longleftrightarrow> (pk, p) \<in> set (tselect sold (cut_products d))"
  unfolding sold_product_def by (rule map_of_eq_Some_iff) (simp add: wf_table_def tselect_def distinct_map_filter)

text \<open>In a typed table two legacy trades of one product are one row.\<close>

lemma legacy_open: "legacy_trade_check t \<Longrightarrow> lt_kind t = LEGACY_SOLD \<Longrightarrow>
    lt_status t = COMPLETED \<and> open_key t = Some (lt_product_id t)"
  by (auto simp: legacy_trade_check_def open_key_def)

lemma legacy_row:
  assumes "trades_typed d" "(k, t) \<in> set (tselect legacy_kind (cut_trades d))"
  shows "tget (cut_trades d) k = Some t" "lt_status t = COMPLETED" "open_key t = Some (lt_product_id t)" "lt_kind t = LEGACY_SOLD"
proof -
  have "(k, t) \<in> set (rows (cut_trades d))" and kind: "lt_kind t = LEGACY_SOLD"
    using assms(2) by (auto simp: tselect_def legacy_kind_def)
  with assms(1) show "tget (cut_trades d) k = Some t" by (simp add: trades_typed_def tget_iff)
  then have "legacy_trade_check t" using assms(1) by (auto simp: trades_typed_def dest: tallD)
  from legacy_open [OF this kind] show "lt_status t = COMPLETED" "open_key t = Some (lt_product_id t)" by simp_all
  show "lt_kind t = LEGACY_SOLD" by (rule kind)
qed

lemma legacy_rows_apart:
  assumes "trades_typed d" "(k, t) \<in> set (tselect legacy_kind (cut_trades d))"
    "(k', t') \<in> set (tselect legacy_kind (cut_trades d))" "lt_product_id t = lt_product_id t'"
  shows "(k, t) = (k', t')"
proof -
  note r = legacy_row [OF assms(1,2)] and r' = legacy_row [OF assms(1,3)]
  have "unique_on open_key (cut_trades d)" using assms(1) by (simp add: trades_typed_def)
  from unique_onD [OF this r(1) r'(1) r(3)] r'(3) assms(4) have "k = k'" by simp
  with r(1) r'(1) show ?thesis by simp
qed

lemma legacy_sales_pass:
  assumes "trades_typed d" "backfill_legacy_sold d = Inr d'"
  shows "revalidate_legacy_sold d' = Inr () \<and> cut_products d' = cut_products d \<and>
    snd ` set (tselect legacy_kind (cut_trades d')) = (\<lambda>(pk, p). sale_of pk p) ` set (tselect sold (cut_products d)) \<and>
    tcount legacy_kind (cut_trades d') = tcount sold (cut_products d) \<and> trades_typed d'"
proof -
  let ?sold = "tselect sold (cut_products d)"
  from assms(2) have each: "backfill_each (trades_by_product d) ?sold d = Inr d'"
    and actual: "trade_products (\<lambda>k t. legacy_kind k t \<and> lt_status t = COMPLETED) d' = sold_ids d"
    by (auto simp: backfill_legacy_sold_def split: if_splits sum.splits)
  from backfill_each_ok [OF each assms(1)] trades_by_product_in [of d] have ok: "trades_typed d'"
    "cut_products d' = cut_products d" "(\<lambda>(pk, p). sale_of pk p) ` set ?sold \<subseteq> snd ` set (rows (cut_trades d'))"
    by blast+
  let ?legacy = "tselect legacy_kind (cut_trades d')"
  have ids: "sold_ids d' = sold_ids d" by (simp add: sold_ids_def ok(2))
  have "tselect (\<lambda>k t. legacy_kind k t \<and> lt_status t = COMPLETED) (cut_trades d') = ?legacy"
    using legacy_row(2) [OF ok(1)] by (auto simp: tselect_def intro!: filter_cong)
  with actual have prods: "trade_products legacy_kind d' = sold_ids d" by (simp add: trade_products_def)
  have mem: "\<exists>p. (lt_product_id t, p) \<in> set ?sold \<and> t = sale_of (lt_product_id t) p" if t: "(k, t) \<in> set ?legacy" for k t
  proof -
    from t prods have "lt_product_id t \<in> sold_ids d" by (force simp: trade_products_def)
    then obtain p where p: "(lt_product_id t, p) \<in> set ?sold" by (auto simp: sold_ids_def)
    with ok(3) obtain k' where "(k', sale_of (lt_product_id t) p) \<in> set (rows (cut_trades d'))" by force
    then have "(k', sale_of (lt_product_id t) p) \<in> set ?legacy" by (simp add: tselect_def legacy_kind_def sale_of_def)
    from legacy_rows_apart [OF ok(1) t this] p show ?thesis by (auto simp: sale_of_def)
  qed
  have img: "snd ` set ?legacy = (\<lambda>(pk, p). sale_of pk p) ` set ?sold"
  proof
    show "snd ` set ?legacy \<subseteq> (\<lambda>(pk, p). sale_of pk p) ` set ?sold" using mem by force
    show "(\<lambda>(pk, p). sale_of pk p) ` set ?sold \<subseteq> snd ` set ?legacy"
    proof
      fix t assume "t \<in> (\<lambda>(pk, p). sale_of pk p) ` set ?sold"
      moreover from this have "lt_kind t = LEGACY_SOLD" by (auto simp: sale_of_def)
      ultimately show "t \<in> snd ` set ?legacy" using ok(3) by (force simp: tselect_def legacy_kind_def)
    qed
  qed
  have "inj_on (\<lambda>(k, t). lt_product_id t) (set ?legacy)"
    using legacy_rows_apart [OF ok(1)] by (auto simp: inj_on_def)
  moreover have "distinct ?legacy" "distinct ?sold" "distinct (map fst ?sold)"
    using ok(1) assms(1) by (auto simp: trades_typed_def wf_table_def tselect_def distinct_map_filter
        intro!: distinct_filter intro: distinct_keys)
  ultimately have "length ?legacy = card (sold_ids d)"
    using prods card_image [of "\<lambda>(k, t). lt_product_id t" "set ?legacy"] distinct_card [of ?legacy]
    by (simp add: trade_products_def)
  moreover have "card (sold_ids d) = length ?sold"
    using \<open>distinct (map fst ?sold)\<close> by (simp add: sold_ids_def distinct_card flip: set_map)
  moreover have "matches_product d' t" if "(k, t) \<in> set ?legacy" for k t
  proof -
    from mem [OF that] obtain p where p: "(lt_product_id t, p) \<in> set ?sold" "t = sale_of (lt_product_id t) p" by blast
    have "sold_product d' (lt_product_id t) = Some p"
      using p(1) assms(1) sold_product_iff [of d'] by (simp add: ok(2) trades_typed_def)
    with p(2) show ?thesis using matches_iff [of t p "lt_product_id t"] by (simp add: matches_product_def)
  qed
  ultimately have "revalidate_legacy_sold d' = Inr ()" "tcount legacy_kind (cut_trades d') = tcount sold (cut_products d)"
    using prods ids by (auto simp: revalidate_legacy_sold_def tcount_def list_ex_iff)
  with ok img show ?thesis by blast
qed

text \<open>
  The sales the backfill writes pass the cutover: after it every sold product has exactly one legacy
  trade and that trade names its owner, no buyer and the time of its last change, so the revalidation of
  migration 0004 accepts the tables as long as nobody writes in between; no product changes.
\<close>

theorem legacy_sales_pass_cutover:
  assumes "trades_typed d" "backfill_legacy_sold d = Inr d'"
  shows "revalidate_legacy_sold d' = Inr () \<and> cut_products d' = cut_products d \<and>
    snd ` set (tselect legacy_kind (cut_trades d')) = (\<lambda>(pk, p). sale_of pk p) ` set (tselect sold (cut_products d)) \<and>
    tcount legacy_kind (cut_trades d') = tcount sold (cut_products d) \<and> trades_typed d'"
  by (rule legacy_sales_pass [OF assms])

lemma backfill_legacy_images:
  assumes "backfill_legacy_sold d = Inr d'" "trades_typed d"
  shows "cut_products d' = cut_products d \<and> cut_images d' = cut_images d"
proof -
  from assms(1) have "backfill_each (trades_by_product d) (tselect sold (cut_products d)) d = Inr d'"
    by (auto simp: backfill_legacy_sold_def split: if_splits sum.splits)
  from backfill_each_ok [OF this assms(2)] trades_by_product_in [of d] have "\<exists>t. d' = d\<lparr>cut_trades := t\<rparr>" by blast
  then show ?thesis by auto
qed

lemma old_db_typed: "trades_typed old_db"
  by (simp add: trades_typed_def old_db_def wf_table_def empty_table_def tall_def unique_on_def)

lemma old_db_backfill: "backfill_legacy_sold old_db = Inr (old_db\<lparr>cut_trades :=
    \<lparr>rows = [(1, sale_of 1 old_product)], next_pk = 2\<rparr>\<rparr>)"
  by (simp add: backfill_legacy_sold_def old_db_def old_product_def trade_products_def tselect_def sold_ids_def sold_def
      legacy_kind_def trades_by_product_def create_legacy_trade_def legacy_trade_check_def open_key_def texists_def
      empty_table_def tcreate_def tinsert_def sale_of_def)

theorem legacy_sales_pass_cutover_witness:
  "revalidate_legacy_sold (old_db\<lparr>cut_trades := \<lparr>rows = [(1, sale_of 1 old_product)], next_pk = 2\<rparr>\<rparr>) = Inr ()"
  using legacy_sales_pass_cutover [OF old_db_typed old_db_backfill] by blast

text \<open>On a table without trades of the products the loop cannot fail.\<close>

lemma backfill_each_free:
  assumes "distinct (map fst ps)"
    and "\<forall>pk \<in> set (map fst ps). \<not> texists (\<lambda>_ t. open_key t = Some pk) (cut_trades d)"
  shows "\<exists>d'. backfill_each (\<lambda>_. None) ps d = Inr d'"
  using assms
proof (induction ps arbitrary: d)
  case (Cons x ps)
  obtain pk p where x: "x = (pk, p)" by force
  let ?t = "sale_of pk p" and ?d = "d\<lparr>cut_trades := snd (tcreate (sale_of pk p) (cut_trades d))\<rparr>"
  have key: "open_key ?t = Some pk" by (simp add: open_key_def sale_of_def)
  have "create_legacy_trade ?t d = Inr ?d"
    using Cons.prems(2) by (simp add: create_legacy_trade_def key x) (simp add: legacy_trade_check_def sale_of_def)
  moreover have "\<forall>i \<in> set (map fst ps). \<not> texists (\<lambda>_ t. open_key t = Some i) (cut_trades ?d)"
    using Cons.prems by (auto simp: x texists_tcreate key)
  moreover have "distinct (map fst ps)" using Cons.prems(1) by simp
  ultimately show ?case using Cons.IH [of ?d] by (simp add: x) (simp add: sale_of_def)
qed simp

lemma backfill_fresh:
  assumes "wf_table (cut_products d)" "rows (cut_trades d) = []"
  shows "\<exists>d'. backfill_legacy_sold d = Inr d' \<and> (\<exists>t. d' = d\<lparr>cut_trades := t\<rparr>) \<and>
    (\<forall>(k, t) \<in> set (rows (cut_trades d')). legacy_kind k t)"
proof -
  let ?sold = "tselect sold (cut_products d)"
  have typed: "trades_typed d"
    using assms by (simp add: trades_typed_def wf_table_def tall_def unique_on_def)
  have none: "trades_by_product d = (\<lambda>_. None)" by (auto simp: trades_by_product_def assms(2))
  have "distinct (map fst ?sold)" using assms(1) by (simp add: wf_table_def tselect_def distinct_map_filter)
  from backfill_each_free [OF this, of d] obtain d' where each: "backfill_each (\<lambda>_. None) ?sold d = Inr d'"
    by (auto simp: texists_def assms(2))
  from backfill_each_ok [OF each typed] obtain new t where ok: "trades_typed d'" "cut_products d' = cut_products d"
    "rows (cut_trades d') = new" "snd ` set new \<subseteq> (\<lambda>(pk, p). sale_of pk p) ` set ?sold"
    "(\<lambda>(pk, p). sale_of pk p) ` set ?sold \<subseteq> snd ` set new" "d' = d\<lparr>cut_trades := t\<rparr>"
    by (auto simp: assms(2))
  have all: "legacy_kind k t \<and> lt_status t = COMPLETED" if "(k, t) \<in> set new" for k t
    using ok(4) that by (force simp: legacy_kind_def sale_of_def)
  have "tselect (\<lambda>k t. legacy_kind k t \<and> lt_status t = COMPLETED) (cut_trades d') = new"
    "tselect legacy_kind (cut_trades d') = new"
    using all by (auto simp: tselect_def ok(3) intro!: filter_True)
  moreover have prods: "(\<lambda>(_, t). lt_product_id t) ` set new = sold_ids d"
  proof -
    have "lt_product_id ` snd ` set new = lt_product_id ` (\<lambda>(pk, p). sale_of pk p) ` set ?sold"
      using ok(4,5) by (metis subset_antisym)
    then show ?thesis by (force simp: sold_ids_def sale_of_def image_iff image_image split_def)
  qed
  ultimately have filled: "backfill_legacy_sold d = Inr d'"
    using each by (simp add: backfill_legacy_sold_def none trade_products_def tselect_def assms(2))
  with all ok(3,6) show ?thesis by blast
qed

text \<open>
  Backfilling and reversing is a round trip: on the trade table the migration has just created, empty,
  the backfill succeeds whatever the products are, and reversing it before any lifecycle write succeeds and
  leaves the tables as they were, apart from the primary keys the sequence has spent.
\<close>

theorem legacy_sales_roundtrip:
  assumes "wf_table (cut_products d)" "rows (cut_trades d) = []"
  shows "\<exists>d' d''. backfill_legacy_sold d = Inr d' \<and> reverse_legacy_sold d' = Inr d'' \<and>
    tcount (\<lambda>_ _. True) (cut_trades d') = tcount sold (cut_products d) \<and>
    rows (cut_trades d'') = [] \<and> d''\<lparr>cut_trades := cut_trades d\<rparr> = d"
proof -
  have typed: "trades_typed d"
    using assms by (simp add: trades_typed_def wf_table_def tall_def unique_on_def)
  from backfill_fresh [OF assms] obtain d' t where filled: "backfill_legacy_sold d = Inr d'" "d' = d\<lparr>cut_trades := t\<rparr>"
    and all: "\<forall>(k, t) \<in> set (rows (cut_trades d')). legacy_kind k t" by blast
  from legacy_sales_pass [OF typed filled(1)] have cut: "revalidate_legacy_sold d' = Inr ()"
    "tcount legacy_kind (cut_trades d') = tcount sold (cut_products d)" by blast+
  have "\<not> texists (\<lambda>k t. \<not> legacy_kind k t) (cut_trades d')"
    using all by (auto simp: texists_def list_ex_iff)
  with cut(1) have "reverse_legacy_sold d' = Inr (d'\<lparr>cut_trades := tdelete legacy_kind (cut_trades d')\<rparr>)"
    by (auto simp: reverse_legacy_sold_def revalidate_legacy_sold_def split: if_splits)
  moreover have "rows (tdelete legacy_kind (cut_trades d')) = []"
    using all by (auto simp: tdelete_def filter_empty_conv)
  moreover have "tcount (\<lambda>_ _. True) (cut_trades d') = tcount legacy_kind (cut_trades d')"
    using all by (intro tcount_cong) auto
  ultimately show ?thesis using cut(2) filled by (intro exI conjI) (assumption | simp)+
qed

theorem legacy_sales_roundtrip_witness:
  "\<exists>d' d''. backfill_legacy_sold old_db = Inr d' \<and> reverse_legacy_sold d' = Inr d'' \<and>
    tcount (\<lambda>_ _. True) (cut_trades d') = 1 \<and> d''\<lparr>cut_trades := empty_table\<rparr> = old_db"
proof -
  have "rows (cut_trades old_db) = []" "tcount sold (cut_products old_db) = 1" "cut_trades old_db = empty_table"
    by (simp_all add: old_db_def old_product_def empty_table_def tcount_def tselect_def sold_def)
  with legacy_sales_roundtrip [OF old_db_wf this(1)] show ?thesis by simp blast
qed

section \<open>The image copies\<close>

lemma read_legacy_iff:
  assumes "exact_storage look st" "working_storage look st"
  shows "read_legacy st n s = Inr raw \<longleftrightarrow> look s n = Some raw \<and> length raw \<le> MAX_IMAGE_BYTES"
proof
  assume r: "read_legacy st n s = Inr raw"
  then obtain c where c: "st_read st n s = Inr c" "raw = take (MAX_IMAGE_BYTES + 1) c" "length raw \<le> MAX_IMAGE_BYTES"
    by (auto simp: read_legacy_def Let_def split: sum.splits if_splits)
  then have "raw = c" by (simp add: min_def split: if_splits)
  with c read_ok [OF exact_ok [OF assms(1)] c(1)] show "look s n = Some raw \<and> length raw \<le> MAX_IMAGE_BYTES" by simp
next
  assume "look s n = Some raw \<and> length raw \<le> MAX_IMAGE_BYTES"
  with working_read [OF assms(2)] show "read_legacy st n s = Inr raw" by (simp add: read_legacy_def Let_def)
qed

lemma place_copy_ok:
  assumes st: "exact_storage look st" "working_storage look st"
    and run: "place_copy st sha n raw s = (Inr (), s')" and raw: "raw \<in> ran (look s)"
  shows "touches look {} s s' \<and> ran (look s') \<subseteq> ran (look s) \<and>
    (\<exists>c. look s' n = Some c \<and> sha c = sha raw \<and> length c \<le> MAX_IMAGE_BYTES)"
proof (cases "look s n = None")
  case False
  then have "s' = s" "\<exists>c. read_legacy st n s = Inr c \<and> sha c = sha raw"
    using run by (auto simp: place_copy_def Let_def working_exists [OF st(2)] split: sum.splits if_splits)
  then show ?thesis using read_legacy_iff [OF st] by auto
next
  case True
  with run obtain s1 where s1: "st_save st n raw s = (Inr n, s1)" "s' = s1" "\<exists>c. read_legacy st n s1 = Inr c \<and> sha c = sha raw"
    by (auto simp: place_copy_def Let_def working_exists [OF st(2)] split: sum.splits if_splits prod.splits)
  from exact_save [OF st(1) s1(1)] have "look s1 = (look s)(n \<mapsto> raw)" by simp
  then have "ran (look s1) \<subseteq> ran (look s)" using raw by (auto simp: ran_def split: if_splits)
  moreover from save_ok(1) [OF exact_ok [OF st(1)] s1(1)] have "touches look {} s s1" .
  ultimately show ?thesis using s1(2,3) read_legacy_iff [OF st] by auto
qed

lemma put_first_image_ok:
  assumes run: "put_first_image i d = Inr d'" and wf: "wf_table (cut_images d)" and pos: "image_position i = 0"
  shows "wf_table (cut_images d') \<and> cut_products d' = cut_products d \<and> cut_trades d' = cut_trades d \<and>
    (\<exists>k j. tfirst (first_image (image_product_id i)) (cut_images d') = Some (k, j) \<and> image_name j = image_name i \<and>
       image_sha256 j = image_sha256 i \<and> image_byte_size j = image_byte_size i) \<and>
    (\<forall>pk. pk \<noteq> image_product_id i \<longrightarrow> tfirst (first_image pk) (cut_images d') = tfirst (first_image pk) (cut_images d))"
proof (cases "tfirst (first_image (image_product_id i)) (cut_images d)")
  case None
  with run have d': "d' = d\<lparr>cut_images := snd (tcreate i (cut_images d))\<rparr>"
    by (auto simp: put_first_image_def split: if_splits)
  show ?thesis using None wf pos by (auto simp: d' wf_tcreate tfirst_tcreate first_image_def split: option.splits)
next
  case (Some kj)
  obtain k j where kj: "kj = (k, j)" by force
  let ?f = "\<lambda>j. j\<lparr>image_name := image_name i, image_sha256 := image_sha256 i, image_byte_size := image_byte_size i,
      image_width := image_width i, image_height := image_height i\<rparr>"
  from run Some kj have d': "d' = d\<lparr>cut_images := tmodify k ?f (cut_images d)\<rparr>"
    by (auto simp: put_first_image_def split: if_splits)
  have found: "tfirst (first_image pk) (cut_images d') =
      map_option (\<lambda>(l, r). (l, if l = k then ?f r else r)) (tfirst (first_image pk) (cut_images d))" for pk
    by (simp add: d' tfirst_tmodify first_image_def)
  have "tfirst (first_image pk) (cut_images d') = tfirst (first_image pk) (cut_images d)" if "pk \<noteq> image_product_id i" for pk
  proof (cases "tfirst (first_image pk) (cut_images d)")
    case (Some lr)
    obtain l r where lr: "lr = (l, r)" by force
    have "l \<noteq> k"
      using tfirst_SomeD [of "first_image pk" _ l r] tfirst_SomeD [of "first_image (image_product_id i)" _ k j]
        tfirst_tget [OF wf, of "first_image pk" l r] tfirst_tget [OF wf, of "first_image (image_product_id i)" k j]
        Some lr \<open>tfirst (first_image (image_product_id i)) (cut_images d) = Some kj\<close> kj that
      by (auto simp: first_image_def)
    then show ?thesis by (simp add: found Some lr)
  qed (simp add: found)
  moreover have "tfirst (first_image (image_product_id i)) (cut_images d') = Some (k, ?f j)"
    by (simp add: found Some kj)
  ultimately show ?thesis using wf by (simp add: d' wf_tmodify)
qed

definition image_copied ::
    "'s lookup \<Rightarrow> codec \<Rightarrow> (content \<Rightarrow> nat) \<Rightarrow> cutover_db \<Rightarrow> 's \<Rightarrow> nat \<Rightarrow> pystr \<Rightarrow> bool" where
  "image_copied look codec sha d s pk source \<longleftrightarrow>
     (\<exists>raw probe fmt k i. look s source = Some raw \<and> length raw \<le> MAX_IMAGE_BYTES \<and>
        codec_open codec raw = Some probe \<and> probe_format probe = Some fmt \<and>
        tfirst (first_image pk) (cut_images d) = Some (k, i) \<and>
        image_name i = migrated_name pk (sha raw) (format_extension fmt) \<and> image_sha256 i = sha raw \<and>
        image_byte_size i = length raw \<and> look s (image_name i) = Some raw)"

lemma image_copied_accepted:
  assumes "exact_storage look st" "working_storage look st" "image_copied look codec sha d s pk source"
  shows "revalidate_image codec sha st pk source d s = Inr ()"
proof -
  from assms(3) obtain raw probe fmt k i where c: "look s source = Some raw" "length raw \<le> MAX_IMAGE_BYTES"
    "codec_open codec raw = Some probe" "probe_format probe = Some fmt"
    "tfirst (first_image pk) (cut_images d) = Some (k, i)"
    "image_name i = migrated_name pk (sha raw) (format_extension fmt)" "image_sha256 i = sha raw"
    "image_byte_size i = length raw" "look s (image_name i) = Some raw"
    unfolding image_copied_def by blast
  have "read_legacy st source s = Inr raw" "read_legacy st (image_name i) s = Inr raw"
    using c(1,2,9) read_legacy_iff [OF assms(1,2)] by blast+
  with c show ?thesis by (simp add: revalidate_image_def working_exists [OF assms(2)])
qed

lemma image_copied_mono:
  "image_copied look codec sha d s pk source \<Longrightarrow> touches look {} s s' \<Longrightarrow>
   tfirst (first_image pk) (cut_images d') = tfirst (first_image pk) (cut_images d) \<Longrightarrow>
   image_copied look codec sha d' s' pk source"
  unfolding image_copied_def touches_def by (metis empty_iff)

lemma copy_image_ok:
  assumes st: "exact_storage look st" "working_storage look st"
    and run: "copy_image codec sha st pk source d s = (Inr d', s')"
    and wf: "wf_table (cut_images d)" and inj: "inj_on sha (ran (look s))"
  shows "wf_table (cut_images d') \<and> cut_products d' = cut_products d \<and> cut_trades d' = cut_trades d \<and>
    touches look {} s s' \<and> ran (look s') \<subseteq> ran (look s) \<and> image_copied look codec sha d' s' pk source \<and>
    (\<forall>i. i \<noteq> pk \<longrightarrow> tfirst (first_image i) (cut_images d') = tfirst (first_image i) (cut_images d))"
proof -
  from run obtain raw fmt w h where a: "read_legacy st source s = Inr raw" "inspect_legacy codec raw = Inr (fmt, w, h)"
    and p: "place_copy st sha (migrated_name pk (sha raw) (format_extension fmt)) raw s = (Inr (), s')"
    and i: "put_first_image \<lparr>image_product_id = pk, image_name = migrated_name pk (sha raw) (format_extension fmt),
        image_position = 0, image_sha256 = sha raw, image_byte_size = length raw, image_width = w, image_height = h,
        image_owned_key = [], image_promotion_state = IMAGE_PROMOTED\<rparr> d = Inr d'"
    by (auto simp: copy_image_def Let_def split: sum.splits if_splits bool.splits prod.splits)
  from a(1) have raw: "look s source = Some raw" "length raw \<le> MAX_IMAGE_BYTES" by (simp_all add: read_legacy_iff [OF st])
  then have ran: "raw \<in> ran (look s)" by (auto simp: ran_def)
  from place_copy_ok [OF st p ran] obtain c where c: "touches look {} s s'" "ran (look s') \<subseteq> ran (look s)"
    "look s' (migrated_name pk (sha raw) (format_extension fmt)) = Some c" "sha c = sha raw" by blast
  have "c \<in> ran (look s)" using c(2,3) by (auto simp: ran_def)
  with inj c(4) ran have "c = raw" by (auto dest: inj_onD)
  moreover from a(2) obtain probe where "codec_open codec raw = Some probe" "probe_format probe = Some fmt"
    by (auto simp: inspect_legacy_def split: option.splits if_splits)
  moreover from touchesD [OF c(1) _ raw(1)] have "look s' source = Some raw" by simp
  ultimately show ?thesis using put_first_image_ok [OF i wf] c(1-3) raw(2) unfolding image_copied_def by auto
qed

lemma copy_images_ok:
  assumes st: "exact_storage look st" "working_storage look st"
    and "copy_images codec sha st ps d s = (Inr d', s')" "distinct (map fst ps)"
    and "wf_table (cut_images d)" "inj_on sha (ran (look s))"
  shows "cut_products d' = cut_products d \<and> cut_trades d' = cut_trades d \<and> touches look {} s s' \<and>
    (\<forall>(pk, p) \<in> set ps. image_copied look codec sha d' s' pk (lp_image p)) \<and>
    (\<forall>pk. pk \<notin> set (map fst ps) \<longrightarrow> tfirst (first_image pk) (cut_images d') = tfirst (first_image pk) (cut_images d))"
  using assms(3-)
proof (induction ps arbitrary: d s)
  case (Cons x ps)
  obtain pk p where x: "x = (pk, p)" by force
  from Cons.prems(1) x obtain d1 s1 where one: "copy_image codec sha st pk (lp_image p) d s = (Inr d1, s1)"
    and rest: "copy_images codec sha st ps d1 s1 = (Inr d', s')"
    by (auto split: sum.splits prod.splits)
  from copy_image_ok [OF st one Cons.prems(3,4)] have o1: "wf_table (cut_images d1)" "cut_products d1 = cut_products d"
    "cut_trades d1 = cut_trades d" "touches look {} s s1" "ran (look s1) \<subseteq> ran (look s)"
    "image_copied look codec sha d1 s1 pk (lp_image p)"
    "\<forall>i. i \<noteq> pk \<longrightarrow> tfirst (first_image i) (cut_images d1) = tfirst (first_image i) (cut_images d)" by blast+
  have "distinct (map fst ps)" "pk \<notin> set (map fst ps)" using Cons.prems(2) by (auto simp: x)
  from Cons.IH [OF rest this(1) o1(1) inj_on_subset [OF Cons.prems(4) o1(5)]] this(2) o1 show ?case
    by (auto simp: x intro: image_copied_mono touches_trans)
qed simp

lemma revalidate_images_ok:
  "(\<forall>(pk, p) \<in> set ps. revalidate_image codec sha st pk (lp_image p) d s = Inr ()) \<Longrightarrow>
    revalidate_images codec sha st ps d s = Inr ()"
  by (induction codec sha st ps d s rule: revalidate_images.induct) auto

text \<open>
  C33: the two migrations compose: when the copy of 0003 and the backfill of trades 0001 succeed and
  nothing is written in between, the cutover of 0004 accepts the database and the storage, for every set of
  products, provided the storage works and the checksum has no collision among the files it holds. No file
  that was there before is overwritten or removed.
\<close>

theorem migrated_shop_passes_cutover:
  assumes "exact_storage look st" "working_storage look st" "inj_on sha (ran (look s))"
    and "wf_table (cut_images d)" "trades_typed d"
    and "seed_and_copy_legacy codec sha st d s = (Inr d1, s')" "backfill_legacy_sold d1 = Inr d2"
  shows "freeze_legacy_fields True codec sha st d2 s' = Inr () \<and> touches look {} s s'"
proof -
  let ?d = "seed_references d" and ?ps = "tselect with_image (cut_products (seed_references d))"
  have keys: "wf_table (cut_products ?d)" using assms(5) by (simp add: seed_references_def trades_typed_def wf_tupdate)
  have run: "copy_images codec sha st ?ps ?d s = (Inr d1, s')"
    using assms(6) by (simp add: seed_and_copy_legacy_def Let_def)
  have "distinct (map fst ?ps)" "wf_table (cut_images ?d)"
    using keys assms(4) by (simp_all add: wf_table_def tselect_def distinct_map_filter seed_references_def)
  from copy_images_ok [OF assms(1,2) run this assms(3)] have c: "cut_products d1 = cut_products ?d"
    "cut_trades d1 = cut_trades ?d" "touches look {} s s'"
    "\<forall>(pk, p) \<in> set ?ps. image_copied look codec sha d1 s' pk (lp_image p)" by blast+
  have typed: "trades_typed d1"
    using assms(5) keys unfolding trades_typed_def c(1,2) by (simp add: seed_references_def)
  from backfill_legacy_images [OF assms(7) typed] have d2: "cut_products d2 = cut_products d1" "cut_images d2 = cut_images d1"
    by blast+
  have "image_copied look codec sha d2 s' pk (lp_image p)" if "(pk, p) \<in> set ?ps" for pk p
    using c(4) that by (auto simp: image_copied_def d2)
  then have "revalidate_images codec sha st ?ps d2 s' = Inr ()"
    by (intro revalidate_images_ok) (auto intro: image_copied_accepted [OF assms(1,2)])
  then have "revalidate_legacy_images codec sha st d2 s' = Inr ()"
    by (simp add: revalidate_legacy_images_def d2 c(1))
  with legacy_sales_pass [OF typed assms(7)] c(3) show ?thesis by (simp add: freeze_legacy_fields_def)
qed

definition old_codec :: codec where
  "old_codec = \<lparr>codec_open = (\<lambda>_. Some \<lparr>probe_format = Some PNG, probe_frames = 1, probe_width = 2, probe_height = 2\<rparr>),
     codec_load = (\<lambda>_. Some (2, 2)), codec_encode = (\<lambda>_ c. Some c)\<rparr>"

definition old_files :: "pystr \<Rightarrow> content option" where
  "old_files = [[7] \<mapsto> [1, 2]]"

theorem migrated_shop_passes_cutover_witness:
  "\<exists>d1 d2 s'. seed_and_copy_legacy old_codec (\<lambda>_. 7) memory_storage old_db old_files = (Inr d1, s') \<and>
     backfill_legacy_sold d1 = Inr d2 \<and> freeze_legacy_fields True old_codec (\<lambda>_. 7) memory_storage d2 s' = Inr ()"
proof -
  let ?n = "migrated_name 1 7 (format_extension PNG)"
  have n: "?n \<noteq> [7]" by (simp add: migrated_name_def lit_def)
  have bound: "2 \<le> MAX_IMAGE_BYTES" by (simp add: MAX_IMAGE_BYTES_def)
  have read: "read_legacy memory_storage n s = Inr [1, 2]" if "s n = Some [1, 2]" for n s
    using that bound read_legacy_iff [OF memory_storage_exact memory_storage_works, of n s "[1, 2]"] by simp
  have ops: "st_exists memory_storage n s = Inr (s n \<noteq> None)" for n s by (simp add: memory_storage_def)
  have save: "st_save memory_storage n c s = (Inr n, s(n \<mapsto> c))" if "s n = None" for n c s
    using that by (simp add: memory_storage_def)
  have sel: "tselect with_image (cut_products (seed_references old_db)) =
      [(1, old_product\<lparr>lp_category := Some (lit ''OTHER''), lp_region_source := LEGACY_UNSET, lp_region := None\<rparr>)]"
    by (simp add: seed_references_def old_db_def old_product_def tselect_def with_image_def tupdate_def unset_category_def)
  have source: "old_files [7] = Some [1, 2]" by (simp add: old_files_def)
  have place: "place_copy memory_storage (\<lambda>_. 7) ?n [1, 2] old_files = (Inr (), old_files(?n \<mapsto> [1, 2]))"
    using n by (simp add: place_copy_def Let_def read ops save old_files_def del: One_nat_def)
  have inspect: "inspect_legacy old_codec [1, 2] = Inr (PNG, 2, 2)" by (simp add: inspect_legacy_def old_codec_def)
  let ?i = "\<lparr>image_product_id = 1, image_name = ?n, image_position = 0, image_sha256 = 7, image_byte_size = 2,
      image_width = 2, image_height = 2, image_owned_key = [], image_promotion_state = IMAGE_PROMOTED\<rparr>"
  have copy: "copy_image old_codec (\<lambda>_. 7) memory_storage 1 [7] (seed_references old_db) old_files =
      (put_first_image ?i (seed_references old_db), old_files(?n \<mapsto> [1, 2]))"
    unfolding copy_image_def ops source read [of old_files, OF source]
    using n place inspect by (simp add: Let_def numeral_2_eq_2 del: One_nat_def)
  have put: "\<exists>d1. put_first_image ?i (seed_references old_db) = Inr d1 \<and> cut_trades d1 = empty_table \<and> wf_table (cut_products d1)"
    by (simp add: put_first_image_def product_image_check_def tfirst_def seed_references_def old_db_def empty_table_def
        wf_table_def tupdate_def)
  have "seed_and_copy_legacy old_codec (\<lambda>_. 7) memory_storage old_db old_files =
      copy_images old_codec (\<lambda>_. 7) memory_storage
        [(1, old_product\<lparr>lp_category := Some (lit ''OTHER''), lp_region_source := LEGACY_UNSET, lp_region := None\<rparr>)]
        (seed_references old_db) old_files"
    unfolding seed_and_copy_legacy_def Let_def sel ..
  moreover have "lp_image (old_product\<lparr>lp_category := Some (lit ''OTHER''), lp_region_source := LEGACY_UNSET, lp_region := None\<rparr>) = [7]"
    by (simp add: old_product_def)
  ultimately have "\<exists>d1 s'. seed_and_copy_legacy old_codec (\<lambda>_. 7) memory_storage old_db old_files = (Inr d1, s') \<and>
      cut_trades d1 = empty_table \<and> wf_table (cut_products d1)"
    using put copy by auto
  then obtain d1 s' where run: "seed_and_copy_legacy old_codec (\<lambda>_. 7) memory_storage old_db old_files = (Inr d1, s')"
    "cut_trades d1 = empty_table" "wf_table (cut_products d1)" by blast
  have "rows (cut_trades d1) = []" by (simp add: run(2) empty_table_def)
  from backfill_fresh [OF run(3) this] obtain d2 where d2: "backfill_legacy_sold d1 = Inr d2" by blast
  have "inj_on (\<lambda>_. 7::nat) (ran old_files)" by (simp add: old_files_def)
  moreover have "wf_table (cut_images old_db)" by (simp add: old_db_def wf_table_def empty_table_def)
  ultimately show ?thesis
    using migrated_shop_passes_cutover [OF memory_storage_exact memory_storage_works _ _ old_db_typed run(1) d2] run(1) d2
    by blast
qed

end
