(* ===== verification/Profiles.thy ===== *)
theory Profiles imports Withdrawal Catalog_Properties begin

text \<open>
  The pages that show users to others (\<open>accounts/views.py\<close>: the front page, the list of users, the public
  profile and one's own profile) and the review form of \<open>trades/views.py\<close>: what each puts into its template.
\<close>

section \<open>The products of a profile\<close>

datatype profile_filter = FILTER_ALL | FILTER_AVAILABLE | FILTER_SOLD

text \<open>\<open>request.GET.get("status", "all")\<close>, \<open>None\<close> when absent; anything unknown selects all.\<close>

definition selected_filter :: "pystr option \<Rightarrow> profile_filter" where
  "selected_filter status =
     (let s = (case status of None \<Rightarrow> lit ''all'' | Some s \<Rightarrow> s) in
      if s = lit ''available'' then FILTER_AVAILABLE
      else if s = lit ''sold'' then FILTER_SOLD
      else FILTER_ALL)"

definition lifecycle_matches :: "profile_filter \<Rightarrow> trade_status option \<Rightarrow> bool" where
  "lifecycle_matches f status =
     (case f of FILTER_ALL \<Rightarrow> True | FILTER_AVAILABLE \<Rightarrow> status \<noteq> Some COMPLETED | FILTER_SOLD \<Rightarrow> status = Some COMPLETED)"

definition profile_products :: "instant \<Rightarrow> nat \<Rightarrow> profile_filter \<Rightarrow> db \<Rightarrow> (nat \<times> product) list" where
  "profile_products tnow owner f d =
     sort_rows NEWEST
       (filter (\<lambda>(k, _). lifecycle_matches f (lifecycle_status d k))
          (visible_products tnow d (tselect (\<lambda>_ p. product_owner_id p = owner) (products d))))"

text \<open>
  \<open>Paginator.get_page\<close>: \<open>number\<close> is \<open>int(page)\<close>, \<open>None\<close> when that raises; a number out of
  range gives the last page.
\<close>

definition num_pages :: "nat \<Rightarrow> nat \<Rightarrow> nat" where
  "num_pages per_page hits = max 1 ((hits + per_page - 1) div per_page)"

definition get_page_number :: "nat \<Rightarrow> nat \<Rightarrow> int option \<Rightarrow> nat" where
  "get_page_number per_page hits number =
     (case number of
        None \<Rightarrow> 1
      | Some n \<Rightarrow> if n < 1 \<or> n > int (num_pages per_page hits) then num_pages per_page hits else nat n)"

record page =
  page_number :: nat
  page_count :: nat
  page_rows :: "(nat \<times> product) list"

definition get_page :: "nat \<Rightarrow> (nat \<times> product) list \<Rightarrow> int option \<Rightarrow> page" where
  "get_page per_page rs number =
     (let n = get_page_number per_page (length rs) number in
      \<lparr>page_number = n, page_count = length rs, page_rows = take per_page (drop ((n - 1) * per_page) rs)\<rparr>)"

definition profile_product_page ::
    "instant \<Rightarrow> nat \<Rightarrow> pystr option \<Rightarrow> int option \<Rightarrow> db \<Rightarrow> page \<times> profile_filter" where
  "profile_product_page tnow owner status number d =
     (let f = selected_filter status in (get_page 8 (profile_products tnow owner f d) number, f))"

definition completed_trade_count :: "nat \<Rightarrow> db \<Rightarrow> nat" where
  "completed_trade_count user_id d =
     tcount (\<lambda>_ t. trade_status t = COMPLETED \<and> (trade_seller_id t = user_id \<or> trade_buyer_id t = Some user_id)) (trades d)"

section \<open>The pages\<close>

definition latest_products :: "instant \<Rightarrow> db \<Rightarrow> (nat \<times> product) list" where
  "latest_products tnow d = take 4 (sort_rows NEWEST (visible_products tnow d (rows (products d))))"

record user_entry =
  entry_username :: pystr
  entry_identity :: identity_projection
  entry_bio :: "pystr option"

text \<open>\<open>collate\<close> is the order of the database on names.\<close>

definition user_list :: "(pystr \<Rightarrow> 'k::linorder) \<Rightarrow> db \<Rightarrow> user_entry list" where
  "user_list collate d =
     map (\<lambda>(k, u). let identity = project_account_identity (Some (Some k, u)) in
            \<lparr>entry_username = user_username u, entry_identity = identity,
             entry_bio = (if is_tombstone identity then None else Some (user_bio u))\<rparr>)
       (sort_key (\<lambda>(_, u). collate (user_username u)) (rows (users d)))"

record profile_view =
  pv_identity :: identity_projection
  pv_bio :: "pystr option"
  pv_products :: "page option"
  pv_filter :: profile_filter
  pv_trade_count :: "nat option"
  pv_review_count :: "nat option"
  pv_show_report :: bool

datatype profile_reply = Profile_404 | Profile_Page profile_view

definition user_detail ::
    "(pystr \<Rightarrow> pystr) \<Rightarrow> instant \<Rightarrow> nat option \<Rightarrow> pystr \<Rightarrow> pystr option \<Rightarrow> int option \<Rightarrow> db \<Rightarrow> profile_reply" where
  "user_detail lower tnow viewer username status number d =
     (case canonicalize_username lower username of
        Inl _ \<Rightarrow> Profile_404
      | Inr canonical \<Rightarrow>
          (case tfirst (\<lambda>_ u. user_username u = canonical) (users d) of
             None \<Rightarrow> Profile_404
           | Some (k, u) \<Rightarrow>
               let identity = project_account_identity (Some (Some k, u));
                   gone = is_tombstone identity;
                   (shown, f) = (if gone then (None, FILTER_ALL)
                     else (let (p, f) = profile_product_page tnow k status number d in (Some p, f)))
               in Profile_Page
                 \<lparr>pv_identity = identity, pv_bio = (if gone then None else Some (user_bio u)),
                  pv_products = shown, pv_filter = f,
                  pv_trade_count = (if gone then None else Some (completed_trade_count k d)),
                  pv_review_count = (if gone then None
                    else Some (length (public_reviews d (tselect (\<lambda>_ r. review_subject_id r = k) (reviews d))))),
                  pv_show_report = (viewer \<noteq> None \<and> viewer \<noteq> Some k \<and> \<not> gone)\<rparr>))"

record own_profile =
  own_products :: page
  own_filter :: profile_filter
  own_transactions :: nat
  own_favorites :: nat

text \<open>\<open>None\<close> is the redirect of an anonymous visitor to the login page.\<close>

definition profile :: "instant \<Rightarrow> nat option \<Rightarrow> pystr option \<Rightarrow> int option \<Rightarrow> db \<Rightarrow> own_profile option" where
  "profile tnow user status number d =
     map_option (\<lambda>k. let (p, f) = profile_product_page tnow k status number d in
        \<lparr>own_products = p, own_filter = f, own_transactions = completed_trade_count k d,
         own_favorites = tcount (\<lambda>_ v. favorite_user_id v = k) (favorites d)\<rparr>) user"

section \<open>The review form\<close>

datatype review_reply = Review_Form nat | Review_To_Root | Review_To_Login | Review_405 | Review_500 exn

record review_form =
  raw_rating :: pystr
  raw_body :: pystr

text \<open>\<open>TypedChoiceField(coerce=int)\<close> over 1 to 5 and the bounded, stripped text.\<close>

definition clean_rating :: "pystr \<Rightarrow> int option" where
  "clean_rating raw = map_option int (find (\<lambda>n. dec n = raw) [1, 2, 3, 4, 5])"

definition clean_body :: "pystr \<Rightarrow> pystr option" where
  "clean_body raw =
     (let body = py_strip raw in
      if body = [] \<or> length body > 1000 \<or> 0 \<in> set body then None else Some body)"

definition review_create ::
    "(pystr \<Rightarrow> pystr) \<Rightarrow> (nat \<times> user) option \<Rightarrow> bool \<Rightarrow> nat \<Rightarrow> review_form option \<Rightarrow> db \<Rightarrow> review_reply \<times> db" where
  "review_create nfc user other_method trade_id posted d =
     (case user of
        None \<Rightarrow> (Review_To_Login, d)
      | Some (k, u) \<Rightarrow>
          if other_method then (Review_405, d)
          else (case posted of
            None \<Rightarrow> (Review_Form 200, d)
          | Some form \<Rightarrow>
              (case (clean_rating (raw_rating form), clean_body (raw_body form)) of
                 (Some rating, Some body) \<Rightarrow>
                   (case create_review nfc \<lparr>ractor_id = k, ractor_authenticated = True, ractor_active = user_is_active u\<rparr>
                           (Some (int trade_id)) (Some rating) (Some body) d of
                      Inl e \<Rightarrow> (if is_subclass e ReviewAuthorityError then Review_Form 400 else Review_500 e, d)
                    | Inr (_, d1) \<Rightarrow> (Review_To_Root, d1))
               | _ \<Rightarrow> (Review_Form 400, d))))"

text \<open>Writing a review raises nothing else, so the page is total.\<close>

lemma create_review_err: "create_review nfc actor trade_id rating body d = Inl e \<Longrightarrow> e = ReviewAuthorityError"
  by (auto simp: create_review_def normalize_review_body_def Let_def split: option.splits sum.splits if_splits)

lemma review_create_total:
  "review_create nfc user other_method trade_id posted d = (reply, d') \<Longrightarrow>
   reply \<noteq> Review_500 e \<and> (reply \<noteq> Review_To_Root \<longrightarrow> d' = d)"
  by (auto simp: review_create_def is_subclass_def split: option.splits if_splits sum.splits dest: create_review_err)

section \<open>Properties\<close>

lemma visible_in_table:
  "(k, p) \<in> set (visible_products tnow d (tselect P (products d))) \<Longrightarrow> wf_table (products d) \<Longrightarrow>
   tget (products d) k = Some p \<and> P k p \<and> product_archived_at p = None \<and> \<not> moderation_hidden tnow d k"
  by (auto simp: visible_products_def tselect_def tget_iff)

lemma profile_products_set:
  assumes "wf_table (products d)"
  shows "set (profile_products tnow owner f d) = {(k, p). tget (products d) k = Some p \<and> product_owner_id p = owner \<and>
      product_archived_at p = None \<and> \<not> moderation_hidden tnow d k \<and> lifecycle_matches f (lifecycle_status d k)}"
    and "distinct (map fst (profile_products tnow owner f d))"
proof -
  let ?ps = "filter (\<lambda>(k, _). lifecycle_matches f (lifecycle_status d k))
    (visible_products tnow d (tselect (\<lambda>_ p. product_owner_id p = owner) (products d)))"
  have m: "mset (profile_products tnow owner f d) = mset ?ps"
    unfolding profile_products_def by (rule mset_sort_rows)
  from mset_eq_setD [OF m] show "set (profile_products tnow owner f d) = {(k, p). tget (products d) k = Some p \<and>
      product_owner_id p = owner \<and> product_archived_at p = None \<and> \<not> moderation_hidden tnow d k \<and>
      lifecycle_matches f (lifecycle_status d k)}"
    using assms by (auto simp: visible_products_def tselect_def tget_iff)
  have "distinct (map fst ?ps)"
    using assms unfolding wf_table_def visible_products_def tselect_def by (intro distinct_map_filter) simp
  moreover have "mset (map fst (profile_products tnow owner f d)) = mset (map fst ?ps)" unfolding mset_map m by (rule refl)
  ultimately show "distinct (map fst (profile_products tnow owner f d))" using mset_eq_imp_distinct_iff by blast
qed

lemma num_pages_enough: "0 < m \<Longrightarrow> n \<le> num_pages m n * m"
proof -
  assume "0 < m"
  then have "n \<le> (n + m - 1) div m * m"
    using div_mult_mod_eq [of "n + m - 1" m] mod_less_divisor [of m "n + m - 1"] by linarith
  also have "\<dots> \<le> num_pages m n * m" by (simp add: num_pages_def)
  finally show ?thesis .
qed

lemma get_page_in_range:
  "1 \<le> page_number (get_page m rs number)" "page_number (get_page m rs number) \<le> num_pages m (length rs)"
  "length (page_rows (get_page m rs number)) \<le> m"
  by (auto simp: get_page_def get_page_number_def Let_def num_pages_def split: option.splits)

lemma get_pages_cover:
  assumes "0 < m"
  shows "concat (map (\<lambda>i. page_rows (get_page m rs (Some (int i)))) [1..<Suc (num_pages m (length rs))]) = rs"
proof -
  let ?n = "num_pages m (length rs)"
  have "map (\<lambda>i. page_rows (get_page m rs (Some (int i)))) [1..<Suc ?n] = map (\<lambda>i. take m (drop ((i - 1) * m) rs)) [1..<Suc ?n]"
    by (rule map_cong) (auto simp: get_page_def get_page_number_def Let_def)
  also have "\<dots> = map (\<lambda>i. take m (drop (i * m) rs)) [0..<?n]"
    unfolding One_nat_def map_Suc_upt [symmetric] by (simp add: comp_def)
  finally show ?thesis using num_pages_enough [OF assms, of "length rs"] by (simp add: pages_cover)
qed

text \<open>
  The pages of a profile, one after the other, are a list of exactly the owner's products
  that are public and match the filter, each of them once and at most eight to a page, and any text for
  the page number, sensible or not, shows one of these pages.
\<close>

theorem profile_pages_exact:
  assumes "wf_table (products d)"
  shows "\<exists>n ps. concat (map (\<lambda>i. page_rows (fst (profile_product_page tnow owner status (Some (int i)) d))) [1..<Suc n]) = ps \<and>
    set ps = {(k, p). tget (products d) k = Some p \<and> product_owner_id p = owner \<and> product_archived_at p = None \<and>
      \<not> moderation_hidden tnow d k \<and> lifecycle_matches (selected_filter status) (lifecycle_status d k)} \<and>
    distinct (map fst ps) \<and>
    (\<forall>number. page_number (fst (profile_product_page tnow owner status number d)) \<in> {1..n} \<and>
       length (page_rows (fst (profile_product_page tnow owner status number d))) \<le> 8)"
proof -
  let ?ps = "profile_products tnow owner (selected_filter status) d"
  have page: "fst (profile_product_page tnow owner status number d) = get_page 8 ?ps number" for number
    by (simp add: profile_product_page_def Let_def)
  show ?thesis
    unfolding page using get_pages_cover [of 8 ?ps] get_page_in_range [of 8 ?ps] profile_products_set [OF assms]
    by (intro exI [of _ "num_pages 8 (length ?ps)"] exI [of _ ?ps]) (simp del: upt_Suc)
qed

text \<open>
  A withdrawn user leaves no trace on his profile: whatever he wrote, sold or was reviewed for, the page that
  answers his old name is the tombstone, the same for every visitor and every query, and in the list of users he has
  neither a name to display nor a text.
\<close>

theorem withdrawn_profile_blank:
  assumes "wf_table (users d)" "tfirst (\<lambda>_ u. user_username u = name) (users d) = Some (k, u)" "user_withdrawn_at u \<noteq> None"
    and "canonicalize_username lower username = Inr name"
  shows "user_detail lower tnow viewer username status number d = Profile_Page
      \<lparr>pv_identity = \<lparr>identity_user_id = Some k, identity_display_name = WITHDRAWN_ACCOUNT_LABEL, identity_status = WITHDRAWN\<rparr>,
       pv_bio = None, pv_products = None, pv_filter = FILTER_ALL, pv_trade_count = None, pv_review_count = None,
       pv_show_report = False\<rparr> \<and>
    {e \<in> set (user_list collate d). identity_user_id (entry_identity e) = Some k} \<subseteq>
      {e. entry_bio e = None \<and> identity_display_name (entry_identity e) = WITHDRAWN_ACCOUNT_LABEL}"
proof -
  let ?label = "\<lparr>identity_user_id = Some k, identity_display_name = WITHDRAWN_ACCOUNT_LABEL, identity_status = WITHDRAWN\<rparr>"
  have gone: "project_account_identity (Some (Some k, u)) = ?label"
    using assms(3) by (simp add: project_account_identity_def effective_account_status_def Let_def)
  then have "user_detail lower tnow viewer username status number d = Profile_Page
      \<lparr>pv_identity = ?label, pv_bio = None, pv_products = None, pv_filter = FILTER_ALL, pv_trade_count = None,
       pv_review_count = None, pv_show_report = False\<rparr>"
    using assms(2,4) by (simp add: user_detail_def is_tombstone_def Let_def)
  moreover have "entry_bio e = None \<and> identity_display_name (entry_identity e) = WITHDRAWN_ACCOUNT_LABEL"
    if "e \<in> set (user_list collate d)" "identity_user_id (entry_identity e) = Some k" for e
  proof -
    from that(1) obtain i v where row: "(i, v) \<in> set (rows (users d))" and
      e: "entry_identity e = project_account_identity (Some (Some i, v))"
        "entry_bio e = (if is_tombstone (entry_identity e) then None else Some (user_bio v))"
      by (auto simp: user_list_def Let_def)
    from that(2) e(1) have "i = k"
      by (auto simp: project_account_identity_def Let_def split: if_splits)
    with row assms(1) have "tget (users d) k = Some v" by (simp add: tget_iff)
    with tfirst_tget [OF assms(1,2)] have "v = u" by simp
    with \<open>i = k\<close> e gone show ?thesis by (simp add: is_tombstone_def)
  qed
  ultimately show ?thesis by blast
qed

section \<open>Examples\<close>

lemma profile_pages_exact_witness:
  "length (page_rows (fst (profile_product_page 1 1 None (Some 7) lamps))) \<le> 8 \<and>
   1 \<le> page_number (fst (profile_product_page 1 1 None (Some 7) lamps))"
  using profile_pages_exact [OF lamps_wf(1), of 1 1 None] by fastforce

text \<open>A user who has left.\<close>

definition left_db :: db where
  "left_db = lamps\<lparr>users := \<lparr>rows = [(4, \<lparr>user_username = lit ''nora'', user_password = None,
     user_is_active = False, user_is_staff = False, user_is_superuser = False, user_meta_permission = False,
     user_bio = [104, 105], user_auth_epoch = 2, user_withdrawn_at = Some 5, user_date_joined = 0\<rparr>)], next_pk = 5\<rparr>\<rparr>"

lemma withdrawn_profile_blank_witness:
  "\<exists>v. user_detail ascii_lower 1 (Some 2) (lit ''nora'') None None left_db = Profile_Page v \<and>
     pv_bio v = None \<and> pv_products v = None"
proof -
  have "canonical_username (lit ''nora'')" by (simp add: canonical_username_def username_char_def lit_def)
  then have name: "canonicalize_username ascii_lower (lit ''nora'') = Inr (lit ''nora'')"
    by (rule canonicalize_fixed [OF ascii_lower_law])
  obtain u where "tfirst (\<lambda>_ u. user_username u = lit ''nora'') (users left_db) = Some (4, u)" "user_withdrawn_at u \<noteq> None"
    "wf_table (users left_db)"
    by (simp add: left_db_def tfirst_def wf_table_def)
  from withdrawn_profile_blank [OF this(3,1,2) name, where collate = length] show ?thesis by simp
qed

end
