(* ===== verification/Demo_Catalog.thy ===== *)
theory Demo_Catalog imports Gallery_System Listings Trades Transfers begin

text \<open>
  The command that installs the demo catalogue (\<open>catalog/management/commands/bootstrap_demo_catalog.py\<close>): the
  checks on the manifest, the verification of the packaged images, and the transaction that creates the owner,
  the products and their gallery while it puts the files into the storage.
\<close>

section \<open>The manifest\<close>

text \<open>\<open>dict.get\<close> and \<open>dict[...]\<close> of a decoded JSON value; \<open>J_Null\<close> is the default of \<open>get\<close>.\<close>

definition json_get :: "json \<Rightarrow> string \<Rightarrow> json \<Rightarrow> json result" where
  "json_get v key dflt =
     (case v of
        J_Object pairs \<Rightarrow> Inr (case map_of (rev pairs) (lit key) of None \<Rightarrow> dflt | Some x \<Rightarrow> x)
      | _ \<Rightarrow> Inl AttributeError)"

definition json_item :: "json \<Rightarrow> string \<Rightarrow> json result" where
  "json_item v key =
     (case v of
        J_Object pairs \<Rightarrow> (case map_of (rev pairs) (lit key) of None \<Rightarrow> Inl KeyError | Some x \<Rightarrow> Inr x)
      | _ \<Rightarrow> Inl TypeError)"

definition is_object :: "json \<Rightarrow> bool" where
  "is_object v \<longleftrightarrow> (case v of J_Object _ \<Rightarrow> True | _ \<Rightarrow> False)"

text \<open>The value of a field of an object, \<open>J_Null\<close> when absent.\<close>

definition field :: "string \<Rightarrow> json \<Rightarrow> json" where
  "field key v = (case json_get v key J_Null of Inl _ \<Rightarrow> J_Null | Inr x \<Rightarrow> x)"

text \<open>\<open>document\<close> is what \<open>json.loads\<close> of the packaged manifest gives.\<close>

definition load_manifest :: "json result \<Rightarrow> json result" where
  "load_manifest document =
     (case document of Inl e \<Rightarrow> Inl e | Inr manifest \<Rightarrow>
     (case json_get manifest ''generator'' (J_Object []) of Inl e \<Rightarrow> Inl e | Inr generator \<Rightarrow>
        if \<not> is_object generator then Inl AttributeError
        else if field ''name'' generator \<noteq> J_Str (lit ''agy'') \<or> field ''version'' generator \<noteq> J_Str (lit ''1.1.4'') \<or>
                field ''mode'' generator \<noteq> J_Str (lit ''sequential'')
        then Inl CommandError
        else Inr manifest))"

definition image_list :: "json \<Rightarrow> json list option" where
  "image_list item =
     (case field ''images'' item of
        J_List images \<Rightarrow> if 2 \<le> length images \<and> length images \<le> 4 then Some images else None
      | _ \<Rightarrow> None)"

definition item_key :: "json \<Rightarrow> pystr option" where
  "item_key item = (case field ''key'' item of J_Str s \<Rightarrow> if s = [] then None else Some s | _ \<Rightarrow> None)"

text \<open>The five checks of \<open>handle\<close> before the images are looked at; the result is the list of products.\<close>

definition check_products :: "json \<Rightarrow> json list result" where
  "check_products manifest =
     (case field ''products'' manifest of
        J_List items \<Rightarrow>
          if length items \<noteq> 17 then Inl CommandError
          else if \<not> list_all is_object items then Inl CommandError
          else if list_ex (\<lambda>i. item_key i = None) items \<or> \<not> distinct (map item_key items) then Inl CommandError
          else if list_ex (\<lambda>i. image_list i = None) items then Inl CommandError
          else if sum_list (map (length \<circ> the \<circ> image_list) items) \<noteq> 50 then Inl CommandError
          else Inr items
      | _ \<Rightarrow> Inl CommandError)"

section \<open>The packaged images\<close>

text \<open>
  \<open>_DEMO_IMAGE_NAME\<close>: words of lower case letters and digits joined by hyphens, a hyphen, a digit from 1
  to 4, \<open>.png\<close>. Such a name has no separator, so it is its own \<open>PurePosixPath(name).name\<close>.
\<close>

definition word_char :: "nat \<Rightarrow> bool" where
  "word_char c \<longleftrightarrow> 97 \<le> c \<and> c \<le> 122 \<or> is_digit c"

fun words :: "bool \<Rightarrow> pystr \<Rightarrow> bool" where
  "words open [] = open"
| "words open (c # cs) = (if word_char c then words True cs else c = 45 \<and> open \<and> words False cs)"

definition demo_image_name :: "pystr \<Rightarrow> bool" where
  "demo_image_name s \<longleftrightarrow>
     6 < length s \<and>
     (let stem = take (length s - 6) s; tail = drop (length s - 6) s in
      words False stem \<and> tail ! 0 = 45 \<and> 49 \<le> tail ! 1 \<and> tail ! 1 \<le> 52 \<and> drop 2 tail = lit ''.png'')"

text \<open>\<open>_SHA256\<close>: a digest in 64 lower case hexadecimal digits, as the number it stands for.\<close>

definition digest_text :: "pystr \<Rightarrow> nat option" where
  "digest_text s = (if length s = 64 \<and> list_all is_lower_hex s then Some (unhex s) else None)"

definition bounded_int :: "nat \<Rightarrow> json \<Rightarrow> nat option" where
  "bounded_int maximum v =
     (case v of J_Int n \<Rightarrow> if 0 < n \<and> n \<le> int maximum then Some (nat n) else None | _ \<Rightarrow> None)"

record demo_asset =
  asset_content :: content
  asset_width :: nat
  asset_height :: nat

text \<open>
  One image of the manifest: its name and checksum and the verified bytes. \<open>source\<close> reads a packaged file
  (\<open>None\<close> for an \<open>OSError\<close>); \<open>codec\<close> is Pillow, which opens and verifies, then loads the bytes again.
\<close>

definition verify_image ::
    "(pystr \<Rightarrow> content option) \<Rightarrow> (content \<Rightarrow> nat) \<Rightarrow> codec \<Rightarrow> pystr list \<Rightarrow> json \<Rightarrow> (pystr \<times> nat \<times> demo_asset) result" where
  "verify_image source sha codec taken img =
     (if \<not> is_object img then Inl CommandError else
     (case json_get img ''file'' (J_Str []) of Inr (J_Str name) \<Rightarrow>
        if \<not> demo_image_name name \<or> name \<in> set taken then Inl CommandError else
     (case field ''sha256'' img of J_Str digest \<Rightarrow>
     (case digest_text digest of None \<Rightarrow> Inl CommandError | Some checksum \<Rightarrow>
        if field ''content_type'' img \<noteq> J_Str (lit ''image/png'') then Inl CommandError else
     (case (bounded_int MAX_IMAGE_BYTES (field ''byte_size'' img), bounded_int MAX_IMAGE_DIMENSION (field ''width'' img),
            bounded_int MAX_IMAGE_DIMENSION (field ''height'' img)) of
        (Some byte_size, Some width, Some height) \<Rightarrow>
     (case source name of None \<Rightarrow> Inl CommandError | Some raw \<Rightarrow>
        if length raw \<noteq> byte_size \<or> sha raw \<noteq> checksum then Inl CommandError else
     (case codec_open codec raw of None \<Rightarrow> Inl CommandError | Some probe \<Rightarrow>
        if probe_format probe \<noteq> Some PNG \<or> probe_frames probe \<noteq> 1 \<or> probe_width probe \<noteq> width \<or> probe_height probe \<noteq> height
        then Inl CommandError
        else if codec_load codec raw \<noteq> Some (width, height) then Inl CommandError
        else Inr (name, checksum, \<lparr>asset_content = raw, asset_width = width, asset_height = height\<rparr>)))
      | _ \<Rightarrow> Inl CommandError))
      | _ \<Rightarrow> Inl CommandError)
      | _ \<Rightarrow> Inl CommandError))"

fun verify_images ::
    "(pystr \<Rightarrow> content option) \<Rightarrow> (content \<Rightarrow> nat) \<Rightarrow> codec \<Rightarrow> pystr list \<Rightarrow> json list \<Rightarrow>
     (pystr \<times> nat \<times> demo_asset) list result" where
  "verify_images source sha codec taken [] = Inr []"
| "verify_images source sha codec taken (i # is) =
     (case verify_image source sha codec taken i of Inl e \<Rightarrow> Inl e | Inr a \<Rightarrow>
     (case verify_images source sha codec (fst a # taken) is of Inl e \<Rightarrow> Inl e | Inr as \<Rightarrow> Inr (a # as)))"

text \<open>Per product the assets of its images; a name is taken for the rest of the manifest.\<close>

fun verify_sources ::
    "(pystr \<Rightarrow> content option) \<Rightarrow> (content \<Rightarrow> nat) \<Rightarrow> codec \<Rightarrow> pystr list \<Rightarrow> json list \<Rightarrow>
     (json \<times> (pystr \<times> nat \<times> demo_asset) list) list result" where
  "verify_sources source sha codec taken [] = Inr []"
| "verify_sources source sha codec taken (item # items) =
     (case image_list item of None \<Rightarrow> Inl CommandError | Some images \<Rightarrow>
     (case verify_images source sha codec taken images of Inl e \<Rightarrow> Inl e | Inr as \<Rightarrow>
     (case verify_sources source sha codec (map fst as @ taken) items of Inl e \<Rightarrow> Inl e | Inr rest \<Rightarrow>
        Inr ((item, as) # rest))))"

section \<open>Installing a file\<close>

text \<open>
  The storage and, when it is a directory (\<open>default_storage.path\<close> works), the calls of the operating
  system; a path is identified with the key it stands for. \<open>os_temp\<close> is the temporary name drawn for a key.
\<close>

record 's file_system =
  fs_storage :: "'s storage"
  fs_local :: bool
  os_temp :: "pystr \<Rightarrow> pystr"
  os_makedirs :: "pystr \<Rightarrow> 's \<Rightarrow> (exn + unit) \<times> 's"
  os_write_new :: "pystr \<Rightarrow> content \<Rightarrow> 's \<Rightarrow> (exn + unit) \<times> 's"  \<comment> \<open>open with \<open>xb\<close>, write, flush, sync\<close>
  os_exists :: "pystr \<Rightarrow> 's \<Rightarrow> bool"
  os_read :: "pystr \<Rightarrow> 's \<Rightarrow> exn + content"
  os_replace :: "pystr \<Rightarrow> pystr \<Rightarrow> 's \<Rightarrow> (exn + unit) \<times> 's"
  os_unlink :: "pystr \<Rightarrow> 's \<Rightarrow> (exn + unit) \<times> 's"

text \<open>The \<open>finally\<close> clause: an error of its own replaces the one that is under way.\<close>

definition remove_temp :: "'s file_system \<Rightarrow> pystr \<Rightarrow> unit result \<times> 's \<Rightarrow> unit result \<times> 's" where
  "remove_temp fs temp out =
     (case out of (r, s) \<Rightarrow>
        if os_exists fs temp s
        then (case os_unlink fs temp s of (Inl e, s1) \<Rightarrow> (Inl e, s1) | (Inr _, s1) \<Rightarrow> (r, s1))
        else (r, s))"

definition place_file ::
    "'s file_system \<Rightarrow> (content \<Rightarrow> nat) \<Rightarrow> pystr \<Rightarrow> content \<Rightarrow> nat \<Rightarrow> 's \<Rightarrow> unit result \<times> 's" where
  "place_file fs sha key raw checksum s =
     (case os_write_new fs (os_temp fs key) raw s of
        (Inl e, s1) \<Rightarrow> (Inl e, s1)
      | (Inr _, s1) \<Rightarrow>
          if os_exists fs key s1 then
            (case os_read fs key s1 of
               Inl e \<Rightarrow> (Inl e, s1)
             | Inr c \<Rightarrow> (if sha c \<noteq> checksum then Inl CommandError else Inr (), s1))
          else os_replace fs (os_temp fs key) key s1)"

definition install_asset ::
    "'s file_system \<Rightarrow> (content \<Rightarrow> nat) \<Rightarrow> pystr \<Rightarrow> content \<Rightarrow> nat \<Rightarrow> 's \<Rightarrow> unit result \<times> 's" where
  "install_asset fs sha key raw checksum s =
     (case st_exists (fs_storage fs) key s of
        Inl e \<Rightarrow> (Inl e, s)
      | Inr True \<Rightarrow>
          (case st_read (fs_storage fs) key s of
             Inl e \<Rightarrow> (Inl e, s)
           | Inr c \<Rightarrow> (if sha c \<noteq> checksum then Inl CommandError else Inr (), s))
      | Inr False \<Rightarrow>
          if \<not> fs_local fs then
            (case st_save (fs_storage fs) key raw s of
               (Inl e, s1) \<Rightarrow> (Inl e, s1)
             | (Inr saved, s1) \<Rightarrow>
                 if saved \<noteq> key then
                   (case st_delete (fs_storage fs) saved s1 of
                      (Inl e, s2) \<Rightarrow> (Inl e, s2)
                    | (Inr _, s2) \<Rightarrow> (Inl CommandError, s2))
                 else (Inr (), s1))
          else
            (case os_makedirs fs key s of
               (Inl e, s1) \<Rightarrow> (Inl e, s1)
             | (Inr _, s1) \<Rightarrow> remove_temp fs (os_temp fs key) (place_file fs sha key raw checksum s1)))"

section \<open>The rows\<close>

text \<open>
  What the command finds: the settings, the packaged files, Pillow, the digest, NFC normalization, the
  conversions of Django's fields for a price and a foreign key, the clock and the journal identifier of
  the sign-up signal.
\<close>

record 's demo_env =
  de_app_env :: pystr
  de_enabled :: bool
  de_document :: "json result"
  de_source :: "pystr \<Rightarrow> content option"
  de_sha :: "content \<Rightarrow> nat"
  de_codec :: codec
  de_files :: "'s file_system"
  de_nfc :: "pystr \<Rightarrow> pystr"
  de_price :: "json \<Rightarrow> int result"
  de_code :: "json \<Rightarrow> pystr result"
  de_now :: instant
  de_journal :: nat

definition DEMO_OWNER :: pystr where "DEMO_OWNER = lit ''demo_catalog_owner''"

text \<open>
  \<open>get_or_create\<close> of the owner, whose creation runs the sign-up signal, and the refusal of an account that
  has a usable password; then the flags are written.
\<close>

definition demo_owner :: "'s demo_env \<Rightarrow> db \<Rightarrow> exn + (nat \<times> db)" where
  "demo_owner env d =
     (let reset = (\<lambda>k d. d\<lparr>users := tmodify k (\<lambda>u. u\<lparr>user_is_active := True, user_password := None\<rparr>) (users d)\<rparr>) in
      case tfirst (\<lambda>_ u. user_username u = DEMO_OWNER) (users d) of
        Some (k, u) \<Rightarrow> if user_password u \<noteq> None then Inl CommandError else Inr (k, reset k d)
      | None \<Rightarrow>
          let (k, t) = tcreate \<lparr>user_username = DEMO_OWNER, user_password = None, user_is_active = True,
                user_is_staff = False, user_is_superuser = False, user_meta_permission = False, user_bio = [],
                user_auth_epoch = 0, user_withdrawn_at = None, user_date_joined = de_now env\<rparr> (users d) in
          (case ensure_account (de_journal env) k (d\<lparr>users := t\<rparr>) of
             Inl e \<Rightarrow> Inl e
           | Inr (_, d1) \<Rightarrow> Inr (k, reset k d1)))"

text \<open>\<open>Product.save\<close> normalizes the texts, which must be strings.\<close>

definition demo_text :: "'s demo_env \<Rightarrow> json \<Rightarrow> pystr result" where
  "demo_text env v = (case v of J_Str s \<Rightarrow> Inr (de_nfc env s) | _ \<Rightarrow> Inl TypeError)"

text \<open>A row by its code: the field's conversion, then the lookup.\<close>

definition demo_reference :: "'s demo_env \<Rightarrow> json \<Rightarrow> string \<Rightarrow> pystr list \<Rightarrow> pystr result" where
  "demo_reference env item key codes =
     (case json_item item key of Inl e \<Rightarrow> Inl e | Inr v \<Rightarrow>
     (case de_code env v of Inl e \<Rightarrow> Inl e | Inr c \<Rightarrow> if c \<in> set codes then Inr c else Inl ObjectDoesNotExist))"

definition demo_product ::
    "'s demo_env \<Rightarrow> nat \<Rightarrow> pystr \<Rightarrow> pystr \<Rightarrow> pystr \<Rightarrow> int \<Rightarrow> pystr \<Rightarrow> pystr \<Rightarrow> db \<Rightarrow> exn + (nat \<times> db)" where
  "demo_product env owner key title description price category region d =
     (let fill = (\<lambda>p. p\<lparr>product_owner_id := owner, product_title := title, product_description := description,
                         product_price := price, product_category_id := category, product_region_id := Some region,
                         product_region_source := SELECTED, product_archived_at := None\<rparr>);
          fresh = \<lparr>product_owner_id = owner, product_title = title, product_description = description,
                   product_price = price, product_legacy_image = [], product_category_id = category,
                   product_region_id = Some region, product_region_source = SELECTED, product_archived_at = None,
                   product_version = 1, product_created_at = de_now env, product_demo_key = Some key\<rparr> in
      if price < 1 then Inl IntegrityError
      else case tfirst (\<lambda>_ p. product_demo_key p = Some key) (products d) of
        Some (k, _) \<Rightarrow> Inr (k, d\<lparr>products := tmodify k fill (products d)\<rparr>)
      | None \<Rightarrow> let (k, t) = tcreate fresh (products d) in Inr (k, d\<lparr>products := t\<rparr>))"

definition demo_key :: "pystr \<Rightarrow> pystr \<Rightarrow> pystr" where
  "demo_key key name = lit ''product-images/demo/'' @ key @ lit ''/'' @ name"

definition put_image :: "product_image \<Rightarrow> db \<Rightarrow> exn + db" where
  "put_image i d =
     (if \<not> product_image_check i then Inl IntegrityError
      else case tfirst (\<lambda>_ j. image_product_id j = image_product_id i \<and> image_position j = image_position i) (product_images d) of
        Some (k, _) \<Rightarrow> Inr (d\<lparr>product_images := tmodify k (\<lambda>_. i) (product_images d)\<rparr>)
      | None \<Rightarrow> Inr (d\<lparr>product_images := snd (tcreate i (product_images d))\<rparr>))"

definition demo_row :: "nat \<Rightarrow> nat \<Rightarrow> pystr \<Rightarrow> pystr \<times> nat \<times> demo_asset \<Rightarrow> product_image" where
  "demo_row pid position key a =
     (case a of (name, checksum, asset) \<Rightarrow>
        \<lparr>image_product_id = pid, image_name = demo_key key name, image_position = position, image_sha256 = checksum,
         image_byte_size = length (asset_content asset), image_width = asset_width asset,
         image_height = asset_height asset, image_owned_key = demo_key key name, image_promotion_state = IMAGE_PROMOTED\<rparr>)"

fun demo_images ::
    "'s demo_env \<Rightarrow> nat \<Rightarrow> pystr \<Rightarrow> nat \<Rightarrow> (pystr \<times> nat \<times> demo_asset) list \<Rightarrow> db \<Rightarrow> 's \<Rightarrow> db result \<times> 's" where
  "demo_images env pid key position [] d s = (Inr d, s)"
| "demo_images env pid key position (a # as) d s =
     (case install_asset (de_files env) (de_sha env) (demo_key key (fst a)) (asset_content (snd (snd a))) (fst (snd a)) s of
        (Inl e, s1) \<Rightarrow> (Inl e, s1)
      | (Inr _, s1) \<Rightarrow>
          (case put_image (demo_row pid position key a) d of
             Inl e \<Rightarrow> (Inl e, s1)
           | Inr d1 \<Rightarrow> demo_images env pid key (Suc position) as d1 s1))"

definition ensure_metric :: "nat \<Rightarrow> db \<Rightarrow> db" where
  "ensure_metric pid d =
     (case metric_of d pid of
        Some _ \<Rightarrow> d
      | None \<Rightarrow> d\<lparr>product_metrics := snd (tcreate
          \<lparr>metric_product_id = pid, metric_favorite_count = 0, metric_view_count = 0,
           metric_product_chat_count = 0, metric_completed_trade_count = 0\<rparr> (product_metrics d))\<rparr>)"

text \<open>One product of the loop.\<close>

definition demo_item ::
    "'s demo_env \<Rightarrow> nat \<Rightarrow> json \<Rightarrow> (pystr \<times> nat \<times> demo_asset) list \<Rightarrow> db \<Rightarrow> 's \<Rightarrow> db result \<times> 's" where
  "demo_item env owner item as d s =
     (case demo_reference env item ''category'' (categories d) of Inl e \<Rightarrow> (Inl e, s) | Inr category \<Rightarrow>
     (case demo_reference env item ''region'' (regions d) of Inl e \<Rightarrow> (Inl e, s) | Inr region \<Rightarrow>
     (case (item_key item, json_item item ''title'', json_item item ''description'', json_item item ''price'') of
        (Some key, Inr title_value, Inr description_value, Inr price_value) \<Rightarrow>
     (case demo_text env title_value of Inl e \<Rightarrow> (Inl e, s) | Inr title \<Rightarrow>
     (case demo_text env description_value of Inl e \<Rightarrow> (Inl e, s) | Inr description \<Rightarrow>
     (case de_price env price_value of Inl e \<Rightarrow> (Inl e, s) | Inr price \<Rightarrow>
     (case demo_product env owner key title description price category region d of Inl e \<Rightarrow> (Inl e, s) | Inr (pid, d1) \<Rightarrow>
     (case demo_images env pid key 0 as d1 s of (Inl e, s1) \<Rightarrow> (Inl e, s1) | (Inr d2, s1) \<Rightarrow>
        (Inr (ensure_metric pid (d2\<lparr>product_images := tdelete (\<lambda>_ i. image_product_id i = pid \<and>
            image_name i \<notin> set (map (demo_key key \<circ> fst) as)) (product_images d2)\<rparr>)), s1))))))
      | _ \<Rightarrow> (Inl KeyError, s))))"

fun demo_items ::
    "'s demo_env \<Rightarrow> nat \<Rightarrow> (json \<times> (pystr \<times> nat \<times> demo_asset) list) list \<Rightarrow> db \<Rightarrow> 's \<Rightarrow> db result \<times> 's" where
  "demo_items env owner [] d s = (Inr d, s)"
| "demo_items env owner ((item, as) # rest) d s =
     (case demo_item env owner item as d s of
        (Inl e, s1) \<Rightarrow> (Inl e, s1)
      | (Inr d1, s1) \<Rightarrow> demo_items env owner rest d1 s1)"

definition demo_transaction ::
    "'s demo_env \<Rightarrow> (json \<times> (pystr \<times> nat \<times> demo_asset) list) list \<Rightarrow> db \<Rightarrow> 's \<Rightarrow> db result \<times> 's" where
  "demo_transaction env sources d s =
     (case demo_owner env d of Inl e \<Rightarrow> (Inl e, s) | Inr (owner, d1) \<Rightarrow>
     (case demo_items env owner sources d1 s of (Inl e, s1) \<Rightarrow> (Inl e, s1) | (Inr d2, s1) \<Rightarrow>
        if texists (\<lambda>_ p. product_owner_id p = owner \<and> product_demo_key p = None) (products d2)
        then (Inl CommandError, s1)
        else if tcount (\<lambda>_ p. product_owner_id p = owner) (products d2) \<noteq> 17
        then (Inl CommandError, s1)
        else (Inr d2, s1)))"

text \<open>\<open>Command.handle\<close>: the database is rolled back when it raises, the files are not.\<close>

definition bootstrap_demo_catalog :: "'s demo_env \<Rightarrow> db \<Rightarrow> 's \<Rightarrow> unit result \<times> db \<times> 's" where
  "bootstrap_demo_catalog env d s =
     (if de_app_env env \<noteq> lit ''development'' \<or> \<not> de_enabled env then (Inl CommandError, d, s) else
     (case load_manifest (de_document env) of Inl e \<Rightarrow> (Inl e, d, s) | Inr manifest \<Rightarrow>
     (case check_products manifest of Inl e \<Rightarrow> (Inl e, d, s) | Inr items \<Rightarrow>
     (case verify_sources (de_source env) (de_sha env) (de_codec env) [] items of Inl e \<Rightarrow> (Inl e, d, s) | Inr sources \<Rightarrow>
     (case demo_transaction env sources d s of
        (Inl e, s1) \<Rightarrow> (Inl e, d, s1)
      | (Inr d1, s1) \<Rightarrow> (Inr (), d1, s1))))))"

end
