(* ===== verification/Demo_Properties.thy ===== *)
theory Demo_Properties imports Demo_Catalog Gallery_Recovery Ledger_System begin

text \<open>
  What installing the demo catalogue promises: whatever happens no stored file changes, a failed run leaves the
  database as it was, and a successful one leaves every product of the manifest public, with its gallery in
  order, each image in the storage under the checksum of its row.
\<close>

section \<open>The files\<close>

text \<open>
  The documented behaviour of the calls. \<open>look s k\<close> is the content of the file \<open>k\<close>; a temporary name ends in the
  digits of a UUID, so it is not the name of a picture, and the run draws names that are free.
\<close>

definition files_ok :: "'s lookup \<Rightarrow> 's file_system \<Rightarrow> bool" where
  "files_ok look fs \<longleftrightarrow>
     exact_storage look (fs_storage fs) \<and>
     (\<forall>k s b. st_exists (fs_storage fs) k s = Inr b \<longrightarrow> b = (look s k \<noteq> None)) \<and>
     (\<forall>k s. os_exists fs k s \<longleftrightarrow> look s k \<noteq> None) \<and>
     (\<forall>k s c. os_read fs k s = Inr c \<longrightarrow> look s k = Some c) \<and>
     (\<forall>k s r s'. os_makedirs fs k s = (r, s') \<longrightarrow> look s' = look s) \<and>
     (\<forall>k c s r s'. os_write_new fs k c s = (r, s') \<longrightarrow>
        look s' = look s \<or> look s k = None \<and> (\<exists>x. look s' = (look s)(k \<mapsto> x) \<and> (r = Inr () \<longrightarrow> x = c))) \<and>
     (\<forall>k c s s'. os_write_new fs k c s = (Inr (), s') \<longrightarrow> look s' k = Some c) \<and>
     (\<forall>j k s r s'. os_replace fs j k s = (r, s') \<longrightarrow>
        look s' = (case r of Inl _ \<Rightarrow> look s | Inr _ \<Rightarrow> (look s)(k := look s j, j := None))) \<and>
     (\<forall>k s r s'. os_unlink fs k s = (r, s') \<longrightarrow>
        look s' = (case r of Inl _ \<Rightarrow> look s | Inr _ \<Rightarrow> (look s)(k := None))) \<and>
     (\<forall>k. os_temp fs k \<noteq> [] \<and> is_lower_hex (last (os_temp fs k)))"

definition temps_free :: "'s lookup \<Rightarrow> 's file_system \<Rightarrow> 's \<Rightarrow> bool" where
  "temps_free look fs s \<longleftrightarrow> (fs_local fs \<longrightarrow> (\<forall>k. look s (os_temp fs k) = None))"

text \<open>The key is that of a picture.\<close>

definition picture :: "pystr \<Rightarrow> bool" where
  "picture k \<longleftrightarrow> k \<noteq> [] \<and> last k = 103"

lemma picture_no_temp: "files_ok look fs \<Longrightarrow> picture key \<Longrightarrow> os_temp fs k \<noteq> key"
  unfolding files_ok_def picture_def by (elim conjE, erule allE [where x = k]) (auto simp: is_lower_hex_def is_digit_def)

text \<open>After a call: nothing that was stored is changed, and on success the key holds the checksum.\<close>

definition installed :: "'s lookup \<Rightarrow> (content \<Rightarrow> nat) \<Rightarrow> pystr \<Rightarrow> nat \<Rightarrow> 's \<Rightarrow> bool" where
  "installed look sha key checksum s \<longleftrightarrow> (\<exists>c. look s key = Some c \<and> sha c = checksum)"

lemma installed_touches: "installed look sha key checksum s \<Longrightarrow> touches look {} s s' \<Longrightarrow> installed look sha key checksum s'"
  by (auto simp: installed_def touches_def)

lemma write_law: "files_ok look fs \<Longrightarrow> os_write_new fs k c s = (r, s') \<Longrightarrow>
    look s' = look s \<or> look s k = None \<and> (\<exists>x. look s' = (look s)(k \<mapsto> x))"
  by (simp only: files_ok_def, elim conjE) metis

lemma write_done: "files_ok look fs \<Longrightarrow> os_write_new fs k c s = (Inr (), s') \<Longrightarrow> look s' k = Some c"
  by (simp only: files_ok_def)

lemma replace_law: "files_ok look fs \<Longrightarrow> os_replace fs j k s = (r, s') \<Longrightarrow>
    look s' = (case r of Inl _ \<Rightarrow> look s | Inr _ \<Rightarrow> (look s)(k := look s j, j := None))"
  by (simp only: files_ok_def)

lemma unlink_law: "files_ok look fs \<Longrightarrow> os_unlink fs k s = (r, s') \<Longrightarrow>
    look s' = (case r of Inl _ \<Rightarrow> look s | Inr _ \<Rightarrow> (look s)(k := None))"
  by (simp only: files_ok_def)

lemma exists_law: "files_ok look fs \<Longrightarrow> os_exists fs k s \<longleftrightarrow> look s k \<noteq> None"
  by (simp add: files_ok_def)

lemma present_law: "files_ok look fs \<Longrightarrow> st_exists (fs_storage fs) k s = Inr b \<Longrightarrow> b = (look s k \<noteq> None)"
  by (simp add: files_ok_def)

lemma os_read_law: "files_ok look fs \<Longrightarrow> os_read fs k s = Inr c \<Longrightarrow> look s k = Some c"
  by (simp add: files_ok_def)

lemma makedirs_law: "files_ok look fs \<Longrightarrow> os_makedirs fs k s = (r, s') \<Longrightarrow> look s' = look s"
  by (simp only: files_ok_def)

lemma storage_law: "files_ok look fs \<Longrightarrow> exact_storage look (fs_storage fs)"
  by (simp add: files_ok_def)

text \<open>Apart from the temporary file, placing a file either leaves the storage alone or adds the key.\<close>

lemma place_file_ok:
  assumes ok: "files_ok look fs" and key: "picture key" and free: "look s (os_temp fs key) = None"
    and sha: "sha raw = checksum" and p: "place_file fs sha key raw checksum s = (r, s')"
  shows "(look s')(os_temp fs key := None) = look s \<or>
      look s key = None \<and> (look s')(os_temp fs key := None) = (look s)(key \<mapsto> raw)" (is ?kept)
    and "r = Inr () \<Longrightarrow> installed look sha key checksum s'" (is "_ \<Longrightarrow> ?done")
proof -
  let ?t = "os_temp fs key"
  note other = picture_no_temp [OF ok key, of key]
  obtain r1 s1 where w: "os_write_new fs ?t raw s = (r1, s1)" by force
  from write_law [OF ok w] free have s1: "(look s1)(?t := None) = look s" by auto
  have "?kept \<and> (r = Inr () \<longrightarrow> ?done)"
  proof (cases r1)
    case (Inl e)
    with p w s1 show ?thesis by (auto simp: place_file_def)
  next
    case (Inr u)
    with w have temp: "look s1 ?t = Some raw" by (intro write_done [OF ok]) (simp add: unit_eq)
    show ?thesis
    proof (cases "os_exists fs key s1")
      case True
      with p w Inr s1 show ?thesis
        by (auto simp: place_file_def installed_def dest: os_read_law [OF ok] split: sum.splits if_splits)
    next
      case False
      with p w Inr have rep: "os_replace fs ?t key s1 = (r, s')" by (simp add: place_file_def)
      from False have none: "look s1 key = None" by (simp add: exists_law [OF ok])
      with s1 other have "look s key = None" by (metis fun_upd_other)
      moreover have "((look s1)(key \<mapsto> raw))(?t := None) = ((look s1)(?t := None))(key \<mapsto> raw)"
        using other by (intro fun_upd_twist) simp
      moreover have "((look s)(key \<mapsto> raw))(?t := None) = (look s)(key \<mapsto> raw)"
        using free other by (auto simp: fun_eq_iff)
      ultimately show ?thesis using replace_law [OF ok rep] s1 temp other sha
        by (cases r) (auto simp: installed_def)
    qed
  qed
  then show ?kept "r = Inr () \<Longrightarrow> ?done" by blast+
qed

lemma install_local_ok:
  assumes ok: "files_ok look fs" and key: "picture key" and free: "look s (os_temp fs key) = None"
    and sha: "sha raw = checksum"
    and i: "remove_temp fs (os_temp fs key) (place_file fs sha key raw checksum s) = (r, s')"
  shows "touches look {} s s'" (is ?kept)
    and "r = Inr () \<Longrightarrow> installed look sha key checksum s' \<and> (look s' = look s \<or> (\<exists>x. look s' = (look s)(key \<mapsto> x)))"
      (is "_ \<Longrightarrow> ?done")
proof -
  let ?t = "os_temp fs key"
  note other = picture_no_temp [OF ok key, of key]
  obtain r1 s1 where p: "place_file fs sha key raw checksum s = (r1, s1)" by force
  note kept = place_file_ok(1) [OF ok key free sha p] and made = place_file_ok(2) [OF ok key free sha p]
  have grown: "touches look {} s s2" if "(look s2)(?t := None) = (look s1)(?t := None)" for s2
    using kept free that unfolding touches_def by (metis fun_upd_apply option.distinct(1))
  have same: "installed look sha key checksum s2"
    if "(look s2)(?t := None) = (look s1)(?t := None)" "installed look sha key checksum s1" for s2
    using that other unfolding installed_def by (metis fun_upd_other)
  have "?kept \<and> (r = Inr () \<longrightarrow> ?done)"
  proof (cases "os_exists fs ?t s1")
    case False
    with i p have res: "r = r1" "s' = s1" by (simp_all add: remove_temp_def)
    from False have "(look s1)(?t := None) = look s1" by (auto simp: exists_law [OF ok] fun_upd_idem_iff)
    with kept made grown [of s1] res show ?thesis by auto
  next
    case True
    obtain r2 s2 where u: "os_unlink fs ?t s1 = (r2, s2)" by force
    with i p True have res: "s' = s2" "r = (case r2 of Inl e \<Rightarrow> Inl e | Inr _ \<Rightarrow> r1)"
      by (auto simp: remove_temp_def split: sum.splits)
    from unlink_law [OF ok u] have eq: "(look s2)(?t := None) = (look s1)(?t := None)" by (auto split: sum.splits)
    show ?thesis
    proof (cases r2)
      case (Inl e)
      with grown [OF eq] res show ?thesis by simp
    next
      case (Inr v)
      with unlink_law [OF ok u] have "look s2 = (look s1)(?t := None)" by simp
      with kept made grown [OF eq] same [OF eq] res Inr show ?thesis by auto
    qed
  qed
  then show ?kept "r = Inr () \<Longrightarrow> ?done" by blast+
qed

lemma install_asset_ok:
  assumes ok: "files_ok look fs" and key: "picture key" and free: "temps_free look fs s"
    and sha: "sha raw = checksum" and i: "install_asset fs sha key raw checksum s = (r, s')"
  shows "touches look {} s s'" (is ?kept)
    and "r = Inr () \<Longrightarrow> installed look sha key checksum s' \<and> temps_free look fs s'" (is "_ \<Longrightarrow> ?done")
proof -
  note st = storage_law [OF ok]
  have "?kept \<and> (r = Inr () \<longrightarrow> ?done)"
  proof (cases "st_exists (fs_storage fs) key s")
    case (Inl e)
    with i show ?thesis by (auto simp: install_asset_def)
  next
    case (Inr b)
    show ?thesis
    proof (cases b)
      case True
      with i Inr free show ?thesis
        by (auto simp: install_asset_def installed_def dest: read_ok [OF exact_ok [OF st]] split: sum.splits if_splits)
    next
      case False
      with present_law [OF ok Inr] have none: "look s key = None" by simp
      show ?thesis
      proof (cases "fs_local fs")
        case local: True
        obtain r1 s1 where m: "os_makedirs fs key s = (r1, s1)" by force
        note s1 = makedirs_law [OF ok m]
        then have from_start: "touches look {} s s2" if "touches look {} s1 s2" for s2 using that by (simp add: touches_def)
        show ?thesis
        proof (cases r1)
          case (Inl e)
          with i Inr False local m s1 show ?thesis by (auto simp: install_asset_def touches_def)
        next
          case r1: (Inr u)
          from free local s1 have free1: "look s1 (os_temp fs key) = None" by (simp add: temps_free_def)
          from i Inr False local m r1 have "remove_temp fs (os_temp fs key) (place_file fs sha key raw checksum s1) = (r, s')"
            by (simp add: install_asset_def)
          note loc = install_local_ok [OF ok key free1 sha this]
          have "temps_free look fs s'" if "r = Inr ()"
            using loc(2) [OF that] free s1 picture_no_temp [OF ok key] by (auto simp: temps_free_def)
          with loc from_start show ?thesis by blast
        qed
      next
        case remote: False
        obtain r1 s1 where sv: "st_save (fs_storage fs) key raw s = (r1, s1)" by force
        note keep = save_ok(1) [OF exact_ok [OF st] sv] and at = save_ok(2) [OF exact_ok [OF st] sv]
        show ?thesis
        proof (cases "r1 = Inr key")
          case True
          with i Inr False remote sv have "r = Inr ()" "s' = s1" by (simp_all add: install_asset_def)
          with keep at [OF True] remote sha show ?thesis by (auto simp: installed_def temps_free_def)
        next
          case diff: False
          show ?thesis
          proof (cases r1)
            case (Inl e)
            with i Inr False remote sv keep show ?thesis by (auto simp: install_asset_def)
          next
            case r1: (Inr saved)
            obtain r2 s2 where d: "st_delete (fs_storage fs) saved s1 = (r2, s2)" by force
            from r1 diff i Inr False remote sv d have "s' = s2" "r \<noteq> Inr ()"
              by (auto simp: install_asset_def split: sum.splits)
            moreover have "touches look {} s s2"
            proof (rule touches_fresh)
              show "touches look {saved} s s2"
                by (rule touches_trans [OF keep delete_ok(1) [OF exact_ok [OF st] d]]) simp
            qed (use at [OF r1] in simp)
            ultimately show ?thesis by simp
          qed
        qed
      qed
    qed
  qed
  then show ?kept "r = Inr () \<Longrightarrow> ?done" by blast+
qed

section \<open>The verified images\<close>

definition good_image :: "(content \<Rightarrow> nat) \<Rightarrow> pystr \<times> nat \<times> demo_asset \<Rightarrow> bool" where
  "good_image sha a \<longleftrightarrow> (case a of (name, checksum, asset) \<Rightarrow>
     demo_image_name name \<and> sha (asset_content asset) = checksum)"

lemma demo_image_name_png: "demo_image_name s \<Longrightarrow> s \<noteq> [] \<and> last s = 103"
proof -
  assume n: "demo_image_name s"
  let ?tail = "drop (length s - 6) s"
  from n have len: "6 < length s" and tail: "drop 2 ?tail = [46, 112, 110, 103]"
    by (simp_all add: demo_image_name_def Let_def lit_def)
  have "last s = last (drop 2 ?tail)" using len by (simp add: last_drop)
  with tail len show ?thesis by auto
qed

lemma demo_key_picture: "demo_image_name name \<Longrightarrow> picture (demo_key key name)"
  using demo_image_name_png [of name] by (simp add: picture_def demo_key_def)

lemma verify_image_ok: "verify_image source sha codec taken img = Inr a \<Longrightarrow> good_image sha a"
  by (auto simp: verify_image_def good_image_def split: if_splits sum.splits json.splits option.splits prod.splits)

lemma verify_images_ok:
  "verify_images source sha codec taken imgs = Inr as \<Longrightarrow> length as = length imgs \<and> list_all (good_image sha) as"
  by (induction imgs arbitrary: taken as) (auto split: sum.splits dest: verify_image_ok)

lemma verify_sources_ok:
  "verify_sources source sha codec taken items = Inr sources \<Longrightarrow> map fst sources = items \<and>
     (\<forall>(item, as) \<in> set sources. list_all (good_image sha) as \<and> map_option length (image_list item) = Some (length as))"
proof (induction items arbitrary: taken sources)
  case (Cons item items)
  then show ?case by (auto split: option.splits sum.splits dest!: verify_images_ok) blast+
qed simp

lemma check_products_ok:
  assumes "check_products manifest = Inr items"
  shows "length items = 17" "distinct (map item_key items)" "\<And>i. i \<in> set items \<Longrightarrow> item_key i \<noteq> None"
    "sum_list (map (length \<circ> the \<circ> image_list) items) = 50"
  using assms by (auto simp: check_products_def list_ex_iff split: json.splits if_splits)

section \<open>The rows\<close>

lemma put_image_ok:
  assumes wf: "wf_table (product_images d)" and p: "put_image i d = Inr d'"
  obtains t where "d' = d\<lparr>product_images := t\<rparr>" "wf_table t" "\<exists>k. tget t k = Some i"
    "\<And>k j. tget (product_images d) k = Some j \<Longrightarrow>
       (image_product_id j, image_position j) \<noteq> (image_product_id i, image_position i) \<Longrightarrow> tget t k = Some j"
proof (cases "tfirst (\<lambda>_ j. image_product_id j = image_product_id i \<and> image_position j = image_position i) (product_images d)")
  case None
  with p wf show ?thesis
    by (intro that [of "snd (tcreate i (product_images d))"])
       (auto simp: put_image_def tget_tcreate wf_tcreate dest: tget_lt split: if_splits)
next
  case (Some kj)
  obtain k j where kj: "kj = (k, j)" by force
  from tfirst_tget [OF wf Some [unfolded kj]] tfirst_SomeD [OF Some [unfolded kj]] have
    at: "tget (product_images d) k = Some j" "image_product_id j = image_product_id i" "image_position j = image_position i" by simp_all
  from p Some kj have "d' = d\<lparr>product_images := tmodify k (\<lambda>_. i) (product_images d)\<rparr>"
    by (simp add: put_image_def split: if_splits)
  then show ?thesis
    by (rule that) (use at wf in \<open>auto simp: wf_tmodify tget_tmodify\<close>)
qed

lemma demo_row_sel [simp]:
  "image_product_id (demo_row pid n key a) = pid" "image_position (demo_row pid n key a) = n"
  "image_name (demo_row pid n key a) = demo_key key (fst a)" "image_sha256 (demo_row pid n key a) = fst (snd a)"
  by (simp_all add: demo_row_def split: prod.split)

text \<open>The rows of one product are written in order, those of the others stay.\<close>

lemma demo_images_ok:
  assumes ok: "files_ok look (de_files env)"
    and "list_all (good_image (de_sha env)) as" "temps_free look (de_files env) s" "wf_table (product_images d)"
    and "demo_images env pid key n as d s = (r, s')"
  shows "touches look {} s s' \<and> (\<forall>d'. r = Inr d' \<longrightarrow> temps_free look (de_files env) s' \<and>
    (\<exists>t. d' = d\<lparr>product_images := t\<rparr> \<and> wf_table t \<and>
       (\<forall>k j. tget (product_images d) k = Some j \<and> (image_product_id j = pid \<longrightarrow> image_position j < n) \<longrightarrow> tget t k = Some j) \<and>
       (\<forall>m<length as. \<exists>k. tget t k = Some (demo_row pid (n + m) key (as ! m)))) \<and>
    (\<forall>a \<in> set as. installed look (de_sha env) (demo_key key (fst a)) (fst (snd a)) s'))"
  using assms(2-)
proof (induction as arbitrary: n d s)
  case Nil
  then show ?case by (auto intro!: exI [of _ "product_images d"])
next
  case (Cons a as)
  obtain name checksum asset where a: "a = (name, checksum, asset)" by (metis prod_cases3)
  from Cons.prems(1) have "good_image (de_sha env) a" "list_all (good_image (de_sha env)) as" by simp_all
  then have good: "demo_image_name name" "de_sha env (asset_content asset) = checksum"
    "list_all (good_image (de_sha env)) as" by (auto simp: a good_image_def [of _ "(name, checksum, asset)"])
  let ?key = "demo_key key name"
  obtain r1 s1 where i: "install_asset (de_files env) (de_sha env) ?key (asset_content asset) checksum s = (r1, s1)" by force
  note ins = install_asset_ok [OF ok demo_key_picture [OF good(1)] Cons.prems(2) good(2) i]
  show ?case
  proof (cases r1)
    case (Inl e)
    with Cons.prems(4) i ins(1) show ?thesis by (auto simp: a)
  next
    case r1: (Inr u)
    then have r1': "r1 = Inr ()" by (simp add: unit_eq)
    show ?thesis
    proof (cases "put_image (demo_row pid n key a) d")
      case (Inl e)
      with Cons.prems(4) i ins(1) r1 show ?thesis by (auto simp: a)
    next
      case (Inr d1)
      from put_image_ok [OF Cons.prems(3) Inr] obtain t where t: "d1 = d\<lparr>product_images := t\<rparr>" "wf_table t"
        "\<exists>k. tget t k = Some (demo_row pid n key a)"
        and keep: "\<And>k j. tget (product_images d) k = Some j \<Longrightarrow>
          (image_product_id j, image_position j) \<noteq> (pid, n) \<Longrightarrow> tget t k = Some j"
        by auto
      from Cons.prems(4) i r1 Inr have rest: "demo_images env pid key (Suc n) as d1 s1 = (r, s')" by (simp add: a)
      note ih = Cons.IH [OF good(3) conjunct2 [OF ins(2) [OF r1']] _ rest]
      from ih t have tch: "touches look {} s1 s'" by simp
      have keeps: "touches look {} s s'" by (rule touches_trans [OF ins(1) tch]) simp
      have at: "installed look (de_sha env) ?key checksum s'" by (rule installed_touches [OF conjunct1 [OF ins(2) [OF r1']] tch])
      show ?thesis
      proof (intro conjI allI impI keeps)
        fix d' assume d': "r = Inr d'"
        from ih t d' obtain t' where t': "temps_free look (de_files env) s'" "d' = d1\<lparr>product_images := t'\<rparr>" "wf_table t'"
          and k1: "\<And>k j. tget t k = Some j \<and> (image_product_id j = pid \<longrightarrow> image_position j < Suc n) \<longrightarrow> tget t' k = Some j"
          and rows: "\<And>m. m < length as \<Longrightarrow> \<exists>k. tget t' k = Some (demo_row pid (Suc n + m) key (as ! m))"
          and inst: "\<forall>a \<in> set as. installed look (de_sha env) (demo_key key (fst a)) (fst (snd a)) s'"
          by auto
        show "temps_free look (de_files env) s'" by (rule t')
        have "\<exists>k. tget t' k = Some (demo_row pid (n + m) key ((a # as) ! m))" if "m < length (a # as)" for m
        proof (cases m)
          case 0
          from t(3) obtain k where "tget t k = Some (demo_row pid n key a)" ..
          with k1 [of k "demo_row pid n key a"] show ?thesis by (auto simp: 0)
        next
          case (Suc m')
          with rows [of m'] that show ?thesis by simp
        qed
        moreover have "tget t' k = Some j"
          if "tget (product_images d) k = Some j" "image_product_id j = pid \<longrightarrow> image_position j < n" for k j
          using keep [OF that(1)] k1 that(2) by auto
        ultimately show "\<exists>t. d' = d\<lparr>product_images := t\<rparr> \<and> wf_table t \<and>
            (\<forall>k j. tget (product_images d) k = Some j \<and> (image_product_id j = pid \<longrightarrow> image_position j < n) \<longrightarrow> tget t k = Some j) \<and>
            (\<forall>m<length (a # as). \<exists>k. tget t k = Some (demo_row pid (n + m) key ((a # as) ! m)))"
          using t' t(1) by (intro exI [of _ t']) auto
        show "\<forall>a \<in> set (a # as). installed look (de_sha env) (demo_key key (fst a)) (fst (snd a)) s'"
          using at inst by (simp add: a)
      qed
    qed
  qed
qed

text \<open>A product of the manifest as the command leaves it.\<close>

definition item_installed ::
    "'s lookup \<Rightarrow> (content \<Rightarrow> nat) \<Rightarrow> nat \<Rightarrow> json \<times> (pystr \<times> nat \<times> demo_asset) list \<Rightarrow> db \<Rightarrow> 's \<Rightarrow> bool" where
  "item_installed look sha owner ia d s \<longleftrightarrow>
     (\<exists>key pid p. item_key (fst ia) = Some key \<and> tget (products d) pid = Some p \<and> product_demo_key p = Some key \<and>
        product_owner_id p = owner \<and> product_archived_at p = None \<and>
        (\<forall>m<length (snd ia). \<exists>k. tget (product_images d) k = Some (demo_row pid m key (snd ia ! m))) \<and>
        (\<forall>a \<in> set (snd ia). installed look sha (demo_key key (fst a)) (fst (snd a)) s))"

definition demo_tables_ok :: "db \<Rightarrow> bool" where
  "demo_tables_ok d \<longleftrightarrow> wf_table (products d) \<and> wf_table (product_images d)"

lemma demo_product_ok:
  assumes wf: "wf_table (products d)"
    and p: "demo_product env owner key title description price category region d = Inr (pid, d')"
  obtains t q where "d' = d\<lparr>products := t\<rparr>" "wf_table t" "tget t pid = Some q" "product_demo_key q = Some key"
    "product_owner_id q = owner" "product_archived_at q = None"
    "\<And>k r. tget (products d) k = Some r \<Longrightarrow> product_demo_key r \<noteq> Some key \<Longrightarrow> k \<noteq> pid \<and> tget t k = Some r"
proof (cases "tfirst (\<lambda>_ p. product_demo_key p = Some key) (products d)")
  case None
  with p have pid: "pid = next_pk (products d)" by (auto simp: demo_product_def Let_def tcreate_def split: if_splits)
  from None p obtain q where q: "d' = d\<lparr>products := snd (tcreate q (products d))\<rparr>" "product_demo_key q = Some key"
    "product_owner_id q = owner" "product_archived_at q = None"
    by (auto simp: demo_product_def Let_def case_prod_beta split: if_splits)
  from q(1) show ?thesis
    by (rule that) (use wf q pid in \<open>auto simp: wf_tcreate tget_tcreate dest: tget_lt\<close>)
next
  case (Some kr)
  obtain k r where kr: "kr = (k, r)" by force
  from tfirst_tget [OF wf Some [unfolded kr]] tfirst_SomeD [OF Some [unfolded kr]] have
    at: "tget (products d) k = Some r" "product_demo_key r = Some key" by simp_all
  from p Some kr have pid: "pid = k" by (auto simp: demo_product_def Let_def split: if_splits)
  from p Some kr obtain f where f: "d' = d\<lparr>products := tmodify k f (products d)\<rparr>" "product_demo_key (f r) = product_demo_key r"
    "product_owner_id (f r) = owner" "product_archived_at (f r) = None"
    by (auto simp: demo_product_def Let_def split: if_splits)
  from f(1) show ?thesis
    by (rule that) (use wf at f pid in \<open>auto simp: wf_tmodify tget_tmodify\<close>)
qed

lemma ensure_metric_frame [simp]:
  "products (ensure_metric pid d) = products d" "product_images (ensure_metric pid d) = product_images d"
  by (simp_all add: ensure_metric_def split: option.split)

text \<open>One product: an error before the files are touched, or the outcome of its images.\<close>

lemma demo_item_cases:
  assumes "demo_item env owner item as d s = (r, s')"
  obtains (early) e where "r = Inl e" "s' = s"
  | (rows) key title description price category region pid d1 r1 where "item_key item = Some key"
      "demo_product env owner key title description price category region d = Inr (pid, d1)"
      "demo_images env pid key 0 as d1 s = (r1, s')"
      "r = (case r1 of Inl e \<Rightarrow> Inl e | Inr d2 \<Rightarrow>
         Inr (ensure_metric pid (d2\<lparr>product_images := tdelete (\<lambda>_ i. image_product_id i = pid \<and>
            image_name i \<notin> set (map (demo_key key \<circ> fst) as)) (product_images d2)\<rparr>)))"
  using assms by (auto simp: demo_item_def split: sum.splits option.splits prod.splits)

lemma demo_item_ok:
  assumes ok: "files_ok look (de_files env)" and good: "list_all (good_image (de_sha env)) as"
    and free: "temps_free look (de_files env) s" and wf: "demo_tables_ok d"
    and i: "demo_item env owner item as d s = (r, s')"
  shows "touches look {} s s'"
    and "r = Inr d' \<Longrightarrow> temps_free look (de_files env) s' \<and> demo_tables_ok d' \<and>
      item_installed look (de_sha env) owner (item, as) d' s' \<and>
      (\<forall>ia. item_key (fst ia) \<noteq> item_key item \<longrightarrow> item_installed look (de_sha env) owner ia d s \<longrightarrow>
         item_installed look (de_sha env) owner ia d' s')"
proof -
  have "touches look {} s s' \<and> (\<forall>d'. r = Inr d' \<longrightarrow> temps_free look (de_files env) s' \<and> demo_tables_ok d' \<and>
      item_installed look (de_sha env) owner (item, as) d' s' \<and>
      (\<forall>ia. item_key (fst ia) \<noteq> item_key item \<longrightarrow> item_installed look (de_sha env) owner ia d s \<longrightarrow>
         item_installed look (de_sha env) owner ia d' s'))"
    using i
  proof (cases rule: demo_item_cases)
    case (rows key title description price category region pid d1 r1)
    from wf have wfs: "wf_table (products d)" "wf_table (product_images d)" by (simp_all add: demo_tables_ok_def)
    from demo_product_ok [OF wfs(1) rows(2)] obtain t q where t: "d1 = d\<lparr>products := t\<rparr>" "wf_table t" "tget t pid = Some q"
      "product_demo_key q = Some key" "product_owner_id q = owner" "product_archived_at q = None"
      and others: "\<And>k r. tget (products d) k = Some r \<Longrightarrow> product_demo_key r \<noteq> Some key \<Longrightarrow> k \<noteq> pid \<and> tget t k = Some r"
      by blast
    from t(1) wfs(2) have "wf_table (product_images d1)" by simp
    note imgs = demo_images_ok [OF ok good free this rows(3)]
    show ?thesis
    proof (intro conjI [OF conjunct1 [OF imgs]] allI impI)
      fix d' assume d': "r = Inr d'"
      with rows(4) obtain d2 where r1: "r1 = Inr d2" by (cases r1) auto
      let ?drop = "\<lambda>_ i. image_product_id i = pid \<and> image_name i \<notin> set (map (demo_key key \<circ> fst) as)"
      from imgs r1 obtain u where u: "temps_free look (de_files env) s'" "d2 = d1\<lparr>product_images := u\<rparr>" "wf_table u"
        and keep: "\<And>k j. tget (product_images d1) k = Some j \<Longrightarrow> image_product_id j \<noteq> pid \<Longrightarrow> tget u k = Some j"
        and own: "\<And>m. m < length as \<Longrightarrow> \<exists>k. tget u k = Some (demo_row pid (0 + m) key (as ! m))"
        and inst: "\<forall>a \<in> set as. installed look (de_sha env) (demo_key key (fst a)) (fst (snd a)) s'"
        by auto
      from d' rows(4) r1 u(2) t(1) have tabs: "products d' = t" "product_images d' = tdelete ?drop u" by auto
      have row: "\<exists>k. tget (product_images d') k = Some (demo_row pid m key (as ! m))" if m: "m < length as" for m
      proof -
        from own [OF m] obtain k where "tget u k = Some (demo_row pid m key (as ! m))" by auto
        moreover from m have "\<not> ?drop k (demo_row pid m key (as ! m))" by simp
        ultimately show ?thesis by (intro exI [of _ k]) (simp only: tabs tget_tdelete [OF u(3)] option.case if_False)
      qed
      have "item_installed look (de_sha env) owner ia d' s'"
        if "item_key (fst ia) \<noteq> item_key item" "item_installed look (de_sha env) owner ia d s" for ia
      proof -
        from that(2) obtain key' pid' p' where o: "item_key (fst ia) = Some key'" "tget (products d) pid' = Some p'"
          "product_demo_key p' = Some key'" "product_owner_id p' = owner" "product_archived_at p' = None"
          and pics: "\<forall>m<length (snd ia). \<exists>k. tget (product_images d) k = Some (demo_row pid' m key' (snd ia ! m))"
          and files: "\<forall>a \<in> set (snd ia). installed look (de_sha env) (demo_key key' (fst a)) (fst (snd a)) s"
          by (auto simp: item_installed_def)
        from that(1) o(1) rows(1) have "key' \<noteq> key" by simp
        with others [OF o(2)] o(3) have at: "pid' \<noteq> pid" "tget t pid' = Some p'" by auto
        have "\<exists>k. tget (product_images d') k = Some (demo_row pid' m key' (snd ia ! m))" if m: "m < length (snd ia)" for m
        proof -
          let ?row = "demo_row pid' m key' (snd ia ! m)"
          from pics m obtain k where "tget (product_images d) k = Some ?row" by auto
          then have "tget u k = Some ?row" by (intro keep) (use t(1) at(1) in auto)
          with at(1) show ?thesis by (intro exI [of _ k]) (simp add: tabs tget_tdelete [OF u(3)])
        qed
        with o at files show ?thesis
          by (auto simp: item_installed_def tabs intro!: exI [of _ pid'] installed_touches [OF _ conjunct1 [OF imgs]])
      qed
      with u t row inst rows(1) show "temps_free look (de_files env) s' \<and> demo_tables_ok d' \<and>
        item_installed look (de_sha env) owner (item, as) d' s' \<and>
        (\<forall>ia. item_key (fst ia) \<noteq> item_key item \<longrightarrow> item_installed look (de_sha env) owner ia d s \<longrightarrow>
           item_installed look (de_sha env) owner ia d' s')"
        by (auto simp: demo_tables_ok_def tabs wf_tdelete item_installed_def intro!: exI [of _ pid])
    qed
  qed simp
  then show "touches look {} s s'" and "r = Inr d' \<Longrightarrow> temps_free look (de_files env) s' \<and> demo_tables_ok d' \<and>
      item_installed look (de_sha env) owner (item, as) d' s' \<and>
      (\<forall>ia. item_key (fst ia) \<noteq> item_key item \<longrightarrow> item_installed look (de_sha env) owner ia d s \<longrightarrow>
         item_installed look (de_sha env) owner ia d' s')"
    by blast+
qed

text \<open>
  The clean-up after the images goes by name, not by position: when the manifest of a product shrinks and a name moves
  to an earlier position, the row it had stays, and the picture is shown twice.
\<close>

lemma demo_images_beyond:
  "demo_images env pid key n as d s = (Inr d', s') \<Longrightarrow> wf_table (product_images d) \<Longrightarrow>
    tget (product_images d) k = Some j \<Longrightarrow> n + length as \<le> image_position j \<Longrightarrow>
    wf_table (product_images d') \<and> tget (product_images d') k = Some j"
proof (induction as arbitrary: n d s)
  case (Cons a as)
  from Cons.prems(1) obtain s1 d1 where p: "put_image (demo_row pid n key a) d = Inr d1"
    and rest: "demo_images env pid key (Suc n) as d1 s1 = (Inr d', s')" by (auto split: sum.splits prod.splits)
  obtain t where t: "d1 = d\<lparr>product_images := t\<rparr>" "wf_table t"
    and keep: "\<And>k i. tget (product_images d) k = Some i \<Longrightarrow> (image_product_id i, image_position i) \<noteq> (pid, n) \<Longrightarrow> tget t k = Some i"
    by (rule put_image_ok [OF Cons.prems(2) p]) auto
  from t keep [OF Cons.prems(3)] Cons.prems(4) have "wf_table (product_images d1)" "tget (product_images d1) k = Some j" by simp_all
  from Cons.IH [OF rest this] Cons.prems(4) show ?case by simp
qed simp

lemma stale_image_survives:
  assumes "demo_item env owner item as d s = (Inr d', s')" "wf_table (product_images d)"
    and "item_key item = Some key" "tfirst (\<lambda>_ p. product_demo_key p = Some key) (products d) = Some (pid, p)"
    and "tget (product_images d) k = Some j" "length as \<le> image_position j"
    and "image_name j \<in> set (map (demo_key key \<circ> fst) as)"
  shows "tget (product_images d') k = Some j"
  using assms(1)
proof (cases rule: demo_item_cases)
  case (rows key' title description price category region pid' d1 r1)
  from rows(1) assms(3) have key: "key' = key" by simp
  from rows(2) assms(4) key have d1: "product_images d1 = product_images d"
    by (auto simp: demo_product_def Let_def split: if_splits)
  from rows(4) obtain d2 where r1: "r1 = Inr d2" by (cases r1) auto
  from demo_images_beyond [OF rows(3) [unfolded r1], of k j] assms(2,5,6) have
    "wf_table (product_images d2)" "tget (product_images d2) k = Some j" by (simp_all add: d1)
  then show ?thesis using rows(4) assms(7) by (simp add: r1 key tget_tdelete)
qed simp

text \<open>All the products: their keys are distinct, so a later one leaves what an earlier one installed.\<close>

lemma demo_items_ok:
  assumes ok: "files_ok look (de_files env)"
    and "list_all (\<lambda>ia. list_all (good_image (de_sha env)) (snd ia)) sources" "distinct (map (item_key \<circ> fst) sources)"
    and "temps_free look (de_files env) s" "demo_tables_ok d" "demo_items env owner sources d s = (r, s')"
  shows "touches look {} s s' \<and> (\<forall>d'. r = Inr d' \<longrightarrow>
    (\<forall>ia \<in> set sources. item_installed look (de_sha env) owner ia d' s') \<and>
    (\<forall>ia. item_key (fst ia) \<notin> set (map (item_key \<circ> fst) sources) \<longrightarrow> item_installed look (de_sha env) owner ia d s \<longrightarrow>
       item_installed look (de_sha env) owner ia d' s'))"
  using assms(2-)
proof (induction sources arbitrary: d s)
  case (Cons ia sources)
  obtain item as where ia: "ia = (item, as)" by force
  from Cons.prems(1) have good: "list_all (good_image (de_sha env)) as"
    "list_all (\<lambda>ia. list_all (good_image (de_sha env)) (snd ia)) sources" by (simp_all add: ia)
  obtain r1 s1 where i: "demo_item env owner item as d s = (r1, s1)" by force
  note one = demo_item_ok [OF ok good(1) Cons.prems(3,4) i]
  show ?case
  proof (cases r1)
    case (Inl e)
    with Cons.prems(5) i one(1) show ?thesis by (auto simp: ia)
  next
    case (Inr d1)
    with Cons.prems(5) i have rest: "demo_items env owner sources d1 s1 = (r, s')" by (simp add: ia)
    from one(2) [OF Inr] have free: "temps_free look (de_files env) s1" "demo_tables_ok d1" by simp_all
    from Cons.prems(2) have dist: "distinct (map (item_key \<circ> fst) sources)"
      "item_key item \<notin> set (map (item_key \<circ> fst) sources)" by (auto simp: ia comp_def)
    note ih = Cons.IH [OF good(2) dist(1) free rest]
    have "touches look {} s s'" by (rule touches_trans [OF one(1) conjunct1 [OF ih]]) simp
    with ih one(2) [OF Inr] dist(2) show ?thesis by (auto simp: ia)
  qed
qed auto

lemma demo_images_users: "demo_images env pid key n as d s = (Inr d', s') \<Longrightarrow> users d' = users d"
  by (induction as arbitrary: n d s) (auto simp: put_image_def split: sum.splits prod.splits if_splits option.splits)

lemma demo_item_users: "demo_item env owner item as d s = (Inr d', s') \<Longrightarrow> users d' = users d"
  by (erule demo_item_cases)
    (auto simp: ensure_metric_def demo_product_def Let_def dest!: demo_images_users split: sum.splits option.splits if_splits prod.splits)

lemma demo_items_users: "demo_items env owner sources d s = (Inr d', s') \<Longrightarrow> users d' = users d"
proof (induction sources arbitrary: d s)
  case (Cons ia sources)
  then show ?case by (cases ia) (auto dest!: demo_item_users split: sum.splits prod.splits)
qed simp

section \<open>The command\<close>

lemma ensure_account_frame:
  assumes "ensure_account jid u d = Inr (k, d')"
  shows "products d' = products d \<and> product_images d' = product_images d \<and> users d' = users d \<and>
    categories d' = categories d \<and> regions d' = regions d"
  using assms
  by (auto simp: ensure_account_def get_or_create_reserve_def get_or_create_safety_def create_account_def
      create_ledger_account_def create_journal_def add_entry_def Let_def split: option.splits sum.splits prod.splits if_splits)

definition demo_owner_row :: "user \<Rightarrow> bool" where
  "demo_owner_row u \<longleftrightarrow> user_username u = DEMO_OWNER \<and> user_password u = None \<and> user_is_active u"

lemma demo_owner_ok:
  assumes wf: "wf_table (users d)" and o: "demo_owner env d = Inr (owner, d')"
  shows "products d' = products d" "product_images d' = product_images d"
    "\<exists>u. tget (users d') owner = Some u \<and> demo_owner_row u"
proof -
  have "products d' = products d \<and> product_images d' = product_images d \<and>
      (\<exists>u. tget (users d') owner = Some u \<and> demo_owner_row u)"
  proof (cases "tfirst (\<lambda>_ u. user_username u = DEMO_OWNER) (users d)")
    case None
    with o wf show ?thesis
      by (auto simp: demo_owner_def demo_owner_row_def Let_def case_prod_beta tget_tmodify tget_tcreate
          dest!: ensure_account_frame split: sum.splits)
  next
    case (Some ku)
    obtain k u where ku: "ku = (k, u)" by force
    from tfirst_tget [OF wf Some [unfolded ku]] tfirst_SomeD [OF Some [unfolded ku]] have
      "tget (users d) k = Some u" "user_username u = DEMO_OWNER" by simp_all
    with o Some ku show ?thesis
      by (auto simp: demo_owner_def demo_owner_row_def Let_def tget_tmodify split: if_splits)
  qed
  then show "products d' = products d" "product_images d' = product_images d"
    "\<exists>u. tget (users d') owner = Some u \<and> demo_owner_row u" by blast+
qed

text \<open>With as many products as the manifest has keys, the owner has no others.\<close>

lemma owner_sells_manifest:
  assumes "tcount (\<lambda>_ p. product_owner_id p = owner) (products d) = length sources"
    and "distinct (map (item_key \<circ> fst) sources)"
    and "\<forall>ia \<in> set sources. item_installed look sha owner ia d s"
    and "tget (products d) k = Some p" "product_owner_id p = owner"
  shows "product_demo_key p \<in> set (map (item_key \<circ> fst) sources)"
proof -
  let ?own = "map (product_demo_key \<circ> snd) (tselect (\<lambda>_ p. product_owner_id p = owner) (products d))"
  have mem: "product_demo_key q \<in> set ?own" if "tget (products d) i = Some q" "product_owner_id q = owner" for i q
    using that by (force simp: tselect_def dest: tget_in_rows)
  have "set (map (item_key \<circ> fst) sources) = set ?own"
  proof (rule card_seteq)
    show "set (map (item_key \<circ> fst) sources) \<subseteq> set ?own"
    proof
      fix key assume "key \<in> set (map (item_key \<circ> fst) sources)"
      with assms(3) obtain ia where "item_installed look sha owner ia d s" "key = item_key (fst ia)" by auto
      then show "key \<in> set ?own" unfolding item_installed_def using mem by metis
    qed
    have "card (set ?own) \<le> length sources" using card_length [of ?own] assms(1) by (simp add: tcount_def)
    then show "card (set ?own) \<le> card (set (map (item_key \<circ> fst) sources))" using distinct_card [OF assms(2)] by simp
  qed simp
  with mem [OF assms(4,5)] show ?thesis by simp
qed

text \<open>
  The catalogue of a manifest: 17 products and 50 images, an owner nobody can log in as who sells exactly these
  products, each public with its gallery in order and its files in the storage.
\<close>

definition demo_catalog :: "'s lookup \<Rightarrow> 's demo_env \<Rightarrow> db \<Rightarrow> 's \<Rightarrow> bool" where
  "demo_catalog look env d s \<longleftrightarrow>
     (\<exists>manifest sources owner u. de_document env = Inr manifest \<and>
        field ''products'' manifest = J_List (map fst sources) \<and> length sources = 17 \<and>
        sum_list (map (length \<circ> snd) sources) = 50 \<and>
        tget (users d) owner = Some u \<and> demo_owner_row u \<and>
        (\<forall>ia \<in> set sources. item_installed look (de_sha env) owner ia d s) \<and>
        (\<forall>k p. tget (products d) k = Some p \<and> product_owner_id p = owner \<longrightarrow>
           product_demo_key p \<in> set (map (item_key \<circ> fst) sources)))"

lemma load_manifest_ok: "load_manifest document = Inr manifest \<Longrightarrow> document = Inr manifest"
  by (auto simp: load_manifest_def split: sum.splits if_splits)

lemma check_products_items: "check_products manifest = Inr items \<Longrightarrow> field ''products'' manifest = J_List items"
  by (auto simp: check_products_def split: json.splits if_splits)

lemma demo_transaction_ok:
  assumes ok: "files_ok look (de_files env)" and free: "temps_free look (de_files env) s"
    and wf: "wf_table (users d)" "demo_tables_ok d"
    and good: "list_all (\<lambda>ia. list_all (good_image (de_sha env)) (snd ia)) sources"
    and dist: "distinct (map (item_key \<circ> fst) sources)" and len: "length sources = 17"
    and t: "demo_transaction env sources d s = (r, s')"
  shows "touches look {} s s'"
    and "r = Inr d' \<Longrightarrow> \<exists>owner u. tget (users d') owner = Some u \<and> demo_owner_row u \<and>
        (\<forall>ia \<in> set sources. item_installed look (de_sha env) owner ia d' s') \<and>
        (\<forall>k p. tget (products d') k = Some p \<and> product_owner_id p = owner \<longrightarrow>
           product_demo_key p \<in> set (map (item_key \<circ> fst) sources))"
proof -
  have "touches look {} s s' \<and> (r = Inr d' \<longrightarrow> (\<exists>owner u. tget (users d') owner = Some u \<and> demo_owner_row u \<and>
        (\<forall>ia \<in> set sources. item_installed look (de_sha env) owner ia d' s') \<and>
        (\<forall>k p. tget (products d') k = Some p \<and> product_owner_id p = owner \<longrightarrow>
           product_demo_key p \<in> set (map (item_key \<circ> fst) sources))))"
  proof (cases "demo_owner env d")
    case (Inl e)
    with t show ?thesis by (auto simp: demo_transaction_def)
  next
    case (Inr od)
    obtain owner d1 where od: "od = (owner, d1)" by force
    obtain r1 s1 where i: "demo_items env owner sources d1 s = (r1, s1)" by force
    from t Inr od i have s1: "s' = s1" by (auto simp: demo_transaction_def split: sum.splits if_splits)
    note own = demo_owner_ok [OF wf(1) Inr [unfolded od]]
    with wf(2) have "demo_tables_ok d1" by (simp add: demo_tables_ok_def)
    note all = demo_items_ok [OF ok good dist free this i]
    show ?thesis
    proof (intro conjI impI)
      show "touches look {} s s'" using all s1 by simp
      assume "r = Inr d'"
      with t Inr od i have r1: "r1 = Inr d'" and count: "tcount (\<lambda>_ p. product_owner_id p = owner) (products d') = length sources"
        by (auto simp: demo_transaction_def len split: sum.splits if_splits)
      from all r1 s1 have inst: "\<forall>ia \<in> set sources. item_installed look (de_sha env) owner ia d' s'" by simp
      from own(3) demo_items_users [OF i [unfolded r1]] obtain u where "tget (users d') owner = Some u" "demo_owner_row u"
        by auto
      with inst show "\<exists>owner u. tget (users d') owner = Some u \<and> demo_owner_row u \<and>
          (\<forall>ia \<in> set sources. item_installed look (de_sha env) owner ia d' s') \<and>
          (\<forall>k p. tget (products d') k = Some p \<and> product_owner_id p = owner \<longrightarrow>
             product_demo_key p \<in> set (map (item_key \<circ> fst) sources))"
        using owner_sells_manifest [OF count dist inst] by blast
    qed
  qed
  then show "touches look {} s s'" and "r = Inr d' \<Longrightarrow> \<exists>owner u. tget (users d') owner = Some u \<and> demo_owner_row u \<and>
        (\<forall>ia \<in> set sources. item_installed look (de_sha env) owner ia d' s') \<and>
        (\<forall>k p. tget (products d') k = Some p \<and> product_owner_id p = owner \<longrightarrow>
           product_demo_key p \<in> set (map (item_key \<circ> fst) sources))"
    by blast+
qed

lemma verified_lengths:
  assumes "\<forall>(item, as) \<in> set sources. list_all (good_image sha) as \<and> map_option length (image_list item) = Some (length as)"
  shows "map (length \<circ> the \<circ> image_list) (map fst sources) = map (length \<circ> snd) sources"
  using assms by (induction sources) (auto split: option.splits)


text \<open>A manifest of 17 products and 50 images, installed into an empty directory.\<close>

definition small_image :: "nat \<Rightarrow> nat \<Rightarrow> json" where
  "small_image i j = J_Object
     [(lit ''file'', J_Str ([97 + i, 45, 49 + j] @ lit ''.png'')), (lit ''sha256'', J_Str (replicate 64 48)),
      (lit ''content_type'', J_Str (lit ''image/png'')), (lit ''byte_size'', J_Int 1), (lit ''width'', J_Int 2),
      (lit ''height'', J_Int 2)]"

definition small_item :: "nat \<Rightarrow> json" where
  "small_item i = J_Object
     [(lit ''key'', J_Str [97 + i]), (lit ''title'', J_Str [116]), (lit ''description'', J_Str [100]),
      (lit ''price'', J_Int 1000), (lit ''category'', J_Str [99]), (lit ''region'', J_Str [114]),
      (lit ''images'', J_List (map (small_image i) (if i = 0 then [0, 1] else [0, 1, 2])))]"

definition small_manifest :: json where
  "small_manifest = J_Object
     [(lit ''generator'', J_Object [(lit ''name'', J_Str (lit ''agy'')), (lit ''version'', J_Str (lit ''1.1.4'')),
        (lit ''mode'', J_Str (lit ''sequential''))]),
      (lit ''products'', J_List (map small_item [0, 1, 2, 3, 4, 5, 6, 7, 8, 9, 10, 11, 12, 13, 14, 15, 16]))]"

definition memory_files :: "(pystr \<Rightarrow> content option) file_system" where
  "memory_files = \<lparr>fs_storage = memory_storage, fs_local = True, os_temp = (\<lambda>k. k @ [48]),
     os_makedirs = (\<lambda>k s. (Inr (), s)),
     os_write_new = (\<lambda>k c s. if s k = None then (Inr (), s(k \<mapsto> c)) else (Inl RuntimeError, s)),
     os_exists = (\<lambda>k s. s k \<noteq> None),
     os_read = (\<lambda>k s. case s k of None \<Rightarrow> Inl ObjectDoesNotExist | Some c \<Rightarrow> Inr c),
     os_replace = (\<lambda>j k s. (Inr (), s(k := s j, j := None))), os_unlink = (\<lambda>k s. (Inr (), s(k := None)))\<rparr>"

lemma memory_files_ok: "files_ok (\<lambda>s. s) memory_files"
  by (simp add: files_ok_def memory_files_def memory_storage_exact)
    (auto simp: memory_storage_def is_lower_hex_def is_digit_def split: if_splits option.splits)

definition small_env :: "(pystr \<Rightarrow> content option) demo_env" where
  "small_env = \<lparr>de_app_env = lit ''development'', de_enabled = True, de_document = Inr small_manifest,
     de_source = (\<lambda>_. Some [7]), de_sha = (\<lambda>_. 0),
     de_codec = \<lparr>codec_open = (\<lambda>_. Some \<lparr>probe_format = Some PNG, probe_frames = 1, probe_width = 2, probe_height = 2\<rparr>),
       codec_load = (\<lambda>_. Some (2, 2)), codec_encode = (\<lambda>_ c. Some c)\<rparr>,
     de_files = memory_files, de_nfc = (\<lambda>t. t), de_price = (\<lambda>v. case v of J_Int n \<Rightarrow> Inr n | _ \<Rightarrow> Inl TypeError),
     de_code = (\<lambda>v. case v of J_Str t \<Rightarrow> Inr t | _ \<Rightarrow> Inl TypeError), de_now = 0, de_journal = 5\<rparr>"

definition shop_db :: db where
  "shop_db = empty_db\<lparr>categories := [[99]], regions := [[114]]\<rparr>"

lemma small_fields:
  "field ''key'' (small_item i) = J_Str [97 + i]" "field ''images'' (small_item i) = J_List (map (small_image i) (if i = 0 then [0, 1] else [0, 1, 2]))"
  "json_item (small_item i) ''category'' = Inr (J_Str [99])" "json_item (small_item i) ''region'' = Inr (J_Str [114])"
  "json_item (small_item i) ''title'' = Inr (J_Str [116])" "json_item (small_item i) ''description'' = Inr (J_Str [100])"
  "json_item (small_item i) ''price'' = Inr (J_Int 1000)"
  "json_get (small_image i j) ''file'' (J_Str []) = Inr (J_Str ([97 + i, 45, 49 + j] @ lit ''.png''))"
  "field ''sha256'' (small_image i j) = J_Str (replicate 64 48)"
  "field ''content_type'' (small_image i j) = J_Str (lit ''image/png'')" "field ''byte_size'' (small_image i j) = J_Int 1"
  "field ''width'' (small_image i j) = J_Int 2" "field ''height'' (small_image i j) = J_Int 2"
  "is_object (small_item i)" "is_object (small_image i j)"
  by (simp_all add: small_item_def small_image_def field_def json_get_def json_item_def is_object_def lit_inject)

definition small_asset :: "nat \<Rightarrow> nat \<Rightarrow> pystr \<times> nat \<times> demo_asset" where
  "small_asset i j = ([97 + i, 45, 49 + j] @ lit ''.png'', 0, \<lparr>asset_content = [7], asset_width = 2, asset_height = 2\<rparr>)"

lemma small_image_name: "i < 26 \<Longrightarrow> j < 4 \<Longrightarrow> demo_image_name ([97 + i, 45, 49 + j] @ lit ''.png'')"
  by (simp add: demo_image_name_def Let_def lit_def word_char_def is_digit_def)

lemma small_verified:
  assumes "i < 26" "j < 4" "fst (small_asset i j) \<notin> set taken"
  shows "verify_image (de_source small_env) (de_sha small_env) (de_codec small_env) taken (small_image i j) = Inr (small_asset i j)"
proof -
  have "digest_text (replicate 64 48) = Some 0" by code_simp
  with assms small_image_name [OF assms(1,2)] show ?thesis
    by (simp add: verify_image_def small_fields small_env_def small_asset_def bounded_int_def MAX_IMAGE_BYTES_def
        MAX_IMAGE_DIMENSION_def)
qed

lemma small_asset_name: "fst (small_asset i j) = fst (small_asset k l) \<longleftrightarrow> i = k \<and> j = l"
  by (simp add: small_asset_def)

definition small_assets :: "nat \<Rightarrow> (pystr \<times> nat \<times> demo_asset) list" where
  "small_assets i = map (small_asset i) (if i = 0 then [0, 1] else [0, 1, 2])"

lemma small_sources:
  assumes "distinct is" "\<forall>i \<in> set is. i < 26 \<and> (\<forall>j. fst (small_asset i j) \<notin> set taken)"
  shows "verify_sources (de_source small_env) (de_sha small_env) (de_codec small_env) taken (map small_item is)
    = Inr (map (\<lambda>i. (small_item i, small_assets i)) is)"
  using assms
proof (induction "is" arbitrary: taken)
  case (Cons i "is")
  have imgs: "image_list (small_item i) = Some (map (small_image i) (if i = 0 then [0, 1] else [0, 1, 2]))"
    by (simp add: image_list_def small_fields)
  have "verify_images (de_source small_env) (de_sha small_env) (de_codec small_env) taken
      (map (small_image i) (if i = 0 then [0, 1] else [0, 1, 2])) = Inr (small_assets i)"
    using Cons.prems(2) by (cases "i = 0") (simp_all add: small_verified small_asset_name small_assets_def)
  moreover have "k \<noteq> i" if "k \<in> set is" for k using Cons.prems(1) that by auto
  then have "\<forall>k \<in> set is. k < 26 \<and> (\<forall>j. fst (small_asset k j) \<notin> set (map fst (small_assets i) @ taken))"
    using Cons.prems(2) by (auto simp: small_assets_def small_asset_name)
  ultimately show ?case using Cons.IH [of "map fst (small_assets i) @ taken"] Cons.prems(1) by (simp add: imgs)
qed simp

lemma memory_files_sel:
  "fs_storage memory_files = memory_storage" "fs_local memory_files" "os_temp memory_files k = k @ [48]"
  "os_makedirs memory_files k s = (Inr (), s)"
  "os_write_new memory_files k c s = (if s k = None then (Inr (), s(k \<mapsto> c)) else (Inl RuntimeError, s))"
  "os_exists memory_files k s \<longleftrightarrow> s k \<noteq> None"
  "os_read memory_files k s = (case s k of None \<Rightarrow> Inl ObjectDoesNotExist | Some c \<Rightarrow> Inr c)"
  "os_replace memory_files j k s = (Inr (), s(k := s j, j := None))"
  "os_unlink memory_files k s = (Inr (), s(k := None))"
  "st_exists memory_storage k s = Inr (s k \<noteq> None)"
  "st_read memory_storage k s = (case s k of None \<Rightarrow> Inl ObjectDoesNotExist | Some c \<Rightarrow> Inr c)"
  by (simp_all add: memory_files_def memory_storage_def)

lemma memory_install:
  assumes free: "temps_free (\<lambda>s. s) memory_files s" and key: "picture key" and sha: "sha = (\<lambda>_. 0)"
  obtains s' where "install_asset memory_files sha key raw 0 s = (Inr (), s')" "temps_free (\<lambda>s. s) memory_files s'"
proof -
  obtain r s' where i: "install_asset memory_files sha key raw 0 s = (r, s')" by force
  from free key have "fst (install_asset memory_files sha key raw 0 s) = Inr ()"
    by (cases "s key") (auto simp: install_asset_def place_file_def remove_temp_def memory_files_sel temps_free_def sha)
  with i have "r = Inr ()" by simp
  with i install_asset_ok(2) [OF memory_files_ok key free _ i] show ?thesis by (auto intro: that simp: sha)
qed

definition small_ok :: "pystr \<times> nat \<times> demo_asset \<Rightarrow> bool" where
  "small_ok a \<longleftrightarrow> demo_image_name (fst a) \<and> snd a = (0, \<lparr>asset_content = [7], asset_width = 2, asset_height = 2\<rparr>)"

lemma small_assets_ok: "i < 26 \<Longrightarrow> list_all small_ok (small_assets i) \<and> length (small_assets i) \<le> 3"
  using small_image_name [of i 0] small_image_name [of i 1] small_image_name [of i 2]
  by (cases "i = 0") (simp_all add: small_assets_def small_asset_def small_ok_def)

lemma small_images_run:
  assumes "list_all small_ok as" "n + length as \<le> 4" "temps_free (\<lambda>s. s) memory_files s"
  shows "\<exists>t s'. demo_images small_env pid key n as d s = (Inr (d\<lparr>product_images := t\<rparr>), s') \<and> temps_free (\<lambda>s. s) memory_files s'"
  using assms
proof (induction as arbitrary: n d s)
  case Nil
  then show ?case by (auto intro: exI [of _ "product_images d"])
next
  case (Cons a as)
  from Cons.prems(1) have a: "demo_image_name (fst a)" "snd a = (0, \<lparr>asset_content = [7], asset_width = 2, asset_height = 2\<rparr>)"
    by (simp_all add: small_ok_def)
  obtain s1 where s1: "install_asset memory_files (\<lambda>_. 0) (demo_key key (fst a)) [7] 0 s = (Inr (), s1)"
    "temps_free (\<lambda>s. s) memory_files s1" by (rule memory_install [OF Cons.prems(3) demo_key_picture [OF a(1)] refl])
  from Cons.prems(2) a(2) have "product_image_check (demo_row pid n key a)"
    by (cases a) (simp add: product_image_check_def demo_row_def)
  then obtain t where "put_image (demo_row pid n key a) d = Inr (d\<lparr>product_images := t\<rparr>)"
    by (cases "tfirst (\<lambda>_ j. image_product_id j = pid \<and> image_position j = n) (product_images d)")
      (auto simp: put_image_def)
  with s1 a(2) Cons.IH [OF _ _ s1(2), of "Suc n" "d\<lparr>product_images := t\<rparr>"] Cons.prems(1,2) show ?case
    by (auto simp: small_env_def)
qed

text \<open>Who owns which key.\<close>

definition keys_of :: "product table \<Rightarrow> (nat \<times> pystr option) list" where
  "keys_of t = map (\<lambda>(_, p). (product_owner_id p, product_demo_key p)) (rows t)"

lemma small_item_run:
  assumes "i < 26" "temps_free (\<lambda>s. s) memory_files s" "categories d = [[99]]" "regions d = [[114]]"
    and "Some [97 + i] \<notin> snd ` set (keys_of (products d))"
  shows "\<exists>d' s'. demo_item small_env owner (small_item i) (small_assets i) d s = (Inr d', s') \<and>
    temps_free (\<lambda>s. s) memory_files s' \<and> categories d' = [[99]] \<and> regions d' = [[114]] \<and>
    keys_of (products d') = keys_of (products d) @ [(owner, Some [97 + i])]"
proof -
  from assms(5) have none: "tfirst (\<lambda>_ p. product_demo_key p = Some [97 + i]) (products d) = None"
    by (force simp: tfirst_def find_None_iff keys_of_def)
  obtain pid t where p: "demo_product small_env owner [97 + i] [116] [100] 1000 [99] [114] d = Inr (pid, d\<lparr>products := t\<rparr>)"
    "keys_of t = keys_of (products d) @ [(owner, Some [97 + i])]"
    using none by (auto simp: demo_product_def Let_def tcreate_def tinsert_def keys_of_def)
  from small_images_run [OF conjunct1 [OF small_assets_ok [OF assms(1)]] _ assms(2), of 0 pid "[97 + i]" "d\<lparr>products := t\<rparr>"]
    small_assets_ok [OF assms(1)] obtain u s' where
    i: "demo_images small_env pid [97 + i] 0 (small_assets i) (d\<lparr>products := t\<rparr>) s =
        (Inr (d\<lparr>products := t, product_images := u\<rparr>), s')" "temps_free (\<lambda>s. s) memory_files s'" by auto
  have refs: "demo_reference small_env (small_item i) ''category'' (categories d) = Inr [99]"
    "demo_reference small_env (small_item i) ''region'' (regions d) = Inr [114]"
    by (simp_all add: demo_reference_def small_fields assms(3,4) small_env_def)
  have conv: "item_key (small_item i) = Some [97 + i]" "demo_text small_env (J_Str t) = Inr t"
    "de_price small_env (J_Int 1000) = Inr 1000" for t
    by (simp_all add: item_key_def small_fields demo_text_def small_env_def)
  show ?thesis
    unfolding demo_item_def refs conv(1) small_fields using p i assms(3,4)
    by (simp add: conv ensure_metric_def split: option.split)
qed

lemma small_items_run:
  assumes "distinct is" "\<forall>i \<in> set is. i < 26 \<and> Some [97 + i] \<notin> snd ` set (keys_of (products d))"
    "temps_free (\<lambda>s. s) memory_files s" "categories d = [[99]]" "regions d = [[114]]"
  shows "\<exists>d' s'. demo_items small_env owner (map (\<lambda>i. (small_item i, small_assets i)) is) d s = (Inr d', s') \<and>
    keys_of (products d') = keys_of (products d) @ map (\<lambda>i. (owner, Some [97 + i])) is"
  using assms
proof (induction "is" arbitrary: d s)
  case (Cons i "is")
  from Cons.prems small_item_run [of i s d owner] obtain d1 s1 where
    one: "demo_item small_env owner (small_item i) (small_assets i) d s = (Inr d1, s1)"
    "temps_free (\<lambda>s. s) memory_files s1" "categories d1 = [[99]]" "regions d1 = [[114]]"
    "keys_of (products d1) = keys_of (products d) @ [(owner, Some [97 + i])]" by auto
  have "\<forall>k \<in> set is. k < 26 \<and> Some [97 + k] \<notin> snd ` set (keys_of (products d1))"
    using Cons.prems(1,2) by (auto simp: one(5))
  from Cons.IH [OF _ this one(2-4)] Cons.prems(1) show ?case by (auto simp: one(1,5))
qed simp

lemma shop_owner:
  obtains d1 where "demo_owner small_env shop_db = Inr (1, d1)" "products d1 = empty_table"
    "categories d1 = [[99]]" "regions d1 = [[114]]"
proof -
  let ?u = "\<lparr>user_username = DEMO_OWNER, user_password = None, user_is_active = True, user_is_staff = False,
    user_is_superuser = False, user_meta_permission = False, user_bio = [], user_auth_epoch = 0,
    user_withdrawn_at = None, user_date_joined = 0\<rparr>"
  let ?d = "shop_db\<lparr>users := \<lparr>rows = [(1, ?u)], next_pk = 2\<rparr>\<rparr>"
  have "ledger_inv ?d"
    by (rule same_ledger_inv [OF _ ledger_inv_empty]) (simp add: same_ledger_def shop_db_def)
  moreover have "tget (ledger_journals ?d) 5 = None" by (simp add: shop_db_def empty_db_def empty_table_def tget_def)
  ultimately obtain k d' where e: "ensure_account 5 1 ?d = Inr (k, d')" by (rule ensure_account_ok)
  from e have "demo_owner small_env shop_db = Inr (1, d'\<lparr>users :=
      tmodify 1 (\<lambda>u. u\<lparr>user_is_active := True, user_password := None\<rparr>) (users d')\<rparr>)"
    by (simp add: demo_owner_def Let_def small_env_def shop_db_def empty_db_def empty_table_def tfirst_def tcreate_def
        tinsert_def numeral_2_eq_2)
  then show ?thesis
    by (rule that) (use ensure_account_frame [OF e] in \<open>simp_all add: shop_db_def empty_db_def\<close>)
qed

abbreviation small_keys :: "nat list" where
  "small_keys \<equiv> [0, 1, 2, 3, 4, 5, 6, 7, 8, 9, 10, 11, 12, 13, 14, 15, 16]"

lemma small_products: "check_products small_manifest = Inr (map small_item small_keys)"
proof -
  have "image_list (small_item i) = Some (map (small_image i) (if i = 0 then [0, 1] else [0, 1, 2]))"
    "item_key (small_item i) = Some [97 + i]" for i
    by (simp_all add: image_list_def item_key_def small_fields)
  moreover have "field ''products'' small_manifest = J_List (map small_item small_keys)"
    by (simp add: small_manifest_def field_def json_get_def lit_inject)
  ultimately show ?thesis by (simp add: check_products_def small_fields)
qed

lemma small_run: "fst (bootstrap_demo_catalog small_env shop_db Map.empty) = Inr ()"
proof -
  have m: "load_manifest (de_document small_env) = Inr small_manifest"
    by (simp add: load_manifest_def small_env_def small_manifest_def json_get_def field_def is_object_def lit_inject)
  have v: "verify_sources (de_source small_env) (de_sha small_env) (de_codec small_env) [] (map small_item small_keys) =
      Inr (map (\<lambda>i. (small_item i, small_assets i)) small_keys)" by (rule small_sources) simp_all
  obtain d1 where o1: "demo_owner small_env shop_db = Inr (1, d1)" and p: "products d1 = empty_table"
    and refs: "categories d1 = [[99]]" "regions d1 = [[114]]" by (rule shop_owner)
  have "\<forall>i \<in> set small_keys. i < 26 \<and> Some [97 + i] \<notin> snd ` set (keys_of (products d1))"
    by (simp add: p keys_of_def empty_table_def)
  from small_items_run [OF _ this _ refs, of Map.empty 1] obtain d2 s2 where
    i: "demo_items small_env 1 (map (\<lambda>i. (small_item i, small_assets i)) small_keys) d1 Map.empty = (Inr d2, s2)" and
    keys: "keys_of (products d2) = map (\<lambda>i. (1, Some [97 + i])) small_keys"
    by (auto simp: temps_free_def p keys_of_def empty_table_def)
  have none: "\<not> texists (\<lambda>_ p. product_owner_id p = 1 \<and> product_demo_key p = None) (products d2)"
    unfolding texists_def using keys by (simp only: keys_of_def list_ex_iff) force
  have all: "tcount (\<lambda>_ p. product_owner_id p = 1) (products d2) = length (filter (\<lambda>k. fst k = 1) (keys_of (products d2)))"
    by (simp add: tcount_def tselect_def keys_of_def filter_map comp_def case_prod_unfold)
  then have "tcount (\<lambda>_ p. product_owner_id p = 1) (products d2) = 17" by (simp add: keys)
  with none have "demo_transaction small_env (map (\<lambda>i. (small_item i, small_assets i)) small_keys) shop_db Map.empty = (Inr d2, s2)"
    by (simp only: demo_transaction_def o1 i sum.case prod.case if_False simp_thms)
  with m small_products v show ?thesis
    by (simp add: bootstrap_demo_catalog_def small_env_def)
qed


end
