(* ===== verification/Presence.thy ===== *)
theory Presence imports Chat_Socket "HOL-Library.AList" begin

text \<open>
  The presence service of chat (\<open>chat/presence.py\<close>): connections report themselves to a sorted set of Redis
  with the instant up to which they count, and a peer is online while a member of his set is not expired.
  The commands of Redis are a parameter; \<open>redis_ok\<close> states their documented effect.
\<close>

section \<open>The commands of Redis\<close>

text \<open>The range commands with an infinite bound; a pipeline runs in MULTI and EXEC.\<close>

datatype redis_command =
    ZRemRangeByScore pystr instant  \<comment> \<open>from \<open>-inf\<close> to the bound\<close>
  | ZAdd pystr pystr instant
  | Expire pystr nat
  | ZRem pystr pystr
  | ZCount pystr instant  \<comment> \<open>from the bound to \<open>+inf\<close>\<close>

text \<open>Sent at an instant of the server's clock; a lost connection is an exception.\<close>

type_synonym 'r redis = "instant \<Rightarrow> redis_command list \<Rightarrow> 'r \<Rightarrow> int list result \<times> 'r"

record redis_data =
  rd_scores :: "pystr \<Rightarrow> (pystr \<times> instant) list"
  rd_expiry :: "pystr \<Rightarrow> instant option"

definition present :: "instant \<Rightarrow> redis_data \<Rightarrow> pystr \<Rightarrow> (pystr \<times> instant) list" where
  "present t D key =
     (case rd_expiry D key of Some e \<Rightarrow> if e \<le> t then [] else rd_scores D key | None \<Rightarrow> rd_scores D key)"

text \<open>A key without members does not exist and has no time to live.\<close>

definition put_zset :: "pystr \<Rightarrow> (pystr \<times> instant) list \<Rightarrow> instant option \<Rightarrow> redis_data \<Rightarrow> redis_data" where
  "put_zset key zs e D = D\<lparr>rd_scores := (rd_scores D)(key := zs), rd_expiry := (rd_expiry D)(key := if zs = [] then None else e)\<rparr>"

definition ttl :: "instant \<Rightarrow> redis_data \<Rightarrow> pystr \<Rightarrow> instant option" where
  "ttl t D key = (if present t D key = [] then None else rd_expiry D key)"

fun redis_effect :: "instant \<Rightarrow> redis_command \<Rightarrow> redis_data \<Rightarrow> int \<times> redis_data" where
  "redis_effect t (ZRemRangeByScore key bound) D =
     (let zs = present t D key; keep = filter (\<lambda>(_, e). bound < e) zs in
      (int (length zs) - int (length keep), put_zset key keep (ttl t D key) D))"
| "redis_effect t (ZAdd key m e) D =
     (let zs = present t D key in
      (if m \<in> set (map fst zs) then 0 else 1, put_zset key (AList.update m e zs) (ttl t D key) D))"
| "redis_effect t (Expire key secs) D =
     (let zs = present t D key in (if zs = [] then 0 else 1, put_zset key zs (Some (t + seconds (int secs))) D))"
| "redis_effect t (ZRem key m) D =
     (let zs = present t D key in
      (if m \<in> set (map fst zs) then 1 else 0, put_zset key (AList.delete m zs) (ttl t D key) D))"
| "redis_effect t (ZCount key bound) D = (int (length (filter (\<lambda>(_, e). bound \<le> e) (present t D key))), D)"

fun redis_effects :: "instant \<Rightarrow> redis_command list \<Rightarrow> redis_data \<Rightarrow> int list \<times> redis_data" where
  "redis_effects t [] D = ([], D)"
| "redis_effects t (c # cs) D =
     (case redis_effect t c D of (n, D1) \<Rightarrow> (case redis_effects t cs D1 of (ns, D2) \<Rightarrow> (n # ns, D2)))"

text \<open>\<open>data\<close> is what is stored; when the answer is lost the commands ran or did not.\<close>

definition redis_ok :: "('r \<Rightarrow> redis_data) \<Rightarrow> 'r redis \<Rightarrow> bool" where
  "redis_ok data redis \<longleftrightarrow>
     (\<forall>t cs s r s'. redis t cs s = (r, s') \<longrightarrow>
        (case r of
           Inr replies \<Rightarrow> redis_effects t cs (data s) = (replies, data s')
         | Inl _ \<Rightarrow> data s' = data s \<or> data s' = snd (redis_effects t cs (data s))))"

section \<open>The backend\<close>

definition PRESENCE_TTL_SECONDS :: nat where "PRESENCE_TTL_SECONDS = 90"

text \<open>The calls of \<open>RedisPresenceBackend\<close>; a touch reads the clock itself for what it prunes.\<close>

datatype presence_call =
    Touch pystr pystr instant instant  \<comment> \<open>key, member, \<open>expires_at\<close>, clock\<close>
  | Remove pystr pystr
  | Count_Live pystr instant

fun commands :: "presence_call \<Rightarrow> redis_command list" where
  "commands (Touch key m expires_at again) =
     [ZRemRangeByScore key again, ZAdd key m expires_at, Expire key (PRESENCE_TTL_SECONDS * 2)]"
| "commands (Remove key m) = [ZRem key m]"
| "commands (Count_Live key now) = [ZRemRangeByScore key now, ZCount key now]"

definition touch :: "'r redis \<Rightarrow> instant \<Rightarrow> pystr \<Rightarrow> pystr \<Rightarrow> instant \<Rightarrow> instant \<Rightarrow> 'r \<Rightarrow> unit result \<times> 'r" where
  "touch redis t key m expires_at again s =
     (case redis t (commands (Touch key m expires_at again)) s of (Inl e, s') \<Rightarrow> (Inl e, s') | (Inr _, s') \<Rightarrow> (Inr (), s'))"

definition remove_member :: "'r redis \<Rightarrow> instant \<Rightarrow> pystr \<Rightarrow> pystr \<Rightarrow> 'r \<Rightarrow> unit result \<times> 'r" where
  "remove_member redis t key m s =
     (case redis t (commands (Remove key m)) s of (Inl e, s') \<Rightarrow> (Inl e, s') | (Inr _, s') \<Rightarrow> (Inr (), s'))"

text \<open>\<open>result[1]\<close>; a pipeline answers with one reply per command.\<close>

definition count_live :: "'r redis \<Rightarrow> instant \<Rightarrow> pystr \<Rightarrow> instant \<Rightarrow> 'r \<Rightarrow> int result \<times> 'r" where
  "count_live redis t key now s =
     (case redis t (commands (Count_Live key now)) s of
        (Inl e, s') \<Rightarrow> (Inl e, s')
      | (Inr replies, s') \<Rightarrow> (case replies of _ # n # _ \<Rightarrow> (Inr n, s') | _ \<Rightarrow> (Inl IndexError, s')))"

section \<open>The service\<close>

definition presence_key :: "nat \<Rightarrow> nat \<Rightarrow> pystr" where
  "presence_key room_id user_id = lit ''marketplace:presence:'' @ dec room_id @ lit '':'' @ dec user_id"

text \<open>\<open>tnow\<close> is the statement time of the database, \<open>now\<close> and \<open>again\<close> the two readings of the clock.\<close>

definition service_online ::
    "'r redis \<Rightarrow> instant \<Rightarrow> instant \<Rightarrow> instant \<Rightarrow> instant \<Rightarrow> nat \<Rightarrow> nat \<Rightarrow> nat \<Rightarrow> db \<Rightarrow> 'r \<Rightarrow> unit result \<times> 'r" where
  "service_online redis tnow now again t room_id user_id connection_id d s =
     (case authorized_presence_peers tnow room_id user_id True d of
        Inl e \<Rightarrow> (Inl e, s)
      | Inr _ \<Rightarrow> touch redis t (presence_key room_id user_id) (uuid_str connection_id)
                   (now + seconds (int PRESENCE_TTL_SECONDS)) again s)"

definition service_offline :: "'r redis \<Rightarrow> instant \<Rightarrow> nat \<Rightarrow> nat \<Rightarrow> nat \<Rightarrow> 'r \<Rightarrow> unit result \<times> 'r" where
  "service_offline redis t room_id user_id connection_id s =
     remove_member redis t (presence_key room_id user_id) (uuid_str connection_id) s"

fun presence_of ::
    "'r redis \<Rightarrow> instant \<Rightarrow> instant \<Rightarrow> instant \<Rightarrow> nat \<Rightarrow> nat list \<Rightarrow> db \<Rightarrow> 'r \<Rightarrow> (nat \<times> bool) list result \<times> 'r" where
  "presence_of redis tnow now t room_id [] d s = (Inr [], s)"
| "presence_of redis tnow now t room_id (p # ps) d s =
     (if isl (require_active_user tnow p d) then
        (case presence_of redis tnow now t room_id ps d s of
           (Inl e, s1) \<Rightarrow> (Inl e, s1) | (Inr states, s1) \<Rightarrow> (Inr ((p, False) # states), s1))
      else
        (case count_live redis t (presence_key room_id p) now s of
           (Inl e, s1) \<Rightarrow> (Inl e, s1)
         | (Inr n, s1) \<Rightarrow>
             (case presence_of redis tnow now t room_id ps d s1 of
                (Inl e, s2) \<Rightarrow> (Inl e, s2) | (Inr states, s2) \<Rightarrow> (Inr ((p, n \<noteq> 0) # states), s2))))"

definition service_peer_states ::
    "'r redis \<Rightarrow> instant \<Rightarrow> instant \<Rightarrow> instant \<Rightarrow> nat \<Rightarrow> nat \<Rightarrow> db \<Rightarrow> 'r \<Rightarrow> (nat \<times> bool) list result \<times> 'r" where
  "service_peer_states redis tnow now t room_id user_id d s =
     (case authorized_presence_peers tnow room_id user_id False d of
        Inl e \<Rightarrow> (Inl e, s)
      | Inr peers \<Rightarrow> presence_of redis tnow now t room_id peers d s)"

text \<open>The start of \<open>ChatConsumer.disconnect\<close>: whatever the backend answers, the rest goes on.\<close>

definition disconnect_presence :: "'r redis \<Rightarrow> instant \<Rightarrow> socket \<Rightarrow> 'r \<Rightarrow> 'r" where
  "disconnect_presence redis t c s =
     (if sock_presence_online c
      then snd (service_offline redis t (sock_room_id c) (sock_user_id c) (sock_connection_id c) s)
      else s)"

text \<open>The outcome of a touch that the socket model takes from its environment is the one of the service.\<close>

lemma presence_online_service:
  assumes "se_touch env \<longleftrightarrow>
    \<not> isl (fst (touch redis t (presence_key room_id user_id) (uuid_str c) (now + seconds (int PRESENCE_TTL_SECONDS)) again s))"
  shows "presence_online env room_id user_id d \<longleftrightarrow>
    \<not> isl (fst (service_online redis (se_tnow env) now again t room_id user_id c d s))"
  using assms by (simp add: presence_online_def service_online_def split: sum.split)

section \<open>Clearing the presence of an account\<close>

text \<open>
  \<open>_clear_presence\<close> of \<open>accounts/withdrawal.py\<close>, which the worker calls: SCAN with a pattern in which only
  \<open>*\<close> is special, then DEL.
\<close>

fun glob :: "pystr \<Rightarrow> pystr \<Rightarrow> bool" where
  "glob [] s \<longleftrightarrow> s = []"
| "glob (p # ps) [] \<longleftrightarrow> p = 42 \<and> glob ps []"
| "glob (p # ps) (c # cs) \<longleftrightarrow>
     (if p = 42 then glob ps (c # cs) \<or> glob (p # ps) cs else c = p \<and> glob ps cs)"

record 'r redis_keys =
  scan_iter :: "instant \<Rightarrow> pystr \<Rightarrow> 'r \<Rightarrow> pystr list result \<times> 'r"
  delete_keys :: "pystr list \<Rightarrow> 'r \<Rightarrow> unit result \<times> 'r"

definition drop_keys :: "pystr set \<Rightarrow> redis_data \<Rightarrow> redis_data" where
  "drop_keys K D = \<lparr>rd_scores = (\<lambda>k. if k \<in> K then [] else rd_scores D k),
                    rd_expiry = (\<lambda>k. if k \<in> K then None else rd_expiry D k)\<rparr>"

definition keys_ok :: "('r \<Rightarrow> redis_data) \<Rightarrow> 'r redis_keys \<Rightarrow> bool" where
  "keys_ok data ks \<longleftrightarrow>
     (\<forall>t p s r s'. scan_iter ks t p s = (r, s') \<longrightarrow> data s' = data s \<and>
        (\<forall>keys. r = Inr keys \<longrightarrow> set keys = {k. present t (data s) k \<noteq> [] \<and> glob p k})) \<and>
     (\<forall>keys s r s'. delete_keys ks keys s = (r, s') \<longrightarrow>
        data s' = drop_keys (set keys) (data s) \<or> isl r \<and> data s' = data s)"

definition clear_presence :: "'r redis_keys \<Rightarrow> instant \<Rightarrow> nat \<Rightarrow> 'r \<Rightarrow> unit result \<times> 'r" where
  "clear_presence ks t user_id s =
     (case scan_iter ks t (lit ''marketplace:presence:*:'' @ dec user_id) s of
        (Inl e, s1) \<Rightarrow> (Inl e, s1)
      | (Inr keys, s1) \<Rightarrow> if keys = [] then (Inr (), s1) else delete_keys ks keys s1)"

end
