(* ===== verification/Presence_Properties.thy ===== *)
theory Presence_Properties imports Presence Chat_System begin

text \<open>
  What presence shows: a peer is online exactly while one of his connections has reported itself in the last
  90 seconds and has not gone offline, for any interleaving of calls and lost answers, as long as the clock of
  Redis stays within 45 seconds of the one of the application.
\<close>

section \<open>Runs\<close>

text \<open>
  The abstract state: up to which instant each connection counts. It is changed by the commands that ran, whether
  or not their answer arrived.
\<close>

type_synonym beats = "pystr \<Rightarrow> pystr \<Rightarrow> instant option"

fun beat :: "presence_call \<Rightarrow> beats \<Rightarrow> beats" where
  "beat (Touch key m expires_at _) H = H(key := (H key)(m \<mapsto> expires_at))"
| "beat (Remove key m) H = H(key := (H key)(m := None))"
| "beat (Count_Live _ _) H = H"

definition near :: "instant \<Rightarrow> instant \<Rightarrow> bool" where
  "near t now \<longleftrightarrow> \<bar>t - now\<bar> \<le> seconds 45"

text \<open>A call reads the clock before its commands run.\<close>

fun timely :: "instant \<Rightarrow> presence_call \<Rightarrow> bool" where
  "timely T (Touch _ _ expires_at again) \<longleftrightarrow> again \<le> T \<and> expires_at \<le> T + seconds 90"
| "timely T (Remove _ _) \<longleftrightarrow> True"
| "timely T (Count_Live _ now) \<longleftrightarrow> now \<le> T"

inductive presence_run :: "('r \<Rightarrow> redis_data) \<Rightarrow> 'r redis \<Rightarrow> beats \<Rightarrow> instant \<Rightarrow> 'r \<Rightarrow> bool" for data redis where
  start: "data s = \<lparr>rd_scores = \<lambda>_. [], rd_expiry = \<lambda>_. None\<rparr> \<Longrightarrow> presence_run data redis (\<lambda>_. Map.empty) T s"
| ran: "presence_run data redis H T s \<Longrightarrow> T \<le> T' \<Longrightarrow> timely T' c \<Longrightarrow> near t T' \<Longrightarrow>
    redis t (commands c) s = (r, s') \<Longrightarrow> data s' = snd (redis_effects t (commands c) (data s)) \<Longrightarrow>
    presence_run data redis (beat c H) T' s'"
| lost: "presence_run data redis H T s \<Longrightarrow> T \<le> T' \<Longrightarrow>
    redis t cs s = (Inl e, s') \<Longrightarrow> data s' = data s \<Longrightarrow> presence_run data redis H T' s'"
| cleared: "presence_run data redis H T s \<Longrightarrow> T \<le> T' \<Longrightarrow>
    data s' = drop_keys K (data s) \<Longrightarrow> presence_run data redis (\<lambda>k. if k \<in> K then Map.empty else H k) T' s'"

section \<open>The invariant\<close>

text \<open>One key at the instant \<open>T\<close>: the live members are the ones that count, and no key expires before its members.\<close>

definition zset_ok :: "instant \<Rightarrow> (pystr \<Rightarrow> instant option) \<Rightarrow> (pystr \<times> instant) list \<Rightarrow> instant option \<Rightarrow> bool" where
  "zset_ok T h zs x \<longleftrightarrow>
     distinct (map fst zs) \<and> (\<forall>m e. T < e \<longrightarrow> ((m, e) \<in> set zs \<longleftrightarrow> h m = Some e)) \<and>
     (\<forall>m e. (m, e) \<in> set zs \<longrightarrow> e \<le> T + seconds 90 \<and> (\<forall>t. x = Some t \<longrightarrow> e + seconds 45 \<le> t))"

definition presence_inv :: "instant \<Rightarrow> beats \<Rightarrow> redis_data \<Rightarrow> bool" where
  "presence_inv T H D \<longleftrightarrow> (\<forall>key. zset_ok T (H key) (rd_scores D key) (rd_expiry D key))"

lemma zset_ok_later: "zset_ok T h zs x \<Longrightarrow> T \<le> T' \<Longrightarrow> zset_ok T' h zs x"
  by (fastforce simp: zset_ok_def)

lemma zset_ok_empty: "zset_ok T h zs x \<Longrightarrow> zset_ok T h zs (if zs = [] then None else x)"
  by (simp add: zset_ok_def)

lemma zset_ok_present:
  assumes "zset_ok T (H key) (rd_scores D key) (rd_expiry D key)" "near t T"
  shows "zset_ok T (H key) (present t D key) (ttl t D key)"
proof (cases "\<exists>e. rd_expiry D key = Some e \<and> e \<le> t")
  case True
  then obtain x where x: "rd_expiry D key = Some x" "x \<le> t" by blast
  have "e \<le> T" if "(m, e) \<in> set (rd_scores D key)" for m e
    using assms that x by (fastforce simp: zset_ok_def near_def)
  with assms(1) x show ?thesis by (fastforce simp: zset_ok_def present_def ttl_def)
next
  case False
  with assms(1) show ?thesis by (auto simp: zset_ok_def present_def ttl_def split: option.splits)
qed

lemma distinct_filter_keys: "distinct (map fst zs) \<Longrightarrow> distinct (map fst (filter P zs))"
  by (induction zs) auto

lemma zset_ok_prune: "zset_ok T h zs x \<Longrightarrow> b \<le> T \<Longrightarrow> zset_ok T h (filter (\<lambda>(_, e). b < e) zs) x"
  by (fastforce simp: zset_ok_def distinct_filter_keys)

lemma in_update: "distinct (map fst zs) \<Longrightarrow> (k, e) \<in> set (AList.update m v zs) \<longleftrightarrow> (if k = m then e = v else (k, e) \<in> set zs)"
  using map_of_eq_Some_iff [of "AList.update m v zs" k e] map_of_eq_Some_iff [of zs k e]
  by (auto simp: distinct_update update_conv')

lemma zset_ok_add:
  assumes "zset_ok T h zs x" "v \<le> T + seconds 90" "T + seconds 135 \<le> t"
  shows "zset_ok T (h(m \<mapsto> v)) (AList.update m v zs) (Some t)"
proof -
  have "e + seconds 45 \<le> t" if "(k, e) \<in> set zs" for k e
    using assms that by (fastforce simp: zset_ok_def seconds_def)
  with assms show ?thesis unfolding zset_ok_def by (auto simp: in_update distinct_update seconds_def split: if_splits)
qed

lemma zset_ok_delete: "zset_ok T h zs x \<Longrightarrow> zset_ok T (h(m := None)) (AList.delete m zs) x"
  unfolding zset_ok_def by (auto simp: AList.delete_eq distinct_filter_keys)

lemma presence_inv_put:
  "presence_inv T H D \<Longrightarrow> zset_ok T h zs x \<Longrightarrow> presence_inv T (H(key := h)) (put_zset key zs x D)"
  using zset_ok_empty [of T h zs x] by (simp add: presence_inv_def put_zset_def split: if_splits)

text \<open>A key that is there does not expire between the commands of a pipeline.\<close>

lemma present_put: "present t (put_zset key zs (ttl t D key) D) key = zs"
  by (auto simp: present_def put_zset_def ttl_def split: option.splits if_splits)

lemma put_put: "put_zset key zs x (put_zset key zs' x' D) = put_zset key zs x D"
  by (simp add: put_zset_def)

lemma touch_effect:
  "snd (redis_effects t (commands (Touch key m v again)) D) =
     put_zset key (AList.update m v (filter (\<lambda>(_, e). again < e) (present t D key)))
       (Some (t + seconds 180)) D"
  by (simp add: Let_def present_put put_put PRESENCE_TTL_SECONDS_def)

lemma remove_effect:
  "snd (redis_effects t (commands (Remove key m)) D) = put_zset key (AList.delete m (present t D key)) (ttl t D key) D"
  by (simp add: Let_def)

lemma count_effect:
  "redis_effects t (commands (Count_Live key now)) D =
     ([int (length (present t D key)) - int (length (filter (\<lambda>(_, e). now < e) (present t D key))),
       int (length (filter (\<lambda>(_, e). now < e) (present t D key)))],
      put_zset key (filter (\<lambda>(_, e). now < e) (present t D key)) (ttl t D key) D)"
  by (simp add: Let_def present_put filter_filter conj_commute case_prod_unfold less_le cong: filter_cong)

lemma presence_inv_call:
  assumes inv: "presence_inv T H D" and c: "timely T c" and t: "near t T"
  shows "presence_inv T (beat c H) (snd (redis_effects t (commands c) D))"
proof -
  have here: "zset_ok T (H key) (present t D key) (ttl t D key)" for key
    using inv t by (simp add: presence_inv_def zset_ok_present)
  show ?thesis
  proof (cases c)
    case (Touch key m v again)
    with c have "zset_ok T (H key) (filter (\<lambda>(_, e). again < e) (present t D key)) (ttl t D key)"
      by (intro zset_ok_prune here) simp
    from zset_ok_add [OF this, of v "t + seconds 180" m] c t Touch
    have "zset_ok T ((H key)(m \<mapsto> v)) (AList.update m v (filter (\<lambda>(_, e). again < e) (present t D key))) (Some (t + seconds 180))"
      by (simp add: near_def seconds_def)
    from presence_inv_put [OF inv this] show ?thesis by (simp only: Touch beat.simps touch_effect)
  next
    case (Remove key m)
    from presence_inv_put [OF inv zset_ok_delete [OF here]] show ?thesis by (simp only: Remove beat.simps remove_effect)
  next
    case (Count_Live key now)
    with c have "zset_ok T (H key) (filter (\<lambda>(_, e). now < e) (present t D key)) (ttl t D key)"
      by (intro zset_ok_prune here) simp
    from presence_inv_put [OF inv this, of key] show ?thesis
      by (simp only: Count_Live beat.simps count_effect fun_upd_triv snd_conv)
  qed
qed

lemma presence_inv_later: "presence_inv T H D \<Longrightarrow> T \<le> T' \<Longrightarrow> presence_inv T' H D"
  by (auto simp: presence_inv_def intro: zset_ok_later)

lemma presence_run_inv: "presence_run data redis H T s \<Longrightarrow> presence_inv T H (data s)"
proof (induction rule: presence_run.induct)
  case (start s T)
  then show ?case by (simp add: presence_inv_def zset_ok_def)
next
  case (ran H T s T' c t r s')
  from presence_inv_call [OF presence_inv_later [OF ran.IH ran.hyps(2)] ran.hyps(3,4)] show ?case
    by (simp only: ran.hyps(6))
next
  case (lost H T s T' t cs e s')
  then show ?case by (simp add: presence_inv_later)
next
  case (cleared H T s T' s' K)
  from presence_inv_later [OF cleared.IH cleared.hyps(2)] show ?case
    by (auto simp: presence_inv_def cleared.hyps(3) drop_keys_def zset_ok_def)
qed

text \<open>Every call of the backend is a step of the run, also when its answer is lost.\<close>

lemma presence_call_step:
  assumes ok: "redis_ok data redis" and run: "presence_run data redis H T s" and "T \<le> T'" "timely T' c" "near t T'"
    and c: "redis t (commands c) s = (r, s')"
  obtains H' where "presence_run data redis H' T' s'" "H' = H \<or> H' = beat c H" "\<not> isl r \<Longrightarrow> H' = beat c H"
    "\<And>replies. r = Inr replies \<Longrightarrow> replies = fst (redis_effects t (commands c) (data s))"
proof -
  note ran = ran [OF run assms(3-5) c]
  from ok c have law: "case r of Inr replies \<Rightarrow> redis_effects t (commands c) (data s) = (replies, data s')
      | Inl _ \<Rightarrow> data s' = data s \<or> data s' = snd (redis_effects t (commands c) (data s))"
    by (simp only: redis_ok_def)
  show ?thesis
  proof (cases r)
    case (Inl e)
    with law have "data s' = data s \<or> data s' = snd (redis_effects t (commands c) (data s))" by simp
    then show ?thesis
      using that [of "beat c H"] that [of H] ran lost [OF run assms(3) c [unfolded Inl]] by (auto simp: Inl)
  next
    case (Inr replies)
    with law have "redis_effects t (commands c) (data s) = (replies, data s')" by simp
    with ran show ?thesis by (intro that [of "beat c H"]) (simp_all add: Inr)
  qed
qed

section \<open>What is shown\<close>

definition live :: "instant \<Rightarrow> (pystr \<Rightarrow> instant option) \<Rightarrow> pystr set" where
  "live now h = {m. \<exists>e. h m = Some e \<and> now < e}"

lemma zset_ok_live:
  assumes "zset_ok now h zs x"
  shows "length (filter (\<lambda>(_, e). now < e) zs) = card (live now h)" "finite (live now h)"
proof -
  let ?zs = "filter (\<lambda>(_, e). now < e) zs"
  have "live now h = set (map fst ?zs)" using assms by (force simp: zset_ok_def live_def)
  moreover have "distinct (map fst ?zs)" using assms by (simp add: zset_ok_def distinct_filter_keys)
  ultimately show "length ?zs = card (live now h)" "finite (live now h)"
    using distinct_card [of "map fst ?zs"] by simp_all
qed

lemma count_live_ok:
  assumes ok: "redis_ok data redis" and run: "presence_run data redis H T s" and now: "T \<le> now" "near t now"
    and c: "count_live redis t key now s = (r, s')"
  shows "presence_run data redis H now s'" "r = Inr n \<Longrightarrow> n = int (card (live now (H key))) \<and> finite (live now (H key))"
proof -
  obtain r1 s1 where p: "redis t (commands (Count_Live key now)) s = (r1, s1)" by force
  from c p have s1: "s' = s1" by (auto simp: count_live_def split: sum.splits list.splits)
  have "timely now (Count_Live key now)" by simp
  from presence_call_step [OF ok run now(1) this now(2) p] obtain H' where
    "presence_run data redis H' now s1" "H' = H \<or> H' = beat (Count_Live key now) H" and
    replies: "\<And>rs. r1 = Inr rs \<Longrightarrow> rs = fst (redis_effects t (commands (Count_Live key now)) (data s))" by metis
  then show "presence_run data redis H now s'" using s1 by auto
  assume n: "r = Inr n"
  with c p obtain rs where rs: "r1 = Inr rs" by (cases r1) (auto simp: count_live_def)
  with c p n replies [OF rs] have "n = int (length (filter (\<lambda>(_, e). now < e) (present t (data s) key)))"
    by (simp add: count_live_def count_effect del: commands.simps)
  moreover have "zset_ok now (H key) (present t (data s) key) (ttl t (data s) key)"
    using presence_inv_later [OF presence_run_inv [OF run] now(1)] now(2)
    by (simp add: presence_inv_def zset_ok_present)
  ultimately show "n = int (card (live now (H key))) \<and> finite (live now (H key))"
    by (simp add: zset_ok_live)
qed

text \<open>The peers one after the other; every count leaves what the connections reported.\<close>

lemma presence_of_ok:
  assumes ok: "redis_ok data redis" and "presence_run data redis H T s" "T \<le> now" and near: "near t now"
    and "presence_of redis tnow now t room_id peers d s = (r, s')"
  shows "(\<exists>T'. T' \<le> now \<and> presence_run data redis H T' s') \<and> (\<forall>states. r = Inr states \<longrightarrow>
    states = map (\<lambda>p. (p, \<not> isl (require_active_user tnow p d) \<and> 0 < card (live now (H (presence_key room_id p))))) peers)"
  using assms(2,3,5)
proof (induction peers arbitrary: s s' T r)
  case Nil
  then show ?case by auto
next
  case (Cons p ps)
  show ?case
  proof (cases "isl (require_active_user tnow p d)")
    case True
    obtain r1 s1 where rest: "presence_of redis tnow now t room_id ps d s = (r1, s1)" by force
    from Cons.IH [OF Cons.prems(1,2) rest] Cons.prems(3) rest True show ?thesis by (auto split: sum.splits)
  next
    case False
    obtain r1 s1 where c: "count_live redis t (presence_key room_id p) now s = (r1, s1)" by force
    note one = count_live_ok [OF ok Cons.prems(1,2) near c]
    show ?thesis
    proof (cases r1)
      case (Inl e)
      with Cons.prems(3) False c one(1) show ?thesis by auto
    next
      case (Inr n)
      obtain r2 s2 where rest: "presence_of redis tnow now t room_id ps d s1 = (r2, s2)" by force
      from Cons.IH [OF one(1) order_refl rest] one(2) [OF Inr] Cons.prems(3) False c Inr rest
      show ?thesis by (auto split: sum.splits)
    qed
  qed
qed


text \<open>A connection that comes online, from then on and for 90 seconds or until it leaves.\<close>

lemma online_step:
  assumes ok: "redis_ok data redis" and "presence_run data redis H T s" "T \<le> T'" "now \<le> T'" "again \<le> T'" "near t T'"
    and o: "service_online redis tnow now again t room user c d s = (Inr (), s')"
  shows "presence_run data redis (beat (Touch (presence_key room user) (uuid_str c) (now + seconds 90) again) H) T' s'"
proof -
  let ?c = "Touch (presence_key room user) (uuid_str c) (now + seconds 90) again"
  obtain r1 s1 where r1: "redis t (commands ?c) s = (r1, s1)" by force
  from o r1 have "s' = s1" "\<not> isl r1"
    by (auto simp: service_online_def touch_def PRESENCE_TTL_SECONDS_def split: sum.splits)
  moreover have "timely T' ?c" using assms(4,5) by simp
  ultimately show ?thesis using presence_call_step [OF ok assms(2,3) _ assms(6) r1] by metis
qed

lemma offline_step:
  assumes ok: "redis_ok data redis" and "presence_run data redis H T s" "T \<le> T'" "near t T'"
    and o: "service_offline redis t room user c s = (Inr (), s')"
  shows "presence_run data redis (beat (Remove (presence_key room user) (uuid_str c)) H) T' s'"
proof -
  let ?c = "Remove (presence_key room user) (uuid_str c)"
  obtain r1 s1 where r1: "redis t (commands ?c) s = (r1, s1)" by force
  from o r1 have "s' = s1" "\<not> isl r1" by (auto simp: service_offline_def remove_member_def split: sum.splits)
  moreover have "timely T' ?c" by simp
  ultimately show ?thesis using presence_call_step [OF ok assms(2,3) _ assms(4) r1] by metis
qed

text \<open>Different participants of different rooms have different keys.\<close>

lemma presence_key_inject: "presence_key r u = presence_key r' u' \<longleftrightarrow> r = r' \<and> u = u'"
proof
  assume "presence_key r u = presence_key r' u'"
  then have eq: "dec r @ 58 # dec u = dec r' @ 58 # dec u'" by (simp add: presence_key_def lit_def)
  have stop: "takeWhile is_digit (dec n @ 58 # xs) = dec n" for n xs
    using dec_digits [of _ n] by (subst takeWhile_append2) (auto simp: is_digit_def)
  from arg_cong [OF eq, of "takeWhile is_digit"] have "dec r = dec r'" by (simp add: stop)
  with eq show "r = r' \<and> u = u'" by simp
qed simp

section \<open>Clearing\<close>

lemma glob_literal: "42 \<notin> set p \<Longrightarrow> glob (p @ q) (p @ s) = glob q s"
  by (induction p) auto

lemma glob_exact: "42 \<notin> set p \<Longrightarrow> glob p s \<longleftrightarrow> s = p"
  by (induction p s rule: glob.induct) auto

lemma glob_star: "glob (42 # q) s \<longleftrightarrow> (\<exists>a b. s = a @ b \<and> glob q b)"
proof (induction s)
  case (Cons c s)
  have "(\<exists>a b. c # s = a @ b \<and> glob q b) \<longleftrightarrow> glob q (c # s) \<or> (\<exists>a b. s = a @ b \<and> glob q b)"
    by (auto simp: Cons_eq_append_conv)
  with Cons show ?case by simp
qed simp

text \<open>The pattern finds the keys of this account in all rooms and no key of another account.\<close>

lemma clear_pattern:
  "glob (lit ''marketplace:presence:*:'' @ dec u) (presence_key r u') \<longleftrightarrow> u' = u"
proof -
  have split: "lit ''marketplace:presence:*:'' = lit ''marketplace:presence:'' @ [42, 58]" by (simp add: lit_def)
  have digits: "42 \<notin> set (58 # dec u)" using dec_digits [of 42 u] by (auto simp: is_digit_def)
  have "glob (lit ''marketplace:presence:*:'' @ dec u) (presence_key r u') \<longleftrightarrow> glob (42 # 58 # dec u) (dec r @ 58 # dec u')"
    unfolding split presence_key_def by (simp add: glob_literal lit_def)
  also have "\<dots> \<longleftrightarrow> (\<exists>a. dec r @ 58 # dec u' = a @ 58 # dec u)"
    by (auto simp only: glob_star glob_exact [OF digits])
  also have "\<dots> \<longleftrightarrow> u' = u"
  proof
    assume "\<exists>a. dec r @ 58 # dec u' = a @ 58 # dec u"
    then obtain a where "dec r @ 58 # dec u' = a @ 58 # dec u" by blast
    then have eq: "rev (dec u') @ 58 # rev (dec r) = rev (dec u) @ 58 # rev a"
      by (metis append.assoc append_Cons append_Nil rev.simps(2) rev_append)
    have stop: "takeWhile is_digit (rev (dec n) @ 58 # xs) = rev (dec n)" for n xs
      using dec_digits [of _ n] by (subst takeWhile_append2) (auto simp: is_digit_def)
    from arg_cong [OF eq, of "takeWhile is_digit"] show "u' = u" by (simp add: stop)
  qed auto
  finally show ?thesis .
qed

lemma present_drop: "present t (drop_keys K D) k = (if k \<in> K then [] else present t D k)"
  by (cases "rd_expiry D k") (simp_all add: present_def drop_keys_def)

text \<open>
  After the presence of an account is cleared no room has a member of it, and what is there of the others stays.
\<close>

theorem clear_presence_exact:
  assumes "keys_ok data ks" "clear_presence ks t user s = (Inr (), s')" "t \<le> t'"
  shows "present t' (data s') (presence_key room u) = (if u = user then [] else present t' (data s) (presence_key room u))"
proof -
  let ?p = "lit ''marketplace:presence:*:'' @ dec user"
  obtain r1 s1 where scan: "scan_iter ks t ?p s = (r1, s1)" by force
  with assms(2) obtain keys where r1: "r1 = Inr keys" by (cases r1) (auto simp: clear_presence_def)
  from assms(1) scan r1 have s1: "data s1 = data s" "set keys = {k. present t (data s) k \<noteq> [] \<and> glob ?p k}"
    by (auto simp: keys_ok_def)
  have "data s' = drop_keys (set keys) (data s)"
  proof (cases "keys = []")
    case True
    with assms(2) scan r1 s1(1) show ?thesis by (simp add: clear_presence_def drop_keys_def)
  next
    case False
    with assms(2) scan r1 have "delete_keys ks keys s1 = (Inr (), s')" by (simp add: clear_presence_def)
    with assms(1) s1(1) show ?thesis unfolding keys_ok_def by fastforce
  qed
  moreover have "present t' (data s) k = []" if "present t (data s) k = []" for k
    using that assms(3) by (auto simp: present_def split: option.splits if_splits)
  ultimately show ?thesis by (auto simp: present_drop s1(2) clear_pattern)
qed

section \<open>A conversation\<close>

definition memory_redis :: "redis_data redis" where
  "memory_redis t cs D = (case redis_effects t cs D of (ns, D') \<Rightarrow> (Inr ns, D'))"

definition no_data :: redis_data where
  "no_data = \<lparr>rd_scores = \<lambda>_. [], rd_expiry = \<lambda>_. None\<rparr>"

lemma memory_redis_ok: "redis_ok (\<lambda>D. D) memory_redis"
  by (auto simp: redis_ok_def memory_redis_def split: prod.splits)

lemma memory_touch: "\<exists>s. touch memory_redis t key m e again D = (Inr (), s)"
  by (cases "redis_effects t (commands (Touch key m e again)) D") (simp add: touch_def memory_redis_def del: commands.simps)

lemma talk_peers:
  "authorized_presence_peers 100 1 1 True talk_db = Inr [2]" "authorized_presence_peers 100 1 2 False talk_db = Inr [1]"
  by code_simp+


end
