(* ===== verification/Release_Governance.thy ===== *)
theory Release_Governance imports Demo_Catalog Settings begin

text \<open>
  The governance checks of the repository: pull request titles (\<open>scripts/verify_pr_title.py\<close>), the release receipt
  and the verdict over all checks (\<open>scripts/verify_g1.py\<close>). What GitHub answers is a parameter.
\<close>

section \<open>Pull request titles\<close>

definition TITLE_TYPES :: "pystr list" where
  "TITLE_TYPES = map lit [''docs'', ''feat'', ''fix'', ''security'', ''test'', ''chore'']"

definition is_lower :: "nat \<Rightarrow> bool" where "is_lower c \<longleftrightarrow> 97 \<le> c \<and> c \<le> 122"

definition scope_text :: "pystr \<Rightarrow> bool" where
  "scope_text s \<longleftrightarrow>
     (case s of [] \<Rightarrow> False | c # cs \<Rightarrow> is_lower c \<and> list_all (\<lambda>c. is_lower c \<or> is_digit c \<or> c = 45) cs)"

text \<open>
  \<open>TITLE_RE\<close>: the body of a title that matches. A type has no opening and a scope no closing parenthesis, so the
  first one of each ends it; the dot matches everything but a line feed.
\<close>

definition match_title :: "pystr \<Rightarrow> pystr option" where
  "match_title s =
     (let kind = takeWhile (\<lambda>c. c \<noteq> 40) s; r = drop (Suc (length kind)) s;
          scope = takeWhile (\<lambda>c. c \<noteq> 41) r; tail = drop (length scope) r; body = drop 3 tail in
      if length kind < length s \<and> kind \<in> set TITLE_TYPES \<and> scope_text scope \<and> take 3 tail = lit ''): '' \<and>
         body \<noteq> [] \<and> 10 \<notin> set body
      then Some body else None)"

definition hangul_token :: "pystr \<Rightarrow> bool" where
  "hangul_token t \<longleftrightarrow> t \<noteq> [] \<and> list_all (\<lambda>c. 44032 \<le> c \<and> c \<le> 55203) t"

text \<open>\<open>VERSION_RE\<close>: numbers joined by dots, or \<open>v\<close> and two to four of them.\<close>

definition dotted :: "pystr list \<Rightarrow> bool" where
  "dotted parts \<longleftrightarrow> list_all (\<lambda>p. p \<noteq> [] \<and> list_all is_digit p) parts"

definition version_token :: "pystr \<Rightarrow> bool" where
  "version_token t \<longleftrightarrow>
     dotted (split_on 46 t) \<or>
     (case t of [] \<Rightarrow> False
      | c # cs \<Rightarrow> c = 118 \<and> dotted (split_on 46 cs) \<and> 2 \<le> length (split_on 46 cs) \<and> length (split_on 46 cs) \<le> 4)"

definition ASCII_TOKEN_ALLOWLIST :: "pystr list" where
  "ASCII_TOKEN_ALLOWLIST = map lit [''Django'', ''PostgreSQL'', ''Redis'', ''Stitch'', ''UI'', ''API'', ''CI'', ''RC'', ''SHA'',
     ''WebSocket'', ''Playwright'', ''axe'', ''WCAG'', ''ProductImage'', ''ProductConversation'', ''Trade'', ''Review'',
     ''Notification'']"

definition token_ok :: "pystr \<Rightarrow> bool" where
  "token_ok t \<longleftrightarrow> hangul_token t \<or> version_token t \<or> t \<in> set ASCII_TOKEN_ALLOWLIST"

datatype title_error =
    Not_NFC | No_Match | Outer_Space | Double_Space | Bad_Token pystr | No_Hangul
  | Subject_Differs | Commit_Count

fun double_space :: "pystr \<Rightarrow> bool" where
  "double_space (a # b # s) \<longleftrightarrow> a = 32 \<and> b = 32 \<or> double_space (b # s)"
| "double_space _ \<longleftrightarrow> False"

definition validate_title :: "(pystr \<Rightarrow> pystr) \<Rightarrow> pystr \<Rightarrow> title_error list" where
  "validate_title nfc title =
     (if title \<noteq> nfc title then [Not_NFC] else []) @
     (case match_title title of
        None \<Rightarrow> [No_Match]
      | Some body \<Rightarrow>
          (if hd body = 32 \<or> last body = 32 then [Outer_Space] else []) @
          (if double_space body then [Double_Space] else []) @
          map Bad_Token (filter (\<lambda>t. \<not> token_ok t) (split_on 32 body)) @
          (if list_ex hangul_token (split_on 32 body) then [] else [No_Hangul]))"

definition validate_pr :: "(pystr \<Rightarrow> pystr) \<Rightarrow> pystr \<Rightarrow> pystr \<Rightarrow> int \<Rightarrow> title_error list" where
  "validate_pr nfc title subject commit_count =
     validate_title nfc title @
     (if subject \<noteq> title then [Subject_Differs] else []) @ (if commit_count \<noteq> 1 then [Commit_Count] else [])"

section \<open>The release receipt\<close>

definition RELEASE_STATES :: "pystr list" where
  "RELEASE_STATES = map lit [''PR7_MERGED_CANDIDATE'', ''RC_ALLOCATED'', ''RC_QUALIFYING'', ''ATTESTED'', ''FORMAL_PROMOTED'',
     ''PUBLIC_VERIFIED'']"

definition TERMINAL_FAILURE_STATE :: pystr where "TERMINAL_FAILURE_STATE = lit ''RC_FAILED_IMMUTABLE''"

datatype release_error =
    No_Events | Not_Object nat | Sha_Mismatch nat | After_Failure | Unknown_State nat | Bad_Start | Not_Monotonic

record release_check =
  rc_passed :: bool
  rc_states :: "json list"
  rc_terminal_failure :: bool
  rc_errors :: "release_error list"

text \<open>The loop over the events: the errors, the states and whether a terminal failure was seen.\<close>

fun check_events :: "json \<Rightarrow> nat \<Rightarrow> bool \<Rightarrow> json list \<Rightarrow> release_error list \<times> json list \<times> bool" where
  "check_events sha i seen [] = ([], [], seen)"
| "check_events sha i seen (e # es) =
     (if \<not> is_object e then
        (case check_events sha (Suc i) seen es of (errs, states, t) \<Rightarrow> (Not_Object i # errs, states, t))
      else
        let state = field ''state'' e; failure = (state = J_Str TERMINAL_FAILURE_STATE) in
        (case check_events sha (Suc i) (seen \<or> failure) es of (errs, states, t) \<Rightarrow>
           ((if field ''release_sha'' e \<noteq> sha then [Sha_Mismatch i] else []) @ (if seen then [After_Failure] else []) @
            (if \<not> failure \<and> state \<notin> J_Str ` set RELEASE_STATES then [Unknown_State i] else []) @ errs,
            state # states, t)))"

definition valid_release_sha :: "json \<Rightarrow> bool" where
  "valid_release_sha v \<longleftrightarrow> (case v of J_Str s \<Rightarrow> length s = 40 \<and> list_all is_lower_hex s | _ \<Rightarrow> False)"

definition check_release_state :: "json \<Rightarrow> release_check result" where
  "check_release_state receipt =
     (if \<not> is_object receipt then Inl AttributeError else
      let sha = field ''release_sha'' receipt;
          events = (case field ''events'' receipt of J_List es \<Rightarrow> es | _ \<Rightarrow> []);
          (errs, states, t) = check_events sha 0 False events;
          non_failure = filter (\<lambda>s. s \<noteq> J_Str TERMINAL_FAILURE_STATE) states;
          order = (if states = [] then []
            else (if hd states \<noteq> J_Str (RELEASE_STATES ! 0) then [Bad_Start] else []) @
                 (if non_failure \<noteq> map J_Str (take (length non_failure) RELEASE_STATES) then [Not_Monotonic] else []));
          errors = (if events = [] then [No_Events] else []) @ errs @ order in
      Inr \<lparr>rc_passed = (valid_release_sha sha \<and> errors = []), rc_states = states, rc_terminal_failure = t, rc_errors = errors\<rparr>)"

section \<open>The verdict\<close>

text \<open>
  \<open>main\<close>: the checks run one after the other; the first exception ends them, and a check that did not run is not
  among the components. The two checks of what GitHub answers are given by their outcome, the receipt by what
  reading and decoding its file gives, if one is named.
\<close>

definition gate_components :: "bool result \<Rightarrow> bool result \<Rightarrow> json result option \<Rightarrow> bool list" where
  "gate_components template github receipt =
     (case template of Inl _ \<Rightarrow> [] | Inr p \<Rightarrow> p #
     (case github of Inl _ \<Rightarrow> [] | Inr q \<Rightarrow> q #
     (case receipt of None \<Rightarrow> [] | Some document \<Rightarrow>
     (case document of Inl _ \<Rightarrow> [] | Inr v \<Rightarrow>
     (case check_release_state v of Inl _ \<Rightarrow> [] | Inr c \<Rightarrow> [rc_passed c])))))"

definition gate_passes :: "bool result \<Rightarrow> bool result \<Rightarrow> json result option \<Rightarrow> bool" where
  "gate_passes template github receipt \<longleftrightarrow>
     (let components = gate_components template github receipt in
      length components = (if receipt = None then 2 else 3) \<and> list_all (\<lambda>b. b) components)"

section \<open>What the checks accept\<close>

fun join_on :: "nat \<Rightarrow> pystr list \<Rightarrow> pystr" where
  "join_on c [] = []"
| "join_on c [w] = w"
| "join_on c (w # v # ws) = w @ c # join_on c (v # ws)"

lemma split_on_nonempty [simp]: "split_on c s \<noteq> []"
  by (induction s) (auto split: list.split)

lemma join_split: "join_on c (split_on c s) = s"
proof (induction s)
  case (Cons x s)
  obtain w ws where "split_on c s = w # ws" using split_on_nonempty [of c s] by (cases "split_on c s") auto
  with Cons show ?case by (cases ws) auto
qed simp

lemma split_on_word: "c \<notin> set w \<Longrightarrow> split_on c w = [w]"
  by (induction w) auto

lemma split_on_sep: "c \<notin> set w \<Longrightarrow> split_on c (w @ c # s) = w # split_on c s"
  by (induction w) auto

lemma split_join: "ws \<noteq> [] \<Longrightarrow> \<forall>w \<in> set ws. c \<notin> set w \<Longrightarrow> split_on c (join_on c ws) = ws"
  by (induction c ws rule: join_on.induct) (auto simp: split_on_word split_on_sep)

lemma set_join: "set (join_on c ws) \<subseteq> insert c (\<Union> (set ` set ws))"
  by (induction c ws rule: join_on.induct) auto

lemma double_space_sep: "32 \<notin> set w \<Longrightarrow> double_space (w @ 32 # s) \<longleftrightarrow> (s \<noteq> [] \<and> hd s = 32) \<or> double_space s"
proof (induction w)
  case Nil
  show ?case by (cases s) auto
next
  case (Cons a w)
  then show ?case by (cases w) auto
qed

lemma double_space_word: "32 \<notin> set w \<Longrightarrow> \<not> double_space w"
  by (induction w rule: double_space.induct) auto

lemma join_clean:
  "ws \<noteq> [] \<Longrightarrow> \<forall>w \<in> set ws. w \<noteq> [] \<and> 32 \<notin> set w \<Longrightarrow>
    join_on 32 ws \<noteq> [] \<and> hd (join_on 32 ws) \<noteq> 32 \<and> last (join_on 32 ws) \<noteq> 32 \<and> \<not> double_space (join_on 32 ws)"
proof (induction "32::nat" ws rule: join_on.induct)
  case (2 w)
  then show ?case by (simp add: double_space_word) (metis hd_in_set last_in_set)
next
  case (3 w v ws)
  then show ?case by (simp add: double_space_sep) (metis hd_append2 hd_in_set)
qed simp

lemma dotted_chars: "dotted (split_on 46 t) \<Longrightarrow> t \<noteq> [] \<and> (\<forall>c \<in> set t. is_digit c \<or> c = 46)"
  using set_join [of 46 "split_on 46 t"] by (fastforce simp: dotted_def join_split list_all_iff)

lemma allowlist_chars: "t \<in> set ASCII_TOKEN_ALLOWLIST \<Longrightarrow> t \<noteq> [] \<and> 32 \<notin> set t \<and> 10 \<notin> set t"
  by (auto simp: ASCII_TOKEN_ALLOWLIST_def lit_def)

lemma token_chars: "token_ok t \<Longrightarrow> t \<noteq> [] \<and> 32 \<notin> set t \<and> 10 \<notin> set t"
proof -
  assume "token_ok t"
  then consider "hangul_token t" | "dotted (split_on 46 t)" | cs where "t = 118 # cs" "dotted (split_on 46 cs)"
    | "t \<in> set ASCII_TOKEN_ALLOWLIST"
    by (cases t) (auto simp: token_ok_def version_token_def simp del: split_on.simps)
  then show ?thesis
  proof cases
    case 1
    then show ?thesis by (auto simp: hangul_token_def list_all_iff)
  next
    case 2
    from dotted_chars [OF this] show ?thesis by (auto simp: is_digit_def)
  next
    case 3
    from dotted_chars [OF 3(2)] 3(1) show ?thesis by (auto simp: is_digit_def)
  next
    case 4
    then show ?thesis by (rule allowlist_chars)
  qed
qed

definition title_text :: "pystr \<Rightarrow> pystr \<Rightarrow> pystr \<Rightarrow> pystr" where
  "title_text kind scope body = kind @ 40 # scope @ lit ''): '' @ body"

lemma title_types_plain: "kind \<in> set TITLE_TYPES \<Longrightarrow> 40 \<notin> set kind"
  by (auto simp: TITLE_TYPES_def lit_def)

lemma scope_plain: "scope_text scope \<Longrightarrow> 41 \<notin> set scope"
  by (auto simp: scope_text_def list_all_iff is_lower_def is_digit_def split: list.splits)

lemma match_title_text:
  assumes "kind \<in> set TITLE_TYPES" "scope_text scope" "body \<noteq> []" "10 \<notin> set body"
  shows "match_title (title_text kind scope body) = Some body"
proof -
  let ?r = "scope @ lit ''): '' @ body"
  have k: "takeWhile (\<lambda>c. c \<noteq> 40) (title_text kind scope body) = kind"
    using title_types_plain [OF assms(1)] unfolding title_text_def by (subst takeWhile_append2) auto
  have r: "drop (Suc (length kind)) (title_text kind scope body) = ?r" by (simp add: title_text_def)
  have sc: "takeWhile (\<lambda>c. c \<noteq> 41) ?r = scope"
    using scope_plain [OF assms(2)] by (subst takeWhile_append2) (auto simp: lit_def)
  have rest: "drop (length scope) ?r = lit ''): '' @ body" by simp
  have parts: "take 3 (lit ''): '' @ body) = lit ''): ''" "drop 3 (lit ''): '' @ body) = body" by (simp_all add: lit_def)
  have "length kind < length (title_text kind scope body)" by (simp add: title_text_def)
  with assms show ?thesis by (simp only: match_title_def Let_def k r sc rest parts) simp
qed

lemma match_titleD:
  assumes "match_title s = Some body"
  obtains kind scope where "kind \<in> set TITLE_TYPES" "scope_text scope" "body \<noteq> []" "10 \<notin> set body"
    "s = title_text kind scope body"
proof -
  define kind where "kind = takeWhile (\<lambda>c. c \<noteq> 40) s"
  define r where "r = drop (Suc (length kind)) s"
  define scope where "scope = takeWhile (\<lambda>c. c \<noteq> 41) r"
  from assms have m: "length kind < length s" "kind \<in> set TITLE_TYPES" "scope_text scope"
    "take 3 (drop (length scope) r) = lit ''): ''" "body = drop 3 (drop (length scope) r)" "body \<noteq> []" "10 \<notin> set body"
    by (auto simp: match_title_def Let_def kind_def r_def scope_def split: if_splits)
  have "s ! length kind = 40" using nth_length_takeWhile [of "\<lambda>c. c \<noteq> 40" s] m(1) by (simp add: kind_def)
  then have "s = kind @ 40 # r"
    using m(1) takeWhile_eq_take [of "\<lambda>c. c \<noteq> 40" s] by (metis Cons_nth_drop_Suc append_take_drop_id kind_def r_def)
  moreover have "r = scope @ lit ''): '' @ body"
  proof -
    have "take (length scope) r = scope" using takeWhile_eq_take [of "\<lambda>c. c \<noteq> 41" r] by (simp add: scope_def)
    moreover have "drop (length scope) r = lit ''): '' @ body"
      using append_take_drop_id [of 3 "drop (length scope) r", symmetric] unfolding m(4) m(5) [symmetric] .
    ultimately show ?thesis using append_take_drop_id [of "length scope" r] by metis
  qed
  ultimately have "s = title_text kind scope body" unfolding title_text_def by metis
  with m(2,3,6,7) show ?thesis by (rule that)
qed

text \<open>
  A title is accepted exactly when it is the printed form of a type, a scope and a list of allowed words, one of
  them Hangul, and is in NFC.
\<close>

theorem title_accepted:
  "validate_title nfc t = [] \<longleftrightarrow> nfc t = t \<and>
     (\<exists>kind scope tokens. kind \<in> set TITLE_TYPES \<and> scope_text scope \<and> list_all token_ok tokens \<and>
        (\<exists>w \<in> set tokens. hangul_token w) \<and> t = title_text kind scope (join_on 32 tokens))"
proof
  assume v: "validate_title nfc t = []"
  then obtain body where m: "match_title t = Some body" "nfc t = t"
    by (auto simp: validate_title_def split: option.splits if_splits)
  with v have "filter (\<lambda>w. \<not> token_ok w) (split_on 32 body) = []" "list_ex hangul_token (split_on 32 body)"
    by (simp_all add: validate_title_def split: if_splits)
  then have "list_all token_ok (split_on 32 body)" "\<exists>w \<in> set (split_on 32 body). hangul_token w"
    by (simp_all add: filter_empty_conv list_ex_iff list_all_iff)
  moreover obtain kind scope where "kind \<in> set TITLE_TYPES" "scope_text scope" "t = title_text kind scope (join_on 32 (split_on 32 body))"
    using m(1) by (auto simp: join_split elim: match_titleD)
  ultimately show "nfc t = t \<and> (\<exists>kind scope tokens. kind \<in> set TITLE_TYPES \<and> scope_text scope \<and> list_all token_ok tokens \<and>
        (\<exists>w \<in> set tokens. hangul_token w) \<and> t = title_text kind scope (join_on 32 tokens))"
    using m(2) by blast
next
  assume "nfc t = t \<and> (\<exists>kind scope tokens. kind \<in> set TITLE_TYPES \<and> scope_text scope \<and> list_all token_ok tokens \<and>
        (\<exists>w \<in> set tokens. hangul_token w) \<and> t = title_text kind scope (join_on 32 tokens))"
  then obtain kind scope tokens where p: "nfc t = t" "kind \<in> set TITLE_TYPES" "scope_text scope"
    "list_all token_ok tokens" "\<exists>w \<in> set tokens. hangul_token w" "t = title_text kind scope (join_on 32 tokens)"
    by blast
  from p(5) have ne: "tokens \<noteq> []" by auto
  from p(4) [unfolded list_all_iff] have chars: "\<forall>w \<in> set tokens. w \<noteq> [] \<and> 32 \<notin> set w \<and> 10 \<notin> set w" using token_chars by blast
  then have "10 \<notin> set (join_on 32 tokens)" using set_join [of 32 tokens] by auto
  with join_clean [OF ne] chars match_title_text [OF p(2,3)] have
    "match_title t = Some (join_on 32 tokens)" "hd (join_on 32 tokens) \<noteq> 32" "last (join_on 32 tokens) \<noteq> 32"
    "\<not> double_space (join_on 32 tokens)" by (auto simp: p(6))
  moreover have "split_on 32 (join_on 32 tokens) = tokens" using chars by (intro split_join ne) auto
  ultimately show "validate_title nfc t = []"
    using p(1,4,5) by (simp add: validate_title_def filter_empty_conv list_ex_iff list_all_iff)
qed

text \<open>The states of the events, a terminal failure at most at the end.\<close>

definition state_names :: "json list \<Rightarrow> pystr list \<Rightarrow> bool \<Rightarrow> bool" where
  "state_names es names failed \<longleftrightarrow>
     map (field ''state'') es = map J_Str names @ (if failed then [J_Str TERMINAL_FAILURE_STATE] else [])"

lemma failure_no_state: "TERMINAL_FAILURE_STATE \<notin> set RELEASE_STATES"
  by (simp add: RELEASE_STATES_def TERMINAL_FAILURE_STATE_def lit_inject)

lemma check_events_states: "check_events sha i seen es = ([], states, t) \<Longrightarrow> states = map (field ''state'') es"
  by (induction es arbitrary: i seen states) (auto simp: Let_def split: if_splits prod.splits)

lemma check_events_ok:
  "fst (check_events sha i seen es) = [] \<longleftrightarrow>
     list_all (\<lambda>e. is_object e \<and> field ''release_sha'' e = sha) es \<and> (seen \<longrightarrow> es = []) \<and>
     (\<exists>names failed. set names \<subseteq> set RELEASE_STATES \<and> state_names es names failed)"
proof (induction es arbitrary: i seen)
  case Nil
  then show ?case by (auto simp: state_names_def intro!: exI [of _ "[]"] exI [of _ False])
next
  case (Cons e es)
  let ?failure = "field ''state'' e = J_Str TERMINAL_FAILURE_STATE"
  define run where "run es \<longleftrightarrow> (\<exists>names failed. set names \<subseteq> set RELEASE_STATES \<and> state_names es names failed)" for es
  have step: "fst (check_events sha i seen (e # es)) = [] \<longleftrightarrow> is_object e \<and> field ''release_sha'' e = sha \<and> \<not> seen \<and>
      (?failure \<or> field ''state'' e \<in> J_Str ` set RELEASE_STATES) \<and> fst (check_events sha (Suc i) (seen \<or> ?failure) es) = []"
    by (auto simp: Let_def split: prod.split)
  have run: "run (e # es) \<longleftrightarrow> (?failure \<and> es = []) \<or> (field ''state'' e \<in> J_Str ` set RELEASE_STATES \<and> run es)" (is "?l \<longleftrightarrow> ?r")
  proof
    assume ?l
    then obtain names failed where n: "set names \<subseteq> set RELEASE_STATES" "state_names (e # es) names failed"
      by (auto simp: run_def)
    show ?r
    proof (cases names)
      case Nil
      with n(2) show ?thesis by (auto simp: state_names_def split: if_splits)
    next
      case (Cons a names')
      with n have "field ''state'' e = J_Str a" "a \<in> set RELEASE_STATES" "set names' \<subseteq> set RELEASE_STATES" "state_names es names' failed"
        by (auto simp: state_names_def)
      then show ?thesis unfolding run_def by blast
    qed
  next
    assume ?r
    then show ?l
    proof (elim disjE conjE)
      assume "?failure" "es = []"
      then show ?thesis unfolding run_def by (intro exI [of _ "[]"] exI [of _ True]) (simp add: state_names_def)
    next
      assume "field ''state'' e \<in> J_Str ` set RELEASE_STATES" "run es"
      then obtain a names failed where "field ''state'' e = J_Str a" "a \<in> set RELEASE_STATES"
        "set names \<subseteq> set RELEASE_STATES" "state_names es names failed" by (auto simp: run_def)
      then show ?thesis unfolding run_def by (intro exI [of _ "a # names"] exI [of _ failed]) (simp add: state_names_def)
    qed
  qed
  have other: "?failure \<Longrightarrow> field ''state'' e \<notin> J_Str ` set RELEASE_STATES" using failure_no_state by auto
  have none: "run []" unfolding run_def by (intro exI [of _ "[]"] exI [of _ False]) (simp add: state_names_def)
  note ih = Cons.IH [of "Suc i" "seen \<or> ?failure", folded run_def]
  show ?case unfolding run_def [symmetric] step ih run using other none by (cases "es = []") auto
qed

text \<open>
  A receipt passes exactly when it is a run of the release state machine: the first one to six states in order,
  possibly ended by the terminal failure, each for the one well-formed commit of the receipt.
\<close>

definition release_run :: "json \<Rightarrow> bool" where
  "release_run v \<longleftrightarrow> valid_release_sha (field ''release_sha'' v) \<and>
     (\<exists>es n failed. field ''events'' v = J_List es \<and> 1 \<le> n \<and> n \<le> 6 \<and>
        list_all (\<lambda>e. is_object e \<and> field ''release_sha'' e = field ''release_sha'' v) es \<and>
        state_names es (take n RELEASE_STATES) failed)"

lemma release_length: "length RELEASE_STATES = 6"
  by (simp add: RELEASE_STATES_def)

lemma non_failure_states:
  "set names \<subseteq> set RELEASE_STATES \<Longrightarrow> state_names es names failed \<Longrightarrow>
    filter (\<lambda>s. s \<noteq> J_Str TERMINAL_FAILURE_STATE) (map (field ''state'') es) = map J_Str names"
  using failure_no_state by (auto simp: state_names_def filter_id_conv)

lemma release_check_exact:
  assumes "check_release_state v = Inr c"
  shows "rc_passed c \<longleftrightarrow> release_run v"
proof -
  let ?sha = "field ''release_sha'' v" and ?es = "case field ''events'' v of J_List es \<Rightarrow> es | _ \<Rightarrow> []"
  obtain errs states t where e: "check_events ?sha 0 False ?es = (errs, states, t)" using prod_cases3 by blast
  let ?names = "filter (\<lambda>s. s \<noteq> J_Str TERMINAL_FAILURE_STATE) states"
  from assms e have pass: "rc_passed c \<longleftrightarrow> valid_release_sha ?sha \<and> ?es \<noteq> [] \<and> errs = [] \<and>
      (states \<noteq> [] \<longrightarrow> hd states = J_Str (RELEASE_STATES ! 0) \<and> ?names = map J_Str (take (length ?names) RELEASE_STATES))"
    by (auto simp: check_release_state_def Let_def split: if_splits)
  from check_events_ok [of ?sha 0 False ?es] e have errs:
    "errs = [] \<longleftrightarrow> list_all (\<lambda>e. is_object e \<and> field ''release_sha'' e = ?sha) ?es \<and>
      (\<exists>names failed. set names \<subseteq> set RELEASE_STATES \<and> state_names ?es names failed)" by simp
  have st: "states = map (field ''state'') ?es" if "errs = []" using check_events_states e that by simp
  show ?thesis
  proof
    assume "rc_passed c"
    with pass have q: "valid_release_sha ?sha" "?es \<noteq> []" "errs = []" by blast+
    with st have "states \<noteq> []" by (simp only: map_is_Nil_conv not_False_eq_True)
    with pass \<open>rc_passed c\<close> q have p: "valid_release_sha ?sha" "?es \<noteq> []" "errs = []" "states \<noteq> []"
      "hd states = J_Str (RELEASE_STATES ! 0)" "?names = map J_Str (take (length ?names) RELEASE_STATES)" by blast+
    from p(3) errs obtain names failed where n: "set names \<subseteq> set RELEASE_STATES" "state_names ?es names failed"
      "list_all (\<lambda>e. is_object e \<and> field ''release_sha'' e = ?sha) ?es" by blast
    have eq: "?names = map J_Str names" unfolding st [OF p(3)] by (rule non_failure_states [OF n(1,2)])
    have "inj J_Str" by (simp add: inj_def)
    with p(6) [unfolded eq length_map] have take: "names = take (length names) RELEASE_STATES" by (simp only: inj_map_eq_map)
    have "names \<noteq> []"
    proof
      assume "names = []"
      with n(2) p(2) st [OF p(3)] have "hd states = J_Str TERMINAL_FAILURE_STATE" by (auto simp: state_names_def split: if_splits)
      with p(5) show False by (simp add: RELEASE_STATES_def TERMINAL_FAILURE_STATE_def lit_inject)
    qed
    then have "1 \<le> length names" by (cases names) auto
    moreover from take have "length names \<le> 6" using release_length by (metis length_take min.cobounded1)
    moreover have "field ''events'' v = J_List ?es" using p(2) by (auto split: json.splits)
    moreover note subst [where P = "\<lambda>x. state_names ?es x failed", OF take n(2)]
    ultimately show "release_run v" unfolding release_run_def using p(1) n(3) by blast
  next
    assume "release_run v"
    then obtain es n failed where r: "valid_release_sha ?sha" "field ''events'' v = J_List es" "1 \<le> n" "n \<le> 6"
      "list_all (\<lambda>e. is_object e \<and> field ''release_sha'' e = ?sha) es" "state_names es (take n RELEASE_STATES) failed"
      by (auto simp: release_run_def)
    have sub: "set (take n RELEASE_STATES) \<subseteq> set RELEASE_STATES" by (rule set_take_subset)
    with r errs have ok: "errs = []" by auto
    from r(6) r(3) have ne: "es \<noteq> []" by (auto simp: state_names_def RELEASE_STATES_def take_Cons')
    from st [OF ok] r(2) have states: "states = map (field ''state'') es" by simp
    from non_failure_states [OF sub r(6)] have names: "?names = map J_Str (take n RELEASE_STATES)" by (simp add: states)
    from r(6) r(3) have "hd states = J_Str (RELEASE_STATES ! 0)"
      by (auto simp: states state_names_def RELEASE_STATES_def take_Cons')
    moreover have "length (take n RELEASE_STATES) = n" using r(4) by (simp add: release_length)
    ultimately show "rc_passed c" using pass r(1,2) ne ok names by simp
  qed
qed

text \<open>
  The verdict is PASS exactly when every check that was asked for ran to its end and passed.
\<close>

theorem gate_fails_closed:
  "gate_passes template github receipt \<longleftrightarrow> template = Inr True \<and> github = Inr True \<and>
     (receipt = None \<or> (\<exists>v. receipt = Some (Inr v) \<and> is_object v \<and> release_run v))"
proof -
  have check: "check_release_state v = Inr c \<Longrightarrow> rc_passed c = release_run v \<and> is_object v" for v c
    using release_check_exact by (auto simp: check_release_state_def split: if_splits)
  moreover have "check_release_state v = Inl e \<Longrightarrow> \<not> is_object v" for v e
    by (auto simp: check_release_state_def Let_def split: if_splits prod.splits)
  ultimately show ?thesis
    by (auto simp: gate_passes_def gate_components_def Let_def split: sum.splits option.splits)
qed

end
