(* ===== verification/Probes.thy ===== *)
theory Probes imports Py_Text Prelude begin

text \<open>
  The orchestration probes (\<open>config/health.py\<close>). What \<open>getent\<close> prints, \<open>str(ip_address(.))\<close>, whether the answer
  came within the time limit and what a connection to an address gives are parameters.
\<close>

text \<open>\<open>line.split()[0]\<close>, of a line that has a word.\<close>

definition first_word :: "pystr \<Rightarrow> pystr" where
  "first_word line = takeWhile (\<lambda>c. \<not> py_isspace c) (dropWhile py_isspace line)"

fun parse_addresses :: "(pystr \<Rightarrow> pystr option) \<Rightarrow> pystr list \<Rightarrow> pystr list result" where
  "parse_addresses ip [] = Inr []"
| "parse_addresses ip (w # ws) =
     (case ip w of None \<Rightarrow> Inl ValueError | Some a \<Rightarrow>
     (case parse_addresses ip ws of Inl e \<Rightarrow> Inl e | Inr as \<Rightarrow> Inr (a # removeAll a as)))"

definition database_addresses ::
    "(pystr \<Rightarrow> pystr option) \<Rightarrow> (pystr \<Rightarrow> pystr list result) \<Rightarrow> pystr \<Rightarrow> pystr list result" where
  "database_addresses ip getent host =
     (case ip host of
        Some a \<Rightarrow> Inr [a]
      | None \<Rightarrow>
          (case getent host of Inl e \<Rightarrow> Inl e | Inr lines \<Rightarrow>
          (case parse_addresses ip (map first_word (filter (\<lambda>l. first_word l \<noteq> []) lines)) of
             Inl e \<Rightarrow> Inl e
           | Inr as \<Rightarrow> if as = [] then Inl ConnectionError else Inr as)))"

text \<open>\<open>connect a\<close> is \<open>None\<close> when anything raises, else whether the query gave \<open>(1,)\<close>.\<close>

fun any_address_ready :: "(pystr \<Rightarrow> bool option) \<Rightarrow> pystr list \<Rightarrow> bool" where
  "any_address_ready connect [] = False"
| "any_address_ready connect (a # as) = (if connect a = Some True then True else any_address_ready connect as)"

definition database_ready ::
    "(pystr \<Rightarrow> pystr option) \<Rightarrow> (pystr \<Rightarrow> pystr list result) \<Rightarrow> (pystr \<Rightarrow> bool option) \<Rightarrow> pystr \<Rightarrow> bool result" where
  "database_ready ip getent connect host =
     (case database_addresses ip getent host of Inl e \<Rightarrow> Inl e | Inr as \<Rightarrow> Inr (any_address_ready connect as))"

text \<open>\<open>require_safe\<close> lets GET and HEAD through; both probes forbid caching.\<close>

record probe_reply =
  probe_status :: nat
  probe_body :: "(string \<times> string) list"
  probe_no_store :: bool

definition method_not_allowed :: probe_reply where
  "method_not_allowed = \<lparr>probe_status = 405, probe_body = [], probe_no_store = False\<rparr>"

definition liveness :: "string \<Rightarrow> probe_reply" where
  "liveness meth =
     (if meth \<noteq> ''GET'' \<and> meth \<noteq> ''HEAD'' then method_not_allowed
      else \<lparr>probe_status = 200, probe_body = [(''status'', ''ok'')], probe_no_store = True\<rparr>)"

definition readiness ::
    "(pystr \<Rightarrow> pystr option) \<Rightarrow> (pystr \<Rightarrow> pystr list result) \<Rightarrow> (pystr \<Rightarrow> bool option) \<Rightarrow> bool \<Rightarrow> pystr \<Rightarrow> string \<Rightarrow>
     probe_reply" where
  "readiness ip getent connect in_time host meth =
     (if meth \<noteq> ''GET'' \<and> meth \<noteq> ''HEAD'' then method_not_allowed
      else if in_time \<and> database_ready ip getent connect host = Inr True
      then \<lparr>probe_status = 200, probe_body = [(''status'', ''ready''), (''database'', ''ok''), (''redis'', ''non-authoritative'')],
             probe_no_store = True\<rparr>
      else \<lparr>probe_status = 503, probe_body = [(''status'', ''unavailable''), (''database'', ''unavailable'')],
             probe_no_store = True\<rparr>)"

section \<open>What readiness means\<close>

lemma any_address_ready_iff: "any_address_ready connect as \<longleftrightarrow> (\<exists>a \<in> set as. connect a = Some True)"
  by (induction as) auto

lemma parse_addresses_ok:
  "parse_addresses ip ws = Inr as \<Longrightarrow> distinct as \<and> (\<forall>a. a \<in> set as \<longleftrightarrow> (\<exists>w \<in> set ws. ip w = Some a))"
  by (induction ws arbitrary: as) (auto simp: distinct_removeAll split: option.splits sum.splits)

text \<open>
  The instance is ready exactly when one of the addresses its database host stands for answers in time; it is
  never ready for a host that does not resolve.
\<close>

theorem readiness_exact:
  assumes "meth = ''GET'' \<or> meth = ''HEAD''"
  shows "probe_status (readiness ip getent connect in_time host meth) = 200 \<longleftrightarrow>
    in_time \<and> (\<exists>as. database_addresses ip getent host = Inr as \<and> (\<exists>a \<in> set as. connect a = Some True))"
  using assms
  by (auto simp: readiness_def database_ready_def any_address_ready_iff method_not_allowed_def split: sum.splits)

lemma addresses_exact:
  assumes "database_addresses ip getent host = Inr as" "ip host = None"
  shows "as \<noteq> [] \<and> distinct as \<and>
    (\<exists>lines. getent host = Inr lines \<and>
       (\<forall>a. a \<in> set as \<longleftrightarrow> (\<exists>l \<in> set lines. first_word l \<noteq> [] \<and> ip (first_word l) = Some a)))"
  using assms by (auto simp: database_addresses_def dest!: parse_addresses_ok split: sum.splits if_splits)

end
