(* ===== verification/Spec2Isabelle.thy ===== *)
theory Spec2Isabelle imports Bank Transfers_Http Ledger_Properties Ledger_History Trade_Lifecycle Gallery_Recovery Withdrawal_Properties Sanctions Report_Threshold Append_Only Chat_Properties Inbox_Properties Settings Cutover_Properties Profiles Demo_Properties Presence_Properties Release_Governance Probes begin

text \<open>
  A verification development for the second-hand marketplace under \<open>src/src\<close>: a Django project with the
  applications accounts, catalog, trades, transfers, notifications, moderation and chat. All of them share
  one PostgreSQL database; what they hold each other to is written in service functions that run in
  transactions, and in pages that call the services and turn their outcomes into replies.

  \<^bold>\<open>How the program is modelled.\<close>
  \<^item> The database is one record \<open>db\<close> (theory \<open>Schema\<close>), with a \<open>table\<close> per model of the \<open>models.py\<close> files: rows
    in the order of their keys and the next key. A check constraint is a predicate on a row; uniqueness and
    foreign keys are tested by the \<open>create_\<dots>\<close> functions, which answer \<open>IntegrityError\<close>.
  \<^item> An exception is a value of \<open>exn\<close>, with the class tree the except clauses look at (\<open>is_subclass\<close>). A
    transaction is a function from the database to an exception or a result with a new database; \<open>atomic\<close>
    rolls it back when it raises. What is not rolled back (several transactions in a row, a file written
    before a raise) is modelled as it happens, with the state kept beside the exception.
  \<^item> Python strings are lists of code points (\<open>Py_Text\<close>), Python integers \<open>int\<close> or \<open>nat\<close>, money an integer number
    of cents, instants an integer number of microseconds. Nothing in the program has machine integers that wrap.
  \<^item> What a call finds outside is an argument: the statement time and the clock, drawn identifiers, transient
    database errors (\<open>attempt\<close>), the Redis and channel layer outcomes of chat, the storage backend, Pillow's
    reading of an image, digests, NFC normalization and \<open>str.lower\<close>. Where a proof relies on one of them the
    law is a named hypothesis (\<open>storage_ok\<close>, \<open>exact_storage\<close>, \<open>files_ok\<close>, \<open>redis_ok\<close>, \<open>lower_law\<close>) that states documented behaviour,
    and the witnesses instantiate it with a concrete function.
  \<^item> Rows are locked with \<open>select_for_update\<close> and advisory locks, so a transaction is one step; interleaving is
    the order of such steps in a transition system, with a step for whatever the rest of the program does.
    Where the code does not lock, or has several transactions, the pieces are steps of their own.

  \<^bold>\<open>Theories and sources.\<close>
  \<^item> \<open>Prelude\<close>: exceptions, transactions, time, tables and their lemmas, and the interface locales (a keyed
    store, the invariant of a transition system, a replayable command). \<open>Py_Text\<close>: strings, decimal and JSON
    text, UUIDs. \<open>Schema\<close>: the models.
  \<^item> \<open>Identity\<close>, \<open>Sessions\<close>, \<open>Login\<close>, \<open>Login_Properties\<close>: \<open>accounts/validators.py\<close>, \<open>accounts/services.py\<close>,
    the account pages and \<open>config/middleware.py\<close>. \<open>Withdrawal\<close>, \<open>Withdrawal_Properties\<close>: \<open>accounts/withdrawal.py\<close>
    and its worker. \<open>Profiles\<close>: the pages that show users, and the review form.
  \<^item> \<open>Transfers\<close>, \<open>Transfers_Http\<close>, \<open>Reconcile\<close>: \<open>transfers/services.py\<close>, \<open>views.py\<close> and the operator command.
    \<open>Ledger\<close>, \<open>Ledger_Ops\<close>, \<open>Ledger_System\<close>, \<open>Ledger_Properties\<close>: invariant, operations, transition system and
    properties. \<open>Bank\<close>: the abstract bank the ledger refines. \<open>Ledger_History\<close>: the triggers and the first
    migration.
  \<^item> \<open>Trades\<close>, \<open>Trade_Lifecycle\<close>: \<open>trades/services.py\<close> and \<open>views.py\<close>. \<open>Catalog\<close>, \<open>Catalog_Properties\<close>:
    \<open>catalog/projectors.py\<close>, \<open>engagement.py\<close>, \<open>search.py\<close>. \<open>Gallery\<close>, \<open>Gallery_System\<close>, \<open>Gallery_Properties\<close>,
    \<open>Gallery_Recovery\<close>: the images of \<open>catalog/services.py\<close>. \<open>Listings\<close>: \<open>catalog/views.py\<close> and \<open>forms.py\<close>.
    \<open>Legacy_Cutover\<close>, \<open>Cutover_Properties\<close>: the data migrations. \<open>Demo_Catalog\<close>, \<open>Demo_Properties\<close>: the command
    \<open>bootstrap_demo_catalog\<close> with the calls of the operating system it makes.
  \<^item> \<open>Notifications\<close>, \<open>Inbox\<close>, \<open>Inbox_Properties\<close>: \<open>notifications/\<close> with the purge command and its scheduler.
  \<^item> \<open>Moderation_Policies\<close>, \<open>Moderation_Services\<close>, \<open>Report_Pages\<close>, \<open>Report_Threshold\<close>: reports and the automatic
    sanction. \<open>Management\<close>, \<open>Management_Views\<close>, \<open>Management_Properties\<close>, \<open>Sanctions\<close>: \<open>moderation/management.py\<close>
    and its pages. \<open>Append_Only\<close>: the triggers on the histories of moderation and trades.
  \<^item> \<open>Chat\<close>, \<open>Chat_Socket\<close>, \<open>Chat_System\<close>, \<open>Chat_Properties\<close>: \<open>chat/policies.py\<close>, \<open>services.py\<close>, \<open>consumers.py\<close>,
    \<open>views.py\<close>. \<open>Presence\<close>, \<open>Presence_Properties\<close>: \<open>presence.py\<close> down to the pipelines it sends to Redis.
  \<^item> \<open>Settings\<close>: \<open>config/settings.py\<close> as a function of the environment. \<open>Probes\<close>: \<open>config/health.py\<close>.
    \<open>Release_Governance\<close>: \<open>scripts/verify_pr_title.py\<close> and the release checks of \<open>scripts/verify_g1.py\<close>.

  \<^bold>\<open>What is shown.\<close>
  \<^item> Ledger: every reachable state reconciles, conserves money, keeps every balance within its bounds and is
    append-only; a transfer moves exactly its amount, at most once per key, and is refused without effect; the
    whole service refines a bank with three moves. A room transfer notifies both parties in the same
    transaction. The migration opens one seeded account for each user.
  \<^item> Trades: one open trade per product, the history of each the exact chain of its transitions, final states
    final, repeated commands without effect.
  \<^item> Catalog: searches and profiles show public products only and page through them completely; metrics are a
    function of the rows; the bytes of every stored image stay in the storage whatever call fails, and the repair
    command finishes what a failure left. The legacy shop passes the checks of the cutover.
    The demo catalogue is installed exactly or not at all, and never over a file that is there.
  \<^item> Accounts: guessing is bounded, a login needs an active account, a password change and a withdrawal end
    the other sessions, and a withdrawn account is shut out and shown as a tombstone only.
  \<^item> Moderation: the threshold, exactly; no management effect without authority or audit row; at most one
    sanction in force per target.
  \<^item> Chat: at most once acceptance, rate limits, consistent rooms, complete history, delivery to authorised
    members only; a peer is shown online exactly while a connection of his has reported itself.
  \<^item> Notifications and settings: exact inbox, exact purge, and fail-closed production settings. Probes and releases: an
    instance is ready exactly when its database answers in time (\<open>readiness_exact\<close>), a title is accepted exactly when it is
    a printed form (\<open>title_accepted\<close>), and a release gate passes exactly for a run of the release states
    (\<open>gate_fails_closed\<close>).
  Findings of the modelling (places where the code does not do what it means to) are lemmas beside the component:
  \<open>reconcile_block_is_rolled_back\<close>, \<open>legacy_trade_crashes\<close>, \<open>stale_profile_save_undoes_withdrawal\<close>,
  \<open>late_worker_reopens_task\<close>, \<open>released_product_stays_unlisted\<close>, \<open>multiline_reason_refused\<close>,
  \<open>stale_image_survives\<close> and others.

  \<^bold>\<open>Loops and bounds.\<close> The retry loops (four attempts in transfers, as in the code) are structural on the list of
  attempts; the purge loop ends because each batch deletes a row, and \<open>purge_exact\<close> shows what it returns;
  \<open>history_complete\<close> shows that a client that follows the cursor ends. All other loops are over lists.

  \<^bold>\<open>Not modelled.\<close>
  \<^item> Templates, static files and JavaScript: a page is modelled up to the reply and the values it puts into
    its template.
  \<^item> Columns nobody reads in modelled code: \<open>LedgerJournal.original_journal\<close>, \<open>Product.sale_state\<close> after the cutover,
    \<open>updated_at\<close>, \<open>User.first_name\<close>, the creation times of rooms and conversations, the label and order of
    categories and regions.
  \<^item> The parts of the migrations that only create, alter or drop schema objects; of the trigger SQL, what the
    triggers let through is modelled, their installation is not.
  \<^item> The reseeding of test categories in \<open>catalog/apps.py\<close>: a test helper.
  \<^item> \<open>check_template\<close> and \<open>check_github\<close> of \<open>scripts/verify_g1.py\<close>, which compare what GitHub answers; the other
    \<open>scripts/\<close>, \<open>report/\<close>, \<open>.github/\<close> and \<open>.gjc/\<close>: checks of the repository, of its report and of documents, which the
    program does not run; URL tables, ASGI and WSGI glue, tests.
\<close>

end
